(* ===== verification/Prelude.thy ===== *)
theory Prelude
  imports
    Main
    "HOL-Library.Word"
    "HOL-Library.Char_ord"
    "HOL-Library.List_Lexorder"
    "HOL-Library.Product_Lexorder"
    "HOL-Library.Option_ord"
    "HOL-Library.Stream"
begin

text \<open>
  Shared vocabulary of the development.

  \<^item> \<open>rbind\<close>, \<open>reject_if\<close>, \<open>ok_or\<close>, \<open>rforeach\<close>, \<open>rmapM\<close>, \<open>rfold\<close>: Rust's \<open>Result\<close> with the
    question-mark operator, early returns, \<open>try_for_each\<close>, \<open>collect\<close> into a \<open>Result\<close>, and a
    \<open>for\<close> loop with an accumulator. \<open>Inl\<close> is \<open>Err\<close>, \<open>Inr\<close> is \<open>Ok\<close>.
  \<^item> \<open>sbind\<close>, \<open>slift\<close>, \<open>sgets\<close>, \<open>smodify\<close>, \<open>sforeach\<close>, \<open>sfold\<close>: the same over an explicitly
    threaded state, for handlers that take \<open>&mut self\<close>. An error drops the state.
  \<^item> \<open>bt_\<dots>\<close>: \<open>std::collections::BTreeMap\<close> as an association list that is kept sorted and free of
    duplicate keys, so that iteration order is the key order; \<open>bs_\<dots>\<close>: \<open>BTreeSet\<close> likewise.

  The collection \<open>res_inv\<close> holds the inversion lemmas ("this computation returned \<open>Ok\<close>, so each
  of its steps did"); proofs about handlers are \<open>auto simp: res_inv\<close>.
\<close>

named_theorems res_inv "inversion of successful computations"

section \<open>Results\<close>

definition rbind :: "'e + 'a \<Rightarrow> ('a \<Rightarrow> 'e + 'b) \<Rightarrow> 'e + 'b" where
  "rbind m f = (case m of Inl e \<Rightarrow> Inl e | Inr x \<Rightarrow> f x)"

definition reject_if :: "bool \<Rightarrow> 'e \<Rightarrow> 'e + unit" where
  "reject_if c e = (if c then Inl e else Inr ())"

definition ok_or :: "'e \<Rightarrow> 'a option \<Rightarrow> 'e + 'a" where
  "ok_or e x = (case x of None \<Rightarrow> Inl e | Some y \<Rightarrow> Inr y)"

definition map_err :: "('e \<Rightarrow> 'f) \<Rightarrow> 'e + 'a \<Rightarrow> 'f + 'a" where
  "map_err g m = (case m of Inl e \<Rightarrow> Inl (g e) | Inr x \<Rightarrow> Inr x)"

fun rforeach :: "('a \<Rightarrow> 'e + unit) \<Rightarrow> 'a list \<Rightarrow> 'e + unit" where
  "rforeach f [] = Inr ()"
| "rforeach f (x # xs) = rbind (f x) (\<lambda>_. rforeach f xs)"

fun rmapM :: "('a \<Rightarrow> 'e + 'b) \<Rightarrow> 'a list \<Rightarrow> 'e + 'b list" where
  "rmapM f [] = Inr []"
| "rmapM f (x # xs) = rbind (f x) (\<lambda>y. rbind (rmapM f xs) (\<lambda>ys. Inr (y # ys)))"

fun rfold :: "('s \<Rightarrow> 'a \<Rightarrow> 'e + 's) \<Rightarrow> 's \<Rightarrow> 'a list \<Rightarrow> 'e + 's" where
  "rfold f s [] = Inr s"
| "rfold f s (x # xs) = rbind (f s x) (\<lambda>s'. rfold f s' xs)"

definition is_ok :: "'e + 'a \<Rightarrow> bool" where
  "is_ok m = (case m of Inl _ \<Rightarrow> False | Inr _ \<Rightarrow> True)"

definition ok :: "'e + 'a \<Rightarrow> 'a option" where
  "ok m = (case m of Inl _ \<Rightarrow> None | Inr x \<Rightarrow> Some x)"

lemma rbind_simps [simp]:
  "rbind (Inl e) f = Inl e"
  "rbind (Inr x) f = f x"
  by (simp_all add: rbind_def)

text \<open>Congruence rules, so that recursion through \<open>rbind\<close>, \<open>rfold\<close> and \<open>rforeach\<close> can be shown to
  terminate.\<close>

lemma rbind_cong [fundef_cong]:
  "m = m' \<Longrightarrow> (\<And>x. m' = Inr x \<Longrightarrow> f x = f' x) \<Longrightarrow> rbind m f = rbind m' f'"
  by (cases m') simp_all

lemma rfold_cong [fundef_cong]:
  assumes "s = s'" and "xs = xs'" and "\<And>t x. x \<in> set xs' \<Longrightarrow> f t x = f' t x"
  shows "rfold f s xs = rfold f' s' xs'"
proof -
  have "rfold f s ys = rfold f' s ys" if "set ys \<subseteq> set xs'" for ys s
    using that
  proof (induction ys arbitrary: s)
    case (Cons y ys)
    then show ?case
      using assms(3) [of y s] by (cases "f' s y") simp_all
  qed simp
  with assms(1,2) show ?thesis by simp
qed

lemma reject_if_simps [simp]:
  "reject_if True e = Inl e"
  "reject_if False e = Inr ()"
  by (simp_all add: reject_if_def)

lemma ok_or_simps [simp]:
  "ok_or e None = Inl e"
  "ok_or e (Some x) = Inr x"
  by (simp_all add: ok_or_def)

lemma map_err_simps [simp]:
  "map_err g (Inl e) = Inl (g e)"
  "map_err g (Inr x) = Inr x"
  by (simp_all add: map_err_def)

lemma is_ok_simps [simp]:
  "is_ok (Inl e) = False"
  "is_ok (Inr x) = True"
  by (simp_all add: is_ok_def)

lemma ok_simps [simp]:
  "ok (Inl e) = None"
  "ok (Inr x) = Some x"
  by (simp_all add: ok_def)

lemma rbind_Inr_iff [res_inv]: "rbind m f = Inr y \<longleftrightarrow> (\<exists>x. m = Inr x \<and> f x = Inr y)"
  by (cases m) auto

lemma reject_if_Inr_iff [res_inv]: "reject_if c e = Inr u \<longleftrightarrow> \<not> c"
  by (simp add: reject_if_def)

lemma reject_if_Inl_iff: "reject_if c e = Inl e' \<longleftrightarrow> c \<and> e' = e"
  by (auto simp: reject_if_def)

lemma ok_or_Inr_iff [res_inv]: "ok_or e x = Inr y \<longleftrightarrow> x = Some y"
  by (cases x) auto

lemma map_err_Inr_iff [res_inv]: "map_err g m = Inr y \<longleftrightarrow> m = Inr y"
  by (cases m) auto

lemma ok_Some_iff: "ok m = Some y \<longleftrightarrow> m = Inr y"
  by (cases m) auto

lemma is_ok_iff: "is_ok m \<longleftrightarrow> (\<exists>y. m = Inr y)"
  by (cases m) auto

lemma rforeach_Inr_iff [res_inv]: "rforeach f xs = Inr u \<longleftrightarrow> (\<forall>x\<in>set xs. f x = Inr ())"
  by (induction xs) (auto simp: rbind_Inr_iff)

lemma rmapM_Inr_iff: "rmapM f xs = Inr ys \<longleftrightarrow> list_all2 (\<lambda>x y. f x = Inr y) xs ys"
proof (induction xs arbitrary: ys)
  case Nil
  then show ?case by auto
next
  case (Cons x xs)
  then show ?case by (cases ys) (auto simp: rbind_Inr_iff)
qed

lemma rmapM_length: "rmapM f xs = Inr ys \<Longrightarrow> length ys = length xs"
  by (auto simp: rmapM_Inr_iff dest: list_all2_lengthD)

lemma rfold_append: "rfold f s (xs @ ys) = rbind (rfold f s xs) (\<lambda>t. rfold f t ys)"
proof (induction xs arbitrary: s)
  case Nil
  then show ?case by simp
next
  case (Cons x xs)
  then show ?case by (cases "f s x") auto
qed

text \<open>The invariant rule of a fold: what every step keeps, a successful fold keeps.\<close>

lemma rfold_invariant:
  assumes "rfold f s xs = Inr t" and "P s"
    and "\<And>s x s'. P s \<Longrightarrow> x \<in> set xs \<Longrightarrow> f s x = Inr s' \<Longrightarrow> P s'"
  shows "P t"
proof -
  have "rfold f s ys = Inr t \<Longrightarrow> P s \<Longrightarrow> set ys \<subseteq> set xs \<Longrightarrow> P t" for ys s
  proof (induction ys arbitrary: s)
    case Nil
    then show ?case by simp
  next
    case (Cons y ys)
    from Cons.prems(1) obtain s' where s': "f s y = Inr s'" and t: "rfold f s' ys = Inr t"
      by (auto simp: rbind_Inr_iff)
    have "P s'"
      by (rule assms(3) [OF Cons.prems(2) _ s']) (use Cons.prems(3) in simp)
    with t Cons.prems(3) show ?case
      by (simp add: Cons.IH)
  qed
  then show ?thesis
    using assms(1,2) by blast
qed

text \<open>Each step of a successful fold succeeded.\<close>

lemma rfold_element:
  "rfold f s xs = Inr t \<Longrightarrow> x \<in> set xs \<Longrightarrow> \<exists>s1 s2. f s1 x = Inr s2"
  by (induction xs arbitrary: s) (auto simp: rbind_Inr_iff)

section \<open>Results over a threaded state\<close>

type_synonym ('s, 'e, 'a) sm = "'s \<Rightarrow> 'e + ('a \<times> 's)"

definition sreturn :: "'a \<Rightarrow> ('s, 'e, 'a) sm" where
  "sreturn x = (\<lambda>s. Inr (x, s))"

definition sbind :: "('s, 'e, 'a) sm \<Rightarrow> ('a \<Rightarrow> ('s, 'e, 'b) sm) \<Rightarrow> ('s, 'e, 'b) sm" where
  "sbind m f = (\<lambda>s. case m s of Inl e \<Rightarrow> Inl e | Inr (x, s') \<Rightarrow> f x s')"

definition sfail :: "'e \<Rightarrow> ('s, 'e, 'a) sm" where
  "sfail e = (\<lambda>s. Inl e)"

definition slift :: "'e + 'a \<Rightarrow> ('s, 'e, 'a) sm" where
  "slift r = (\<lambda>s. case r of Inl e \<Rightarrow> Inl e | Inr x \<Rightarrow> Inr (x, s))"

definition sgets :: "('s \<Rightarrow> 'a) \<Rightarrow> ('s, 'e, 'a) sm" where
  "sgets g = (\<lambda>s. Inr (g s, s))"

definition smodify :: "('s \<Rightarrow> 's) \<Rightarrow> ('s, 'e, unit) sm" where
  "smodify g = (\<lambda>s. Inr ((), g s))"

fun sforeach :: "('a \<Rightarrow> ('s, 'e, unit) sm) \<Rightarrow> 'a list \<Rightarrow> ('s, 'e, unit) sm" where
  "sforeach f [] = sreturn ()"
| "sforeach f (x # xs) = sbind (f x) (\<lambda>_. sforeach f xs)"

fun sfold :: "('b \<Rightarrow> 'a \<Rightarrow> ('s, 'e, 'b) sm) \<Rightarrow> 'b \<Rightarrow> 'a list \<Rightarrow> ('s, 'e, 'b) sm" where
  "sfold f b [] = sreturn b"
| "sfold f b (x # xs) = sbind (f b x) (\<lambda>b'. sfold f b' xs)"

fun smapM :: "('a \<Rightarrow> ('s, 'e, 'b) sm) \<Rightarrow> 'a list \<Rightarrow> ('s, 'e, 'b list) sm" where
  "smapM f [] = sreturn []"
| "smapM f (x # xs) = sbind (f x) (\<lambda>y. sbind (smapM f xs) (\<lambda>ys. sreturn (y # ys)))"

lemma sreturn_Inr_iff [res_inv]: "sreturn x s = Inr (y, s') \<longleftrightarrow> y = x \<and> s' = s"
  by (auto simp: sreturn_def)

lemma sbind_Inr_iff [res_inv]:
  "sbind m f s = Inr (y, s') \<longleftrightarrow> (\<exists>x t. m s = Inr (x, t) \<and> f x t = Inr (y, s'))"
  by (auto simp: sbind_def split: sum.splits)

lemma sfail_Inr_iff [res_inv]: "sfail e s = Inr z \<longleftrightarrow> False"
  by (simp add: sfail_def)

lemma slift_Inr_iff [res_inv]: "slift r s = Inr (y, s') \<longleftrightarrow> r = Inr y \<and> s' = s"
  by (auto simp: slift_def split: sum.splits)

lemma sgets_Inr_iff [res_inv]: "sgets g s = Inr (y, s') \<longleftrightarrow> y = g s \<and> s' = s"
  by (auto simp: sgets_def)

lemma smodify_Inr_iff [res_inv]: "smodify g s = Inr (y, s') \<longleftrightarrow> s' = g s"
  by (auto simp: smodify_def)

lemmas state_defs = sreturn_def sbind_def sfail_def slift_def sgets_def smodify_def

lemma sfold_invariant:
  assumes "sfold f b xs s = Inr (c, t)" and "P b s"
    and "\<And>b x s c t. P b s \<Longrightarrow> x \<in> set xs \<Longrightarrow> f b x s = Inr (c, t) \<Longrightarrow> P c t"
  shows "P c t"
proof -
  have "sfold f b ys s = Inr (c, t) \<Longrightarrow> P b s \<Longrightarrow> set ys \<subseteq> set xs \<Longrightarrow> P c t" for ys b s
  proof (induction ys arbitrary: b s)
    case Nil
    then show ?case by (simp add: sreturn_def)
  next
    case (Cons y ys)
    from Cons.prems(1) obtain b' s' where s': "f b y s = Inr (b', s')"
      and t: "sfold f b' ys s' = Inr (c, t)"
      by (auto simp: sbind_Inr_iff)
    have "P b' s'"
      by (rule assms(3) [OF Cons.prems(2) _ s']) (use Cons.prems(3) in simp)
    with t Cons.prems(3) show ?case
      by (simp add: Cons.IH)
  qed
  then show ?thesis
    using assms(1,2) by blast
qed

section \<open>Ordered maps and sets\<close>

type_synonym ('k, 'v) btree = "('k \<times> 'v) list"

definition bt_ok :: "('k::linorder, 'v) btree \<Rightarrow> bool" where
  "bt_ok m \<longleftrightarrow> sorted_wrt (<) (map fst m)"

definition bt_get :: "'k \<Rightarrow> ('k, 'v) btree \<Rightarrow> 'v option" where
  "bt_get k m = map_of m k"

definition bt_contains :: "'k \<Rightarrow> ('k, 'v) btree \<Rightarrow> bool" where
  "bt_contains k m \<longleftrightarrow> k \<in> set (map fst m)"

definition bt_keys :: "('k, 'v) btree \<Rightarrow> 'k list" where
  "bt_keys m = map fst m"

definition bt_values :: "('k, 'v) btree \<Rightarrow> 'v list" where
  "bt_values m = map snd m"

definition bt_remove :: "'k \<Rightarrow> ('k, 'v) btree \<Rightarrow> ('k, 'v) btree" where
  "bt_remove k m = filter (\<lambda>p. fst p \<noteq> k) m"

fun bt_insort :: "'k::linorder \<Rightarrow> 'v \<Rightarrow> ('k, 'v) btree \<Rightarrow> ('k, 'v) btree" where
  "bt_insort k v [] = [(k, v)]"
| "bt_insort k v (p # m) = (if k < fst p then (k, v) # p # m else p # bt_insort k v m)"

definition bt_insert :: "'k::linorder \<Rightarrow> 'v \<Rightarrow> ('k, 'v) btree \<Rightarrow> ('k, 'v) btree" where
  "bt_insert k v m = bt_insort k v (bt_remove k m)"

definition bt_of_list :: "('k::linorder \<times> 'v) list \<Rightarrow> ('k, 'v) btree" where
  "bt_of_list xs = fold (\<lambda>(k, v). bt_insert k v) xs []"

lemma bt_get_remove [simp]: "bt_get k (bt_remove j m) = (if k = j then None else bt_get k m)"
  by (induction m) (auto simp: bt_get_def bt_remove_def)

lemma bt_get_insort: "j \<notin> set (map fst m) \<Longrightarrow>
    bt_get k (bt_insort j v m) = (if k = j then Some v else bt_get k m)"
  by (induction m) (auto simp: bt_get_def)

lemma bt_remove_keys: "set (map fst (bt_remove k m)) = set (map fst m) - {k}"
  by (auto simp: bt_remove_def)

lemma bt_get_insert [simp]: "bt_get k (bt_insert j v m) = (if k = j then Some v else bt_get k m)"
  using bt_get_insort [of j "bt_remove j m" k v] bt_remove_keys [of j m]
  by (simp add: bt_insert_def)

lemma bt_contains_get: "bt_contains k m \<longleftrightarrow> bt_get k m \<noteq> None"
  by (auto simp: bt_contains_def bt_get_def map_of_eq_None_iff)

lemma bt_get_Nil [simp]: "bt_get k [] = None"
  by (simp add: bt_get_def)

lemma bt_get_in_set: "bt_get k m = Some v \<Longrightarrow> (k, v) \<in> set m"
  by (simp add: bt_get_def map_of_SomeD)

lemma bt_insort_set: "set (bt_insort k v m) = insert (k, v) (set m)"
  by (induction m) auto

lemma bt_insert_set: "set (bt_insert k v m) = insert (k, v) {p \<in> set m. fst p \<noteq> k}"
  by (auto simp: bt_insert_def bt_insort_set bt_remove_def)

lemma bt_ok_Nil [simp]: "bt_ok []"
  by (simp add: bt_ok_def)

lemma bt_ok_remove: "bt_ok m \<Longrightarrow> bt_ok (bt_remove k m)"
  by (induction m) (auto simp: bt_ok_def bt_remove_def)

lemma bt_ok_insort: "bt_ok m \<Longrightarrow> k \<notin> set (map fst m) \<Longrightarrow> bt_ok (bt_insort k v m)"
  by (induction m) (auto simp: bt_ok_def bt_insort_set)

lemma bt_ok_insert: "bt_ok m \<Longrightarrow> bt_ok (bt_insert k v m)"
  unfolding bt_insert_def by (rule bt_ok_insort) (simp_all add: bt_ok_remove bt_remove_keys del: set_map)

lemma bt_ok_of_list: "bt_ok (bt_of_list xs)"
proof -
  have "bt_ok m \<Longrightarrow> bt_ok (fold (\<lambda>(k, v). bt_insert k v) xs m)" for m :: "('a, 'b) btree"
    by (induction xs arbitrary: m) (auto simp: bt_ok_insert)
  then show ?thesis by (simp add: bt_of_list_def)
qed

lemma bt_ok_distinct: "bt_ok m \<Longrightarrow> distinct (map fst m)"
  by (auto simp: bt_ok_def strict_sorted_iff)

lemma bt_ok_get_iff: "bt_ok m \<Longrightarrow> bt_get k m = Some v \<longleftrightarrow> (k, v) \<in> set m"
  by (simp add: bt_get_def map_of_eq_Some_iff bt_ok_distinct)

text \<open>Two ordered maps with the same lookups are the same list: the representation is canonical.\<close>

lemma bt_ok_ext:
  assumes "bt_ok m" and "bt_ok n" and "\<And>k. bt_get k m = bt_get k n"
  shows "m = n"
proof -
  have "map_of m = map_of n"
    using assms(3) by (auto simp: bt_get_def fun_eq_iff)
  with assms(1,2) have s: "set m = set n"
    by (metis bt_ok_distinct map_of_inject_set)
  have d: "distinct (map fst m)" "distinct (map fst n)"
    using assms(1,2) by (auto simp: bt_ok_distinct)
  then have "inj_on fst (set m \<union> set n)"
    by (simp add: s distinct_map)
  moreover have "sorted (map fst m)" and "sorted (map fst n)"
    using assms(1,2) by (auto simp: bt_ok_def strict_sorted_iff)
  ultimately show ?thesis
    using d s by (intro map_sorted_distinct_set_unique [of fst])
qed

text \<open>\<open>BTreeSet\<close>: a strictly increasing list.\<close>

definition bs_ok :: "('a::linorder) list \<Rightarrow> bool" where
  "bs_ok xs \<longleftrightarrow> sorted_wrt (<) xs"

fun bs_insort :: "'a::linorder \<Rightarrow> 'a list \<Rightarrow> 'a list" where
  "bs_insort x [] = [x]"
| "bs_insort x (y # ys) =
     (if x < y then x # y # ys else if x = y then y # ys else y # bs_insort x ys)"

definition bs_contains :: "'a \<Rightarrow> 'a list \<Rightarrow> bool" where
  "bs_contains x xs \<longleftrightarrow> x \<in> set xs"

definition bs_of_list :: "('a::linorder) list \<Rightarrow> 'a list" where
  "bs_of_list xs = fold bs_insort xs []"

lemma bs_insort_set [simp]: "set (bs_insort x xs) = insert x (set xs)"
  by (induction xs) auto

lemma bs_ok_insort: "bs_ok xs \<Longrightarrow> bs_ok (bs_insort x xs)"
  by (induction xs) (auto simp: bs_ok_def)

lemma bs_of_list_set [simp]: "set (bs_of_list xs) = set xs"
proof -
  have "set (fold bs_insort xs ys) = set xs \<union> set ys" for ys :: "'a list"
    by (induction xs arbitrary: ys) auto
  then show ?thesis by (simp add: bs_of_list_def)
qed

lemma bs_ok_of_list: "bs_ok (bs_of_list xs)"
proof -
  have "bs_ok ys \<Longrightarrow> bs_ok (fold bs_insort xs ys)" for ys :: "'a list"
    by (induction xs arbitrary: ys) (auto simp: bs_ok_insort)
  then show ?thesis by (simp add: bs_of_list_def bs_ok_def)
qed

lemma bs_ok_length: "bs_ok xs \<Longrightarrow> length xs = card (set xs)"
  by (simp add: bs_ok_def strict_sorted_iff distinct_card)

text \<open>A loop that inserts each element into a fresh set and stops when one is already there
  succeeds exactly on lists without duplicates.\<close>

fun all_distinct_insert :: "'a list \<Rightarrow> 'a list \<Rightarrow> bool" where
  "all_distinct_insert seen [] = True"
| "all_distinct_insert seen (x # xs) =
     (x \<notin> set seen \<and> all_distinct_insert (x # seen) xs)"

lemma all_distinct_insert_iff:
  "all_distinct_insert seen xs \<longleftrightarrow> distinct xs \<and> set xs \<inter> set seen = {}"
  by (induction xs arbitrary: seen) auto

section \<open>Stable sorting by a key\<close>

text \<open>\<open>slice::sort_by\<close> and \<open>sort_by_key\<close> are stable; \<open>sort_key\<close> is the library's stable sort.\<close>

lemma sort_key_set [simp]: "set (sort_key f xs) = set xs"
  by simp

end
