(* ===== verification/Numeric.thy ===== *)
theory Numeric
  imports Prelude "HOL-Library.Signed_Division"
begin

text \<open>
  The machine arithmetic of \<open>loreloom-core\<close> (\<open>numeric.rs\<close>, \<open>revision.rs\<close>).

  \<open>i64\<close>, \<open>u64\<close> and \<open>u32\<close> are words; a \<open>checked_\<close> operation returns \<open>None\<close> where the mathematical
  result leaves the type. \<open>i128\<close> intermediates are integers, with the range check written where the
  source has a checked operation; the products the source forms without a check are shown to fit.
  \<open>Fixed\<close> (millionths in an \<open>i64\<close>), \<open>WorldTime\<close> and \<open>Revision\<close> (both \<open>u64\<close>) are newtypes with the
  order of their integer.
\<close>

type_synonym u8 = "8 word"
type_synonym u32 = "32 word"
type_synonym u64 = "64 word"
type_synonym i64 = "64 word"
type_synonym i32 = "32 word"

section \<open>Checked integer operations\<close>

definition in_i64 :: "int \<Rightarrow> bool" where
  "in_i64 x \<longleftrightarrow> - (2 ^ 63) \<le> x \<and> x < 2 ^ 63"

definition in_i128 :: "int \<Rightarrow> bool" where
  "in_i128 x \<longleftrightarrow> - (2 ^ 127) \<le> x \<and> x < 2 ^ 127"

definition i64_try_from :: "int \<Rightarrow> i64 option" where
  "i64_try_from x = (if in_i64 x then Some (word_of_int x) else None)"

definition i64_checked_add :: "i64 \<Rightarrow> i64 \<Rightarrow> i64 option" where
  "i64_checked_add a b = i64_try_from (sint a + sint b)"

definition i64_checked_sub :: "i64 \<Rightarrow> i64 \<Rightarrow> i64 option" where
  "i64_checked_sub a b = i64_try_from (sint a - sint b)"

definition i64_checked_mul :: "i64 \<Rightarrow> i64 \<Rightarrow> i64 option" where
  "i64_checked_mul a b = i64_try_from (sint a * sint b)"

definition checked_add :: "('n::len) word \<Rightarrow> 'n word \<Rightarrow> 'n word option" where
  "checked_add a b = (if unat a + unat b < 2 ^ LENGTH('n) then Some (a + b) else None)"

definition saturating_add :: "('n::len) word \<Rightarrow> 'n word \<Rightarrow> 'n word" where
  "saturating_add a b = (if unat a + unat b < 2 ^ LENGTH('n) then a + b else - 1)"

lemma sint_of_int_in_i64: "in_i64 x \<Longrightarrow> sint (word_of_int x :: i64) = x"
  by (simp add: in_i64_def sint_sbintrunc' signed_take_bit_int_eq_self)

lemma in_i64_sint [simp]: "in_i64 (sint (w :: i64))"
  using sint_greater_eq [of w] sint_less [of w] by (simp add: in_i64_def)

lemma i64_try_from_Some_iff: "i64_try_from x = Some w \<longleftrightarrow> in_i64 x \<and> sint w = x"
proof -
  have "word_of_int (sint w) = w"
    by simp
  then show ?thesis
    by (auto simp: i64_try_from_def sint_of_int_in_i64)
qed

lemma i64_try_from_None_iff: "i64_try_from x = None \<longleftrightarrow> \<not> in_i64 x"
  by (simp add: i64_try_from_def)

lemma checked_add_Some_iff:
  "checked_add a b = Some (c :: 'n::len word) \<longleftrightarrow> unat c = unat a + unat b"
proof
  assume "checked_add a b = Some c"
  then show "unat c = unat a + unat b"
    by (auto simp: checked_add_def unat_word_ariths split: if_splits)
next
  assume c: "unat c = unat a + unat b"
  then have "unat a + unat b < 2 ^ LENGTH('n)"
    by (metis unsigned_less)
  moreover from this have "c = a + b"
    by (simp add: c word_unat_eq_iff unat_word_ariths)
  ultimately show "checked_add a b = Some c"
    by (simp add: checked_add_def)
qed

lemma unat_saturating_add:
  "unat (saturating_add a b :: 'n::len word) = min (unat a + unat b) (2 ^ LENGTH('n) - 1)"
  by (auto simp: saturating_add_def unat_word_ariths unsigned_minus_1_eq_mask mask_eq_exp_minus_1)

section \<open>Rounding division\<close>

datatype fixed_error = Overflow | DivisionByZero | WorldTimeOverflow

definition round_ratio :: "int \<Rightarrow> int \<Rightarrow> fixed_error + int" where
  "round_ratio numerator denominator =
     (if denominator = 0 then Inl DivisionByZero
      else
        let quotient = numerator sdiv denominator;
            remainder = numerator smod denominator
        in if \<not> in_i128 (\<bar>remainder\<bar> * 2) then Inl Overflow
        else
          let twice_remainder = \<bar>remainder\<bar> * 2;
              denominator_abs = \<bar>denominator\<bar>;
              round_away = (twice_remainder > denominator_abs
                \<or> (twice_remainder = denominator_abs \<and> quotient smod 2 \<noteq> 0))
          in if \<not> round_away then Inr quotient
          else
            let adjustment = (if sgn numerator = sgn denominator then 1 else - 1)
            in if in_i128 (quotient + adjustment) then Inr (quotient + adjustment)
               else Inl Overflow)"

text \<open>The contract: \<open>q\<close> is an integer nearest to \<open>n / d\<close>, and the even one of two equally near.\<close>

definition half_even :: "int \<Rightarrow> int \<Rightarrow> int \<Rightarrow> bool" where
  "half_even n d q \<longleftrightarrow>
     2 * \<bar>n - q * d\<bar> \<le> \<bar>d\<bar> \<and> (2 * \<bar>n - q * d\<bar> = \<bar>d\<bar> \<longrightarrow> even q)"

lemma half_even_unique:
  assumes "d \<noteq> 0" and "half_even n d p" and "half_even n d q"
  shows "p = q"
proof (rule ccontr)
  assume "p \<noteq> q"
  have sum: "\<bar>(n - p * d) - (n - q * d)\<bar> = \<bar>q - p\<bar> * \<bar>d\<bar>"
    by (simp add: abs_mult [symmetric] algebra_simps)
  have "\<bar>q - p\<bar> * \<bar>d\<bar> \<le> \<bar>n - p * d\<bar> + \<bar>n - q * d\<bar>"
    using abs_triangle_ineq4 [of "n - p * d" "n - q * d"] sum by simp
  moreover have "2 * \<bar>n - p * d\<bar> \<le> \<bar>d\<bar>" and "2 * \<bar>n - q * d\<bar> \<le> \<bar>d\<bar>"
    using assms(2,3) by (auto simp: half_even_def)
  ultimately have le: "\<bar>q - p\<bar> * \<bar>d\<bar> \<le> \<bar>d\<bar>"
    by linarith
  have one: "\<bar>q - p\<bar> = 1"
  proof -
    have "\<bar>q - p\<bar> \<le> 1"
    proof (rule ccontr)
      assume "\<not> \<bar>q - p\<bar> \<le> 1"
      then have "2 * \<bar>d\<bar> \<le> \<bar>q - p\<bar> * \<bar>d\<bar>"
        by (intro mult_right_mono) auto
      with le assms(1) show False by simp
    qed
    with \<open>p \<noteq> q\<close> show ?thesis by linarith
  qed
  then have "\<bar>d\<bar> \<le> \<bar>n - p * d\<bar> + \<bar>n - q * d\<bar>"
    using \<open>\<bar>q - p\<bar> * \<bar>d\<bar> \<le> \<bar>n - p * d\<bar> + \<bar>n - q * d\<bar>\<close> by simp
  with assms(2,3) have "even p" and "even q"
    by (auto simp: half_even_def)
  with one show False by presburger
qed

lemma smod_bounds:
  assumes "(d :: int) \<noteq> 0"
  shows "\<bar>n smod d\<bar> < \<bar>d\<bar>" and "n smod d = sgn n * \<bar>n smod d\<bar>"
proof -
  have eq: "n smod d = sgn n * (\<bar>n\<bar> mod \<bar>d\<bar>)"
    by (simp add: signed_modulo_int_def)
  have m: "0 \<le> \<bar>n\<bar> mod \<bar>d\<bar>" "\<bar>n\<bar> mod \<bar>d\<bar> < \<bar>d\<bar>"
    using assms by auto
  show "\<bar>n smod d\<bar> < \<bar>d\<bar>"
    using m assms by (simp add: eq abs_mult sgn_if)
  show "n smod d = sgn n * \<bar>n smod d\<bar>"
    using m(1) by (auto simp: eq abs_mult abs_sgn_eq)
qed

lemma smod_two_nonzero: "(q :: int) smod 2 \<noteq> 0 \<longleftrightarrow> odd q"
proof -
  have "q sdiv 2 * 2 + q smod 2 = q"
    by (rule sdiv_mult_smod_eq)
  moreover have "\<bar>q smod 2\<bar> < 2"
    using smod_bounds(1) [of 2 q] by simp
  ultimately show ?thesis
    by presburger
qed

lemma half_even_truncated:
  fixes n d :: int
  defines "q \<equiv> n sdiv d" and "r \<equiv> n smod d"
  assumes "d \<noteq> 0" and "\<not> (\<bar>d\<bar> < \<bar>r\<bar> * 2 \<or> (\<bar>r\<bar> * 2 = \<bar>d\<bar> \<and> q smod 2 \<noteq> 0))"
  shows "half_even n d q"
proof -
  have "n - q * d = r"
    unfolding q_def r_def by (rule minus_sdiv_mult_eq_smod)
  with assms(4) show ?thesis
    by (auto simp: half_even_def smod_two_nonzero)
qed

lemma half_even_adjusted:
  fixes n d :: int
  defines "q \<equiv> n sdiv d" and "r \<equiv> n smod d"
  assumes "d \<noteq> 0" and away: "\<bar>d\<bar> < \<bar>r\<bar> * 2 \<or> (\<bar>r\<bar> * 2 = \<bar>d\<bar> \<and> q smod 2 \<noteq> 0)"
  shows "half_even n d (q + (if sgn n = sgn d then 1 else - 1))"
proof -
  let ?a = "if sgn n = sgn d then 1 else - 1 :: int"
  have r: "\<bar>r\<bar> < \<bar>d\<bar>" "r = sgn n * \<bar>r\<bar>"
    using smod_bounds [OF assms(3), of n] by (simp_all add: r_def)
  have "n \<noteq> 0"
    using away assms(3) by (auto simp: r_def signed_modulo_int_def)
  then have ad: "?a * d = sgn n * \<bar>d\<bar>"
    using assms(3) by (auto simp: sgn_if abs_if split: if_splits)
  have "n - (q + ?a) * d = r - ?a * d"
    using minus_sdiv_mult_eq_smod [of n d] unfolding q_def r_def by (simp only: algebra_simps)
  also have "\<dots> = sgn n * (\<bar>r\<bar> - \<bar>d\<bar>)"
    using r(2) ad by (simp add: algebra_simps)
  finally have "\<bar>n - (q + ?a) * d\<bar> = \<bar>d\<bar> - \<bar>r\<bar>"
    using \<open>n \<noteq> 0\<close> r(1) by (simp add: abs_mult)
  moreover have "even (q + ?a) \<longleftrightarrow> odd q"
    by simp
  ultimately show ?thesis
    using away by (auto simp: half_even_def smod_two_nonzero)
qed

lemma sdiv_abs_le: "\<bar>n sdiv d\<bar> \<le> \<bar>n :: int\<bar>"
proof -
  have "\<bar>n sdiv d\<bar> \<le> \<bar>n\<bar> div \<bar>d\<bar>"
    by (auto simp: signed_divide_int_def abs_mult sgn_if div_int_pos_iff)
  also have "\<dots> \<le> \<bar>n\<bar>"
    by (cases "d = 0") (auto intro: int_div_less_self [THEN less_imp_le] simp: pos_imp_zdiv_nonneg_iff zdiv_mono2 [of "\<bar>n\<bar>" 1 "\<bar>d\<bar>", simplified])
  finally show ?thesis .
qed

lemma round_ratio_half_even:
  assumes "d \<noteq> 0" and "\<bar>n\<bar> \<le> 2 ^ 126" and "\<bar>d\<bar> \<le> 2 ^ 64"
  shows "\<exists>q. round_ratio n d = Inr q \<and> half_even n d q"
proof -
  have "\<bar>n smod d\<bar> < 2 ^ 64"
    using smod_bounds(1) [OF assms(1), of n] assms(3) by linarith
  then have r: "in_i128 (\<bar>n smod d\<bar> * 2)"
    by (simp add: in_i128_def)
  have "\<bar>n sdiv d\<bar> \<le> 2 ^ 126"
    using sdiv_abs_le [of n d] assms(2) by linarith
  then have q: "in_i128 (n sdiv d + 1)" "in_i128 (n sdiv d - 1)"
    by (auto simp: in_i128_def)
  show ?thesis
    using assms(1) r q half_even_truncated [OF assms(1), of n] half_even_adjusted [OF assms(1), of n]
    by (auto simp: round_ratio_def Let_def)
qed

section \<open>Fixed-point values\<close>

datatype fixed = Fixed (fixed_bits: i64)

definition micros :: "fixed \<Rightarrow> int" where
  "micros f = sint (fixed_bits f)"

definition SCALE :: int where
  "SCALE = 1000000"

definition fixed_zero :: fixed where
  "fixed_zero = Fixed 0"

definition fixed_one :: fixed where
  "fixed_one = Fixed (word_of_int SCALE)"

definition from_integer :: "i64 \<Rightarrow> fixed_error + fixed" where
  "from_integer value = ok_or Overflow (map_option Fixed (i64_checked_mul value (word_of_int SCALE)))"

definition fixed_add :: "fixed \<Rightarrow> fixed \<Rightarrow> fixed_error + fixed" where
  "fixed_add a b =
     ok_or Overflow (map_option Fixed (i64_checked_add (fixed_bits a) (fixed_bits b)))"

definition fixed_sub :: "fixed \<Rightarrow> fixed \<Rightarrow> fixed_error + fixed" where
  "fixed_sub a b =
     ok_or Overflow (map_option Fixed (i64_checked_sub (fixed_bits a) (fixed_bits b)))"

definition i64_from_i128 :: "int \<Rightarrow> fixed_error + i64" where
  "i64_from_i128 value = ok_or Overflow (i64_try_from value)"

definition fixed_mul :: "fixed \<Rightarrow> fixed \<Rightarrow> fixed_error + fixed" where
  "fixed_mul a b =
     rbind (rbind (round_ratio (micros a * micros b) SCALE) i64_from_i128) (\<lambda>w. Inr (Fixed w))"

definition fixed_div :: "fixed \<Rightarrow> fixed \<Rightarrow> fixed_error + fixed" where
  "fixed_div a b =
     (if fixed_bits b = 0 then Inl DivisionByZero
      else rbind (rbind (round_ratio (micros a * SCALE) (micros b)) i64_from_i128)
             (\<lambda>w. Inr (Fixed w)))"

lemma micros_inject: "micros a = micros b \<longleftrightarrow> a = b"
proof
  assume "micros a = micros b"
  then have "(word_of_int (micros a) :: i64) = word_of_int (micros b)"
    by (rule arg_cong)
  then show "a = b"
    by (simp add: micros_def fixed.expand)
qed simp

instantiation fixed :: linorder
begin

definition less_eq_fixed :: "fixed \<Rightarrow> fixed \<Rightarrow> bool" where
  "a \<le> b \<longleftrightarrow> micros a \<le> micros b"

definition less_fixed :: "fixed \<Rightarrow> fixed \<Rightarrow> bool" where
  "a < b \<longleftrightarrow> micros a < micros b"

instance
  by standard (auto simp: less_eq_fixed_def less_fixed_def micros_inject)

end

definition fixed_clamp :: "fixed \<Rightarrow> fixed \<Rightarrow> fixed \<Rightarrow> fixed" where
  "fixed_clamp self minimum maximum = max minimum (min self maximum)"

lemma micros_in_i64: "in_i64 (micros a)"
  by (simp add: micros_def)

lemma i64_try_from_micros: "i64_try_from x = Some (fixed_bits c) \<longleftrightarrow> micros c = x"
proof
  assume "micros c = x"
  then have "x = sint (fixed_bits c)"
    by (simp add: micros_def)
  then show "i64_try_from x = Some (fixed_bits c)"
    by (simp add: i64_try_from_Some_iff)
qed (simp add: i64_try_from_Some_iff micros_def)

lemma fixed_bits_zero_iff: "fixed_bits b = 0 \<longleftrightarrow> micros b = 0"
  using micros_inject [of b fixed_zero] by (cases b) (simp add: micros_def fixed_zero_def)

lemma micros_zero [simp]: "micros fixed_zero = 0"
  by (simp add: micros_def fixed_zero_def)

lemma micros_one [simp]: "micros fixed_one = SCALE"
  by (simp add: micros_def fixed_one_def SCALE_def)

lemma fixed_add_Inr_iff [res_inv]: "fixed_add a b = Inr c \<longleftrightarrow> micros c = micros a + micros b"
proof -
  have "fixed_add a b = Inr c \<longleftrightarrow> i64_try_from (micros a + micros b) = Some (fixed_bits c)"
    by (cases c) (auto simp: fixed_add_def i64_checked_add_def micros_def ok_or_Inr_iff)
  then show ?thesis
    by (simp add: i64_try_from_micros)
qed

lemma fixed_sub_Inr_iff [res_inv]: "fixed_sub a b = Inr c \<longleftrightarrow> micros c = micros a - micros b"
proof -
  have "fixed_sub a b = Inr c \<longleftrightarrow> i64_try_from (micros a - micros b) = Some (fixed_bits c)"
    by (cases c) (auto simp: fixed_sub_def i64_checked_sub_def micros_def ok_or_Inr_iff)
  then show ?thesis
    by (simp add: i64_try_from_micros)
qed

lemma from_integer_Inr_iff [res_inv]: "from_integer v = Inr c \<longleftrightarrow> micros c = sint v * SCALE"
proof -
  have s: "sint (word_of_int SCALE :: i64) = SCALE"
    by (rule sint_of_int_in_i64) (simp add: in_i64_def SCALE_def)
  have "from_integer v = Inr c \<longleftrightarrow> i64_try_from (sint v * SCALE) = Some (fixed_bits c)"
    by (cases c) (auto simp: from_integer_def i64_checked_mul_def s ok_or_Inr_iff)
  then show ?thesis
    by (simp add: i64_try_from_micros)
qed

lemma micros_bound: "\<bar>micros a\<bar> \<le> 2 ^ 63"
  using micros_in_i64 [of a] by (auto simp: in_i64_def)

lemma half_even_result:
  assumes "d \<noteq> 0" and "\<bar>n\<bar> \<le> 2 ^ 126" and "\<bar>d\<bar> \<le> 2 ^ 64"
  shows "rbind (rbind (round_ratio n d) i64_from_i128) (\<lambda>w. Inr (Fixed w)) = Inr c
    \<longleftrightarrow> half_even n d (micros c)"
proof -
  obtain q where q: "round_ratio n d = Inr q" "half_even n d q"
    using round_ratio_half_even [OF assms] by blast
  have "i64_from_i128 q = Inr (fixed_bits c) \<longleftrightarrow> q = micros c"
    by (auto simp: i64_from_i128_def ok_or_Inr_iff i64_try_from_micros)
  moreover have "q = micros c \<longleftrightarrow> half_even n d (micros c)"
    using q(2) half_even_unique [OF assms(1)] by blast
  ultimately show ?thesis
    by (cases c) (auto simp: q(1) rbind_Inr_iff)
qed

lemma fixed_mul_Inr_iff:
  "fixed_mul a b = Inr c \<longleftrightarrow> half_even (micros a * micros b) SCALE (micros c)"
proof -
  have "\<bar>micros a\<bar> * \<bar>micros b\<bar> \<le> 2 ^ 63 * 2 ^ 63"
    by (intro mult_mono micros_bound) simp_all
  then show ?thesis
    unfolding fixed_mul_def by (intro half_even_result) (simp_all add: SCALE_def abs_mult)
qed

lemma fixed_div_Inr_iff:
  "fixed_div a b = Inr c \<longleftrightarrow> micros b \<noteq> 0 \<and> half_even (micros a * SCALE) (micros b) (micros c)"
proof (cases "micros b = 0")
  case True
  then show ?thesis
    by (simp add: fixed_div_def fixed_bits_zero_iff)
next
  case False
  then have "fixed_bits b \<noteq> 0"
    by (simp add: fixed_bits_zero_iff)
  moreover have "\<bar>micros a\<bar> * SCALE \<le> 2 ^ 63 * SCALE"
    by (intro mult_right_mono micros_bound) (simp add: SCALE_def)
  ultimately show ?thesis
    using False micros_bound [of b] unfolding fixed_div_def
    by (simp add: half_even_result SCALE_def abs_mult)
qed

section \<open>Decimal text\<close>

text \<open>Rust's \<open>Display\<close> for unsigned integers, and \<open>{:0w}\<close> padding.\<close>

definition digit_char :: "nat \<Rightarrow> char" where
  "digit_char d = char_of (48 + d)"

function nat_text :: "nat \<Rightarrow> string" where
  "nat_text n = (if n < 10 then [digit_char n] else nat_text (n div 10) @ [digit_char (n mod 10)])"
  by pat_completeness auto
termination
  by (relation "measure id") auto

declare nat_text.simps [simp del]

definition pad_zeros :: "nat \<Rightarrow> string \<Rightarrow> string" where
  "pad_zeros w s = replicate (w - length s) (CHR ''0'') @ s"

definition fixed_to_string :: "fixed \<Rightarrow> string" where
  "fixed_to_string f =
     (let negative = micros f < 0;
          absolute = \<bar>micros f\<bar>;
          whole = absolute div SCALE;
          fraction = absolute mod SCALE
      in (if negative then ''-'' else []) @ nat_text (nat whole) @ ''.''
         @ pad_zeros 6 (nat_text (nat fraction)))"

section \<open>World time\<close>

datatype world_time = WorldTime (ticks: u64)

definition world_time_zero :: world_time where
  "world_time_zero = WorldTime 0"

definition world_time_add :: "world_time \<Rightarrow> u64 \<Rightarrow> fixed_error + world_time" where
  "world_time_add t n = ok_or WorldTimeOverflow (map_option WorldTime (checked_add (ticks t) n))"

instantiation world_time :: linorder
begin

definition less_eq_world_time :: "world_time \<Rightarrow> world_time \<Rightarrow> bool" where
  "a \<le> b \<longleftrightarrow> ticks a \<le> ticks b"

definition less_world_time :: "world_time \<Rightarrow> world_time \<Rightarrow> bool" where
  "a < b \<longleftrightarrow> ticks a < ticks b"

instance
  by standard (auto simp: less_eq_world_time_def less_world_time_def intro: world_time.expand)

end

lemma world_time_add_Inr_iff [res_inv]:
  "world_time_add t n = Inr t' \<longleftrightarrow> unat (ticks t') = unat (ticks t) + unat n"
  by (cases t') (auto simp: world_time_add_def ok_or_Inr_iff checked_add_Some_iff)

lemma world_time_less_nat: "a < b \<longleftrightarrow> unat (ticks a) < unat (ticks b)"
  by (simp add: less_world_time_def word_less_nat_alt)

lemma world_time_le_nat: "a \<le> b \<longleftrightarrow> unat (ticks a) \<le> unat (ticks b)"
  by (simp add: less_eq_world_time_def word_le_nat_alt)

section \<open>Revisions\<close>

datatype revision = Revision (revision_get: u64)

datatype revision_error = RevisionOverflow | RevisionConflict revision revision

definition revision_zero :: revision where
  "revision_zero = Revision 0"

definition revision_next :: "revision \<Rightarrow> revision_error + revision" where
  "revision_next r = ok_or RevisionOverflow (map_option Revision (checked_add (revision_get r) 1))"

definition revision_ensure :: "revision \<Rightarrow> revision \<Rightarrow> revision_error + unit" where
  "revision_ensure expected observed =
     (if expected = observed then Inr () else Inl (RevisionConflict expected observed))"

instantiation revision :: linorder
begin

definition less_eq_revision :: "revision \<Rightarrow> revision \<Rightarrow> bool" where
  "a \<le> b \<longleftrightarrow> revision_get a \<le> revision_get b"

definition less_revision :: "revision \<Rightarrow> revision \<Rightarrow> bool" where
  "a < b \<longleftrightarrow> revision_get a < revision_get b"

instance
  by standard (auto simp: less_eq_revision_def less_revision_def intro: revision.expand)

end

lemma revision_next_Inr_iff [res_inv]:
  "revision_next r = Inr r' \<longleftrightarrow> unat (revision_get r') = Suc (unat (revision_get r))"
  by (cases r') (auto simp: revision_next_def ok_or_Inr_iff checked_add_Some_iff)

lemma revision_next_less: "revision_next r = Inr r' \<Longrightarrow> r < r'"
  by (simp add: revision_next_Inr_iff less_revision_def word_less_nat_alt)

lemma revision_next_unique: "revision_next r = Inr a \<Longrightarrow> revision_next r = Inr b \<Longrightarrow> a = b"
  by simp

end
