(* ===== verification/Identity.thy ===== *)
theory Identity
  imports Numeric "HOL-Library.Numeral_Type"
begin

text \<open>
  Bounded text and identifiers (\<open>text.rs\<close>, \<open>identity.rs\<close>, and \<open>ContentHash\<close> of \<open>domain.rs\<close>).

  A Rust \<open>String\<close> is its UTF-8 bytes, one \<open>char\<close> per byte, so \<open>length\<close> is \<open>str::len\<close>. The const
  generic \<open>BoundedText<MAX>\<close> is a type indexed by a numeral type, \<open>MAX\<close> being its cardinality. The
  \<open>runtime_id!\<close> macro is one type with a phantom tag per identifier.

  The \<open>uuid\<close> crate is a parameter: a record of the four operations the code calls. The laws the
  round trip needs are collected in \<open>uuid_lib_ok\<close>.
\<close>

section \<open>Bounded text\<close>

datatype text_error = TooLong nat | Empty

datatype 'm bounded_text = BoundedText (as_str: string)

type_synonym display_name = "256 bounded_text"
type_synonym short_text = "4096 bounded_text"
type_synonym long_text = "65536 bounded_text"

definition bounded_text_new :: "string \<Rightarrow> text_error + ('m::finite) bounded_text" where
  "bounded_text_new value =
     (if length value > CARD('m) then Inl (TooLong CARD('m)) else Inr (BoundedText value))"

definition bounded_text_non_empty :: "string \<Rightarrow> text_error + ('m::finite) bounded_text" where
  "bounded_text_non_empty value =
     rbind (bounded_text_new value) (\<lambda>t. if as_str t = [] then Inl Empty else Inr t)"

instantiation bounded_text :: (type) linorder
begin

definition less_eq_bounded_text :: "'a bounded_text \<Rightarrow> 'a bounded_text \<Rightarrow> bool" where
  "a \<le> b \<longleftrightarrow> as_str a \<le> as_str b"

definition less_bounded_text :: "'a bounded_text \<Rightarrow> 'a bounded_text \<Rightarrow> bool" where
  "a < b \<longleftrightarrow> as_str a < as_str b"

instance
  by standard (auto simp: less_eq_bounded_text_def less_bounded_text_def intro: bounded_text.expand)

end

lemma bounded_text_new_Inr_iff [res_inv]:
  "bounded_text_new s = Inr (t :: 'm::finite bounded_text)
    \<longleftrightarrow> t = BoundedText s \<and> length s \<le> CARD('m)"
  by (auto simp: bounded_text_new_def)

section \<open>Byte classes and splitting\<close>

definition byte :: "char \<Rightarrow> nat" where
  "byte c = of_char c"

definition is_ascii :: "string \<Rightarrow> bool" where
  "is_ascii s \<longleftrightarrow> list_all (\<lambda>c. byte c < 128) s"

definition is_ascii_lowercase :: "char \<Rightarrow> bool" where
  "is_ascii_lowercase c \<longleftrightarrow> 97 \<le> byte c \<and> byte c \<le> 122"

definition is_ascii_uppercase :: "char \<Rightarrow> bool" where
  "is_ascii_uppercase c \<longleftrightarrow> 65 \<le> byte c \<and> byte c \<le> 90"

definition is_ascii_digit :: "char \<Rightarrow> bool" where
  "is_ascii_digit c \<longleftrightarrow> 48 \<le> byte c \<and> byte c \<le> 57"

definition is_ascii_alphanumeric :: "char \<Rightarrow> bool" where
  "is_ascii_alphanumeric c \<longleftrightarrow>
     is_ascii_lowercase c \<or> is_ascii_uppercase c \<or> is_ascii_digit c"

text \<open>\<open>str::split\<close> on a byte (always at least one segment) and \<open>str::split_once\<close>.\<close>

fun split_on :: "char \<Rightarrow> string \<Rightarrow> string list" where
  "split_on c [] = [[]]"
| "split_on c (x # xs) =
     (if x = c then [] # split_on c xs
      else (case split_on c xs of [] \<Rightarrow> [[x]] | seg # segs \<Rightarrow> (x # seg) # segs))"

fun split_once :: "char \<Rightarrow> string \<Rightarrow> (string \<times> string) option" where
  "split_once c [] = None"
| "split_once c (x # xs) =
     (if x = c then Some ([], xs)
      else map_option (\<lambda>(a, b). (x # a, b)) (split_once c xs))"

lemma split_on_nonempty [simp]: "split_on c s \<noteq> []"
  by (induction s) (auto split: list.splits)

lemma split_once_Some_iff:
  "split_once c s = Some (a, b) \<longleftrightarrow> s = a @ c # b \<and> c \<notin> set a"
proof (induction s arbitrary: a)
  case Nil
  then show ?case by simp
next
  case (Cons x xs)
  show ?case
  proof (cases a)
    case Nil
    then show ?thesis by auto
  next
    case (Cons y ys)
    then show ?thesis using Cons.IH [of ys] by auto
  qed
qed

lemma split_once_append: "c \<notin> set a \<Longrightarrow> split_once c (a @ c # b) = Some (a, b)"
  by (simp add: split_once_Some_iff)

lemma split_on_set: "x \<in> set s \<Longrightarrow> x = c \<or> (\<exists>seg\<in>set (split_on c s). x \<in> set seg)"
  by (induction s) (auto split: list.splits)

section \<open>Identifiers\<close>

type_synonym uuid = "128 word"

record uuid_lib =
  get_variant_is_rfc4122 :: "uuid \<Rightarrow> bool"
  get_version_num :: "uuid \<Rightarrow> nat"
  hyphenated :: "uuid \<Rightarrow> string"
  parse_str :: "string \<Rightarrow> uuid option"

datatype identity_error =
    InvalidRuntimeId string
  | InvalidGeneratedUuid
  | InvalidModId
  | InvalidContentDefinitionId

definition UUID_TEXT_LEN :: nat where
  "UUID_TEXT_LEN = 36"

definition PREFIXED_ID_LEN :: nat where
  "PREFIXED_ID_LEN = 40"

definition is_uuid_v7 :: "uuid_lib \<Rightarrow> uuid \<Rightarrow> bool" where
  "is_uuid_v7 L u \<longleftrightarrow> get_variant_is_rfc4122 L u \<and> get_version_num L u = 7"

definition validate_uuid_v7 :: "uuid_lib \<Rightarrow> uuid \<Rightarrow> identity_error + uuid" where
  "validate_uuid_v7 L u = (if is_uuid_v7 L u then Inr u else Inl InvalidGeneratedUuid)"

definition parse_prefixed :: "uuid_lib \<Rightarrow> string \<Rightarrow> string \<Rightarrow> identity_error + uuid" where
  "parse_prefixed L value prefix =
     (let error = InvalidRuntimeId prefix
      in if length value \<noteq> PREFIXED_ID_LEN \<or> take (length prefix) value \<noteq> prefix
            \<or> value ! 3 \<noteq> CHR ''_'' then Inl error
      else
        let uuid_text = drop 4 value
        in if length uuid_text \<noteq> UUID_TEXT_LEN \<or> list_ex is_ascii_uppercase uuid_text then Inl error
        else
          rbind (ok_or error (parse_str L uuid_text)) (\<lambda>uuid.
            if hyphenated L uuid \<noteq> uuid_text \<or> \<not> get_variant_is_rfc4122 L uuid
               \<or> get_version_num L uuid \<noteq> 7 then Inl error
            else Inr uuid))"

datatype 'k runtime_id = RuntimeId (as_uuid: uuid)

datatype world_tag = WorldTag
datatype object_tag = ObjectTag
datatype action_tag = ActionTag
datatype event_tag = EventTag
datatype session_tag = SessionTag
datatype save_tag = SaveTag
datatype generation_tag = GenerationTag
datatype transcript_item_tag = TranscriptItemTag

type_synonym world_id = "world_tag runtime_id"
type_synonym object_id = "object_tag runtime_id"
type_synonym action_id = "action_tag runtime_id"
type_synonym event_id = "event_tag runtime_id"
type_synonym session_id = "session_tag runtime_id"
type_synonym save_id = "save_tag runtime_id"
type_synonym generation_id = "generation_tag runtime_id"
type_synonym transcript_item_id = "transcript_item_tag runtime_id"

definition WLD :: string where "WLD = ''wld''"
definition OBJ :: string where "OBJ = ''obj''"
definition ACT :: string where "ACT = ''act''"
definition TRN :: string where "TRN = ''trn''"

definition runtime_id_from_uuid :: "uuid_lib \<Rightarrow> uuid \<Rightarrow> identity_error + 'k runtime_id" where
  "runtime_id_from_uuid L u = rbind (validate_uuid_v7 L u) (\<lambda>v. Inr (RuntimeId v))"

definition runtime_id_from_str :: "uuid_lib \<Rightarrow> string \<Rightarrow> string \<Rightarrow> identity_error + 'k runtime_id" where
  "runtime_id_from_str L prefix value = rbind (parse_prefixed L value prefix) (\<lambda>v. Inr (RuntimeId v))"

definition runtime_id_to_string :: "uuid_lib \<Rightarrow> string \<Rightarrow> 'k runtime_id \<Rightarrow> string" where
  "runtime_id_to_string L prefix i = prefix @ ''_'' @ hyphenated L (as_uuid i)"

instantiation runtime_id :: (type) linorder
begin

definition less_eq_runtime_id :: "'a runtime_id \<Rightarrow> 'a runtime_id \<Rightarrow> bool" where
  "a \<le> b \<longleftrightarrow> as_uuid a \<le> as_uuid b"

definition less_runtime_id :: "'a runtime_id \<Rightarrow> 'a runtime_id \<Rightarrow> bool" where
  "a < b \<longleftrightarrow> as_uuid a < as_uuid b"

instance
  by standard (auto simp: less_eq_runtime_id_def less_runtime_id_def intro: runtime_id.expand)

end

text \<open>What the round trip needs of the \<open>uuid\<close> crate: the hyphenated text of a UUID has 36 bytes,
  no upper-case letter, and parses back to it.\<close>

definition uuid_lib_ok :: "uuid_lib \<Rightarrow> bool" where
  "uuid_lib_ok L \<longleftrightarrow>
     (\<forall>u. parse_str L (hyphenated L u) = Some u \<and> length (hyphenated L u) = 36
        \<and> \<not> list_ex is_ascii_uppercase (hyphenated L u))"

datatype actor_id = ActorId (object_id_of: object_id)

section \<open>Generated identifiers\<close>

text \<open>An \<open>impl IdGenerator\<close> is the sequence of UUIDs it yields.\<close>

type_synonym id_generator = "uuid stream"

definition next_uuid_v7 :: "id_generator \<Rightarrow> uuid \<times> id_generator" where
  "next_uuid_v7 ids = (shd ids, stl ids)"

definition generate_with :: "uuid_lib \<Rightarrow> (id_generator, identity_error, 'k runtime_id) sm" where
  "generate_with L ids =
     (let (u, ids') = next_uuid_v7 ids
      in rbind (validate_uuid_v7 L u) (\<lambda>v. Inr (RuntimeId v, ids')))"

lemma generate_with_Inr_iff [res_inv]:
  "generate_with L ids = Inr (i, ids')
    \<longleftrightarrow> is_uuid_v7 L (shd ids) \<and> i = RuntimeId (shd ids) \<and> ids' = stl ids"
  by (auto simp: generate_with_def next_uuid_v7_def validate_uuid_v7_def)

section \<open>Mod identifiers\<close>

datatype mod_id = ModId (mod_id_str: string)

definition mod_segment_ok :: "string \<Rightarrow> bool" where
  "mod_segment_ok segment \<longleftrightarrow>
     segment \<noteq> [] \<and> length segment \<le> 63
     \<and> is_ascii_alphanumeric (hd segment) \<and> is_ascii_alphanumeric (last segment)
     \<and> list_all (\<lambda>b. is_ascii_lowercase b \<or> is_ascii_digit b \<or> b = CHR ''-'') segment"

definition mod_id_parse :: "string \<Rightarrow> identity_error + mod_id" where
  "mod_id_parse value =
     (let segments = split_on (CHR ''.'') value;
          valid = (3 \<le> length value \<and> length value \<le> 127 \<and> is_ascii value
                   \<and> 2 \<le> length segments \<and> list_all mod_segment_ok segments)
      in if \<not> valid then Inl InvalidModId else Inr (ModId value))"

instantiation mod_id :: linorder
begin

definition less_eq_mod_id :: "mod_id \<Rightarrow> mod_id \<Rightarrow> bool" where
  "a \<le> b \<longleftrightarrow> mod_id_str a \<le> mod_id_str b"

definition less_mod_id :: "mod_id \<Rightarrow> mod_id \<Rightarrow> bool" where
  "a < b \<longleftrightarrow> mod_id_str a < mod_id_str b"

instance
  by standard (auto simp: less_eq_mod_id_def less_mod_id_def intro: mod_id.expand)

end

section \<open>Content definition identifiers\<close>

datatype content_definition_id = ContentDefinitionId (content_id_str: string)

definition content_kind_ok :: "string \<Rightarrow> bool" where
  "content_kind_ok kind \<longleftrightarrow> kind \<noteq> [] \<and> length kind \<le> 32
     \<and> list_all (\<lambda>b. is_ascii_lowercase b \<or> is_ascii_digit b \<or> b = CHR ''_'') kind"

definition content_key_segment_ok :: "string \<Rightarrow> bool" where
  "content_key_segment_ok segment \<longleftrightarrow>
     segment \<noteq> [] \<and> segment \<noteq> ''.'' \<and> segment \<noteq> ''..'' \<and> length segment \<le> 64
     \<and> list_all (\<lambda>b. is_ascii_lowercase b \<or> is_ascii_digit b \<or> b = CHR ''-'' \<or> b = CHR ''_'')
         segment"

definition content_key_ok :: "string \<Rightarrow> bool" where
  "content_key_ok local_key \<longleftrightarrow> local_key \<noteq> [] \<and> length local_key \<le> 128
     \<and> list_all content_key_segment_ok (split_on (CHR ''/'') local_key)"

definition content_id_parse :: "string \<Rightarrow> identity_error + content_definition_id" where
  "content_id_parse value =
     (case split_once (CHR '':'') value of
        None \<Rightarrow> Inl InvalidContentDefinitionId
      | Some (mod_text, rest) \<Rightarrow>
        (case split_once (CHR ''/'') rest of
           None \<Rightarrow> Inl InvalidContentDefinitionId
         | Some (kind, local_key) \<Rightarrow>
           if length value > 255 \<or> \<not> is_ascii value \<or> \<not> is_ok (mod_id_parse mod_text)
              \<or> \<not> content_kind_ok kind \<or> \<not> content_key_ok local_key
           then Inl InvalidContentDefinitionId
           else Inr (ContentDefinitionId value)))"

definition content_id_new :: "mod_id \<Rightarrow> string \<Rightarrow> string \<Rightarrow> identity_error + content_definition_id" where
  "content_id_new m kind local_key =
     content_id_parse (mod_id_str m @ '':'' @ kind @ ''/'' @ local_key)"

definition content_mod_id :: "content_definition_id \<Rightarrow> identity_error + mod_id" where
  "content_mod_id i =
     rbind (ok_or InvalidContentDefinitionId (split_once (CHR '':'') (content_id_str i)))
       (\<lambda>(m, _). mod_id_parse m)"

definition content_kind :: "content_definition_id \<Rightarrow> identity_error + string" where
  "content_kind i =
     rbind (ok_or InvalidContentDefinitionId (split_once (CHR '':'') (content_id_str i)))
       (\<lambda>(_, rest). rbind (ok_or InvalidContentDefinitionId (split_once (CHR ''/'') rest))
          (\<lambda>(kind, _). Inr kind))"

definition content_local_key :: "content_definition_id \<Rightarrow> identity_error + string" where
  "content_local_key i =
     rbind (ok_or InvalidContentDefinitionId (split_once (CHR '':'') (content_id_str i)))
       (\<lambda>(_, rest). rbind (ok_or InvalidContentDefinitionId (split_once (CHR ''/'') rest))
          (\<lambda>(_, local_key). Inr local_key))"

instantiation content_definition_id :: linorder
begin

definition less_eq_content_definition_id ::
    "content_definition_id \<Rightarrow> content_definition_id \<Rightarrow> bool" where
  "a \<le> b \<longleftrightarrow> content_id_str a \<le> content_id_str b"

definition less_content_definition_id ::
    "content_definition_id \<Rightarrow> content_definition_id \<Rightarrow> bool" where
  "a < b \<longleftrightarrow> content_id_str a < content_id_str b"

instance
  by standard
    (auto simp: less_eq_content_definition_id_def less_content_definition_id_def
      intro: content_definition_id.expand)

end

section \<open>Content hashes\<close>

datatype domain_value_error = InvalidContentHash

datatype content_hash = ContentHash (content_hash_str: string)

definition content_hash_parse :: "string \<Rightarrow> domain_value_error + content_hash" where
  "content_hash_parse value =
     (if length value \<noteq> 64
         \<or> \<not> list_all (\<lambda>b. is_ascii_digit b \<or> (97 \<le> byte b \<and> byte b \<le> 102)) value
      then Inl InvalidContentHash else Inr (ContentHash value))"

section \<open>Lemmas on identifiers\<close>

lemma mod_id_no_byte:
  assumes "is_ok (mod_id_parse s)" and "x \<in> set s"
  shows "is_ascii_lowercase x \<or> is_ascii_digit x \<or> x = CHR ''-'' \<or> x = CHR ''.''"
  using split_on_set [OF assms(2), of "CHR ''.''"] assms(1)
  by (fastforce simp: mod_id_parse_def Let_def mod_segment_ok_def list_all_iff split: if_splits)

lemma mod_id_no_colon: "is_ok (mod_id_parse s) \<Longrightarrow> CHR '':'' \<notin> set s"
  using mod_id_no_byte [of s "CHR '':''"]
  by (auto simp: is_ascii_lowercase_def is_ascii_digit_def byte_def)

lemma content_id_parse_Inr_iff:
  "content_id_parse s = Inr i \<longleftrightarrow>
     i = ContentDefinitionId s \<and> length s \<le> 255 \<and> is_ascii s \<and>
     (\<exists>m kind key. s = m @ CHR '':'' # kind @ CHR ''/'' # key \<and> is_ok (mod_id_parse m)
        \<and> content_kind_ok kind \<and> content_key_ok key)"
  (is "?l \<longleftrightarrow> ?r")
proof
  assume ?l
  then show ?r
    by (fastforce simp: content_id_parse_def split_once_Some_iff split: option.splits if_splits)
next
  assume ?r
  then obtain m kind key where s: "s = m @ CHR '':'' # kind @ CHR ''/'' # key"
    and ok: "is_ok (mod_id_parse m)" "content_kind_ok kind" "content_key_ok key"
    and rest: "i = ContentDefinitionId s" "length s \<le> 255" "is_ascii s"
    by blast
  have "CHR ''/'' \<notin> set kind"
    using ok(2) by (auto simp: content_kind_ok_def list_all_iff is_ascii_lowercase_def
        is_ascii_digit_def byte_def)
  then have "split_once (CHR ''/'') (kind @ CHR ''/'' # key) = Some (kind, key)"
    by (rule split_once_append)
  moreover have "split_once (CHR '':'') s = Some (m, kind @ CHR ''/'' # key)"
    unfolding s using mod_id_no_colon [OF ok(1)] by (rule split_once_append)
  ultimately show ?l
    using ok rest by (simp add: content_id_parse_def)
qed

end
