(* ===== verification/Domain.thy ===== *)
theory Domain
  imports Identity
begin

text \<open>
  The persistent data of a world (\<open>domain.rs\<close>): one \<open>record\<close> per struct and one \<open>datatype\<close> per
  enum, in the source's order. A field carries a prefix naming its struct, since Isabelle's
  selectors are global; a constructor carries one where two enums share it. \<open>NonZeroU32\<close> is the
  word it wraps.
\<close>

section \<open>Origins\<close>

record content_origin =
  co_mod_id :: mod_id
  co_mod_version :: short_text
  co_pack_id :: content_definition_id
  co_definition_id :: content_definition_id
  co_content_version :: u32
  co_content_hash :: content_hash

datatype generation_source =
    PlayerInput transcript_item_id
  | GeneratedByWorldEvent event_id

record generated_origin =
  go_generation_id :: generation_id
  go_generator_version :: short_text
  go_source :: generation_source

datatype entity_origin =
    ContentEntity content_origin
  | GeneratedEntity generated_origin
  | PlayerCreatedEntity content_origin
  | SystemEntity content_definition_id

fun entity_origin_content :: "entity_origin \<Rightarrow> content_origin option" where
  "entity_origin_content (ContentEntity origin) = Some origin"
| "entity_origin_content (PlayerCreatedEntity template) = Some template"
| "entity_origin_content (GeneratedEntity _) = None"
| "entity_origin_content (SystemEntity _) = None"

section \<open>Characters\<close>

datatype autonomy_mode = Directed | Reactive

record agent_binding =
  ab_profile_id :: content_definition_id
  ab_enabled :: bool
  ab_autonomy :: autonomy_mode

datatype character_controller = PlayerController | NarratorProxy | RulesController | AgentController

datatype character_lifetime = SceneLifetime object_id | Persistent

record character_profile =
  cp_summary :: short_text
  cp_values :: "short_text list"
  cp_speaking_style :: short_text
  cp_narrative_tags :: "content_definition_id list"

type_synonym base_attributes = "(content_definition_id, fixed) btree"

datatype attribute_operation = Flat | Multiply | Override | ClampMinimum | ClampMaximum

fun attribute_operation_rank :: "attribute_operation \<Rightarrow> nat" where
  "attribute_operation_rank Flat = 0"
| "attribute_operation_rank Multiply = 1"
| "attribute_operation_rank Override = 2"
| "attribute_operation_rank ClampMinimum = 3"
| "attribute_operation_rank ClampMaximum = 4"

record attribute_adjustment =
  aa_source_id :: object_id
  aa_attribute_id :: content_definition_id
  aa_operation :: attribute_operation
  aa_value :: fixed
  aa_priority :: i32

datatype life_state = Alive | Downed | Dead

datatype action_state = Idle | Acting action_id | Waiting

datatype posture = Standing | Sitting | Prone

record resource_pool =
  rp_resource_id :: content_definition_id
  rp_current :: fixed
  rp_base_maximum :: fixed

section \<open>World, scenes and places\<close>

record world_state_record =
  ws_id :: world_id
  ws_player_actor :: actor_id
  ws_active_scene :: object_id
  ws_clock :: world_time
  ws_rng_seed :: "u8 list"

record scene_record =
  scene_rec_id :: object_id
  scene_display_name :: display_name
  scene_framing :: short_text
  scene_entry_place :: object_id
  scene_active :: bool
  scene_origin :: entity_origin

record place_record =
  place_rec_id :: object_id
  place_scene_id :: object_id
  place_display_name :: display_name
  place_description :: short_text
  place_tags :: "content_definition_id list"
  place_edges :: "object_id list"
  place_origin :: entity_origin

datatype appearance_value =
    Color "u8 \<times> u8 \<times> u8"
  | Variant content_definition_id
  | AppearanceBoolean bool

record character_appearance =
  cap_model_id :: content_definition_id
  cap_parameters :: "(content_definition_id, appearance_value) btree"

record character_record =
  ch_id :: actor_id
  ch_display_name :: display_name
  ch_profile :: character_profile
  ch_appearance :: "character_appearance option"
  ch_controller :: character_controller
  ch_lifetime :: character_lifetime
  ch_location :: object_id
  ch_inventory_root :: object_id
  ch_agent_binding :: "agent_binding option"
  ch_base_attributes :: base_attributes
  ch_attribute_adjustments :: "attribute_adjustment list"
  ch_resources :: "(content_definition_id, resource_pool) btree"
  ch_life_state :: life_state
  ch_action_state :: action_state
  ch_posture :: posture
  ch_origin :: entity_origin

section \<open>Items\<close>

datatype stack_state = StackState (stack_count: u32)

record durability =
  dur_current :: fixed
  dur_maximum :: fixed

record container_state =
  cont_max_weight_grams :: fixed
  cont_max_children :: u32

record equipped_state =
  eq_wearer_id :: actor_id
  eq_slot_id :: content_definition_id

datatype parameter_value =
    PBool bool
  | PFixed fixed
  | PCounter i64
  | PEnum content_definition_id
  | PTagSet "content_definition_id list"
  | PObjectRef object_id

record item_record =
  it_id :: object_id
  it_definition_id :: content_definition_id
  it_stack :: stack_state
  it_durability :: "durability option"
  it_container :: "container_state option"
  it_contained_by :: "object_id option"
  it_owned_by :: "actor_id option"
  it_equipped :: "equipped_state option"
  it_located_at :: "object_id option"
  it_custom_name :: "display_name option"
  it_bound_actor :: "actor_id option"
  it_parameters :: "(content_definition_id, parameter_value) btree"
  it_instance_adjustments :: "attribute_adjustment list"
  it_origin :: entity_origin

section \<open>Conditions and skills\<close>

datatype condition_source =
    ConditionFromItem object_id
  | ConditionFromSkill object_id
  | ConditionFromEnvironment object_id
  | ConditionFromCharacter actor_id
  | ConditionFromSystem content_definition_id

datatype intensity_policy = KeepIntensity | ReplaceIntensity | MaximumIntensity

record condition_record =
  cond_id :: object_id
  cond_target_id :: actor_id
  cond_condition_id :: content_definition_id
  cond_source :: condition_source
  cond_stacks :: u32
  cond_intensity :: fixed
  cond_applied_at :: world_time
  cond_expires_at :: "world_time option"
  cond_next_periodic_at :: "world_time option"
  cond_origin :: entity_origin

datatype skill_source =
    SkillFromCharacterDefinition content_definition_id
  | SkillFromItem object_id
  | SkillFromCondition object_id
  | SkillFromRule content_definition_id

record skill_grant_record =
  sg_id :: object_id
  sg_owner_id :: actor_id
  sg_skill_id :: content_definition_id
  sg_rank :: u32
  sg_proficiency :: u32
  sg_source :: skill_source
  sg_enabled :: bool
  sg_ready_at :: "world_time option"
  sg_origin :: entity_origin

record relationship_record =
  rel_id :: object_id
  rel_source_id :: object_id
  rel_target_id :: object_id
  rel_kind_id :: content_definition_id
  rel_strength :: fixed
  rel_origin :: entity_origin

section \<open>Knowledge and goals\<close>

datatype fact_subject = WorldSubject | ObjectSubject object_id | SceneSubject object_id

datatype fact_value =
    FBool bool
  | FFixed fixed
  | FCounter i64
  | FBoundedText short_text
  | FObjectRef object_id
  | FTag content_definition_id

datatype knowledge_status = Believed | Confirmed | Disputed | Forgotten

datatype fact_source =
    DirectObservation event_id
  | FactFromActor actor_id
  | FactFromRule content_definition_id
  | FactFromContent content_definition_id

record known_fact_record =
  kf_id :: object_id
  kf_owner_id :: actor_id
  kf_subject :: fact_subject
  kf_predicate_id :: content_definition_id
  kf_value :: fact_value
  kf_status :: knowledge_status
  kf_confidence :: fixed
  kf_source :: fact_source
  kf_first_known_at :: world_time
  kf_last_confirmed_at :: world_time

datatype goal_status = ActiveGoal | Achieved | Abandoned | Blocked

datatype goal_source =
    GoalFromCharacterDefinition content_definition_id
  | GoalFromActor actor_id
  | GoalFromRule content_definition_id
  | GoalFromEvent event_id

record goal_record =
  goal_id :: object_id
  goal_owner_id :: actor_id
  goal_description :: short_text
  goal_priority :: i32
  goal_status_of :: goal_status
  goal_source_of :: goal_source
  goal_updated_at :: world_time

section \<open>Events, parameters and rules\<close>

datatype event_status = EventActive | EventCompleted | EventCancelled

record event_instance_record =
  ei_id :: object_id
  ei_definition_id :: content_definition_id
  ei_current_node :: content_definition_id
  ei_scene_id :: "object_id option"
  ei_started_at :: world_time
  ei_status :: event_status
  ei_committed_options :: "content_definition_id list"

record parameter_set_record =
  ps_id :: object_id
  ps_schema_id :: content_definition_id
  ps_values :: "(content_definition_id, parameter_value) btree"

record rule_state_record =
  rs_id :: object_id
  rs_definition_id :: content_definition_id
  rs_values :: "(content_definition_id, parameter_value) btree"
  rs_trigger_count :: u64
  rs_last_triggered_at :: "world_time option"

section \<open>Transcripts\<close>

datatype transcript_speaker =
    PlayerSpeaker actor_id display_name
  | NarratorSpeaker
  | ActorSpeaker "actor_id option" display_name
  | SystemSpeaker

datatype transcript_state = Committed | Interrupted

datatype transcript_audience = PlayerAudience | NpcAudience actor_id

record transcript_item_record =
  tr_audience :: transcript_audience
  tr_source_id :: "transcript_item_id option"
  tr_id :: transcript_item_id
  tr_session_id :: session_id
  tr_revision :: "revision option"
  tr_speaker :: transcript_speaker
  tr_text :: long_text
  tr_state :: transcript_state
  tr_supporting_events :: "event_id list"

section \<open>Spawn specifications\<close>

record placement_input =
  pl_scene_id :: object_id
  pl_place_id :: object_id

record condition_grant_input =
  cgi_condition_id :: content_definition_id
  cgi_source :: condition_source
  cgi_stacks :: u32
  cgi_intensity :: fixed

record item_grant_input =
  igi_local_key :: short_text
  igi_definition_id :: content_definition_id
  igi_quantity :: u32
  igi_parent_local_key :: "short_text option"

record skill_grant_input =
  sgi_skill_id :: content_definition_id
  sgi_rank :: u32
  sgi_proficiency :: u32
  sgi_enabled :: bool

record known_fact_input =
  kfi_subject :: fact_subject
  kfi_predicate_id :: content_definition_id
  kfi_value :: fact_value
  kfi_status :: knowledge_status
  kfi_confidence :: fixed
  kfi_source :: fact_source

record goal_input =
  gi_description :: short_text
  gi_priority :: i32
  gi_source :: goal_source

record spawn_constraints =
  sc_minimum_attributes :: "(content_definition_id, fixed) btree"
  sc_maximum_attributes :: "(content_definition_id, fixed) btree"
  sc_maximum_attribute_points :: fixed
  sc_maximum_items :: u32
  sc_maximum_skills :: u32
  sc_allowed_definitions :: "content_definition_id list"

record character_spawn_spec =
  sp_origin :: entity_origin
  sp_display_name :: display_name
  sp_profile :: character_profile
  sp_appearance :: "character_appearance option"
  sp_controller :: character_controller
  sp_lifetime :: character_lifetime
  sp_agent_binding :: "agent_binding option"
  sp_placement :: placement_input
  sp_attributes :: base_attributes
  sp_resources :: "(content_definition_id, resource_pool) btree"
  sp_conditions :: "condition_grant_input list"
  sp_inventory :: "item_grant_input list"
  sp_skills :: "skill_grant_input list"
  sp_knowledge :: "known_fact_input list"
  sp_goals :: "goal_input list"
  sp_trusted_constraints :: spawn_constraints

section \<open>Typed records\<close>

datatype domain_record =
    WorldStateRec world_state_record
  | SceneRec scene_record
  | PlaceRec place_record
  | CharacterRec character_record
  | ItemRec item_record
  | ConditionRec condition_record
  | SkillGrantRec skill_grant_record
  | RelationshipRec relationship_record
  | KnownFactRec known_fact_record
  | GoalRec goal_record
  | EventInstanceRec event_instance_record
  | ParameterSetRec parameter_set_record
  | RuleStateRec rule_state_record
  | TranscriptItemRec transcript_item_record

end
