(* ===== verification/Keyed_Store.thy ===== *)
theory Keyed_Store
  imports Prelude "HOL-Library.Multiset"
begin

text \<open>
  The interface of a store that is filled record by record and refuses a second record under the
  same key. The client sees a lookup; the laws say when an insertion succeeds, what it changes, and
  that a well-formed store is determined by its lookups. Proved once from the laws: when a whole
  list of records loads, what the loaded store holds, and that the order of the records does not
  matter.
\<close>

locale keyed_store =
  fixes lookup :: "'s \<Rightarrow> 'k \<Rightarrow> 'v option"
    and insert_new :: "'s \<Rightarrow> 'v \<Rightarrow> 'e + 's"
    and key_of :: "'v \<Rightarrow> 'k"
    and admissible :: "'v \<Rightarrow> bool"
    and store_ok :: "'s \<Rightarrow> bool"
  assumes insert_some: "store_ok s \<Longrightarrow> insert_new s v = Inr s' \<Longrightarrow>
      admissible v \<and> lookup s (key_of v) = None
      \<and> lookup s' = (lookup s)(key_of v \<mapsto> v) \<and> store_ok s'"
    and insert_ok: "store_ok s \<Longrightarrow> admissible v \<Longrightarrow> lookup s (key_of v) = None \<Longrightarrow>
      is_ok (insert_new s v)"
    and lookup_ext: "store_ok s \<Longrightarrow> store_ok t \<Longrightarrow> lookup s = lookup t \<Longrightarrow> s = t"
begin

lemma option_eqI: "(\<And>v. x = Some v \<longleftrightarrow> y = Some v) \<Longrightarrow> x = y"
  by (cases x; cases y) auto

text \<open>What loading adds: the last record of each key.\<close>

fun loaded :: "('k \<Rightarrow> 'v option) \<Rightarrow> 'v list \<Rightarrow> 'k \<Rightarrow> 'v option" where
  "loaded f [] = f"
| "loaded f (v # vs) = loaded (f(key_of v \<mapsto> v)) vs"

definition loadable :: "'s \<Rightarrow> 'v list \<Rightarrow> bool" where
  "loadable s vs \<longleftrightarrow> list_all admissible vs \<and> distinct (map key_of vs)
     \<and> (\<forall>v\<in>set vs. lookup s (key_of v) = None)"

lemma load_some:
  assumes "store_ok s" and "rfold insert_new s vs = Inr t"
  shows "loadable s vs \<and> store_ok t \<and> lookup t = loaded (lookup s) vs"
  using assms
proof (induction vs arbitrary: s)
  case Nil
  then show ?case by (simp add: loadable_def)
next
  case (Cons v vs)
  from Cons.prems(2) obtain s' where s': "insert_new s v = Inr s'" "rfold insert_new s' vs = Inr t"
    by (auto simp: rbind_Inr_iff)
  note one = insert_some [OF Cons.prems(1) s'(1)]
  from one have "store_ok s'" by simp
  from Cons.IH [OF this s'(2)] have tail: "loadable s' vs" "store_ok t" "lookup t = loaded (lookup s') vs"
    by auto
  have fresh: "key_of w \<noteq> key_of v \<and> lookup s (key_of w) = None" if "w \<in> set vs" for w
  proof -
    have "lookup s' (key_of w) = None" using tail(1) that by (simp add: loadable_def)
    with one show ?thesis by (cases "key_of w = key_of v") auto
  qed
  have "loadable s (v # vs)"
    using one tail(1) fresh by (force simp: loadable_def)
  with tail one show ?case by simp
qed

lemma load_ok:
  assumes "store_ok s" and "loadable s vs"
  shows "\<exists>t. rfold insert_new s vs = Inr t \<and> store_ok t \<and> lookup t = loaded (lookup s) vs"
  using assms
proof (induction vs arbitrary: s)
  case Nil
  then show ?case by simp
next
  case (Cons v vs)
  then obtain s' where s': "insert_new s v = Inr s'"
    using insert_ok [of s v] by (auto simp: loadable_def is_ok_iff)
  note one = insert_some [OF Cons.prems(1) s']
  have "lookup s' (key_of w) = None" if "w \<in> set vs" for w
  proof -
    have "key_of w \<noteq> key_of v"
      using Cons.prems(2) imageI [OF that, of key_of] by (auto simp: loadable_def)
    then show ?thesis using one Cons.prems(2) that by (simp add: loadable_def)
  qed
  with Cons.prems(2) have tail: "loadable s' vs"
    by (simp add: loadable_def)
  have "store_ok s'" using one by simp
  from Cons.IH [OF this tail] obtain t where
    "rfold insert_new s' vs = Inr t" "store_ok t" "lookup t = loaded (lookup s') vs" by blast
  moreover have "lookup s' = (lookup s)(key_of v \<mapsto> v)" using one by simp
  ultimately show ?case using s' by simp
qed

lemma loaded_outside: "k \<notin> key_of ` set vs \<Longrightarrow> loaded f vs k = f k"
  by (induction vs arbitrary: f) auto

lemma loaded_Some:
  "distinct (map key_of vs) \<Longrightarrow>
    loaded f vs k = Some v \<longleftrightarrow> v \<in> set vs \<and> key_of v = k \<or> k \<notin> key_of ` set vs \<and> f k = Some v"
proof (induction vs arbitrary: f)
  case Nil
  then show ?case by simp
next
  case (Cons u us)
  then show ?case
    by (auto simp: image_iff)
qed

text \<open>The order of the records does not matter.\<close>

lemma load_permutation:
  assumes "store_ok s" and "mset us = mset vs" and "rfold insert_new s us = Inr t"
  shows "rfold insert_new s vs = Inr t"
proof -
  note us = load_some [OF assms(1,3)]
  have set: "set us = set vs"
    using assms(2) by (metis set_mset_mset)
  have "mset (map key_of us) = mset (map key_of vs)"
    using assms(2) by simp
  then have d: "distinct (map key_of vs)"
    using us mset_eq_imp_distinct_iff [of "map key_of us" "map key_of vs"] by (simp add: loadable_def)
  then have "loadable s vs"
    using us set by (simp add: loadable_def list_all_iff)
  from load_ok [OF assms(1) this] obtain t' where
    t': "rfold insert_new s vs = Inr t'" "store_ok t'" "lookup t' = loaded (lookup s) vs" by blast
  have "loaded (lookup s) us k = loaded (lookup s) vs k" for k
  proof (rule option_eqI)
    fix v
    show "loaded (lookup s) us k = Some v \<longleftrightarrow> loaded (lookup s) vs k = Some v"
      using us d set by (simp add: loaded_Some loadable_def)
  qed
  then have "lookup t' = lookup t"
    using us t'(3) by auto
  with t' us lookup_ext show ?thesis by blast
qed

text \<open>A well-formed store is rebuilt from any listing of its records.\<close>

lemma reload:
  assumes "store_ok s" and "store_ok t" and "\<And>k. lookup s k = None"
    and "distinct (map key_of vs)" and "list_all admissible vs"
    and "\<And>k v. lookup t k = Some v \<longleftrightarrow> v \<in> set vs \<and> key_of v = k"
  shows "rfold insert_new s vs = Inr t"
proof -
  have "loadable s vs"
    using assms(3-5) by (simp add: loadable_def)
  from load_ok [OF assms(1) this] obtain t' where
    t': "rfold insert_new s vs = Inr t'" "store_ok t'" "lookup t' = loaded (lookup s) vs" by blast
  have "lookup t' k = lookup t k" for k
  proof (rule option_eqI)
    fix v
    show "lookup t' k = Some v \<longleftrightarrow> lookup t k = Some v"
      using assms(3,6) t'(3) by (simp add: loaded_Some [OF assms(4)])
  qed
  then have "lookup t' = lookup t" by auto
  with t'(1,2) assms(2) lookup_ext show ?thesis by blast
qed

end

end
