(* ===== verification/Record_Log.thy ===== *)
theory Record_Log
  imports Domain Keyed_Store
begin

text \<open>
  The record log (\<open>record.rs\<close>): validated record keys, envelopes with JSON payloads, the migration
  registry, and the replay of a versioned operation log over a checkpoint.

  \<open>serde_json\<close>'s \<open>Value\<close> is a datatype with the documented constructors; a number is opaque, and
  the two tests the code makes on it (\<open>is_i64\<close>, \<open>is_u64\<close>) are the parameter \<open>number_lib\<close>. A
  migration function is a value of the step that carries it.

  The lemmas end in the contract of the log: \<open>rebuild_records\<close> accepts exactly the checkpoints
  with distinct keys followed by the operations of a sequence of commits, one revision each, and
  its result is the fold of their mutations over the checkpoint.
\<close>

section \<open>JSON payloads\<close>

type_synonym json_number = nat

record number_lib =
  is_i64 :: "json_number \<Rightarrow> bool"
  is_u64 :: "json_number \<Rightarrow> bool"

datatype json =
    JNull
  | JBool bool
  | JNumber json_number
  | JString string
  | JArray "json list"
  | JObject "(string \<times> json) list"

fun is_object :: "json \<Rightarrow> bool" where
  "is_object (JObject _) = True"
| "is_object _ = False"

section \<open>Keys and versions\<close>

datatype record_type = RecordType (record_type_str: string)

datatype record_id = RecordId (record_id_str: string)

datatype schema_version = SchemaVersion (schema_get: u32)

datatype record_key = RecordKey (rk_record_type: record_type) (rk_record_id: record_id)

instantiation record_type :: linorder
begin

definition less_eq_record_type :: "record_type \<Rightarrow> record_type \<Rightarrow> bool" where
  "a \<le> b \<longleftrightarrow> record_type_str a \<le> record_type_str b"

definition less_record_type :: "record_type \<Rightarrow> record_type \<Rightarrow> bool" where
  "a < b \<longleftrightarrow> record_type_str a < record_type_str b"

instance
  by standard (auto simp: less_eq_record_type_def less_record_type_def intro: record_type.expand)

end

instantiation record_id :: linorder
begin

definition less_eq_record_id :: "record_id \<Rightarrow> record_id \<Rightarrow> bool" where
  "a \<le> b \<longleftrightarrow> record_id_str a \<le> record_id_str b"

definition less_record_id :: "record_id \<Rightarrow> record_id \<Rightarrow> bool" where
  "a < b \<longleftrightarrow> record_id_str a < record_id_str b"

instance
  by standard (auto simp: less_eq_record_id_def less_record_id_def intro: record_id.expand)

end

instantiation schema_version :: linorder
begin

definition less_eq_schema_version :: "schema_version \<Rightarrow> schema_version \<Rightarrow> bool" where
  "a \<le> b \<longleftrightarrow> schema_get a \<le> schema_get b"

definition less_schema_version :: "schema_version \<Rightarrow> schema_version \<Rightarrow> bool" where
  "a < b \<longleftrightarrow> schema_get a < schema_get b"

instance
  by standard
    (auto simp: less_eq_schema_version_def less_schema_version_def intro: schema_version.expand)

end

text \<open>The derived order of \<open>RecordKey\<close> is lexicographic: the type first, then the identifier.\<close>

definition record_key_pair :: "record_key \<Rightarrow> record_type \<times> record_id" where
  "record_key_pair k = (rk_record_type k, rk_record_id k)"

lemma record_key_pair_inject: "record_key_pair a = record_key_pair b \<longleftrightarrow> a = b"
  by (auto simp: record_key_pair_def intro: record_key.expand)

instantiation record_key :: linorder
begin

definition less_eq_record_key :: "record_key \<Rightarrow> record_key \<Rightarrow> bool" where
  "a \<le> b \<longleftrightarrow> record_key_pair a \<le> record_key_pair b"

definition less_record_key :: "record_key \<Rightarrow> record_key \<Rightarrow> bool" where
  "a < b \<longleftrightarrow> record_key_pair a < record_key_pair b"

instance
  by standard
    (auto simp: less_eq_record_key_def less_record_key_def order.strict_iff_order
      record_key_pair_inject)

end

datatype record_error =
    InvalidRecordType
  | InvalidRecordId
  | InvalidSchemaVersion
  | PayloadMustBeObject
  | UnsupportedNumber
  | UnknownRecordType record_type
  | NewerSchema record_type schema_version schema_version
  | MissingMigration record_type schema_version
  | InvalidMigration
  | RevisionGap revision
  | InvalidOperationOrder revision u32
  | ActionChanged revision
  | EnvelopeRevisionMismatch
  | DuplicateCheckpointRecord record_key
  | DeleteMissingRecord record_key
  | RecordRevision revision_error
  | MigrationFailed string

fun has_double_underscore :: "string \<Rightarrow> bool" where
  "has_double_underscore (a # b # s) =
     (a = CHR ''_'' \<and> b = CHR ''_'' \<or> has_double_underscore (b # s))"
| "has_double_underscore _ = False"

definition record_type_parse :: "string \<Rightarrow> record_error + record_type" where
  "record_type_parse value =
     (let valid = (value \<noteq> [] \<and> length value \<le> 64 \<and> is_ascii value
           \<and> is_ascii_lowercase (hd value)
           \<and> (is_ascii_lowercase (last value) \<or> is_ascii_digit (last value))
           \<and> list_all (\<lambda>b. is_ascii_lowercase b \<or> is_ascii_digit b \<or> b = CHR ''_'') value)
      in if \<not> valid \<or> has_double_underscore value then Inl InvalidRecordType
         else Inr (RecordType value))"

definition record_id_byte :: "char \<Rightarrow> bool" where
  "record_id_byte b \<longleftrightarrow> is_ascii_lowercase b \<or> is_ascii_digit b
     \<or> b \<in> {CHR ''_'', CHR ''-'', CHR ''.'', CHR '':'', CHR ''/''}"

definition record_id_parse :: "string \<Rightarrow> record_error + record_id" where
  "record_id_parse value =
     (let valid = (value \<noteq> [] \<and> length value \<le> 255 \<and> is_ascii value
           \<and> list_all record_id_byte value)
      in if \<not> valid then Inl InvalidRecordId else Inr (RecordId value))"

definition schema_version_new :: "u32 \<Rightarrow> record_error + schema_version" where
  "schema_version_new value =
     (if value = 0 then Inl InvalidSchemaVersion else Inr (SchemaVersion value))"

definition SCHEMA_V1 :: schema_version where
  "SCHEMA_V1 = SchemaVersion 1"

definition schema_version_next :: "schema_version \<Rightarrow> record_error + schema_version" where
  "schema_version_next v =
     rbind (ok_or InvalidSchemaVersion (checked_add (schema_get v) 1)) schema_version_new"

section \<open>Envelopes\<close>

record record_provenance =
  prov_action_id :: "action_id option"
  prov_mod_id :: "mod_id option"
  prov_definition_id :: "content_definition_id option"

record record_envelope =
  re_record_type :: record_type
  re_schema_version :: schema_version
  re_record_id :: record_id
  re_revision :: revision
  re_payload :: json
  re_provenance :: "record_provenance option"

definition envelope_key :: "record_envelope \<Rightarrow> record_key" where
  "envelope_key e = RecordKey (re_record_type e) (re_record_id e)"

fun validate_json_value :: "number_lib \<Rightarrow> json \<Rightarrow> record_error + unit"
  and validate_json_list :: "number_lib \<Rightarrow> json list \<Rightarrow> record_error + unit"
  and validate_json_fields :: "number_lib \<Rightarrow> (string \<times> json) list \<Rightarrow> record_error + unit" where
  "validate_json_value N (JNumber n) =
     (if \<not> is_i64 N n \<and> \<not> is_u64 N n then Inl UnsupportedNumber else Inr ())"
| "validate_json_value N (JArray vs) = validate_json_list N vs"
| "validate_json_value N (JObject fs) = validate_json_fields N fs"
| "validate_json_value N JNull = Inr ()"
| "validate_json_value N (JBool _) = Inr ()"
| "validate_json_value N (JString _) = Inr ()"
| "validate_json_list N [] = Inr ()"
| "validate_json_list N (v # vs) =
     rbind (validate_json_value N v) (\<lambda>_. validate_json_list N vs)"
| "validate_json_fields N [] = Inr ()"
| "validate_json_fields N ((_, v) # fs) =
     rbind (validate_json_value N v) (\<lambda>_. validate_json_fields N fs)"

definition validate_payload :: "number_lib \<Rightarrow> json \<Rightarrow> record_error + unit" where
  "validate_payload N payload =
     (if \<not> is_object payload then Inl PayloadMustBeObject else validate_json_value N payload)"

definition envelope_new :: "number_lib \<Rightarrow> record_type \<Rightarrow> schema_version \<Rightarrow> record_id \<Rightarrow> revision
    \<Rightarrow> json \<Rightarrow> record_provenance option \<Rightarrow> record_error + record_envelope" where
  "envelope_new N ty ver i at payload provenance =
     rbind (validate_payload N payload) (\<lambda>_.
       Inr \<lparr>re_record_type = ty, re_schema_version = ver, re_record_id = i, re_revision = at,
            re_payload = payload, re_provenance = provenance\<rparr>)"

text \<open>The numbers of a value, for the statement of what validation accepts.\<close>

fun json_numbers :: "json \<Rightarrow> json_number set" where
  "json_numbers (JNumber n) = {n}"
| "json_numbers (JArray vs) = (\<Union>v\<in>set vs. json_numbers v)"
| "json_numbers (JObject fs) = (\<Union>f\<in>set fs. json_numbers (snd f))"
| "json_numbers JNull = {}"
| "json_numbers (JBool _) = {}"
| "json_numbers (JString _) = {}"

lemma validate_json_value_Inr_iff [res_inv]:
  "validate_json_value N v = Inr () \<longleftrightarrow> (\<forall>n\<in>json_numbers v. is_i64 N n \<or> is_u64 N n)"
  "validate_json_list N vs = Inr () \<longleftrightarrow>
     (\<forall>v\<in>set vs. \<forall>n\<in>json_numbers v. is_i64 N n \<or> is_u64 N n)"
  "validate_json_fields N fs = Inr () \<longleftrightarrow>
     (\<forall>f\<in>set fs. \<forall>n\<in>json_numbers (snd f). is_i64 N n \<or> is_u64 N n)"
  by (induction N v and N vs and N fs
      rule: validate_json_value_validate_json_list_validate_json_fields.induct)
    (auto simp: rbind_Inr_iff)

lemma record_key_ext: "envelope_key e = RecordKey (re_record_type e) (re_record_id e)"
  by (simp add: envelope_key_def)

section \<open>Migrations\<close>

record migration_step =
  ms_record_type :: record_type
  ms_from :: schema_version
  ms_to :: schema_version
  ms_migrate :: "json \<Rightarrow> record_error + json"

record migration_registry =
  mr_current :: "(record_type, schema_version) btree"
  mr_steps :: "(record_type \<times> schema_version, migration_step) btree"

definition migration_registry_default :: migration_registry where
  "migration_registry_default = \<lparr>mr_current = [], mr_steps = []\<rparr>"

definition register_record_type :: "record_type \<Rightarrow> schema_version \<Rightarrow> migration_registry
    \<Rightarrow> record_error + migration_registry" where
  "register_record_type ty current R =
     (if bt_contains ty (mr_current R) then Inl InvalidMigration
      else Inr (R\<lparr>mr_current := bt_insert ty current (mr_current R)\<rparr>))"

definition register_migration :: "migration_step \<Rightarrow> migration_registry
    \<Rightarrow> record_error + migration_registry" where
  "register_migration step R =
     (let key = (ms_record_type step, ms_from step)
      in rbind (schema_version_next (ms_from step)) (\<lambda>next.
           if next \<noteq> ms_to step \<or> bt_contains key (mr_steps R) then Inl InvalidMigration
           else Inr (R\<lparr>mr_steps := bt_insert key step (mr_steps R)\<rparr>)))"

definition upgrade_step :: "number_lib \<Rightarrow> migration_registry \<Rightarrow> record_envelope
    \<Rightarrow> record_error + record_envelope" where
  "upgrade_step N R envelope =
     (let from = re_schema_version envelope;
          ty = re_record_type envelope
      in rbind (ok_or (MissingMigration ty from) (bt_get (ty, from) (mr_steps R))) (\<lambda>step.
           rbind (ms_migrate step (re_payload envelope)) (\<lambda>payload.
             rbind (validate_payload N payload) (\<lambda>_.
               Inr (envelope\<lparr>re_payload := payload, re_schema_version := ms_to step\<rparr>)))))"

text \<open>The \<open>while\<close> loop: \<open>None\<close> is a loop that does not end.\<close>

partial_function (option) upgrade_loop :: "number_lib \<Rightarrow> migration_registry \<Rightarrow> schema_version
    \<Rightarrow> record_envelope \<Rightarrow> (record_error + record_envelope) option" where
  "upgrade_loop N R supported envelope =
     (if re_schema_version envelope < supported
      then (case upgrade_step N R envelope of
              Inl e \<Rightarrow> Some (Inl e)
            | Inr envelope' \<Rightarrow> upgrade_loop N R supported envelope')
      else Some (Inr envelope))"

definition upgrade :: "number_lib \<Rightarrow> migration_registry \<Rightarrow> record_envelope
    \<Rightarrow> (record_error + record_envelope) option" where
  "upgrade N R envelope =
     (case bt_get (re_record_type envelope) (mr_current R) of
        None \<Rightarrow> Some (Inl (UnknownRecordType (re_record_type envelope)))
      | Some supported \<Rightarrow>
          if re_schema_version envelope > supported
          then Some (Inl (NewerSchema (re_record_type envelope) (re_schema_version envelope)
                            supported))
          else upgrade_loop N R supported envelope)"

text \<open>A registry built by the two operations holds only single-version steps under their own key.\<close>

definition migration_step_ok :: "record_type \<times> schema_version \<Rightarrow> migration_step \<Rightarrow> bool" where
  "migration_step_ok k step \<longleftrightarrow>
     k = (ms_record_type step, ms_from step) \<and> schema_version_next (ms_from step) = Inr (ms_to step)"

definition registry_ok :: "migration_registry \<Rightarrow> bool" where
  "registry_ok R \<longleftrightarrow>
     (\<forall>k step. bt_get k (mr_steps R) = Some step \<longrightarrow> migration_step_ok k step)"

lemma schema_version_next_Inr_iff [res_inv]:
  "schema_version_next v = Inr w \<longleftrightarrow> unat (schema_get w) = Suc (unat (schema_get v))"
proof -
  have "checked_add (schema_get v) 1 = Some u \<Longrightarrow> u \<noteq> 0" for u
    by (auto simp: checked_add_Some_iff)
  then show ?thesis
    by (cases w)
      (auto simp: schema_version_next_def schema_version_new_def rbind_Inr_iff ok_or_Inr_iff
        checked_add_Some_iff split: if_splits)
qed

lemma schema_version_less_nat: "a < b \<longleftrightarrow> unat (schema_get a) < unat (schema_get b)"
  by (simp add: less_schema_version_def word_less_nat_alt)

lemma registry_ok_default: "registry_ok migration_registry_default"
  by (simp add: registry_ok_def migration_registry_default_def)

lemma registry_ok_register_record_type:
  "registry_ok R \<Longrightarrow> register_record_type ty v R = Inr R' \<Longrightarrow> registry_ok R'"
  by (auto simp: registry_ok_def register_record_type_def split: if_splits)

lemma registry_ok_register_migration:
  "registry_ok R \<Longrightarrow> register_migration step R = Inr R' \<Longrightarrow> registry_ok R'"
  by (auto simp: registry_ok_def register_migration_def migration_step_ok_def [of "(_, _)" step]
      Let_def rbind_Inr_iff split: if_splits)

text \<open>One turn of the loop raises the version by one and keeps everything but the payload.\<close>

lemma upgrade_step_Inr:
  assumes "registry_ok R" and "upgrade_step N R e = Inr e'"
  shows "unat (schema_get (re_schema_version e')) = Suc (unat (schema_get (re_schema_version e)))"
    and "envelope_key e' = envelope_key e" and "re_revision e' = re_revision e"
    and "re_provenance e' = re_provenance e" and "validate_payload N (re_payload e') = Inr ()"
  using assms
  by (auto simp: upgrade_step_def Let_def rbind_Inr_iff ok_or_Inr_iff registry_ok_def
      migration_step_ok_def envelope_key_def schema_version_next_Inr_iff)

text \<open>What an upgrade keeps of the envelope it starts from.\<close>

definition upgraded :: "number_lib \<Rightarrow> record_envelope \<Rightarrow> record_envelope \<Rightarrow> bool" where
  "upgraded N e e' \<longleftrightarrow> envelope_key e' = envelope_key e \<and> re_revision e' = re_revision e
     \<and> re_provenance e' = re_provenance e
     \<and> (e' = e \<or> validate_payload N (re_payload e') = Inr ())"

lemma upgrade_loop_terminates:
  assumes "registry_ok R" and "re_schema_version e \<le> supported"
  shows "\<exists>r. upgrade_loop N R supported e = Some r
    \<and> (\<forall>e'. r = Inr e' \<longrightarrow> re_schema_version e' = supported \<and> upgraded N e e')"
  using assms(2)
proof (induction "unat (schema_get supported) - unat (schema_get (re_schema_version e))"
    arbitrary: e rule: less_induct)
  case less
  show ?case
  proof (cases "re_schema_version e < supported")
    case False
    then show ?thesis
      using less.prems by (auto simp: upgrade_loop.simps upgraded_def)
  next
    case True
    show ?thesis
    proof (cases "upgrade_step N R e")
      case (Inl err)
      then show ?thesis using True by (simp add: upgrade_loop.simps)
    next
      case (Inr e1)
      note step = upgrade_step_Inr [OF assms(1) Inr]
      from True step(1) have le: "re_schema_version e1 \<le> supported"
        and dec: "unat (schema_get supported) - unat (schema_get (re_schema_version e1))
          < unat (schema_get supported) - unat (schema_get (re_schema_version e))"
        by (auto simp: schema_version_less_nat not_less [symmetric])
      from less.hyps [OF dec le] step(2-5) show ?thesis
        using True Inr by (fastforce simp: upgrade_loop.simps [of N R supported e] upgraded_def)
    qed
  qed
qed

lemma upgrade_total: "registry_ok R \<Longrightarrow> \<exists>r. upgrade N R e = Some r"
  using upgrade_loop_terminates [of R e _ N]
  by (fastforce simp: upgrade_def not_less split: option.splits)

section \<open>Replay\<close>

datatype record_mutation = Upsert record_envelope | DeleteRecord record_key

record versioned_record_op =
  op_revision :: revision
  op_action_id :: action_id
  op_order :: u32
  op_mutation :: record_mutation

type_synonym record_set = "(record_key, record_envelope) btree"

text \<open>The local variables of the loop: the records, the revision, the action and the next order.\<close>

record replay_state =
  rp_records :: record_set
  rp_revision :: revision
  rp_action :: "action_id option"
  rp_order :: u32

definition checkpoint_insert :: "revision \<Rightarrow> record_set \<Rightarrow> record_envelope
    \<Rightarrow> record_error + record_set" where
  "checkpoint_insert checkpoint_revision records r =
     (if re_revision r > checkpoint_revision then Inl EnvelopeRevisionMismatch
      else if bt_contains (envelope_key r) records
      then Inl (DuplicateCheckpointRecord (envelope_key r))
      else Inr (bt_insert (envelope_key r) r records))"

definition load_checkpoint :: "revision \<Rightarrow> record_envelope list \<Rightarrow> record_error + record_set" where
  "load_checkpoint checkpoint_revision checkpoint =
     rfold (checkpoint_insert checkpoint_revision) [] checkpoint"

text \<open>A checkpoint is a keyed store: no key twice, no record later than the checkpoint.\<close>

interpretation checkpoint: keyed_store "\<lambda>records k. bt_get k records" "checkpoint_insert r"
    envelope_key "\<lambda>e. re_revision e \<le> r" bt_ok
proof unfold_locales
  fix s t :: record_set
  assume "bt_ok s" "bt_ok t" "(\<lambda>k. bt_get k s) = (\<lambda>k. bt_get k t)"
  then show "s = t" by (intro bt_ok_ext) (auto dest: fun_cong)
qed (auto simp: checkpoint_insert_def bt_contains_get bt_ok_insert not_less split: if_splits)

text \<open>The head of the loop body: which revision and action the operation belongs to.\<close>

definition replay_enter :: "replay_state \<Rightarrow> versioned_record_op \<Rightarrow> record_error + replay_state" where
  "replay_enter s operation =
     (if op_revision operation \<noteq> rp_revision s
      then rbind (map_err RecordRevision (revision_next (rp_revision s))) (\<lambda>expected.
             if op_revision operation \<noteq> expected then Inl (RevisionGap (rp_revision s))
             else Inr (s\<lparr>rp_revision := op_revision operation,
                        rp_action := Some (op_action_id operation), rp_order := 0\<rparr>))
      else if rp_action s = None then Inl (RevisionGap (rp_revision s))
      else Inr s)"

definition apply_mutation :: "revision \<Rightarrow> record_set \<Rightarrow> record_mutation \<Rightarrow> record_error + record_set" where
  "apply_mutation current records m =
     (case m of
        Upsert r \<Rightarrow>
          if re_revision r \<noteq> current then Inl EnvelopeRevisionMismatch
          else Inr (bt_insert (envelope_key r) r records)
      | DeleteRecord k \<Rightarrow>
          if \<not> bt_contains k records then Inl (DeleteMissingRecord k)
          else Inr (bt_remove k records))"

definition replay_op :: "replay_state \<Rightarrow> versioned_record_op \<Rightarrow> record_error + replay_state" where
  "replay_op s0 operation =
     rbind (replay_enter s0 operation) (\<lambda>s.
       if rp_action s \<noteq> Some (op_action_id operation) then Inl (ActionChanged (rp_revision s))
       else if op_order operation \<noteq> rp_order s
       then Inl (InvalidOperationOrder (rp_revision s) (rp_order s))
       else
         rbind (ok_or (InvalidOperationOrder (rp_revision s) (- 1)) (checked_add (rp_order s) 1))
           (\<lambda>order. rbind (apply_mutation (rp_revision s) (rp_records s) (op_mutation operation))
              (\<lambda>records. Inr (s\<lparr>rp_order := order, rp_records := records\<rparr>))))"

definition rebuild_records :: "revision \<Rightarrow> record_envelope list \<Rightarrow> versioned_record_op list
    \<Rightarrow> record_error + revision \<times> record_set" where
  "rebuild_records checkpoint_revision checkpoint operations =
     rbind (load_checkpoint checkpoint_revision checkpoint) (\<lambda>records.
       rbind (rfold replay_op \<lparr>rp_records = records, rp_revision = checkpoint_revision,
                rp_action = None, rp_order = 0\<rparr> operations)
         (\<lambda>s. Inr (rp_revision s, rp_records s)))"

section \<open>The log as a sequence of commits\<close>

text \<open>The abstract log: the revisions after \<open>r\<close>, one commit (an action and its mutations) each.\<close>

type_synonym commit = "action_id \<times> record_mutation list"

definition revision_add :: "revision \<Rightarrow> nat \<Rightarrow> revision" where
  "revision_add r n = Revision (revision_get r + of_nat n)"

definition commit_op :: "revision \<Rightarrow> action_id \<Rightarrow> nat \<times> record_mutation \<Rightarrow> versioned_record_op" where
  "commit_op r a p = \<lparr>op_revision = r, op_action_id = a, op_order = of_nat (fst p),
                      op_mutation = snd p\<rparr>"

definition commit_ops :: "revision \<Rightarrow> action_id \<Rightarrow> record_mutation list \<Rightarrow> versioned_record_op list" where
  "commit_ops r a ms = map (commit_op r a) (List.enumerate 0 ms)"

fun commit_log :: "revision \<Rightarrow> commit list \<Rightarrow> versioned_record_op list" where
  "commit_log r [] = []"
| "commit_log r ((a, ms) # cs) = commit_ops (revision_add r 1) a ms @ commit_log (revision_add r 1) cs"

definition apply_mutations :: "revision \<Rightarrow> record_set \<Rightarrow> record_mutation list
    \<Rightarrow> record_error + record_set" where
  "apply_mutations r = rfold (apply_mutation r)"

fun apply_commits :: "revision \<Rightarrow> record_set \<Rightarrow> commit list \<Rightarrow> record_error + record_set" where
  "apply_commits r records [] = Inr records"
| "apply_commits r records ((a, ms) # cs) =
     rbind (apply_mutations (revision_add r 1) records ms)
       (\<lambda>records'. apply_commits (revision_add r 1) records' cs)"

definition commit_ok :: "commit \<Rightarrow> bool" where
  "commit_ok c \<longleftrightarrow> snd c \<noteq> [] \<and> length (snd c) < 2 ^ 32"

lemma revision_add_0 [simp]: "revision_add r 0 = r"
  by (cases r) (simp add: revision_add_def)

lemma revision_add_add: "revision_add (revision_add r m) n = revision_add r (m + n)"
  by (simp add: revision_add_def)

lemma revision_next_add:
  "revision_next r = Inr r' \<longleftrightarrow> unat (revision_get r) + 1 < 2 ^ 64 \<and> r' = revision_add r 1"
  by (cases r')
    (auto simp: revision_next_def ok_or_Inr_iff checked_add_def revision_add_def)

lemma unat_revision_add:
  "unat (revision_get r) + n < 2 ^ 64 \<Longrightarrow>
    unat (revision_get (revision_add r n)) = unat (revision_get r) + n"
  by (simp add: revision_add_def unat_word_ariths unat_of_nat)

lemma revision_add_neq: "unat (revision_get r) + 1 < 2 ^ 64 \<Longrightarrow> revision_add r 1 \<noteq> r"
  using unat_revision_add [of r 1] by auto

lemma commit_ops_snoc:
  "commit_ops r a (ms @ [m]) = commit_ops r a ms @ [commit_op r a (length ms, m)]"
  by (simp add: commit_ops_def enumerate_append_eq)

lemma commit_log_snoc:
  "commit_log r (cs @ [(a, ms)]) = commit_log r cs @ commit_ops (revision_add r (Suc (length cs))) a ms"
  by (induction r cs rule: commit_log.induct) (simp_all add: revision_add_add)

text \<open>Inside a commit the order is the number of mutations done.\<close>

lemma replay_op_here:
  assumes "Suc n < 2 ^ 32"
  shows "replay_op \<lparr>rp_records = recs, rp_revision = r, rp_action = Some a, rp_order = of_nat n\<rparr>
      (commit_op r a (n, m))
    = rbind (apply_mutation r recs m) (\<lambda>recs'. Inr \<lparr>rp_records = recs', rp_revision = r,
        rp_action = Some a, rp_order = of_nat (Suc n)\<rparr>)"
proof -
  have "checked_add (of_nat n :: u32) 1 = Some (of_nat (Suc n))"
    using assms by (simp add: checked_add_def unat_of_nat add.commute [of 1 "of_nat n"])
  then show ?thesis
    by (simp add: replay_op_def replay_enter_def commit_op_def del: of_nat_Suc)
qed

lemma replay_within:
  assumes "n + length ms < 2 ^ 32"
  shows "rfold replay_op \<lparr>rp_records = recs, rp_revision = r, rp_action = Some a, rp_order = of_nat n\<rparr>
      (map (commit_op r a) (List.enumerate n ms))
    = rbind (apply_mutations r recs ms) (\<lambda>recs'. Inr \<lparr>rp_records = recs', rp_revision = r,
        rp_action = Some a, rp_order = of_nat (n + length ms)\<rparr>)"
  using assms
proof (induction ms arbitrary: n recs)
  case Nil
  then show ?case by (simp add: apply_mutations_def)
next
  case (Cons m ms)
  have "Suc n < 2 ^ 32" and "Suc n + length ms < 2 ^ 32"
    using Cons.prems by simp_all
  from replay_op_here [OF this(1)] Cons.IH [OF this(2)] show ?case
    by (cases "apply_mutation r recs m") (simp_all add: apply_mutations_def del: of_nat_Suc)
qed

lemma replay_commit:
  assumes "commit_ok (a, ms)" and "unat (revision_get (rp_revision s)) + 1 < 2 ^ 64"
  shows "rfold replay_op s (commit_ops (revision_add (rp_revision s) 1) a ms)
    = rbind (apply_mutations (revision_add (rp_revision s) 1) (rp_records s) ms)
        (\<lambda>recs'. Inr \<lparr>rp_records = recs', rp_revision = revision_add (rp_revision s) 1,
           rp_action = Some a, rp_order = of_nat (length ms)\<rparr>)"
proof -
  let ?r = "revision_add (rp_revision s) 1"
  let ?s = "\<lparr>rp_records = rp_records s, rp_revision = ?r, rp_action = Some a, rp_order = of_nat 0\<rparr>"
  from assms(1) obtain m ms' where ms: "ms = m # ms'" and l: "0 + length ms < 2 ^ 32"
    by (cases ms) (auto simp: commit_ok_def)
  have nxt: "revision_next (rp_revision s) = Inr ?r" and neq: "?r \<noteq> rp_revision s"
    using assms(2) revision_add_neq [OF assms(2)] by (simp_all add: revision_next_add)
  then have "replay_op s (commit_op ?r a (0, m)) = replay_op ?s (commit_op ?r a (0, m))"
    by (cases s) (simp add: replay_op_def replay_enter_def commit_op_def)
  then have "rfold replay_op s (commit_ops ?r a ms) = rfold replay_op ?s (commit_ops ?r a ms)"
    by (simp add: ms commit_ops_def)
  then show ?thesis
    using replay_within [OF l, of "rp_records s" ?r a] by (simp add: commit_ops_def)
qed

lemma replay_commits:
  assumes "list_all commit_ok cs" and "unat (revision_get (rp_revision s)) + length cs < 2 ^ 64"
  shows "rbind (rfold replay_op s (commit_log (rp_revision s) cs))
      (\<lambda>t. Inr (rp_revision t, rp_records t))
    = rbind (apply_commits (rp_revision s) (rp_records s) cs)
        (\<lambda>recs. Inr (revision_add (rp_revision s) (length cs), recs))"
  using assms
proof (induction cs arbitrary: s)
  case Nil
  then show ?case by simp
next
  case (Cons c cs)
  obtain a ms where c: "c = (a, ms)" by (cases c)
  let ?r = "revision_add (rp_revision s) 1"
  have bound: "unat (revision_get (rp_revision s)) + 1 < 2 ^ 64"
    using Cons.prems(2) by simp
  then have "unat (revision_get ?r) + length cs < 2 ^ 64"
    using Cons.prems(2) by (subst unat_revision_add) simp_all
  moreover have "commit_ok (a, ms)" and "list_all commit_ok cs"
    using Cons.prems(1) by (simp_all add: c)
  ultimately show ?case
    using replay_commit [OF \<open>commit_ok (a, ms)\<close> bound]
      Cons.IH [of "\<lparr>rp_records = _, rp_revision = ?r, rp_action = Some a,
                  rp_order = of_nat (length ms)\<rparr>"]
    by (cases "apply_mutations ?r (rp_records s) ms")
      (simp_all add: c rfold_append revision_add_add)
qed

text \<open>Conversely, a successful replay has read the operations of a sequence of commits.\<close>

definition replayed :: "revision \<Rightarrow> versioned_record_op list \<Rightarrow> replay_state \<Rightarrow> commit list \<Rightarrow> bool" where
  "replayed r ops s cs \<longleftrightarrow>
     ops = commit_log r cs \<and> list_all commit_ok cs
     \<and> rp_revision s = revision_add r (length cs)
     \<and> unat (revision_get r) + length cs < 2 ^ 64
     \<and> rp_action s = (if cs = [] then None else Some (fst (last cs)))
     \<and> (cs \<noteq> [] \<longrightarrow> unat (rp_order s) = length (snd (last cs)))"

lemma replay_op_Inr:
  assumes "replay_op s operation = Inr s'"
  shows "(rp_revision s' = rp_revision s \<and> rp_action s = Some (op_action_id operation)
        \<and> op_order operation = rp_order s
        \<and> unat (rp_order s') = Suc (unat (rp_order s))
      \<or> rp_revision s' = revision_add (rp_revision s) 1
        \<and> unat (revision_get (rp_revision s)) + 1 < 2 ^ 64
        \<and> op_order operation = 0 \<and> unat (rp_order s') = 1)
      \<and> rp_action s' = Some (op_action_id operation) \<and> op_revision operation = rp_revision s'"
  using assms
  by (auto simp: replay_op_def replay_enter_def rbind_Inr_iff ok_or_Inr_iff map_err_Inr_iff
      revision_next_add checked_add_Some_iff split: if_splits)

lemma replayed_snoc:
  assumes "replayed r ops s cs" and "replay_op s operation = Inr s'"
  shows "\<exists>cs'. replayed r (ops @ [operation]) s' cs'"
proof -
  let ?a = "op_action_id operation" and ?m = "op_mutation operation"
  note r = assms(1) [unfolded replayed_def]
  from replay_op_Inr [OF assms(2)] consider
    (same) "rp_revision s' = rp_revision s" "rp_action s = Some ?a" "op_order operation = rp_order s"
      "unat (rp_order s') = Suc (unat (rp_order s))"
      "rp_action s' = Some ?a" "op_revision operation = rp_revision s'"
  | (new) "rp_revision s' = revision_add (rp_revision s) 1"
      "unat (revision_get (rp_revision s)) + 1 < 2 ^ 64" "op_order operation = 0"
      "unat (rp_order s') = 1" "rp_action s' = Some ?a" "op_revision operation = rp_revision s'"
    by blast
  then show ?thesis
  proof cases
    case same
    from same(2) r obtain cs0 ms where cs: "cs = cs0 @ [(?a, ms)]"
      by (cases cs rule: rev_cases) (auto split: if_splits)
    have n: "unat (rp_order s) = length ms"
      using r by (simp add: cs)
    then have "rp_order s = of_nat (length ms)"
      by (simp flip: n)
    then have "operation = commit_op (rp_revision s) ?a (length ms, ?m)"
      by (cases operation) (use same in \<open>simp add: commit_op_def\<close>)
    then have "ops @ [operation] = commit_log r (cs0 @ [(?a, ms @ [?m])])"
      using r by (simp add: cs commit_log_snoc commit_ops_snoc)
    moreover have "Suc (length ms) < 2 ^ 32"
      using unsigned_less [of "rp_order s'", where 'a = nat] same(4) n by simp
    ultimately have "replayed r (ops @ [operation]) s' (cs0 @ [(?a, ms @ [?m])])"
      using r same n by (simp add: replayed_def cs commit_ok_def)
    then show ?thesis ..
  next
    case new
    have n: "unat (revision_get r) + Suc (length cs) < 2 ^ 64"
      using new(2) r by (simp add: unat_revision_add)
    have "operation = commit_op (rp_revision s') ?a (0, ?m)"
      by (cases operation) (use new in \<open>simp add: commit_op_def\<close>)
    then have "ops @ [operation] = commit_log r (cs @ [(?a, [?m])])"
      using r new(1) by (simp add: commit_log_snoc commit_ops_def revision_add_add)
    then have "replayed r (ops @ [operation]) s' (cs @ [(?a, [?m])])"
      using r new n by (simp add: replayed_def commit_ok_def revision_add_add)
    then show ?thesis ..
  qed
qed

lemma replay_is_commit_log:
  assumes "rfold replay_op \<lparr>rp_records = recs, rp_revision = r, rp_action = None, rp_order = 0\<rparr> ops
      = Inr s"
    and "unat (revision_get r) < 2 ^ 64"
  shows "\<exists>cs. replayed r ops s cs"
  using assms(1)
proof (induction ops arbitrary: s rule: rev_induct)
  case Nil
  then have "replayed r [] s []"
    using assms(2) by (auto simp: replayed_def)
  then show ?case ..
next
  case (snoc operation ops)
  then show ?case
    by (fastforce simp: rfold_append rbind_Inr_iff intro: replayed_snoc)
qed

section \<open>The contract of the log\<close>

lemma load_checkpoint_Inr_iff:
  "load_checkpoint r cp = Inr recs \<longleftrightarrow>
     (\<forall>e\<in>set cp. re_revision e \<le> r) \<and> distinct (map envelope_key cp)
     \<and> recs = bt_of_list (map (\<lambda>e. (envelope_key e, e)) cp)"
proof -
  have "rfold (checkpoint_insert r) acc cp = Inr recs
    \<longleftrightarrow> (\<forall>e\<in>set cp. re_revision e \<le> r) \<and> distinct (map envelope_key cp)
       \<and> (\<forall>e\<in>set cp. bt_get (envelope_key e) acc = None)
       \<and> recs = fold (\<lambda>(k, v). bt_insert k v) (map (\<lambda>e. (envelope_key e, e)) cp) acc" for acc
    by (induction cp arbitrary: acc)
      (auto simp: checkpoint_insert_def bt_contains_get not_less image_iff split: if_splits)
  then show ?thesis
    by (simp add: load_checkpoint_def bt_of_list_def)
qed

lemma rebuild_records_Inr_iff:
  "rebuild_records r cp ops = Inr (r', recs) \<longleftrightarrow>
     (\<exists>base cs. load_checkpoint r cp = Inr base \<and> ops = commit_log r cs \<and> list_all commit_ok cs
        \<and> unat (revision_get r) + length cs < 2 ^ 64 \<and> r' = revision_add r (length cs)
        \<and> apply_commits r base cs = Inr recs)"
  (is "?l \<longleftrightarrow> ?r")
proof -
  have "unat (revision_get r) < 2 ^ 64"
    using unsigned_less [of "revision_get r", where 'a = nat] by simp
  note conv = replay_is_commit_log [OF _ this]
  have fwd: "rbind (rfold replay_op \<lparr>rp_records = base, rp_revision = r, rp_action = None, rp_order = 0\<rparr>
        (commit_log r cs)) (\<lambda>s. Inr (rp_revision s, rp_records s))
      = rbind (apply_commits r base cs) (\<lambda>recs. Inr (revision_add r (length cs), recs))"
    if "list_all commit_ok cs" "unat (revision_get r) + length cs < 2 ^ 64" for base cs
    using replay_commits [of cs "\<lparr>rp_records = base, rp_revision = r, rp_action = None, rp_order = 0\<rparr>"]
      that by simp
  show ?thesis
  proof
    assume ?l
    then obtain base s where base: "load_checkpoint r cp = Inr base"
      and s: "rfold replay_op \<lparr>rp_records = base, rp_revision = r, rp_action = None, rp_order = 0\<rparr> ops
        = Inr s" and eq: "r' = rp_revision s" "recs = rp_records s"
      by (auto simp: rebuild_records_def rbind_Inr_iff)
    from conv [OF s] obtain cs where cs: "replayed r ops s cs" ..
    then have "rbind (apply_commits r base cs) (\<lambda>recs. Inr (revision_add r (length cs), recs))
      = Inr (r', recs)"
      using fwd [of cs base] s eq by (simp add: replayed_def)
    then show ?r
      using base cs by (auto simp: replayed_def rbind_Inr_iff)
  next
    assume ?r
    then show ?l
      by (auto simp: rebuild_records_def fwd)
  qed
qed

text \<open>The mutations act on the stored map as updates and deletions do.\<close>

definition mutation_effect :: "record_mutation \<Rightarrow> (record_key \<Rightarrow> record_envelope option)
    \<Rightarrow> record_key \<Rightarrow> record_envelope option" where
  "mutation_effect m f = (case m of Upsert e \<Rightarrow> f(envelope_key e \<mapsto> e) | DeleteRecord k \<Rightarrow> f(k := None))"

lemma apply_mutation_effect:
  "apply_mutation r recs m = Inr recs' \<Longrightarrow>
    (\<lambda>k. bt_get k recs') = mutation_effect m (\<lambda>k. bt_get k recs)"
  by (auto simp: apply_mutation_def mutation_effect_def fun_eq_iff
      split: record_mutation.splits if_splits)

lemma apply_mutations_effect:
  "apply_mutations r recs ms = Inr recs' \<Longrightarrow>
    (\<lambda>k. bt_get k recs') = fold mutation_effect ms (\<lambda>k. bt_get k recs)"
  by (induction ms arbitrary: recs)
    (auto simp: apply_mutations_def rbind_Inr_iff dest!: apply_mutation_effect)

lemma apply_commits_effect:
  "apply_commits r recs cs = Inr recs' \<Longrightarrow>
    (\<lambda>k. bt_get k recs') = fold mutation_effect (concat (map snd cs)) (\<lambda>k. bt_get k recs)"
  by (induction r recs cs rule: apply_commits.induct)
    (auto simp: rbind_Inr_iff, metis apply_mutations_effect)

lemma apply_mutation_ok: "bt_ok recs \<Longrightarrow> apply_mutation r recs m = Inr recs' \<Longrightarrow> bt_ok recs'"
  by (auto simp: apply_mutation_def bt_ok_insert bt_ok_remove split: record_mutation.splits if_splits)

lemma apply_mutations_ok: "bt_ok recs \<Longrightarrow> apply_mutations r recs ms = Inr recs' \<Longrightarrow> bt_ok recs'"
  unfolding apply_mutations_def by (erule (1) rfold_invariant) (rule apply_mutation_ok)

lemma apply_commits_ok: "bt_ok recs \<Longrightarrow> apply_commits r recs cs = Inr recs' \<Longrightarrow> bt_ok recs'"
  by (induction r recs cs rule: apply_commits.induct) (auto simp: rbind_Inr_iff dest: apply_mutations_ok)

lemma load_checkpoint_ok: "load_checkpoint r cp = Inr recs \<Longrightarrow> bt_ok recs"
  by (simp add: load_checkpoint_Inr_iff bt_ok_of_list)

text \<open>Every record is stored under its own key, at a revision no later than the log's.\<close>

definition records_ok :: "revision \<Rightarrow> record_set \<Rightarrow> bool" where
  "records_ok r recs \<longleftrightarrow> bt_ok recs \<and>
     (\<forall>k e. bt_get k recs = Some e \<longrightarrow> envelope_key e = k \<and> re_revision e \<le> r)"

lemma records_okD:
  "records_ok r recs \<Longrightarrow> bt_get k recs = Some e \<Longrightarrow> envelope_key e = k \<and> re_revision e \<le> r"
  by (simp add: records_ok_def)

lemma records_ok_mutation:
  "records_ok r recs \<Longrightarrow> apply_mutation r recs m = Inr recs' \<Longrightarrow> records_ok r recs'"
  using apply_mutation_ok [of recs r m recs']
  by (auto simp: apply_mutation_def records_ok_def split: record_mutation.splits if_splits)

lemma records_ok_mono: "records_ok r recs \<Longrightarrow> r \<le> r' \<Longrightarrow> records_ok r' recs"
  by (meson order_trans records_ok_def)

lemma records_ok_mutations:
  "records_ok r recs \<Longrightarrow> apply_mutations r recs ms = Inr recs' \<Longrightarrow> records_ok r recs'"
  unfolding apply_mutations_def by (erule (1) rfold_invariant) (rule records_ok_mutation)

lemma revision_add_le:
  "unat (revision_get r) + n < 2 ^ 64 \<Longrightarrow> r \<le> revision_add r n"
  by (simp add: less_eq_revision_def word_le_nat_alt unat_revision_add)

lemma records_ok_commits:
  "records_ok r recs \<Longrightarrow> unat (revision_get r) + length cs < 2 ^ 64 \<Longrightarrow>
    apply_commits r recs cs = Inr recs' \<Longrightarrow> records_ok (revision_add r (length cs)) recs'"
proof (induction r recs cs rule: apply_commits.induct)
  case (2 r records a ms cs)
  then obtain recs1 where m: "apply_mutations (revision_add r 1) records ms = Inr recs1"
    and rest: "apply_commits (revision_add r 1) recs1 cs = Inr recs'"
    by (auto simp: rbind_Inr_iff)
  have "records_ok (revision_add r 1) records"
    by (rule records_ok_mono [OF "2.prems"(1) revision_add_le]) (use "2.prems"(2) in simp)
  then have "records_ok (revision_add r 1) recs1"
    by (rule records_ok_mutations) (rule m)
  moreover have "unat (revision_get (revision_add r 1)) + length cs < 2 ^ 64"
    using "2.prems"(2) by (subst unat_revision_add) simp_all
  ultimately show ?case
    using "2.IH" [OF m] rest by (simp add: revision_add_add)
qed simp

lemma fold_bt_insert_set:
  "p \<in> set (fold (\<lambda>(k, v). bt_insert k v) ps acc) \<Longrightarrow> p \<in> set ps \<or> p \<in> set acc"
  by (induction ps arbitrary: acc) (fastforce simp: bt_insert_set)+

lemma bt_of_list_subset: "set (bt_of_list ps) \<subseteq> set ps"
  using fold_bt_insert_set [of _ ps "[]"] by (auto simp: bt_of_list_def)

lemma records_ok_checkpoint: "load_checkpoint r cp = Inr recs \<Longrightarrow> records_ok r recs"
  using bt_of_list_subset [of "map (\<lambda>e. (envelope_key e, e)) cp"]
  by (auto simp: load_checkpoint_Inr_iff records_ok_def bt_ok_of_list dest!: bt_get_in_set)

end
