(* ===== verification/Codec.thy ===== *)
theory Codec
  imports Record_Log
begin

text \<open>
  Typed domain records and their envelopes (\<open>codec.rs\<close>).

  Serde is a parameter: for each of the fourteen payload types a serialiser and a deserialiser,
  either of which may fail with a message (\<open>serde_lib\<close>); \<open>serde_lib_ok\<close> is the documented law that
  a value that serialises is read back. \<open>validate\<close> and its helpers are translated branch by branch.
\<close>

datatype domain_error =
    DomainRecordError record_error
  | CodecError string string
  | RecordIdentityMismatch
  | InvalidValue string

section \<open>The serialisation library\<close>

datatype 'a codec = Codec (serialize: "'a \<Rightarrow> string + json") (deserialize: "json \<Rightarrow> string + 'a")

record serde_lib =
  sl_numbers :: number_lib
  sl_world_state :: "world_state_record codec"
  sl_scene :: "scene_record codec"
  sl_place :: "place_record codec"
  sl_character :: "character_record codec"
  sl_item :: "item_record codec"
  sl_condition :: "condition_record codec"
  sl_skill_grant :: "skill_grant_record codec"
  sl_relationship :: "relationship_record codec"
  sl_known_fact :: "known_fact_record codec"
  sl_goal :: "goal_record codec"
  sl_event_instance :: "event_instance_record codec"
  sl_parameter_set :: "parameter_set_record codec"
  sl_rule_state :: "rule_state_record codec"
  sl_transcript_item :: "transcript_item_record codec"

definition codec_ok :: "'a codec \<Rightarrow> bool" where
  "codec_ok c \<longleftrightarrow> (\<forall>x v. serialize c x = Inr v \<longrightarrow> deserialize c v = Inr x)"

definition serde_lib_ok :: "serde_lib \<Rightarrow> bool" where
  "serde_lib_ok S \<longleftrightarrow>
     codec_ok (sl_world_state S) \<and> codec_ok (sl_scene S) \<and> codec_ok (sl_place S)
     \<and> codec_ok (sl_character S) \<and> codec_ok (sl_item S) \<and> codec_ok (sl_condition S)
     \<and> codec_ok (sl_skill_grant S) \<and> codec_ok (sl_relationship S) \<and> codec_ok (sl_known_fact S)
     \<and> codec_ok (sl_goal S) \<and> codec_ok (sl_event_instance S) \<and> codec_ok (sl_parameter_set S)
     \<and> codec_ok (sl_rule_state S) \<and> codec_ok (sl_transcript_item S)"

definition encode :: "'a codec \<Rightarrow> 'a \<Rightarrow> string \<Rightarrow> domain_error + json" where
  "encode c value ty = map_err (CodecError ty) (serialize c value)"

definition decode :: "'a codec \<Rightarrow> json \<Rightarrow> string \<Rightarrow> domain_error + 'a" where
  "decode c value ty = map_err (CodecError ty) (deserialize c value)"

section \<open>Keys\<close>

fun record_type_name :: "domain_record \<Rightarrow> string" where
  "record_type_name (WorldStateRec _) = ''world_state''"
| "record_type_name (SceneRec _) = ''scene''"
| "record_type_name (PlaceRec _) = ''place''"
| "record_type_name (CharacterRec _) = ''character''"
| "record_type_name (ItemRec _) = ''item''"
| "record_type_name (ConditionRec _) = ''condition''"
| "record_type_name (SkillGrantRec _) = ''skill_grant''"
| "record_type_name (RelationshipRec _) = ''relationship''"
| "record_type_name (KnownFactRec _) = ''known_fact''"
| "record_type_name (GoalRec _) = ''goal''"
| "record_type_name (EventInstanceRec _) = ''event_instance''"
| "record_type_name (ParameterSetRec _) = ''parameter_set''"
| "record_type_name (RuleStateRec _) = ''rule_state''"
| "record_type_name (TranscriptItemRec _) = ''transcript_item''"

fun record_id_text :: "uuid_lib \<Rightarrow> domain_record \<Rightarrow> string" where
  "record_id_text L (WorldStateRec v) = runtime_id_to_string L WLD (ws_id v)"
| "record_id_text L (SceneRec v) = runtime_id_to_string L OBJ (scene_rec_id v)"
| "record_id_text L (PlaceRec v) = runtime_id_to_string L OBJ (place_rec_id v)"
| "record_id_text L (CharacterRec v) = runtime_id_to_string L OBJ (object_id_of (ch_id v))"
| "record_id_text L (ItemRec v) = runtime_id_to_string L OBJ (it_id v)"
| "record_id_text L (ConditionRec v) = runtime_id_to_string L OBJ (cond_id v)"
| "record_id_text L (SkillGrantRec v) = runtime_id_to_string L OBJ (sg_id v)"
| "record_id_text L (RelationshipRec v) = runtime_id_to_string L OBJ (rel_id v)"
| "record_id_text L (KnownFactRec v) = runtime_id_to_string L OBJ (kf_id v)"
| "record_id_text L (GoalRec v) = runtime_id_to_string L OBJ (goal_id v)"
| "record_id_text L (EventInstanceRec v) = runtime_id_to_string L OBJ (ei_id v)"
| "record_id_text L (ParameterSetRec v) = runtime_id_to_string L OBJ (ps_id v)"
| "record_id_text L (RuleStateRec v) = runtime_id_to_string L OBJ (rs_id v)"
| "record_id_text L (TranscriptItemRec v) = runtime_id_to_string L TRN (tr_id v)"

definition record_type_of :: "domain_record \<Rightarrow> domain_error + record_type" where
  "record_type_of r = map_err DomainRecordError (record_type_parse (record_type_name r))"

definition record_id_of :: "uuid_lib \<Rightarrow> domain_record \<Rightarrow> domain_error + record_id" where
  "record_id_of L r = map_err DomainRecordError (record_id_parse (record_id_text L r))"

definition key :: "uuid_lib \<Rightarrow> domain_record \<Rightarrow> domain_error + record_key" where
  "key L r = rbind (record_type_of r) (\<lambda>ty. rbind (record_id_of L r) (\<lambda>i. Inr (RecordKey ty i)))"

section \<open>Validation\<close>

definition invalid :: "string \<Rightarrow> domain_error + unit" where
  "invalid field = Inl (InvalidValue field)"

definition validate_pool :: "content_definition_id \<times> resource_pool \<Rightarrow> domain_error + unit" where
  "validate_pool p =
     (if fst p \<noteq> rp_resource_id (snd p) then invalid ''character.resources.key''
      else if rp_current (snd p) < fixed_zero \<or> rp_base_maximum (snd p) \<le> fixed_zero
      then invalid ''character.resources.range''
      else Inr ())"

definition kind_is :: "string \<Rightarrow> content_definition_id \<Rightarrow> bool" where
  "kind_is k i \<longleftrightarrow> ok (content_kind i) = Some k"

definition validate_appearance :: "character_appearance \<Rightarrow> domain_error + unit" where
  "validate_appearance value =
     (if length (cap_parameters value) > 64 \<or> \<not> kind_is ''appearance_model'' (cap_model_id value)
      then invalid ''character.appearance''
      else rforeach (\<lambda>(parameter_id, parameter).
        if \<not> kind_is ''appearance_parameter'' parameter_id
           \<or> (case parameter of Variant i \<Rightarrow> \<not> kind_is ''appearance_variant'' i | _ \<Rightarrow> False)
        then invalid ''character.appearance.parameters'' else Inr ()) (cap_parameters value))"

type_synonym adjustment_key = "nat \<times> int \<times> object_id \<times> content_definition_id"

definition adjustment_key :: "attribute_adjustment \<Rightarrow> adjustment_key" where
  "adjustment_key a = (attribute_operation_rank (aa_operation a), sint (aa_priority a),
                       aa_source_id a, aa_attribute_id a)"

fun validate_adjustment_order :: "adjustment_key option \<Rightarrow> attribute_adjustment list
    \<Rightarrow> domain_error + unit" where
  "validate_adjustment_order order [] = Inr ()"
| "validate_adjustment_order order (a # as) =
     (if (case order of None \<Rightarrow> False | Some previous \<Rightarrow> previous > adjustment_key a)
      then invalid ''character.attribute_adjustments.order''
      else validate_adjustment_order (Some (adjustment_key a)) as)"

definition validate_character :: "character_record \<Rightarrow> domain_error + unit" where
  "validate_character value =
     (if ch_controller value \<noteq> AgentController \<and> ch_agent_binding value \<noteq> None
      then invalid ''character.agent_binding''
      else rbind (rforeach validate_pool (ch_resources value)) (\<lambda>_.
        rbind (case ch_appearance value of None \<Rightarrow> Inr ()
               | Some appearance \<Rightarrow> validate_appearance appearance) (\<lambda>_.
          validate_adjustment_order None (ch_attribute_adjustments value))))"

definition validate_item :: "item_record \<Rightarrow> domain_error + unit" where
  "validate_item value =
     (if (it_contained_by value \<noteq> None) = (it_located_at value \<noteq> None)
      then invalid ''item.physical_location''
      else if (case it_durability value of None \<Rightarrow> False
               | Some d \<Rightarrow> dur_maximum d \<le> fixed_zero \<or> dur_current d < fixed_zero
                   \<or> dur_current d > dur_maximum d)
      then invalid ''item.durability''
      else if (case it_container value of None \<Rightarrow> False
               | Some c \<Rightarrow> cont_max_weight_grams c < fixed_zero \<or> cont_max_children c = 0)
      then invalid ''item.container''
      else if (it_container value \<noteq> None \<or> it_equipped value \<noteq> None)
              \<and> stack_count (it_stack value) \<noteq> 1
      then invalid ''item.stackability''
      else Inr ())"

definition validate_condition :: "condition_record \<Rightarrow> domain_error + unit" where
  "validate_condition value =
     (if (case cond_expires_at value of None \<Rightarrow> False | Some e \<Rightarrow> e \<le> cond_applied_at value)
         \<or> (case cond_next_periodic_at value of None \<Rightarrow> False | Some n \<Rightarrow> n \<le> cond_applied_at value)
      then invalid ''condition.time'' else Inr ())"

definition validate_known_fact :: "known_fact_record \<Rightarrow> domain_error + unit" where
  "validate_known_fact value =
     (if kf_confidence value < fixed_zero \<or> kf_confidence value > fixed_one
         \<or> kf_last_confirmed_at value < kf_first_known_at value
      then invalid ''known_fact.confidence_or_time'' else Inr ())"

definition validate_transcript :: "transcript_item_record \<Rightarrow> domain_error + unit" where
  "validate_transcript value =
     (if tr_state value = Committed \<and> tr_revision value = None
      then invalid ''transcript_item.revision''
      else if length (bs_of_list (tr_supporting_events value)) \<noteq> length (tr_supporting_events value)
      then invalid ''transcript_item.supporting_events'' else Inr ())"

fun domain_validate :: "domain_record \<Rightarrow> domain_error + unit" where
  "domain_validate (CharacterRec v) = validate_character v"
| "domain_validate (ItemRec v) = validate_item v"
| "domain_validate (ConditionRec v) = validate_condition v"
| "domain_validate (SkillGrantRec v) =
     (if sg_rank v = 0 then invalid ''skill_grant.rank'' else Inr ())"
| "domain_validate (RelationshipRec v) =
     (if rel_source_id v = rel_target_id v then invalid ''relationship.self_reference'' else Inr ())"
| "domain_validate (KnownFactRec v) = validate_known_fact v"
| "domain_validate (TranscriptItemRec v) = validate_transcript v"
| "domain_validate (WorldStateRec _) = Inr ()"
| "domain_validate (SceneRec _) = Inr ()"
| "domain_validate (PlaceRec _) = Inr ()"
| "domain_validate (GoalRec _) = Inr ()"
| "domain_validate (EventInstanceRec _) = Inr ()"
| "domain_validate (ParameterSetRec _) = Inr ()"
| "domain_validate (RuleStateRec _) = Inr ()"

section \<open>Envelopes\<close>

fun encode_record :: "serde_lib \<Rightarrow> domain_record \<Rightarrow> domain_error + json" where
  "encode_record S (WorldStateRec v) = encode (sl_world_state S) v ''world_state''"
| "encode_record S (SceneRec v) = encode (sl_scene S) v ''scene''"
| "encode_record S (PlaceRec v) = encode (sl_place S) v ''place''"
| "encode_record S (CharacterRec v) = encode (sl_character S) v ''character''"
| "encode_record S (ItemRec v) = encode (sl_item S) v ''item''"
| "encode_record S (ConditionRec v) = encode (sl_condition S) v ''condition''"
| "encode_record S (SkillGrantRec v) = encode (sl_skill_grant S) v ''skill_grant''"
| "encode_record S (RelationshipRec v) = encode (sl_relationship S) v ''relationship''"
| "encode_record S (KnownFactRec v) = encode (sl_known_fact S) v ''known_fact''"
| "encode_record S (GoalRec v) = encode (sl_goal S) v ''goal''"
| "encode_record S (EventInstanceRec v) = encode (sl_event_instance S) v ''event_instance''"
| "encode_record S (ParameterSetRec v) = encode (sl_parameter_set S) v ''parameter_set''"
| "encode_record S (RuleStateRec v) = encode (sl_rule_state S) v ''rule_state''"
| "encode_record S (TranscriptItemRec v) = encode (sl_transcript_item S) v ''transcript_item''"

definition to_envelope :: "uuid_lib \<Rightarrow> serde_lib \<Rightarrow> domain_record \<Rightarrow> revision
    \<Rightarrow> record_provenance option \<Rightarrow> domain_error + record_envelope" where
  "to_envelope L S r at provenance =
     rbind (domain_validate r) (\<lambda>_.
     rbind (encode_record S r) (\<lambda>payload.
     rbind (record_type_of r) (\<lambda>ty.
     rbind (record_id_of L r) (\<lambda>i.
       map_err DomainRecordError
         (envelope_new (sl_numbers S) ty SCHEMA_V1 i at payload provenance)))))"

definition rmap :: "('a \<Rightarrow> 'b) \<Rightarrow> 'e + 'a \<Rightarrow> 'e + 'b" where
  "rmap f m = rbind m (\<lambda>x. Inr (f x))"

definition decode_record :: "serde_lib \<Rightarrow> record_type \<Rightarrow> json \<Rightarrow> domain_error + domain_record" where
  "decode_record S ty payload =
     (let n = record_type_str ty in
      if n = ''world_state'' then rmap WorldStateRec (decode (sl_world_state S) payload n)
      else if n = ''scene'' then rmap SceneRec (decode (sl_scene S) payload n)
      else if n = ''place'' then rmap PlaceRec (decode (sl_place S) payload n)
      else if n = ''character'' then rmap CharacterRec (decode (sl_character S) payload n)
      else if n = ''item'' then rmap ItemRec (decode (sl_item S) payload n)
      else if n = ''condition'' then rmap ConditionRec (decode (sl_condition S) payload n)
      else if n = ''skill_grant'' then rmap SkillGrantRec (decode (sl_skill_grant S) payload n)
      else if n = ''relationship'' then rmap RelationshipRec (decode (sl_relationship S) payload n)
      else if n = ''known_fact'' then rmap KnownFactRec (decode (sl_known_fact S) payload n)
      else if n = ''goal'' then rmap GoalRec (decode (sl_goal S) payload n)
      else if n = ''event_instance''
      then rmap EventInstanceRec (decode (sl_event_instance S) payload n)
      else if n = ''parameter_set'' then rmap ParameterSetRec (decode (sl_parameter_set S) payload n)
      else if n = ''rule_state'' then rmap RuleStateRec (decode (sl_rule_state S) payload n)
      else if n = ''transcript_item''
      then rmap TranscriptItemRec (decode (sl_transcript_item S) payload n)
      else Inl (DomainRecordError (UnknownRecordType ty)))"

definition schema_mismatch_text :: "schema_version \<Rightarrow> string" where
  "schema_mismatch_text observed =
     ''expected schema '' @ nat_text (unat (schema_get SCHEMA_V1)) @ '', observed ''
       @ nat_text (unat (schema_get observed))"

definition from_envelope :: "uuid_lib \<Rightarrow> serde_lib \<Rightarrow> record_envelope
    \<Rightarrow> domain_error + domain_record" where
  "from_envelope L S e =
     (if re_schema_version e \<noteq> SCHEMA_V1
      then Inl (CodecError (record_type_str (re_record_type e))
                 (schema_mismatch_text (re_schema_version e)))
      else rbind (decode_record S (re_record_type e) (re_payload e)) (\<lambda>r.
        rbind (record_id_of L r) (\<lambda>i.
          if i \<noteq> re_record_id e then Inl RecordIdentityMismatch
          else rbind (domain_validate r) (\<lambda>_. Inr r))))"

definition decode_domain_records :: "uuid_lib \<Rightarrow> serde_lib \<Rightarrow> record_set
    \<Rightarrow> domain_error + (record_key, domain_record) btree" where
  "decode_domain_records L S records =
     rmapM (\<lambda>(k, e). rbind (from_envelope L S e) (\<lambda>r. Inr (k, r))) records"

section \<open>Lemmas\<close>

text \<open>The fourteen type names are valid record types and distinguish the constructors.\<close>

lemma record_type_of_eq [simp]: "record_type_of r = Inr (RecordType (record_type_name r))"
  by (cases r) (simp_all add: record_type_of_def record_type_parse_def is_ascii_def
      is_ascii_lowercase_def is_ascii_digit_def byte_def)

lemma record_id_of_Inr_iff [res_inv]:
  "record_id_of L r = Inr i \<longleftrightarrow> record_id_parse (record_id_text L r) = Inr i"
  by (simp add: record_id_of_def map_err_Inr_iff)

lemma record_id_parse_Inr [res_inv]:
  "record_id_parse s = Inr i \<longleftrightarrow> i = RecordId s \<and> is_ok (record_id_parse s)"
  by (auto simp: record_id_parse_def)

lemma key_Inr_iff:
  "key L r = Inr k \<longleftrightarrow> is_ok (record_id_parse (record_id_text L r))
     \<and> k = RecordKey (RecordType (record_type_name r)) (RecordId (record_id_text L r))"
  by (auto simp: key_def rbind_Inr_iff record_id_of_Inr_iff record_id_parse_Inr [of "record_id_text L r"])

lemma validate_adjustment_order_Inr_iff [res_inv]:
  "validate_adjustment_order order as = Inr () \<longleftrightarrow>
     sorted (map adjustment_key as)
     \<and> (\<forall>p a. order = Some p \<longrightarrow> as \<noteq> [] \<longrightarrow> p \<le> adjustment_key (hd as))"
proof (induction order as rule: validate_adjustment_order.induct)
  case (2 order a as)
  have "(\<forall>x\<in>set as. adjustment_key a \<le> adjustment_key x) \<longleftrightarrow>
      as = [] \<or> adjustment_key a \<le> adjustment_key (hd as)"
    if "sorted (map adjustment_key as)"
    using that by (cases as) (auto intro: order_trans)
  then show ?case
    using "2.IH" by (auto simp: invalid_def not_less split: option.splits)
qed simp

lemma encode_Inr_iff [res_inv]: "encode c x ty = Inr v \<longleftrightarrow> serialize c x = Inr v"
  by (simp add: encode_def map_err_Inr_iff)

lemma rmap_Inr_iff [res_inv]: "rmap f m = Inr y \<longleftrightarrow> (\<exists>x. m = Inr x \<and> y = f x)"
  by (auto simp: rmap_def rbind_Inr_iff)

lemma rmap_Inr [simp]: "rmap f (Inr x) = Inr (f x)"
  by (simp add: rmap_def)

lemma decode_encode:
  "codec_ok c \<Longrightarrow> serialize c x = Inr v \<Longrightarrow> decode c v ty = Inr x"
  by (simp add: codec_ok_def decode_def)

lemma decode_record_encode:
  "serde_lib_ok S \<Longrightarrow> encode_record S r = Inr v \<Longrightarrow>
    decode_record S (RecordType (record_type_name r)) v = Inr r"
  by (cases r) (simp_all add: serde_lib_ok_def decode_record_def encode_Inr_iff decode_encode)

lemma decode_record_type:
  "decode_record S ty v = Inr r \<Longrightarrow> record_type_name r = record_type_str ty"
  by (auto simp: decode_record_def Let_def rmap_Inr_iff split: if_splits)

lemma envelope_new_Inr_iff [res_inv]:
  "envelope_new N ty ver i at payload prov = Inr e \<longleftrightarrow>
     validate_payload N payload = Inr ()
     \<and> e = \<lparr>re_record_type = ty, re_schema_version = ver, re_record_id = i, re_revision = at,
            re_payload = payload, re_provenance = prov\<rparr>"
  by (auto simp: envelope_new_def rbind_Inr_iff)

lemma to_envelope_Inr_iff:
  "to_envelope L S r at prov = Inr e \<longleftrightarrow>
     (\<exists>payload k. domain_validate r = Inr () \<and> encode_record S r = Inr payload \<and> key L r = Inr k
        \<and> validate_payload (sl_numbers S) payload = Inr ()
        \<and> e = \<lparr>re_record_type = rk_record_type k, re_schema_version = SCHEMA_V1,
              re_record_id = rk_record_id k, re_revision = at, re_payload = payload,
              re_provenance = prov\<rparr>)"
  by (auto simp: to_envelope_def rbind_Inr_iff map_err_Inr_iff envelope_new_Inr_iff key_Inr_iff
      record_id_of_Inr_iff record_id_parse_Inr [of "record_id_text L r"])

lemma to_envelope_key:
  "to_envelope L S r at prov = Inr e \<Longrightarrow> key L r = Inr (envelope_key e) \<and> re_revision e = at
     \<and> domain_validate r = Inr ()"
  by (auto simp: to_envelope_Inr_iff envelope_key_def)

lemma to_from_envelope:
  assumes "serde_lib_ok S" and "to_envelope L S r at prov = Inr e"
  shows "from_envelope L S e = Inr r"
  using assms(2) decode_record_encode [OF assms(1), of r]
  by (auto simp: to_envelope_Inr_iff from_envelope_def key_Inr_iff rbind_Inr_iff
      record_id_of_Inr_iff record_id_parse_Inr [of "record_id_text L r"] record_id_of_def
      map_err_Inr_iff)

lemma from_envelope_Inr:
  assumes "from_envelope L S e = Inr r"
  shows "key L r = Inr (envelope_key e)" and "domain_validate r = Inr ()"
  using assms decode_record_type [of S "re_record_type e" "re_payload e" r]
  by (auto simp: from_envelope_def rbind_Inr_iff key_def envelope_key_def split: if_splits)

text \<open>A decoded set has the keys of its envelopes, each record under its own key.\<close>

lemma decode_domain_records_Inr_iff:
  "decode_domain_records L S records = Inr ds \<longleftrightarrow>
     list_all2 (\<lambda>p q. fst q = fst p \<and> from_envelope L S (snd p) = Inr (snd q)) records ds"
  unfolding decode_domain_records_def rmapM_Inr_iff
  by (rule list.rel_cong) (auto simp: rbind_Inr_iff)

lemma decode_domain_records_keys:
  assumes "decode_domain_records L S records = Inr ds"
  shows "map fst ds = map fst records"
  using assms unfolding decode_domain_records_Inr_iff
  by (induction rule: list_all2_induct) auto

end
