(* ===== verification/Protocol.thy ===== *)
theory Protocol
  imports Codec "HOL-Library.Multiset"
begin

text \<open>
  Commands, events and change sets (\<open>protocol.rs\<close>).

  A command names the revision its sender saw. A change set is the outcome of one command: the
  records to write and delete at the next revision, with the events that explain them;
  \<open>record_ops\<close> turns it into the operations of one commit of the record log, and the lemmas here
  show that they are exactly such a commit, in key order.
\<close>

section \<open>Commands\<close>

datatype scene_transition_target =
    ExistingScene object_id
  | SceneDefinition content_definition_id

datatype skill_target_ref =
    SelfTarget
  | TargetObject object_id
  | TargetPlace object_id

datatype world_command_kind =
    Move object_id
  | TransferItem object_id object_id
  | EquipItem object_id content_definition_id
  | SplitStack object_id u32
  | UseSkill object_id skill_target_ref
  | AdvanceTime u64
  | SpawnCharacter character_spawn_spec
  | PromoteCharacter actor_id
  | TransitionScene scene_transition_target
  | CreateScene display_name short_text display_name short_text generated_origin
  | CreatePlace display_name short_text generated_origin
  | AppendTranscript "transcript_item_record list"
  | ChooseEventOption object_id content_definition_id
  | PerformGameplayAction content_definition_id "(content_definition_id, parameter_value) btree"

record world_command =
  wc_action_id :: action_id
  wc_actor_id :: actor_id
  wc_expected_revision :: revision
  wc_kind :: world_command_kind

section \<open>Events\<close>

datatype world_event_kind =
    CharacterMoved actor_id object_id object_id
  | ItemTransferred object_id object_id object_id
  | ItemEquipped object_id actor_id content_definition_id
  | StackSplit object_id object_id u32
  | SkillUsed object_id content_definition_id skill_target_ref
  | ClockAdvanced u64 u64
  | CharacterSpawned actor_id
  | CharacterPromoted actor_id
  | SceneLeft object_id
  | SceneEntered object_id
  | SceneCreated object_id object_id
  | PlaceCreated object_id object_id object_id
  | ConditionExpired object_id
  | ConditionTicked object_id world_time
  | ResourceChanged actor_id content_definition_id fixed
  | ConditionApplied actor_id content_definition_id object_id
  | ItemGranted actor_id object_id content_definition_id u32
  | SkillGranted actor_id object_id content_definition_id
  | ParameterChanged content_definition_id
  | GameplayActionPerformed content_definition_id
  | EventOptionChosen object_id content_definition_id
  | RuleTriggered content_definition_id short_text
  | DeclarativeEventEmitted short_text content_definition_id

record world_event =
  we_id :: event_id
  we_action_id :: action_id
  we_actor_id :: actor_id
  we_revision :: revision
  we_kind :: world_event_kind

section \<open>Change sets\<close>

record execution_change_set =
  cs_action_id :: action_id
  cs_expected_revision :: revision
  cs_revision :: revision
  cs_upserts :: "domain_record list"
  cs_deletes :: "record_key list"
  cs_events :: "world_event list"
  cs_safe_summary :: short_text

text \<open>The local variables of \<open>record_ops\<close>: the keys seen and the mutations collected.\<close>

type_synonym op_builder = "record_key list \<times> (record_key \<times> record_mutation) list"

definition change_set_provenance :: "execution_change_set \<Rightarrow> record_provenance option" where
  "change_set_provenance c =
     Some \<lparr>prov_action_id = Some (cs_action_id c), prov_mod_id = None, prov_definition_id = None\<rparr>"

definition push_upsert :: "uuid_lib \<Rightarrow> serde_lib \<Rightarrow> execution_change_set \<Rightarrow> op_builder \<Rightarrow> domain_record
    \<Rightarrow> domain_error + op_builder" where
  "push_upsert L S c acc r =
     rbind (key L r) (\<lambda>k.
       if bs_contains k (fst acc) then Inl (InvalidValue ''change_set.duplicate_record'')
       else rbind (to_envelope L S r (cs_revision c) (change_set_provenance c)) (\<lambda>e.
         Inr (bs_insort k (fst acc), snd acc @ [(k, Upsert e)])))"

definition push_delete :: "op_builder \<Rightarrow> record_key \<Rightarrow> domain_error + op_builder" where
  "push_delete acc k =
     (if bs_contains k (fst acc) then Inl (InvalidValue ''change_set.duplicate_record'')
      else Inr (bs_insort k (fst acc), snd acc @ [(k, DeleteRecord k)]))"

definition number_op :: "execution_change_set \<Rightarrow> nat \<times> (record_key \<times> record_mutation)
    \<Rightarrow> domain_error + versioned_record_op" where
  "number_op c p =
     (if fst p \<ge> 2 ^ 32 then Inl (InvalidValue ''change_set.operation_count'')
      else Inr \<lparr>op_revision = cs_revision c, op_action_id = cs_action_id c,
                op_order = of_nat (fst p), op_mutation = snd (snd p)\<rparr>)"

definition record_ops :: "uuid_lib \<Rightarrow> serde_lib \<Rightarrow> execution_change_set
    \<Rightarrow> domain_error + versioned_record_op list" where
  "record_ops L S c =
     rbind (rfold (push_upsert L S c) ([], []) (cs_upserts c)) (\<lambda>acc.
     rbind (rfold push_delete acc (cs_deletes c)) (\<lambda>acc'.
       rmapM (number_op c) (List.enumerate 0 (sort_key fst (snd acc')))))"

section \<open>Lemmas\<close>

definition mutation_key :: "record_mutation \<Rightarrow> record_key" where
  "mutation_key m = (case m of Upsert e \<Rightarrow> envelope_key e | DeleteRecord k \<Rightarrow> k)"

text \<open>What the builder collects: keyed mutations, without duplicates, in the order pushed.\<close>

definition builder_ok :: "op_builder \<Rightarrow> bool" where
  "builder_ok acc \<longleftrightarrow> distinct (map fst (snd acc)) \<and> set (fst acc) = fst ` set (snd acc)
     \<and> list_all (\<lambda>p. fst p = mutation_key (snd p)) (snd acc)"

lemma mutation_key_simps [simp]:
  "mutation_key (Upsert e) = envelope_key e"
  "mutation_key (DeleteRecord k) = k"
  by (simp_all add: mutation_key_def)

lemma builder_ok_push:
  assumes "builder_ok acc" and "k \<notin> set (fst acc)" and "mutation_key m = k"
  shows "builder_ok (bs_insort k (fst acc), snd acc @ [(k, m)])"
  using assms by (simp add: builder_ok_def)

lemma push_upsert_Inr:
  assumes "builder_ok acc" and "push_upsert L S c acc r = Inr acc'"
  shows "builder_ok acc' \<and> (\<exists>e. to_envelope L S r (cs_revision c) (change_set_provenance c) = Inr e
    \<and> map snd (snd acc') = map snd (snd acc) @ [Upsert e])"
  using assms(2) builder_ok_push [OF assms(1)]
  by (auto simp: push_upsert_def rbind_Inr_iff bs_contains_def dest: to_envelope_key
      split: if_splits)

lemma push_delete_Inr:
  assumes "builder_ok acc" and "push_delete acc k = Inr acc'"
  shows "builder_ok acc' \<and> map snd (snd acc') = map snd (snd acc) @ [DeleteRecord k]"
  using assms(2) builder_ok_push [OF assms(1), of k "DeleteRecord k"]
  by (auto simp: push_delete_def bs_contains_def split: if_splits)

lemma push_upserts_Inr:
  "builder_ok acc \<Longrightarrow> rfold (push_upsert L S c) acc rs = Inr acc' \<Longrightarrow>
    builder_ok acc' \<and> (\<exists>es. list_all2 (\<lambda>r e. to_envelope L S r (cs_revision c)
        (change_set_provenance c) = Inr e) rs es
      \<and> map snd (snd acc') = map snd (snd acc) @ map Upsert es)"
proof (induction rs arbitrary: acc)
  case Nil
  then show ?case by simp
next
  case (Cons r rs)
  then obtain acc1 where one: "push_upsert L S c acc r = Inr acc1"
    and rest: "rfold (push_upsert L S c) acc1 rs = Inr acc'"
    by (auto simp: rbind_Inr_iff)
  from push_upsert_Inr [OF Cons.prems(1) one] obtain e where acc1: "builder_ok acc1"
    and e: "to_envelope L S r (cs_revision c) (change_set_provenance c) = Inr e"
      "map snd (snd acc1) = map snd (snd acc) @ [Upsert e]" by blast
  from Cons.IH [OF acc1 rest] obtain es where
    "builder_ok acc'" "list_all2 (\<lambda>r e. to_envelope L S r (cs_revision c)
        (change_set_provenance c) = Inr e) rs es"
      "map snd (snd acc') = map snd (snd acc1) @ map Upsert es" by blast
  with e show ?case
    by (intro conjI exI [of _ "e # es"]) simp_all
qed

lemma push_deletes_Inr:
  "builder_ok acc \<Longrightarrow> rfold push_delete acc ks = Inr acc' \<Longrightarrow>
    builder_ok acc' \<and> map snd (snd acc') = map snd (snd acc) @ map DeleteRecord ks"
  by (induction ks arbitrary: acc) (fastforce simp: rbind_Inr_iff dest: push_delete_Inr)+

lemma number_ops_Inr:
  "rmapM (number_op c) (List.enumerate n ps) = Inr ops \<Longrightarrow>
    ops = map (commit_op (cs_revision c) (cs_action_id c)) (List.enumerate n (map snd ps))
    \<and> (ps \<noteq> [] \<longrightarrow> n + length ps \<le> 2 ^ 32)"
  by (induction ps arbitrary: n ops)
    (fastforce simp: rbind_Inr_iff number_op_def commit_op_def split: if_splits)+

text \<open>The mutations of a change set: one upsert per record, one deletion per key.\<close>

definition change_set_mutations :: "uuid_lib \<Rightarrow> serde_lib \<Rightarrow> execution_change_set
    \<Rightarrow> record_mutation list \<Rightarrow> bool" where
  "change_set_mutations L S c ms \<longleftrightarrow>
     (\<exists>es. list_all2 (\<lambda>r e. to_envelope L S r (cs_revision c) (change_set_provenance c) = Inr e)
         (cs_upserts c) es
      \<and> mset ms = mset (map Upsert es @ map DeleteRecord (cs_deletes c)))"

lemma record_ops_commit:
  assumes "record_ops L S c = Inr ops"
  shows "\<exists>ms. ops = commit_ops (cs_revision c) (cs_action_id c) ms
    \<and> change_set_mutations L S c ms \<and> sorted_wrt (<) (map mutation_key ms)
    \<and> length ms \<le> 2 ^ 32"
proof -
  from assms obtain acc1 acc2 where
    u: "rfold (push_upsert L S c) ([], []) (cs_upserts c) = Inr acc1"
    and d: "rfold push_delete acc1 (cs_deletes c) = Inr acc2"
    and n: "rmapM (number_op c) (List.enumerate 0 (sort_key fst (snd acc2))) = Inr ops"
    by (auto simp: record_ops_def rbind_Inr_iff)
  have "builder_ok ([], [])"
    by (simp add: builder_ok_def)
  from push_upserts_Inr [OF this u] obtain es where acc1: "builder_ok acc1"
    and es: "list_all2 (\<lambda>r e. to_envelope L S r (cs_revision c) (change_set_provenance c) = Inr e)
      (cs_upserts c) es" "map snd (snd acc1) = map Upsert es" by auto
  from push_deletes_Inr [OF acc1 d] have acc2: "builder_ok acc2"
    and all: "map snd (snd acc2) = map Upsert es @ map DeleteRecord (cs_deletes c)"
    using es(2) by auto
  let ?ms = "map snd (sort_key fst (snd acc2))"
  have "mset ?ms = mset (map snd (snd acc2))"
    by (metis mset_map mset_sort)
  then have m: "change_set_mutations L S c ?ms"
    using es(1) all by (auto simp: change_set_mutations_def)
  have keys: "map mutation_key ?ms = map fst (sort_key fst (snd acc2))"
    using acc2 by (auto simp: builder_ok_def list_all_iff)
  have "length ?ms \<le> 2 ^ 32"
    using number_ops_Inr [OF n] by (cases "sort_key fst (snd acc2)") simp_all
  have "distinct (map fst (sort_key fst (snd acc2)))"
    using acc2 mset_eq_imp_distinct_iff [of "map fst (sort_key fst (snd acc2))" "map fst (snd acc2)"]
    by (simp add: builder_ok_def)
  then have "sorted_wrt (<) (map mutation_key ?ms)"
    unfolding keys by (simp add: strict_sorted_iff)
  with number_ops_Inr [OF n] m \<open>length ?ms \<le> 2 ^ 32\<close> show ?thesis
    by (intro exI [of _ ?ms] conjI) (simp_all add: commit_ops_def)
qed

end
