(* ===== verification/Persistence.thy ===== *)
theory Persistence
  imports Domain
begin

text \<open>
  The lock files of a save (\<open>persistence.rs\<close>): which mods, at which versions, in which order.

  A \<open>semver\<close> version is its canonical text; the code here only compares versions for equality. The
  main lemma characterises \<open>ModLock::validate\<close>: it accepts exactly the locks whose mods are
  distinct and topologically ordered by their dependencies.
\<close>

definition SAVE_FORMAT_V1 :: u32 where
  "SAVE_FORMAT_V1 = 1"

datatype persistence_error =
    UnsupportedSaveFormat
  | InvalidModLock string
  | InvalidWorldLock string
  | PersistenceIdentity identity_error

datatype mod_source_kind = Builtin | Directory

type_synonym version = string

record locked_dependency =
  ld_mod_id :: mod_id
  ld_version :: version
  ld_optional :: bool

record locked_mod =
  lm_mod_id :: mod_id
  lm_version :: version
  lm_content_hash :: content_hash
  lm_manifest_schema :: u32
  lm_content_schema :: u32
  lm_source_kind :: mod_source_kind
  lm_dependencies :: "locked_dependency list"
  lm_applied_patches :: "content_definition_id list"

type_synonym mod_lock = "locked_mod list"

record world_lock =
  wl_world_id :: mod_id
  wl_version :: version
  wl_content_hash :: content_hash
  wl_manifest_schema :: u32
  wl_content_schema :: u32

record save_manifest =
  sm_format_version :: u32
  sm_save_id :: save_id
  sm_world_id :: world_id
  sm_world_lock :: world_lock
  sm_mod_lock :: mod_lock

section \<open>Validation\<close>

definition world_lock_validate :: "world_lock \<Rightarrow> persistence_error + unit" where
  "world_lock_validate w =
     (if wl_manifest_schema w = 0 then Inl (InvalidWorldLock ''manifest_schema'')
      else if wl_content_schema w = 0 then Inl (InvalidWorldLock ''content_schema'')
      else Inr ())"

definition insert_position :: "(mod_id, nat) btree \<Rightarrow> nat \<times> locked_mod
    \<Rightarrow> persistence_error + (mod_id, nat) btree" where
  "insert_position positions p =
     (if bt_contains (lm_mod_id (snd p)) positions then Inl (InvalidModLock ''duplicate_mod'')
      else Inr (bt_insert (lm_mod_id (snd p)) (fst p) positions))"

definition mod_positions :: "mod_lock \<Rightarrow> persistence_error + (mod_id, nat) btree" where
  "mod_positions mods = rfold insert_position [] (List.enumerate 0 mods)"

fun validate_dependencies :: "mod_lock \<Rightarrow> (mod_id, nat) btree \<Rightarrow> nat \<Rightarrow> mod_id option
    \<Rightarrow> locked_dependency list \<Rightarrow> persistence_error + unit" where
  "validate_dependencies mods positions index previous [] = Inr ()"
| "validate_dependencies mods positions index previous (d # ds) =
     (if (case previous of None \<Rightarrow> False | Some p \<Rightarrow> p \<ge> ld_mod_id d)
      then Inl (InvalidModLock ''dependency_order'')
      else
        rbind (case bt_get (ld_mod_id d) positions of
                 Some dependency_index \<Rightarrow>
                   if dependency_index < index
                   then (if lm_version (mods ! dependency_index) \<noteq> ld_version d
                         then Inl (InvalidModLock ''dependency_version'') else Inr ())
                   else Inl (InvalidModLock ''dependency_topology'')
               | None \<Rightarrow>
                   if \<not> ld_optional d then Inl (InvalidModLock ''required_dependency'') else Inr ())
          (\<lambda>_. validate_dependencies mods positions index (Some (ld_mod_id d)) ds))"

fun validate_patches :: "mod_id \<Rightarrow> content_definition_id list \<Rightarrow> content_definition_id list
    \<Rightarrow> persistence_error + unit" where
  "validate_patches m patches [] = Inr ()"
| "validate_patches m patches (p # ps) =
     rbind (map_err PersistenceIdentity (content_mod_id p)) (\<lambda>pm.
       if pm \<noteq> m \<or> bs_contains p patches then Inl (InvalidModLock ''applied_patch'')
       else validate_patches m (bs_insort p patches) ps)"

definition validate_locked :: "mod_lock \<Rightarrow> (mod_id, nat) btree \<Rightarrow> nat \<times> locked_mod
    \<Rightarrow> persistence_error + unit" where
  "validate_locked mods positions p =
     (let index = fst p; locked = snd p in
      if lm_manifest_schema locked = 0 \<or> lm_content_schema locked = 0
      then Inl (InvalidModLock ''schema_version'')
      else rbind (validate_dependencies mods positions index None (lm_dependencies locked)) (\<lambda>_.
        validate_patches (lm_mod_id locked) [] (lm_applied_patches locked)))"

definition mod_lock_validate :: "mod_lock \<Rightarrow> persistence_error + unit" where
  "mod_lock_validate mods =
     rbind (mod_positions mods) (\<lambda>positions.
       rforeach (validate_locked mods positions) (List.enumerate 0 mods))"

definition save_manifest_validate :: "save_manifest \<Rightarrow> persistence_error + unit" where
  "save_manifest_validate m =
     (if sm_format_version m \<noteq> SAVE_FORMAT_V1 then Inl UnsupportedSaveFormat
      else rbind (world_lock_validate (sm_world_lock m)) (\<lambda>_. mod_lock_validate (sm_mod_lock m)))"

section \<open>The contract of a mod lock\<close>

text \<open>A dependency of the mod at \<open>i\<close> is an earlier mod of the lock at exactly the recorded
  version; only an optional one may be absent from the lock.\<close>

definition dependency_ok :: "mod_lock \<Rightarrow> nat \<Rightarrow> locked_dependency \<Rightarrow> bool" where
  "dependency_ok mods i d \<longleftrightarrow>
     (\<exists>j<i. lm_mod_id (mods ! j) = ld_mod_id d \<and> lm_version (mods ! j) = ld_version d)
     \<or> ld_optional d \<and> ld_mod_id d \<notin> lm_mod_id ` set mods"

definition locked_ok :: "mod_lock \<Rightarrow> nat \<Rightarrow> bool" where
  "locked_ok mods i \<longleftrightarrow>
     (let m = mods ! i in
      lm_manifest_schema m \<noteq> 0 \<and> lm_content_schema m \<noteq> 0
      \<and> sorted_wrt (<) (map ld_mod_id (lm_dependencies m))
      \<and> (\<forall>d\<in>set (lm_dependencies m). dependency_ok mods i d)
      \<and> distinct (lm_applied_patches m)
      \<and> (\<forall>p\<in>set (lm_applied_patches m). content_mod_id p = Inr (lm_mod_id m)))"

lemma insert_position_Inr_iff [res_inv]:
  "insert_position ps p = Inr ps' \<longleftrightarrow>
     bt_get (lm_mod_id (snd p)) ps = None \<and> ps' = bt_insert (lm_mod_id (snd p)) (fst p) ps"
  by (auto simp: insert_position_def bt_contains_get)

lemma mod_positions_aux:
  "rfold insert_position acc (List.enumerate n mods) = Inr ps
   \<Longrightarrow> distinct (map lm_mod_id mods) \<and> (\<forall>m\<in>set mods. bt_get (lm_mod_id m) acc = None)
     \<and> (\<forall>k. bt_get k ps = (case bt_get k acc of Some i \<Rightarrow> Some i
          | None \<Rightarrow> map_of (zip (map lm_mod_id mods) [n..<n + length mods]) k))"
proof (induction mods arbitrary: n acc)
  case Nil
  then show ?case by (auto split: option.splits)
next
  case (Cons m mods)
  then have c: "bt_get (lm_mod_id m) acc = None"
    and rest: "rfold insert_position (bt_insert (lm_mod_id m) n acc)
        (List.enumerate (Suc n) mods) = Inr ps"
    by (auto simp: rbind_Inr_iff insert_position_Inr_iff)
  have "[n..<n + length (m # mods)] = n # [Suc n..<Suc n + length mods]"
    by (simp add: upt_rec)
  then show ?case
    using Cons.IH [OF rest] c by (auto split: option.splits if_splits)
qed

lemma mod_positions_distinct_aux:
  "distinct (map lm_mod_id mods) \<Longrightarrow> (\<forall>m\<in>set mods. bt_get (lm_mod_id m) acc = None) \<Longrightarrow>
    is_ok (rfold insert_position acc (List.enumerate n mods))"
proof (induction mods arbitrary: n acc)
  case (Cons m mods)
  then have "insert_position acc (n, m) = Inr (bt_insert (lm_mod_id m) n acc)"
    by (simp add: insert_position_Inr_iff)
  moreover have "\<forall>x\<in>set mods. bt_get (lm_mod_id x) (bt_insert (lm_mod_id m) n acc) = None"
    using Cons.prems by (auto simp: image_iff)
  ultimately show ?case
    using Cons.IH Cons.prems(1) by simp
qed simp

lemma mod_positions_distinct: "distinct (map lm_mod_id mods) \<Longrightarrow> is_ok (mod_positions mods)"
  unfolding mod_positions_def by (rule mod_positions_distinct_aux) simp_all

lemma mod_positions_get:
  assumes "mod_positions mods = Inr ps"
  shows "bt_get k ps = Some j \<longleftrightarrow> j < length mods \<and> lm_mod_id (mods ! j) = k"
    and "distinct (map lm_mod_id mods)"
proof -
  note aux = mod_positions_aux [of "[]" 0 mods ps, folded mod_positions_def, OF assms]
  then show d: "distinct (map lm_mod_id mods)" by simp
  have "bt_get k ps = map_of (zip (map lm_mod_id mods) [0..<length mods]) k"
    using aux by simp
  moreover have "distinct (map fst (zip (map lm_mod_id mods) [0..<length mods]))"
    using d by simp
  ultimately show "bt_get k ps = Some j \<longleftrightarrow> j < length mods \<and> lm_mod_id (mods ! j) = k"
    using map_of_eq_Some_iff [of "zip (map lm_mod_id mods) [0..<length mods]" k j]
    by (auto simp: in_set_zip intro!: exI [of _ j])
qed

lemma validate_dependencies_Inr_iff:
  assumes "mod_positions mods = Inr ps" and "i < length mods"
  shows "validate_dependencies mods ps i prev ds = Inr () \<longleftrightarrow>
     sorted_wrt (<) (map ld_mod_id ds)
     \<and> (\<forall>p. prev = Some p \<longrightarrow> ds \<noteq> [] \<longrightarrow> p < ld_mod_id (hd ds))
     \<and> (\<forall>d\<in>set ds. dependency_ok mods i d)"
proof (induction ds arbitrary: prev)
  case Nil
  then show ?case by simp
next
  case (Cons d ds)
  have dep: "(case bt_get (ld_mod_id d) ps of
        Some j \<Rightarrow> j < i \<and> lm_version (mods ! j) = ld_version d | None \<Rightarrow> ld_optional d)
      \<longleftrightarrow> dependency_ok mods i d"
  proof (cases "bt_get (ld_mod_id d) ps")
    case None
    then have "ld_mod_id d \<notin> lm_mod_id ` set mods"
      using mod_positions_get(1) [OF assms(1), of "ld_mod_id d"] by (force simp: in_set_conv_nth)
    moreover from this have "lm_mod_id (mods ! j) \<noteq> ld_mod_id d" if "j < i" for j
      using assms(2) that by (metis imageI less_trans nth_mem)
    ultimately show ?thesis
      using None by (auto simp: dependency_ok_def)
  next
    case (Some j)
    then have j: "j < length mods" "lm_mod_id (mods ! j) = ld_mod_id d"
      using mod_positions_get(1) [OF assms(1)] by auto
    have unique: "lm_mod_id (mods ! j') = ld_mod_id d \<longleftrightarrow> j' = j" if "j' < i" for j'
      using that assms(2) j mod_positions_get(1) [OF assms(1), of "ld_mod_id d" j'] Some by auto
    have "ld_mod_id d \<in> lm_mod_id ` set mods"
      using j by (metis imageI nth_mem)
    then have "dependency_ok mods i d \<longleftrightarrow> j < i \<and> lm_version (mods ! j) = ld_version d"
      using unique unfolding dependency_ok_def by blast
    then show ?thesis
      using Some by simp
  qed
  have step: "validate_dependencies mods ps i prev (d # ds) = Inr () \<longleftrightarrow>
      (\<forall>p. prev = Some p \<longrightarrow> p < ld_mod_id d) \<and> dependency_ok mods i d
      \<and> validate_dependencies mods ps i (Some (ld_mod_id d)) ds = Inr ()"
    unfolding dep [symmetric]
    by (cases prev; cases "bt_get (ld_mod_id d) ps") (auto simp: rbind_Inr_iff)
  have "(\<forall>x\<in>set ds. ld_mod_id d < ld_mod_id x) \<longleftrightarrow> ds = [] \<or> ld_mod_id d < ld_mod_id (hd ds)"
    if "sorted_wrt (<) (map ld_mod_id ds)"
    using that by (cases ds) auto
  then show ?case
    unfolding step Cons.IH by (cases ds) auto
qed

lemma validate_patches_Inr_iff:
  "validate_patches m seen ps = Inr () \<longleftrightarrow>
     distinct ps \<and> set ps \<inter> set seen = {} \<and> (\<forall>p\<in>set ps. content_mod_id p = Inr m)"
  by (induction m seen ps rule: validate_patches.induct)
    (auto simp: rbind_Inr_iff map_err_Inr_iff bs_contains_def)

lemma mod_lock_validate_Inr_iff:
  "mod_lock_validate mods = Inr () \<longleftrightarrow>
     distinct (map lm_mod_id mods) \<and> (\<forall>i<length mods. locked_ok mods i)"
proof -
  have "validate_locked mods ps (i, mods ! i) = Inr () \<longleftrightarrow> locked_ok mods i"
    if "mod_positions mods = Inr ps" "i < length mods" for ps i
    using validate_dependencies_Inr_iff [OF that, of None]
    by (auto simp: validate_locked_def locked_ok_def Let_def rbind_Inr_iff validate_patches_Inr_iff)
  moreover have "set (List.enumerate 0 mods) = (\<lambda>i. (i, mods ! i)) ` {..<length mods}"
    by (auto simp: in_set_enumerate_eq image_iff)
  ultimately show ?thesis
    using mod_positions_get(2) [of mods] mod_positions_distinct [of mods]
    by (auto simp: mod_lock_validate_def rbind_Inr_iff rforeach_Inr_iff is_ok_iff)
qed

end
