(* ===== verification/Core_Properties.thy ===== *)
theory Core_Properties
  imports Protocol Persistence
begin

text \<open>
  The properties of \<open>loreloom-core\<close>: fixed-point arithmetic, identifiers, the record log, envelopes,
  change sets and lock files, each with a witness where it has a hypothesis. The concrete library
  instances the witnesses need (a hexadecimal UUID library, table-driven serialisers) come first.
\<close>

section \<open>Concrete libraries for the witnesses\<close>

definition hex_digit :: "nat \<Rightarrow> char" where
  "hex_digit n = char_of (if n < 10 then 48 + n else 87 + n)"

definition hex_digit_value :: "char \<Rightarrow> nat" where
  "hex_digit_value c = (if byte c < 58 then byte c - 48 else byte c - 87)"

fun hex_text :: "nat \<Rightarrow> nat \<Rightarrow> string" where
  "hex_text 0 n = []"
| "hex_text (Suc k) n = hex_text k (n div 16) @ [hex_digit (n mod 16)]"

definition hex_value :: "string \<Rightarrow> nat" where
  "hex_value s = foldl (\<lambda>v c. 16 * v + hex_digit_value c) 0 s"

definition hyphenate :: "string \<Rightarrow> string" where
  "hyphenate s = take 8 s @ ''-'' @ take 4 (drop 8 s) @ ''-'' @ take 4 (drop 12 s) @ ''-''
     @ take 4 (drop 16 s) @ ''-'' @ drop 20 s"

definition hex_uuid_lib :: uuid_lib where
  "hex_uuid_lib = \<lparr>get_variant_is_rfc4122 = (\<lambda>u. unat u div 2 ^ 62 mod 4 = 2),
     get_version_num = (\<lambda>u. unat u div 2 ^ 76 mod 16),
     hyphenated = (\<lambda>u. hyphenate (hex_text 32 (unat u))),
     parse_str = (\<lambda>s. Some (of_nat (hex_value (filter (\<lambda>c. c \<noteq> CHR ''-'') s))))\<rparr>"

lemma hex_digit_props:
  assumes "n < 16"
  shows "hex_digit_value (hex_digit n) = n" and "hex_digit n \<noteq> CHR ''-''"
    and "is_ascii_lowercase (hex_digit n) \<or> is_ascii_digit (hex_digit n)"
proof -
  have "list_all (\<lambda>n. hex_digit_value (hex_digit n) = n \<and> hex_digit n \<noteq> CHR ''-''
      \<and> (is_ascii_lowercase (hex_digit n) \<or> is_ascii_digit (hex_digit n))) [0..<16]"
    by code_simp
  then show "hex_digit_value (hex_digit n) = n" and "hex_digit n \<noteq> CHR ''-''"
    and "is_ascii_lowercase (hex_digit n) \<or> is_ascii_digit (hex_digit n)"
    using assms by (simp_all add: list_all_iff del: upt_Suc)
qed

lemma hex_text_length [simp]: "length (hex_text k n) = k"
  by (induction k arbitrary: n) simp_all

lemma hex_text_chars:
  "c \<in> set (hex_text k n) \<Longrightarrow> c \<noteq> CHR ''-'' \<and> (is_ascii_lowercase c \<or> is_ascii_digit c)"
proof (induction k arbitrary: n)
  case (Suc k)
  then show ?case
    using hex_digit_props(2,3) [of "n mod 16"] by auto
qed simp

lemma hex_value_text: "n < 16 ^ k \<Longrightarrow> hex_value (hex_text k n) = n"
proof (induction k arbitrary: n)
  case (Suc k)
  then have "n div 16 < 16 ^ k"
    by (simp add: less_mult_imp_div_less)
  with Suc.IH [of "n div 16"] show ?case
    by (simp add: hex_value_def hex_digit_props)
qed (simp add: hex_value_def)

lemma hyphenate_filter:
  assumes "CHR ''-'' \<notin> set s"
  shows "filter (\<lambda>c. c \<noteq> CHR ''-'') (hyphenate s) = s"
proof -
  have keep: "filter (\<lambda>c. c \<noteq> CHR ''-'') t = t" if "set t \<subseteq> set s" for t
    using that assms by (auto intro: filter_True)
  have step: "take 4 (drop m s) @ drop (m + 4) s = drop m s" for m
    using append_take_drop_id [of 4 "drop m s"] by (simp add: add.commute)
  have "filter (\<lambda>c. c \<noteq> CHR ''-'') (hyphenate s)
      = take 8 s @ take 4 (drop 8 s) @ take 4 (drop 12 s) @ take 4 (drop 16 s) @ drop 20 s"
    unfolding hyphenate_def
    by (simp add: keep set_take_subset set_drop_subset order_trans [OF set_take_subset])
  also have "\<dots> = s"
    using step [of 8] step [of 12] step [of 16] by simp
  finally show ?thesis .
qed

lemma hyphenate_chars:
  assumes "c \<in> set (hyphenate (hex_text k n))"
  shows "c = CHR ''-'' \<or> is_ascii_lowercase c \<or> is_ascii_digit c"
proof -
  have "set (hyphenate s) \<subseteq> insert (CHR ''-'') (set s)" for s
    by (auto simp: hyphenate_def dest: in_set_takeD in_set_dropD)
  with assms show ?thesis
    using hex_text_chars [of c k n] by auto
qed

lemma hyphenate_length: "length s = 32 \<Longrightarrow> length (hyphenate s) = 36"
  by (simp add: hyphenate_def)

lemma hex_uuid_lib_ok: "uuid_lib_ok hex_uuid_lib"
proof -
  have "CHR ''-'' \<notin> set (hex_text 32 n)" for n
    using hex_text_chars [of "CHR ''-''" 32 n] by auto
  moreover have "unat (u :: uuid) < 16 ^ 32" for u
    using unsigned_less [of u, where 'a = nat] by simp
  moreover have "\<not> list_ex is_ascii_uppercase (hyphenate (hex_text 32 n))" for n
    using hyphenate_chars [of _ 32 n]
    by (fastforce simp: list_ex_iff is_ascii_uppercase_def is_ascii_lowercase_def is_ascii_digit_def
        byte_def)
  ultimately show ?thesis
    by (simp add: uuid_lib_ok_def hex_uuid_lib_def hyphenate_filter hex_value_text hyphenate_length)
qed

text \<open>A UUID of version 7, and one of version 4.\<close>

definition uuid_7 :: uuid where
  "uuid_7 = of_nat (7 * 2 ^ 76 + 2 * 2 ^ 62 + 1)"

definition uuid_7b :: uuid where
  "uuid_7b = of_nat (7 * 2 ^ 76 + 2 * 2 ^ 62 + 2)"

text \<open>A serialiser that knows the values of a table.\<close>

definition table_codec :: "('a \<times> json) list \<Rightarrow> 'a codec" where
  "table_codec ps = Codec
     (\<lambda>x. case map_of ps x of None \<Rightarrow> Inl ''unknown value'' | Some v \<Rightarrow> Inr v)
     (\<lambda>v. case map_of (map (\<lambda>(x, v). (v, x)) ps) v of None \<Rightarrow> Inl ''unknown text''
          | Some x \<Rightarrow> Inr x)"

lemma table_codec_ok: "length ps \<le> 1 \<Longrightarrow> codec_ok (table_codec ps)"
  by (cases ps) (auto simp: codec_ok_def table_codec_def split: option.splits if_splits)

section \<open>Numbers\<close>

text \<open>C37. Fixed-point products and quotients are exact: the operations return the millionths nearest
  to the rational result, ties to even, whenever that fits in an \<open>i64\<close>, and fail otherwise; a
  quotient also fails on a zero divisor.\<close>

theorem fixed_mul_div_half_even:
  "(fixed_mul a b = Inr c \<longleftrightarrow> half_even (micros a * micros b) SCALE (micros c))
    \<and> (fixed_div a b = Inr c \<longleftrightarrow> micros b \<noteq> 0 \<and> half_even (micros a * SCALE) (micros b) (micros c))"
  by (simp add: fixed_mul_Inr_iff fixed_div_Inr_iff)

section \<open>Identifiers\<close>

text \<open>C36. A runtime identifier is parsed from exactly one text: the parser accepts a string as the
  identifier \<open>i\<close> if and only if the UUID of \<open>i\<close> is a version-7 UUID and the string is the printed
  form of \<open>i\<close>.\<close>

theorem runtime_id_text_exact:
  fixes i :: "'k runtime_id"
  assumes "uuid_lib_ok L" and "length prefix = 3"
  shows "runtime_id_from_str L prefix s = Inr i
    \<longleftrightarrow> is_uuid_v7 L (as_uuid i) \<and> s = runtime_id_to_string L prefix i"
proof
  assume "runtime_id_from_str L prefix s = Inr i"
  then have len: "length s = 40" and pre: "take 3 s = prefix" and sep: "s ! 3 = CHR ''_''"
    and hyp: "hyphenated L (as_uuid i) = drop 4 s" and v7: "is_uuid_v7 L (as_uuid i)"
    using assms(2)
    by (auto simp: runtime_id_from_str_def parse_prefixed_def rbind_Inr_iff ok_or_Inr_iff Let_def
        PREFIXED_ID_LEN_def is_uuid_v7_def split: if_splits)
  have "s = take 3 s @ s ! 3 # drop (Suc 3) s"
    using len by (intro id_take_nth_drop) simp
  with pre sep hyp v7 show "is_uuid_v7 L (as_uuid i) \<and> s = runtime_id_to_string L prefix i"
    by (simp add: runtime_id_to_string_def)
next
  assume r: "is_uuid_v7 L (as_uuid i) \<and> s = runtime_id_to_string L prefix i"
  have "parse_str L (hyphenated L (as_uuid i)) = Some (as_uuid i)"
    "length (hyphenated L (as_uuid i)) = 36"
    "\<not> list_ex is_ascii_uppercase (hyphenated L (as_uuid i))"
    using assms(1) by (simp_all add: uuid_lib_ok_def)
  with r assms(2) show "runtime_id_from_str L prefix s = Inr i"
    by (cases i) (simp add: runtime_id_from_str_def parse_prefixed_def runtime_id_to_string_def
        PREFIXED_ID_LEN_def UUID_TEXT_LEN_def is_uuid_v7_def nth_append)
qed

lemma runtime_id_text_exact_witness:
  "runtime_id_from_str hex_uuid_lib OBJ
      (runtime_id_to_string hex_uuid_lib OBJ (RuntimeId uuid_7 :: object_id))
    = Inr (RuntimeId uuid_7 :: object_id)"
proof -
  have "is_uuid_v7 hex_uuid_lib (as_uuid (RuntimeId uuid_7 :: object_id))"
    by (simp add: is_uuid_v7_def hex_uuid_lib_def uuid_7_def)
  then show ?thesis
    using runtime_id_text_exact [OF hex_uuid_lib_ok, of OBJ _ "RuntimeId uuid_7 :: object_id"]
    by (simp add: OBJ_def)
qed

text \<open>C40. A content identifier that parses is made of a module, a kind and a key, each valid, and the
  accessors give exactly those parts back.\<close>

theorem content_id_parts:
  assumes "content_id_parse s = Inr i"
  shows "\<exists>m kind k. s = mod_id_str m @ '':'' @ kind @ ''/'' @ k
    \<and> content_mod_id i = Inr m \<and> content_kind i = Inr kind \<and> content_local_key i = Inr k
    \<and> content_kind_ok kind \<and> content_key_ok k \<and> mod_id_parse (mod_id_str m) = Inr m"
proof -
  from assms obtain m kind k where i: "i = ContentDefinitionId s"
    and s: "s = m @ CHR '':'' # kind @ CHR ''/'' # k"
    and ok: "is_ok (mod_id_parse m)" "content_kind_ok kind" "content_key_ok k"
    unfolding content_id_parse_Inr_iff by blast
  have "CHR ''/'' \<notin> set kind"
    using ok(2) by (auto simp: content_kind_ok_def list_all_iff is_ascii_lowercase_def
        is_ascii_digit_def byte_def)
  then have "split_once (CHR ''/'') (kind @ CHR ''/'' # k) = Some (kind, k)"
    by (rule split_once_append)
  moreover have "split_once (CHR '':'') s = Some (m, kind @ CHR ''/'' # k)"
    unfolding s using mod_id_no_colon [OF ok(1)] by (rule split_once_append)
  moreover have "mod_id_parse m = Inr (ModId m)"
    using ok(1) by (auto simp: mod_id_parse_def Let_def split: if_splits)
  ultimately show ?thesis
    using ok s by (intro exI [of _ "ModId m"] exI [of _ kind] exI [of _ k])
      (simp add: i content_mod_id_def content_kind_def content_local_key_def)
qed

lemma content_id_parts_witness:
  "\<exists>m kind k. ''loreloom.core:item/iron-sword'' = mod_id_str m @ '':'' @ kind @ ''/'' @ k
    \<and> content_kind (ContentDefinitionId ''loreloom.core:item/iron-sword'') = Inr kind
    \<and> mod_id_parse (mod_id_str m) = Inr m"
proof -
  have "content_id_parse ''loreloom.core:item/iron-sword''
      = Inr (ContentDefinitionId ''loreloom.core:item/iron-sword'')"
    by code_simp
  from content_id_parts [OF this] show ?thesis by blast
qed

section \<open>Migrations\<close>

text \<open>A registry is built by registering record types and single-version steps, from empty.\<close>

inductive registry_built :: "migration_registry \<Rightarrow> bool" where
  built_default: "registry_built migration_registry_default"
| built_type: "registry_built R \<Longrightarrow> register_record_type ty v R = Inr R' \<Longrightarrow> registry_built R'"
| built_step: "registry_built R \<Longrightarrow> register_migration step R = Inr R' \<Longrightarrow> registry_built R'"

lemma registry_built_ok: "registry_built R \<Longrightarrow> registry_ok R"
  by (induction rule: registry_built.induct)
    (auto intro: registry_ok_default registry_ok_register_record_type registry_ok_register_migration)

text \<open>C34. Upgrading ends, whatever the steps do: with a registry built by registration, \<open>upgrade\<close>
  returns; when it returns an envelope, that envelope is at the registered version of its type,
  under the same key and revision, and its payload is the old one or passed validation.\<close>

theorem upgrade_returns:
  assumes "registry_built R"
  shows "\<exists>r. upgrade N R e = Some r
    \<and> (\<forall>e'. r = Inr e' \<longrightarrow>
         bt_get (re_record_type e) (mr_current R) = Some (re_schema_version e')
         \<and> envelope_key e' = envelope_key e \<and> re_revision e' = re_revision e
         \<and> (e' = e \<or> validate_payload N (re_payload e') = Inr ()))"
  using upgrade_loop_terminates [OF registry_built_ok [OF assms], of e _ N]
  by (fastforce simp: upgrade_def not_less upgraded_def split: option.splits)

definition rename_step :: migration_step where
  "rename_step = \<lparr>ms_record_type = RecordType ''goal'', ms_from = SchemaVersion 1,
     ms_to = SchemaVersion 2, ms_migrate = (\<lambda>_. Inr (JObject [(''title'', JString ''x'')]))\<rparr>"

definition goal_envelope :: "u32 \<Rightarrow> u64 \<Rightarrow> record_envelope" where
  "goal_envelope v r = \<lparr>re_record_type = RecordType ''goal'', re_schema_version = SchemaVersion v,
     re_record_id = RecordId ''obj_1'', re_revision = Revision r, re_payload = JObject [],
     re_provenance = None\<rparr>"

definition goal_registry :: migration_registry where
  "goal_registry = \<lparr>mr_current = [(RecordType ''goal'', SchemaVersion 2)],
     mr_steps = [((RecordType ''goal'', SchemaVersion 1), rename_step)]\<rparr>"

lemma upgrade_returns_witness: "\<forall>N. \<exists>r. upgrade N goal_registry (goal_envelope 1 0) = Some r"
proof
  fix N
  have "register_record_type (RecordType ''goal'') (SchemaVersion 2) migration_registry_default
      = Inr \<lparr>mr_current = [(RecordType ''goal'', SchemaVersion 2)], mr_steps = []\<rparr>"
    by (simp add: register_record_type_def migration_registry_default_def bt_contains_def
        bt_insert_def bt_remove_def)
  moreover have "register_migration rename_step
      \<lparr>mr_current = [(RecordType ''goal'', SchemaVersion 2)], mr_steps = []\<rparr> = Inr goal_registry"
    by (simp add: register_migration_def rename_step_def goal_registry_def bt_contains_def
        bt_insert_def bt_remove_def schema_version_next_def schema_version_new_def checked_add_def)
  ultimately have "registry_built goal_registry"
    by (blast intro: registry_built.intros)
  from upgrade_returns [OF this]
  show "\<exists>r. upgrade N goal_registry (goal_envelope 1 0) = Some r" by blast
qed

section \<open>The record log\<close>

text \<open>C15. A replay succeeds exactly on a checkpoint without duplicate keys or later records, followed by
  a log that is a sequence of non-empty commits, one per revision, each with one action and
  consecutive orders; and it returns the last revision with the mutations applied in order.\<close>

theorem rebuild_records_exact:
  "rebuild_records r cp ops = Inr (r', recs) \<longleftrightarrow>
     list_all (\<lambda>e. re_revision e \<le> r) cp \<and> distinct (map envelope_key cp)
     \<and> (\<exists>cs. ops = commit_log r cs \<and> list_all commit_ok cs
          \<and> unat (revision_get r) + length cs < 2 ^ 64 \<and> r' = revision_add r (length cs)
          \<and> apply_commits r (bt_of_list (map (\<lambda>e. (envelope_key e, e)) cp)) cs = Inr recs)"
  by (auto simp: rebuild_records_Inr_iff load_checkpoint_Inr_iff list_all_iff)

text \<open>C32. What a replay returns: every record is stored under its own key at a revision no later than
  the returned one, and the lookups are those of the checkpoint with every upsert and deletion of
  the log done in order.\<close>

theorem rebuild_records_contents:
  assumes "rebuild_records r cp ops = Inr (r', recs)"
  shows "records_ok r' recs
    \<and> (\<lambda>k. bt_get k recs) = fold mutation_effect (map op_mutation ops)
         (\<lambda>k. bt_get k (bt_of_list (map (\<lambda>e. (envelope_key e, e)) cp)))"
proof -
  from assms obtain base cs where base: "load_checkpoint r cp = Inr base"
    and cs: "ops = commit_log r cs" "unat (revision_get r) + length cs < 2 ^ 64"
      "r' = revision_add r (length cs)" "apply_commits r base cs = Inr recs"
    by (auto simp: rebuild_records_Inr_iff)
  have "map op_mutation (commit_ops q a ms) = ms" for q a ms
    by (simp add: commit_ops_def commit_op_def comp_def)
  then have "map op_mutation (commit_log q cs) = concat (map snd cs)" for q
    by (induction q cs rule: commit_log.induct) simp_all
  with base cs records_ok_commits [OF records_ok_checkpoint [OF base] cs(2,4)]
    apply_commits_effect [OF cs(4)] show ?thesis
    by (simp add: load_checkpoint_Inr_iff)
qed

text \<open>Two commits after a checkpoint: an update of the record, then its deletion.\<close>

definition goal_key :: record_key where
  "goal_key = RecordKey (RecordType ''goal'') (RecordId ''obj_1'')"

definition goal_log :: "versioned_record_op list" where
  "goal_log =
     [\<lparr>op_revision = Revision 5, op_action_id = RuntimeId 1, op_order = 0,
       op_mutation = Upsert (goal_envelope 1 5)\<rparr>,
      \<lparr>op_revision = Revision 6, op_action_id = RuntimeId 2, op_order = 0,
       op_mutation = DeleteRecord goal_key\<rparr>]"

lemma goal_log_replay:
  "rebuild_records (Revision 4) [goal_envelope 1 3] goal_log = Inr (Revision 6, [])"
  by (simp add: rebuild_records_def load_checkpoint_def checkpoint_insert_def goal_envelope_def
      goal_log_def goal_key_def envelope_key_def less_revision_def bt_contains_def bt_insert_def
      bt_remove_def replay_op_def replay_enter_def revision_next_def checked_add_def
      apply_mutation_def)

lemma rebuild_records_contents_witness:
  "records_ok (Revision 6) ([] :: record_set)"
  using rebuild_records_contents [OF goal_log_replay] by simp

text \<open>C33. The log is extended by appending: after a replay that returned \<open>(r', recs)\<close>, replaying the same
  log with one more commit at the next revision succeeds exactly when the commit's mutations apply
  to \<open>recs\<close>, and returns their result.\<close>

theorem rebuild_records_append:
  assumes "rebuild_records r cp ops = Inr (r', recs)"
    and "commit_ok (a, ms)" and "unat (revision_get r') + 1 < 2 ^ 64"
  shows "rebuild_records r cp (ops @ commit_ops (revision_add r' 1) a ms) = Inr (r'', recs')
    \<longleftrightarrow> r'' = revision_add r' 1 \<and> apply_mutations (revision_add r' 1) recs ms = Inr recs'"
proof -
  from assms(1) obtain base s where base: "load_checkpoint r cp = Inr base"
    and s: "rfold replay_op \<lparr>rp_records = base, rp_revision = r, rp_action = None, rp_order = 0\<rparr> ops
      = Inr s" and eq: "r' = rp_revision s" "recs = rp_records s"
    by (auto simp: rebuild_records_def rbind_Inr_iff)
  have "rfold replay_op s (commit_ops (revision_add r' 1) a ms)
      = rbind (apply_mutations (revision_add r' 1) recs ms) (\<lambda>recs.
          Inr \<lparr>rp_records = recs, rp_revision = revision_add r' 1, rp_action = Some a,
               rp_order = of_nat (length ms)\<rparr>)"
    using replay_commit [OF assms(2)] assms(3) by (simp add: eq)
  with base s show ?thesis
    by (auto simp: rebuild_records_def rfold_append rbind_Inr_iff)
qed

lemma rebuild_records_append_witness:
  "rebuild_records (Revision 4) [goal_envelope 1 3]
     (goal_log @ commit_ops (Revision 7) (RuntimeId 3) [Upsert (goal_envelope 1 7)])
   = Inr (Revision 7, [(goal_key, goal_envelope 1 7)])"
proof -
  have step: "revision_add (Revision 6) (Suc 0) = Revision 7"
    by (simp add: revision_add_def)
  have "apply_mutations (Revision 7) [] [Upsert (goal_envelope 1 7)]
      = Inr [(goal_key, goal_envelope 1 7)]"
    by (simp add: apply_mutations_def apply_mutation_def goal_envelope_def goal_key_def
        envelope_key_def bt_insert_def bt_remove_def)
  then show ?thesis
    using rebuild_records_append [OF goal_log_replay, of "RuntimeId 3" "[Upsert (goal_envelope 1 7)]"
        "Revision 7" "[(goal_key, goal_envelope 1 7)]"]
    by (simp add: step commit_ok_def)
qed

text \<open>C38. The order of the records in a checkpoint does not matter.\<close>

theorem checkpoint_order_irrelevant:
  assumes "load_checkpoint r us = Inr recs" and "mset us = mset vs"
  shows "load_checkpoint r vs = Inr recs"
  using checkpoint.load_permutation [OF bt_ok_Nil assms(2), of r recs] assms(1)
  by (simp add: load_checkpoint_def)

definition task_envelope :: record_envelope where
  "task_envelope = \<lparr>re_record_type = RecordType ''task'', re_schema_version = SchemaVersion 1,
     re_record_id = RecordId ''obj_2'', re_revision = Revision 2, re_payload = JObject [],
     re_provenance = None\<rparr>"

lemma checkpoint_order_irrelevant_witness:
  "load_checkpoint (Revision 4) [task_envelope, goal_envelope 1 3]
    = load_checkpoint (Revision 4) [goal_envelope 1 3, task_envelope]"
proof -
  have "is_ok (load_checkpoint (Revision 4) [goal_envelope 1 3, task_envelope])"
    by (simp add: load_checkpoint_def checkpoint_insert_def goal_envelope_def task_envelope_def
        envelope_key_def less_revision_def bt_contains_def bt_insert_def bt_remove_def)
  then obtain recs where "load_checkpoint (Revision 4) [goal_envelope 1 3, task_envelope] = Inr recs"
    by (auto simp: is_ok_iff)
  then show ?thesis
    using checkpoint_order_irrelevant [of "Revision 4" "[goal_envelope 1 3, task_envelope]" recs
        "[task_envelope, goal_envelope 1 3]"]
    by simp
qed

section \<open>Envelopes\<close>

text \<open>C35. A domain record written to an envelope is read back: \<open>from_envelope\<close> returns the record that
  \<open>to_envelope\<close> was given, which was valid, and the envelope carries the record's key.\<close>

theorem envelope_round_trip:
  assumes "serde_lib_ok S" and "to_envelope L S r at prov = Inr e"
  shows "from_envelope L S e = Inr r \<and> key L r = Inr (envelope_key e)
    \<and> re_revision e = at \<and> domain_validate r = Inr ()"
  using to_from_envelope [OF assms] to_envelope_key [OF assms(2)] by simp

definition sample_goal :: goal_record where
  "sample_goal = \<lparr>goal_id = RuntimeId uuid_7, goal_owner_id = ActorId (RuntimeId uuid_7b),
     goal_description = BoundedText ''find the key'', goal_priority = 1,
     goal_status_of = ActiveGoal, goal_source_of = GoalFromActor (ActorId (RuntimeId uuid_7b)),
     goal_updated_at = WorldTime 3\<rparr>"

definition sample_json :: json where
  "sample_json = JObject [(''description'', JString ''find the key''), (''priority'', JNumber 1)]"

definition sample_serde :: serde_lib where
  "sample_serde = \<lparr>sl_numbers = \<lparr>is_i64 = (\<lambda>_. True), is_u64 = (\<lambda>_. True)\<rparr>,
     sl_world_state = table_codec [], sl_scene = table_codec [], sl_place = table_codec [],
     sl_character = table_codec [], sl_item = table_codec [], sl_condition = table_codec [],
     sl_skill_grant = table_codec [], sl_relationship = table_codec [],
     sl_known_fact = table_codec [], sl_goal = table_codec [(sample_goal, sample_json)],
     sl_event_instance = table_codec [], sl_parameter_set = table_codec [],
     sl_rule_state = table_codec [], sl_transcript_item = table_codec []\<rparr>"

lemma sample_serde_ok: "serde_lib_ok sample_serde"
  by (simp add: serde_lib_ok_def sample_serde_def table_codec_ok)

lemma hex_record_id: "is_ok (record_id_parse (runtime_id_to_string hex_uuid_lib OBJ i))"
proof -
  have "record_id_byte c \<and> byte c < 128" if "c \<in> set (runtime_id_to_string hex_uuid_lib OBJ i)" for c
  proof -
    have "c \<in> set ''obj_'' \<or> c \<in> set (hyphenate (hex_text 32 (unat (as_uuid i))))"
      using that by (simp add: runtime_id_to_string_def hex_uuid_lib_def OBJ_def)
    then have "c \<in> set ''obj_-'' \<or> is_ascii_lowercase c \<or> is_ascii_digit c"
      using hyphenate_chars [of c 32 "unat (as_uuid i)"] by auto
    moreover have "list_all (\<lambda>c. record_id_byte c \<and> byte c < 128) ''obj_-''"
      by code_simp
    ultimately show ?thesis
      by (auto simp: record_id_byte_def is_ascii_lowercase_def is_ascii_digit_def list_all_iff)
  qed
  then show ?thesis
    by (simp add: record_id_parse_def list_all_iff is_ascii_def Let_def)
      (simp add: runtime_id_to_string_def hex_uuid_lib_def hyphenate_length OBJ_def)
qed

lemma number_ops_ok:
  "n + length ps \<le> 2 ^ 32 \<Longrightarrow> is_ok (rmapM (number_op c) (List.enumerate n ps))"
proof (induction ps arbitrary: n)
  case (Cons p ps)
  from Cons.prems have "Suc n + length ps \<le> 2 ^ 32" by simp
  from Cons.IH [OF this] obtain ops where
    "rmapM (number_op c) (List.enumerate (Suc n) ps) = Inr ops"
    unfolding is_ok_iff by blast
  with Cons.prems show ?case
    by (simp add: number_op_def [of _ "(n, p)"])
qed simp

definition sample_envelope :: record_envelope where
  "sample_envelope = \<lparr>re_record_type = RecordType ''goal'', re_schema_version = SchemaVersion 1,
     re_record_id = RecordId (runtime_id_to_string hex_uuid_lib OBJ (RuntimeId uuid_7 :: object_id)),
     re_revision = Revision 9, re_payload = sample_json, re_provenance = None\<rparr>"

lemma sample_to_envelope:
  "to_envelope hex_uuid_lib sample_serde (GoalRec sample_goal) (Revision 9) None = Inr sample_envelope"
proof -
  note hex_record_id [of "RuntimeId uuid_7 :: object_id"]
  then have "key hex_uuid_lib (GoalRec sample_goal) = Inr (RecordKey (RecordType ''goal'')
      (RecordId (runtime_id_to_string hex_uuid_lib OBJ (RuntimeId uuid_7 :: object_id))))"
    by (simp add: key_Inr_iff sample_goal_def)
  then show ?thesis
    unfolding to_envelope_Inr_iff
    by (simp add: sample_serde_def table_codec_def encode_def sample_envelope_def SCHEMA_V1_def
        validate_payload_def sample_json_def)
qed

lemma envelope_round_trip_witness:
  "from_envelope hex_uuid_lib sample_serde sample_envelope = Inr (GoalRec sample_goal)"
  using envelope_round_trip [OF sample_serde_ok sample_to_envelope] by simp

section \<open>Change sets\<close>

text \<open>C16. The operations of a change set are one commit: at its revision, under its action, with orders
  0, 1, 2 and so on in increasing key order, one upsert for each record and one deletion for each
  key, no key twice.\<close>

theorem record_ops_are_one_commit:
  assumes "record_ops L S c = Inr ops"
  shows "\<exists>ms. ops = commit_ops (cs_revision c) (cs_action_id c) ms
    \<and> change_set_mutations L S c ms \<and> sorted_wrt (<) (map mutation_key ms)
    \<and> length ms \<le> 2 ^ 32"
  by (rule record_ops_commit [OF assms])

definition sample_changes :: execution_change_set where
  "sample_changes = \<lparr>cs_action_id = RuntimeId 7, cs_expected_revision = Revision 8,
     cs_revision = Revision 9, cs_upserts = [GoalRec sample_goal], cs_deletes = [goal_key],
     cs_events = [], cs_safe_summary = BoundedText ''goal noted''\<rparr>"

lemma record_ops_are_one_commit_witness:
  "\<exists>ops ms. record_ops hex_uuid_lib sample_serde sample_changes = Inr ops
     \<and> change_set_mutations hex_uuid_lib sample_serde sample_changes ms"
proof -
  have k: "key hex_uuid_lib (GoalRec sample_goal)
      = Inr (envelope_key sample_envelope)"
    using to_envelope_key [OF sample_to_envelope] by simp
  have "to_envelope hex_uuid_lib sample_serde (GoalRec sample_goal) (Revision 9)
      (change_set_provenance sample_changes)
      = Inr (sample_envelope\<lparr>re_provenance := change_set_provenance sample_changes\<rparr>)"
    using sample_to_envelope
    by (auto simp: to_envelope_Inr_iff sample_envelope_def)
  moreover have "goal_key \<noteq> envelope_key sample_envelope"
  proof
    assume "goal_key = envelope_key sample_envelope"
    then have "length (record_id_str (rk_record_id goal_key))
        = length (record_id_str (rk_record_id (envelope_key sample_envelope)))"
      by simp
    then show False
      by (simp add: goal_key_def envelope_key_def sample_envelope_def runtime_id_to_string_def
          hex_uuid_lib_def hyphenate_length OBJ_def)
  qed
  moreover have "is_ok (rmapM (number_op c) (List.enumerate 0 (sort_key fst [p, q])))"
    for c and p q :: "record_key \<times> record_mutation"
    by (rule number_ops_ok) simp
  ultimately have "is_ok (record_ops hex_uuid_lib sample_serde sample_changes)"
    using k by (simp add: record_ops_def sample_changes_def push_upsert_def push_delete_def
        bs_contains_def del: sort_key_simps)
  then obtain ops where "record_ops hex_uuid_lib sample_serde sample_changes = Inr ops"
    by (auto simp: is_ok_iff)
  with record_ops_are_one_commit [OF this] show ?thesis by blast
qed

section \<open>Lock files\<close>

text \<open>C39. A mod lock is accepted exactly when its mods are distinct, have non-zero schema versions, list
  their dependencies in increasing order, and every dependency is an earlier mod at the recorded
  version or an absent optional one, and every applied patch belongs to its mod and is listed once.\<close>

theorem mod_lock_validate_exact:
  "mod_lock_validate mods = Inr () \<longleftrightarrow>
     distinct (map lm_mod_id mods) \<and> list_all (locked_ok mods) [0..<length mods]"
  by (auto simp: mod_lock_validate_Inr_iff list_all_iff)

end
