(* ===== verification/Content_Schema.thy ===== *)
theory Content_Schema
  imports Domain
begin

text \<open>
  The declarative content of a mod (\<open>loreloom-content/src/schema.rs\<close>): one \<open>record\<close> per definition
  struct, one \<open>datatype\<close> per enum, in the source's order. A \<open>BTreeSet\<close> is its increasing list and a
  non-zero integer the word it wraps.
\<close>

section \<open>Tags, agents, attributes, resources\<close>

record tag_definition =
  td_id :: content_definition_id
  td_display_name :: display_name

record relationship_kind_definition =
  rkd_id :: content_definition_id
  rkd_display_name :: display_name
  rkd_directional :: bool
  rkd_minimum :: fixed
  rkd_maximum :: fixed

record agent_profile_definition =
  apd_id :: content_definition_id
  apd_display_name :: display_name
  apd_system_style :: short_text
  apd_model_alias :: short_text
  apd_tool_capabilities :: "short_text list"
  apd_autonomy :: autonomy_mode

record attribute_definition =
  atd_id :: content_definition_id
  atd_display_name :: display_name
  atd_minimum :: fixed
  atd_maximum :: fixed
  atd_allowed_operations :: "attribute_operation list"

datatype resource_maximum_policy = ClampCurrent | PreserveRatio | AllowOvercap

record resource_definition =
  rsd_id :: content_definition_id
  rsd_display_name :: display_name
  rsd_minimum :: fixed
  rsd_maximum :: fixed
  rsd_maximum_policy :: resource_maximum_policy
  rsd_derived_from_attribute :: "content_definition_id option"

record equipment_slot_definition =
  esd_id :: content_definition_id
  esd_display_name :: display_name
  esd_allowed_item_tags :: "content_definition_id list"

record modifier_definition =
  md_attribute_id :: content_definition_id
  md_operation :: attribute_operation
  md_value :: fixed
  md_priority :: i32

section \<open>Predicates and effects\<close>

datatype predicate_definition =
    ResourceAtLeast content_definition_id fixed
  | HasCondition content_definition_id
  | HasTag content_definition_id
  | PredNot predicate_definition
  | PredAll "predicate_definition list"
  | PredAny "predicate_definition list"

datatype effect_definition =
    ResourceDelta content_definition_id fixed
  | ApplyCondition content_definition_id u32 fixed
  | GrantItem content_definition_id u32
  | GrantSkill content_definition_id u32
  | SetParameter content_definition_id parameter_value
  | EmitEvent short_text

section \<open>Conditions, items, skills\<close>

datatype stack_policy =
    Unique
  | RefreshDuration
  | IncreaseStacks u32 bool
  | IndependentInstances u32

datatype duration_policy = Permanent | Finite u64

record symptom_definition =
  sym_text :: short_text
  sym_minimum_intensity :: fixed

record periodic_effect_definition =
  ped_interval_ticks :: u64
  ped_effects :: "effect_definition list"

record condition_definition =
  cd_id :: content_definition_id
  cd_display_name :: display_name
  cd_tags :: "content_definition_id list"
  cd_stack_policy :: stack_policy
  cd_intensity_policy :: intensity_policy
  cd_duration :: duration_policy
  cd_symptoms :: "symptom_definition list"
  cd_modifiers :: "modifier_definition list"
  cd_periodic :: "periodic_effect_definition option"

record container_definition =
  ctd_max_weight_grams :: fixed
  ctd_max_children :: u32

record item_definition =
  itd_id :: content_definition_id
  itd_display_name :: display_name
  itd_description :: short_text
  itd_tags :: "content_definition_id list"
  itd_stack_limit :: u32
  itd_unit_weight_grams :: fixed
  itd_durability :: "fixed option"
  itd_container :: "container_definition option"
  itd_equipment_slots :: "content_definition_id list"
  itd_modifiers :: "modifier_definition list"

datatype skill_kind = ActiveSkill | PassiveSkill | ReactionSkill

record resource_cost =
  rc_resource_id :: content_definition_id
  rc_amount :: fixed

datatype skill_target =
    TargetSelfOnly
  | CharacterTarget bool fixed
  | ObjectTarget "short_text list" fixed
  | PlaceTarget fixed

record reaction_window =
  rw_event_type :: short_text
  rw_predicates :: "predicate_definition list"
  rw_maximum_triggers_per_action :: u32

record skill_definition =
  skd_id :: content_definition_id
  skd_display_name :: display_name
  skd_description :: short_text
  skd_kind :: skill_kind
  skd_costs :: "resource_cost list"
  skd_cooldown_ticks :: u64
  skd_target :: skill_target
  skd_executor_id :: content_definition_id
  skd_effects :: "effect_definition list"
  skd_reaction :: "reaction_window option"

section \<open>Parameters, events, actions, rules\<close>

datatype parameter_type =
    BoolType
  | FixedType fixed fixed
  | CounterType i64 i64
  | EnumType "content_definition_id list"
  | TagSetType "content_definition_id list" u32
  | ObjectRefType "short_text list"

datatype parameter_visibility = Public | NarratorVisible | OwnerVisible | Hidden

datatype parameter_persistence = SaveParameter | SessionParameter

record parameter_definition =
  pd_id :: content_definition_id
  pd_display_name :: display_name
  pd_value_type :: parameter_type
  pd_default :: parameter_value
  pd_visibility :: parameter_visibility
  pd_persistence :: parameter_persistence

record event_option_definition =
  eo_id :: content_definition_id
  eo_display_name :: display_name
  eo_visible_if :: "predicate_definition list"
  eo_enabled_if :: "predicate_definition list"
  eo_effects :: "effect_definition list"
  eo_next_node :: "content_definition_id option"

record event_node_definition =
  en_id :: content_definition_id
  en_text :: short_text
  en_options :: "event_option_definition list"

record event_definition =
  ed_id :: content_definition_id
  ed_display_name :: display_name
  ed_entry_node :: content_definition_id
  ed_nodes :: "event_node_definition list"

record action_parameter_definition =
  apa_id :: content_definition_id
  apa_value_type :: parameter_type
  apa_required :: bool

record gameplay_action_definition =
  gad_id :: content_definition_id
  gad_display_name :: display_name
  gad_capability :: short_text
  gad_parameters :: "action_parameter_definition list"
  gad_predicates :: "predicate_definition list"
  gad_effects :: "effect_definition list"

datatype trigger_definition =
    OnWorldEvent short_text
  | OnWorldClock u64
  | OnSceneEntered content_definition_id
  | OnSceneLeft content_definition_id
  | OnGameplayAction content_definition_id

record rule_definition =
  rd_id :: content_definition_id
  rd_priority :: i32
  rd_trigger :: trigger_definition
  rd_predicates :: "predicate_definition list"
  rd_effects :: "effect_definition list"

section \<open>Characters\<close>

record initial_resource =
  ir_resource_id :: content_definition_id
  ir_current :: fixed
  ir_base_maximum :: fixed

record initial_condition =
  ic_condition_id :: content_definition_id
  ic_stacks :: u32
  ic_intensity :: fixed

record initial_item =
  ii_local_key :: short_text
  ii_item_id :: content_definition_id
  ii_quantity :: u32
  ii_parent_local_key :: "short_text option"

record initial_skill =
  isk_skill_id :: content_definition_id
  isk_rank :: u32
  isk_proficiency :: u32
  isk_enabled :: bool

record initial_fact =
  ift_subject :: fact_subject
  ift_predicate_id :: content_definition_id
  ift_value :: fact_value
  ift_confidence :: fixed

record initial_goal =
  igl_description :: short_text
  igl_priority :: i32
  igl_status :: goal_status

record character_definition =
  chd_id :: content_definition_id
  chd_display_name :: display_name
  chd_profile :: character_profile
  chd_appearance :: "character_appearance option"
  chd_agent_profile :: "content_definition_id option"
  chd_base_attributes :: base_attributes
  chd_resources :: "initial_resource list"
  chd_conditions :: "initial_condition list"
  chd_inventory :: "initial_item list"
  chd_skills :: "initial_skill list"
  chd_knowledge :: "initial_fact list"
  chd_goals :: "initial_goal list"
  chd_spawn_constraints :: spawn_constraints

section \<open>Player creation\<close>

datatype player_creation_effect =
    PGrantItem content_definition_id u32
  | PGrantSkill content_definition_id u32 u32
  | PApplyCondition content_definition_id u32 fixed
  | PSetAttribute content_definition_id fixed
  | PSetParameter content_definition_id parameter_value
  | PAddNarrativeTag content_definition_id

record player_creation_choice =
  pcc_value :: content_definition_id
  pcc_display_name :: display_name
  pcc_description :: "short_text option"
  pcc_effects :: "player_creation_effect list"

datatype player_creation_field_type =
    TextField u32 u32 "short_text option"
  | LongTextField u32 u32 "long_text option"
  | IntegerField i64 i64 "i64 option"
  | NumberField fixed fixed "fixed option"
  | BooleanField bool
  | SingleChoiceField "player_creation_choice list" "content_definition_id option"
  | MultiChoiceField u32 u32 "player_creation_choice list" "content_definition_id list option"

datatype player_creation_binding =
    BindDisplayName
  | BindProfileSummary
  | BindProfileSpeakingStyle
  | BindProfileValue
  | BindAttribute content_definition_id
  | BindParameter content_definition_id

record player_creation_field_definition =
  pcf_id :: content_definition_id
  pcf_display_name :: display_name
  pcf_description :: "short_text option"
  pcf_required :: bool
  pcf_binding :: "player_creation_binding option"
  pcf_value_type :: player_creation_field_type

record player_creation_form_definition =
  form_id :: content_definition_id
  form_display_name :: display_name
  form_description :: short_text
  form_template :: content_definition_id
  form_fields :: "player_creation_field_definition list"

datatype player_creation_field_value =
    TextValue long_text
  | IntegerValue i64
  | NumberValue fixed
  | BooleanValue bool
  | SingleChoiceValue content_definition_id
  | MultiChoiceValue "content_definition_id list"

record player_creation_draft =
  pdr_form_id :: content_definition_id
  pdr_values :: "(content_definition_id, player_creation_field_value) btree"

datatype player_bootstrap = FixedPlayer | PresetPlayer content_definition_id
  | UgcPlayer player_creation_draft

record npc_draft =
  nd_display_name :: display_name
  nd_profile :: character_profile
  nd_base_attributes :: base_attributes
  nd_resources :: "initial_resource list"
  nd_conditions :: "initial_condition list"
  nd_inventory :: "initial_item list"
  nd_skills :: "initial_skill list"
  nd_knowledge :: "initial_fact list"
  nd_goals :: "initial_goal list"

record generation_policy =
  gp_id :: content_definition_id
  gp_constraints :: spawn_constraints
  gp_allowed_agent_profiles :: "content_definition_id list"

section \<open>Places and scenes\<close>

record place_definition =
  pld_id :: content_definition_id
  pld_display_name :: display_name
  pld_description :: short_text
  pld_tags :: "content_definition_id list"
  pld_edges :: "content_definition_id list"

datatype initial_character_controller = InitialPlayer | InitialNarrator | InitialRules | InitialAgent

datatype initial_character_lifetime = InitialScene | InitialPersistent

record scene_character_definition =
  scd_local_key :: short_text
  scd_character_id :: content_definition_id
  scd_place_id :: content_definition_id
  scd_controller :: initial_character_controller
  scd_lifetime :: initial_character_lifetime

record scene_definition =
  snd_id :: content_definition_id
  snd_display_name :: display_name
  snd_framing :: short_text
  snd_entry_place :: content_definition_id
  snd_places :: "content_definition_id list"
  snd_characters :: "scene_character_definition list"

section \<open>Definitions\<close>

datatype content_definition =
    AgentProfileDef agent_profile_definition
  | GenerationPolicyDef generation_policy
  | TagDef tag_definition
  | RelationshipKindDef relationship_kind_definition
  | AttributeDef attribute_definition
  | ResourceDef resource_definition
  | EquipmentSlotDef equipment_slot_definition
  | ConditionDef condition_definition
  | ItemDef item_definition
  | SkillDef skill_definition
  | CharacterDef character_definition
  | PlayerCreationFormDef player_creation_form_definition
  | PlaceDef place_definition
  | SceneDef scene_definition
  | ParameterDef parameter_definition
  | EventDef event_definition
  | GameplayActionDef gameplay_action_definition
  | RuleDef rule_definition

record content_document =
  doc_schema_version :: u32
  doc_definitions :: "content_definition list"

fun definition_id :: "content_definition \<Rightarrow> content_definition_id" where
  "definition_id (AgentProfileDef v) = apd_id v"
| "definition_id (GenerationPolicyDef v) = gp_id v"
| "definition_id (TagDef v) = td_id v"
| "definition_id (RelationshipKindDef v) = rkd_id v"
| "definition_id (AttributeDef v) = atd_id v"
| "definition_id (ResourceDef v) = rsd_id v"
| "definition_id (EquipmentSlotDef v) = esd_id v"
| "definition_id (ConditionDef v) = cd_id v"
| "definition_id (ItemDef v) = itd_id v"
| "definition_id (SkillDef v) = skd_id v"
| "definition_id (CharacterDef v) = chd_id v"
| "definition_id (PlayerCreationFormDef v) = form_id v"
| "definition_id (PlaceDef v) = pld_id v"
| "definition_id (SceneDef v) = snd_id v"
| "definition_id (ParameterDef v) = pd_id v"
| "definition_id (EventDef v) = ed_id v"
| "definition_id (GameplayActionDef v) = gad_id v"
| "definition_id (RuleDef v) = rd_id v"

fun expected_kind :: "content_definition \<Rightarrow> string" where
  "expected_kind (AgentProfileDef _) = ''agent_profile''"
| "expected_kind (GenerationPolicyDef _) = ''generation_policy''"
| "expected_kind (TagDef _) = ''tag''"
| "expected_kind (RelationshipKindDef _) = ''relationship_kind''"
| "expected_kind (AttributeDef _) = ''attribute''"
| "expected_kind (ResourceDef _) = ''resource''"
| "expected_kind (EquipmentSlotDef _) = ''equipment_slot''"
| "expected_kind (ConditionDef _) = ''condition''"
| "expected_kind (ItemDef _) = ''item''"
| "expected_kind (SkillDef _) = ''skill''"
| "expected_kind (CharacterDef _) = ''character''"
| "expected_kind (PlayerCreationFormDef _) = ''player_creation_form''"
| "expected_kind (PlaceDef _) = ''place''"
| "expected_kind (SceneDef _) = ''scene''"
| "expected_kind (ParameterDef _) = ''parameter''"
| "expected_kind (EventDef _) = ''event''"
| "expected_kind (GameplayActionDef _) = ''gameplay_action''"
| "expected_kind (RuleDef _) = ''rule''"

end
