(* ===== verification/Registry_Build.thy ===== *)
theory Registry_Build
  imports Registry
begin

text \<open>
  References between definitions, the search for rule cycles, and the construction of the registry
  (\<open>build_packages\<close>) of \<open>loreloom-content/src/registry.rs\<close>.
\<close>

section \<open>References\<close>

definition require_any_kind :: "definitions \<Rightarrow> content_definition_id \<Rightarrow> content_definition_id
    \<Rightarrow> string list \<Rightarrow> string \<Rightarrow> content_error + unit" where
  "require_any_kind ds owner target kinds expected =
     (if (case bt_get target ds of None \<Rightarrow> False
          | Some entry \<Rightarrow> expected_kind (reg_definition entry) \<in> set kinds)
      then Inr () else Inl (InvalidReference owner target expected))"

definition require_kind :: "definitions \<Rightarrow> content_definition_id \<Rightarrow> content_definition_id \<Rightarrow> string
    \<Rightarrow> content_error + unit" where
  "require_kind ds owner target expected =
     (if (case bt_get target ds of None \<Rightarrow> False
          | Some entry \<Rightarrow> expected_kind (reg_definition entry) = expected)
      then Inr () else Inl (InvalidReference owner target expected))"

definition require_each :: "definitions \<Rightarrow> content_definition_id \<Rightarrow> string \<Rightarrow> content_definition_id list
    \<Rightarrow> content_error + unit" where
  "require_each ds owner expected = rforeach (\<lambda>i. require_kind ds owner i expected)"

definition validate_modifiers :: "definitions \<Rightarrow> content_definition_id \<Rightarrow> modifier_definition list
    \<Rightarrow> content_error + unit" where
  "validate_modifiers ds owner ms = require_each ds owner ''attribute'' (map md_attribute_id ms)"

fun validate_effect :: "definitions \<Rightarrow> content_definition_id \<Rightarrow> effect_definition
    \<Rightarrow> content_error + unit" where
  "validate_effect ds owner (ResourceDelta i _) = require_kind ds owner i ''resource''"
| "validate_effect ds owner (ApplyCondition i _ _) = require_kind ds owner i ''condition''"
| "validate_effect ds owner (GrantItem i _) = require_kind ds owner i ''item''"
| "validate_effect ds owner (GrantSkill i _) = require_kind ds owner i ''skill''"
| "validate_effect ds owner (SetParameter i _) = require_kind ds owner i ''parameter''"
| "validate_effect ds owner (EmitEvent _) = Inr ()"

definition validate_effects :: "definitions \<Rightarrow> content_definition_id \<Rightarrow> effect_definition list
    \<Rightarrow> content_error + unit" where
  "validate_effects ds owner = rforeach (validate_effect ds owner)"

fun validate_predicate :: "definitions \<Rightarrow> content_definition_id \<Rightarrow> predicate_definition
    \<Rightarrow> content_error + unit"
  and validate_predicates :: "definitions \<Rightarrow> content_definition_id \<Rightarrow> predicate_definition list
    \<Rightarrow> content_error + unit" where
  "validate_predicate ds owner (ResourceAtLeast i _) = require_kind ds owner i ''resource''"
| "validate_predicate ds owner (HasCondition i) = require_kind ds owner i ''condition''"
| "validate_predicate ds owner (PredNot p) = validate_predicate ds owner p"
| "validate_predicate ds owner (PredAll ps) = validate_predicates ds owner ps"
| "validate_predicate ds owner (PredAny ps) = validate_predicates ds owner ps"
| "validate_predicate ds owner (HasTag i) = require_kind ds owner i ''tag''"
| "validate_predicates ds owner [] = Inr ()"
| "validate_predicates ds owner (p # ps) =
     rbind (validate_predicate ds owner p) (\<lambda>_. validate_predicates ds owner ps)"

fun validate_parameter_type_references :: "definitions \<Rightarrow> content_definition_id \<Rightarrow> parameter_type
    \<Rightarrow> content_error + unit" where
  "validate_parameter_type_references ds owner (TagSetType allowed _) =
     require_each ds owner ''tag'' allowed"
| "validate_parameter_type_references ds owner (EnumType variants) =
     reject_if (list_ex (\<lambda>v. \<not> content_kind_is ''parameter_variant'' v) variants)
       (InvalidContentValue owner ''parameter.enum.variants'')"
| "validate_parameter_type_references ds owner _ = Inr ()"

definition constraint_attributes :: "spawn_constraints \<Rightarrow> content_definition_id list" where
  "constraint_attributes c = bt_keys (sc_minimum_attributes c) @ bt_keys (sc_maximum_attributes c)"

definition require_grantable :: "definitions \<Rightarrow> content_definition_id \<Rightarrow> content_definition_id list
    \<Rightarrow> content_error + unit" where
  "require_grantable ds owner = rforeach (\<lambda>i.
     require_any_kind ds owner i [''condition'', ''item'', ''skill''] ''condition, item, or skill'')"

definition validate_character_references :: "definitions \<Rightarrow> content_definition_id
    \<Rightarrow> character_definition \<Rightarrow> content_error + unit" where
  "validate_character_references ds owner c =
     rbind (case chd_agent_profile c of None \<Rightarrow> Inr ()
            | Some p \<Rightarrow> require_kind ds owner p ''agent_profile'') (\<lambda>_.
     rbind (require_each ds owner ''tag'' (cp_narrative_tags (chd_profile c))) (\<lambda>_.
     rbind (require_each ds owner ''attribute'' (bt_keys (chd_base_attributes c))) (\<lambda>_.
     rbind (require_each ds owner ''attribute'' (constraint_attributes (chd_spawn_constraints c))) (\<lambda>_.
     rbind (require_grantable ds owner (sc_allowed_definitions (chd_spawn_constraints c))) (\<lambda>_.
     rbind (require_each ds owner ''resource'' (map ir_resource_id (chd_resources c))) (\<lambda>_.
     rbind (require_each ds owner ''condition'' (map ic_condition_id (chd_conditions c))) (\<lambda>_.
     rbind (require_each ds owner ''item'' (map ii_item_id (chd_inventory c))) (\<lambda>_.
     rbind (require_each ds owner ''skill'' (map isk_skill_id (chd_skills c))) (\<lambda>_.
       require_each ds owner ''tag'' (map ift_predicate_id (chd_knowledge c)))))))))))"

fun player_field_matches_parameter :: "player_creation_field_type \<Rightarrow> parameter_type \<Rightarrow> bool" where
  "player_field_matches_parameter (IntegerField _ _ _) (CounterType _ _) = True"
| "player_field_matches_parameter (NumberField _ _ _) (FixedType _ _) = True"
| "player_field_matches_parameter (BooleanField _) BoolType = True"
| "player_field_matches_parameter (SingleChoiceField options _) (EnumType variants) =
     list_all (\<lambda>o'. bs_contains (pcc_value o') variants) options"
| "player_field_matches_parameter (MultiChoiceField _ _ options _) (TagSetType allowed maximum) =
     (list_all (\<lambda>o'. bs_contains (pcc_value o') allowed) options \<and> length options \<le> unat maximum)"
| "player_field_matches_parameter _ _ = False"

fun player_field_effects :: "player_creation_field_type \<Rightarrow> player_creation_effect list" where
  "player_field_effects (SingleChoiceField options _) = concat (map pcc_effects options)"
| "player_field_effects (MultiChoiceField _ _ options _) = concat (map pcc_effects options)"
| "player_field_effects _ = []"

text \<open>\<open>require_kind\<close> a parameter, then look it up again and test the definition.\<close>

definition require_parameter :: "definitions \<Rightarrow> content_definition_id \<Rightarrow> content_definition_id \<Rightarrow> string
    \<Rightarrow> (parameter_definition \<Rightarrow> bool) \<Rightarrow> content_error + unit" where
  "require_parameter ds owner i field good =
     rbind (require_kind ds owner i ''parameter'') (\<lambda>_.
       case map_option reg_definition (bt_get i ds) of
         Some (ParameterDef p) \<Rightarrow>
           if pd_persistence p \<noteq> SaveParameter \<or> \<not> good p
           then Inl (InvalidContentValue owner field) else Inr ()
       | _ \<Rightarrow> Inl (InvalidContentValue owner field))"

fun validate_player_effect :: "definitions \<Rightarrow> content_definition_id \<Rightarrow> player_creation_effect
    \<Rightarrow> content_error + unit" where
  "validate_player_effect ds owner (PGrantItem i _) = require_kind ds owner i ''item''"
| "validate_player_effect ds owner (PGrantSkill i _ _) = require_kind ds owner i ''skill''"
| "validate_player_effect ds owner (PApplyCondition i _ _) = require_kind ds owner i ''condition''"
| "validate_player_effect ds owner (PSetAttribute i _) = require_kind ds owner i ''attribute''"
| "validate_player_effect ds owner (PSetParameter i v) =
     require_parameter ds owner i ''player_creation.effect.parameter''
       (\<lambda>p. parameter_value_matches (pd_value_type p) v)"
| "validate_player_effect ds owner (PAddNarrativeTag i) = require_kind ds owner i ''tag''"

definition validate_player_field :: "definitions \<Rightarrow> content_definition_id
    \<Rightarrow> player_creation_field_definition \<Rightarrow> content_error + unit" where
  "validate_player_field ds owner f =
     rbind (case pcf_binding f of
              Some (BindAttribute i) \<Rightarrow> require_kind ds owner i ''attribute''
            | Some (BindParameter i) \<Rightarrow>
                require_parameter ds owner i ''player_creation.parameter''
                  (\<lambda>p. player_field_matches_parameter (pcf_value_type f) (pd_value_type p))
            | _ \<Rightarrow> Inr ())
       (\<lambda>_. rforeach (validate_player_effect ds owner) (player_field_effects (pcf_value_type f)))"

definition validate_player_creation_references :: "definitions \<Rightarrow> content_definition_id
    \<Rightarrow> player_creation_form_definition \<Rightarrow> content_error + unit" where
  "validate_player_creation_references ds owner form =
     rbind (require_kind ds owner (form_template form) ''character'') (\<lambda>_.
       rforeach (validate_player_field ds owner) (form_fields form))"

definition has_agent_profile :: "definitions \<Rightarrow> content_definition_id \<Rightarrow> bool" where
  "has_agent_profile ds i \<longleftrightarrow>
     (case map_option reg_definition (bt_get i ds) of
        Some (CharacterDef c) \<Rightarrow> chd_agent_profile c \<noteq> None | _ \<Rightarrow> False)"

definition validate_scene_character :: "definitions \<Rightarrow> content_definition_id
    \<Rightarrow> content_definition_id list \<Rightarrow> scene_character_definition \<Rightarrow> content_error + unit" where
  "validate_scene_character ds owner places c =
     rbind (require_kind ds owner (scd_character_id c) ''character'') (\<lambda>_.
     rbind (require_kind ds owner (scd_place_id c) ''place'') (\<lambda>_.
       if \<not> bs_contains (scd_place_id c) places
       then Inl (InvalidContentValue owner ''scene.character.place'')
       else if scd_controller c = InitialAgent \<and> \<not> has_agent_profile ds (scd_character_id c)
       then Inl (InvalidContentValue owner ''scene.character.agent_profile'')
       else Inr ()))"

definition validate_event_option_references :: "definitions \<Rightarrow> content_definition_id
    \<Rightarrow> event_option_definition \<Rightarrow> content_error + unit" where
  "validate_event_option_references ds owner opt =
     rbind (validate_predicates ds owner (eo_visible_if opt)) (\<lambda>_.
     rbind (validate_predicates ds owner (eo_enabled_if opt)) (\<lambda>_.
       validate_effects ds owner (eo_effects opt)))"

fun validate_action_parameters :: "definitions \<Rightarrow> content_definition_id \<Rightarrow> content_definition_id list
    \<Rightarrow> action_parameter_definition list \<Rightarrow> content_error + unit" where
  "validate_action_parameters ds owner seen [] = Inr ()"
| "validate_action_parameters ds owner seen (p # ps) =
     (if bs_contains (apa_id p) seen
      then Inl (InvalidContentValue owner ''gameplay_action.parameters'')
      else rbind (validate_parameter_type_references ds owner (apa_value_type p)) (\<lambda>_.
        validate_action_parameters ds owner (bs_insort (apa_id p) seen) ps))"

fun validate_trigger :: "definitions \<Rightarrow> content_definition_id \<Rightarrow> trigger_definition
    \<Rightarrow> content_error + unit" where
  "validate_trigger ds owner (OnSceneEntered i) = require_kind ds owner i ''scene''"
| "validate_trigger ds owner (OnSceneLeft i) = require_kind ds owner i ''scene''"
| "validate_trigger ds owner (OnGameplayAction i) = require_kind ds owner i ''gameplay_action''"
| "validate_trigger ds owner (OnWorldEvent _) = Inr ()"
| "validate_trigger ds owner (OnWorldClock _) = Inr ()"

fun validate_definition_references :: "definitions \<Rightarrow> content_definition_id \<Rightarrow> content_definition
    \<Rightarrow> content_error + unit" where
  "validate_definition_references ds owner (ResourceDef v) =
     (case rsd_derived_from_attribute v of None \<Rightarrow> Inr ()
      | Some a \<Rightarrow> require_kind ds owner a ''attribute'')"
| "validate_definition_references ds owner (ConditionDef v) =
     rbind (require_each ds owner ''tag'' (cd_tags v)) (\<lambda>_.
     rbind (validate_modifiers ds owner (cd_modifiers v)) (\<lambda>_.
       case cd_periodic v of None \<Rightarrow> Inr ()
       | Some p \<Rightarrow> validate_effects ds owner (ped_effects p)))"
| "validate_definition_references ds owner (ItemDef v) =
     rbind (require_each ds owner ''tag'' (itd_tags v)) (\<lambda>_.
     rbind (validate_modifiers ds owner (itd_modifiers v)) (\<lambda>_.
       require_each ds owner ''equipment_slot'' (itd_equipment_slots v)))"
| "validate_definition_references ds owner (SkillDef v) =
     rbind (require_each ds owner ''resource'' (map rc_resource_id (skd_costs v))) (\<lambda>_.
     rbind (validate_effects ds owner (skd_effects v)) (\<lambda>_.
       case skd_reaction v of None \<Rightarrow> Inr ()
       | Some r \<Rightarrow> validate_predicates ds owner (rw_predicates r)))"
| "validate_definition_references ds owner (CharacterDef v) = validate_character_references ds owner v"
| "validate_definition_references ds owner (PlayerCreationFormDef v) =
     validate_player_creation_references ds owner v"
| "validate_definition_references ds owner (GenerationPolicyDef v) =
     rbind (require_each ds owner ''agent_profile'' (gp_allowed_agent_profiles v)) (\<lambda>_.
     rbind (require_each ds owner ''attribute'' (constraint_attributes (gp_constraints v))) (\<lambda>_.
       reject_if (list_ex (\<lambda>i. \<not> bt_contains i ds) (sc_allowed_definitions (gp_constraints v)))
         (InvalidContentValue owner ''generation_policy.allowed_definitions'')))"
| "validate_definition_references ds owner (PlaceDef v) =
     rbind (require_each ds owner ''tag'' (pld_tags v)) (\<lambda>_.
       require_each ds owner ''place'' (pld_edges v))"
| "validate_definition_references ds owner (SceneDef v) =
     rbind (require_kind ds owner (snd_entry_place v) ''place'') (\<lambda>_.
     rbind (require_each ds owner ''place'' (snd_places v)) (\<lambda>_.
       rforeach (validate_scene_character ds owner (snd_places v)) (snd_characters v)))"
| "validate_definition_references ds owner (EquipmentSlotDef v) =
     require_each ds owner ''tag'' (esd_allowed_item_tags v)"
| "validate_definition_references ds owner (ParameterDef v) =
     validate_parameter_type_references ds owner (pd_value_type v)"
| "validate_definition_references ds owner (EventDef v) =
     rforeach (\<lambda>n. rforeach (validate_event_option_references ds owner) (en_options n)) (ed_nodes v)"
| "validate_definition_references ds owner (GameplayActionDef v) =
     rbind (validate_action_parameters ds owner [] (gad_parameters v)) (\<lambda>_.
     rbind (validate_predicates ds owner (gad_predicates v)) (\<lambda>_.
       validate_effects ds owner (gad_effects v)))"
| "validate_definition_references ds owner (RuleDef v) =
     rbind (validate_trigger ds owner (rd_trigger v)) (\<lambda>_.
     rbind (validate_predicates ds owner (rd_predicates v)) (\<lambda>_.
       validate_effects ds owner (rd_effects v)))"
| "validate_definition_references ds owner (AgentProfileDef _) = Inr ()"
| "validate_definition_references ds owner (TagDef _) = Inr ()"
| "validate_definition_references ds owner (RelationshipKindDef _) = Inr ()"
| "validate_definition_references ds owner (AttributeDef _) = Inr ()"

section \<open>Rule cycles\<close>

definition short_text_const :: "string \<Rightarrow> content_error + short_text option" where
  "short_text_const s = map_err (\<lambda>_. TextBound) (rbind (bounded_text_new s) (\<lambda>t. Inr (Some t)))"

fun effect_event_type :: "effect_definition \<Rightarrow> content_error + short_text option" where
  "effect_event_type (ResourceDelta _ _) = short_text_const ''resource_changed''"
| "effect_event_type (ApplyCondition _ _ _) = short_text_const ''condition_applied''"
| "effect_event_type (GrantItem _ _) = short_text_const ''item_granted''"
| "effect_event_type (GrantSkill _ _) = short_text_const ''skill_granted''"
| "effect_event_type (SetParameter _ _) = short_text_const ''parameter_changed''"
| "effect_event_type (EmitEvent k) = Inr (Some k)"

type_synonym listeners = "(short_text, content_definition_id list) btree"
type_synonym rule_edges = "(content_definition_id, content_definition_id list) btree"

definition or_default :: "'k \<Rightarrow> ('k, 'v list) btree \<Rightarrow> 'v list" where
  "or_default k m = (case bt_get k m of None \<Rightarrow> [] | Some v \<Rightarrow> v)"

definition add_listener :: "content_definition_id \<times> registered_definition \<Rightarrow> listeners \<Rightarrow> listeners" where
  "add_listener p m =
     (case reg_definition (snd p) of
        RuleDef r \<Rightarrow>
          (case rd_trigger r of
             OnWorldEvent k \<Rightarrow> bt_insert k (or_default k m @ [fst p]) m
           | _ \<Rightarrow> m)
      | _ \<Rightarrow> m)"

definition rule_listeners :: "definitions \<Rightarrow> listeners" where
  "rule_listeners ds = fold add_listener ds []"

definition add_effect_edges :: "listeners \<Rightarrow> content_definition_id \<Rightarrow> rule_edges \<Rightarrow> effect_definition
    \<Rightarrow> content_error + rule_edges" where
  "add_effect_edges ls i edges effect =
     rbind (effect_event_type effect) (\<lambda>k.
       case Option.bind k (\<lambda>k. bt_get k ls) of
         None \<Rightarrow> Inr edges
       | Some targets \<Rightarrow> Inr (bt_insert i (fold bs_insort targets (or_default i edges)) edges))"

definition add_rule_edges :: "listeners \<Rightarrow> rule_edges \<Rightarrow> content_definition_id \<times> registered_definition
    \<Rightarrow> content_error + rule_edges" where
  "add_rule_edges ls edges p =
     (case reg_definition (snd p) of
        RuleDef r \<Rightarrow> rfold (add_effect_edges ls (fst p)) edges (rd_effects r)
      | _ \<Rightarrow> Inr edges)"

definition rule_edges_of :: "definitions \<Rightarrow> content_error + rule_edges" where
  "rule_edges_of ds = rfold (add_rule_edges (rule_listeners ds)) [] ds"

text \<open>\<open>rule_cycle_from\<close> over a list of rules, with its recursive call inlined. The outer \<open>None\<close> is a
  search that does not end, \<open>Some None\<close> a cycle found, \<open>Some (Some (visiting, visited))\<close> none.\<close>

partial_function (option) rule_cycle_any :: "rule_edges \<Rightarrow> content_definition_id list
    \<Rightarrow> content_definition_id list \<Rightarrow> content_definition_id list
    \<Rightarrow> (content_definition_id list \<times> content_definition_id list) option option" where
  "rule_cycle_any edges ids visiting visited =
     (case ids of
        [] \<Rightarrow> Some (Some (visiting, visited))
      | i # rest \<Rightarrow>
          if bs_contains i visited then rule_cycle_any edges rest visiting visited
          else if bs_contains i visiting then Some None
          else
            Option.bind (rule_cycle_any edges (or_default i edges) (bs_insort i visiting) visited)
              (\<lambda>r. case r of
                 None \<Rightarrow> Some None
               | Some s \<Rightarrow>
                   rule_cycle_any edges rest (removeAll i (fst s)) (bs_insort i (snd s))))"

fun rule_cycle_scan :: "rule_edges \<Rightarrow> content_definition_id list \<Rightarrow> content_definition_id list
    \<Rightarrow> content_definition_id list \<Rightarrow> (content_error + unit) option" where
  "rule_cycle_scan edges visiting visited [] = Some (Inr ())"
| "rule_cycle_scan edges visiting visited (i # rest) =
     (case rule_cycle_any edges [i] visiting visited of
        None \<Rightarrow> None
      | Some None \<Rightarrow> Some (Inl (InvalidContentValue i ''rule.emit_cycle''))
      | Some (Some (visiting', visited')) \<Rightarrow> rule_cycle_scan edges visiting' visited' rest)"

definition validate_rule_cycles :: "definitions \<Rightarrow> (content_error + unit) option" where
  "validate_rule_cycles ds =
     (case rule_edges_of ds of
        Inl e \<Rightarrow> Some (Inl e)
      | Inr edges \<Rightarrow> rule_cycle_scan edges [] [] (bt_keys edges))"

section \<open>Building\<close>

definition validate_content_references :: "definitions \<Rightarrow> (content_error + unit) option" where
  "validate_content_references ds =
     (case rforeach (\<lambda>(owner, entry). validate_definition_references ds owner (reg_definition entry)) ds of
        Inl e \<Rightarrow> Some (Inl e)
      | Inr _ \<Rightarrow> validate_rule_cycles ds)"

definition insert_definition :: "content_pack_context \<Rightarrow> short_text \<Rightarrow> definitions
    \<Rightarrow> content_definition \<Rightarrow> content_error + definitions" where
  "insert_definition context version_text ds d =
     rbind (validate_definition_identity (cpc_mod_id context) d) (\<lambda>_.
     rbind (validate_local_values d) (\<lambda>_.
       let i = definition_id d;
           origin = \<lparr>co_mod_id = cpc_mod_id context, co_mod_version = version_text,
                     co_pack_id = cpc_pack_id context, co_definition_id = i,
                     co_content_version = cpc_content_version context,
                     co_content_hash = cpc_content_hash context\<rparr>
       in if bt_contains i ds then Inl (DuplicateDefinition i)
          else Inr (bt_insert i \<lparr>reg_definition = d, reg_origin = origin\<rparr> ds)))"

definition CONTENT_SCHEMA_V1 :: u32 where
  "CONTENT_SCHEMA_V1 = 1"

definition insert_document :: "content_pack_context \<Rightarrow> short_text \<Rightarrow> definitions
    \<Rightarrow> content_document \<Rightarrow> content_error + definitions" where
  "insert_document context version_text ds doc =
     (if doc_schema_version doc \<noteq> CONTENT_SCHEMA_V1
         \<or> doc_schema_version doc \<noteq> cpc_content_version context
      then Inl (UnsupportedSchema (doc_schema_version doc))
      else rfold (insert_definition context version_text) ds (doc_definitions doc))"

definition insert_package :: "definition_registry \<Rightarrow> content_pack_context \<times> content_document list
    \<Rightarrow> content_error + definition_registry" where
  "insert_package R p =
     (let context = fst p; pack = cpc_pack_id (fst p) in
      rbind (map_err (\<lambda>_. ContentIdentity) (content_mod_id pack)) (\<lambda>owner.
      rbind (if owner \<noteq> cpc_mod_id context then Inr True
             else rbind (map_err (\<lambda>_. ContentIdentity) (content_kind pack)) (\<lambda>k. Inr (k \<noteq> ''pack'')))
        (\<lambda>wrong.
        if wrong then Inl (WrongMod pack (cpc_mod_id context))
        else if bt_contains pack (dr_contexts R) then Inl (DuplicatePack pack)
        else
          rbind (map_err (\<lambda>_. TextBound) (bounded_text_new (cpc_mod_version context))) (\<lambda>version_text.
          rbind (rfold (insert_document context version_text) (dr_definitions R) (snd p)) (\<lambda>ds.
            Inr \<lparr>dr_contexts = bt_insert pack context (dr_contexts R), dr_definitions = ds\<rparr>)))))"

definition build_packages :: "(content_pack_context \<times> content_document list) list
    \<Rightarrow> (content_error + definition_registry) option" where
  "build_packages packages =
     (case rfold insert_package \<lparr>dr_contexts = [], dr_definitions = []\<rparr> packages of
        Inl e \<Rightarrow> Some (Inl e)
      | Inr R \<Rightarrow> map_option (\<lambda>r. rbind r (\<lambda>_. Inr R)) (validate_content_references (dr_definitions R)))"

section \<open>The search is total and exact\<close>

definition edge_rel :: "rule_edges \<Rightarrow> (content_definition_id \<times> content_definition_id) set" where
  "edge_rel edges = {(a, b). b \<in> set (or_default a edges)}"

text \<open>A rule is settled when every chain of triggers from it is finite.\<close>

definition settled :: "rule_edges \<Rightarrow> content_definition_id set" where
  "settled edges = Wellfounded.acc ((edge_rel edges)\<inverse>)"

lemma settledI: "(\<And>b. b \<in> set (or_default a edges) \<Longrightarrow> b \<in> settled edges) \<Longrightarrow> a \<in> settled edges"
  unfolding settled_def by (rule accI) (simp add: edge_rel_def)

definition search_result_ok :: "rule_edges \<Rightarrow> content_definition_id list \<Rightarrow> content_definition_id list
    \<Rightarrow> content_definition_id list \<Rightarrow> (content_definition_id list \<times> content_definition_id list) option
    \<Rightarrow> bool" where
  "search_result_ok edges ids visiting visited r \<longleftrightarrow>
     (case r of
        Some (visiting', visited') \<Rightarrow>
          set visiting' = set visiting \<and> set ids \<union> set visited \<subseteq> set visited'
          \<and> (set visited \<subseteq> settled edges \<longrightarrow> set visited' \<subseteq> settled edges)
      | None \<Rightarrow>
          (\<forall>v\<in>set visiting. \<forall>t\<in>set ids. (v, t) \<in> (edge_rel edges)\<^sup>+) \<longrightarrow> \<not> acyclic (edge_rel edges))"

lemma rule_cycle_any_Nil:
  "rule_cycle_any edges [] visiting visited = Some (Some (visiting, visited))"
  by (simp add: rule_cycle_any.simps)

lemma rule_cycle_any_total:
  assumes "finite U" and closed: "\<And>a. a \<in> U \<Longrightarrow> set (or_default a edges) \<subseteq> U"
  shows "set ids \<subseteq> U \<Longrightarrow> \<exists>r. rule_cycle_any edges ids visiting visited = Some r
    \<and> search_result_ok edges ids visiting visited r"
proof (induction "card (U - set visiting)" arbitrary: ids visiting visited rule: less_induct)
  case (less visiting)
  note outer = less.hyps
  have "card (U - set vg) = card (U - set visiting) \<Longrightarrow> set ids \<subseteq> U \<Longrightarrow>
      \<exists>r. rule_cycle_any edges ids vg vd = Some r \<and> search_result_ok edges ids vg vd r" for ids vg vd
  proof (induction ids arbitrary: vg vd)
    case Nil
    then show ?case by (simp add: rule_cycle_any_Nil search_result_ok_def)
  next
    case (Cons i rest)
    consider (visited) "i \<in> set vd" | (cycle) "i \<notin> set vd" "i \<in> set vg"
      | (enter) "i \<notin> set vd" "i \<notin> set vg" by blast
    then show ?case
    proof cases
      case visited
      have "rule_cycle_any edges (i # rest) vg vd = rule_cycle_any edges rest vg vd"
        using visited by (subst rule_cycle_any.simps) (simp add: bs_contains_def)
      moreover obtain r where "rule_cycle_any edges rest vg vd = Some r"
          "search_result_ok edges rest vg vd r"
        using Cons.IH [OF Cons.prems(1)] Cons.prems(2) by auto
      ultimately show ?thesis
        using visited by (intro exI [of _ r]) (auto simp: search_result_ok_def split: option.splits)
    next
      case cycle
      then have "rule_cycle_any edges (i # rest) vg vd = Some None"
        by (subst rule_cycle_any.simps) (simp add: bs_contains_def)
      with cycle show ?thesis
        by (auto simp: search_result_ok_def acyclic_def)
    next
      case enter
      let ?vg = "bs_insort i vg"
      have "i \<in> U" and "set (or_default i edges) \<subseteq> U"
        using Cons.prems(2) closed by auto
      moreover have "card (U - set ?vg) < card (U - set visiting)"
        unfolding Cons.prems(1) [symmetric]
        using \<open>finite U\<close> \<open>i \<in> U\<close> enter by (intro psubset_card_mono) auto
      ultimately obtain r where
        r: "rule_cycle_any edges (or_default i edges) ?vg vd = Some r"
          "search_result_ok edges (or_default i edges) ?vg vd r"
        using outer by blast
      have unfold: "rule_cycle_any edges (i # rest) vg vd = (case r of None \<Rightarrow> Some None
          | Some s \<Rightarrow> rule_cycle_any edges rest (removeAll i (fst s)) (bs_insort i (snd s)))"
        using enter r(1) by (subst rule_cycle_any.simps) (simp add: bs_contains_def)
      show ?thesis
      proof (cases r)
        case None
        have "(v, t) \<in> (edge_rel edges)\<^sup>+"
          if "\<forall>v\<in>set vg. (v, i) \<in> (edge_rel edges)\<^sup>+" "v \<in> set ?vg" "t \<in> set (or_default i edges)"
          for v t
          using that by (auto simp: edge_rel_def intro: trancl_into_trancl)
        with None r(2) unfold show ?thesis
          by (auto simp: search_result_ok_def)
      next
        case (Some s)
        from Some r(2) have s: "set (fst s) = insert i (set vg)"
          "set (or_default i edges) \<union> set vd \<subseteq> set (snd s)"
          "set vd \<subseteq> settled edges \<Longrightarrow> set (snd s) \<subseteq> settled edges"
          by (auto simp: search_result_ok_def)
        have vg: "set (removeAll i (fst s)) = set vg"
          using s(1) enter(2) by auto
        then obtain r' where r': "rule_cycle_any edges rest (removeAll i (fst s)) (bs_insort i (snd s)) = Some r'"
          "search_result_ok edges rest (removeAll i (fst s)) (bs_insort i (snd s)) r'"
          using Cons.IH [of "removeAll i (fst s)" "bs_insort i (snd s)"] Cons.prems by auto
        have "set (bs_insort i (snd s)) \<subseteq> settled edges" if "set vd \<subseteq> settled edges"
          using s(2) s(3) [OF that] settledI [of i edges] by auto
        with r' s(2) vg Some unfold show ?thesis
          by (auto simp: search_result_ok_def split: option.splits)
      qed
    qed
  qed
  from this [OF refl less.prems] show ?case .
qed

lemma rule_cycle_scan_total:
  assumes "finite U" and "\<And>a. a \<in> U \<Longrightarrow> set (or_default a edges) \<subseteq> U"
  shows "set ids \<subseteq> U \<Longrightarrow> set visiting = {} \<Longrightarrow> set visited \<subseteq> settled edges \<Longrightarrow>
    \<exists>r. rule_cycle_scan edges visiting visited ids = Some r
      \<and> (if is_ok r then set ids \<subseteq> settled edges else \<not> acyclic (edge_rel edges))"
proof (induction ids arbitrary: visiting visited)
  case Nil
  then show ?case by simp
next
  case (Cons i ids)
  from rule_cycle_any_total [OF assms, of "[i]" visiting visited] Cons.prems(1)
  obtain r where r: "rule_cycle_any edges [i] visiting visited = Some r"
    "search_result_ok edges [i] visiting visited r" by auto
  show ?case
  proof (cases r)
    case None
    then show ?thesis using r Cons.prems(2) by (simp add: search_result_ok_def)
  next
    case (Some s)
    with r(2) Cons.prems have "set (fst s) = {}" "set (snd s) \<subseteq> settled edges" "i \<in> set (snd s)"
      by (auto simp: search_result_ok_def)
    with Cons.IH [of "fst s" "snd s"] Cons.prems(1) show ?thesis
      using r(1) Some by (cases s) (auto split: if_splits)
  qed
qed

lemma all_settled_acyclic:
  assumes "set (bt_keys edges) \<subseteq> settled edges"
  shows "acyclic (edge_rel edges)"
proof -
  have "a \<in> settled edges" for a
  proof (cases "a \<in> set (bt_keys edges)")
    case True
    with assms show ?thesis by blast
  next
    case False
    then have "map_of edges a = None"
      by (simp add: bt_keys_def map_of_eq_None_iff)
    then have "or_default a edges = []"
      by (simp add: or_default_def bt_get_def)
    then show ?thesis by (auto intro: settledI)
  qed
  then have "wf ((edge_rel edges)\<inverse>)"
    by (intro acc_wfI) (simp add: settled_def)
  then show ?thesis
    using wf_acyclic acyclic_converse by blast
qed

lemma rule_cycle_scan_exact:
  "\<exists>r. rule_cycle_scan edges [] [] (bt_keys edges) = Some r
    \<and> (is_ok r \<longleftrightarrow> acyclic (edge_rel edges))"
proof -
  let ?U = "set (bt_keys edges) \<union> (\<Union>v\<in>set (bt_values edges). set v)"
  have "finite ?U"
    by simp
  moreover have "set (or_default a edges) \<subseteq> ?U" for a
  proof (cases "bt_get a edges")
    case (Some ts)
    then have "ts \<in> set (bt_values edges)"
      by (force simp: bt_values_def dest: bt_get_in_set)
    then show ?thesis
      using Some by (auto simp: or_default_def)
  qed (simp add: or_default_def)
  ultimately show ?thesis
    using rule_cycle_scan_total [of ?U edges "bt_keys edges" "[]" "[]"] all_settled_acyclic [of edges]
    by (auto split: if_splits)
qed

text \<open>The relation the search runs on: an effect of \<open>a\<close> emits the event type \<open>b\<close> listens to.\<close>

definition rule_triggers :: "definitions \<Rightarrow> (content_definition_id \<times> content_definition_id) set" where
  "rule_triggers ds = {(a, b). \<exists>p q ra rb e k.
     (a, p) \<in> set ds \<and> reg_definition p = RuleDef ra \<and> e \<in> set (rd_effects ra)
     \<and> effect_event_type e = Inr (Some k)
     \<and> (b, q) \<in> set ds \<and> reg_definition q = RuleDef rb \<and> rd_trigger rb = OnWorldEvent k}"

definition listens :: "definitions \<Rightarrow> short_text \<Rightarrow> content_definition_id \<Rightarrow> bool" where
  "listens ds k b \<longleftrightarrow>
     (\<exists>q rb. (b, q) \<in> set ds \<and> reg_definition q = RuleDef rb \<and> rd_trigger rb = OnWorldEvent k)"

lemma or_default_insert [simp]:
  "or_default k (bt_insert j v m) = (if k = j then v else or_default k m)"
  by (simp add: or_default_def)

lemma add_listener_set:
  "set (or_default k (add_listener p m)) = set (or_default k m) \<union> {b. listens [p] k b}"
  by (cases p) (auto simp: add_listener_def listens_def split: content_definition.splits
      trigger_definition.splits)

lemma rule_listeners_set: "set (or_default k (rule_listeners ds)) = {b. listens ds k b}"
proof -
  have "set (or_default k (fold add_listener ds m)) = set (or_default k m) \<union> {b. listens ds k b}" for m
  proof (induction ds arbitrary: m)
    case Nil
    then show ?case by (simp add: listens_def)
  next
    case (Cons p ds)
    have "listens (p # ds) k b \<longleftrightarrow> listens [p] k b \<or> listens ds k b" for b
      by (auto simp: listens_def)
    then show ?case
      by (auto simp: Cons.IH add_listener_set)
  qed
  from this [of "[]"] show ?thesis
    by (simp add: rule_listeners_def or_default_def)
qed

lemma effect_event_type_ok: "\<exists>k. effect_event_type e = Inr (Some k)"
  by (cases e) (auto simp: short_text_const_def bounded_text_new_def)

lemma fold_bs_insort_set [simp]: "set (fold bs_insort xs ys) = set xs \<union> set ys"
  by (induction xs arbitrary: ys) auto

definition effect_hits :: "listeners \<Rightarrow> effect_definition \<Rightarrow> content_definition_id \<Rightarrow> bool" where
  "effect_hits ls e b \<longleftrightarrow> (\<exists>k. effect_event_type e = Inr (Some k) \<and> b \<in> set (or_default k ls))"

lemma add_effect_edges_rel:
  "\<exists>edges'. add_effect_edges ls i edges e = Inr edges'
    \<and> edge_rel edges' = edge_rel edges \<union> {(i, b) | b. effect_hits ls e b}"
proof -
  obtain k where k: "effect_event_type e = Inr (Some k)"
    using effect_event_type_ok by blast
  show ?thesis
  proof (cases "bt_get k ls")
    case None
    then show ?thesis by (simp add: add_effect_edges_def k or_default_def effect_hits_def)
  next
    case (Some ts)
    then show ?thesis
      by (auto simp: add_effect_edges_def k or_default_def [of k ls] edge_rel_def effect_hits_def
        split: if_splits)
  qed
qed

lemma add_effects_rel:
  "\<exists>edges'. rfold (add_effect_edges ls i) edges es = Inr edges'
    \<and> edge_rel edges' = edge_rel edges \<union> {(i, b) | b. \<exists>e\<in>set es. effect_hits ls e b}"
proof (induction es arbitrary: edges)
  case Nil
  then show ?case by simp
next
  case (Cons e es)
  from add_effect_edges_rel [of ls i edges e] obtain edges1 where
    1: "add_effect_edges ls i edges e = Inr edges1"
      "edge_rel edges1 = edge_rel edges \<union> {(i, b) | b. effect_hits ls e b}" by blast
  from Cons.IH [of edges1] 1 show ?case
    by auto
qed

definition rule_emits :: "listeners \<Rightarrow> content_definition_id \<times> registered_definition
    \<Rightarrow> content_definition_id \<Rightarrow> bool" where
  "rule_emits ls p b \<longleftrightarrow>
     (\<exists>r. reg_definition (snd p) = RuleDef r \<and> (\<exists>e\<in>set (rd_effects r). effect_hits ls e b))"

lemma add_rule_edges_rel:
  "\<exists>edges'. add_rule_edges ls edges p = Inr edges'
    \<and> edge_rel edges' = edge_rel edges \<union> {(fst p, b) | b. rule_emits ls p b}"
proof (cases "\<exists>r. reg_definition (snd p) = RuleDef r")
  case False
  then have "add_rule_edges ls edges p = Inr edges"
    by (auto simp: add_rule_edges_def split: content_definition.splits)
  with False show ?thesis
    by (auto simp: rule_emits_def)
next
  case True
  then obtain r where r: "reg_definition (snd p) = RuleDef r" ..
  have "{(fst p, b) | b. \<exists>e\<in>set (rd_effects r). effect_hits ls e b} = {(fst p, b) | b. rule_emits ls p b}"
    by (simp add: rule_emits_def r)
  with add_effects_rel [of ls "fst p" edges "rd_effects r"] show ?thesis
    by (simp add: add_rule_edges_def r)
qed

lemma add_rules_edges_rel:
  "\<exists>edges'. rfold (add_rule_edges ls) edges ps = Inr edges'
    \<and> edge_rel edges' = edge_rel edges \<union> {(a, b). \<exists>p\<in>set ps. a = fst p \<and> rule_emits ls p b}"
proof (induction ps arbitrary: edges)
  case Nil
  then show ?case by simp
next
  case (Cons p ps)
  from add_rule_edges_rel [of ls edges p] obtain edges1 where
    1: "add_rule_edges ls edges p = Inr edges1"
      "edge_rel edges1 = edge_rel edges \<union> {(fst p, b) | b. rule_emits ls p b}" by blast
  from Cons.IH [of edges1] 1 show ?case
    by auto
qed

lemma rule_edges_of_rel: "\<exists>edges. rule_edges_of ds = Inr edges \<and> edge_rel edges = rule_triggers ds"
proof -
  have "rule_emits (rule_listeners ds) p b \<longleftrightarrow> (\<exists>r e k q rb. reg_definition (snd p) = RuleDef r
      \<and> e \<in> set (rd_effects r) \<and> effect_event_type e = Inr (Some k)
      \<and> (b, q) \<in> set ds \<and> reg_definition q = RuleDef rb \<and> rd_trigger rb = OnWorldEvent k)" for p b
    by (simp add: rule_emits_def effect_hits_def rule_listeners_set listens_def) blast
  then have "rule_triggers ds = {(a, b). \<exists>p\<in>set ds. a = fst p \<and> rule_emits (rule_listeners ds) p b}"
    unfolding rule_triggers_def by auto (metis fst_conv snd_conv)+
  moreover have "edge_rel [] = {}"
    by (simp add: edge_rel_def or_default_def)
  ultimately show ?thesis
    using add_rules_edges_rel [of "rule_listeners ds" "[]" ds] by (simp add: rule_edges_of_def)
qed

lemma validate_rule_cycles_exact:
  "\<exists>r. validate_rule_cycles ds = Some r \<and> (is_ok r \<longleftrightarrow> acyclic (rule_triggers ds))"
proof -
  from rule_edges_of_rel [of ds] obtain edges where
    "rule_edges_of ds = Inr edges" "edge_rel edges = rule_triggers ds" by blast
  with rule_cycle_scan_exact [of edges] show ?thesis
    by (simp add: validate_rule_cycles_def)
qed


section \<open>What a built registry guarantees\<close>

definition entry_ok :: "content_definition_id \<Rightarrow> registered_definition \<Rightarrow> bool" where
  "entry_ok i e \<longleftrightarrow>
     definition_id (reg_definition e) = i \<and> co_definition_id (reg_origin e) = i
     \<and> content_mod_id i = Inr (co_mod_id (reg_origin e))
     \<and> content_kind i = Inr (expected_kind (reg_definition e))
     \<and> validate_local_values (reg_definition e) = Inr ()"

definition definitions_ok :: "definitions \<Rightarrow> bool" where
  "definitions_ok ds \<longleftrightarrow> bt_ok ds \<and> (\<forall>i e. bt_get i ds = Some e \<longrightarrow> entry_ok i e)"

lemma definitions_okD: "definitions_ok ds \<Longrightarrow> bt_get i ds = Some e \<Longrightarrow> entry_ok i e"
  by (simp add: definitions_ok_def)

lemma definitions_ok_insert:
  "definitions_ok ds \<Longrightarrow> insert_definition c t ds d = Inr ds' \<Longrightarrow> definitions_ok ds'"
  by (auto simp: insert_definition_def Let_def rbind_Inr_iff validate_definition_identity_def
      map_err_Inr_iff definitions_ok_def bt_ok_insert entry_ok_def split: if_splits)

lemma definitions_ok_document:
  assumes "definitions_ok ds" and "insert_document c t ds doc = Inr ds'"
  shows "definitions_ok ds'"
proof -
  have "rfold (insert_definition c t) ds (doc_definitions doc) = Inr ds'"
    using assms(2) by (simp add: insert_document_def split: if_splits)
  then show ?thesis
    using assms(1) by (rule rfold_invariant) (rule definitions_ok_insert)
qed

lemma definitions_ok_package:
  assumes "definitions_ok (dr_definitions R)" and "insert_package R p = Inr R'"
  shows "definitions_ok (dr_definitions R')"
proof -
  from assms(2) obtain t where
    "rfold (insert_document (fst p) t) (dr_definitions R) (snd p) = Inr (dr_definitions R')"
    by (auto simp: insert_package_def Let_def rbind_Inr_iff split: if_splits)
  then show ?thesis
    using assms(1) by (rule rfold_invariant) (rule definitions_ok_document)
qed

lemma build_packages_Inr:
  assumes "build_packages packages = Some (Inr R)"
  shows "definitions_ok (dr_definitions R)" and "acyclic (rule_triggers (dr_definitions R))"
    and "bt_get i (dr_definitions R) = Some e \<Longrightarrow>
      validate_definition_references (dr_definitions R) i (reg_definition e) = Inr ()"
proof -
  from assms have fold: "rfold insert_package \<lparr>dr_contexts = [], dr_definitions = []\<rparr> packages = Inr R"
    and refs: "validate_content_references (dr_definitions R) = Some (Inr ())"
    by (auto simp: build_packages_def rbind_Inr_iff split: sum.splits)
  have "definitions_ok (dr_definitions \<lparr>dr_contexts = [], dr_definitions = []\<rparr>)"
    by (simp add: definitions_ok_def)
  with fold show "definitions_ok (dr_definitions R)"
    by (rule rfold_invariant) (rule definitions_ok_package)
  from refs have each: "\<forall>(i, e)\<in>set (dr_definitions R).
      validate_definition_references (dr_definitions R) i (reg_definition e) = Inr ()"
    and cyc: "validate_rule_cycles (dr_definitions R) = Some (Inr ())"
    by (auto simp: validate_content_references_def rforeach_Inr_iff split: sum.splits)
  from cyc validate_rule_cycles_exact [of "dr_definitions R"]
  show "acyclic (rule_triggers (dr_definitions R))" by simp
  show "validate_definition_references (dr_definitions R) i (reg_definition e) = Inr ()"
    if "bt_get i (dr_definitions R) = Some e"
    using each bt_get_in_set [OF that] by auto
qed

lemma build_packages_total: "\<exists>r. build_packages packages = Some r"
  using validate_rule_cycles_exact
  by (fastforce simp: build_packages_def validate_content_references_def split: sum.splits)

lemma require_kind_Inr_iff [res_inv]:
  "require_kind ds owner i k = Inr () \<longleftrightarrow>
     (\<exists>e. bt_get i ds = Some e \<and> expected_kind (reg_definition e) = k)"
  by (auto simp: require_kind_def split: option.splits)

end
