(* ===== verification/Registry_Compile.thy ===== *)
theory Registry_Compile
  imports Registry_Build "HOL-Library.Multiset"
begin

text \<open>
  Compilation of registered content into spawn plans (\<open>loreloom-content/src/registry.rs\<close>): scenes,
  authored characters, player characters built from a form, and generated characters checked against
  a trusted policy.
\<close>

record character_compile_request =
  ccr_scene_id :: object_id
  ccr_place_id :: object_id
  ccr_controller :: character_controller
  ccr_lifetime :: character_lifetime

record draft_compile_request =
  dcr_origin :: generated_origin
  dcr_scene_id :: object_id
  dcr_place_id :: object_id
  dcr_controller :: character_controller
  dcr_lifetime :: character_lifetime

record compiled_player_creation =
  cpl_character :: character_spawn_spec
  cpl_parameter_overrides :: "(content_definition_id, parameter_value) btree"

record scene_place_spawn_plan =
  spp_definition_id :: content_definition_id
  spp_display_name :: display_name
  spp_description :: short_text
  spp_tags :: "content_definition_id list"
  spp_edges :: "content_definition_id list"
  spp_origin :: content_origin

record scene_character_spawn_plan =
  scp_local_key :: short_text
  scp_character_id :: content_definition_id
  scp_place_id :: content_definition_id
  scp_controller :: character_controller
  scp_lifetime :: initial_character_lifetime

record scene_spawn_plan =
  ssp_definition_id :: content_definition_id
  ssp_display_name :: display_name
  ssp_framing :: short_text
  ssp_entry_place :: content_definition_id
  ssp_places :: "scene_place_spawn_plan list"
  ssp_characters :: "scene_character_spawn_plan list"
  ssp_origin :: content_origin

definition registry_get :: "definition_registry \<Rightarrow> content_definition_id
    \<Rightarrow> registered_definition option" where
  "registry_get R i = bt_get i (dr_definitions R)"

section \<open>Scenes\<close>

definition check_place_edge :: "definition_registry \<Rightarrow> content_definition_id \<Rightarrow> scene_definition
    \<Rightarrow> content_definition_id \<Rightarrow> content_definition_id \<Rightarrow> content_error + unit" where
  "check_place_edge R i scene place_id edge =
     (if \<not> bs_contains edge (snd_places scene)
      then Inl (CompileScene i ''place edge leaves the scene'')
      else
        (case map_option reg_definition (registry_get R edge) of
           Some (PlaceDef peer) \<Rightarrow>
             if edge = place_id \<or> \<not> bs_contains place_id (pld_edges peer)
             then Inl (CompileScene i ''place edge is not a bidirectional peer'') else Inr ()
         | _ \<Rightarrow> Inl (CompileScene i ''place edge is unavailable'')))"

definition compile_place :: "definition_registry \<Rightarrow> content_definition_id \<Rightarrow> scene_definition
    \<Rightarrow> content_definition_id \<Rightarrow> content_error + scene_place_spawn_plan" where
  "compile_place R i scene place_id =
     (case registry_get R place_id of
        None \<Rightarrow> Inl (CompileScene i ''place is unavailable'')
      | Some entry \<Rightarrow>
          (case reg_definition entry of
             PlaceDef place \<Rightarrow>
               rbind (rforeach (check_place_edge R i scene place_id) (pld_edges place)) (\<lambda>_.
                 Inr \<lparr>spp_definition_id = pld_id place, spp_display_name = pld_display_name place,
                      spp_description = pld_description place, spp_tags = pld_tags place,
                      spp_edges = pld_edges place, spp_origin = reg_origin entry\<rparr>)
           | _ \<Rightarrow> Inl (CompileScene i ''place has the wrong kind'')))"

fun initial_controller :: "initial_character_controller \<Rightarrow> character_controller" where
  "initial_controller InitialPlayer = PlayerController"
| "initial_controller InitialNarrator = NarratorProxy"
| "initial_controller InitialRules = RulesController"
| "initial_controller InitialAgent = AgentController"

definition character_plan :: "scene_character_definition \<Rightarrow> scene_character_spawn_plan" where
  "character_plan c =
     \<lparr>scp_local_key = scd_local_key c, scp_character_id = scd_character_id c,
      scp_place_id = scd_place_id c, scp_controller = initial_controller (scd_controller c),
      scp_lifetime = scd_lifetime c\<rparr>"

definition compile_scene :: "definition_registry \<Rightarrow> content_definition_id
    \<Rightarrow> content_error + scene_spawn_plan" where
  "compile_scene R i =
     (case registry_get R i of
        None \<Rightarrow> Inl (CompileScene i ''definition is missing'')
      | Some entry \<Rightarrow>
          (case reg_definition entry of
             SceneDef scene \<Rightarrow>
               rbind (rmapM (compile_place R i scene) (snd_places scene)) (\<lambda>places.
                 let characters = sort_key scd_local_key (snd_characters scene)
                 in if length (filter (\<lambda>c. scd_controller c = InitialPlayer) characters) \<noteq> 1
                    then Inl (CompileScene i ''bootstrap scene requires exactly one player'')
                    else Inr \<lparr>ssp_definition_id = snd_id scene,
                              ssp_display_name = snd_display_name scene,
                              ssp_framing = snd_framing scene,
                              ssp_entry_place = snd_entry_place scene, ssp_places = places,
                              ssp_characters = map character_plan characters,
                              ssp_origin = reg_origin entry\<rparr>)
           | _ \<Rightarrow> Inl (CompileScene i ''definition is not a scene'')))"

section \<open>Characters\<close>

definition compile_resources :: "initial_resource list \<Rightarrow> (content_definition_id, resource_pool) btree" where
  "compile_resources rs = bt_of_list (map (\<lambda>r. (ir_resource_id r,
     \<lparr>rp_resource_id = ir_resource_id r, rp_current = ir_current r,
      rp_base_maximum = ir_base_maximum r\<rparr>)) rs)"

definition compile_condition :: "content_definition_id \<Rightarrow> initial_condition \<Rightarrow> condition_grant_input" where
  "compile_condition source c =
     \<lparr>cgi_condition_id = ic_condition_id c, cgi_source = ConditionFromSystem source,
      cgi_stacks = ic_stacks c, cgi_intensity = ic_intensity c\<rparr>"

definition compile_item :: "initial_item \<Rightarrow> item_grant_input" where
  "compile_item v =
     \<lparr>igi_local_key = ii_local_key v, igi_definition_id = ii_item_id v, igi_quantity = ii_quantity v,
      igi_parent_local_key = ii_parent_local_key v\<rparr>"

definition compile_skill :: "initial_skill \<Rightarrow> skill_grant_input" where
  "compile_skill s =
     \<lparr>sgi_skill_id = isk_skill_id s, sgi_rank = isk_rank s, sgi_proficiency = isk_proficiency s,
      sgi_enabled = isk_enabled s\<rparr>"

definition compile_fact :: "content_definition_id \<Rightarrow> initial_fact \<Rightarrow> known_fact_input" where
  "compile_fact source f =
     \<lparr>kfi_subject = ift_subject f, kfi_predicate_id = ift_predicate_id f, kfi_value = ift_value f,
      kfi_status = Believed, kfi_confidence = ift_confidence f, kfi_source = FactFromContent source\<rparr>"

definition compile_goal :: "goal_source \<Rightarrow> initial_goal \<Rightarrow> goal_input" where
  "compile_goal source g =
     \<lparr>gi_description = igl_description g, gi_priority = igl_priority g, gi_source = source\<rparr>"

definition compile_agent_binding :: "definition_registry \<Rightarrow> content_definition_id
    \<Rightarrow> character_controller \<Rightarrow> content_definition_id option \<Rightarrow> content_error + agent_binding option" where
  "compile_agent_binding R i controller profile =
     (if controller = AgentController
      then
        (case profile of
           None \<Rightarrow> Inl (CompileCharacter i ''Agent controller requires an AgentProfile'')
         | Some p \<Rightarrow>
             (case map_option reg_definition (registry_get R p) of
                Some (AgentProfileDef d) \<Rightarrow>
                  Inr (Some \<lparr>ab_profile_id = p, ab_enabled = True, ab_autonomy = apd_autonomy d\<rparr>)
              | _ \<Rightarrow> Inl (CompileCharacter i ''agent profile is unavailable'')))
      else Inr None)"

definition compile_character :: "definition_registry \<Rightarrow> content_definition_id
    \<Rightarrow> character_compile_request \<Rightarrow> content_error + character_spawn_spec" where
  "compile_character R i request =
     (case registry_get R i of
        None \<Rightarrow> Inl (CompileCharacter i ''definition is missing'')
      | Some entry \<Rightarrow>
          (case reg_definition entry of
             CharacterDef c \<Rightarrow>
               rbind (compile_agent_binding R i (ccr_controller request) (chd_agent_profile c)) (\<lambda>binding.
                 Inr \<lparr>sp_origin = ContentEntity (reg_origin entry),
                      sp_display_name = chd_display_name c, sp_profile = chd_profile c,
                      sp_appearance = chd_appearance c, sp_controller = ccr_controller request,
                      sp_lifetime = ccr_lifetime request, sp_agent_binding = binding,
                      sp_placement = \<lparr>pl_scene_id = ccr_scene_id request,
                                      pl_place_id = ccr_place_id request\<rparr>,
                      sp_attributes = chd_base_attributes c,
                      sp_resources = compile_resources (chd_resources c),
                      sp_conditions = map (compile_condition (chd_id c)) (chd_conditions c),
                      sp_inventory = map compile_item (chd_inventory c),
                      sp_skills = map compile_skill (chd_skills c),
                      sp_knowledge = map (compile_fact (chd_id c)) (chd_knowledge c),
                      sp_goals = map (compile_goal (GoalFromCharacterDefinition (chd_id c))) (chd_goals c),
                      sp_trusted_constraints = chd_spawn_constraints c\<rparr>)
           | _ \<Rightarrow> Inl (CompileCharacter i ''definition is not a character'')))"

section \<open>Player creation\<close>

definition player_compile_error :: "player_creation_form_definition \<Rightarrow> string \<Rightarrow> content_error" where
  "player_compile_error form reason = CompileCharacter (form_id form) reason"

fun default_player_field_value :: "player_creation_field_type \<Rightarrow> player_creation_field_value option" where
  "default_player_field_value (TextField _ _ d) =
     Option.bind d (\<lambda>v. map_option TextValue (ok (bounded_text_new (as_str v))))"
| "default_player_field_value (LongTextField _ _ d) = map_option TextValue d"
| "default_player_field_value (IntegerField _ _ d) = map_option IntegerValue d"
| "default_player_field_value (NumberField _ _ d) = map_option NumberValue d"
| "default_player_field_value (BooleanField d) = Some (BooleanValue d)"
| "default_player_field_value (SingleChoiceField _ d) = map_option SingleChoiceValue d"
| "default_player_field_value (MultiChoiceField _ _ _ d) = map_option MultiChoiceValue d"

definition text_length_ok :: "u32 \<Rightarrow> u32 \<Rightarrow> long_text \<Rightarrow> bool" where
  "text_length_ok minimum maximum v \<longleftrightarrow>
     unat minimum \<le> length (as_str v) \<and> length (as_str v) \<le> unat maximum"

fun player_field_value_ok :: "player_creation_field_type \<Rightarrow> player_creation_field_value \<Rightarrow> bool" where
  "player_field_value_ok (TextField minimum maximum _) (TextValue v) = text_length_ok minimum maximum v"
| "player_field_value_ok (LongTextField minimum maximum _) (TextValue v) =
     text_length_ok minimum maximum v"
| "player_field_value_ok (IntegerField minimum maximum _) (IntegerValue v) =
     (i64_le minimum v \<and> i64_le v maximum)"
| "player_field_value_ok (NumberField minimum maximum _) (NumberValue v) = (v \<ge> minimum \<and> v \<le> maximum)"
| "player_field_value_ok (BooleanField _) (BooleanValue _) = True"
| "player_field_value_ok (SingleChoiceField options _) (SingleChoiceValue v) =
     list_ex (\<lambda>o'. pcc_value o' = v) options"
| "player_field_value_ok (MultiChoiceField minimum maximum options _) (MultiChoiceValue vs) =
     (unat minimum \<le> length vs \<and> length vs \<le> unat maximum
      \<and> list_all (\<lambda>v. list_ex (\<lambda>o'. pcc_value o' = v) options) vs)"
| "player_field_value_ok _ _ = False"

text \<open>The variables the field loop updates: the character, the parameter overrides, the item keys
  in use and the next candidate number.\<close>

record player_build =
  pb_character :: character_spawn_spec
  pb_parameters :: "(content_definition_id, parameter_value) btree"
  pb_item_keys :: "short_text list"
  pb_next_item :: u32

definition require_form_kind :: "definition_registry \<Rightarrow> player_creation_form_definition
    \<Rightarrow> content_definition_id \<Rightarrow> string \<Rightarrow> content_error + unit" where
  "require_form_kind R form i k = require_kind (dr_definitions R) (form_id form) i k"

definition set_player_attribute :: "definition_registry \<Rightarrow> player_creation_form_definition
    \<Rightarrow> content_definition_id \<Rightarrow> fixed \<Rightarrow> player_build \<Rightarrow> content_error + player_build" where
  "set_player_attribute R form i v b =
     rbind (require_form_kind R form i ''attribute'') (\<lambda>_.
       Inr (b\<lparr>pb_character := (pb_character b)\<lparr>sp_attributes :=
              bt_insert i v (sp_attributes (pb_character b))\<rparr>\<rparr>))"

definition set_player_parameter :: "definition_registry \<Rightarrow> player_creation_form_definition
    \<Rightarrow> content_definition_id \<Rightarrow> parameter_value \<Rightarrow> player_build \<Rightarrow> content_error + player_build" where
  "set_player_parameter R form i v b =
     (case map_option reg_definition (registry_get R i) of
        Some (ParameterDef p) \<Rightarrow>
          if pd_persistence p \<noteq> SaveParameter \<or> \<not> parameter_value_matches (pd_value_type p) v
          then Inl (player_compile_error form ''player parameter value is invalid'')
          else Inr (b\<lparr>pb_parameters := bt_insert i v (pb_parameters b)\<rparr>)
      | _ \<Rightarrow> Inl (player_compile_error form ''player parameter is unavailable''))"

definition update_profile :: "(character_profile \<Rightarrow> character_profile) \<Rightarrow> player_build \<Rightarrow> player_build" where
  "update_profile f b = b\<lparr>pb_character := (pb_character b)\<lparr>sp_profile := f (sp_profile (pb_character b))\<rparr>\<rparr>"

fun apply_binding :: "definition_registry \<Rightarrow> player_creation_form_definition
    \<Rightarrow> player_creation_binding \<Rightarrow> player_creation_field_value \<Rightarrow> player_build
    \<Rightarrow> content_error + player_build" where
  "apply_binding R form BindDisplayName (TextValue v) b =
     rbind (map_err (\<lambda>_. player_compile_error form ''display name is invalid'')
              (bounded_text_non_empty (as_str v))) (\<lambda>t.
       Inr (b\<lparr>pb_character := (pb_character b)\<lparr>sp_display_name := t\<rparr>\<rparr>))"
| "apply_binding R form BindProfileSummary (TextValue v) b =
     rbind (map_err (\<lambda>_. player_compile_error form ''profile summary is invalid'')
              (bounded_text_new (as_str v))) (\<lambda>t. Inr (update_profile (\<lambda>p. p\<lparr>cp_summary := t\<rparr>) b))"
| "apply_binding R form BindProfileSpeakingStyle (TextValue v) b =
     rbind (map_err (\<lambda>_. player_compile_error form ''speaking style is invalid'')
              (bounded_text_new (as_str v))) (\<lambda>t.
       Inr (update_profile (\<lambda>p. p\<lparr>cp_speaking_style := t\<rparr>) b))"
| "apply_binding R form BindProfileValue (TextValue v) b =
     rbind (map_err (\<lambda>_. player_compile_error form ''profile value is invalid'')
              (bounded_text_new (as_str v))) (\<lambda>t.
       Inr (update_profile (\<lambda>p. p\<lparr>cp_values := cp_values p @ [t]\<rparr>) b))"
| "apply_binding R form (BindAttribute i) (IntegerValue v) b =
     rbind (map_err (\<lambda>_. player_compile_error form ''attribute value overflows'') (from_integer v))
       (\<lambda>x. set_player_attribute R form i x b)"
| "apply_binding R form (BindAttribute i) (NumberValue v) b = set_player_attribute R form i v b"
| "apply_binding R form (BindParameter i) (IntegerValue v) b =
     set_player_parameter R form i (PCounter v) b"
| "apply_binding R form (BindParameter i) (NumberValue v) b =
     set_player_parameter R form i (PFixed v) b"
| "apply_binding R form (BindParameter i) (BooleanValue v) b =
     set_player_parameter R form i (PBool v) b"
| "apply_binding R form (BindParameter i) (SingleChoiceValue v) b =
     set_player_parameter R form i (PEnum v) b"
| "apply_binding R form (BindParameter i) (MultiChoiceValue vs) b =
     set_player_parameter R form i (PTagSet vs) b"
| "apply_binding R form _ _ b =
     Inl (player_compile_error form ''player field binding is incompatible'')"

definition apply_player_binding :: "definition_registry \<Rightarrow> player_creation_form_definition
    \<Rightarrow> player_creation_field_definition \<Rightarrow> player_creation_field_value \<Rightarrow> player_build
    \<Rightarrow> content_error + player_build" where
  "apply_player_binding R form field v b =
     (case pcf_binding field of None \<Rightarrow> Inr b | Some binding \<Rightarrow> apply_binding R form binding v b)"

text \<open>The search for an unused item key has no bound in the source: the number saturates. \<open>None\<close> is a
  search that does not end; \<open>dbind\<close> and \<open>dfold\<close> pass it on.\<close>

definition dbind :: "('e + 'a) option \<Rightarrow> ('a \<Rightarrow> ('e + 'b) option) \<Rightarrow> ('e + 'b) option" where
  "dbind m f = (case m of None \<Rightarrow> None | Some (Inl e) \<Rightarrow> Some (Inl e) | Some (Inr x) \<Rightarrow> f x)"

fun dfold :: "('s \<Rightarrow> 'a \<Rightarrow> ('e + 's) option) \<Rightarrow> 's \<Rightarrow> 'a list \<Rightarrow> ('e + 's) option" where
  "dfold f s [] = Some (Inr s)"
| "dfold f s (x # xs) = dbind (f s x) (\<lambda>s'. dfold f s' xs)"

lemma dbind_simps [simp]:
  "dbind None f = None"
  "dbind (Some (Inl e)) f = Some (Inl e)"
  "dbind (Some (Inr x)) f = f x"
  by (simp_all add: dbind_def)

definition item_key_text :: "u32 \<Rightarrow> string" where
  "item_key_text n = ''ugc_item_'' @ nat_text (unat n)"

partial_function (option) fresh_item_key :: "player_creation_form_definition \<Rightarrow> short_text list \<Rightarrow> u32
    \<Rightarrow> (content_error + short_text \<times> u32) option" where
  "fresh_item_key form keys n =
     (case bounded_text_new (item_key_text n) of
        Inl _ \<Rightarrow> Some (Inl (player_compile_error form ''item key is invalid''))
      | Inr candidate \<Rightarrow>
          if bs_contains candidate keys then fresh_item_key form keys (saturating_add n 1)
          else Some (Inr (candidate, saturating_add n 1)))"

definition push_item :: "content_definition_id \<Rightarrow> u32 \<Rightarrow> short_text \<Rightarrow> u32 \<Rightarrow> player_build \<Rightarrow> player_build" where
  "push_item i quantity k n b =
     b\<lparr>pb_character := (pb_character b)\<lparr>sp_inventory := sp_inventory (pb_character b)
         @ [\<lparr>igi_local_key = k, igi_definition_id = i, igi_quantity = quantity,
              igi_parent_local_key = None\<rparr>]\<rparr>,
       pb_item_keys := bs_insort k (pb_item_keys b), pb_next_item := n\<rparr>"

fun apply_player_effect :: "definition_registry \<Rightarrow> player_creation_form_definition
    \<Rightarrow> player_build \<Rightarrow> player_creation_effect \<Rightarrow> (content_error + player_build) option" where
  "apply_player_effect R form b (PGrantItem i quantity) =
     dbind (Some (require_form_kind R form i ''item'')) (\<lambda>_.
     dbind (fresh_item_key form (pb_item_keys b) (pb_next_item b)) (\<lambda>(k, n).
       Some (Inr (push_item i quantity k n b))))"
| "apply_player_effect R form b (PGrantSkill i rank proficiency) =
     Some (rbind (require_form_kind R form i ''skill'') (\<lambda>_.
       Inr (b\<lparr>pb_character := (pb_character b)\<lparr>sp_skills := sp_skills (pb_character b)
         @ [\<lparr>sgi_skill_id = i, sgi_rank = rank, sgi_proficiency = proficiency,
              sgi_enabled = True\<rparr>]\<rparr>\<rparr>)))"
| "apply_player_effect R form b (PApplyCondition i stacks intensity) =
     Some (rbind (require_form_kind R form i ''condition'') (\<lambda>_.
       Inr (b\<lparr>pb_character := (pb_character b)\<lparr>sp_conditions := sp_conditions (pb_character b)
         @ [\<lparr>cgi_condition_id = i, cgi_source = ConditionFromSystem (form_id form),
              cgi_stacks = stacks, cgi_intensity = intensity\<rparr>]\<rparr>\<rparr>)))"
| "apply_player_effect R form b (PSetAttribute i v) = Some (set_player_attribute R form i v b)"
| "apply_player_effect R form b (PSetParameter i v) = Some (set_player_parameter R form i v b)"
| "apply_player_effect R form b (PAddNarrativeTag i) =
     Some (rbind (require_form_kind R form i ''tag'') (\<lambda>_.
       Inr (update_profile (\<lambda>p. p\<lparr>cp_narrative_tags := bs_insort i (cp_narrative_tags p)\<rparr>) b)))"

fun selected_options :: "player_creation_field_type \<Rightarrow> player_creation_field_value
    \<Rightarrow> player_creation_choice list" where
  "selected_options (SingleChoiceField options _) (SingleChoiceValue v) =
     filter (\<lambda>o'. pcc_value o' = v) options"
| "selected_options (MultiChoiceField _ _ options _) (MultiChoiceValue vs) =
     filter (\<lambda>o'. bs_contains (pcc_value o') vs) options"
| "selected_options _ _ = []"

definition apply_selected_player_effects :: "definition_registry \<Rightarrow> player_creation_form_definition
    \<Rightarrow> player_creation_field_definition \<Rightarrow> player_creation_field_value \<Rightarrow> player_build
    \<Rightarrow> (content_error + player_build) option" where
  "apply_selected_player_effects R form field v b =
     dfold (\<lambda>b o'. dfold (apply_player_effect R form) b (pcc_effects o')) b
       (selected_options (pcf_value_type field) v)"

definition apply_player_field :: "definition_registry \<Rightarrow> player_creation_form_definition
    \<Rightarrow> player_creation_draft \<Rightarrow> player_build \<Rightarrow> player_creation_field_definition
    \<Rightarrow> (content_error + player_build) option" where
  "apply_player_field R form draft b field =
     (let v = (case bt_get (pcf_id field) (pdr_values draft) of
                 Some v \<Rightarrow> Some v | None \<Rightarrow> default_player_field_value (pcf_value_type field))
      in case v of
           None \<Rightarrow>
             if pcf_required field
             then Some (Inl (player_compile_error form ''required player field is missing''))
             else Some (Inr b)
         | Some v \<Rightarrow>
             dbind (Some (reject_if (\<not> player_field_value_ok (pcf_value_type field) v)
                            (player_compile_error form ''player field value is invalid''))) (\<lambda>_.
             dbind (Some (apply_player_binding R form field v b)) (\<lambda>b.
               apply_selected_player_effects R form field v b)))"

definition start_player_build :: "character_spawn_spec \<Rightarrow> content_origin \<Rightarrow> player_build" where
  "start_player_build c template =
     \<lparr>pb_character = c\<lparr>sp_origin := PlayerCreatedEntity template\<rparr>, pb_parameters = [],
      pb_item_keys = bs_of_list (map igi_local_key (sp_inventory c)), pb_next_item = 0\<rparr>"

definition compile_player_draft :: "definition_registry \<Rightarrow> player_creation_draft
    \<Rightarrow> character_compile_request \<Rightarrow> (content_error + player_build) option" where
  "compile_player_draft R draft request =
     (case registry_get R (pdr_form_id draft) of
        None \<Rightarrow> Some (Inl (CompileCharacter (pdr_form_id draft) ''player creation form is unavailable''))
      | Some entry \<Rightarrow>
          (case reg_definition entry of
             PlayerCreationFormDef form \<Rightarrow>
               if list_ex (\<lambda>i. \<not> list_ex (\<lambda>f. pcf_id f = i) (form_fields form))
                    (bt_keys (pdr_values draft))
               then Some (Inl (player_compile_error form ''draft contains an unknown field''))
               else
                 dbind (Some (compile_character R (form_template form) request)) (\<lambda>c.
                   case sp_origin c of
                     ContentEntity template \<Rightarrow>
                       dfold (apply_player_field R form draft) (start_player_build c template)
                         (form_fields form)
                   | _ \<Rightarrow> Some (Inl (player_compile_error form ''player template origin is invalid'')))
           | _ \<Rightarrow> Some (Inl (CompileCharacter (pdr_form_id draft)
                    ''player creation definition has the wrong kind''))))"

definition compile_player :: "definition_registry \<Rightarrow> content_definition_id \<Rightarrow> player_bootstrap
    \<Rightarrow> character_compile_request \<Rightarrow> (content_error + compiled_player_creation) option" where
  "compile_player R default_character_id bootstrap request =
     dbind (case bootstrap of
              FixedPlayer \<Rightarrow>
                Some (rbind (compile_character R default_character_id request) (\<lambda>c. Inr (c, [])))
            | PresetPlayer i \<Rightarrow> Some (rbind (compile_character R i request) (\<lambda>c. Inr (c, [])))
            | UgcPlayer draft \<Rightarrow>
                dbind (compile_player_draft R draft request)
                  (\<lambda>b. Some (Inr (pb_character b, pb_parameters b))))
       (\<lambda>(c, overrides).
          if sp_controller c \<noteq> PlayerController \<or> sp_agent_binding c \<noteq> None
          then Some (Inl (CompileCharacter default_character_id
                 ''player bootstrap must produce a player-controlled character''))
          else Some (Inr \<lparr>cpl_character = c\<lparr>sp_lifetime := Persistent\<rparr>,
                          cpl_parameter_overrides = overrides\<rparr>))"

section \<open>Generated characters\<close>

definition validate_draft_references :: "definitions \<Rightarrow> generation_policy \<Rightarrow> npc_draft
    \<Rightarrow> content_error + unit" where
  "validate_draft_references ds policy draft =
     (let owner = gp_id policy in
      rbind (require_each ds owner ''agent_profile'' (gp_allowed_agent_profiles policy)) (\<lambda>_.
      rbind (require_each ds owner ''tag'' (cp_narrative_tags (nd_profile draft))) (\<lambda>_.
      rbind (require_each ds owner ''attribute'' (bt_keys (nd_base_attributes draft))) (\<lambda>_.
      rbind (require_each ds owner ''attribute'' (constraint_attributes (gp_constraints policy))) (\<lambda>_.
      rbind (require_grantable ds owner (sc_allowed_definitions (gp_constraints policy))) (\<lambda>_.
      rbind (require_each ds owner ''resource'' (map ir_resource_id (nd_resources draft))) (\<lambda>_.
      rbind (require_each ds owner ''condition'' (map ic_condition_id (nd_conditions draft))) (\<lambda>_.
      rbind (require_each ds owner ''item'' (map ii_item_id (nd_inventory draft))) (\<lambda>_.
      rbind (require_each ds owner ''skill'' (map isk_skill_id (nd_skills draft))) (\<lambda>_.
        require_each ds owner ''tag'' (map ift_predicate_id (nd_knowledge draft))))))))))))"

definition validate_draft_budget :: "generation_policy \<Rightarrow> npc_draft \<Rightarrow> content_error + unit" where
  "validate_draft_budget policy draft =
     (let c = gp_constraints policy; bad = InvalidContentValue (gp_id policy)
      in if length (nd_inventory draft) > unat (sc_maximum_items c)
         then Inl (bad ''draft.inventory.budget'')
         else if length (nd_skills draft) > unat (sc_maximum_skills c)
         then Inl (bad ''draft.skills.budget'')
         else if sc_maximum_attribute_points c < fixed_zero \<or> attribute_schema_invalid c
         then Inl (bad ''draft.attribute.schema'')
         else if list_ex (\<lambda>i. \<not> bs_contains i (sc_allowed_definitions c))
                (map ic_condition_id (nd_conditions draft) @ map ii_item_id (nd_inventory draft)
                 @ map isk_skill_id (nd_skills draft))
         then Inl (bad ''draft.allowed_definitions'')
         else rbind (map_err bad (attribute_points ''draft.attribute.'' c fixed_zero
                       (nd_base_attributes draft))) (\<lambda>points.
           if points > sc_maximum_attribute_points c then Inl (bad ''draft.attribute.points'')
           else Inr ()))"

definition compile_draft_binding :: "definition_registry \<Rightarrow> generation_policy
    \<Rightarrow> character_controller \<Rightarrow> content_error + agent_binding option" where
  "compile_draft_binding R policy controller =
     (if controller = AgentController
      then
        (case gp_allowed_agent_profiles policy of
           [p] \<Rightarrow>
             (case map_option reg_definition (registry_get R p) of
                Some (AgentProfileDef d) \<Rightarrow>
                  Inr (Some \<lparr>ab_profile_id = p, ab_enabled = True, ab_autonomy = apd_autonomy d\<rparr>)
              | _ \<Rightarrow> Inl (CompileCharacter (gp_id policy) ''draft AgentProfile is unavailable''))
         | _ \<Rightarrow> Inl (CompileCharacter (gp_id policy)
                  ''GenerationPolicy must select exactly one AgentProfile''))
      else Inr None)"

definition compile_draft :: "definition_registry \<Rightarrow> npc_draft \<Rightarrow> generation_policy
    \<Rightarrow> draft_compile_request \<Rightarrow> content_error + character_spawn_spec" where
  "compile_draft R draft policy request =
     rbind (validate_draft_references (dr_definitions R) policy draft) (\<lambda>_.
     rbind (validate_draft_budget policy draft) (\<lambda>_.
     rbind (compile_draft_binding R policy (dcr_controller request)) (\<lambda>binding.
       Inr \<lparr>sp_origin = GeneratedEntity (dcr_origin request),
            sp_display_name = nd_display_name draft, sp_profile = nd_profile draft,
            sp_appearance = None, sp_controller = dcr_controller request,
            sp_lifetime = dcr_lifetime request, sp_agent_binding = binding,
            sp_placement = \<lparr>pl_scene_id = dcr_scene_id request,
                            pl_place_id = dcr_place_id request\<rparr>,
            sp_attributes = nd_base_attributes draft,
            sp_resources = compile_resources (nd_resources draft),
            sp_conditions = map (compile_condition (gp_id policy)) (nd_conditions draft),
            sp_inventory = map compile_item (nd_inventory draft),
            sp_skills = map compile_skill (nd_skills draft),
            sp_knowledge = map (compile_fact (gp_id policy)) (nd_knowledge draft),
            sp_goals = map (compile_goal (GoalFromRule (gp_id policy))) (nd_goals draft),
            sp_trusted_constraints = gp_constraints policy\<rparr>)))"

section \<open>What compilation guarantees\<close>

lemma dbind_Inr_iff [res_inv]:
  "dbind m f = Some (Inr y) \<longleftrightarrow> (\<exists>x. m = Some (Inr x) \<and> f x = Some (Inr y))"
  by (auto simp: dbind_def split: option.splits sum.splits)

lemma dfold_invariant:
  assumes "dfold f s xs = Some (Inr t)" and "P s"
    and "\<And>s x s'. P s \<Longrightarrow> x \<in> set xs \<Longrightarrow> f s x = Some (Inr s') \<Longrightarrow> P s'"
  shows "P t"
  using assms
proof (induction xs arbitrary: s)
  case Nil
  then show ?case by simp
next
  case (Cons x xs)
  from Cons.prems(1) obtain s' where s': "f s x = Some (Inr s')" "dfold f s' xs = Some (Inr t)"
    by (auto simp: dbind_Inr_iff)
  then show ?case
    using Cons.IH [OF s'(2)] Cons.prems(2,3) by (meson list.set_intros)
qed

subsection \<open>Point buy\<close>

definition attribute_in_range :: "spawn_constraints \<Rightarrow> content_definition_id \<times> fixed \<Rightarrow> bool" where
  "attribute_in_range c p \<longleftrightarrow> (\<exists>minimum maximum. bt_get (fst p) (sc_minimum_attributes c) = Some minimum
     \<and> bt_get (fst p) (sc_maximum_attributes c) = Some maximum \<and> minimum \<le> snd p \<and> snd p \<le> maximum)"

definition attribute_spent :: "spawn_constraints \<Rightarrow> content_definition_id \<times> fixed \<Rightarrow> int" where
  "attribute_spent c p =
     micros (snd p) - micros (case bt_get (fst p) (sc_minimum_attributes c) of
       None \<Rightarrow> fixed_zero | Some minimum \<Rightarrow> minimum)"

lemma attribute_points_Inr:
  "attribute_points field c points vs = Inr points' \<Longrightarrow>
     list_all (attribute_in_range c) vs
     \<and> micros points' = micros points + (\<Sum>p\<leftarrow>vs. attribute_spent c p)"
  by (induction field c points vs rule: attribute_points.induct)
    (auto simp: rbind_Inr_iff ok_or_Inr_iff map_err_Inr_iff fixed_sub_Inr_iff fixed_add_Inr_iff
      attribute_in_range_def attribute_spent_def not_less split: if_splits)

text \<open>The contract of a spawn: what the trusted constraints allow.\<close>

definition spawn_within_constraints :: "spawn_constraints \<Rightarrow> content_definition_id list \<Rightarrow> nat \<Rightarrow> nat
    \<Rightarrow> base_attributes \<Rightarrow> bool" where
  "spawn_within_constraints c used items skills attributes \<longleftrightarrow>
     items \<le> unat (sc_maximum_items c) \<and> skills \<le> unat (sc_maximum_skills c)
     \<and> set used \<subseteq> set (sc_allowed_definitions c)
     \<and> list_all (attribute_in_range c) attributes
     \<and> (\<Sum>p\<leftarrow>attributes. attribute_spent c p) \<le> micros (sc_maximum_attribute_points c)"

definition spec_used_definitions :: "character_spawn_spec \<Rightarrow> content_definition_id list" where
  "spec_used_definitions s = map cgi_condition_id (sp_conditions s)
     @ map igi_definition_id (sp_inventory s) @ map sgi_skill_id (sp_skills s)"

definition spec_within_constraints :: "character_spawn_spec \<Rightarrow> bool" where
  "spec_within_constraints s \<longleftrightarrow> spawn_within_constraints (sp_trusted_constraints s)
     (spec_used_definitions s) (length (sp_inventory s)) (length (sp_skills s)) (sp_attributes s)"

lemma validate_draft_budget_Inr:
  assumes "validate_draft_budget policy draft = Inr ()"
  shows "spawn_within_constraints (gp_constraints policy)
    (map ic_condition_id (nd_conditions draft) @ map ii_item_id (nd_inventory draft)
       @ map isk_skill_id (nd_skills draft))
    (length (nd_inventory draft)) (length (nd_skills draft)) (nd_base_attributes draft)"
  using assms attribute_points_Inr [of "''draft.attribute.''" "gp_constraints policy" fixed_zero
      "nd_base_attributes draft"]
  by (auto simp: validate_draft_budget_def Let_def rbind_Inr_iff map_err_Inr_iff list_ex_iff
      bs_contains_def spawn_within_constraints_def less_fixed_def split: if_splits)

lemma validate_character_definition_Inr:
  assumes "validate_character_definition v = Inr ()"
  shows "spawn_within_constraints (chd_spawn_constraints v)
    (map ic_condition_id (chd_conditions v) @ map ii_item_id (chd_inventory v)
       @ map isk_skill_id (chd_skills v))
    (length (chd_inventory v)) (length (chd_skills v)) (chd_base_attributes v)"
  using assms attribute_points_Inr [of "''character.spawn_constraints.attribute_''"
      "chd_spawn_constraints v" fixed_zero "chd_base_attributes v"]
  by (auto simp: validate_character_definition_def Let_def rbind_Inr_iff list_ex_iff
      bs_contains_def spawn_within_constraints_def less_fixed_def split: if_splits)

lemma compile_draft_within:
  "compile_draft R draft policy request = Inr spec \<Longrightarrow>
    spec_within_constraints spec \<and> sp_trusted_constraints spec = gp_constraints policy
    \<and> sp_controller spec = dcr_controller request
    \<and> (sp_agent_binding spec = None \<longleftrightarrow> dcr_controller request \<noteq> AgentController)"
  using validate_draft_budget_Inr [of policy draft]
  by (auto simp: compile_draft_def rbind_Inr_iff spec_within_constraints_def compile_draft_binding_def
      spec_used_definitions_def compile_condition_def compile_item_def compile_skill_def comp_def
      split: if_splits list.splits option.splits content_definition.splits)

lemma compile_character_within:
  assumes "definitions_ok (dr_definitions R)" and "compile_character R i request = Inr spec"
  shows "spec_within_constraints spec"
proof -
  from assms(2) obtain entry c binding where e: "registry_get R i = Some entry"
    "reg_definition entry = CharacterDef c"
    and spec: "sp_conditions spec = map (compile_condition (chd_id c)) (chd_conditions c)"
      "sp_inventory spec = map compile_item (chd_inventory c)"
      "sp_skills spec = map compile_skill (chd_skills c)"
      "sp_attributes spec = chd_base_attributes c"
      "sp_trusted_constraints spec = chd_spawn_constraints c"
    by (auto simp: compile_character_def rbind_Inr_iff split: option.splits content_definition.splits)
  from assms(1) e have "validate_character_definition c = Inr ()"
    by (auto simp: registry_get_def entry_ok_def validate_local_values_def map_err_Inr_iff
        dest: definitions_okD)
  then show ?thesis
    using validate_character_definition_Inr [of c]
    by (simp add: spec_within_constraints_def spec_used_definitions_def spec comp_def
        compile_condition_def compile_item_def compile_skill_def)
qed

subsection \<open>Scenes\<close>

text \<open>The places of a plan form a symmetric, irreflexive graph closed within the plan.\<close>

definition place_plan_edges :: "scene_spawn_plan \<Rightarrow> (content_definition_id \<times> content_definition_id) set" where
  "place_plan_edges plan = {(spp_definition_id p, e) | p e. p \<in> set (ssp_places plan) \<and> e \<in> set (spp_edges p)}"

lemma check_place_edge_Inr:
  "check_place_edge R i scene q e = Inr () \<Longrightarrow> e \<in> set (snd_places scene) \<and> e \<noteq> q
     \<and> (\<exists>entry peer. registry_get R e = Some entry \<and> reg_definition entry = PlaceDef peer
          \<and> q \<in> set (pld_edges peer))"
  by (auto simp: check_place_edge_def bs_contains_def
      split: option.splits content_definition.splits if_splits)

lemma compile_place_Inr:
  assumes "definitions_ok (dr_definitions R)" and "compile_place R i scene place_id = Inr p"
  shows "spp_definition_id p = place_id"
    and "\<exists>entry place. registry_get R place_id = Some entry \<and> reg_definition entry = PlaceDef place
      \<and> spp_edges p = pld_edges place"
    and "\<forall>e\<in>set (spp_edges p). check_place_edge R i scene place_id e = Inr ()"
  using assms
  by (auto simp: compile_place_def rbind_Inr_iff rforeach_Inr_iff registry_get_def entry_ok_def
      dest!: definitions_okD split: option.splits content_definition.splits)

lemma length_filter_sort_key: "length (filter P (sort_key f xs)) = length (filter P xs)"
  by (metis mset_filter mset_sort size_mset)

lemma compile_scene_Inr:
  assumes "compile_scene R i = Inr plan"
  shows "\<exists>entry scene. registry_get R i = Some entry \<and> reg_definition entry = SceneDef scene
    \<and> list_all2 (\<lambda>q p. compile_place R i scene q = Inr p) (snd_places scene) (ssp_places plan)
    \<and> ssp_entry_place plan = snd_entry_place scene
    \<and> ssp_characters plan = map character_plan (sort_key scd_local_key (snd_characters scene))
    \<and> length (filter (\<lambda>c. scd_controller c = InitialPlayer) (snd_characters scene)) = 1"
  using assms
  by (auto simp: compile_scene_def rbind_Inr_iff Let_def rmapM_Inr_iff length_filter_sort_key
      split: option.splits content_definition.splits if_splits)

lemma list_all2_in_right: "list_all2 P xs ys \<Longrightarrow> y \<in> set ys \<Longrightarrow> \<exists>x\<in>set xs. P x y"
  by (induction rule: list_all2_induct) auto

lemma list_all2_in_left: "list_all2 P xs ys \<Longrightarrow> x \<in> set xs \<Longrightarrow> \<exists>y\<in>set ys. P x y"
  by (induction rule: list_all2_induct) auto

lemma compile_scene_edges:
  assumes "definitions_ok (dr_definitions R)" and "compile_scene R i = Inr plan"
  shows "sym (place_plan_edges plan)" and "irrefl (place_plan_edges plan)"
    and "Range (place_plan_edges plan) \<subseteq> spp_definition_id ` set (ssp_places plan)"
proof -
  from compile_scene_Inr [OF assms(2)] obtain scene where
    l: "list_all2 (\<lambda>q p. compile_place R i scene q = Inr p) (snd_places scene) (ssp_places plan)"
    by blast
  have plan: "\<exists>q\<in>set (snd_places scene). compile_place R i scene q = Inr p" if "p \<in> set (ssp_places plan)" for p
    using list_all2_in_right [OF l that] .
  have placed: "\<exists>p\<in>set (ssp_places plan). compile_place R i scene q = Inr p" if "q \<in> set (snd_places scene)" for q
    using list_all2_in_left [OF l that] .
  have edge: "(a, b) \<in> place_plan_edges plan \<longleftrightarrow> (\<exists>p. p \<in> set (ssp_places plan)
      \<and> compile_place R i scene a = Inr p \<and> b \<in> set (spp_edges p))" for a b
    using plan compile_place_Inr(1) [OF assms(1)] by (fastforce simp: place_plan_edges_def)
  have edge_rev: "(b, a) \<in> place_plan_edges plan" and edge_neq: "a \<noteq> b"
    and edge_in: "b \<in> spp_definition_id ` set (ssp_places plan)"
    if "(a, b) \<in> place_plan_edges plan" for a b
  proof -
    from that obtain p where p: "compile_place R i scene a = Inr p" "b \<in> set (spp_edges p)"
      by (auto simp: edge)
    note c = check_place_edge_Inr [OF bspec [OF compile_place_Inr(3) [OF assms(1) p(1)] p(2)]]
    then show "a \<noteq> b" by auto
    from c placed obtain p' where p': "p' \<in> set (ssp_places plan)" "compile_place R i scene b = Inr p'"
      by blast
    with compile_place_Inr(1,2) [OF assms(1) p'(2)] c
    show "(b, a) \<in> place_plan_edges plan" and "b \<in> spp_definition_id ` set (ssp_places plan)"
      by (auto simp: edge)
  qed
  then show "sym (place_plan_edges plan)" and "irrefl (place_plan_edges plan)"
    and "Range (place_plan_edges plan) \<subseteq> spp_definition_id ` set (ssp_places plan)"
    by (auto intro: symI simp: irrefl_def)
qed

subsection \<open>Player creation\<close>

lemma fresh_item_key_unused:
  assumes "fresh_item_key form keys n = Some r"
  shows "\<forall>k m. r = Inr (k, m) \<longrightarrow> k \<notin> set keys"
  by (rule fresh_item_key.raw_induct [OF _ assms])
    (auto simp: bs_contains_def split: sum.splits if_splits)

text \<open>What the field loop keeps: overrides are declared, saved and of the declared type, and the
  items have distinct keys, all of them registered.\<close>

definition override_ok :: "definition_registry \<Rightarrow> content_definition_id \<Rightarrow> parameter_value \<Rightarrow> bool" where
  "override_ok R i v \<longleftrightarrow> (\<exists>e p. registry_get R i = Some e \<and> reg_definition e = ParameterDef p
     \<and> pd_persistence p = SaveParameter \<and> parameter_value_matches (pd_value_type p) v)"

definition player_build_ok :: "definition_registry \<Rightarrow> player_build \<Rightarrow> bool" where
  "player_build_ok R b \<longleftrightarrow>
     (\<forall>i v. bt_get i (pb_parameters b) = Some v \<longrightarrow> override_ok R i v)
     \<and> set (pb_item_keys b) = set (map igi_local_key (sp_inventory (pb_character b)))
     \<and> distinct (map igi_local_key (sp_inventory (pb_character b)))"

lemma set_player_parameter_ok:
  "player_build_ok R b \<Longrightarrow> set_player_parameter R form i v b = Inr b' \<Longrightarrow> player_build_ok R b'"
  by (auto simp: set_player_parameter_def player_build_ok_def override_ok_def
      split: option.splits content_definition.splits if_splits)

lemma set_player_attribute_ok:
  "player_build_ok R b \<Longrightarrow> set_player_attribute R form i v b = Inr b' \<Longrightarrow> player_build_ok R b'"
  by (auto simp: set_player_attribute_def player_build_ok_def rbind_Inr_iff)

lemma player_build_ok_character:
  "sp_inventory c = sp_inventory (pb_character b) \<Longrightarrow>
    player_build_ok R (b\<lparr>pb_character := c\<rparr>) = player_build_ok R b"
  by (simp add: player_build_ok_def)

lemma player_build_ok_profile: "player_build_ok R (update_profile f b) = player_build_ok R b"
  by (simp add: update_profile_def player_build_ok_character)

lemmas player_build_oks = set_player_parameter_ok set_player_attribute_ok

lemma apply_binding_ok:
  "apply_binding R form binding v b = Inr b' \<Longrightarrow> player_build_ok R b \<Longrightarrow> player_build_ok R b'"
  by (induction R form binding v b rule: apply_binding.induct)
    (auto simp: rbind_Inr_iff player_build_ok_profile player_build_ok_character
      dest: player_build_oks)

lemma push_item_ok:
  "player_build_ok R b \<Longrightarrow> k \<notin> set (pb_item_keys b) \<Longrightarrow> player_build_ok R (push_item i q k n b)"
  by (simp add: player_build_ok_def push_item_def)

lemma apply_player_effect_ok:
  assumes "player_build_ok R b" and "apply_player_effect R form b e = Some (Inr b')"
  shows "player_build_ok R b'"
proof (cases "\<exists>i q. e = PGrantItem i q")
  case True
  with assms(2) obtain i q k n where "fresh_item_key form (pb_item_keys b) (pb_next_item b) = Some (Inr (k, n))"
    and b': "b' = push_item i q k n b"
    by (auto simp: dbind_Inr_iff)
  then have "k \<notin> set (pb_item_keys b)"
    using fresh_item_key_unused by blast
  with assms(1) show ?thesis
    unfolding b' by (rule push_item_ok)
next
  case False
  with assms show ?thesis
    by (cases e) (auto simp: rbind_Inr_iff player_build_ok_profile player_build_ok_character
        dest: player_build_oks)
qed

lemma apply_selected_player_effects_ok:
  assumes "player_build_ok R b" and "apply_selected_player_effects R form field v b = Some (Inr b')"
  shows "player_build_ok R b'"
  using assms(2,1) unfolding apply_selected_player_effects_def
  by (rule dfold_invariant) (erule (1) dfold_invariant, erule (1) apply_player_effect_ok)

lemma apply_player_field_ok:
  "player_build_ok R b \<Longrightarrow> apply_player_field R form draft b field = Some (Inr b') \<Longrightarrow>
    player_build_ok R b'"
  by (auto simp: apply_player_field_def Let_def dbind_Inr_iff apply_player_binding_def
      dest: apply_binding_ok apply_selected_player_effects_ok split: option.splits if_splits)

lemma start_player_build_ok:
  "distinct (map igi_local_key (sp_inventory c)) \<Longrightarrow> player_build_ok R (start_player_build c t)"
  by (simp add: player_build_ok_def start_player_build_def)

lemma try_insert_all_None_iff:
  "try_insert_all bad f seen xs = None \<longleftrightarrow>
    \<not> (distinct (map f xs) \<and> list_all (\<lambda>x. \<not> bad x) xs \<and> f ` set xs \<inter> set seen = {})"
proof (induction xs arbitrary: seen)
  case Nil
  then show ?case by simp
next
  case (Cons x xs)
  show ?case
  proof (cases "bad x \<or> f x \<in> set seen")
    case True
    then show ?thesis by (auto simp: bs_contains_def)
  next
    case False
    then show ?thesis by (simp add: Cons.IH bs_contains_def)
  qed
qed

lemma compile_character_item_keys:
  assumes "definitions_ok (dr_definitions R)" and "compile_character R i request = Inr spec"
  shows "distinct (map igi_local_key (sp_inventory spec))"
proof -
  from assms(2) obtain entry c where e: "registry_get R i = Some entry"
    "reg_definition entry = CharacterDef c" "sp_inventory spec = map compile_item (chd_inventory c)"
    by (auto simp: compile_character_def rbind_Inr_iff split: option.splits content_definition.splits)
  from assms(1) e have "validate_character_definition c = Inr ()"
    by (auto simp: registry_get_def entry_ok_def validate_local_values_def map_err_Inr_iff
        dest: definitions_okD)
  then have "distinct (map ii_local_key (chd_inventory c))"
    by (simp add: validate_character_definition_def Let_def try_insert_all_None_iff split: if_splits)
  then show ?thesis
    by (simp add: e(3) comp_def compile_item_def)
qed

lemma compile_player_draft_ok:
  assumes "definitions_ok (dr_definitions R)" and "compile_player_draft R draft request = Some (Inr b)"
  shows "player_build_ok R b"
proof -
  from assms(2) obtain form c where c: "compile_character R (form_template form) request = Inr c"
    and "(case sp_origin c of
        ContentEntity template \<Rightarrow>
          dfold (apply_player_field R form draft) (start_player_build c template) (form_fields form)
      | _ \<Rightarrow> Some (Inl (player_compile_error form ''player template origin is invalid''))) = Some (Inr b)"
    by (auto simp: compile_player_draft_def dbind_Inr_iff split: option.splits content_definition.splits
        if_splits)
  then obtain t where
    f: "dfold (apply_player_field R form draft) (start_player_build c t) (form_fields form) = Some (Inr b)"
    by (cases "sp_origin c") simp_all
  have "player_build_ok R (start_player_build c t)"
    by (rule start_player_build_ok [OF compile_character_item_keys [OF assms(1) c]])
  with f show ?thesis
    by (rule dfold_invariant) (rule apply_player_field_ok)
qed

lemma compile_player_Inr:
  assumes "definitions_ok (dr_definitions R)" and "compile_player R d bootstrap request = Some (Inr out)"
  shows "sp_controller (cpl_character out) = PlayerController"
    and "sp_agent_binding (cpl_character out) = None"
    and "sp_lifetime (cpl_character out) = Persistent"
    and "distinct (map igi_local_key (sp_inventory (cpl_character out)))"
    and "bt_get i (cpl_parameter_overrides out) = Some v \<Longrightarrow> override_ok R i v"
  using assms compile_character_item_keys [OF assms(1)] compile_player_draft_ok [OF assms(1)]
  by (auto simp: compile_player_def dbind_Inr_iff rbind_Inr_iff player_build_ok_def
      split: player_bootstrap.splits if_splits prod.splits)

end
