(* ===== verification/World_State.thy ===== *)
theory World_State
  imports Protocol Registry_Compile
begin

text \<open>
  The state of a game world (\<open>loreloom-world/src/components.rs\<close>, \<open>error.rs\<close>, \<open>game_world.rs\<close>): what
  \<open>GameWorld\<close> holds, how records enter and leave it, and the invariant \<open>validate\<close> checks after
  every command.

  A \<open>bevy\<close> entity is its component bundle: the persistent identifier, the object kind and the one
  domain component it was spawned with. The index \<open>objects\<close> maps an identifier straight to the
  bundle, so a handle can neither dangle nor be shared; the world-state resource is a field. Nothing
  else of the ECS is used by the source. Records are loaded into a \<open>world_builder\<close>, where the
  world-state resource may still be missing.
\<close>

section \<open>Errors\<close>

datatype world_error =
    Conflict revision revision
  | ObjectNotFound object_id
  | WrongObjectKind object_id
  | DefinitionNotFound content_definition_id
  | DuplicateIdentity
  | WorldStateError
  | DomainRule string
  | Invariant string
  | WorldDomain domain_error
  | WorldContent content_error
  | WorldRevision revision_error
  | WorldFixed fixed_error
  | WorldIdentity identity_error

abbreviation wfixed :: "fixed_error + 'a \<Rightarrow> world_error + 'a" where
  "wfixed \<equiv> map_err WorldFixed"

abbreviation wdomain :: "domain_error + 'a \<Rightarrow> world_error + 'a" where
  "wdomain \<equiv> map_err WorldDomain"

definition invariant :: "string \<Rightarrow> world_error + 'a" where
  "invariant name = Inl (Invariant name)"

definition domain_rule :: "string \<Rightarrow> world_error + 'a" where
  "domain_rule name = Inl (DomainRule name)"

lemma invariant_Inr_iff [res_inv, simp]: "invariant name = Inr x \<longleftrightarrow> False"
  by (simp add: invariant_def)

lemma domain_rule_Inr_iff [res_inv, simp]: "domain_rule name = Inr x \<longleftrightarrow> False"
  by (simp add: domain_rule_def)

section \<open>State\<close>

datatype object_kind =
    SceneKind | PlaceKind | CharacterKind | ItemKind | ConditionKind | SkillGrantKind
  | RelationshipKind | KnownFactKind | GoalKind | EventInstanceKind | ParameterSetKind | RuleStateKind

fun object_kind_str :: "object_kind \<Rightarrow> string" where
  "object_kind_str SceneKind = ''scene''"
| "object_kind_str PlaceKind = ''place''"
| "object_kind_str CharacterKind = ''character''"
| "object_kind_str ItemKind = ''item''"
| "object_kind_str ConditionKind = ''condition''"
| "object_kind_str SkillGrantKind = ''skill_grant''"
| "object_kind_str RelationshipKind = ''relationship''"
| "object_kind_str KnownFactKind = ''known_fact''"
| "object_kind_str GoalKind = ''goal''"
| "object_kind_str EventInstanceKind = ''event_instance''"
| "object_kind_str ParameterSetKind = ''parameter_set''"
| "object_kind_str RuleStateKind = ''rule_state''"

record entity =
  persistent_id :: object_id
  ent_kind :: object_kind
  component :: domain_record

record rule_limits =
  max_triggered_rules :: u32
  max_evaluated_predicates :: u32
  max_applied_effects :: u32
  max_cascade_depth :: u32

definition rule_limits_default :: rule_limits where
  "rule_limits_default = \<lparr>max_triggered_rules = 128, max_evaluated_predicates = 1024,
     max_applied_effects = 512, max_cascade_depth = 8\<rparr>"

record world_config =
  inventory_root_definition :: content_definition_id
  spawn_system_definition :: content_definition_id
  config_rule_limits :: rule_limits

type_synonym objects = "(object_id, entity) btree"
type_synonym transcripts = "(transcript_item_id, transcript_item_record) btree"
type_synonym session_parameters = "(content_definition_id, parameter_value) btree"

record game_world =
  gw_revision :: revision
  gw_state :: world_state_record
  gw_objects :: objects
  gw_transcripts :: transcripts
  gw_session :: session_parameters
  gw_config :: world_config

text \<open>What the operations are given besides the world: the \<open>uuid\<close> crate and the registry.\<close>

record env =
  env_uuid :: uuid_lib
  env_registry :: definition_registry

section \<open>Looking up objects\<close>

definition component_at :: "game_world \<Rightarrow> object_id \<Rightarrow> domain_record option" where
  "component_at w i = map_option component (bt_get i (gw_objects w))"

fun as_scene :: "domain_record \<Rightarrow> scene_record option" where
  "as_scene (SceneRec r) = Some r"
| "as_scene _ = None"

fun as_place :: "domain_record \<Rightarrow> place_record option" where
  "as_place (PlaceRec r) = Some r"
| "as_place _ = None"

fun as_character :: "domain_record \<Rightarrow> character_record option" where
  "as_character (CharacterRec r) = Some r"
| "as_character _ = None"

fun as_item :: "domain_record \<Rightarrow> item_record option" where
  "as_item (ItemRec r) = Some r"
| "as_item _ = None"

fun as_condition :: "domain_record \<Rightarrow> condition_record option" where
  "as_condition (ConditionRec r) = Some r"
| "as_condition _ = None"

fun as_skill_grant :: "domain_record \<Rightarrow> skill_grant_record option" where
  "as_skill_grant (SkillGrantRec r) = Some r"
| "as_skill_grant _ = None"

fun as_event_instance :: "domain_record \<Rightarrow> event_instance_record option" where
  "as_event_instance (EventInstanceRec r) = Some r"
| "as_event_instance _ = None"

fun as_parameter_set :: "domain_record \<Rightarrow> parameter_set_record option" where
  "as_parameter_set (ParameterSetRec r) = Some r"
| "as_parameter_set _ = None"

fun as_rule_state :: "domain_record \<Rightarrow> rule_state_record option" where
  "as_rule_state (RuleStateRec r) = Some r"
| "as_rule_state _ = None"

definition character :: "game_world \<Rightarrow> actor_id \<Rightarrow> character_record option" where
  "character w a = Option.bind (component_at w (object_id_of a)) as_character"

definition item :: "game_world \<Rightarrow> object_id \<Rightarrow> item_record option" where
  "item w i = Option.bind (component_at w i) as_item"

definition get_scene :: "game_world \<Rightarrow> object_id \<Rightarrow> world_error + scene_record" where
  "get_scene w i = ok_or (WrongObjectKind i) (Option.bind (component_at w i) as_scene)"

definition get_place :: "game_world \<Rightarrow> object_id \<Rightarrow> world_error + place_record" where
  "get_place w i = ok_or (WrongObjectKind i) (Option.bind (component_at w i) as_place)"

definition get_character :: "game_world \<Rightarrow> actor_id \<Rightarrow> world_error + character_record" where
  "get_character w a = ok_or (WrongObjectKind (object_id_of a)) (character w a)"

definition get_item :: "game_world \<Rightarrow> object_id \<Rightarrow> world_error + item_record" where
  "get_item w i = ok_or (WrongObjectKind i) (item w i)"

definition require_object :: "game_world \<Rightarrow> object_id \<Rightarrow> world_error + entity" where
  "require_object w i = ok_or (ObjectNotFound i) (bt_get i (gw_objects w))"

text \<open>The components of one kind, in index order, with their index.\<close>

definition select :: "(domain_record \<Rightarrow> 'a option) \<Rightarrow> game_world \<Rightarrow> (object_id \<times> 'a) list" where
  "select f w = List.map_filter (\<lambda>(i, e). map_option (\<lambda>r. (i, r)) (f (component e))) (gw_objects w)"

definition world_items :: "game_world \<Rightarrow> (object_id \<times> item_record) list" where
  "world_items w = select as_item w"

definition items :: "game_world \<Rightarrow> item_record list" where
  "items w = map snd (world_items w)"

section \<open>Definitions\<close>

definition require_definition :: "env \<Rightarrow> content_definition_id \<Rightarrow> string \<Rightarrow> world_error + unit" where
  "require_definition E i kind =
     (if (case registry_get (env_registry E) i of None \<Rightarrow> False
          | Some entry \<Rightarrow> expected_kind (reg_definition entry) = kind)
      then Inr () else Inl (DefinitionNotFound i))"

definition definition_of :: "env \<Rightarrow> content_definition_id \<Rightarrow> content_definition option" where
  "definition_of E i = map_option reg_definition (registry_get (env_registry E) i)"

definition condition_definition :: "env \<Rightarrow> content_definition_id \<Rightarrow> world_error + condition_definition" where
  "condition_definition E i =
     (case definition_of E i of Some (ConditionDef d) \<Rightarrow> Inr d | _ \<Rightarrow> Inl (DefinitionNotFound i))"

definition item_definition :: "env \<Rightarrow> content_definition_id \<Rightarrow> world_error + item_definition" where
  "item_definition E i =
     (case definition_of E i of Some (ItemDef d) \<Rightarrow> Inr d | _ \<Rightarrow> Inl (DefinitionNotFound i))"

definition event_definition :: "env \<Rightarrow> content_definition_id \<Rightarrow> world_error + event_definition" where
  "event_definition E i =
     (case definition_of E i of Some (EventDef d) \<Rightarrow> Inr d | _ \<Rightarrow> Inl (DefinitionNotFound i))"

definition parameter_definition :: "env \<Rightarrow> content_definition_id \<Rightarrow> world_error + parameter_definition" where
  "parameter_definition E i =
     (case definition_of E i of Some (ParameterDef d) \<Rightarrow> Inr d | _ \<Rightarrow> Inl (DefinitionNotFound i))"

section \<open>Records in and out\<close>

fun record_object_id :: "domain_record \<Rightarrow> object_id option" where
  "record_object_id (SceneRec v) = Some (scene_rec_id v)"
| "record_object_id (PlaceRec v) = Some (place_rec_id v)"
| "record_object_id (CharacterRec v) = Some (object_id_of (ch_id v))"
| "record_object_id (ItemRec v) = Some (it_id v)"
| "record_object_id (ConditionRec v) = Some (cond_id v)"
| "record_object_id (SkillGrantRec v) = Some (sg_id v)"
| "record_object_id (RelationshipRec v) = Some (rel_id v)"
| "record_object_id (KnownFactRec v) = Some (kf_id v)"
| "record_object_id (GoalRec v) = Some (goal_id v)"
| "record_object_id (EventInstanceRec v) = Some (ei_id v)"
| "record_object_id (ParameterSetRec v) = Some (ps_id v)"
| "record_object_id (RuleStateRec v) = Some (rs_id v)"
| "record_object_id (WorldStateRec _) = None"
| "record_object_id (TranscriptItemRec _) = None"

definition domain_sort_key :: "uuid_lib \<Rightarrow> domain_record \<Rightarrow> string \<times> string" where
  "domain_sort_key L r = (record_type_name r, record_id_text L r)"

fun record_kind :: "domain_record \<Rightarrow> object_kind option" where
  "record_kind (SceneRec _) = Some SceneKind"
| "record_kind (PlaceRec _) = Some PlaceKind"
| "record_kind (CharacterRec _) = Some CharacterKind"
| "record_kind (ItemRec _) = Some ItemKind"
| "record_kind (ConditionRec _) = Some ConditionKind"
| "record_kind (SkillGrantRec _) = Some SkillGrantKind"
| "record_kind (RelationshipRec _) = Some RelationshipKind"
| "record_kind (KnownFactRec _) = Some KnownFactKind"
| "record_kind (GoalRec _) = Some GoalKind"
| "record_kind (EventInstanceRec _) = Some EventInstanceKind"
| "record_kind (ParameterSetRec _) = Some ParameterSetKind"
| "record_kind (RuleStateRec _) = Some RuleStateKind"
| "record_kind (WorldStateRec _) = None"
| "record_kind (TranscriptItemRec _) = None"

definition spawn_into :: "objects \<Rightarrow> domain_record \<Rightarrow> world_error + objects" where
  "spawn_into objs r =
     rbind (ok_or WorldStateError (record_object_id r)) (\<lambda>i.
       if bt_contains i objs then Inl DuplicateIdentity
       else rbind (ok_or WorldStateError (record_kind r)) (\<lambda>k.
         Inr (bt_insert i \<lparr>persistent_id = i, ent_kind = k, component = r\<rparr> objs)))"

definition spawn_record :: "game_world \<Rightarrow> domain_record \<Rightarrow> world_error + game_world" where
  "spawn_record w r = rbind (spawn_into (gw_objects w) r) (\<lambda>objs. Inr (w\<lparr>gw_objects := objs\<rparr>))"

definition project_entity :: "entity \<Rightarrow> world_error + domain_record" where
  "project_entity e =
     (case record_kind (component e) of None \<Rightarrow> invariant ''entity.domain_component''
      | Some _ \<Rightarrow> Inr (component e))"

definition project_records :: "env \<Rightarrow> game_world \<Rightarrow> world_error + domain_record list" where
  "project_records E w =
     rbind (rmapM project_entity (bt_values (gw_objects w))) (\<lambda>records.
       Inr (sort_key (domain_sort_key (env_uuid E))
              (WorldStateRec (gw_state w) # records
               @ map TranscriptItemRec (bt_values (gw_transcripts w)))))"

text \<open>\<open>get_mut\<close> on a component that is known to be there: the bundle keeps its identifier and kind.\<close>

definition put_component :: "object_id \<Rightarrow> domain_record \<Rightarrow> game_world \<Rightarrow> game_world" where
  "put_component i r w =
     (case bt_get i (gw_objects w) of None \<Rightarrow> w
      | Some e \<Rightarrow> w\<lparr>gw_objects := bt_insert i (e\<lparr>component := r\<rparr>) (gw_objects w)\<rparr>)"

section \<open>Parameter values\<close>

fun validate_parameter_value :: "game_world \<Rightarrow> parameter_type \<Rightarrow> parameter_value
    \<Rightarrow> world_error + unit" where
  "validate_parameter_value w BoolType (PBool _) = Inr ()"
| "validate_parameter_value w (FixedType minimum maximum) (PFixed v) =
     (if minimum \<le> v \<and> v \<le> maximum then Inr () else domain_rule ''parameter_value_schema'')"
| "validate_parameter_value w (CounterType minimum maximum) (PCounter v) =
     (if i64_le minimum v \<and> i64_le v maximum then Inr ()
      else domain_rule ''parameter_value_schema'')"
| "validate_parameter_value w (EnumType variants) (PEnum v) =
     (if bs_contains v variants then Inr () else domain_rule ''parameter_value_schema'')"
| "validate_parameter_value w (TagSetType allowed maximum) (PTagSet vs) =
     (if length vs \<le> unat maximum \<and> list_all (\<lambda>v. bs_contains v allowed) vs then Inr ()
      else domain_rule ''parameter_value_schema'')"
| "validate_parameter_value w (ObjectRefType allowed_kinds) (PObjectRef i) =
     rbind (require_object w i) (\<lambda>e.
       if list_ex (\<lambda>k. as_str k = object_kind_str (ent_kind e)) allowed_kinds then Inr ()
       else domain_rule ''parameter_object_kind'')"
| "validate_parameter_value w _ _ = domain_rule ''parameter_value_schema''"

section \<open>Containment\<close>

text \<open>The walk up the containers ends: each step enters an item not seen before.\<close>

lemma card_unseen:
  assumes "bt_get i m \<noteq> None" and "i \<notin> set seen"
  shows "card (set (bt_keys m) - set (bs_insort i seen)) < card (set (bt_keys m) - set seen)"
proof (rule psubset_card_mono)
  have "i \<in> set (bt_keys m)"
    using assms(1) by (simp add: bt_get_def bt_keys_def map_of_eq_None_iff)
  with assms(2) show "set (bt_keys m) - set (bs_insort i seen) \<subset> set (bt_keys m) - set seen"
    by auto
qed simp

lemma item_known: "item w i = Some v \<Longrightarrow> bt_get i (gw_objects w) \<noteq> None"
  by (cases "bt_get i (gw_objects w)") (simp_all add: item_def component_at_def)

function container_chain :: "game_world \<Rightarrow> object_id \<Rightarrow> object_id list \<Rightarrow> object_id option
    \<Rightarrow> world_error + unit" where
  "container_chain w item_id visited None = Inr ()"
| "container_chain w item_id visited (Some i) =
     (if i = item_id \<or> bs_contains i visited then invariant ''item.container_cycle''
      else container_chain w item_id (bs_insort i visited) (Option.bind (item w i) it_contained_by))"
  by pat_completeness auto
termination
proof (relation "measure (\<lambda>(w, item_id, visited, parent).
    2 * card (set (bt_keys (gw_objects w)) - set visited) + (if parent = None then 0 else 1))")
  fix w item_id visited and i :: object_id
  assume new: "\<not> (i = item_id \<or> bs_contains i visited)"
  show "((w, item_id, bs_insort i visited, Option.bind (item w i) it_contained_by),
      w, item_id, visited, Some i) \<in> measure (\<lambda>(w, item_id, visited, parent).
        2 * card (set (bt_keys (gw_objects w)) - set visited) + (if parent = None then 0 else 1))"
  proof (cases "item w i")
    case None
    have "card (set (bt_keys (gw_objects w)) - set (bs_insort i visited))
        \<le> card (set (bt_keys (gw_objects w)) - set visited)"
      by (rule card_mono) auto
    with None show ?thesis by simp
  next
    case (Some v)
    have "i \<notin> set visited"
      using new by (simp add: bs_contains_def)
    from card_unseen [OF item_known [OF Some] this] show ?thesis
      by simp
  qed
qed simp

definition ensure_no_container_cycle :: "game_world \<Rightarrow> object_id \<Rightarrow> object_id option
    \<Rightarrow> world_error + unit" where
  "ensure_no_container_cycle w item_id parent = container_chain w item_id [] parent"

section \<open>Validation\<close>

text \<open>The accumulators of the two passes: the active scenes and the scene definitions seen, and the
  receipts, parameter schemas, saved parameters and rule-state counts seen.\<close>

fun validate_scene_component :: "game_world \<Rightarrow> nat \<times> content_definition_id list \<Rightarrow> domain_record
    \<Rightarrow> world_error + nat \<times> content_definition_id list" where
  "validate_scene_component w (active, seen) (SceneRec s) =
     rbind (case scene_origin s of
              ContentEntity origin \<Rightarrow>
                if bs_contains (co_definition_id origin) seen
                then invariant ''scene.definition_single_instance''
                else Inr (bs_insort (co_definition_id origin) seen)
            | PlayerCreatedEntity _ \<Rightarrow> invariant ''scene.origin''
            | SystemEntity _ \<Rightarrow> invariant ''scene.origin''
            | GeneratedEntity _ \<Rightarrow> Inr seen) (\<lambda>seen'.
       if scene_active s
       then (if scene_rec_id s \<noteq> ws_active_scene (gw_state w)
             then invariant ''scene.active_world_state'' else Inr (Suc active, seen'))
       else Inr (active, seen'))"
| "validate_scene_component w acc _ = Inr acc"

definition validate_entity :: "game_world \<Rightarrow> nat \<times> content_definition_id list \<Rightarrow> object_id \<times> entity
    \<Rightarrow> world_error + nat \<times> content_definition_id list" where
  "validate_entity w acc p =
     (if persistent_id (snd p) \<noteq> fst p then invariant ''persistent_id.index''
      else rbind (validate_scene_component w acc (component (snd p))) (\<lambda>acc'.
        rbind (project_entity (snd p)) (\<lambda>r.
        rbind (wdomain (domain_validate r)) (\<lambda>_. Inr acc'))))"

definition validate_transcript_audience :: "game_world \<Rightarrow> transcript_item_record
    \<Rightarrow> world_error + unit" where
  "validate_transcript_audience w v =
     (case tr_audience v of
        PlayerAudience \<Rightarrow>
          if tr_source_id v \<noteq> None then domain_rule ''transcript_public_source'' else Inr ()
      | NpcAudience actor_id \<Rightarrow>
          if character w actor_id = None then domain_rule ''transcript_owner''
          else
            (case tr_source_id v of
               Some source_id \<Rightarrow>
                 (case bt_get source_id (gw_transcripts w) of
                    None \<Rightarrow> domain_rule ''transcript_source''
                  | Some source \<Rightarrow>
                      if tr_audience source \<noteq> PlayerAudience
                         \<or> (case tr_speaker source of PlayerSpeaker _ _ \<Rightarrow> False | _ \<Rightarrow> True)
                         \<or> tr_text source \<noteq> tr_text v \<or> tr_speaker source \<noteq> tr_speaker v
                         \<or> tr_session_id source \<noteq> tr_session_id v
                         \<or> tr_revision source > tr_revision v
                         \<or> tr_supporting_events v \<noteq> []
                      then domain_rule ''transcript_source'' else Inr ())
             | None \<Rightarrow>
                 if (case tr_speaker v of
                       ActorSpeaker (Some owner) _ \<Rightarrow> owner \<noteq> actor_id | _ \<Rightarrow> True)
                    \<or> tr_supporting_events v \<noteq> []
                 then domain_rule ''transcript_private_speaker'' else Inr ()))"

type_synonym receipt = "object_id \<times> transcript_item_id"

definition validate_transcript_item :: "game_world \<Rightarrow> receipt list \<Rightarrow> transcript_item_record
    \<Rightarrow> world_error + receipt list" where
  "validate_transcript_item w receipts v =
     rbind (validate_transcript_audience w v) (\<lambda>_.
       case (tr_audience v, tr_source_id v) of
         (NpcAudience actor_id, Some source_id) \<Rightarrow>
           if bs_contains (object_id_of actor_id, source_id) receipts
           then domain_rule ''transcript_duplicate_receipt''
           else Inr (bs_insort (object_id_of actor_id, source_id) receipts)
       | _ \<Rightarrow> Inr receipts)"

record reference_acc =
  ra_schemas :: "content_definition_id list"
  ra_saved :: "content_definition_id list"
  ra_rule_counts :: "(content_definition_id, u32) btree"

definition validate_place_edge :: "game_world \<Rightarrow> place_record \<Rightarrow> object_id \<Rightarrow> world_error + unit" where
  "validate_place_edge w p edge_id =
     (if edge_id = place_rec_id p then invariant ''place.edge_self''
      else rbind (get_place w edge_id) (\<lambda>edge.
        if place_scene_id edge \<noteq> place_scene_id p then invariant ''place.edge_scene''
        else if \<not> bs_contains (place_rec_id p) (place_edges edge)
        then invariant ''place.edge_bidirectional'' else Inr ()))"

definition validate_place_references :: "game_world \<Rightarrow> place_record \<Rightarrow> world_error + unit" where
  "validate_place_references w p =
     rbind (get_scene w (place_scene_id p)) (\<lambda>_.
       if (case place_origin p of SystemEntity _ \<Rightarrow> True | _ \<Rightarrow> False) then invariant ''place.origin''
       else rforeach (validate_place_edge w p) (place_edges p))"

definition validate_character_state :: "env \<Rightarrow> game_world \<Rightarrow> character_record \<Rightarrow> world_error + unit" where
  "validate_character_state E w c =
     rbind (get_place w (ch_location c)) (\<lambda>place.
     rbind (get_item w (ch_inventory_root c)) (\<lambda>root.
       if it_container root = None \<or> it_owned_by root \<noteq> Some (ch_id c)
       then invariant ''character.inventory_root''
       else if (case ch_lifetime c of SceneLifetime s \<Rightarrow> place_scene_id place \<noteq> s | Persistent \<Rightarrow> False)
       then invariant ''character.scene_lifetime''
       else
         rbind (rforeach (\<lambda>a. require_definition E a ''attribute'') (bt_keys (ch_base_attributes c))) (\<lambda>_.
           rforeach (\<lambda>r. require_definition E r ''resource'') (bt_keys (ch_resources c)))))"

definition validate_item_references :: "env \<Rightarrow> game_world \<Rightarrow> item_record \<Rightarrow> world_error + unit" where
  "validate_item_references E w v =
     rbind (require_definition E (it_definition_id v) ''item'') (\<lambda>_.
     rbind (case it_contained_by v of None \<Rightarrow> Inr ()
            | Some c \<Rightarrow> rbind (get_item w c) (\<lambda>parent.
                if it_container parent = None \<or> c = it_id v then invariant ''item.containment''
                else Inr ())) (\<lambda>_.
     rbind (case it_owned_by v of None \<Rightarrow> Inr ()
            | Some owner \<Rightarrow> rbind (get_character w owner) (\<lambda>_. Inr ())) (\<lambda>_.
     rbind (case it_equipped v of None \<Rightarrow> Inr ()
            | Some eq \<Rightarrow> if it_owned_by v \<noteq> Some (eq_wearer_id eq)
                then invariant ''item.equipped_owner'' else Inr ()) (\<lambda>_.
       ensure_no_container_cycle w (it_id v) (it_contained_by v)))))"

definition is_finite_duration :: "duration_policy \<Rightarrow> bool" where
  "is_finite_duration d \<longleftrightarrow> (case d of Permanent \<Rightarrow> False | Finite _ \<Rightarrow> True)"

definition due_by :: "world_time \<Rightarrow> world_time option \<Rightarrow> bool" where
  "due_by t x \<longleftrightarrow> (case x of None \<Rightarrow> False | Some y \<Rightarrow> y \<le> t)"

definition validate_condition_state :: "env \<Rightarrow> game_world \<Rightarrow> condition_record \<Rightarrow> world_error + unit" where
  "validate_condition_state E w c =
     rbind (get_character w (cond_target_id c)) (\<lambda>_.
     rbind (condition_definition E (cond_condition_id c)) (\<lambda>d.
       if due_by (ws_clock (gw_state w)) (cond_expires_at c)
          \<or> due_by (ws_clock (gw_state w)) (cond_next_periodic_at c)
          \<or> (cond_next_periodic_at c \<noteq> None) \<noteq> (cd_periodic d \<noteq> None)
          \<or> (cond_expires_at c \<noteq> None) \<noteq> is_finite_duration (cd_duration d)
       then invariant ''condition.clock_schedule'' else Inr ()))"

definition validate_event_instance :: "env \<Rightarrow> game_world \<Rightarrow> event_instance_record \<Rightarrow> world_error + unit" where
  "validate_event_instance E w v =
     rbind (case ei_scene_id v of None \<Rightarrow> Inr () | Some s \<Rightarrow> rbind (get_scene w s) (\<lambda>_. Inr ())) (\<lambda>_.
     rbind (event_definition E (ei_definition_id v)) (\<lambda>d.
       if \<not> list_ex (\<lambda>n. en_id n = ei_current_node v) (ed_nodes d)
       then invariant ''event_instance.current_node'' else Inr ()))"

definition validate_saved_value :: "env \<Rightarrow> game_world \<Rightarrow> parameter_set_record
    \<Rightarrow> content_definition_id list \<Rightarrow> content_definition_id \<times> parameter_value
    \<Rightarrow> world_error + content_definition_id list" where
  "validate_saved_value E w s saved p =
     rbind (parameter_definition E (fst p)) (\<lambda>d.
       if pd_id d \<noteq> fst p \<or> pd_persistence d \<noteq> SaveParameter
          \<or> map_option (\<lambda>e. co_pack_id (reg_origin e)) (registry_get (env_registry E) (fst p))
              \<noteq> Some (ps_schema_id s)
          \<or> bs_contains (fst p) saved
       then invariant ''parameter_set.value_ownership''
       else rbind (validate_parameter_value w (pd_value_type d) (snd p)) (\<lambda>_.
         Inr (bs_insort (fst p) saved)))"

definition validate_parameter_set :: "env \<Rightarrow> game_world \<Rightarrow> reference_acc \<Rightarrow> parameter_set_record
    \<Rightarrow> world_error + reference_acc" where
  "validate_parameter_set E w acc s =
     (if bs_contains (ps_schema_id s) (ra_schemas acc) then invariant ''parameter_set.schema_unique''
      else rbind (rfold (validate_saved_value E w s) (ra_saved acc) (ps_values s)) (\<lambda>saved.
        Inr (acc\<lparr>ra_schemas := bs_insort (ps_schema_id s) (ra_schemas acc), ra_saved := saved\<rparr>)))"

definition count_rule_state :: "env \<Rightarrow> reference_acc \<Rightarrow> rule_state_record
    \<Rightarrow> world_error + reference_acc" where
  "count_rule_state E acc s =
     rbind (require_definition E (rs_definition_id s) ''rule'') (\<lambda>_.
       let n = (case bt_get (rs_definition_id s) (ra_rule_counts acc) of None \<Rightarrow> 0 | Some n \<Rightarrow> n)
       in rbind (ok_or (Invariant ''rule_state.count'') (checked_add n 1)) (\<lambda>n'.
            Inr (acc\<lparr>ra_rule_counts := bt_insert (rs_definition_id s) n' (ra_rule_counts acc)\<rparr>)))"

fun validate_component_references :: "env \<Rightarrow> game_world \<Rightarrow> reference_acc \<Rightarrow> domain_record
    \<Rightarrow> world_error + reference_acc" where
  "validate_component_references E w acc (SceneRec s) =
     rbind (get_place w (scene_entry_place s)) (\<lambda>entry.
       if place_scene_id entry \<noteq> scene_rec_id s then invariant ''scene.entry_place'' else Inr acc)"
| "validate_component_references E w acc (PlaceRec p) =
     rbind (validate_place_references w p) (\<lambda>_. Inr acc)"
| "validate_component_references E w acc (CharacterRec c) =
     rbind (validate_character_state E w c) (\<lambda>_. Inr acc)"
| "validate_component_references E w acc (ItemRec v) =
     rbind (validate_item_references E w v) (\<lambda>_. Inr acc)"
| "validate_component_references E w acc (ConditionRec c) =
     rbind (validate_condition_state E w c) (\<lambda>_. Inr acc)"
| "validate_component_references E w acc (SkillGrantRec s) =
     rbind (get_character w (sg_owner_id s)) (\<lambda>_.
     rbind (require_definition E (sg_skill_id s) ''skill'') (\<lambda>_. Inr acc))"
| "validate_component_references E w acc (RelationshipRec r) =
     rbind (require_object w (rel_source_id r)) (\<lambda>_.
     rbind (require_object w (rel_target_id r)) (\<lambda>_. Inr acc))"
| "validate_component_references E w acc (KnownFactRec f) =
     rbind (get_character w (kf_owner_id f)) (\<lambda>_.
     rbind (require_definition E (kf_predicate_id f) ''tag'') (\<lambda>_. Inr acc))"
| "validate_component_references E w acc (GoalRec g) =
     rbind (get_character w (goal_owner_id g)) (\<lambda>_. Inr acc)"
| "validate_component_references E w acc (EventInstanceRec v) =
     rbind (validate_event_instance E w v) (\<lambda>_. Inr acc)"
| "validate_component_references E w acc (ParameterSetRec s) = validate_parameter_set E w acc s"
| "validate_component_references E w acc (RuleStateRec s) = count_rule_state E acc s"
| "validate_component_references E w acc (WorldStateRec _) = Inr acc"
| "validate_component_references E w acc (TranscriptItemRec _) = Inr acc"

text \<open>The pass over the registry: which parameters must be stored, and one state per rule.\<close>

definition expected_parameters :: "env \<Rightarrow> parameter_persistence \<Rightarrow> content_definition_id list" where
  "expected_parameters E p = bs_of_list (List.map_filter (\<lambda>(_, e).
     case reg_definition e of
       ParameterDef d \<Rightarrow> if pd_persistence d = p then Some (pd_id d) else None
     | _ \<Rightarrow> None) (dr_definitions (env_registry E)))"

definition check_rule_states :: "env \<Rightarrow> reference_acc \<Rightarrow> world_error + unit" where
  "check_rule_states E acc = rforeach (\<lambda>(_, e).
     case reg_definition e of
       RuleDef d \<Rightarrow>
         if bt_get (rd_id d) (ra_rule_counts acc) \<noteq> Some 1
         then invariant ''rule_state.definition_unique'' else Inr ()
     | _ \<Rightarrow> Inr ()) (dr_definitions (env_registry E))"

definition validate_session_value :: "env \<Rightarrow> game_world \<Rightarrow> content_definition_id \<times> parameter_value
    \<Rightarrow> world_error + unit" where
  "validate_session_value E w p =
     rbind (parameter_definition E (fst p)) (\<lambda>d.
       if pd_persistence d \<noteq> SessionParameter then invariant ''session_parameter.persistence''
       else validate_parameter_value w (pd_value_type d) (snd p))"

definition validate_references :: "env \<Rightarrow> game_world \<Rightarrow> world_error + unit" where
  "validate_references E w =
     rbind (rfold (validate_transcript_item w) [] (bt_values (gw_transcripts w))) (\<lambda>_.
     rbind (rfold (validate_component_references E w)
              \<lparr>ra_schemas = [], ra_saved = [], ra_rule_counts = []\<rparr>
              (map component (bt_values (gw_objects w)))) (\<lambda>acc.
     rbind (check_rule_states E acc) (\<lambda>_.
       if ra_saved acc \<noteq> expected_parameters E SaveParameter
          \<or> bs_of_list (bt_keys (gw_session w)) \<noteq> expected_parameters E SessionParameter
       then invariant ''parameter_set.definition_coverage''
       else rforeach (validate_session_value E w) (gw_session w))))"

definition validate_world :: "env \<Rightarrow> game_world \<Rightarrow> world_error + unit" where
  "validate_world E w =
     rbind (get_character w (ws_player_actor (gw_state w))) (\<lambda>player.
       if ch_controller player \<noteq> PlayerController then invariant ''world.player_controller''
       else rbind (get_scene w (ws_active_scene (gw_state w))) (\<lambda>scene.
         if \<not> scene_active scene then invariant ''world.active_scene''
         else rbind (rfold (validate_entity w) (0, []) (gw_objects w)) (\<lambda>acc.
           if fst acc \<noteq> 1 then invariant ''scene.exactly_one_active''
           else validate_references E w)))"

end
