(* ===== verification/World_Records.thy ===== *)
theory World_Records
  imports World_State
begin

text \<open>
  Loading and projecting a world (\<open>game_world.rs\<close>: \<open>from_records\<close>, \<open>insert_initial\<close>,
  \<open>restore_session_parameters\<close>, \<open>project_records\<close>).

  \<open>world_ok\<close> is the representation invariant: the index and the bundles agree, and every stored
  record passed its own validation. The builder is an instance of \<open>keyed_store\<close>; from its laws
  follow the round trip (the projected records load back to the same world) and that the order of
  the records does not matter.
\<close>

section \<open>Loading\<close>

text \<open>The world while it is loaded: the world-state resource may still be missing.\<close>

record world_builder =
  wb_state :: "world_state_record option"
  wb_objects :: objects
  wb_transcripts :: transcripts

definition empty_builder :: world_builder where
  "empty_builder = \<lparr>wb_state = None, wb_objects = [], wb_transcripts = []\<rparr>"

fun insert_record :: "world_builder \<Rightarrow> domain_record \<Rightarrow> world_error + world_builder" where
  "insert_record b (WorldStateRec v) =
     (if wb_state b \<noteq> None then Inl WorldStateError else Inr (b\<lparr>wb_state := Some v\<rparr>))"
| "insert_record b (TranscriptItemRec v) =
     (if bt_contains (tr_id v) (wb_transcripts b) then Inl DuplicateIdentity
      else Inr (b\<lparr>wb_transcripts := bt_insert (tr_id v) v (wb_transcripts b)\<rparr>))"
| "insert_record b r =
     rbind (spawn_into (wb_objects b) r) (\<lambda>objs. Inr (b\<lparr>wb_objects := objs\<rparr>))"

definition insert_initial :: "world_builder \<Rightarrow> domain_record \<Rightarrow> world_error + world_builder" where
  "insert_initial b r = rbind (wdomain (domain_validate r)) (\<lambda>_. insert_record b r)"

definition validate_rule_limits :: "rule_limits \<Rightarrow> world_error + unit" where
  "validate_rule_limits limits =
     (let maximum = rule_limits_default in
      if max_triggered_rules limits > max_triggered_rules maximum
         \<or> max_evaluated_predicates limits > max_evaluated_predicates maximum
         \<or> max_applied_effects limits > max_applied_effects maximum
         \<or> max_cascade_depth limits > max_cascade_depth maximum
      then invariant ''rule_limits.maximum'' else Inr ())"

definition session_defaults :: "env \<Rightarrow> session_parameters" where
  "session_defaults E = bt_of_list (List.map_filter (\<lambda>(_, e).
     case reg_definition e of
       ParameterDef d \<Rightarrow>
         if pd_persistence d = SessionParameter then Some (pd_id d, pd_default d) else None
     | _ \<Rightarrow> None) (dr_definitions (env_registry E)))"

definition load_records :: "domain_record list \<Rightarrow> world_error + world_builder" where
  "load_records = rfold insert_initial empty_builder"

definition from_records :: "env \<Rightarrow> revision \<Rightarrow> domain_record list \<Rightarrow> world_config
    \<Rightarrow> world_error + game_world" where
  "from_records E r records config =
     rbind (validate_rule_limits (config_rule_limits config)) (\<lambda>_.
     rbind (load_records records) (\<lambda>b.
     rbind (ok_or WorldStateError (wb_state b)) (\<lambda>state.
       let w = \<lparr>gw_revision = r, gw_state = state, gw_objects = wb_objects b,
                gw_transcripts = wb_transcripts b, gw_session = session_defaults E,
                gw_config = config\<rparr>
       in rbind (validate_world E w) (\<lambda>_. Inr w))))"

definition restore_session_parameters :: "env \<Rightarrow> session_parameters \<Rightarrow> game_world
    \<Rightarrow> world_error + game_world" where
  "restore_session_parameters E values w =
     (if bs_of_list (bt_keys values) \<noteq> expected_parameters E SessionParameter
      then invariant ''session_parameter.definition_coverage''
      else rbind (rforeach (validate_session_value E w) values) (\<lambda>_. Inr (w\<lparr>gw_session := values\<rparr>)))"

section \<open>The representation invariant\<close>

definition entity_ok :: "object_id \<Rightarrow> entity \<Rightarrow> bool" where
  "entity_ok i e \<longleftrightarrow> persistent_id e = i \<and> record_object_id (component e) = Some i
     \<and> record_kind (component e) = Some (ent_kind e)"

definition objects_ok :: "objects \<Rightarrow> bool" where
  "objects_ok objs \<longleftrightarrow> bt_ok objs \<and> (\<forall>i e. bt_get i objs = Some e \<longrightarrow> entity_ok i e)"

definition transcripts_ok :: "transcripts \<Rightarrow> bool" where
  "transcripts_ok ts \<longleftrightarrow> bt_ok ts \<and> (\<forall>i v. bt_get i ts = Some v \<longrightarrow> tr_id v = i)"

definition loading_ok :: "world_builder \<Rightarrow> bool" where
  "loading_ok b \<longleftrightarrow> objects_ok (wb_objects b) \<and> transcripts_ok (wb_transcripts b)"

datatype slot = StateSlot | TranscriptSlot transcript_item_id | ObjectSlot object_id

fun slot_of :: "domain_record \<Rightarrow> slot" where
  "slot_of (WorldStateRec _) = StateSlot"
| "slot_of (TranscriptItemRec v) = TranscriptSlot (tr_id v)"
| "slot_of r = ObjectSlot (the (record_object_id r))"

fun slot_get :: "world_builder \<Rightarrow> slot \<Rightarrow> domain_record option" where
  "slot_get b StateSlot = map_option WorldStateRec (wb_state b)"
| "slot_get b (TranscriptSlot i) = map_option TranscriptItemRec (bt_get i (wb_transcripts b))"
| "slot_get b (ObjectSlot i) = map_option component (bt_get i (wb_objects b))"

definition admissible :: "domain_record \<Rightarrow> bool" where
  "admissible r \<longleftrightarrow> domain_validate r = Inr ()"

text \<open>A record that is spawned as an object.\<close>

definition is_object :: "domain_record \<Rightarrow> bool" where
  "is_object r \<longleftrightarrow> record_object_id r \<noteq> None"

lemma object_cases:
  obtains (state) v where "r = WorldStateRec v"
  | (transcript) v where "r = TranscriptItemRec v"
  | (object) i k where "record_object_id r = Some i" "record_kind r = Some k" "slot_of r = ObjectSlot i"
      "\<And>b. insert_record b r =
         rbind (spawn_into (wb_objects b) r) (\<lambda>objs. Inr (b\<lparr>wb_objects := objs\<rparr>))"
  by (cases r) simp_all

lemma spawn_into_Inr_iff [res_inv]:
  "spawn_into objs r = Inr objs' \<longleftrightarrow>
     (\<exists>i k. record_object_id r = Some i \<and> record_kind r = Some k \<and> bt_get i objs = None
        \<and> objs' = bt_insert i \<lparr>persistent_id = i, ent_kind = k, component = r\<rparr> objs)"
  by (auto simp: spawn_into_def rbind_Inr_iff ok_or_Inr_iff bt_contains_get split: if_splits)

lemma objects_ok_insert:
  "objects_ok objs \<Longrightarrow> record_object_id r = Some i \<Longrightarrow> record_kind r = Some k \<Longrightarrow>
    objects_ok (bt_insert i \<lparr>persistent_id = i, ent_kind = k, component = r\<rparr> objs)"
  by (simp add: objects_ok_def bt_ok_insert entity_ok_def)

lemma objects_ok_spawn: "objects_ok objs \<Longrightarrow> spawn_into objs r = Inr objs' \<Longrightarrow> objects_ok objs'"
  by (auto simp: spawn_into_Inr_iff objects_ok_insert)

lemma transcripts_ok_insert: "transcripts_ok ts \<Longrightarrow> transcripts_ok (bt_insert (tr_id v) v ts)"
  by (simp add: transcripts_ok_def bt_ok_insert)

lemma insert_initial_law:
  assumes "loading_ok b" and "insert_initial b r = Inr b'"
  shows "admissible r \<and> slot_get b (slot_of r) = None
    \<and> slot_get b' = (slot_get b)(slot_of r \<mapsto> r) \<and> loading_ok b'"
proof (cases r rule: object_cases)
  case (state v)
  have "slot_get b' s = ((slot_get b)(slot_of r \<mapsto> r)) s" for s
    using assms(2) state by (cases s) (auto simp: insert_initial_def rbind_Inr_iff split: if_splits)
  with assms state show ?thesis
    by (auto simp: insert_initial_def rbind_Inr_iff admissible_def loading_ok_def split: if_splits)
next
  case (transcript v)
  have "slot_get b' s = ((slot_get b)(slot_of r \<mapsto> r)) s" for s
    using assms(2) transcript
    by (cases s) (auto simp: insert_initial_def rbind_Inr_iff split: if_splits)
  with assms transcript show ?thesis
    by (auto simp: insert_initial_def rbind_Inr_iff map_err_Inr_iff admissible_def loading_ok_def
        bt_contains_get transcripts_ok_insert split: if_splits)
next
  case (object i k)
  from assms(2) object obtain objs where objs: "spawn_into (wb_objects b) r = Inr objs"
    and b': "b' = b\<lparr>wb_objects := objs\<rparr>" and adm: "admissible r"
    by (auto simp: insert_initial_def rbind_Inr_iff map_err_Inr_iff admissible_def)
  from objs object have new: "bt_get i (wb_objects b) = None"
    "objs = bt_insert i \<lparr>persistent_id = i, ent_kind = k, component = r\<rparr> (wb_objects b)"
    by (auto simp: spawn_into_Inr_iff)
  have "slot_get b' s = ((slot_get b)(slot_of r \<mapsto> r)) s" for s
    by (cases s) (simp_all add: b' new(2) object)
  with assms(1) adm new object objects_ok_spawn [OF _ objs] show ?thesis
    by (auto simp: b' loading_ok_def)
qed

lemma insert_initial_free:
  assumes "admissible r" and "slot_get b (slot_of r) = None"
  shows "is_ok (insert_initial b r)"
proof (cases r rule: object_cases)
  case (object i k)
  with assms show ?thesis
    by (simp add: insert_initial_def admissible_def spawn_into_def bt_contains_get)
qed (use assms in \<open>simp_all add: insert_initial_def admissible_def bt_contains_get\<close>)

lemma bt_get_ext_map:
  assumes "bt_ok m" and "bt_ok n" and "\<And>k. map_option f (bt_get k m) = map_option f (bt_get k n)"
    and "\<And>k x y. bt_get k m = Some x \<Longrightarrow> bt_get k n = Some y \<Longrightarrow> f x = f y \<Longrightarrow> x = y"
  shows "m = n"
proof (rule bt_ok_ext [OF assms(1,2)])
  fix k
  show "bt_get k m = bt_get k n"
  proof (cases "bt_get k m")
    case None
    with assms(3) [of k] show ?thesis by simp
  next
    case (Some x)
    with assms(3) [of k] obtain y where y: "bt_get k n = Some y" "f x = f y"
      by (auto simp: map_option_case split: option.splits)
    from assms(4) [OF Some y] Some y show ?thesis by simp
  qed
qed

lemma slot_get_ext:
  assumes "loading_ok a" and "loading_ok b" and "slot_get a = slot_get b"
  shows "a = b"
proof -
  have get: "slot_get a s = slot_get b s" for s
    by (simp add: assms(3))
  have "wb_state a = wb_state b"
    using get [of StateSlot] by (cases "wb_state a"; cases "wb_state b") auto
  moreover have "wb_objects a = wb_objects b"
  proof (rule bt_get_ext_map [where f = component])
    fix k x y
    assume "bt_get k (wb_objects a) = Some x" "bt_get k (wb_objects b) = Some y"
      and eq: "component x = component y"
    with assms(1,2) have "entity_ok k x" "entity_ok k y"
      by (auto simp: loading_ok_def objects_ok_def)
    with eq show "x = y"
      by (cases x; cases y) (auto simp: entity_ok_def)
  qed (use assms(1,2) get [of "ObjectSlot _"] in \<open>auto simp: loading_ok_def objects_ok_def\<close>)
  moreover have "wb_transcripts a = wb_transcripts b"
    by (rule bt_get_ext_map [where f = TranscriptItemRec])
      (use assms(1,2) get [of "TranscriptSlot _"] in \<open>auto simp: loading_ok_def transcripts_ok_def\<close>)
  ultimately show ?thesis
    by (cases a; cases b) simp
qed

interpretation builder: keyed_store slot_get insert_initial slot_of admissible loading_ok
  by unfold_locales
    (rule insert_initial_law insert_initial_free slot_get_ext; assumption)+

end
