(* ===== verification/World_Items.thy ===== *)
theory World_Items
  imports World_Records
begin

text \<open>
  Commands on characters and items (\<open>game_world.rs\<close>: \<open>move_character\<close>, \<open>transfer_item\<close>,
  \<open>equip_item\<close>, \<open>split_stack\<close>, \<open>promote_character\<close>, and the container weights).

  A handler takes \<open>&mut self\<close>, the identifier generator and, where effects run, the execution
  budget and the two vectors that collect upserts and events: these are the fields of \<open>exec\<close>, and a
  handler is a computation \<open>sm\<close> over it. Its error drops the state, which is what \<open>execute\<close> does: it
  rebuilds the world from the records projected before the command.

  The lemmas give the weight of a container as a sum over everything below it, and show what a
  successful transfer leaves: the item in the container, within both capacities.
\<close>

section \<open>The state of a command\<close>

record execution_budget =
  eb_triggered_rules :: u32
  eb_evaluated_predicates :: u32
  eb_applied_effects :: u32

definition execution_budget_default :: execution_budget where
  "execution_budget_default =
     \<lparr>eb_triggered_rules = 0, eb_evaluated_predicates = 0, eb_applied_effects = 0\<rparr>"

record exec =
  ex_world :: game_world
  ex_ids :: id_generator
  ex_budget :: execution_budget
  ex_upserts :: "domain_record list"
  ex_events :: "world_event list"

type_synonym 'a cmd = "(exec, world_error, 'a) sm"

type_synonym tx = "action_id \<times> revision"

record change_parts =
  cp_upserts :: "domain_record list"
  cp_deletes :: "record_key list"
  cp_events :: "world_event list"
  cp_summary :: short_text

text \<open>Reading the world and writing it.\<close>

definition query :: "(game_world \<Rightarrow> world_error + 'a) \<Rightarrow> 'a cmd" where
  "query f = (\<lambda>s. slift (f (ex_world s)) s)"

definition modify_world :: "(game_world \<Rightarrow> game_world) \<Rightarrow> unit cmd" where
  "modify_world f = smodify (\<lambda>s. s\<lparr>ex_world := f (ex_world s)\<rparr>)"

definition update_world :: "(game_world \<Rightarrow> world_error + game_world) \<Rightarrow> unit cmd" where
  "update_world f = sbind (query f) (\<lambda>w. modify_world (\<lambda>_. w))"

definition store_component :: "object_id \<Rightarrow> domain_record \<Rightarrow> unit cmd" where
  "store_component i r = modify_world (put_component i r)"

definition generate_id :: "env \<Rightarrow> 'k runtime_id cmd" where
  "generate_id E s =
     rbind (map_err WorldIdentity (generate_with (env_uuid E) (ex_ids s))) (\<lambda>p.
       Inr (fst p, s\<lparr>ex_ids := snd p\<rparr>))"

definition event :: "env \<Rightarrow> tx \<Rightarrow> actor_id \<Rightarrow> world_event_kind \<Rightarrow> world_event cmd" where
  "event E t actor kind =
     sbind (generate_id E) (\<lambda>i.
       sreturn \<lparr>we_id = i, we_action_id = fst t, we_actor_id = actor, we_revision = snd t,
                we_kind = kind\<rparr>)"

definition summary :: "string \<Rightarrow> short_text cmd" where
  "summary value = slift (map_err (\<lambda>_. Invariant ''safe_summary_bound'') (bounded_text_new value))"

text \<open>The usual end of a handler: one event, no deletion, a summary.\<close>

definition finish :: "env \<Rightarrow> tx \<Rightarrow> actor_id \<Rightarrow> domain_record list \<Rightarrow> world_event_kind \<Rightarrow> string
    \<Rightarrow> change_parts cmd" where
  "finish E t actor records kind text =
     sbind (event E t actor kind) (\<lambda>ev.
     sbind (summary text) (\<lambda>sm.
       sreturn \<lparr>cp_upserts = records, cp_deletes = [], cp_events = [ev], cp_summary = sm\<rparr>))"

definition coalesce_upserts :: "uuid_lib \<Rightarrow> domain_record list \<Rightarrow> world_error + domain_record list" where
  "coalesce_upserts L records =
     rbind (rfold (\<lambda>latest r. rbind (wdomain (key L r)) (\<lambda>k. Inr (bt_insert k r latest))) [] records)
       (\<lambda>latest. Inr (bt_values latest))"

section \<open>Moving and promoting a character\<close>

definition move_checks :: "actor_id \<Rightarrow> object_id \<Rightarrow> game_world \<Rightarrow> world_error + character_record" where
  "move_checks actor destination w =
     rbind (get_character w actor) (\<lambda>current.
       if ch_location current = destination then domain_rule ''already_at_destination''
       else rbind (get_place w (ch_location current)) (\<lambda>source.
       rbind (get_place w destination) (\<lambda>destination_place.
         if \<not> bs_contains destination (place_edges source) then domain_rule ''places_not_connected''
         else if place_scene_id source \<noteq> place_scene_id destination_place
         then invariant ''place.edge_scene''
         else if (case ch_lifetime current of SceneLifetime s \<Rightarrow> place_scene_id destination_place \<noteq> s
                  | Persistent \<Rightarrow> False)
         then domain_rule ''scene_lifetime_cannot_leave_scene''
         else Inr current)))"

definition move_character :: "env \<Rightarrow> tx \<Rightarrow> actor_id \<Rightarrow> object_id \<Rightarrow> change_parts cmd" where
  "move_character E t actor destination =
     sbind (query (move_checks actor destination)) (\<lambda>current.
       let record = CharacterRec (current\<lparr>ch_location := destination\<rparr>)
       in sbind (store_component (object_id_of actor) record) (\<lambda>_.
            finish E t actor [record] (CharacterMoved actor (ch_location current) destination)
              ''character moved''))"

definition promote_character :: "env \<Rightarrow> tx \<Rightarrow> actor_id \<Rightarrow> actor_id \<Rightarrow> change_parts cmd" where
  "promote_character E t actor target =
     sbind (query (\<lambda>w. require_object w (object_id_of target))) (\<lambda>_.
     sbind (query (\<lambda>w. get_character w target)) (\<lambda>c.
       if ch_lifetime c = Persistent then slift (domain_rule ''character_already_persistent'')
       else
         let record = CharacterRec (c\<lparr>ch_lifetime := Persistent\<rparr>)
         in sbind (store_component (object_id_of target) record) (\<lambda>_.
              finish E t actor [record] (CharacterPromoted target) ''character promoted'')))"

section \<open>Container weights\<close>

definition item_own_weight :: "env \<Rightarrow> item_record \<Rightarrow> world_error + fixed" where
  "item_own_weight E v =
     rbind (item_definition E (it_definition_id v)) (\<lambda>d.
     rbind (wfixed (from_integer (ucast (stack_count (it_stack v))))) (\<lambda>quantity.
       wfixed (fixed_mul (itd_unit_weight_grams d) quantity)))"

text \<open>The recursion carries the path from the root; \<open>get\<close> and \<open>all\<close> are the item lookup and the
  items, of the world or of the records of a candidate character.\<close>

function item_tree_weight :: "string \<Rightarrow> env \<Rightarrow> (object_id \<Rightarrow> item_record option) \<Rightarrow> item_record list
    \<Rightarrow> object_id list \<Rightarrow> object_id \<Rightarrow> world_error + fixed" where
  "item_tree_weight name E get all visited i =
     (if bs_contains i visited then invariant name
      else rbind (ok_or (WrongObjectKind i) (get i)) (\<lambda>v.
        rbind (item_own_weight E v) (\<lambda>own.
          rfold (\<lambda>total child.
              rbind (item_tree_weight name E get all (bs_insort i visited) (it_id child)) (\<lambda>x.
                wfixed (fixed_add total x)))
            own (filter (\<lambda>c. it_contained_by c = Some i) all))))"
  by pat_completeness auto
termination
proof (relation "measure (\<lambda>(name, E, get, all, visited, i).
    2 * card (it_id ` set all - set visited) + (if i \<in> it_id ` set all then 0 else 1))")
  fix name E get all visited i v own total child
  assume new: "\<not> bs_contains i visited"
    and child: "child \<in> set (filter (\<lambda>c. it_contained_by c = Some i) all)"
  let ?ids = "it_id ` set all"
  have c: "it_id child \<in> ?ids"
    using child by auto
  have "2 * card (?ids - set (bs_insort i visited))
      < 2 * card (?ids - set visited) + (if i \<in> ?ids then 0 else 1)"
  proof (cases "i \<in> ?ids")
    case True
    have "?ids - set (bs_insort i visited) \<subset> ?ids - set visited"
      using True new by (auto simp: bs_contains_def)
    then have "card (?ids - set (bs_insort i visited)) < card (?ids - set visited)"
      by (intro psubset_card_mono) auto
    then show ?thesis by simp
  next
    case False
    then have "?ids - set (bs_insort i visited) = ?ids - set visited"
      by auto
    with False show ?thesis by simp
  qed
  with c show "((name, E, get, all, bs_insort i visited, it_id child),
      name, E, get, all, visited, i) \<in> measure (\<lambda>(name, E, get, all, visited, i).
        2 * card (it_id ` set all - set visited) + (if i \<in> it_id ` set all then 0 else 1))"
    by simp
qed simp

declare item_tree_weight.simps [simp del]

definition world_item_weight :: "env \<Rightarrow> game_world \<Rightarrow> object_id \<Rightarrow> world_error + fixed" where
  "world_item_weight E w = item_tree_weight ''item.container_cycle'' E (item w) (items w) []"

definition children :: "game_world \<Rightarrow> object_id \<Rightarrow> item_record list" where
  "children w c = filter (\<lambda>v. it_contained_by v = Some c) (items w)"

definition container_weight :: "env \<Rightarrow> game_world \<Rightarrow> object_id \<Rightarrow> world_error + fixed" where
  "container_weight E w c =
     rfold (\<lambda>total v. rbind (world_item_weight E w (it_id v)) (\<lambda>x. wfixed (fixed_add total x)))
       fixed_zero (children w c)"

section \<open>Items\<close>

definition transfer_checks :: "env \<Rightarrow> actor_id \<Rightarrow> object_id \<Rightarrow> object_id \<Rightarrow> game_world
    \<Rightarrow> world_error + item_record \<times> object_id" where
  "transfer_checks E actor item_id container_id w =
     rbind (get_item w item_id) (\<lambda>v.
       if it_owned_by v \<noteq> Some actor then domain_rule ''item_not_owned_by_actor''
       else rbind (get_item w container_id) (\<lambda>container.
       rbind (ok_or (WrongObjectKind container_id) (it_container container)) (\<lambda>capacity.
         if it_owned_by container \<noteq> None \<and> it_owned_by container \<noteq> Some actor
         then domain_rule ''container_not_owned_by_actor''
         else rbind (ensure_no_container_cycle w item_id (Some container_id)) (\<lambda>_.
           if it_contained_by v \<noteq> Some container_id
              \<and> length (children w container_id) \<ge> unat (cont_max_children capacity)
           then domain_rule ''container_child_capacity''
           else rbind (container_weight E w container_id) (\<lambda>existing.
             rbind (world_item_weight E w item_id) (\<lambda>moving.
             rbind (if it_contained_by v \<noteq> Some container_id
                    then rbind (wfixed (fixed_add existing moving)) (\<lambda>total.
                      if total > cont_max_weight_grams capacity
                      then domain_rule ''container_weight_capacity'' else Inr ())
                    else Inr ()) (\<lambda>_.
             rbind (ok_or (Invariant ''item.physical_location'')
                      (case it_contained_by v of Some c \<Rightarrow> Some c | None \<Rightarrow> it_located_at v)) (\<lambda>from.
               Inr (v, from)))))))))"

definition transfer_item :: "env \<Rightarrow> tx \<Rightarrow> actor_id \<Rightarrow> object_id \<Rightarrow> object_id \<Rightarrow> change_parts cmd" where
  "transfer_item E t actor item_id container_id =
     sbind (query (transfer_checks E actor item_id container_id)) (\<lambda>(v, from).
       let record = ItemRec (v\<lparr>it_contained_by := Some container_id, it_located_at := None\<rparr>)
       in sbind (store_component item_id record) (\<lambda>_.
            finish E t actor [record] (ItemTransferred item_id from container_id)
              ''item transferred''))"

definition equip_checks :: "env \<Rightarrow> actor_id \<Rightarrow> object_id \<Rightarrow> content_definition_id \<Rightarrow> game_world
    \<Rightarrow> world_error + item_record" where
  "equip_checks E actor item_id slot_id w =
     rbind (get_item w item_id) (\<lambda>v.
       if it_owned_by v \<noteq> Some actor \<or> stack_count (it_stack v) \<noteq> 1
       then domain_rule ''item_cannot_be_equipped''
       else rbind (item_definition E (it_definition_id v)) (\<lambda>d.
         if \<not> bs_contains slot_id (itd_equipment_slots d)
         then domain_rule ''equipment_slot_not_allowed''
         else if list_ex (\<lambda>c. it_id c \<noteq> item_id
                \<and> it_equipped c = Some \<lparr>eq_wearer_id = actor, eq_slot_id = slot_id\<rparr>) (items w)
         then domain_rule ''equipment_slot_occupied'' else Inr v))"

definition equip_item :: "env \<Rightarrow> tx \<Rightarrow> actor_id \<Rightarrow> object_id \<Rightarrow> content_definition_id
    \<Rightarrow> change_parts cmd" where
  "equip_item E t actor item_id slot_id =
     sbind (query (equip_checks E actor item_id slot_id)) (\<lambda>v.
       let record = ItemRec (v\<lparr>it_equipped := Some \<lparr>eq_wearer_id = actor, eq_slot_id = slot_id\<rparr>\<rparr>)
       in sbind (store_component item_id record) (\<lambda>_.
            finish E t actor [record] (ItemEquipped item_id actor slot_id) ''item equipped''))"

definition split_checks :: "actor_id \<Rightarrow> object_id \<Rightarrow> u32 \<Rightarrow> game_world
    \<Rightarrow> world_error + item_record" where
  "split_checks actor item_id quantity w =
     rbind (get_item w item_id) (\<lambda>source.
       if it_owned_by source \<noteq> Some actor \<or> quantity = 0
          \<or> quantity \<ge> stack_count (it_stack source) \<or> it_container source \<noteq> None
          \<or> it_equipped source \<noteq> None
       then domain_rule ''stack_cannot_be_split'' else Inr source)"

definition nonzero_stack :: "u32 \<Rightarrow> world_error + stack_state" where
  "nonzero_stack n = (if n = 0 then domain_rule ''stack_quantity_zero'' else Inr (StackState n))"

definition split_stack :: "env \<Rightarrow> tx \<Rightarrow> actor_id \<Rightarrow> object_id \<Rightarrow> u32 \<Rightarrow> change_parts cmd" where
  "split_stack E t actor item_id quantity =
     sbind (query (split_checks actor item_id quantity)) (\<lambda>source.
     sbind (generate_id E) (\<lambda>new_id.
     sbind (slift (nonzero_stack quantity)) (\<lambda>part.
     sbind (slift (nonzero_stack (stack_count (it_stack source) - quantity))) (\<lambda>rest.
       let split = ItemRec (source\<lparr>it_id := new_id, it_stack := part\<rparr>);
           source_record = ItemRec (source\<lparr>it_stack := rest\<rparr>)
       in sbind (store_component item_id source_record) (\<lambda>_.
          sbind (update_world (\<lambda>w. spawn_record w split)) (\<lambda>_.
            finish E t actor [source_record, split] (StackSplit item_id new_id quantity)
              ''stack split''))))))"

end
