(* ===== verification/World_Effects.thy ===== *)
theory World_Effects
  imports World_Items
begin

text \<open>
  The declarative part of a world, up to its effects (\<open>game_world/declarative.rs\<close>): the execution
  budget, predicates, and the effects that conditions, skills, events, actions and rules apply.

  The vectors \<open>upserts\<close> and \<open>events\<close> that the source passes by reference are the fields
  \<open>ex_upserts\<close> and \<open>ex_events\<close>, the budget is \<open>ex_budget\<close>.
\<close>

section \<open>The budget\<close>

definition charge_rule :: "rule_limits \<Rightarrow> execution_budget \<Rightarrow> world_error + execution_budget" where
  "charge_rule limits b =
     rbind (ok_or (DomainRule ''rule_trigger_budget'') (checked_add (eb_triggered_rules b) 1)) (\<lambda>n.
       if n > max_triggered_rules limits then domain_rule ''rule_trigger_budget''
       else Inr (b\<lparr>eb_triggered_rules := n\<rparr>))"

definition charge_predicate :: "rule_limits \<Rightarrow> execution_budget \<Rightarrow> world_error + execution_budget" where
  "charge_predicate limits b =
     rbind (ok_or (DomainRule ''rule_predicate_budget'') (checked_add (eb_evaluated_predicates b) 1))
       (\<lambda>n. if n > max_evaluated_predicates limits then domain_rule ''rule_predicate_budget''
            else Inr (b\<lparr>eb_evaluated_predicates := n\<rparr>))"

definition charge_effect :: "rule_limits \<Rightarrow> execution_budget \<Rightarrow> world_error + execution_budget" where
  "charge_effect limits b =
     rbind (ok_or (DomainRule ''rule_effect_budget'') (checked_add (eb_applied_effects b) 1)) (\<lambda>n.
       if n > max_applied_effects limits then domain_rule ''rule_effect_budget''
       else Inr (b\<lparr>eb_applied_effects := n\<rparr>))"

text \<open>Charging the budget of the running command, under the limits of the world.\<close>

definition charge :: "(rule_limits \<Rightarrow> execution_budget \<Rightarrow> world_error + execution_budget)
    \<Rightarrow> unit cmd" where
  "charge f = (\<lambda>s.
     rbind (f (config_rule_limits (gw_config (ex_world s))) (ex_budget s)) (\<lambda>b.
       Inr ((), s\<lparr>ex_budget := b\<rparr>)))"

section \<open>Predicates\<close>

definition has_resource :: "actor_id \<Rightarrow> content_definition_id \<Rightarrow> fixed \<Rightarrow> game_world
    \<Rightarrow> world_error + bool" where
  "has_resource actor i amount w =
     rbind (get_character w actor) (\<lambda>c.
       Inr (case bt_get i (ch_resources c) of None \<Rightarrow> False
            | Some pool \<Rightarrow> rp_current pool \<ge> amount))"

definition has_condition :: "actor_id \<Rightarrow> content_definition_id \<Rightarrow> game_world \<Rightarrow> bool" where
  "has_condition actor i w =
     list_ex (\<lambda>(_, c). cond_target_id c = actor \<and> cond_condition_id c = i) (select as_condition w)"

definition has_tag :: "actor_id \<Rightarrow> content_definition_id \<Rightarrow> game_world \<Rightarrow> world_error + bool" where
  "has_tag actor tag w =
     rbind (get_character w actor) (\<lambda>c.
       if bs_contains tag (cp_narrative_tags (ch_profile c)) then Inr True
       else rbind (get_place w (ch_location c)) (\<lambda>p. Inr (bs_contains tag (place_tags p))))"

fun evaluate_predicate :: "actor_id \<Rightarrow> predicate_definition \<Rightarrow> bool cmd"
  and evaluate_predicates :: "actor_id \<Rightarrow> predicate_definition list \<Rightarrow> bool cmd"
  and evaluate_any :: "actor_id \<Rightarrow> predicate_definition list \<Rightarrow> bool cmd" where
  "evaluate_predicate actor (ResourceAtLeast i amount) =
     sbind (charge charge_predicate) (\<lambda>_. query (has_resource actor i amount))"
| "evaluate_predicate actor (HasCondition i) =
     sbind (charge charge_predicate) (\<lambda>_. query (\<lambda>w. Inr (has_condition actor i w)))"
| "evaluate_predicate actor (HasTag tag) =
     sbind (charge charge_predicate) (\<lambda>_. query (has_tag actor tag))"
| "evaluate_predicate actor (PredNot p) =
     sbind (charge charge_predicate) (\<lambda>_.
       sbind (evaluate_predicate actor p) (\<lambda>b. sreturn (\<not> b)))"
| "evaluate_predicate actor (PredAll ps) =
     sbind (charge charge_predicate) (\<lambda>_. evaluate_predicates actor ps)"
| "evaluate_predicate actor (PredAny ps) =
     sbind (charge charge_predicate) (\<lambda>_. evaluate_any actor ps)"
| "evaluate_predicates actor [] = sreturn True"
| "evaluate_predicates actor (p # ps) =
     sbind (evaluate_predicate actor p) (\<lambda>b.
       if \<not> b then sreturn False else evaluate_predicates actor ps)"
| "evaluate_any actor [] = sreturn False"
| "evaluate_any actor (p # ps) =
     sbind (evaluate_predicate actor p) (\<lambda>b.
       if b then sreturn True else evaluate_any actor ps)"

section \<open>Effects\<close>

text \<open>\<open>upserts.push\<close> and \<open>events.push(event(\<dots>)?)\<close>.\<close>

definition emit_upsert :: "domain_record \<Rightarrow> unit cmd" where
  "emit_upsert r = smodify (\<lambda>s. s\<lparr>ex_upserts := ex_upserts s @ [r]\<rparr>)"

definition emit_event :: "env \<Rightarrow> tx \<Rightarrow> actor_id \<Rightarrow> world_event_kind \<Rightarrow> unit cmd" where
  "emit_event E t actor kind =
     sbind (event E t actor kind) (\<lambda>ev. smodify (\<lambda>s. s\<lparr>ex_events := ex_events s @ [ev]\<rparr>))"

text \<open>Overwriting a component that is there, or spawning a record, and reporting it.\<close>

definition store_and_emit :: "object_id \<Rightarrow> domain_record \<Rightarrow> unit cmd" where
  "store_and_emit i r = sbind (store_component i r) (\<lambda>_. emit_upsert r)"

definition spawn_and_emit :: "domain_record \<Rightarrow> unit cmd" where
  "spawn_and_emit r = sbind (update_world (\<lambda>w. spawn_record w r)) (\<lambda>_. emit_upsert r)"

definition resource_definition :: "env \<Rightarrow> content_definition_id \<Rightarrow> world_error + resource_definition" where
  "resource_definition E i =
     (case definition_of E i of Some (ResourceDef d) \<Rightarrow> Inr d | _ \<Rightarrow> Inl (DefinitionNotFound i))"

definition require_entry :: "env \<Rightarrow> content_definition_id \<Rightarrow> world_error + registered_definition" where
  "require_entry E i = ok_or (DefinitionNotFound i) (registry_get (env_registry E) i)"

definition changed_resource :: "env \<Rightarrow> actor_id \<Rightarrow> content_definition_id \<Rightarrow> fixed \<Rightarrow> game_world
    \<Rightarrow> world_error + character_record" where
  "changed_resource E actor i amount w =
     rbind (resource_definition E i) (\<lambda>resource.
     rbind (require_object w (object_id_of actor)) (\<lambda>_.
     rbind (get_character w actor) (\<lambda>c.
     rbind (ok_or (DomainRule ''effect_resource_missing'') (bt_get i (ch_resources c))) (\<lambda>pool.
     rbind (wfixed (fixed_add (rp_current pool) amount)) (\<lambda>new.
       if new < rsd_minimum resource \<or> new > rp_base_maximum pool \<or> new > rsd_maximum resource
       then domain_rule ''effect_resource_out_of_range''
       else Inr (c\<lparr>ch_resources := bt_insert i (pool\<lparr>rp_current := new\<rparr>) (ch_resources c)\<rparr>))))))"

definition apply_resource_delta :: "env \<Rightarrow> tx \<Rightarrow> actor_id \<Rightarrow> content_definition_id \<Rightarrow> fixed
    \<Rightarrow> unit cmd" where
  "apply_resource_delta E t actor i amount =
     sbind (query (changed_resource E actor i amount)) (\<lambda>c.
     sbind (store_and_emit (object_id_of actor) (CharacterRec c)) (\<lambda>_.
       emit_event E t actor (ResourceChanged actor i amount)))"

subsection \<open>Conditions\<close>

fun merged_intensity :: "fixed \<Rightarrow> fixed \<Rightarrow> intensity_policy \<Rightarrow> fixed" where
  "merged_intensity current incoming KeepIntensity = current"
| "merged_intensity current incoming ReplaceIntensity = incoming"
| "merged_intensity current incoming MaximumIntensity = max current incoming"

fun condition_expiry :: "duration_policy \<Rightarrow> world_time \<Rightarrow> world_error + world_time option" where
  "condition_expiry Permanent clock = Inr None"
| "condition_expiry (Finite n) clock =
     rbind (wfixed (world_time_add clock n)) (\<lambda>t. Inr (Some t))"

definition condition_periodic :: "condition_definition \<Rightarrow> world_time
    \<Rightarrow> world_error + world_time option" where
  "condition_periodic d clock =
     (case cd_periodic d of None \<Rightarrow> Inr None
      | Some p \<Rightarrow> rbind (wfixed (world_time_add clock (ped_interval_ticks p))) (\<lambda>t. Inr (Some t)))"

definition refresh_condition_timing :: "condition_definition \<Rightarrow> world_time \<Rightarrow> condition_record
    \<Rightarrow> world_error + condition_record" where
  "refresh_condition_timing d clock r =
     rbind (condition_expiry (cd_duration d) clock) (\<lambda>expires.
     rbind (condition_periodic d clock) (\<lambda>periodic.
       Inr (r\<lparr>cond_expires_at := expires, cond_next_periodic_at := periodic\<rparr>)))"

definition existing_conditions :: "actor_id \<Rightarrow> content_definition_id \<Rightarrow> game_world
    \<Rightarrow> (object_id \<times> condition_record) list" where
  "existing_conditions actor i w =
     sort_key fst (filter (\<lambda>(_, c). cond_target_id c = actor \<and> cond_condition_id c = i)
       (select as_condition w))"

definition new_condition :: "env \<Rightarrow> actor_id \<Rightarrow> content_definition_id \<Rightarrow> u32 \<Rightarrow> fixed
    \<Rightarrow> content_definition_id \<Rightarrow> condition_definition \<Rightarrow> content_origin \<Rightarrow> object_id cmd" where
  "new_condition E actor i stacks intensity source d origin =
     sbind (sgets (\<lambda>s. ws_clock (gw_state (ex_world s)))) (\<lambda>clock.
     sbind (generate_id E) (\<lambda>new_id.
     sbind (slift (condition_expiry (cd_duration d) clock)) (\<lambda>expires.
     sbind (slift (condition_periodic d clock)) (\<lambda>periodic.
     sbind (spawn_and_emit (ConditionRec
         \<lparr>cond_id = new_id, cond_target_id = actor, cond_condition_id = i,
          cond_source = ConditionFromSystem source, cond_stacks = stacks,
          cond_intensity = intensity, cond_applied_at = clock, cond_expires_at = expires,
          cond_next_periodic_at = periodic, cond_origin = ContentEntity origin\<rparr>)) (\<lambda>_.
       sreturn new_id)))))"

text \<open>The two policies that change the one instance there is.\<close>

definition refreshed_condition :: "condition_definition \<Rightarrow> world_time \<Rightarrow> fixed
    \<Rightarrow> (object_id \<times> condition_record) list \<Rightarrow> world_error + object_id \<times> condition_record" where
  "refreshed_condition d clock intensity existing =
     (case existing of
        [(i, r)] \<Rightarrow>
          rbind (refresh_condition_timing d clock (r\<lparr>cond_intensity :=
              merged_intensity (cond_intensity r) intensity (cd_intensity_policy d)\<rparr>))
            (\<lambda>r'. Inr (i, r'))
      | _ \<Rightarrow> invariant ''condition_refresh_instance_count'')"

definition stacked_condition :: "condition_definition \<Rightarrow> world_time \<Rightarrow> u32 \<Rightarrow> bool \<Rightarrow> u32 \<Rightarrow> fixed
    \<Rightarrow> (object_id \<times> condition_record) list \<Rightarrow> world_error + object_id \<times> condition_record" where
  "stacked_condition d clock maximum refresh_duration stacks intensity existing =
     (case existing of
        [(i, r)] \<Rightarrow>
          rbind (ok_or (DomainRule ''condition_stack_maximum'') (checked_add (cond_stacks r) stacks))
            (\<lambda>total.
               if total > maximum then domain_rule ''condition_stack_maximum''
               else if total = 0 then invariant ''condition_stack_nonzero''
               else
                 let r' = r\<lparr>cond_stacks := total, cond_intensity :=
                       merged_intensity (cond_intensity r) intensity (cd_intensity_policy d)\<rparr>
                 in rbind (if refresh_duration then refresh_condition_timing d clock r' else Inr r')
                      (\<lambda>r''. Inr (i, r'')))
      | _ \<Rightarrow> invariant ''condition_stack_instance_count'')"

definition change_condition :: "world_error + object_id \<times> condition_record \<Rightarrow> object_id cmd" where
  "change_condition m =
     sbind (slift m) (\<lambda>(i, r). sbind (store_and_emit i (ConditionRec r)) (\<lambda>_. sreturn i))"

definition condition_instance :: "env \<Rightarrow> actor_id \<Rightarrow> content_definition_id \<Rightarrow> u32 \<Rightarrow> fixed
    \<Rightarrow> content_definition_id \<Rightarrow> condition_definition \<Rightarrow> content_origin \<Rightarrow> object_id cmd" where
  "condition_instance E actor i stacks intensity source d origin =
     sbind (sgets (\<lambda>s. existing_conditions actor i (ex_world s))) (\<lambda>existing.
     sbind (sgets (\<lambda>s. ws_clock (gw_state (ex_world s)))) (\<lambda>clock.
       let new = new_condition E actor i stacks intensity source d origin
       in case cd_stack_policy d of
            Unique \<Rightarrow>
              if existing \<noteq> [] then slift (domain_rule ''condition_unique_exists'') else new
          | RefreshDuration \<Rightarrow>
              if existing \<noteq> [] then change_condition (refreshed_condition d clock intensity existing)
              else new
          | IncreaseStacks maximum refresh_duration \<Rightarrow>
              if existing \<noteq> []
              then change_condition
                     (stacked_condition d clock maximum refresh_duration stacks intensity existing)
              else if stacks > maximum then slift (domain_rule ''condition_stack_maximum'') else new
          | IndependentInstances maximum \<Rightarrow>
              if length existing \<ge> unat maximum
              then slift (domain_rule ''condition_instance_maximum'') else new))"

definition apply_condition_effect :: "env \<Rightarrow> tx \<Rightarrow> actor_id \<Rightarrow> content_definition_id \<Rightarrow> u32 \<Rightarrow> fixed
    \<Rightarrow> content_definition_id \<Rightarrow> unit cmd" where
  "apply_condition_effect E t actor i stacks intensity source =
     sbind (slift (require_entry E i)) (\<lambda>entry.
       case reg_definition entry of
         ConditionDef d \<Rightarrow>
           sbind (condition_instance E actor i stacks intensity source d (reg_origin entry)) (\<lambda>instance_id.
             emit_event E t actor (ConditionApplied actor i instance_id))
       | _ \<Rightarrow> slift (Inl (DefinitionNotFound i)))"

subsection \<open>Items, skills and parameters\<close>

definition item_from_definition :: "object_id \<Rightarrow> object_id \<Rightarrow> actor_id \<Rightarrow> u32 \<Rightarrow> item_definition
    \<Rightarrow> content_origin \<Rightarrow> item_record" where
  "item_from_definition i parent owner quantity d origin =
     \<lparr>it_id = i, it_definition_id = itd_id d, it_stack = StackState quantity,
      it_durability = map_option (\<lambda>m. \<lparr>dur_current = m, dur_maximum = m\<rparr>) (itd_durability d),
      it_container = map_option (\<lambda>c. \<lparr>cont_max_weight_grams = ctd_max_weight_grams c,
          cont_max_children = ctd_max_children c\<rparr>) (itd_container d),
      it_contained_by = Some parent, it_owned_by = Some owner, it_equipped = None,
      it_located_at = None, it_custom_name = None, it_bound_actor = None, it_parameters = [],
      it_instance_adjustments = [], it_origin = ContentEntity origin\<rparr>"

definition grant_item_checks :: "env \<Rightarrow> actor_id \<Rightarrow> u32 \<Rightarrow> item_definition \<Rightarrow> game_world
    \<Rightarrow> world_error + object_id" where
  "grant_item_checks E actor quantity d w =
     (if quantity > itd_stack_limit d \<or> itd_container d \<noteq> None \<and> quantity \<noteq> 1
      then domain_rule ''grant_item_stack_invalid''
      else
        rbind (get_character w actor) (\<lambda>c.
          let root_id = ch_inventory_root c
          in rbind (get_item w root_id) (\<lambda>root.
             rbind (ok_or (WrongObjectKind root_id) (it_container root)) (\<lambda>capacity.
               if length (children w root_id) \<ge> unat (cont_max_children capacity)
               then domain_rule ''container_child_capacity''
               else
                 rbind (wfixed (from_integer (ucast quantity))) (\<lambda>q.
                 rbind (wfixed (fixed_mul (itd_unit_weight_grams d) q)) (\<lambda>added.
                 rbind (container_weight E w root_id) (\<lambda>existing.
                 rbind (wfixed (fixed_add existing added)) (\<lambda>total.
                   if total > cont_max_weight_grams capacity
                   then domain_rule ''container_weight_capacity'' else Inr root_id))))))))"

definition apply_grant_item :: "env \<Rightarrow> tx \<Rightarrow> actor_id \<Rightarrow> content_definition_id \<Rightarrow> u32
    \<Rightarrow> unit cmd" where
  "apply_grant_item E t actor item_id quantity =
     sbind (slift (require_entry E item_id)) (\<lambda>entry.
       case reg_definition entry of
         ItemDef d \<Rightarrow>
           sbind (query (grant_item_checks E actor quantity d)) (\<lambda>root_id.
           sbind (generate_id E) (\<lambda>i.
           sbind (spawn_and_emit (ItemRec
               (item_from_definition i root_id actor quantity d (reg_origin entry)))) (\<lambda>_.
             emit_event E t actor (ItemGranted actor i item_id quantity))))
       | _ \<Rightarrow> slift (Inl (DefinitionNotFound item_id)))"

definition skill_granted :: "actor_id \<Rightarrow> content_definition_id \<Rightarrow> game_world \<Rightarrow> bool" where
  "skill_granted actor i w =
     list_ex (\<lambda>(_, g). sg_owner_id g = actor \<and> sg_skill_id g = i) (select as_skill_grant w)"

definition apply_grant_skill :: "env \<Rightarrow> tx \<Rightarrow> actor_id \<Rightarrow> content_definition_id \<Rightarrow> u32
    \<Rightarrow> content_definition_id \<Rightarrow> unit cmd" where
  "apply_grant_skill E t actor skill_id rank source =
     sbind (slift (require_entry E skill_id)) (\<lambda>entry.
       case reg_definition entry of
         SkillDef _ \<Rightarrow>
           sbind (sgets (\<lambda>s. skill_granted actor skill_id (ex_world s))) (\<lambda>granted.
             if granted then slift (domain_rule ''skill_already_granted'')
             else
               sbind (generate_id E) (\<lambda>i.
               sbind (spawn_and_emit (SkillGrantRec
                   \<lparr>sg_id = i, sg_owner_id = actor, sg_skill_id = skill_id, sg_rank = rank,
                    sg_proficiency = 0, sg_source = SkillFromRule source, sg_enabled = True,
                    sg_ready_at = None, sg_origin = ContentEntity (reg_origin entry)\<rparr>)) (\<lambda>_.
                 emit_event E t actor (SkillGranted actor i skill_id))))
       | _ \<Rightarrow> slift (Inl (DefinitionNotFound skill_id)))"

definition matching_parameter_set :: "content_definition_id \<Rightarrow> game_world
    \<Rightarrow> world_error + object_id \<times> parameter_set_record" where
  "matching_parameter_set pack w =
     (case filter (\<lambda>(_, p). ps_schema_id p = pack) (select as_parameter_set w) of
        [m] \<Rightarrow> Inr m
      | _ \<Rightarrow> invariant ''parameter_set_pack_unique'')"

definition apply_set_parameter :: "env \<Rightarrow> tx \<Rightarrow> actor_id \<Rightarrow> content_definition_id \<Rightarrow> parameter_value
    \<Rightarrow> unit cmd" where
  "apply_set_parameter E t actor parameter_id value =
     sbind (slift (require_entry E parameter_id)) (\<lambda>entry.
       case reg_definition entry of
         ParameterDef d \<Rightarrow>
           sbind (query (\<lambda>w. validate_parameter_value w (pd_value_type d) value)) (\<lambda>_.
           sbind (case pd_persistence d of
                    SaveParameter \<Rightarrow>
                      sbind (query (matching_parameter_set (co_pack_id (reg_origin entry)))) (\<lambda>(i, p).
                        store_and_emit i (ParameterSetRec
                          (p\<lparr>ps_values := bt_insert parameter_id value (ps_values p)\<rparr>)))
                  | SessionParameter \<Rightarrow>
                      modify_world (\<lambda>w. w\<lparr>gw_session := bt_insert parameter_id value (gw_session w)\<rparr>))
             (\<lambda>_. emit_event E t actor (ParameterChanged parameter_id)))
       | _ \<Rightarrow> slift (Inl (DefinitionNotFound parameter_id)))"

subsection \<open>A sequence of effects\<close>

fun apply_effect :: "env \<Rightarrow> tx \<Rightarrow> actor_id \<Rightarrow> content_definition_id \<Rightarrow> effect_definition
    \<Rightarrow> unit cmd" where
  "apply_effect E t actor source (ResourceDelta i amount) = apply_resource_delta E t actor i amount"
| "apply_effect E t actor source (ApplyCondition i stacks intensity) =
     apply_condition_effect E t actor i stacks intensity source"
| "apply_effect E t actor source (GrantItem i quantity) = apply_grant_item E t actor i quantity"
| "apply_effect E t actor source (GrantSkill i rank) = apply_grant_skill E t actor i rank source"
| "apply_effect E t actor source (SetParameter i value) = apply_set_parameter E t actor i value"
| "apply_effect E t actor source (EmitEvent event_type) =
     emit_event E t actor (DeclarativeEventEmitted event_type source)"

definition apply_effects :: "env \<Rightarrow> tx \<Rightarrow> actor_id \<Rightarrow> content_definition_id \<Rightarrow> effect_definition list
    \<Rightarrow> unit cmd" where
  "apply_effects E t actor source effects =
     sforeach (\<lambda>e. sbind (charge charge_effect) (\<lambda>_. apply_effect E t actor source e)) effects"

end
