(* ===== verification/Effect_Relations.thy ===== *)
theory Effect_Relations
  imports World_Effects
begin

text \<open>
  What holds between the state before and after a computation. \<open>keeps R m\<close> says that every
  successful run of \<open>m\<close> relates its states by \<open>R\<close>; the locale \<open>step_relation\<close> composes it along the
  combinators, for a preorder \<open>R\<close>.

  \<open>effect_relation\<close> is the interface between the primitive writes of the effects and everything
  built from them: a preorder that the charges, the identifier draws, the events, a component
  overwritten under its own identifier and kind, a record spawned and a session parameter set all
  keep is kept by any list of effects. A condition that is written has the times it had, or times
  its definition puts after the clock (\<open>scheduled\<close>). The instances are the budget, the frame, the
  tracking of upserts, the stamps of the events and the boundaries of the clock.
\<close>

section \<open>Relations between states\<close>

definition keeps :: "('s \<Rightarrow> 's \<Rightarrow> bool) \<Rightarrow> ('s, 'e, 'a) sm \<Rightarrow> bool" where
  "keeps R m \<longleftrightarrow> (\<forall>s x s'. m s = Inr (x, s') \<longrightarrow> R s s')"

lemma keepsI: "(\<And>s x s'. m s = Inr (x, s') \<Longrightarrow> R s s') \<Longrightarrow> keeps R m"
  by (auto simp: keeps_def)

lemma keepsD: "keeps R m \<Longrightarrow> m s = Inr (x, s') \<Longrightarrow> R s s'"
  by (auto simp: keeps_def)

lemma keeps_slift_Inl: "keeps R (slift (Inl e))"
  by (rule keepsI) (simp add: slift_def)

lemma query_Inr_iff [res_inv]: "query f s = Inr (x, s') \<longleftrightarrow> f (ex_world s) = Inr x \<and> s' = s"
  by (simp add: query_def slift_Inr_iff)

lemma modify_world_Inr_iff [res_inv]:
  "modify_world f s = Inr (u, s') \<longleftrightarrow> s' = s\<lparr>ex_world := f (ex_world s)\<rparr>"
  by (simp add: modify_world_def smodify_Inr_iff)

lemma update_world_Inr_iff [res_inv]:
  "update_world f s = Inr (u, s') \<longleftrightarrow> (\<exists>w. f (ex_world s) = Inr w \<and> s' = s\<lparr>ex_world := w\<rparr>)"
  by (simp add: update_world_def sbind_Inr_iff query_Inr_iff modify_world_Inr_iff)

lemma generate_id_Inr_iff [res_inv]:
  "generate_id E s = Inr (i, s')
    \<longleftrightarrow> (is_uuid_v7 (env_uuid E) (shd (ex_ids s)) \<and> i = RuntimeId (shd (ex_ids s))
         \<and> s' = s\<lparr>ex_ids := stl (ex_ids s)\<rparr>)"
  by (auto simp: generate_id_def rbind_Inr_iff map_err_Inr_iff generate_with_Inr_iff)

lemma event_Inr_iff [res_inv]:
  "event E t actor kind s = Inr (ev, s')
    \<longleftrightarrow> (\<exists>i. generate_id E s = Inr (i, s')
         \<and> ev = \<lparr>we_id = i, we_action_id = fst t, we_actor_id = actor, we_revision = snd t,
                 we_kind = kind\<rparr>)"
  by (auto simp: event_def sbind_Inr_iff sreturn_Inr_iff)

locale step_relation =
  fixes R :: "'s \<Rightarrow> 's \<Rightarrow> bool"
  assumes refl: "R s s"
    and trans: "R s t \<Longrightarrow> R t u \<Longrightarrow> R s u"
begin

lemma keeps_sreturn: "keeps R (sreturn x)"
  by (rule keepsI) (simp add: sreturn_Inr_iff refl)

lemma keeps_slift: "keeps R (slift m)"
  by (rule keepsI) (simp add: slift_Inr_iff refl)

lemma keeps_sgets: "keeps R (sgets f)"
  by (rule keepsI) (simp add: sgets_Inr_iff refl)

lemma keeps_sbind: "keeps R m \<Longrightarrow> (\<And>x. keeps R (f x)) \<Longrightarrow> keeps R (sbind m f)"
  by (rule keepsI) (auto simp: sbind_Inr_iff intro: trans dest: keepsD)

lemma keeps_if: "(c \<Longrightarrow> keeps R m) \<Longrightarrow> (\<not> c \<Longrightarrow> keeps R n) \<Longrightarrow> keeps R (if c then m else n)"
  by simp

lemma keeps_let: "(\<And>x. keeps R (f x)) \<Longrightarrow> keeps R (Let x f)"
  by simp

lemma keeps_prod: "(\<And>a b. keeps R (f a b)) \<Longrightarrow> keeps R (case p of (a, b) \<Rightarrow> f a b)"
  by (cases p) simp

lemma keeps_sforeach: "(\<And>x. x \<in> set xs \<Longrightarrow> keeps R (f x)) \<Longrightarrow> keeps R (sforeach f xs)"
  by (induction xs) (auto intro: keeps_sreturn keeps_sbind)

lemma keeps_sfold: "(\<And>b x. x \<in> set xs \<Longrightarrow> keeps R (f b x)) \<Longrightarrow> keeps R (sfold f b xs)"
  by (induction xs arbitrary: b) (auto intro: keeps_sreturn keeps_sbind)

lemmas keeps_base = keeps_sreturn keeps_slift keeps_sgets keeps_sbind keeps_if keeps_let keeps_prod
  keeps_sforeach keeps_sfold

end

section \<open>Relations the effects keep\<close>

text \<open>The record \<open>r\<close> may overwrite the component of the object \<open>i\<close>.\<close>

definition overwrites :: "game_world \<Rightarrow> object_id \<Rightarrow> domain_record \<Rightarrow> bool" where
  "overwrites w i r \<longleftrightarrow> (\<exists>e. bt_get i (gw_objects w) = Some e \<and> record_object_id r = Some i
     \<and> record_kind r = Some (ent_kind e))"

definition stored_state :: "object_id \<Rightarrow> domain_record \<Rightarrow> exec \<Rightarrow> exec" where
  "stored_state i r s = s\<lparr>ex_world := put_component i r (ex_world s), ex_upserts := ex_upserts s @ [r]\<rparr>"

lemma store_and_emit_Inr_iff [res_inv]:
  "store_and_emit i r s = Inr (u, s') \<longleftrightarrow> s' = stored_state i r s"
  by (auto simp: store_and_emit_def store_component_def emit_upsert_def stored_state_def
      sbind_Inr_iff modify_world_Inr_iff smodify_Inr_iff)

lemma spawn_and_emit_Inr_iff [res_inv]:
  "spawn_and_emit r s = Inr (u, s')
    \<longleftrightarrow> (\<exists>w. spawn_record (ex_world s) r = Inr w
         \<and> s' = s\<lparr>ex_world := w, ex_upserts := ex_upserts s @ [r]\<rparr>)"
  by (auto simp: spawn_and_emit_def emit_upsert_def sbind_Inr_iff update_world_Inr_iff
      smodify_Inr_iff)

text \<open>An event of the transaction \<open>t\<close> carries its action and its revision.\<close>

definition stamped :: "tx \<Rightarrow> world_event \<Rightarrow> bool" where
  "stamped t ev \<longleftrightarrow> we_action_id ev = fst t \<and> we_revision ev = snd t"

lemma emit_event_Inr:
  "emit_event E t actor kind s = Inr (u, s')
    \<Longrightarrow> \<exists>ids ev. s' = s\<lparr>ex_ids := ids, ex_events := ex_events s @ [ev]\<rparr> \<and> we_kind ev = kind
      \<and> we_actor_id ev = actor \<and> stamped t ev"
  by (clarsimp simp: emit_event_def sbind_Inr_iff event_Inr_iff generate_id_Inr_iff smodify_Inr_iff
      stamped_def) (rule exI, rule exI, rule conjI [OF refl], simp)

lemma overwritesI:
  assumes "objects_ok (gw_objects w)" and "component_at w i = Some r"
    and "record_object_id r' = record_object_id r" and "record_kind r' = record_kind r"
  shows "overwrites w i r'"
proof -
  from assms(2) obtain e where e: "bt_get i (gw_objects w) = Some e" "component e = r"
    by (auto simp: component_at_def)
  with assms(1) have "entity_ok i e"
    by (simp add: objects_ok_def)
  with e assms(3,4) show ?thesis
    by (simp add: overwrites_def entity_ok_def)
qed

lemma as_kind_Some_iff [simp]:
  "as_scene r = Some sc \<longleftrightarrow> r = SceneRec sc"
  "as_place r = Some p \<longleftrightarrow> r = PlaceRec p"
  "as_character r = Some c \<longleftrightarrow> r = CharacterRec c"
  "as_item r = Some v \<longleftrightarrow> r = ItemRec v"
  "as_condition r = Some d \<longleftrightarrow> r = ConditionRec d"
  "as_skill_grant r = Some g \<longleftrightarrow> r = SkillGrantRec g"
  "as_event_instance r = Some ei \<longleftrightarrow> r = EventInstanceRec ei"
  "as_parameter_set r = Some ps \<longleftrightarrow> r = ParameterSetRec ps"
  "as_rule_state r = Some rs \<longleftrightarrow> r = RuleStateRec rs"
  by (cases r; auto)+

lemma get_Inr_iff [res_inv]:
  "get_scene w i = Inr sc \<longleftrightarrow> component_at w i = Some (SceneRec sc)"
  "get_place w i = Inr p \<longleftrightarrow> component_at w i = Some (PlaceRec p)"
  "get_character w a = Inr c \<longleftrightarrow> component_at w (object_id_of a) = Some (CharacterRec c)"
  "get_item w i = Inr v \<longleftrightarrow> component_at w i = Some (ItemRec v)"
  by (auto simp: get_scene_def get_place_def get_character_def get_item_def character_def item_def
      ok_or_Inr_iff bind_eq_Some_conv)

lemma require_object_Inr_iff [res_inv]: "require_object w i = Inr e \<longleftrightarrow> bt_get i (gw_objects w) = Some e"
  by (simp add: require_object_def ok_or_Inr_iff)

lemma component_at_Some_iff: "component_at w i = Some r
    \<longleftrightarrow> (\<exists>e. bt_get i (gw_objects w) = Some e \<and> component e = r)"
  by (auto simp: component_at_def)

lemma select_set: "(i, x) \<in> set (select f w) \<longleftrightarrow> (\<exists>e. (i, e) \<in> set (gw_objects w) \<and> f (component e) = Some x)"
  by (force simp: select_def List.map_filter_def split: prod.splits)

lemma select_component:
  assumes "bt_ok (gw_objects w)" and "(i, x) \<in> set (select f w)"
  shows "\<exists>r. component_at w i = Some r \<and> f r = Some x"
  using assms by (auto simp: select_set component_at_def bt_ok_get_iff)

text \<open>The times of a condition that is written at the clock \<open>now\<close> over the component \<open>old\<close>.\<close>

definition condition_ticks :: "condition_definition \<Rightarrow> u64 set" where
  "condition_ticks d = (case cd_duration d of Permanent \<Rightarrow> {} | Finite n \<Rightarrow> {n})
     \<union> (case cd_periodic d of None \<Rightarrow> {} | Some p \<Rightarrow> {ped_interval_ticks p})"

definition registered_condition :: "env \<Rightarrow> condition_definition \<Rightarrow> bool" where
  "registered_condition E d \<longleftrightarrow> (\<exists>i entry. registry_get (env_registry E) i = Some entry
     \<and> reg_definition entry = ConditionDef d)"

definition rescheduled :: "env \<Rightarrow> world_time \<Rightarrow> world_time option \<Rightarrow> world_time option \<Rightarrow> bool" where
  "rescheduled E now old new \<longleftrightarrow> new = old \<or> new = None
     \<or> (\<exists>d n x. registered_condition E d \<and> n \<in> condition_ticks d \<and> world_time_add now n = Inr x
          \<and> new = Some x)"

definition scheduled :: "env \<Rightarrow> world_time \<Rightarrow> domain_record option \<Rightarrow> domain_record \<Rightarrow> bool" where
  "scheduled E now old r \<longleftrightarrow> (\<forall>c. r = ConditionRec c \<longrightarrow>
     rescheduled E now (Option.bind (Option.bind old as_condition) cond_next_periodic_at)
       (cond_next_periodic_at c)
     \<and> rescheduled E now (Option.bind (Option.bind old as_condition) cond_expires_at)
       (cond_expires_at c))"

abbreviation clock_of :: "game_world \<Rightarrow> world_time" where
  "clock_of w \<equiv> ws_clock (gw_state w)"

lemma scheduled_other [simp]:
  "scheduled E now old (CharacterRec c)" "scheduled E now old (ItemRec v)"
  "scheduled E now old (SkillGrantRec g)" "scheduled E now old (ParameterSetRec p)"
  "scheduled E now old (RuleStateRec rs)"
  by (simp_all add: scheduled_def)

lemma rescheduled_expiry:
  assumes "condition_expiry (cd_duration d) now = Inr x" and "registered_condition E d"
  shows "rescheduled E now old x"
  using assms
  by (cases "cd_duration d")
    (auto simp: rescheduled_def condition_ticks_def res_inv intro!: exI [of _ d])

lemma rescheduled_periodic:
  assumes "condition_periodic d now = Inr x" and "registered_condition E d"
  shows "rescheduled E now old x"
  using assms
  by (cases "cd_periodic d")
    (auto simp: condition_periodic_def rescheduled_def condition_ticks_def res_inv intro!: exI [of _ d])

locale effect_relation = step_relation R for R :: "exec \<Rightarrow> exec \<Rightarrow> bool" +
  fixes E :: env and t :: tx
  assumes keeps_charge_predicate: "keeps R (charge charge_predicate)"
    and keeps_charge_effect: "keeps R (charge charge_effect)"
    and keeps_ids: "R s (s\<lparr>ex_ids := ids\<rparr>)"
    and keeps_event: "stamped t ev \<Longrightarrow> R s (s\<lparr>ex_events := ex_events s @ [ev]\<rparr>)"
    and keeps_store:
      "(objects_ok (gw_objects (ex_world s)) \<longrightarrow> overwrites (ex_world s) i r
          \<and> scheduled E (clock_of (ex_world s)) (component_at (ex_world s) i) r)
        \<Longrightarrow> R s (stored_state i r s)"
    and keeps_spawn:
      "spawn_record (ex_world s) r = Inr w \<Longrightarrow> scheduled E (clock_of (ex_world s)) None r
        \<Longrightarrow> R s (s\<lparr>ex_world := w, ex_upserts := ex_upserts s @ [r]\<rparr>)"
    and keeps_session: "R s (s\<lparr>ex_world := (ex_world s)\<lparr>gw_session := p\<rparr>\<rparr>)"
begin

lemma keeps_generate_id: "keeps R (generate_id E)"
  by (rule keepsI) (auto simp: generate_id_Inr_iff keeps_ids)

lemma keeps_query: "keeps R (query f)"
  by (rule keepsI) (simp add: query_Inr_iff refl)

lemma keeps_emit_event: "keeps R (emit_event E t actor kind)"
proof (rule keepsI)
  fix s x s'
  assume "emit_event E t actor kind s = Inr (x, s')"
  then obtain ids ev where s': "s' = s\<lparr>ex_ids := ids, ex_events := ex_events s @ [ev]\<rparr>"
    and ev: "stamped t ev"
    by (auto dest: emit_event_Inr)
  have "R s (s\<lparr>ex_ids := ids\<rparr>)"
    by (rule keeps_ids)
  moreover have "R (s\<lparr>ex_ids := ids\<rparr>) s'"
    using keeps_event [OF ev, of "s\<lparr>ex_ids := ids\<rparr>"] by (simp add: s')
  ultimately show "R s s'"
    by (rule trans)
qed

lemma keeps_spawn_and_emit:
  "(\<And>now. scheduled E now None r) \<Longrightarrow> keeps R (spawn_and_emit r)"
  by (rule keepsI) (auto simp: spawn_and_emit_Inr_iff keeps_spawn)

lemmas keeps_prim = keeps_base keeps_query keeps_generate_id keeps_emit_event keeps_spawn_and_emit
  keeps_charge_predicate keeps_charge_effect

text \<open>A record found in the world and changed may be stored; the rest of the handler keeps \<open>R\<close>.\<close>

lemma keeps_query_store:
  assumes "\<And>w x. f w = Inr x \<Longrightarrow> objects_ok (gw_objects w)
      \<Longrightarrow> overwrites w (i x) (r x) \<and> scheduled E (clock_of w) (component_at w (i x)) (r x)"
    and "\<And>x. keeps R (g x)"
  shows "keeps R (sbind (query f) (\<lambda>x. sbind (store_and_emit (i x) (r x)) (\<lambda>_. g x)))"
proof (rule keepsI)
  fix s y s'
  assume "sbind (query f) (\<lambda>x. sbind (store_and_emit (i x) (r x)) (\<lambda>_. g x)) s = Inr (y, s')"
  then obtain x where f: "f (ex_world s) = Inr x" and g: "g x (stored_state (i x) (r x) s) = Inr (y, s')"
    by (auto simp: sbind_Inr_iff query_Inr_iff store_and_emit_Inr_iff)
  have "R s (stored_state (i x) (r x) s)"
    using assms(1) [OF f] by (intro keeps_store) blast
  then show "R s s'" by (rule trans [OF _ keepsD [OF assms(2) g]])
qed

lemma keeps_evaluate:
  "keeps R (evaluate_predicate actor p)"
  "keeps R (evaluate_predicates actor ps)"
  "keeps R (evaluate_any actor qs)"
  by (induction actor p and actor ps and actor qs rule: evaluate_predicate_evaluate_predicates_evaluate_any.induct)
    (auto intro!: keeps_prim)

lemma keeps_apply_resource_delta: "keeps R (apply_resource_delta E t actor i amount)"
  unfolding apply_resource_delta_def
proof (rule keeps_query_store)
  fix w c
  assume "changed_resource E actor i amount w = Inr c" and ok: "objects_ok (gw_objects w)"
  then obtain c0 m where "component_at w (object_id_of actor) = Some (CharacterRec c0)"
    and "c = c0\<lparr>ch_resources := m\<rparr>"
    by (auto simp: changed_resource_def res_inv split: if_splits)
  with ok show "overwrites w (object_id_of actor) (CharacterRec c)
      \<and> scheduled E (clock_of w) (component_at w (object_id_of actor)) (CharacterRec c)"
    by (auto intro: overwritesI)
qed (intro keeps_prim)

lemma keeps_new_condition:
  assumes "registered_condition E d"
  shows "keeps R (new_condition E actor i stacks intensity source d origin)"
proof (rule keepsI)
  define c where "c s expires periodic = \<lparr>cond_id = RuntimeId (shd (ex_ids s)), cond_target_id = actor,
      cond_condition_id = i, cond_source = ConditionFromSystem source, cond_stacks = stacks,
      cond_intensity = intensity, cond_applied_at = clock_of (ex_world s), cond_expires_at = expires,
      cond_next_periodic_at = periodic, cond_origin = ContentEntity origin\<rparr>"
    for s :: exec and expires periodic
  fix s x s'
  assume "new_condition E actor i stacks intensity source d origin s = Inr (x, s')"
  then obtain expires periodic w
    where times: "condition_expiry (cd_duration d) (clock_of (ex_world s)) = Inr expires"
      "condition_periodic d (clock_of (ex_world s)) = Inr periodic"
    and w: "spawn_record (ex_world s) (ConditionRec (c s expires periodic)) = Inr w"
    and s': "s' = s\<lparr>ex_ids := stl (ex_ids s), ex_world := w,
        ex_upserts := ex_upserts s @ [ConditionRec (c s expires periodic)]\<rparr>"
    by (auto simp: new_condition_def c_def res_inv)
  have "R s (s\<lparr>ex_ids := stl (ex_ids s)\<rparr>)"
    by (rule keeps_ids)
  moreover have "scheduled E (clock_of (ex_world s)) None (ConditionRec (c s expires periodic))"
    using times assms
    by (auto simp: scheduled_def c_def intro: rescheduled_expiry rescheduled_periodic)
  then have "R (s\<lparr>ex_ids := stl (ex_ids s)\<rparr>) s'"
    using w keeps_spawn [of "s\<lparr>ex_ids := stl (ex_ids s)\<rparr>"] by (simp add: s')
  ultimately show "R s s'"
    by (rule trans)
qed

lemma keeps_change_condition:
  assumes "change_condition m s = Inr (x, s')"
    and "\<And>i r. m = Inr (i, r) \<Longrightarrow> objects_ok (gw_objects (ex_world s))
      \<Longrightarrow> overwrites (ex_world s) i (ConditionRec r)
        \<and> scheduled E (clock_of (ex_world s)) (component_at (ex_world s) i) (ConditionRec r)"
  shows "R s s'"
  using assms
  by (auto simp: change_condition_def res_inv intro!: keeps_store)

end

text \<open>The instance a policy changes is one of the existing ones, with old or new times.\<close>

definition changed_from :: "env \<Rightarrow> world_time \<Rightarrow> (object_id \<times> condition_record) list
    \<Rightarrow> object_id \<times> condition_record \<Rightarrow> bool" where
  "changed_from E now existing p \<longleftrightarrow> (\<exists>r0. (fst p, r0) \<in> set existing \<and> cond_id (snd p) = cond_id r0
     \<and> scheduled E now (Some (ConditionRec r0)) (ConditionRec (snd p)))"

lemma refreshed_condition_Inr:
  assumes "refreshed_condition d now intensity existing = Inr p" and "registered_condition E d"
  shows "changed_from E now existing p"
  using assms
  by (auto simp: refreshed_condition_def refresh_condition_timing_def res_inv changed_from_def
      scheduled_def intro: rescheduled_expiry rescheduled_periodic split: list.splits prod.splits)

lemma stacked_condition_Inr:
  assumes "stacked_condition d now maximum refresh_duration stacks intensity existing = Inr p"
    and "registered_condition E d"
  shows "changed_from E now existing p"
  using assms
  by (auto simp: stacked_condition_def refresh_condition_timing_def res_inv Let_def changed_from_def
      scheduled_def intro: rescheduled_expiry rescheduled_periodic
      split: list.splits prod.splits if_splits) (simp_all add: rescheduled_def)

lemma existing_overwrites:
  assumes "objects_ok (gw_objects w)" and "changed_from E now (existing_conditions actor k w) (i, r)"
  shows "overwrites w i (ConditionRec r) \<and> scheduled E now (component_at w i) (ConditionRec r)"
proof -
  from assms(2) obtain r0 where "(i, r0) \<in> set (existing_conditions actor k w)"
    and r: "cond_id r = cond_id r0" "scheduled E now (Some (ConditionRec r0)) (ConditionRec r)"
    by (auto simp: changed_from_def)
  with assms(1) have "component_at w i = Some (ConditionRec r0)"
    by (auto simp: existing_conditions_def objects_ok_def dest!: select_component)
  with assms(1) r show ?thesis
    by (auto intro: overwritesI)
qed

context effect_relation begin

lemma keeps_change_existing:
  assumes "change_condition m s = Inr (x, s')"
    and "\<And>p. m = Inr p
      \<Longrightarrow> changed_from E (clock_of (ex_world s)) (existing_conditions actor k (ex_world s)) p"
  shows "R s s'"
proof (rule keeps_change_condition [OF assms(1)])
  fix i r
  assume "m = Inr (i, r)" and ok: "objects_ok (gw_objects (ex_world s))"
  from existing_overwrites [OF ok assms(2) [OF this(1)]]
  show "overwrites (ex_world s) i (ConditionRec r)
      \<and> scheduled E (clock_of (ex_world s)) (component_at (ex_world s) i) (ConditionRec r)" .
qed

lemma keeps_condition_instance:
  assumes d: "registered_condition E d"
  shows "keeps R (condition_instance E actor i stacks intensity source d origin)"
proof (rule keepsI)
  fix s x s'
  assume run: "condition_instance E actor i stacks intensity source d origin s = Inr (x, s')"
  have new: "R s s'" if "new_condition E actor i stacks intensity source d origin s = Inr (x, s')"
    using keeps_new_condition [OF d] that by (rule keepsD)
  show "R s s'"
  proof (cases "cd_stack_policy d")
    case RefreshDuration
    with run new show ?thesis
      by (auto simp: condition_instance_def res_inv split: if_splits
          elim!: keeps_change_existing dest: refreshed_condition_Inr [OF _ d])
  next
    case (IncreaseStacks maximum refresh_duration)
    with run new show ?thesis
      by (auto simp: condition_instance_def res_inv split: if_splits
          elim!: keeps_change_existing dest: stacked_condition_Inr [OF _ d])
  qed (use run new in \<open>auto simp: condition_instance_def res_inv split: if_splits\<close>)
qed

lemma keeps_apply_condition_effect:
  "keeps R (apply_condition_effect E t actor i stacks intensity source)"
proof (rule keepsI)
  fix s x s'
  assume run: "apply_condition_effect E t actor i stacks intensity source s = Inr (x, s')"
  then obtain entry where entry: "registry_get (env_registry E) i = Some entry"
    by (auto simp: apply_condition_effect_def require_entry_def res_inv)
  then obtain d j s1 where d: "reg_definition entry = ConditionDef d"
    and run: "condition_instance E actor i stacks intensity source d (reg_origin entry) s = Inr (j, s1)"
      "emit_event E t actor (ConditionApplied actor i j) s1 = Inr (x, s')"
    using run
    by (cases "reg_definition entry") (auto simp: apply_condition_effect_def require_entry_def res_inv)
  have "registered_condition E d"
    using entry d by (auto simp: registered_condition_def)
  from keepsD [OF keeps_condition_instance [OF this] run(1)] keepsD [OF keeps_emit_event run(2)]
  show "R s s'" by (rule trans)
qed

lemma keeps_apply_grant_item: "keeps R (apply_grant_item E t actor i quantity)"
  unfolding apply_grant_item_def
  by (intro keeps_sbind keeps_slift) (auto intro!: keeps_prim split: content_definition.split)

lemma keeps_apply_grant_skill: "keeps R (apply_grant_skill E t actor i rank source)"
  unfolding apply_grant_skill_def
  by (intro keeps_sbind keeps_slift) (auto intro!: keeps_prim split: content_definition.split)

lemma keeps_set_session: "keeps R (modify_world (\<lambda>w. w\<lparr>gw_session := f w\<rparr>))"
  by (rule keepsI) (simp add: modify_world_Inr_iff keeps_session)

lemma keeps_set_saved:
  "keeps R (sbind (query (matching_parameter_set pack)) (\<lambda>(i, p).
     store_and_emit i (ParameterSetRec (p\<lparr>ps_values := f p\<rparr>))))"
proof (rule keepsI)
  fix s x s'
  assume "sbind (query (matching_parameter_set pack)) (\<lambda>(i, p).
     store_and_emit i (ParameterSetRec (p\<lparr>ps_values := f p\<rparr>))) s = Inr (x, s')"
  then obtain i p where m: "matching_parameter_set pack (ex_world s) = Inr (i, p)"
    and s': "s' = stored_state i (ParameterSetRec (p\<lparr>ps_values := f p\<rparr>)) s"
    by (auto simp: res_inv)
  from m have "filter (\<lambda>(_, p). ps_schema_id p = pack) (select as_parameter_set (ex_world s)) = [(i, p)]"
    by (auto simp: matching_parameter_set_def split: list.splits)
  then have "(i, p) \<in> set (filter (\<lambda>(_, p). ps_schema_id p = pack) (select as_parameter_set (ex_world s)))"
    by (simp only: list.set_intros)
  then have "component_at (ex_world s) i = Some (ParameterSetRec p)"
    if "objects_ok (gw_objects (ex_world s))"
    using that by (auto simp: objects_ok_def dest!: select_component)
  then show "R s s'"
    by (auto simp: s' intro!: keeps_store intro: overwritesI)
qed

lemma keeps_apply_set_parameter: "keeps R (apply_set_parameter E t actor i v)"
  unfolding apply_set_parameter_def
  by (intro keeps_sbind keeps_slift)
    (auto intro!: keeps_sbind keeps_query keeps_slift keeps_emit_event keeps_set_session keeps_set_saved
      split: content_definition.split parameter_persistence.split)

lemma keeps_apply_effect: "keeps R (apply_effect E t actor source e)"
  by (cases e) (simp_all add: keeps_apply_resource_delta keeps_apply_condition_effect
      keeps_apply_grant_item keeps_apply_grant_skill keeps_apply_set_parameter keeps_emit_event)

lemma keeps_apply_effects: "keeps R (apply_effects E t actor source effects)"
  unfolding apply_effects_def
  by (intro keeps_sforeach keeps_sbind keeps_charge_effect keeps_apply_effect)

end

end
