(* ===== verification/World_Views.thy ===== *)
theory World_Views
  imports Effect_Relations
begin

text \<open>
  A world as a set of records: the well-formedness of a world, its records, and its view by record
  key, which is what the record log stores.

  \<open>tracked\<close> relates a running command to the world it started from: whatever was changed was
  reported, so the view of the world is the old one with the deletions and then the upserts done.
  It is an instance of \<open>effect_relation\<close>, so every list of effects keeps it.
\<close>

section \<open>Well-formed worlds and their records\<close>

definition world_ok :: "game_world \<Rightarrow> bool" where
  "world_ok w \<longleftrightarrow> objects_ok (gw_objects w) \<and> transcripts_ok (gw_transcripts w)"

definition builder_of :: "game_world \<Rightarrow> world_builder" where
  "builder_of w = \<lparr>wb_state = Some (gw_state w), wb_objects = gw_objects w,
     wb_transcripts = gw_transcripts w\<rparr>"

definition world_at :: "game_world \<Rightarrow> slot \<Rightarrow> domain_record option" where
  "world_at w = slot_get (builder_of w)"

definition world_records :: "game_world \<Rightarrow> domain_record list" where
  "world_records w = WorldStateRec (gw_state w) # map component (bt_values (gw_objects w))
     @ map TranscriptItemRec (bt_values (gw_transcripts w))"

lemma world_at_simps [simp]:
  "world_at w StateSlot = Some (WorldStateRec (gw_state w))"
  "world_at w (TranscriptSlot i) = map_option TranscriptItemRec (bt_get i (gw_transcripts w))"
  "world_at w (ObjectSlot j) = component_at w j"
  by (simp_all add: world_at_def builder_of_def component_at_def)

lemma entity_at:
  assumes "world_ok w" and "component_at w i = Some r"
  shows "\<exists>e k. bt_get i (gw_objects w) = Some e \<and> component e = r \<and> record_object_id r = Some i
    \<and> record_kind r = Some k \<and> ent_kind e = k \<and> persistent_id e = i"
  using assms by (auto simp: world_ok_def objects_ok_def entity_ok_def component_at_Some_iff)

lemma slot_of_object: "record_object_id r = Some i \<Longrightarrow> slot_of r = ObjectSlot i"
  by (cases r) simp_all

lemma slot_of_None:
  "record_object_id r = None \<longleftrightarrow> (\<exists>v. r = WorldStateRec v) \<or> (\<exists>v. r = TranscriptItemRec v)"
  by (cases r) simp_all

lemma project_entities:
  assumes "objects_ok objs"
  shows "rmapM project_entity (bt_values objs) = Inr (map component (bt_values objs))"
proof -
  have "project_entity e = Inr (component e)" if "e \<in> set (bt_values objs)" for e
  proof -
    from that obtain i where "(i, e) \<in> set objs"
      by (auto simp: bt_values_def)
    with assms have "entity_ok i e"
      by (auto simp: objects_ok_def bt_ok_get_iff)
    then show ?thesis
      by (simp add: project_entity_def entity_ok_def)
  qed
  then have "list_all2 (\<lambda>e r. project_entity e = Inr r) (bt_values objs) (map component (bt_values objs))"
    by (simp add: list_all2_map2 list.rel_refl_strong)
  then show ?thesis
    by (simp add: rmapM_Inr_iff)
qed

lemma project_records_eq:
  "world_ok w \<Longrightarrow>
    project_records E w = Inr (sort_key (domain_sort_key (env_uuid E)) (world_records w))"
  by (simp add: project_records_def project_entities world_ok_def world_records_def)

lemma world_records_slots:
  assumes "world_ok w"
  shows "map slot_of (world_records w) = StateSlot # map ObjectSlot (bt_keys (gw_objects w))
    @ map TranscriptSlot (bt_keys (gw_transcripts w))"
proof -
  have "slot_of (component e) = ObjectSlot i" if "(i, e) \<in> set (gw_objects w)" for i e
  proof -
    have "bt_get i (gw_objects w) = Some e"
      using assms that by (simp add: world_ok_def objects_ok_def bt_ok_get_iff)
    with assms have "record_object_id (component e) = Some i"
      by (simp add: world_ok_def objects_ok_def entity_ok_def)
    then show ?thesis by (rule slot_of_object)
  qed
  then have "map (slot_of \<circ> component \<circ> snd) (gw_objects w) = map (ObjectSlot \<circ> fst) (gw_objects w)"
    by auto
  moreover have "tr_id v = i" if "(i, v) \<in> set (gw_transcripts w)" for i v
    using assms that by (auto simp: world_ok_def transcripts_ok_def bt_ok_get_iff)
  then have "map (slot_of \<circ> TranscriptItemRec \<circ> snd) (gw_transcripts w)
      = map (TranscriptSlot \<circ> fst) (gw_transcripts w)"
    by auto
  ultimately show ?thesis
    by (simp add: world_records_def bt_values_def bt_keys_def comp_assoc)
qed

lemma world_records_distinct: "world_ok w \<Longrightarrow> distinct (map slot_of (world_records w))"
proof -
  assume ok: "world_ok w"
  then have "distinct (bt_keys (gw_objects w))" "distinct (bt_keys (gw_transcripts w))"
    by (simp_all add: world_ok_def objects_ok_def transcripts_ok_def bt_keys_def bt_ok_distinct)
  with world_records_slots [OF ok] show ?thesis
    by (auto simp: distinct_map inj_on_def)
qed

lemma world_records_set:
  assumes "world_ok w"
  shows "r \<in> set (world_records w) \<longleftrightarrow> world_at w (slot_of r) = Some r"
proof (cases "record_object_id r")
  case (Some i)
  have "r \<noteq> WorldStateRec v" "r \<noteq> TranscriptItemRec u" for v u
    using Some by auto
  moreover have "r \<in> component ` snd ` set (gw_objects w) \<longleftrightarrow> component_at w i = Some r"
  proof
    assume "r \<in> component ` snd ` set (gw_objects w)"
    then obtain j e where e: "(j, e) \<in> set (gw_objects w)" "r = component e"
      by auto
    with assms have "component_at w j = Some r"
      by (simp add: component_at_def world_ok_def objects_ok_def bt_ok_get_iff [symmetric])
    with entity_at [OF assms this] Some show "component_at w i = Some r"
      by auto
  next
    assume "component_at w i = Some r"
    then show "r \<in> component ` snd ` set (gw_objects w)"
      by (force simp: component_at_def dest: bt_get_in_set)
  qed
  ultimately show ?thesis
    using slot_of_object [OF Some] by (auto simp: world_records_def bt_values_def)
next
  case None
  have c: "r \<noteq> component (snd p)" if "p \<in> set (gw_objects w)" for p
  proof -
    have "bt_get (fst p) (gw_objects w) = Some (snd p)"
      using assms that by (simp add: world_ok_def objects_ok_def bt_ok_get_iff)
    then have "component_at w (fst p) = Some (component (snd p))"
      by (simp add: component_at_def)
    from entity_at [OF assms this] None show ?thesis by auto
  qed
  from None consider (state) v where "r = WorldStateRec v" | (transcript) v where "r = TranscriptItemRec v"
    by (auto simp: slot_of_None)
  then show ?thesis
  proof cases
    case state
    then have "r \<notin> component ` snd ` set (gw_objects w)"
      using c by blast
    with state show ?thesis by (auto simp: world_records_def bt_values_def)
  next
    case transcript
    have "v \<in> snd ` set (gw_transcripts w) \<longleftrightarrow> bt_get (tr_id v) (gw_transcripts w) = Some v"
      using assms by (force simp: world_ok_def transcripts_ok_def bt_ok_get_iff)
    moreover have "r \<notin> component ` snd ` set (gw_objects w)"
      using c by blast
    ultimately show ?thesis
      using transcript by (auto simp: world_records_def bt_values_def)
  qed
qed

section \<open>The view by record key\<close>

definition rkey :: "uuid_lib \<Rightarrow> domain_record \<Rightarrow> record_key" where
  "rkey L r = RecordKey (RecordType (record_type_name r)) (RecordId (record_id_text L r))"

definition world_view :: "uuid_lib \<Rightarrow> game_world \<Rightarrow> record_key \<Rightarrow> domain_record option" where
  "world_view L w = map_of (map (\<lambda>r. (rkey L r, r)) (world_records w))"

lemma key_rkey: "key L r = Inr k \<Longrightarrow> k = rkey L r"
  by (simp add: key_Inr_iff rkey_def)

lemma id_text_inject:
  "uuid_lib_ok L \<Longrightarrow> runtime_id_to_string L p i = runtime_id_to_string L p j \<Longrightarrow> i = j"
  by (metis append_same_eq option.inject runtime_id.expand runtime_id_to_string_def same_append_eq
      uuid_lib_ok_def)

lemma type_name_kind: "record_type_name r = record_type_name r' \<Longrightarrow> record_kind r = record_kind r'"
  by (cases r) (cases r'; simp)+

lemma rkey_slot:
  assumes "uuid_lib_ok L" and "rkey L r = rkey L r'"
  shows "slot_of r = slot_of r'"
proof -
  have t: "record_type_name r = record_type_name r'" and i: "record_id_text L r = record_id_text L r'"
    using assms(2) by (simp_all add: rkey_def)
  have "record_kind r = record_kind r'"
    using t by (rule type_name_kind)
  with t i show ?thesis
    by (cases r; cases r') (auto dest: id_text_inject [OF assms(1)])
qed

lemma kind_rkey:
  assumes "record_object_id r = Some i" and "record_object_id r' = Some i"
    and "record_kind r = record_kind r'"
  shows "rkey L r = rkey L r'"
  using assms by (cases r; cases r') (simp_all add: rkey_def)

lemma world_view_Some_iff:
  assumes "uuid_lib_ok L" and "world_ok w"
  shows "world_view L w k = Some r \<longleftrightarrow> world_at w (slot_of r) = Some r \<and> rkey L r = k"
proof -
  have "inj_on (rkey L) (set (world_records w))"
  proof (rule inj_onI)
    fix r r'
    assume "r \<in> set (world_records w)" "r' \<in> set (world_records w)" and "rkey L r = rkey L r'"
    with rkey_slot [OF assms(1) this(3)] assms(2) show "r = r'"
      by (simp add: world_records_set)
  qed
  moreover have "distinct (world_records w)"
    using world_records_distinct [OF assms(2)] by (rule distinct_map [THEN iffD1, THEN conjunct1])
  ultimately have "distinct (map fst (map (\<lambda>r. (rkey L r, r)) (world_records w)))"
    by (simp add: distinct_map comp_def)
  then show ?thesis
    using assms(2) by (auto simp: world_view_def map_of_eq_Some_iff world_records_set)
qed

lemma option_ext: "(\<And>x. a = Some x \<longleftrightarrow> b = Some x) \<Longrightarrow> a = b"
  by (cases a; cases b) auto

lemma world_view_update:
  assumes L: "uuid_lib_ok L" and w: "world_ok w" and w': "world_ok w'"
    and at: "world_at w' = (world_at w)(slot_of r \<mapsto> r)"
    and same: "\<And>r0. world_at w (slot_of r) = Some r0 \<Longrightarrow> rkey L r0 = rkey L r"
  shows "world_view L w' = (world_view L w)(rkey L r \<mapsto> r)"
proof
  fix k
  have "world_view L w' k = Some x \<longleftrightarrow> ((world_view L w)(rkey L r \<mapsto> r)) k = Some x" for x
  proof (cases "slot_of x = slot_of r")
    case True
    have "world_view L w k = Some x \<Longrightarrow> k = rkey L r"
      using same [of x] True by (auto simp: world_view_Some_iff [OF L w])
    with True show ?thesis
      by (auto simp: world_view_Some_iff [OF L w'] at)
  next
    case False
    then have "rkey L x \<noteq> rkey L r"
      using rkey_slot [OF L, of x r] by auto
    with False show ?thesis
      by (auto simp: world_view_Some_iff [OF L w'] world_view_Some_iff [OF L w] at)
  qed
  then show "world_view L w' k = ((world_view L w)(rkey L r \<mapsto> r)) k"
    by (rule option_ext)
qed

lemma world_view_remove:
  assumes L: "uuid_lib_ok L" and w: "world_ok w" and w': "world_ok w'"
    and r: "world_at w (slot_of r) = Some r" and at: "world_at w' = (world_at w)(slot_of r := None)"
  shows "world_view L w' = (world_view L w)(rkey L r := None)"
proof
  fix k
  have "world_view L w' k = Some x \<longleftrightarrow> ((world_view L w)(rkey L r := None)) k = Some x" for x
  proof (cases "slot_of x = slot_of r")
    case True
    with r show ?thesis
      by (auto simp: world_view_Some_iff [OF L w'] world_view_Some_iff [OF L w] at)
  next
    case False
    then have "rkey L x \<noteq> rkey L r"
      using rkey_slot [OF L, of x r] by auto
    with False show ?thesis
      by (auto simp: world_view_Some_iff [OF L w'] world_view_Some_iff [OF L w] at)
  qed
  then show "world_view L w' k = ((world_view L w)(rkey L r := None)) k"
    by (rule option_ext)
qed

section \<open>The view after a write\<close>

lemma world_ok_put: "world_ok w \<Longrightarrow> overwrites w i r \<Longrightarrow> world_ok (put_component i r w)"
  by (auto simp: world_ok_def overwrites_def put_component_def objects_ok_def entity_ok_def
      bt_ok_insert split: if_splits)

lemma put_component_at:
  "overwrites w i r \<Longrightarrow> component_at (put_component i r w) j = (if j = i then Some r else component_at w j)"
  by (auto simp: overwrites_def put_component_def component_at_def)

lemma put_component_fields [simp]:
  "gw_state (put_component i r w) = gw_state w"
  "gw_transcripts (put_component i r w) = gw_transcripts w"
  "gw_session (put_component i r w) = gw_session w"
  "gw_revision (put_component i r w) = gw_revision w"
  "gw_config (put_component i r w) = gw_config w"
  by (simp_all add: put_component_def split: option.splits)

lemma world_at_put:
  assumes "overwrites w i r"
  shows "world_at (put_component i r w) = (world_at w)(slot_of r \<mapsto> r)"
proof
  fix s
  have "slot_of r = ObjectSlot i"
    using assms by (auto simp: overwrites_def intro: slot_of_object)
  with assms show "world_at (put_component i r w) s = ((world_at w)(slot_of r \<mapsto> r)) s"
    by (cases s) (simp_all add: put_component_at)
qed

lemma world_view_put:
  assumes "uuid_lib_ok L" and "world_ok w" and "overwrites w i r"
  shows "world_view L (put_component i r w) = (world_view L w)(rkey L r \<mapsto> r)"
proof (rule world_view_update [OF assms(1,2) world_ok_put [OF assms(2,3)] world_at_put [OF assms(3)]])
  fix r0
  assume "world_at w (slot_of r) = Some r0"
  moreover from assms(3) obtain e where "bt_get i (gw_objects w) = Some e"
    "record_object_id r = Some i" "record_kind r = Some (ent_kind e)"
    by (auto simp: overwrites_def)
  ultimately show "rkey L r0 = rkey L r"
    using entity_at [OF assms(2), of i r0] by (auto simp: slot_of_object intro: kind_rkey)
qed

lemma spawn_record_Inr_iff [res_inv]:
  "spawn_record w r = Inr w' \<longleftrightarrow>
     (\<exists>i k. record_object_id r = Some i \<and> record_kind r = Some k \<and> bt_get i (gw_objects w) = None
        \<and> w' = w\<lparr>gw_objects := bt_insert i \<lparr>persistent_id = i, ent_kind = k, component = r\<rparr>
                   (gw_objects w)\<rparr>)"
  by (auto simp: spawn_record_def rbind_Inr_iff spawn_into_Inr_iff)

lemma world_ok_spawn: "world_ok w \<Longrightarrow> spawn_record w r = Inr w' \<Longrightarrow> world_ok w'"
  by (auto simp: spawn_record_Inr_iff world_ok_def intro: objects_ok_insert)

lemma world_at_spawn:
  assumes "spawn_record w r = Inr w'"
  shows "world_at w' = (world_at w)(slot_of r \<mapsto> r)" and "world_at w (slot_of r) = None"
proof -
  from assms obtain i k where i: "record_object_id r = Some i" "bt_get i (gw_objects w) = None"
    and w': "w' = w\<lparr>gw_objects := bt_insert i \<lparr>persistent_id = i, ent_kind = k, component = r\<rparr>
      (gw_objects w)\<rparr>"
    by (auto simp: spawn_record_Inr_iff)
  note slot = slot_of_object [OF i(1)]
  show "world_at w' = (world_at w)(slot_of r \<mapsto> r)"
  proof
    fix s
    show "world_at w' s = ((world_at w)(slot_of r \<mapsto> r)) s"
      by (cases s) (simp_all add: w' slot component_at_def)
  qed
  show "world_at w (slot_of r) = None"
    by (simp add: slot component_at_def i(2))
qed

lemma world_view_spawn:
  assumes "uuid_lib_ok L" and "world_ok w" and "spawn_record w r = Inr w'"
  shows "world_view L w' = (world_view L w)(rkey L r \<mapsto> r)"
  using world_at_spawn [OF assms(3)]
  by (intro world_view_update [OF assms(1,2) world_ok_spawn [OF assms(2,3)]]) simp_all

text \<open>Fields that hold no record.\<close>

lemma world_view_cong:
  "gw_state w' = gw_state w \<Longrightarrow> gw_objects w' = gw_objects w \<Longrightarrow> gw_transcripts w' = gw_transcripts w
    \<Longrightarrow> world_view L w' = world_view L w"
  by (simp add: world_view_def world_records_def)

lemma world_ok_cong:
  "gw_objects w' = gw_objects w \<Longrightarrow> gw_transcripts w' = gw_transcripts w \<Longrightarrow> world_ok w' = world_ok w"
  by (simp add: world_ok_def)

section \<open>Tracking what was changed\<close>

definition upserted :: "uuid_lib \<Rightarrow> domain_record list \<Rightarrow> (record_key \<Rightarrow> domain_record option)
    \<Rightarrow> record_key \<Rightarrow> domain_record option" where
  "upserted L us m = fold (\<lambda>r m. m(rkey L r \<mapsto> r)) us m"

definition deleted :: "record_key list \<Rightarrow> (record_key \<Rightarrow> domain_record option)
    \<Rightarrow> record_key \<Rightarrow> domain_record option" where
  "deleted ds m = (\<lambda>k. if k \<in> set ds then None else m k)"

lemma upserted_snoc: "upserted L (us @ [r]) m = (upserted L us m)(rkey L r \<mapsto> r)"
  by (simp add: upserted_def)

text \<open>What no handler breaks: the configuration, the revision, and the validity of transcripts.\<close>

definition transcripts_valid :: "game_world \<Rightarrow> bool" where
  "transcripts_valid w \<longleftrightarrow>
     list_all (\<lambda>v. domain_validate (TranscriptItemRec v) = Inr ()) (bt_values (gw_transcripts w))"

definition same_frame :: "game_world \<Rightarrow> game_world \<Rightarrow> bool" where
  "same_frame w w' \<longleftrightarrow> gw_config w' = gw_config w \<and> gw_revision w' = gw_revision w
     \<and> (transcripts_valid w \<longrightarrow> transcripts_valid w')"

definition tracked :: "uuid_lib \<Rightarrow> game_world \<Rightarrow> record_key set \<Rightarrow> record_key list \<Rightarrow> domain_record list
    \<Rightarrow> game_world \<Rightarrow> bool" where
  "tracked L w0 X ds us w \<longleftrightarrow> uuid_lib_ok L \<and> world_ok w \<and> same_frame w0 w
     \<and> (\<forall>r\<in>set us. \<forall>i. record_object_id r = Some i \<longrightarrow>
          (\<exists>e. bt_get i (gw_objects w) = Some e \<and> record_kind r = Some (ent_kind e)))
     \<and> (\<forall>k. k \<notin> X \<longrightarrow> world_view L w k = upserted L us (deleted ds (world_view L w0)) k)"

lemma tracked_start: "uuid_lib_ok L \<Longrightarrow> world_ok w \<Longrightarrow> tracked L w X [] [] w"
  by (simp add: tracked_def upserted_def deleted_def same_frame_def)

lemma same_frame_cong:
  assumes "same_frame w0 w" and "gw_config w' = gw_config w" and "gw_revision w' = gw_revision w"
    and "gw_transcripts w' = gw_transcripts w"
  shows "same_frame w0 w'"
  using assms by (simp add: same_frame_def transcripts_valid_def)

lemma tracked_frame: "tracked L w0 X ds us w \<Longrightarrow> same_frame w0 w"
  unfolding tracked_def by blast

lemma tracked_put:
  assumes "tracked L w0 X ds us w" and "overwrites w i r"
  shows "tracked L w0 X ds (us @ [r]) (put_component i r w)"
proof -
  have L: "uuid_lib_ok L" and w: "world_ok w"
    using assms(1) by (simp_all add: tracked_def)
  from assms(2) obtain e where e: "bt_get i (gw_objects w) = Some e"
    "record_object_id r = Some i" "record_kind r = Some (ent_kind e)"
    by (auto simp: overwrites_def)
  have "world_view L (put_component i r w) k
      = upserted L (us @ [r]) (deleted ds (world_view L w0)) k" if "k \<notin> X" for k
    using assms(1) that
    by (simp add: world_view_put [OF L w assms(2)] upserted_snoc tracked_def)
  moreover have "\<exists>e'. bt_get j (gw_objects (put_component i r w)) = Some e'
      \<and> record_kind r' = Some (ent_kind e')"
    if "r' \<in> insert r (set us)" "record_object_id r' = Some j" for r' j
    using assms(1) that e by (auto simp: tracked_def put_component_def)
  moreover have "same_frame w0 (put_component i r w)"
    by (rule same_frame_cong [OF tracked_frame [OF assms(1)]]) simp_all
  ultimately show ?thesis
    using L world_ok_put [OF w assms(2)] by (simp add: tracked_def)
qed

lemma tracked_spawn:
  assumes "tracked L w0 X ds us w" and "spawn_record w r = Inr w'"
  shows "tracked L w0 X ds (us @ [r]) w'"
proof -
  have L: "uuid_lib_ok L" and ok: "world_ok w"
    using assms(1) by (simp_all add: tracked_def)
  from assms(2) obtain i k where i: "record_object_id r = Some i" "record_kind r = Some k"
    "bt_get i (gw_objects w) = None"
    "w' = w\<lparr>gw_objects := bt_insert i \<lparr>persistent_id = i, ent_kind = k, component = r\<rparr>
       (gw_objects w)\<rparr>"
    by (auto simp: spawn_record_Inr_iff)
  have "\<exists>e'. bt_get j (gw_objects w') = Some e' \<and> record_kind r' = Some (ent_kind e')"
    if "r' \<in> insert r (set us)" "record_object_id r' = Some j" for r' j
    using assms(1) that i by (fastforce simp: tracked_def)
  moreover have "world_view L w' k = upserted L (us @ [r]) (deleted ds (world_view L w0)) k"
    if "k \<notin> X" for k
    using assms(1) that
    by (simp add: world_view_spawn [OF L ok assms(2)] upserted_snoc tracked_def)
  moreover have "same_frame w0 w'"
    by (rule same_frame_cong [OF tracked_frame [OF assms(1)]]) (simp_all add: i(4))
  ultimately show ?thesis
    using L world_ok_spawn [OF ok assms(2)] by (simp add: tracked_def)
qed

lemma tracked_cong:
  assumes "tracked L w0 X ds us w" and "gw_state w' = gw_state w"
    and "gw_objects w' = gw_objects w" and "gw_transcripts w' = gw_transcripts w"
    and "gw_config w' = gw_config w" and "gw_revision w' = gw_revision w"
  shows "tracked L w0 X ds us w'"
proof -
  have "world_ok w'"
    using assms(1) world_ok_cong [OF assms(3,4)] by (simp add: tracked_def)
  moreover have "same_frame w0 w'"
    using assms(5,6,4) by (rule same_frame_cong [OF tracked_frame [OF assms(1)]])
  moreover have "world_view L w' = world_view L w"
    using assms(2-4) by (rule world_view_cong)
  ultimately show ?thesis
    using assms(1) by (simp add: tracked_def assms(3))
qed

text \<open>The world state and a transcript item have keys of their own.\<close>

lemma tracked_state:
  assumes "tracked L w0 X ds us w" and "ws_id st = ws_id (gw_state w)"
  shows "tracked L w0 X ds (us @ [WorldStateRec st]) (w\<lparr>gw_state := st\<rparr>)"
proof -
  let ?w = "w\<lparr>gw_state := st\<rparr>"
  have L: "uuid_lib_ok L" and ok: "world_ok w"
    using assms(1) by (simp_all add: tracked_def)
  have ok': "world_ok ?w"
    using ok by (simp add: world_ok_def)
  have at: "world_at ?w = (world_at w)(slot_of (WorldStateRec st) \<mapsto> WorldStateRec st)"
  proof
    fix s show "world_at ?w s = ((world_at w)(slot_of (WorldStateRec st) \<mapsto> WorldStateRec st)) s"
      by (cases s) (simp_all add: component_at_def)
  qed
  have view: "world_view L ?w = (world_view L w)(rkey L (WorldStateRec st) \<mapsto> WorldStateRec st)"
    by (rule world_view_update [OF L ok ok' at]) (simp add: rkey_def assms(2))
  have "same_frame w0 ?w"
    by (rule same_frame_cong [OF tracked_frame [OF assms(1)]]) simp_all
  moreover have "world_view L ?w k
      = upserted L (us @ [WorldStateRec st]) (deleted ds (world_view L w0)) k" if "k \<notin> X" for k
    using assms(1) that by (simp add: view upserted_snoc tracked_def)
  moreover have "\<exists>e. bt_get j (gw_objects ?w) = Some e \<and> record_kind r = Some (ent_kind e)"
    if "r \<in> insert (WorldStateRec st) (set us)" "record_object_id r = Some j" for r j
    using assms(1) that by (auto simp: tracked_def)
  ultimately show ?thesis
    using L ok' by (simp add: tracked_def)
qed

lemma tracked_transcript:
  assumes "tracked L w0 X ds us w" and "domain_validate (TranscriptItemRec v) = Inr ()"
  shows "tracked L w0 X ds (us @ [TranscriptItemRec v])
    (w\<lparr>gw_transcripts := bt_insert (tr_id v) v (gw_transcripts w)\<rparr>)"
proof -
  let ?w = "w\<lparr>gw_transcripts := bt_insert (tr_id v) v (gw_transcripts w)\<rparr>"
  have L: "uuid_lib_ok L" and ok: "world_ok w"
    using assms(1) by (simp_all add: tracked_def)
  have ok': "world_ok ?w"
    using ok by (simp add: world_ok_def transcripts_ok_insert)
  have at: "world_at ?w = (world_at w)(slot_of (TranscriptItemRec v) \<mapsto> TranscriptItemRec v)"
  proof
    fix s show "world_at ?w s = ((world_at w)(slot_of (TranscriptItemRec v) \<mapsto> TranscriptItemRec v)) s"
      by (cases s) (simp_all add: component_at_def)
  qed
  have view: "world_view L ?w = (world_view L w)(rkey L (TranscriptItemRec v) \<mapsto> TranscriptItemRec v)"
    using ok by (intro world_view_update [OF L ok ok' at])
      (auto simp: rkey_def world_ok_def transcripts_ok_def)
  have "set (bt_values (gw_transcripts ?w)) \<subseteq> insert v (set (bt_values (gw_transcripts w)))"
    by (auto simp: bt_values_def bt_insert_set)
  with assms have "same_frame w0 ?w"
    by (auto simp: tracked_def same_frame_def transcripts_valid_def list_all_iff simp del: bt_insert_set)
  moreover have "world_view L ?w k
      = upserted L (us @ [TranscriptItemRec v]) (deleted ds (world_view L w0)) k" if "k \<notin> X" for k
    using assms(1) that by (simp add: view upserted_snoc tracked_def)
  moreover have "\<exists>e. bt_get j (gw_objects ?w) = Some e \<and> record_kind r = Some (ent_kind e)"
    if "r \<in> insert (TranscriptItemRec v) (set us)" "record_object_id r = Some j" for r j
    using assms(1) that by (auto simp: tracked_def)
  ultimately show ?thesis
    using L ok' by (simp add: tracked_def)
qed

lemma charge_world: "charge f s = Inr (u, s') \<Longrightarrow> ex_world s' = ex_world s \<and> ex_upserts s' = ex_upserts s"
  by (auto simp: charge_def rbind_Inr_iff)

interpretation tracking: effect_relation "\<lambda>s s'. tracked L w0 X ds (ex_upserts s) (ex_world s)
    \<longrightarrow> tracked L w0 X ds (ex_upserts s') (ex_world s')" E t
proof unfold_locales
  fix s :: exec and i r
  assume "objects_ok (gw_objects (ex_world s)) \<longrightarrow> overwrites (ex_world s) i r
      \<and> scheduled E (clock_of (ex_world s)) (component_at (ex_world s) i) r"
  then show "tracked L w0 X ds (ex_upserts s) (ex_world s)
      \<longrightarrow> tracked L w0 X ds (ex_upserts (stored_state i r s)) (ex_world (stored_state i r s))"
    by (auto simp: stored_state_def intro!: tracked_put) (auto simp: tracked_def world_ok_def)
qed (auto intro!: keepsI intro: tracked_cong tracked_spawn dest!: charge_world)

text \<open>What the effects leave alone.\<close>

definition framed :: "game_world \<Rightarrow> game_world \<Rightarrow> bool" where
  "framed w w' \<longleftrightarrow> gw_revision w' = gw_revision w \<and> gw_state w' = gw_state w
     \<and> gw_transcripts w' = gw_transcripts w \<and> gw_config w' = gw_config w"

interpretation frame: effect_relation "\<lambda>s s'. framed (ex_world s) (ex_world s')" E t
  by unfold_locales
    (auto intro!: keepsI simp: framed_def stored_state_def spawn_record_Inr_iff dest!: charge_world)

end
