(* ===== verification/World_Rules.thy ===== *)
theory World_Rules
  imports Effect_Relations
begin

text \<open>
  The rule cascade (\<open>game_world/declarative.rs\<close>: \<open>run_declarative_rules\<close> and what it calls). The
  events of a command become signals; every rule a signal triggers is run, and the events its
  effects emit become signals one level deeper.

  The loop of the source is \<open>rule_loop\<close>. It ends: a signal leaves the queue in each round, and the
  queue only grows when a rule was charged to the budget, whose counter is a 32-bit word that
  never wraps.
\<close>

section \<open>Signals\<close>

datatype rule_signal =
    WorldEventSignal short_text u32
  | GameplayActionSignal content_definition_id u32
  | WorldClockSignal u64 u64 u32
  | SceneEnteredSignal content_definition_id u32
  | SceneLeftSignal content_definition_id u32

fun signal_depth :: "rule_signal \<Rightarrow> u32" where
  "signal_depth (WorldEventSignal _ depth) = depth"
| "signal_depth (GameplayActionSignal _ depth) = depth"
| "signal_depth (WorldClockSignal _ _ depth) = depth"
| "signal_depth (SceneEnteredSignal _ depth) = depth"
| "signal_depth (SceneLeftSignal _ depth) = depth"

fun signal_text :: "rule_signal \<Rightarrow> string" where
  "signal_text (WorldEventSignal event_type _) = ''world_event:'' @ as_str event_type"
| "signal_text (GameplayActionSignal action_id _) = ''gameplay_action:'' @ content_id_str action_id"
| "signal_text (WorldClockSignal from to _) =
     ''world_clock:'' @ nat_text (unat from) @ ''-'' @ nat_text (unat to)"
| "signal_text (SceneEnteredSignal i _) = ''scene_entered:'' @ content_id_str i"
| "signal_text (SceneLeftSignal i _) = ''scene_left:'' @ content_id_str i"

definition signal_label :: "rule_signal \<Rightarrow> world_error + short_text" where
  "signal_label signal =
     map_err (\<lambda>_. Invariant ''rule_trigger_label_bound'') (bounded_text_new (signal_text signal))"

fun trigger_occurrences :: "trigger_definition \<Rightarrow> rule_signal \<Rightarrow> u64" where
  "trigger_occurrences (OnWorldEvent expected) (WorldEventSignal event_type _) =
     (if expected = event_type then 1 else 0)"
| "trigger_occurrences (OnGameplayAction expected) (GameplayActionSignal action_id _) =
     (if expected = action_id then 1 else 0)"
| "trigger_occurrences (OnSceneEntered scene_id) (SceneEnteredSignal i _) =
     (if scene_id = i then 1 else 0)"
| "trigger_occurrences (OnSceneLeft scene_id) (SceneLeftSignal i _) =
     (if scene_id = i then 1 else 0)"
| "trigger_occurrences (OnWorldClock every_ticks) (WorldClockSignal from to _) =
     to div every_ticks - from div every_ticks"
| "trigger_occurrences _ _ = 0"

fun world_event_name :: "world_event_kind \<Rightarrow> string option" where
  "world_event_name (CharacterMoved _ _ _) = Some ''character_moved''"
| "world_event_name (ItemTransferred _ _ _) = Some ''item_transferred''"
| "world_event_name (ItemEquipped _ _ _) = Some ''item_equipped''"
| "world_event_name (StackSplit _ _ _) = Some ''stack_split''"
| "world_event_name (SkillUsed _ _ _) = Some ''skill_used''"
| "world_event_name (ClockAdvanced _ _) = Some ''clock_advanced''"
| "world_event_name (CharacterSpawned _) = Some ''character_spawned''"
| "world_event_name (CharacterPromoted _) = Some ''character_promoted''"
| "world_event_name (SceneLeft _) = Some ''scene_left''"
| "world_event_name (SceneEntered _) = Some ''scene_entered''"
| "world_event_name (SceneCreated _ _) = Some ''scene_created''"
| "world_event_name (PlaceCreated _ _ _) = Some ''place_created''"
| "world_event_name (ConditionExpired _) = Some ''condition_expired''"
| "world_event_name (ConditionTicked _ _) = Some ''condition_ticked''"
| "world_event_name (ResourceChanged _ _ _) = Some ''resource_changed''"
| "world_event_name (ConditionApplied _ _ _) = Some ''condition_applied''"
| "world_event_name (ItemGranted _ _ _ _) = Some ''item_granted''"
| "world_event_name (SkillGranted _ _ _) = Some ''skill_granted''"
| "world_event_name (ParameterChanged _) = Some ''parameter_changed''"
| "world_event_name (GameplayActionPerformed _) = Some ''gameplay_action_performed''"
| "world_event_name (EventOptionChosen _ _) = Some ''event_option_chosen''"
| "world_event_name (DeclarativeEventEmitted _ _) = None"
| "world_event_name (RuleTriggered _ _) = None"

definition world_event_type :: "world_event_kind \<Rightarrow> world_error + short_text option" where
  "world_event_type kind =
     (case kind of
        DeclarativeEventEmitted event_type _ \<Rightarrow> Inr (Some event_type)
      | RuleTriggered _ _ \<Rightarrow> Inr None
      | _ \<Rightarrow> map_err (\<lambda>_. Invariant ''world_event_type_bound'')
               (rbind (bounded_text_new (the (world_event_name kind))) (\<lambda>t. Inr (Some t))))"

definition scene_content_id :: "game_world \<Rightarrow> object_id \<Rightarrow> world_error + content_definition_id option" where
  "scene_content_id w i =
     rbind (get_scene w i) (\<lambda>scene.
       Inr (map_option co_definition_id (entity_origin_content (scene_origin scene))))"

text \<open>The signals of one event, in the order they are pushed.\<close>

definition event_signals :: "game_world \<Rightarrow> u32 \<Rightarrow> world_event \<Rightarrow> world_error + rule_signal list" where
  "event_signals w depth ev =
     rbind (world_event_type (we_kind ev)) (\<lambda>t.
       case t of
         None \<Rightarrow> Inr []
       | Some event_type \<Rightarrow>
           let first = WorldEventSignal event_type depth
           in (case we_kind ev of
                 GameplayActionPerformed i \<Rightarrow> Inr [first, GameplayActionSignal i depth]
               | ClockAdvanced from to \<Rightarrow> Inr [first, WorldClockSignal from to depth]
               | SceneLeft i \<Rightarrow>
                   rbind (scene_content_id w i) (\<lambda>d.
                     Inr (first # (case d of None \<Rightarrow> [] | Some c \<Rightarrow> [SceneLeftSignal c depth])))
               | SceneEntered i \<Rightarrow>
                   rbind (scene_content_id w i) (\<lambda>d.
                     Inr (first # (case d of None \<Rightarrow> [] | Some c \<Rightarrow> [SceneEnteredSignal c depth])))
               | _ \<Rightarrow> Inr [first]))"

definition enqueue_events :: "u32 \<Rightarrow> rule_signal list \<Rightarrow> world_event list \<Rightarrow> game_world
    \<Rightarrow> world_error + rule_signal list" where
  "enqueue_events depth signals events w =
     rfold (\<lambda>q ev. rbind (event_signals w depth ev) (\<lambda>new. Inr (q @ new))) signals events"

section \<open>Candidates\<close>

definition rule_state_for_definition :: "content_definition_id \<Rightarrow> game_world
    \<Rightarrow> world_error + rule_state_record" where
  "rule_state_for_definition i w =
     (case filter (\<lambda>s. rs_definition_id s = i) (map snd (select as_rule_state w)) of
        [s] \<Rightarrow> Inr s
      | _ \<Rightarrow> invariant ''rule_state_definition_unique'')"

type_synonym candidate = "(int \<times> content_definition_id \<times> object_id) \<times> rule_definition \<times> u64"

definition add_candidate :: "rule_signal \<Rightarrow> game_world \<Rightarrow> candidate list
    \<Rightarrow> content_definition_id \<times> registered_definition \<Rightarrow> world_error + candidate list" where
  "add_candidate signal w cs p =
     (case reg_definition (snd p) of
        RuleDef rule \<Rightarrow>
          let occurrences = trigger_occurrences (rd_trigger rule) signal
          in if occurrences = 0 then Inr cs
             else rbind (rule_state_for_definition (rd_id rule) w) (\<lambda>state.
               Inr (cs @ [((sint (rd_priority rule), rd_id rule, rs_id state), rule, occurrences)]))
      | _ \<Rightarrow> Inr cs)"

definition candidates :: "env \<Rightarrow> rule_signal \<Rightarrow> game_world \<Rightarrow> world_error + candidate list" where
  "candidates E signal w =
     rbind (rfold (add_candidate signal w) [] (dr_definitions (env_registry E))) (\<lambda>cs.
       if cs = [] then Inr []
       else if signal_depth signal > max_cascade_depth (config_rule_limits (gw_config w))
       then domain_rule ''rule_cascade_depth''
       else Inr (sort_key fst cs))"

section \<open>Running the candidates\<close>

definition triggered_state :: "object_id \<Rightarrow> game_world \<Rightarrow> world_error + rule_state_record" where
  "triggered_state state_id w =
     rbind (require_object w state_id) (\<lambda>e.
     rbind (ok_or (WrongObjectKind state_id) (as_rule_state (component e))) (\<lambda>state.
     rbind (ok_or (DomainRule ''rule_trigger_count_overflow'') (checked_add (rs_trigger_count state) 1))
       (\<lambda>n. Inr (state\<lparr>rs_trigger_count := n,
                       rs_last_triggered_at := Some (ws_clock (gw_state w))\<rparr>))))"

text \<open>One occurrence: the predicates, the charge, the effects, the state of the rule, and the signals
  of every event emitted meanwhile.\<close>

definition trigger_once :: "env \<Rightarrow> tx \<Rightarrow> actor_id \<Rightarrow> rule_signal \<Rightarrow> object_id \<Rightarrow> rule_definition
    \<Rightarrow> rule_signal list \<Rightarrow> rule_signal list cmd" where
  "trigger_once E t actor signal state_id rule signals =
     sbind (evaluate_predicates actor (rd_predicates rule)) (\<lambda>holds.
       if \<not> holds then sreturn signals
       else
         sbind (charge charge_rule) (\<lambda>_.
         sbind (sgets (\<lambda>s. length (ex_events s))) (\<lambda>event_start.
         sbind (apply_effects E t actor (rd_id rule) (rd_effects rule)) (\<lambda>_.
         sbind (query (triggered_state state_id)) (\<lambda>state.
         sbind (store_and_emit state_id (RuleStateRec state)) (\<lambda>_.
         sbind (slift (signal_label signal)) (\<lambda>label.
         sbind (emit_event E t actor (RuleTriggered (rd_id rule) label)) (\<lambda>_.
         sbind (slift (ok_or (DomainRule ''rule_cascade_depth'')
                         (checked_add (signal_depth signal) 1))) (\<lambda>depth.
         sbind (sgets (\<lambda>s. drop event_start (ex_events s))) (\<lambda>generated.
           query (enqueue_events depth signals generated)))))))))))"

fun trigger_times :: "env \<Rightarrow> tx \<Rightarrow> actor_id \<Rightarrow> rule_signal \<Rightarrow> object_id \<Rightarrow> rule_definition \<Rightarrow> nat
    \<Rightarrow> rule_signal list \<Rightarrow> rule_signal list cmd" where
  "trigger_times E t actor signal state_id rule 0 signals = sreturn signals"
| "trigger_times E t actor signal state_id rule (Suc n) signals =
     sbind (trigger_once E t actor signal state_id rule signals)
       (trigger_times E t actor signal state_id rule n)"

definition run_candidate :: "env \<Rightarrow> tx \<Rightarrow> actor_id \<Rightarrow> rule_signal \<Rightarrow> rule_signal list \<Rightarrow> candidate
    \<Rightarrow> rule_signal list cmd" where
  "run_candidate E t actor signal signals c =
     (case c of ((_, _, state_id), rule, occurrences) \<Rightarrow>
        trigger_times E t actor signal state_id rule (unat occurrences) signals)"

definition process_signal :: "env \<Rightarrow> tx \<Rightarrow> actor_id \<Rightarrow> rule_signal \<Rightarrow> rule_signal list
    \<Rightarrow> rule_signal list cmd" where
  "process_signal E t actor signal signals =
     sbind (query (candidates E signal)) (sfold (run_candidate E t actor signal) signals)"

section \<open>The loop\<close>

definition triggers :: "exec \<Rightarrow> nat" where
  "triggers s = unat (eb_triggered_rules (ex_budget s))"

lemma charge_Inr_iff [res_inv]:
  "charge f s = Inr (u, s') \<longleftrightarrow>
     (\<exists>b. f (config_rule_limits (gw_config (ex_world s))) (ex_budget s) = Inr b
        \<and> s' = s\<lparr>ex_budget := b\<rparr>)"
  by (auto simp: charge_def rbind_Inr_iff)

lemma checked_add_one: "checked_add a (1 :: 'n::len word) = Some b \<Longrightarrow> unat b = unat a + 1"
  by (auto simp: checked_add_def unat_word_ariths split: if_splits)

text \<open>Only \<open>charge_rule\<close> changes the number of triggered rules.\<close>

interpretation same_triggers: effect_relation "\<lambda>s s'. triggers s' = triggers s" E t
  by unfold_locales
    (auto intro!: keepsI simp: triggers_def stored_state_def charge_Inr_iff charge_predicate_def
      charge_effect_def res_inv split: if_splits)

lemma charge_rule_triggers: "charge charge_rule s = Inr (u, s') \<Longrightarrow> triggers s' = triggers s + 1"
  by (auto simp: charge_Inr_iff charge_rule_def triggers_def res_inv checked_add_one split: if_splits)

definition progress :: "rule_signal list \<times> exec \<Rightarrow> rule_signal list \<times> exec \<Rightarrow> bool" where
  "progress a b \<longleftrightarrow> triggers (snd a) < triggers (snd b)
     \<or> fst b = fst a \<and> triggers (snd b) = triggers (snd a)"

lemma progress_refl: "progress a a"
  by (simp add: progress_def)

lemma progress_trans: "progress a b \<Longrightarrow> progress b c \<Longrightarrow> progress a c"
  by (auto simp: progress_def)

lemma trigger_once_progress:
  assumes "trigger_once E t actor signal state_id rule q s = Inr (q', s')"
  shows "progress (q, s) (q', s')"
proof -
  from assms obtain b s1 where b: "evaluate_predicates actor (rd_predicates rule) s = Inr (b, s1)"
    and rest: "if \<not> b then q' = q \<and> s' = s1 else
      (\<exists>s2 s3 s4 x. charge charge_rule s1 = Inr ((), s2)
         \<and> apply_effects E t actor (rd_id rule) (rd_effects rule) s2 = Inr (x, s3)
         \<and> triggers s4 = triggers s3 \<and> s' = s4)"
    by (auto simp: trigger_once_def res_inv stored_state_def triggers_def dest!: emit_event_Inr
        split: if_splits)
  have same: "triggers s1 = triggers s"
    using same_triggers.keeps_evaluate(2) b by (rule keepsD)
  show ?thesis
  proof (cases b)
    case True
    with rest obtain s2 s3 x where s2: "charge charge_rule s1 = Inr ((), s2)"
      and s3: "apply_effects E t actor (rd_id rule) (rd_effects rule) s2 = Inr (x, s3)"
      and s': "triggers s' = triggers s3"
      by auto
    have "triggers s3 = triggers s2"
      using same_triggers.keeps_apply_effects s3 by (rule keepsD)
    with same s' charge_rule_triggers [OF s2] show ?thesis
      by (simp add: progress_def)
  qed (use rest same in \<open>simp add: progress_def\<close>)
qed

lemma trigger_times_progress:
  "trigger_times E t actor signal state_id rule n q s = Inr (q', s') \<Longrightarrow> progress (q, s) (q', s')"
proof (induction n arbitrary: q s)
  case (Suc n)
  then show ?case
    by (auto simp: sbind_Inr_iff intro: progress_trans trigger_once_progress)
qed (simp add: sreturn_Inr_iff progress_refl)

lemma process_signal_progress:
  assumes "process_signal E t actor signal q s = Inr (q', s')"
  shows "progress (q, s) (q', s')"
proof -
  from assms obtain cs where "sfold (run_candidate E t actor signal) q cs s = Inr (q', s')"
    by (auto simp: process_signal_def res_inv)
  then show ?thesis
  proof (rule sfold_invariant [where P = "\<lambda>q' s'. progress (q, s) (q', s')"])
    fix b c x u v
    assume "progress (q, s) (b, u)" and "run_candidate E t actor signal b x u = Inr (c, v)"
    then show "progress (q, s) (c, v)"
      by (auto simp: run_candidate_def split: prod.splits intro: progress_trans
          dest: trigger_times_progress)
  qed (rule progress_refl)
qed

function rule_loop :: "env \<Rightarrow> tx \<Rightarrow> actor_id \<Rightarrow> rule_signal list \<Rightarrow> exec
    \<Rightarrow> world_error + unit \<times> exec" where
  "rule_loop E t actor [] s = Inr ((), s)"
| "rule_loop E t actor (signal # signals) s =
     rbind (process_signal E t actor signal signals s) (\<lambda>(q, s'). rule_loop E t actor q s')"
  by pat_completeness auto
termination
proof (relation "measures [\<lambda>(E, t, actor, q, s). 2 ^ 32 - triggers s, \<lambda>(E, t, actor, q, s). length q]")
  fix E t actor signal signals s p q s'
  assume "process_signal E t actor signal signals s = Inr p" and "(q, s') = p"
  then have "progress (signals, s) (q, s')"
    by (auto dest: process_signal_progress)
  moreover have "triggers s' < 2 ^ 32"
    using unsigned_less [of "eb_triggered_rules (ex_budget s')", where 'a = nat]
    by (simp add: triggers_def)
  ultimately show "((E, t, actor, q, s'), E, t, actor, signal # signals, s)
      \<in> measures [\<lambda>(E, t, actor, q, s). 2 ^ 32 - triggers s, \<lambda>(E, t, actor, q, s). length q]"
    by (auto simp: progress_def)
qed simp

definition run_declarative_rules :: "env \<Rightarrow> tx \<Rightarrow> actor_id \<Rightarrow> unit cmd" where
  "run_declarative_rules E t actor =
     sbind (sgets ex_events) (\<lambda>events.
     sbind (query (enqueue_events 0 [] events)) (rule_loop E t actor))"

end
