(* ===== verification/World_Actions.thy ===== *)
theory World_Actions
  imports World_Rules
begin

text \<open>
  The commands that use skills, events, actions and the clock (\<open>game_world.rs\<close>: \<open>use_skill\<close>,
  \<open>advance_time\<close>; \<open>declarative.rs\<close>: \<open>choose_event_option\<close>, \<open>perform_gameplay_action\<close>). The local
  vectors of a handler are \<open>ex_upserts\<close> and \<open>ex_events\<close>, empty when it starts.
\<close>

section \<open>Skills\<close>

fun validate_skill_target :: "game_world \<Rightarrow> actor_id \<Rightarrow> skill_target_ref \<Rightarrow> skill_target
    \<Rightarrow> world_error + unit" where
  "validate_skill_target w actor SelfTarget TargetSelfOnly = Inr ()"
| "validate_skill_target w actor (TargetObject i) (CharacterTarget allow_self _) =
     rbind (get_character w (ActorId i)) (\<lambda>_.
       if \<not> allow_self \<and> ActorId i = actor then domain_rule ''skill_target_self_not_allowed''
       else Inr ())"
| "validate_skill_target w actor (TargetObject i) (ObjectTarget _ _) =
     rbind (require_object w i) (\<lambda>_. Inr ())"
| "validate_skill_target w actor (TargetPlace i) (PlaceTarget _) =
     rbind (get_place w i) (\<lambda>_. Inr ())"
| "validate_skill_target w actor _ _ = domain_rule ''skill_target_schema''"

definition skill_definition :: "env \<Rightarrow> content_definition_id \<Rightarrow> world_error + skill_definition" where
  "skill_definition E i =
     (case definition_of E i of Some (SkillDef d) \<Rightarrow> Inr d | _ \<Rightarrow> Inl (DefinitionNotFound i))"

definition pay_cost :: "character_record \<Rightarrow> resource_cost \<Rightarrow> world_error + character_record" where
  "pay_cost c cost =
     rbind (ok_or (DomainRule ''skill_resource_missing'') (bt_get (rc_resource_id cost) (ch_resources c)))
       (\<lambda>pool.
          if rp_current pool < rc_amount cost then domain_rule ''skill_resource_insufficient''
          else rbind (wfixed (fixed_sub (rp_current pool) (rc_amount cost))) (\<lambda>rest.
            Inr (c\<lparr>ch_resources :=
                   bt_insert (rc_resource_id cost) (pool\<lparr>rp_current := rest\<rparr>) (ch_resources c)\<rparr>)))"

definition skill_checks :: "env \<Rightarrow> actor_id \<Rightarrow> object_id \<Rightarrow> skill_target_ref \<Rightarrow> game_world
    \<Rightarrow> world_error + skill_grant_record \<times> skill_definition \<times> character_record" where
  "skill_checks E actor grant_id target w =
     rbind (require_object w grant_id) (\<lambda>e.
     rbind (ok_or (WrongObjectKind grant_id) (as_skill_grant (component e))) (\<lambda>grant.
       if sg_owner_id grant \<noteq> actor \<or> \<not> sg_enabled grant
       then domain_rule ''skill_grant_unavailable''
       else if (case sg_ready_at grant of None \<Rightarrow> False | Some ready \<Rightarrow> ready > ws_clock (gw_state w))
       then domain_rule ''skill_on_cooldown''
       else
         rbind (skill_definition E (sg_skill_id grant)) (\<lambda>d.
           if skd_kind d \<noteq> ActiveSkill then domain_rule ''skill_is_not_active''
           else
             rbind (validate_skill_target w actor target (skd_target d)) (\<lambda>_.
             rbind (require_object w (object_id_of actor)) (\<lambda>_.
             rbind (get_character w actor) (\<lambda>c.
             rbind (rfold pay_cost c (skd_costs d)) (\<lambda>c'. Inr (grant, d, c'))))))))"

definition emit_cost :: "env \<Rightarrow> tx \<Rightarrow> actor_id \<Rightarrow> resource_cost \<Rightarrow> unit cmd" where
  "emit_cost E t actor cost =
     sbind (slift (wfixed (fixed_sub fixed_zero (rc_amount cost)))) (\<lambda>delta.
       emit_event E t actor (ResourceChanged actor (rc_resource_id cost) delta))"

definition skill_ready_at :: "skill_definition \<Rightarrow> world_time \<Rightarrow> world_error + world_time option" where
  "skill_ready_at d clock =
     (if skd_cooldown_ticks d = 0 then Inr None
      else rbind (wfixed (world_time_add clock (skd_cooldown_ticks d))) (\<lambda>t. Inr (Some t)))"

text \<open>The end of a handler that collected its records and events in the vectors.\<close>

definition collected :: "record_key list \<Rightarrow> string \<Rightarrow> change_parts cmd" where
  "collected deletes text =
     sbind (summary text) (\<lambda>sm.
     sbind (sgets ex_upserts) (\<lambda>upserts.
     sbind (sgets ex_events) (\<lambda>events.
       sreturn \<lparr>cp_upserts = upserts, cp_deletes = deletes, cp_events = events,
                cp_summary = sm\<rparr>)))"

definition use_skill :: "env \<Rightarrow> tx \<Rightarrow> actor_id \<Rightarrow> object_id \<Rightarrow> skill_target_ref \<Rightarrow> change_parts cmd" where
  "use_skill E t actor grant_id target =
     sbind (sgets (\<lambda>s. ws_clock (gw_state (ex_world s)))) (\<lambda>clock.
     sbind (query (skill_checks E actor grant_id target)) (\<lambda>(grant, d, c).
     sbind (sforeach (emit_cost E t actor) (skd_costs d)) (\<lambda>_.
     sbind (store_and_emit (object_id_of actor) (CharacterRec c)) (\<lambda>_.
     sbind (apply_effects E t actor (skd_id d) (skd_effects d)) (\<lambda>_.
     sbind (slift (skill_ready_at d clock)) (\<lambda>ready.
     let updated = SkillGrantRec (grant\<lparr>sg_ready_at := ready\<rparr>) in
     sbind (store_component grant_id updated) (\<lambda>_.
     sbind (emit_event E t actor (SkillUsed grant_id (sg_skill_id grant) target)) (\<lambda>_.
     sbind (emit_upsert updated) (\<lambda>_.
       collected [] ''skill used'')))))))))"

section \<open>Event options and gameplay actions\<close>

definition event_option_checks :: "env \<Rightarrow> actor_id \<Rightarrow> object_id \<Rightarrow> content_definition_id
    \<Rightarrow> game_world \<Rightarrow> world_error + event_instance_record \<times> event_definition \<times> event_option_definition"
  where
  "event_option_checks E actor instance_id option_id w =
     rbind (get_character w actor) (\<lambda>c.
     rbind (require_object w instance_id) (\<lambda>e.
     rbind (ok_or (WrongObjectKind instance_id) (as_event_instance (component e))) (\<lambda>v.
       if ei_status v \<noteq> EventActive then domain_rule ''event_instance_not_active''
       else
         rbind (case ei_scene_id v of None \<Rightarrow> Inr ()
                | Some scene_id \<Rightarrow>
                    rbind (get_place w (ch_location c)) (\<lambda>p.
                      if place_scene_id p \<noteq> scene_id \<or> ws_active_scene (gw_state w) \<noteq> scene_id
                      then domain_rule ''event_scene_not_reachable''
                      else rbind (get_scene w scene_id) (\<lambda>scene.
                        if \<not> scene_active scene then domain_rule ''event_scene_not_reachable''
                        else Inr ()))) (\<lambda>_.
         rbind (event_definition E (ei_definition_id v)) (\<lambda>d.
         rbind (ok_or (DomainRule ''event_current_node_missing'')
                  (find (\<lambda>n. en_id n = ei_current_node v) (ed_nodes d))) (\<lambda>node.
         rbind (ok_or (DomainRule ''event_option_not_current'')
                  (find (\<lambda>opt. eo_id opt = option_id) (en_options node))) (\<lambda>opt.
           Inr (v, d, opt))))))))"

definition committed_event :: "event_option_definition \<Rightarrow> event_instance_record
    \<Rightarrow> event_instance_record" where
  "committed_event opt v =
     (let v' = v\<lparr>ei_committed_options := ei_committed_options v @ [eo_id opt]\<rparr>
      in case eo_next_node opt of
           Some node \<Rightarrow> v'\<lparr>ei_current_node := node\<rparr>
         | None \<Rightarrow> v'\<lparr>ei_status := EventCompleted\<rparr>)"

definition ensure_predicates :: "actor_id \<Rightarrow> predicate_definition list \<Rightarrow> string \<Rightarrow> unit cmd" where
  "ensure_predicates actor ps rule =
     sbind (evaluate_predicates actor ps) (\<lambda>b.
       if b then sreturn () else slift (domain_rule rule))"

definition choose_event_option :: "env \<Rightarrow> tx \<Rightarrow> actor_id \<Rightarrow> object_id \<Rightarrow> content_definition_id
    \<Rightarrow> change_parts cmd" where
  "choose_event_option E t actor instance_id option_id =
     sbind (query (event_option_checks E actor instance_id option_id)) (\<lambda>(v, d, opt).
     sbind (ensure_predicates actor (eo_visible_if opt) ''event_option_not_visible'') (\<lambda>_.
     sbind (ensure_predicates actor (eo_enabled_if opt) ''event_option_not_enabled'') (\<lambda>_.
     sbind (apply_effects E t actor (ed_id d) (eo_effects opt)) (\<lambda>_.
     sbind (store_and_emit instance_id (EventInstanceRec (committed_event opt v))) (\<lambda>_.
     sbind (emit_event E t actor (EventOptionChosen instance_id option_id)) (\<lambda>_.
       collected [] ''event option chosen''))))))"

definition gameplay_action_definition :: "env \<Rightarrow> content_definition_id
    \<Rightarrow> world_error + gameplay_action_definition" where
  "gameplay_action_definition E i =
     (case definition_of E i of Some (GameplayActionDef d) \<Rightarrow> Inr d | _ \<Rightarrow> Inl (DefinitionNotFound i))"

definition action_parameters :: "gameplay_action_definition
    \<Rightarrow> (content_definition_id, action_parameter_definition) btree" where
  "action_parameters d = bt_of_list (map (\<lambda>p. (apa_id p, p)) (gad_parameters d))"

definition gameplay_action_checks :: "env \<Rightarrow> actor_id \<Rightarrow> content_definition_id
    \<Rightarrow> (content_definition_id, parameter_value) btree \<Rightarrow> game_world
    \<Rightarrow> world_error + gameplay_action_definition" where
  "gameplay_action_checks E actor i arguments w =
     rbind (get_character w actor) (\<lambda>_.
     rbind (gameplay_action_definition E i) (\<lambda>d.
       if list_ex (\<lambda>k. \<not> bt_contains k (action_parameters d)) (bt_keys arguments)
       then domain_rule ''gameplay_action_extra_argument''
       else if list_ex (\<lambda>p. apa_required p \<and> \<not> bt_contains (apa_id p) arguments) (gad_parameters d)
       then domain_rule ''gameplay_action_required_argument''
       else rbind (rforeach (\<lambda>(k, value).
                validate_parameter_value w (apa_value_type (the (bt_get k (action_parameters d)))) value)
              arguments) (\<lambda>_. Inr d)))"

definition perform_gameplay_action :: "env \<Rightarrow> tx \<Rightarrow> actor_id \<Rightarrow> content_definition_id
    \<Rightarrow> (content_definition_id, parameter_value) btree \<Rightarrow> change_parts cmd" where
  "perform_gameplay_action E t actor i arguments =
     sbind (query (gameplay_action_checks E actor i arguments)) (\<lambda>d.
     sbind (ensure_predicates actor (gad_predicates d) ''gameplay_action_predicate'') (\<lambda>_.
     sbind (apply_effects E t actor (gad_id d) (gad_effects d)) (\<lambda>_.
     sbind (emit_event E t actor (GameplayActionPerformed (gad_id d))) (\<lambda>_.
       collected [] ''gameplay action performed''))))"

section \<open>Transcripts\<close>

definition check_transcript :: "game_world \<Rightarrow> actor_id \<Rightarrow> revision \<Rightarrow> transcript_item_record list
    \<Rightarrow> transcript_item_id list \<Rightarrow> transcript_item_record \<Rightarrow> world_error + transcript_item_id list" where
  "check_transcript w actor revision all seen v =
     rbind (wdomain (domain_validate (TranscriptItemRec v))) (\<lambda>_.
     rbind (validate_transcript_audience w v) (\<lambda>_.
       if tr_source_id v \<noteq> None
          \<and> (list_ex (\<lambda>x. tr_audience x = tr_audience v \<and> tr_source_id x = tr_source_id v)
               (bt_values (gw_transcripts w))
             \<or> list_ex (\<lambda>x. tr_id x \<noteq> tr_id v \<and> tr_audience x = tr_audience v
                            \<and> tr_source_id x = tr_source_id v) all)
       then domain_rule ''transcript_duplicate_receipt''
       else if (case tr_audience v of NpcAudience owner \<Rightarrow> owner \<noteq> actor | PlayerAudience \<Rightarrow> False)
       then domain_rule ''transcript_owner''
       else if tr_revision v \<noteq> Some revision \<or> bs_contains (tr_id v) seen
               \<or> bt_contains (tr_id v) (gw_transcripts w)
       then domain_rule ''transcript_item_invalid''
       else if (case tr_speaker v of
                  PlayerSpeaker speaker _ \<Rightarrow> speaker \<noteq> actor \<and> tr_audience v = PlayerAudience
                | _ \<Rightarrow> False)
       then domain_rule ''transcript_player_actor''
       else Inr (bs_insort (tr_id v) seen)))"

definition append_transcripts :: "env \<Rightarrow> tx \<Rightarrow> actor_id \<Rightarrow> transcript_item_record list
    \<Rightarrow> change_parts cmd" where
  "append_transcripts E t actor new =
     (if new = [] then slift (domain_rule ''transcript_items_empty'')
      else
        sbind (query (\<lambda>w. rfold (check_transcript w actor (snd t) new) [] new)) (\<lambda>_.
        let sorted = sort_key (\<lambda>v. domain_sort_key (env_uuid E) (TranscriptItemRec v)) new in
        sbind (modify_world (\<lambda>w. w\<lparr>gw_transcripts :=
                 fold (\<lambda>v. bt_insert (tr_id v) v) sorted (gw_transcripts w)\<rparr>)) (\<lambda>_.
        sbind (summary ''transcript appended'') (\<lambda>sm.
          sreturn \<lparr>cp_upserts = map TranscriptItemRec sorted, cp_deletes = [], cp_events = [],
                   cp_summary = sm\<rparr>))))"

end
