(* ===== verification/World_Clock.thy ===== *)
theory World_Clock
  imports World_Actions Record_Log
begin

text \<open>
  Advancing the clock (\<open>game_world.rs\<close>: \<open>advance_time\<close> and the three queries it makes). The loop
  stops at every time at which a condition ticks or expires, up to the new time.

  The \<open>while\<close> loop is \<open>advance_loop\<close>, where \<open>None\<close> is a loop that does not end. It ends whenever
  the intervals and durations of the registry are non-zero, which their types in the source say:
  after a step no condition has a boundary at or before the one just handled.
\<close>

section \<open>Boundaries\<close>

definition condition_times :: "condition_record \<Rightarrow> world_time list" where
  "condition_times c = List.map_filter id [cond_next_periodic_at c, cond_expires_at c]"

definition next_condition_boundary :: "world_time \<Rightarrow> game_world \<Rightarrow> world_time option" where
  "next_condition_boundary to w =
     (case filter (\<lambda>b. b \<le> to) (concat (map (condition_times \<circ> snd) (select as_condition w))) of
        [] \<Rightarrow> None
      | b # bs \<Rightarrow> Some (fold min bs b))"

definition conditions_periodic_at :: "world_time \<Rightarrow> game_world
    \<Rightarrow> (content_definition_id \<times> object_id) list" where
  "conditions_periodic_at boundary w =
     sort (map (\<lambda>(i, c). (cond_condition_id c, i))
       (filter (\<lambda>(_, c). cond_next_periodic_at c = Some boundary) (select as_condition w)))"

definition conditions_expiring_at :: "world_time \<Rightarrow> game_world
    \<Rightarrow> (content_definition_id \<times> object_id) list" where
  "conditions_expiring_at boundary w =
     sort (map (\<lambda>(i, c). (cond_condition_id c, i))
       (filter (\<lambda>(_, c). due_by boundary (cond_expires_at c)) (select as_condition w)))"

section \<open>One boundary\<close>

definition condition_at :: "object_id \<Rightarrow> game_world \<Rightarrow> world_error + condition_record" where
  "condition_at i w =
     rbind (require_object w i) (\<lambda>e. ok_or (WrongObjectKind i) (as_condition (component e)))"

definition ticked_condition :: "env \<Rightarrow> world_time \<Rightarrow> content_definition_id \<Rightarrow> condition_record
    \<Rightarrow> world_error + condition_record \<times> periodic_effect_definition" where
  "ticked_condition E boundary condition_id c =
     rbind (condition_definition E condition_id) (\<lambda>d.
     rbind (ok_or (Invariant ''condition.periodic_definition'') (cd_periodic d)) (\<lambda>periodic.
     rbind (wfixed (world_time_add boundary (ped_interval_ticks periodic))) (\<lambda>following.
       Inr (c\<lparr>cond_next_periodic_at := Some following\<rparr>, periodic))))"

definition tick_condition :: "env \<Rightarrow> tx \<Rightarrow> world_time \<Rightarrow> content_definition_id \<times> object_id
    \<Rightarrow> unit cmd" where
  "tick_condition E t boundary p =
     sbind (query (condition_at (snd p))) (\<lambda>c.
       if cond_next_periodic_at c \<noteq> Some boundary then sreturn ()
       else
         sbind (slift (ticked_condition E boundary (fst p) c)) (\<lambda>(updated, periodic).
         sbind (store_and_emit (snd p) (ConditionRec updated)) (\<lambda>_.
         sbind (emit_event E t (cond_target_id updated) (ConditionTicked (snd p) boundary)) (\<lambda>_.
           apply_effects E t (cond_target_id updated) (fst p) (ped_effects periodic)))))"

definition despawn :: "object_id \<Rightarrow> game_world \<Rightarrow> game_world" where
  "despawn i w = w\<lparr>gw_objects := bt_remove i (gw_objects w)\<rparr>"

definition expire_condition :: "env \<Rightarrow> tx \<Rightarrow> world_time \<Rightarrow> record_key list
    \<Rightarrow> content_definition_id \<times> object_id \<Rightarrow> record_key list cmd" where
  "expire_condition E t boundary deletes p =
     sbind (query (condition_at (snd p))) (\<lambda>c.
       if \<not> due_by boundary (cond_expires_at c) then sreturn deletes
       else
         sbind (smodify (\<lambda>s. s\<lparr>ex_upserts :=
                  filter (\<lambda>r. record_object_id r \<noteq> Some (snd p)) (ex_upserts s)\<rparr>)) (\<lambda>_.
         sbind (slift (wdomain (key (env_uuid E) (ConditionRec c)))) (\<lambda>k.
         sbind (modify_world (despawn (snd p))) (\<lambda>_.
         sbind (emit_event E t (cond_target_id c) (ConditionExpired (snd p))) (\<lambda>_.
           sreturn (deletes @ [k]))))))"

definition set_clock :: "world_time \<Rightarrow> unit cmd" where
  "set_clock clock = modify_world (\<lambda>w. w\<lparr>gw_state := (gw_state w)\<lparr>ws_clock := clock\<rparr>\<rparr>)"

definition advance_step :: "env \<Rightarrow> tx \<Rightarrow> world_time \<Rightarrow> record_key list \<Rightarrow> record_key list cmd" where
  "advance_step E t boundary deletes =
     sbind (set_clock boundary) (\<lambda>_.
     sbind (sgets (\<lambda>s. conditions_periodic_at boundary (ex_world s))) (\<lambda>periodic.
     sbind (sforeach (tick_condition E t boundary) periodic) (\<lambda>_.
     sbind (sgets (\<lambda>s. conditions_expiring_at boundary (ex_world s))) (\<lambda>expiring.
       sfold (expire_condition E t boundary) deletes expiring))))"

section \<open>The loop\<close>

type_synonym 'a run = "exec \<Rightarrow> (world_error + 'a \<times> exec) option"

partial_function (option) advance_loop :: "env \<Rightarrow> tx \<Rightarrow> world_time \<Rightarrow> record_key list
    \<Rightarrow> exec \<Rightarrow> (world_error + record_key list \<times> exec) option" where
  "advance_loop E t to deletes s =
     (case next_condition_boundary to (ex_world s) of
        None \<Rightarrow> Some (Inr (deletes, s))
      | Some boundary \<Rightarrow>
          (case advance_step E t boundary deletes s of
             Inl e \<Rightarrow> Some (Inl e)
           | Inr (deletes', s') \<Rightarrow> advance_loop E t to deletes' s'))"

definition run_then :: "'a run \<Rightarrow> ('a \<Rightarrow> 'b cmd) \<Rightarrow> 'b run" where
  "run_then m f = (\<lambda>s. map_option (\<lambda>r. rbind r (\<lambda>(x, s'). f x s')) (m s))"

definition then_run :: "'a cmd \<Rightarrow> ('a \<Rightarrow> 'b run) \<Rightarrow> 'b run" where
  "then_run m f = (\<lambda>s. case m s of Inl e \<Rightarrow> Some (Inl e) | Inr (x, s') \<Rightarrow> f x s')"

definition clock_checks :: "u64 \<Rightarrow> game_world \<Rightarrow> world_error + world_time \<times> world_time" where
  "clock_checks n w =
     (if n = 0 then domain_rule ''clock_advance_zero''
      else rbind (wfixed (world_time_add (ws_clock (gw_state w)) n)) (\<lambda>to.
        Inr (ws_clock (gw_state w), to)))"

definition advance_time :: "env \<Rightarrow> tx \<Rightarrow> actor_id \<Rightarrow> u64 \<Rightarrow> change_parts run" where
  "advance_time E t actor n =
     then_run (query (clock_checks n)) (\<lambda>(from, to).
     then_run (emit_event E t actor (ClockAdvanced (ticks from) (ticks to))) (\<lambda>_.
     run_then (advance_loop E t to []) (\<lambda>deletes.
       sbind (set_clock to) (\<lambda>_.
       sbind (sgets (\<lambda>s. gw_state (ex_world s))) (\<lambda>state.
       sbind (emit_upsert (WorldStateRec state)) (\<lambda>_.
         collected deletes ''world clock advanced''))))))"

end
