(* ===== verification/World_Spawn.thy ===== *)
theory World_Spawn
  imports World_Effects
begin

text \<open>
  Creating characters, scenes and places (\<open>game_world.rs\<close>: \<open>materialize_character_records\<close>,
  \<open>spawn_character\<close>, \<open>create_scene\<close>, \<open>create_place\<close>, \<open>materialize_scene\<close>, \<open>transition_scene\<close>,
  \<open>bootstrap_with_player\<close>).

  What only draws identifiers is a computation over the generator; \<open>with_ids\<close> runs it in a command.
\<close>

type_synonym 'a gen = "(id_generator, world_error, 'a) sm"

definition new_id :: "env \<Rightarrow> 'k runtime_id gen" where
  "new_id E = (\<lambda>ids. map_err WorldIdentity (generate_with (env_uuid E) ids))"

definition with_ids :: "'a gen \<Rightarrow> 'a cmd" where
  "with_ids m = (\<lambda>s. rbind (m (ex_ids s)) (\<lambda>(x, ids). Inr (x, s\<lparr>ex_ids := ids\<rparr>)))"

section \<open>Checks on a specification\<close>

definition check_attribute_range :: "env \<Rightarrow> spawn_constraints \<Rightarrow> fixed
    \<Rightarrow> content_definition_id \<times> fixed \<Rightarrow> world_error + fixed" where
  "check_attribute_range E constraints points p =
     rbind (require_definition E (fst p) ''attribute'') (\<lambda>_.
     rbind (ok_or (DomainRule ''spawn_attribute_minimum'')
              (bt_get (fst p) (sc_minimum_attributes constraints))) (\<lambda>minimum.
     rbind (ok_or (DomainRule ''spawn_attribute_maximum'')
              (bt_get (fst p) (sc_maximum_attributes constraints))) (\<lambda>maximum.
       if minimum > maximum \<or> snd p < minimum \<or> snd p > maximum
       then domain_rule ''spawn_attribute_range''
       else rbind (wfixed (fixed_sub (snd p) minimum)) (\<lambda>above. wfixed (fixed_add points above)))))"

definition validate_spawn_constraints :: "env \<Rightarrow> character_spawn_spec \<Rightarrow> world_error + unit" where
  "validate_spawn_constraints E spec =
     (let constraints = sp_trusted_constraints spec;
          minima = sc_minimum_attributes constraints;
          maxima = sc_maximum_attributes constraints
      in if length (sp_inventory spec) > unat (sc_maximum_items constraints)
            \<or> length (sp_skills spec) > unat (sc_maximum_skills constraints)
         then domain_rule ''spawn_budget_exceeded''
         else if list_ex (\<lambda>i. \<not> bs_contains i (sc_allowed_definitions constraints))
                   (map cgi_condition_id (sp_conditions spec) @ map igi_definition_id (sp_inventory spec)
                    @ map sgi_skill_id (sp_skills spec))
         then domain_rule ''spawn_definition_not_allowed''
         else if sc_maximum_attribute_points constraints < fixed_zero
                 \<or> list_ex (\<lambda>i. case bt_get i maxima of None \<Rightarrow> True
                             | Some maximum \<Rightarrow> the (bt_get i minima) > maximum) (bt_keys minima)
                 \<or> list_ex (\<lambda>i. \<not> bt_contains i minima) (bt_keys maxima)
         then domain_rule ''spawn_attribute_schema''
         else rbind (rfold (check_attribute_range E constraints) fixed_zero (sp_attributes spec)) (\<lambda>points.
           if points > sc_maximum_attribute_points constraints
           then domain_rule ''spawn_attribute_points'' else Inr ()))"

definition check_spawn_resource :: "env \<Rightarrow> content_definition_id \<times> resource_pool
    \<Rightarrow> world_error + unit" where
  "check_spawn_resource E p =
     (if fst p \<noteq> rp_resource_id (snd p) then domain_rule ''spawn_resource_key''
      else rbind (resource_definition E (fst p)) (\<lambda>d.
        if rp_current (snd p) < rsd_minimum d \<or> rp_current (snd p) > rp_base_maximum (snd p)
           \<or> rp_base_maximum (snd p) > rsd_maximum d
        then domain_rule ''spawn_resource_range'' else Inr ()))"

definition check_spawn_spec :: "env \<Rightarrow> character_spawn_spec \<Rightarrow> world_error + unit" where
  "check_spawn_spec E spec =
     (if (case sp_lifetime spec of
            SceneLifetime scene_id \<Rightarrow> scene_id \<noteq> pl_scene_id (sp_placement spec)
          | Persistent \<Rightarrow> False)
      then domain_rule ''spawn_lifetime_scene_mismatch''
      else if (sp_controller spec = AgentController) \<noteq> (sp_agent_binding spec \<noteq> None)
      then domain_rule ''spawn_agent_binding''
      else
        rbind (validate_spawn_constraints E spec) (\<lambda>_.
        rbind (rforeach (\<lambda>tag. require_definition E tag ''tag'') (cp_narrative_tags (sp_profile spec)))
          (\<lambda>_. rforeach (check_spawn_resource E) (sp_resources spec))))"

section \<open>The records of a character\<close>

definition root_item :: "object_id \<Rightarrow> actor_id \<Rightarrow> object_id \<Rightarrow> item_definition \<Rightarrow> container_definition
    \<Rightarrow> content_origin \<Rightarrow> item_record" where
  "root_item root_id owner place_id d c origin =
     \<lparr>it_id = root_id, it_definition_id = itd_id d, it_stack = StackState 1,
      it_durability = map_option (\<lambda>m. \<lparr>dur_current = m, dur_maximum = m\<rparr>) (itd_durability d),
      it_container = Some \<lparr>cont_max_weight_grams = ctd_max_weight_grams c,
                           cont_max_children = ctd_max_children c\<rparr>,
      it_contained_by = None, it_owned_by = Some owner, it_equipped = None,
      it_located_at = Some place_id, it_custom_name = None, it_bound_actor = Some owner,
      it_parameters = [], it_instance_adjustments = [], it_origin = ContentEntity origin\<rparr>"

definition inventory_root :: "env \<Rightarrow> world_config \<Rightarrow> object_id \<Rightarrow> actor_id \<Rightarrow> object_id
    \<Rightarrow> world_error + item_record" where
  "inventory_root E config root_id owner place_id =
     rbind (require_entry E (inventory_root_definition config)) (\<lambda>entry.
       case reg_definition entry of
         ItemDef d \<Rightarrow>
           rbind (ok_or (DomainRule ''inventory_root_definition_not_container'') (itd_container d))
             (\<lambda>c. Inr (root_item root_id owner place_id d c (reg_origin entry)))
       | _ \<Rightarrow> Inl (DefinitionNotFound (inventory_root_definition config)))"

definition character_of_spec :: "character_spawn_spec \<Rightarrow> actor_id \<Rightarrow> object_id \<Rightarrow> character_record" where
  "character_of_spec spec character_id root_id =
     \<lparr>ch_id = character_id, ch_display_name = sp_display_name spec, ch_profile = sp_profile spec,
      ch_appearance = sp_appearance spec, ch_controller = sp_controller spec,
      ch_lifetime = sp_lifetime spec, ch_location = pl_place_id (sp_placement spec),
      ch_inventory_root = root_id, ch_agent_binding = sp_agent_binding spec,
      ch_base_attributes = sp_attributes spec, ch_attribute_adjustments = [],
      ch_resources = sp_resources spec, ch_life_state = Alive, ch_action_state = Idle,
      ch_posture = Standing, ch_origin = sp_origin spec\<rparr>"

definition add_item_key :: "env \<Rightarrow> (short_text, object_id) btree \<Rightarrow> item_grant_input
    \<Rightarrow> (short_text, object_id) btree gen" where
  "add_item_key E keys v =
     sbind (new_id E) (\<lambda>i.
       if bt_contains (igi_local_key v) keys
       then slift (domain_rule ''spawn_duplicate_item_local_key'')
       else sreturn (bt_insert (igi_local_key v) i keys))"

definition materialize_item :: "env \<Rightarrow> actor_id \<Rightarrow> object_id \<Rightarrow> (short_text, object_id) btree
    \<Rightarrow> item_grant_input \<Rightarrow> world_error + domain_record" where
  "materialize_item E owner root_id keys v =
     rbind (case igi_parent_local_key v of None \<Rightarrow> Inr root_id
            | Some k \<Rightarrow> ok_or (DomainRule ''spawn_item_parent_missing'') (bt_get k keys)) (\<lambda>parent.
     rbind (require_entry E (igi_definition_id v)) (\<lambda>entry.
       case reg_definition entry of
         ItemDef d \<Rightarrow>
           if igi_quantity v > itd_stack_limit d \<or> itd_container d \<noteq> None \<and> igi_quantity v \<noteq> 1
           then domain_rule ''spawn_item_stack_invalid''
           else Inr (ItemRec (item_from_definition (the (bt_get (igi_local_key v) keys)) parent owner
                  (igi_quantity v) d (reg_origin entry)))
       | _ \<Rightarrow> Inl (DefinitionNotFound (igi_definition_id v))))"

definition materialize_condition :: "env \<Rightarrow> actor_id \<Rightarrow> world_time \<Rightarrow> condition_grant_input
    \<Rightarrow> domain_record gen" where
  "materialize_condition E target clock v =
     sbind (slift (require_entry E (cgi_condition_id v))) (\<lambda>entry.
       case reg_definition entry of
         ConditionDef d \<Rightarrow>
           sbind (slift (condition_expiry (cd_duration d) clock)) (\<lambda>expires.
           sbind (slift (condition_periodic d clock)) (\<lambda>periodic.
           sbind (new_id E) (\<lambda>i.
             sreturn (ConditionRec
               \<lparr>cond_id = i, cond_target_id = target, cond_condition_id = cd_id d,
                cond_source = cgi_source v, cond_stacks = cgi_stacks v,
                cond_intensity = cgi_intensity v, cond_applied_at = clock,
                cond_expires_at = expires, cond_next_periodic_at = periodic,
                cond_origin = ContentEntity (reg_origin entry)\<rparr>))))
       | _ \<Rightarrow> slift (Inl (DefinitionNotFound (cgi_condition_id v))))"

fun spawned_skill_source :: "world_config \<Rightarrow> entity_origin \<Rightarrow> skill_source" where
  "spawned_skill_source config (ContentEntity origin) =
     SkillFromCharacterDefinition (co_definition_id origin)"
| "spawned_skill_source config (PlayerCreatedEntity template) =
     SkillFromCharacterDefinition (co_definition_id template)"
| "spawned_skill_source config (GeneratedEntity _) = SkillFromRule (spawn_system_definition config)"
| "spawned_skill_source config (SystemEntity _) = SkillFromRule (spawn_system_definition config)"

definition materialize_skill :: "env \<Rightarrow> world_config \<Rightarrow> entity_origin \<Rightarrow> actor_id \<Rightarrow> skill_grant_input
    \<Rightarrow> domain_record gen" where
  "materialize_skill E config origin owner v =
     sbind (slift (require_entry E (sgi_skill_id v))) (\<lambda>entry.
       case reg_definition entry of
         SkillDef _ \<Rightarrow>
           sbind (new_id E) (\<lambda>i.
             sreturn (SkillGrantRec
               \<lparr>sg_id = i, sg_owner_id = owner, sg_skill_id = sgi_skill_id v, sg_rank = sgi_rank v,
                sg_proficiency = sgi_proficiency v, sg_source = spawned_skill_source config origin,
                sg_enabled = sgi_enabled v, sg_ready_at = None,
                sg_origin = ContentEntity (reg_origin entry)\<rparr>))
       | _ \<Rightarrow> slift (Inl (DefinitionNotFound (sgi_skill_id v))))"

definition materialize_fact :: "env \<Rightarrow> actor_id \<Rightarrow> world_time \<Rightarrow> known_fact_input \<Rightarrow> domain_record gen" where
  "materialize_fact E owner clock v =
     sbind (slift (require_definition E (kfi_predicate_id v) ''tag'')) (\<lambda>_.
     sbind (new_id E) (\<lambda>i.
       sreturn (KnownFactRec
         \<lparr>kf_id = i, kf_owner_id = owner, kf_subject = kfi_subject v,
          kf_predicate_id = kfi_predicate_id v, kf_value = kfi_value v, kf_status = kfi_status v,
          kf_confidence = kfi_confidence v, kf_source = kfi_source v, kf_first_known_at = clock,
          kf_last_confirmed_at = clock\<rparr>)))"

definition materialize_goal :: "env \<Rightarrow> actor_id \<Rightarrow> world_time \<Rightarrow> goal_input \<Rightarrow> domain_record gen" where
  "materialize_goal E owner clock v =
     sbind (new_id E) (\<lambda>i.
       sreturn (GoalRec
         \<lparr>goal_id = i, goal_owner_id = owner, goal_description = gi_description v,
          goal_priority = gi_priority v, goal_status_of = ActiveGoal, goal_source_of = gi_source v,
          goal_updated_at = clock\<rparr>))"

definition candidate_items :: "domain_record list \<Rightarrow> (object_id, item_record) btree" where
  "candidate_items records =
     bt_of_list (List.map_filter (\<lambda>r. map_option (\<lambda>v. (it_id v, v)) (as_item r)) records)"

definition check_candidate_parent :: "(object_id, item_record) btree \<Rightarrow> item_record
    \<Rightarrow> world_error + unit" where
  "check_candidate_parent cs v =
     (case it_contained_by v of None \<Rightarrow> Inr ()
      | Some i \<Rightarrow> rbind (ok_or (WrongObjectKind i) (bt_get i cs)) (\<lambda>parent.
          if it_container parent = None then domain_rule ''spawn_item_parent_not_container''
          else Inr ()))"

definition candidate_item_tree_weight :: "env \<Rightarrow> (object_id, item_record) btree \<Rightarrow> object_id
    \<Rightarrow> world_error + fixed" where
  "candidate_item_tree_weight E cs =
     item_tree_weight ''spawn_item_container_cycle'' E (\<lambda>i. bt_get i cs) (bt_values cs) []"

definition check_candidate_capacity :: "env \<Rightarrow> (object_id, item_record) btree \<Rightarrow> item_record
    \<Rightarrow> world_error + unit" where
  "check_candidate_capacity E cs v =
     (case it_container v of None \<Rightarrow> Inr ()
      | Some capacity \<Rightarrow>
          let below = filter (\<lambda>c. it_contained_by c = Some (it_id v)) (bt_values cs)
          in if length below > unat (cont_max_children capacity)
             then domain_rule ''spawn_container_child_capacity''
             else rbind (rfold (\<lambda>weight c.
                      rbind (candidate_item_tree_weight E cs (it_id c)) (\<lambda>x. wfixed (fixed_add weight x)))
                    fixed_zero below) (\<lambda>weight.
               if weight > cont_max_weight_grams capacity
               then domain_rule ''spawn_container_weight_capacity'' else Inr ()))"

definition validate_candidate_inventory :: "env \<Rightarrow> domain_record list \<Rightarrow> world_error + unit" where
  "validate_candidate_inventory E records =
     (let cs = candidate_items records
      in rbind (rforeach (check_candidate_parent cs) (bt_values cs)) (\<lambda>_.
           rforeach (check_candidate_capacity E cs) (bt_values cs)))"

definition materialize_character_records :: "env \<Rightarrow> world_config \<Rightarrow> world_time \<Rightarrow> character_spawn_spec
    \<Rightarrow> actor_id \<Rightarrow> domain_record list gen" where
  "materialize_character_records E config clock spec character_id =
     sbind (slift (check_spawn_spec E spec)) (\<lambda>_.
     sbind (new_id E) (\<lambda>root_id.
     sbind (slift (inventory_root E config root_id character_id (pl_place_id (sp_placement spec)))) (\<lambda>root.
     let inventory = sort_key igi_local_key (sp_inventory spec) in
     sbind (sfold (add_item_key E) [] inventory) (\<lambda>keys.
     sbind (slift (rmapM (materialize_item E character_id root_id keys) inventory)) (\<lambda>inside.
     sbind (smapM (materialize_condition E character_id clock)
              (sort_key cgi_condition_id (sp_conditions spec))) (\<lambda>conditions.
     sbind (smapM (materialize_skill E config (sp_origin spec) character_id)
              (sort_key sgi_skill_id (sp_skills spec))) (\<lambda>skills.
     sbind (smapM (materialize_fact E character_id clock) (sp_knowledge spec)) (\<lambda>facts.
     sbind (smapM (materialize_goal E character_id clock) (sp_goals spec)) (\<lambda>goals.
     let records = [CharacterRec (character_of_spec spec character_id root_id), ItemRec root]
           @ inside @ conditions @ skills @ facts @ goals in
     sbind (slift (validate_candidate_inventory E records)) (\<lambda>_.
     sbind (slift (rforeach (\<lambda>r. wdomain (domain_validate r)) records)) (\<lambda>_.
       sreturn records)))))))))))"

section \<open>Spawning\<close>

definition check_candidate_id :: "game_world \<Rightarrow> object_id list \<Rightarrow> domain_record
    \<Rightarrow> world_error + object_id list" where
  "check_candidate_id w seen r =
     rbind (ok_or WorldStateError (record_object_id r)) (\<lambda>i.
       if bs_contains i seen \<or> bt_contains i (gw_objects w) then Inl DuplicateIdentity
       else Inr (bs_insort i seen))"

definition spawn_all :: "domain_record list \<Rightarrow> unit cmd" where
  "spawn_all records = sforeach (\<lambda>r. update_world (\<lambda>w. spawn_record w r)) records"

definition spawn_place_checks :: "character_spawn_spec \<Rightarrow> game_world \<Rightarrow> world_error + unit" where
  "spawn_place_checks spec w =
     rbind (get_place w (pl_place_id (sp_placement spec))) (\<lambda>place.
       if place_scene_id place \<noteq> pl_scene_id (sp_placement spec)
       then domain_rule ''spawn_place_not_in_scene''
       else if (case sp_lifetime spec of
                  SceneLifetime scene_id \<Rightarrow> scene_id \<noteq> pl_scene_id (sp_placement spec)
                | Persistent \<Rightarrow> False)
       then domain_rule ''spawn_lifetime_scene_mismatch'' else Inr ())"

definition spawn_character :: "env \<Rightarrow> tx \<Rightarrow> actor_id \<Rightarrow> character_spawn_spec \<Rightarrow> change_parts cmd" where
  "spawn_character E t actor spec =
     sbind (query (spawn_place_checks spec)) (\<lambda>_.
     sbind (generate_id E) (\<lambda>i.
     sbind (sgets ex_world) (\<lambda>w.
     sbind (with_ids (materialize_character_records E (gw_config w) (ws_clock (gw_state w)) spec
              (ActorId i))) (\<lambda>records.
     sbind (query (\<lambda>w. rfold (check_candidate_id w) [] records)) (\<lambda>_.
     sbind (event E t actor (CharacterSpawned (ActorId i))) (\<lambda>ev.
     sbind (summary ''character spawned'') (\<lambda>sm.
     sbind (spawn_all records) (\<lambda>_.
       sreturn \<lparr>cp_upserts = records, cp_deletes = [], cp_events = [ev], cp_summary = sm\<rparr>))))))))"

section \<open>Scenes and places\<close>

definition create_scene :: "env \<Rightarrow> tx \<Rightarrow> actor_id \<Rightarrow> display_name \<Rightarrow> short_text \<Rightarrow> display_name
    \<Rightarrow> short_text \<Rightarrow> generated_origin \<Rightarrow> change_parts cmd" where
  "create_scene E t actor name framing entry_name entry_description origin =
     sbind (sgets ex_world) (\<lambda>w.
       if actor \<noteq> ws_player_actor (gw_state w)
       then slift (domain_rule ''only_player_can_create_scene'')
       else
         sbind (generate_id E) (\<lambda>scene_id.
         sbind (generate_id E) (\<lambda>entry_id.
           if bt_contains scene_id (gw_objects w) \<or> bt_contains entry_id (gw_objects w)
           then slift (Inl DuplicateIdentity)
           else
             let records =
               [SceneRec \<lparr>scene_rec_id = scene_id, scene_display_name = name,
                  scene_framing = framing, scene_entry_place = entry_id, scene_active = False,
                  scene_origin = GeneratedEntity origin\<rparr>,
                PlaceRec \<lparr>place_rec_id = entry_id, place_scene_id = scene_id,
                  place_display_name = entry_name, place_description = entry_description,
                  place_tags = [], place_edges = [], place_origin = GeneratedEntity origin\<rparr>]
             in sbind (spawn_all records) (\<lambda>_.
                  finish E t actor records (SceneCreated scene_id entry_id) ''scene created''))))"

definition create_place_checks :: "actor_id \<Rightarrow> game_world \<Rightarrow> world_error + object_id \<times> place_record" where
  "create_place_checks actor w =
     (if actor \<noteq> ws_player_actor (gw_state w) then domain_rule ''only_player_can_create_place''
      else
        rbind (get_character w actor) (\<lambda>player.
        rbind (get_place w (ch_location player)) (\<lambda>current.
          if place_scene_id current \<noteq> ws_active_scene (gw_state w)
          then invariant ''player.active_scene_location''
          else Inr (ch_location player, current))))"

definition create_place :: "env \<Rightarrow> tx \<Rightarrow> actor_id \<Rightarrow> display_name \<Rightarrow> short_text \<Rightarrow> generated_origin
    \<Rightarrow> change_parts cmd" where
  "create_place E t actor name description origin =
     sbind (query (create_place_checks actor)) (\<lambda>(connected_to, current).
     sbind (generate_id E) (\<lambda>place_id.
     sbind (sgets ex_world) (\<lambda>w.
       if bt_contains place_id (gw_objects w) then slift (Inl DuplicateIdentity)
       else
         let scene_id = ws_active_scene (gw_state w);
             place = PlaceRec \<lparr>place_rec_id = place_id, place_scene_id = scene_id,
               place_display_name = name, place_description = description, place_tags = [],
               place_edges = [connected_to], place_origin = GeneratedEntity origin\<rparr>;
             updated = PlaceRec (current\<lparr>place_edges := bs_insort place_id (place_edges current)\<rparr>)
         in sbind (store_component connected_to updated) (\<lambda>_.
            sbind (update_world (\<lambda>w. spawn_record w place)) (\<lambda>_.
              finish E t actor [updated, place] (PlaceCreated scene_id place_id connected_to)
                ''place created'')))))"

definition add_place_id :: "env \<Rightarrow> string \<Rightarrow> (content_definition_id, object_id) btree
    \<Rightarrow> scene_place_spawn_plan \<Rightarrow> (content_definition_id, object_id) btree gen" where
  "add_place_id E name place_ids place =
     sbind (new_id E) (\<lambda>i.
       if bt_contains (spp_definition_id place) place_ids then slift (invariant name)
       else sreturn (bt_insert (spp_definition_id place) i place_ids))"

definition resolve_place_edges :: "string \<Rightarrow> (content_definition_id, object_id) btree
    \<Rightarrow> scene_place_spawn_plan \<Rightarrow> world_error + object_id list" where
  "resolve_place_edges name place_ids place =
     rbind (rmapM (\<lambda>edge. ok_or (Invariant name) (bt_get edge place_ids)) (spp_edges place))
       (\<lambda>edges. Inr (bs_of_list edges))"

definition materialize_place :: "string \<Rightarrow> object_id \<Rightarrow> (content_definition_id, object_id) btree
    \<Rightarrow> scene_place_spawn_plan \<Rightarrow> world_error + domain_record" where
  "materialize_place name scene_id place_ids place =
     rbind (resolve_place_edges name place_ids place) (\<lambda>edges.
       Inr (PlaceRec \<lparr>place_rec_id = the (bt_get (spp_definition_id place) place_ids),
         place_scene_id = scene_id, place_display_name = spp_display_name place,
         place_description = spp_description place, place_tags = spp_tags place,
         place_edges = edges, place_origin = ContentEntity (spp_origin place)\<rparr>))"

fun character_lifetime_of :: "object_id \<Rightarrow> initial_character_lifetime \<Rightarrow> character_lifetime" where
  "character_lifetime_of scene_id InitialScene = SceneLifetime scene_id"
| "character_lifetime_of scene_id InitialPersistent = Persistent"

definition plan_scene :: "scene_spawn_plan \<Rightarrow> object_id \<Rightarrow> object_id \<Rightarrow> bool \<Rightarrow> domain_record" where
  "plan_scene plan scene_id entry active =
     SceneRec \<lparr>scene_rec_id = scene_id, scene_display_name = ssp_display_name plan,
       scene_framing = ssp_framing plan, scene_entry_place = entry, scene_active = active,
       scene_origin = ContentEntity (ssp_origin plan)\<rparr>"

definition materialize_scene_character :: "env \<Rightarrow> world_config \<Rightarrow> world_time \<Rightarrow> object_id
    \<Rightarrow> (content_definition_id, object_id) btree \<Rightarrow> scene_character_spawn_plan
    \<Rightarrow> domain_record list gen" where
  "materialize_scene_character E config clock scene_id place_ids entry =
     sbind (slift (ok_or (Invariant ''scene.character_place'') (bt_get (scp_place_id entry) place_ids)))
       (\<lambda>place_id.
     sbind (slift (map_err WorldContent (compile_character (env_registry E) (scp_character_id entry)
              \<lparr>ccr_scene_id = scene_id, ccr_place_id = place_id,
               ccr_controller = scp_controller entry,
               ccr_lifetime = character_lifetime_of scene_id (scp_lifetime entry)\<rparr>))) (\<lambda>spec.
     sbind (new_id E) (\<lambda>i.
       materialize_character_records E config clock spec (ActorId i))))"

definition scene_records :: "env \<Rightarrow> world_config \<Rightarrow> world_time \<Rightarrow> scene_spawn_plan
    \<Rightarrow> (object_id \<times> domain_record list) gen" where
  "scene_records E config clock plan =
     sbind (new_id E) (\<lambda>scene_id.
     let places = sort_key spp_definition_id (ssp_places plan) in
     sbind (sfold (add_place_id E ''scene.place_definition_unique'') [] places) (\<lambda>place_ids.
     sbind (slift (ok_or (Invariant ''scene.entry_place'') (bt_get (ssp_entry_place plan) place_ids)))
       (\<lambda>entry.
     sbind (slift (rmapM (materialize_place ''scene.place_edge'' scene_id place_ids) places))
       (\<lambda>place_records.
     let entries = sort_key scp_local_key (ssp_characters plan) in
     if length (filter (\<lambda>e. scp_controller e = PlayerController) entries) \<noteq> 1
     then slift (invariant ''scene.exactly_one_bootstrap_player'')
     else
       sbind (smapM (materialize_scene_character E config clock scene_id place_ids)
                (filter (\<lambda>e. scp_controller e \<noteq> PlayerController) entries)) (\<lambda>characters.
         sreturn (scene_id,
           plan_scene plan scene_id entry False # place_records @ concat characters))))))"

definition materialize_scene :: "env \<Rightarrow> scene_spawn_plan \<Rightarrow> (object_id \<times> domain_record list) cmd" where
  "materialize_scene E plan =
     sbind (sgets ex_world) (\<lambda>w.
     sbind (with_ids (scene_records E (gw_config w) (ws_clock (gw_state w)) plan))
       (\<lambda>(scene_id, records).
     sbind (query (\<lambda>w. rfold (check_candidate_id w) [] records)) (\<lambda>_.
     sbind (spawn_all records) (\<lambda>_.
       sreturn (scene_id, records)))))"

definition scenes_of_definition :: "content_definition_id \<Rightarrow> game_world \<Rightarrow> object_id list" where
  "scenes_of_definition d w =
     map fst (filter (\<lambda>(_, s). map_option co_definition_id (entity_origin_content (scene_origin s)) = Some d)
       (select as_scene w))"

fun resolve_transition_target :: "env \<Rightarrow> scene_transition_target
    \<Rightarrow> (object_id \<times> domain_record list) cmd" where
  "resolve_transition_target E (ExistingScene scene_id) =
     sbind (query (\<lambda>w. get_scene w scene_id)) (\<lambda>_. sreturn (scene_id, []))"
| "resolve_transition_target E (SceneDefinition d) =
     sbind (sgets (\<lambda>s. scenes_of_definition d (ex_world s))) (\<lambda>matches.
       case matches of
         [scene_id] \<Rightarrow> sreturn (scene_id, [])
       | [] \<Rightarrow>
           sbind (slift (map_err WorldContent (compile_scene (env_registry E) d))) (materialize_scene E)
       | _ \<Rightarrow> slift (invariant ''scene.definition_single_instance''))"

definition transition_player_checks :: "actor_id \<Rightarrow> game_world \<Rightarrow> world_error + character_record" where
  "transition_player_checks actor w =
     (if actor \<noteq> ws_player_actor (gw_state w) then domain_rule ''only_player_can_transition_scene''
      else rbind (get_character w actor) (\<lambda>player.
        if ch_lifetime player \<noteq> Persistent
        then domain_rule ''player_must_be_persistent_to_transition_scene''
        else Inr player))"

definition transition_target_checks :: "object_id \<Rightarrow> game_world
    \<Rightarrow> world_error + scene_record \<times> scene_record" where
  "transition_target_checks target_id w =
     (if target_id = ws_active_scene (gw_state w) then domain_rule ''scene_already_active''
      else
        rbind (get_scene w target_id) (\<lambda>target.
          if scene_active target then domain_rule ''target_scene_already_active''
          else
            rbind (get_place w (scene_entry_place target)) (\<lambda>place.
              if place_scene_id place \<noteq> target_id then invariant ''scene.entry_place''
              else
                rbind (require_object w (ws_active_scene (gw_state w))) (\<lambda>_.
                rbind (get_scene w (ws_active_scene (gw_state w))) (\<lambda>current.
                  Inr (current, target))))))"

definition transition_scene :: "env \<Rightarrow> tx \<Rightarrow> actor_id \<Rightarrow> scene_transition_target \<Rightarrow> change_parts cmd" where
  "transition_scene E t actor transition =
     sbind (query (transition_player_checks actor)) (\<lambda>player.
     sbind (resolve_transition_target E transition) (\<lambda>(target_id, created).
     sbind (query (transition_target_checks target_id)) (\<lambda>(current, target).
     sbind (sgets (\<lambda>s. gw_state (ex_world s))) (\<lambda>state.
     let destination = scene_entry_place target;
         left_record = SceneRec (current\<lparr>scene_active := False\<rparr>);
         entered_record = SceneRec (target\<lparr>scene_active := True\<rparr>);
         player_record = CharacterRec (player\<lparr>ch_location := destination\<rparr>);
         new_state = state\<lparr>ws_active_scene := target_id\<rparr>
     in
     sbind (store_component (ws_active_scene state) left_record) (\<lambda>_.
     sbind (store_component target_id entered_record) (\<lambda>_.
     sbind (store_component (object_id_of actor) player_record) (\<lambda>_.
     sbind (modify_world (\<lambda>w. w\<lparr>gw_state := new_state\<rparr>)) (\<lambda>_.
     sbind (event E t actor (CharacterMoved actor (ch_location player) destination)) (\<lambda>moved.
     sbind (event E t actor (SceneLeft (ws_active_scene state))) (\<lambda>left_event.
     sbind (event E t actor (SceneEntered target_id)) (\<lambda>entered.
     sbind (summary ''scene transitioned'') (\<lambda>sm.
       sreturn \<lparr>cp_upserts = created @ [WorldStateRec new_state, left_record, entered_record,
                  player_record],
                cp_deletes = [], cp_events = [moved, left_event, entered],
                cp_summary = sm\<rparr>))))))))))))"

end
