(* ===== verification/World_Execute.thy ===== *)
theory World_Execute
  imports World_Clock World_Spawn
begin

text \<open>
  Executing a command and starting a world (\<open>game_world.rs\<close>: \<open>execute\<close>, \<open>execute_inner\<close>,
  \<open>bootstrap_with_player\<close>).

  A command runs on the world, the generator, and fresh vectors and budget. \<open>execute\<close> returns the
  outcome together with the world it leaves behind, which after an error is rebuilt from the
  records projected before the command; the outer \<open>None\<close> is a clock loop that does not end.
\<close>

section \<open>Commands\<close>

definition start_exec :: "game_world \<Rightarrow> id_generator \<Rightarrow> exec" where
  "start_exec w ids = \<lparr>ex_world = w, ex_ids = ids, ex_budget = execution_budget_default,
     ex_upserts = [], ex_events = []\<rparr>"

definition ret :: "'a cmd \<Rightarrow> 'a run" where
  "ret m = (\<lambda>s. Some (m s))"

fun run_command :: "env \<Rightarrow> tx \<Rightarrow> actor_id \<Rightarrow> world_command_kind \<Rightarrow> change_parts run" where
  "run_command E t actor (Move destination) = ret (move_character E t actor destination)"
| "run_command E t actor (TransferItem i c) = ret (transfer_item E t actor i c)"
| "run_command E t actor (EquipItem i slot) = ret (equip_item E t actor i slot)"
| "run_command E t actor (SplitStack i quantity) = ret (split_stack E t actor i quantity)"
| "run_command E t actor (UseSkill grant target) = ret (use_skill E t actor grant target)"
| "run_command E t actor (AdvanceTime n) = advance_time E t actor n"
| "run_command E t actor (SpawnCharacter spec) = ret (spawn_character E t actor spec)"
| "run_command E t actor (PromoteCharacter target) = ret (promote_character E t actor target)"
| "run_command E t actor (TransitionScene target) = ret (transition_scene E t actor target)"
| "run_command E t actor (CreateScene name framing entry_name entry_description origin) =
     ret (create_scene E t actor name framing entry_name entry_description origin)"
| "run_command E t actor (CreatePlace name description origin) =
     ret (create_place E t actor name description origin)"
| "run_command E t actor (AppendTranscript vs) = ret (append_transcripts E t actor vs)"
| "run_command E t actor (ChooseEventOption i option_id) =
     ret (choose_event_option E t actor i option_id)"
| "run_command E t actor (PerformGameplayAction i arguments) =
     ret (perform_gameplay_action E t actor i arguments)"

text \<open>After the handler: the rules run on its vectors, then the world is validated at the new
  revision and the change set is put together.\<close>

definition run_rules :: "env \<Rightarrow> tx \<Rightarrow> actor_id \<Rightarrow> change_parts \<Rightarrow> unit cmd" where
  "run_rules E t actor parts =
     sbind (smodify (\<lambda>s. s\<lparr>ex_upserts := cp_upserts parts, ex_events := cp_events parts\<rparr>)) (\<lambda>_.
       run_declarative_rules E t actor)"

definition seal :: "env \<Rightarrow> tx \<Rightarrow> revision \<Rightarrow> change_parts \<Rightarrow> execution_change_set cmd" where
  "seal E t expected parts =
     sbind (modify_world (\<lambda>w. w\<lparr>gw_revision := snd t\<rparr>)) (\<lambda>_.
     sbind (query (validate_world E)) (\<lambda>_.
     sbind (sgets ex_upserts) (\<lambda>collected_upserts.
     sbind (slift (coalesce_upserts (env_uuid E) collected_upserts)) (\<lambda>upserts.
     sbind (sgets ex_events) (\<lambda>events.
       sreturn \<lparr>cs_action_id = fst t, cs_expected_revision = expected, cs_revision = snd t,
                cs_upserts = upserts, cs_deletes = cp_deletes parts,
                cs_events = sort_key we_id events, cs_safe_summary = cp_summary parts\<rparr>)))))"

definition execute_inner :: "env \<Rightarrow> world_command \<Rightarrow> execution_change_set run" where
  "execute_inner E c =
     then_run (query (\<lambda>w. map_err WorldRevision (revision_next (gw_revision w)))) (\<lambda>revision.
       let t = (wc_action_id c, revision) in
       run_then (run_command E t (wc_actor_id c) (wc_kind c)) (\<lambda>parts.
         sbind (run_rules E t (wc_actor_id c) parts) (\<lambda>_.
           seal E t (wc_expected_revision c) parts)))"

text \<open>What \<open>execute\<close> leaves: the outcome, the world, and on success the generator.\<close>

definition rollback :: "env \<Rightarrow> game_world \<Rightarrow> domain_record list \<Rightarrow> world_error + game_world" where
  "rollback E w records =
     rbind (from_records E (gw_revision w) records (gw_config w))
       (restore_session_parameters E (gw_session w))"

datatype outcome =
    Executed execution_change_set exec
  | Rejected world_error game_world
  | RollbackFailed world_error

definition execute :: "env \<Rightarrow> game_world \<Rightarrow> id_generator \<Rightarrow> world_command \<Rightarrow> outcome option" where
  "execute E w ids c =
     (if wc_expected_revision c \<noteq> gw_revision w
      then Some (Rejected (Conflict (wc_expected_revision c) (gw_revision w)) w)
      else
        case project_records E w of
          Inl e \<Rightarrow> Some (Rejected e w)
        | Inr records \<Rightarrow>
            map_option (\<lambda>r. case r of
                Inr (changes, s) \<Rightarrow> Executed changes s
              | Inl e \<Rightarrow> (case rollback E w records of
                            Inl e' \<Rightarrow> RollbackFailed e'
                          | Inr restored \<Rightarrow> Rejected e restored))
              (execute_inner E c (start_exec w ids)))"

section \<open>Starting a world\<close>

record world_bootstrap =
  wbs_world_id :: world_id
  wbs_records :: "domain_record list"
  wbs_active_scene :: object_id
  wbs_player_actor :: actor_id
  wbs_characters :: "(short_text, actor_id) btree"

definition add_character_id :: "env \<Rightarrow> (short_text, actor_id) btree \<Rightarrow> scene_character_spawn_plan
    \<Rightarrow> (short_text, actor_id) btree gen" where
  "add_character_id E characters entry =
     sbind (new_id E) (\<lambda>i.
       if bt_contains (scp_local_key entry) characters
       then slift (invariant ''bootstrap.character_local_key_unique'')
       else sreturn (bt_insert (scp_local_key entry) (ActorId i) characters))"

type_synonym overrides = "(content_definition_id, parameter_value) btree"

definition bootstrap_spec :: "env \<Rightarrow> player_bootstrap \<Rightarrow> overrides \<Rightarrow> scene_character_spawn_plan
    \<Rightarrow> character_compile_request \<Rightarrow> (world_error + character_spawn_spec \<times> overrides) option" where
  "bootstrap_spec E player overrides entry request =
     (if scp_controller entry = PlayerController
      then map_option (\<lambda>r. rbind (map_err WorldContent r) (\<lambda>c.
             Inr (cpl_character c, cpl_parameter_overrides c)))
           (compile_player (env_registry E) (scp_character_id entry) player request)
      else Some (rbind (map_err WorldContent
             (compile_character (env_registry E) (scp_character_id entry) request)) (\<lambda>spec.
               Inr (spec, overrides))))"

definition bootstrap_character :: "env \<Rightarrow> world_config \<Rightarrow> player_bootstrap \<Rightarrow> object_id
    \<Rightarrow> (content_definition_id, object_id) btree \<Rightarrow> (short_text, actor_id) btree
    \<Rightarrow> overrides \<times> domain_record list \<Rightarrow> scene_character_spawn_plan \<Rightarrow> id_generator
    \<Rightarrow> (world_error + (overrides \<times> domain_record list) \<times> id_generator) option" where
  "bootstrap_character E config player scene_id place_ids characters acc entry ids =
     (case bt_get (scp_place_id entry) place_ids of
        None \<Rightarrow> Some (invariant ''bootstrap.character_place'')
      | Some place_id \<Rightarrow>
          map_option (\<lambda>r. rbind r (\<lambda>(spec, overrides).
              rbind (materialize_character_records E config world_time_zero spec
                       (the (bt_get (scp_local_key entry) characters)) ids) (\<lambda>(records, ids').
                Inr ((overrides, snd acc @ records), ids'))))
            (bootstrap_spec E player (fst acc) entry
               \<lparr>ccr_scene_id = scene_id, ccr_place_id = place_id,
                ccr_controller = scp_controller entry,
                ccr_lifetime = character_lifetime_of scene_id (scp_lifetime entry)\<rparr>))"

fun bootstrap_characters :: "env \<Rightarrow> world_config \<Rightarrow> player_bootstrap \<Rightarrow> object_id
    \<Rightarrow> (content_definition_id, object_id) btree \<Rightarrow> (short_text, actor_id) btree
    \<Rightarrow> overrides \<times> domain_record list \<Rightarrow> scene_character_spawn_plan list \<Rightarrow> id_generator
    \<Rightarrow> (world_error + (overrides \<times> domain_record list) \<times> id_generator) option" where
  "bootstrap_characters E config player scene_id place_ids characters acc [] ids =
     Some (Inr (acc, ids))"
| "bootstrap_characters E config player scene_id place_ids characters acc (entry # entries) ids =
     (case bootstrap_character E config player scene_id place_ids characters acc entry ids of
        None \<Rightarrow> None
      | Some (Inl e) \<Rightarrow> Some (Inl e)
      | Some (Inr (acc', ids')) \<Rightarrow>
          bootstrap_characters E config player scene_id place_ids characters acc' entries ids')"

definition saved_parameters :: "env \<Rightarrow> overrides \<Rightarrow> (content_definition_id, overrides) btree" where
  "saved_parameters E overrides =
     fold (\<lambda>(_, e) sets.
       case reg_definition e of
         ParameterDef d \<Rightarrow>
           if pd_persistence d = SaveParameter
           then
             let pack = co_pack_id (reg_origin e);
                 values = (case bt_get pack sets of None \<Rightarrow> [] | Some m \<Rightarrow> m);
                 initial = (case bt_get (pd_id d) overrides of None \<Rightarrow> pd_default d | Some v \<Rightarrow> v)
             in bt_insert pack (bt_insert (pd_id d) initial values) sets
           else sets
       | _ \<Rightarrow> sets) (dr_definitions (env_registry E)) []"

definition rule_ids :: "env \<Rightarrow> content_definition_id list" where
  "rule_ids E = sort (List.map_filter (\<lambda>(_, e).
     case reg_definition e of RuleDef d \<Rightarrow> Some (rd_id d) | _ \<Rightarrow> None) (dr_definitions (env_registry E)))"

definition bootstrap_parameter_set :: "env \<Rightarrow> content_definition_id \<times> overrides
    \<Rightarrow> domain_record gen" where
  "bootstrap_parameter_set E p =
     sbind (new_id E) (\<lambda>i.
       sreturn (ParameterSetRec \<lparr>ps_id = i, ps_schema_id = fst p, ps_values = snd p\<rparr>))"

definition bootstrap_rule_state :: "env \<Rightarrow> content_definition_id \<Rightarrow> domain_record gen" where
  "bootstrap_rule_state E d =
     sbind (new_id E) (\<lambda>i.
       sreturn (RuleStateRec \<lparr>rs_id = i, rs_definition_id = d, rs_values = [], rs_trigger_count = 0,
                              rs_last_triggered_at = None\<rparr>))"

record bootstrap_frame =
  bf_world_id :: world_id
  bf_scene_id :: object_id
  bf_place_ids :: "(content_definition_id, object_id) btree"
  bf_characters :: "(short_text, actor_id) btree"
  bf_player :: actor_id
  bf_entries :: "scene_character_spawn_plan list"
  bf_records :: "domain_record list"

text \<open>Up to the records of the scene and its places.\<close>

definition bootstrap_start :: "env \<Rightarrow> scene_spawn_plan \<Rightarrow> u8 list \<Rightarrow> bootstrap_frame gen" where
  "bootstrap_start E plan rng_seed =
     sbind (new_id E) (\<lambda>world_id.
     sbind (new_id E) (\<lambda>scene_id.
     let places = sort_key spp_definition_id (ssp_places plan) in
     sbind (sfold (add_place_id E ''bootstrap.place_definition_unique'') [] places) (\<lambda>place_ids.
     sbind (slift (ok_or (Invariant ''bootstrap.entry_place'') (bt_get (ssp_entry_place plan) place_ids)))
       (\<lambda>entry.
     let entries = sort_key scp_local_key (ssp_characters plan) in
     sbind (sfold (add_character_id E) [] entries) (\<lambda>characters.
     case filter (\<lambda>e. scp_controller e = PlayerController) entries of
       [player] \<Rightarrow>
         let player_actor = the (bt_get (scp_local_key player) characters) in
         sbind (slift (rmapM (materialize_place ''bootstrap.place_edge'' scene_id place_ids) places))
           (\<lambda>place_records.
              sreturn \<lparr>bf_world_id = world_id, bf_scene_id = scene_id, bf_place_ids = place_ids,
                bf_characters = characters, bf_player = player_actor, bf_entries = entries,
                bf_records = [WorldStateRec \<lparr>ws_id = world_id, ws_player_actor = player_actor,
                    ws_active_scene = scene_id, ws_clock = world_time_zero, ws_rng_seed = rng_seed\<rparr>,
                  plan_scene plan scene_id entry True] @ place_records\<rparr>)
     | _ \<Rightarrow> slift (invariant ''bootstrap.exactly_one_player''))))))"

definition bootstrap_finish :: "env \<Rightarrow> world_config \<Rightarrow> bootstrap_frame \<Rightarrow> overrides \<times> domain_record list
    \<Rightarrow> world_bootstrap gen" where
  "bootstrap_finish E config f acc =
     sbind (smapM (bootstrap_parameter_set E) (saved_parameters E (fst acc))) (\<lambda>parameter_sets.
     sbind (smapM (bootstrap_rule_state E) (rule_ids E)) (\<lambda>rule_states.
     let records = sort_key (domain_sort_key (env_uuid E)) (snd acc @ parameter_sets @ rule_states) in
     sbind (slift (from_records E revision_zero records config)) (\<lambda>_.
       sreturn \<lparr>wbs_world_id = bf_world_id f, wbs_records = records,
                wbs_active_scene = bf_scene_id f, wbs_player_actor = bf_player f,
                wbs_characters = bf_characters f\<rparr>)))"

definition bootstrap_with_player :: "env \<Rightarrow> scene_spawn_plan \<Rightarrow> player_bootstrap \<Rightarrow> u8 list
    \<Rightarrow> world_config \<Rightarrow> id_generator \<Rightarrow> (world_error + world_bootstrap \<times> id_generator) option" where
  "bootstrap_with_player E plan player rng_seed config ids =
     (case bootstrap_start E plan rng_seed ids of
        Inl e \<Rightarrow> Some (Inl e)
      | Inr (f, ids') \<Rightarrow>
          map_option (\<lambda>r. rbind r (\<lambda>(acc, ids''). bootstrap_finish E config f acc ids''))
            (bootstrap_characters E config player (bf_scene_id f) (bf_place_ids f) (bf_characters f)
               ([], bf_records f) (bf_entries f) ids'))"

definition bootstrap :: "env \<Rightarrow> scene_spawn_plan \<Rightarrow> u8 list \<Rightarrow> world_config \<Rightarrow> id_generator
    \<Rightarrow> (world_error + world_bootstrap \<times> id_generator) option" where
  "bootstrap E plan = bootstrap_with_player E plan FixedPlayer"

end
