(* ===== verification/World_Reload.thy ===== *)
theory World_Reload
  imports World_Views World_Execute
begin

text \<open>
  Projecting a world and loading it again. A sound world is a well-formed one that passed
  validation; from the laws of the keyed store, its records load back to the same world whatever
  their order, up to the session parameters, which no record holds. With the session restored this
  is the rollback of a failed command.
\<close>

section \<open>Sound worlds\<close>

definition world_sound :: "env \<Rightarrow> game_world \<Rightarrow> bool" where
  "world_sound E w \<longleftrightarrow> world_ok w
     \<and> transcripts_valid w
     \<and> validate_rule_limits (config_rule_limits (gw_config w)) = Inr ()
     \<and> validate_world E w = Inr ()"

text \<open>The world would also pass validation with every session parameter at its default.\<close>

definition default_session_ok :: "env \<Rightarrow> game_world \<Rightarrow> bool" where
  "default_session_ok E w \<longleftrightarrow> validate_world E (w\<lparr>gw_session := session_defaults E\<rparr>) = Inr ()"

lemma world_at_slot:
  assumes "world_ok w" and "world_at w k = Some r"
  shows "slot_of r = k"
proof (cases k)
  case (ObjectSlot i)
  with entity_at [OF assms(1), of i r] assms(2) show ?thesis
    by (auto intro: slot_of_object)
qed (use assms in \<open>auto simp: world_ok_def transcripts_ok_def\<close>)

lemma validate_world_entities:
  assumes "validate_world E w = Inr ()" and "(i, e) \<in> set (gw_objects w)"
  shows "domain_validate (component e) = Inr ()"
proof -
  from assms(1) obtain acc where "rfold (validate_entity w) (0, []) (gw_objects w) = Inr acc"
    by (auto simp: validate_world_def rbind_Inr_iff split: if_splits)
  from rfold_element [OF this assms(2)] show ?thesis
    by (auto simp: validate_entity_def rbind_Inr_iff map_err_Inr_iff project_entity_def
        split: if_splits option.splits)
qed

lemma world_sound_admissible:
  assumes "world_sound E w"
  shows "list_all admissible (world_records w)"
proof -
  have "admissible (component e)" if "(i, e) \<in> set (gw_objects w)" for i e
    using assms that validate_world_entities by (auto simp: world_sound_def admissible_def)
  with assms show ?thesis
    by (auto simp: world_records_def list_all_iff bt_values_def admissible_def world_sound_def
        transcripts_valid_def)
qed

section \<open>Loading the records of a world\<close>

lemma loading_ok_empty: "loading_ok empty_builder"
  by (simp add: loading_ok_def empty_builder_def objects_ok_def transcripts_ok_def)

lemma slot_get_empty: "slot_get empty_builder k = None"
  by (cases k) (simp_all add: empty_builder_def)

lemma load_world_records:
  assumes "world_ok w" and "list_all admissible (world_records w)"
    and "mset records = mset (world_records w)"
  shows "load_records records = Inr (builder_of w)"
  unfolding load_records_def
proof (rule builder.reload)
  have set: "set records = set (world_records w)"
    using assms(3) by (metis set_mset_mset)
  show "loading_ok (builder_of w)"
    using assms(1) by (simp add: loading_ok_def builder_of_def world_ok_def)
  have "mset (map slot_of records) = mset (map slot_of (world_records w))"
    using assms(3) by simp
  then show "distinct (map slot_of records)"
    using world_records_distinct [OF assms(1)] mset_eq_imp_distinct_iff by blast
  show "list_all admissible records"
    using assms(2) set by (simp add: list_all_iff)
  show "slot_get (builder_of w) k = Some v \<longleftrightarrow> v \<in> set records \<and> slot_of v = k" for k v
    using world_records_set [OF assms(1), of v] world_at_slot [OF assms(1), of k v]
    by (auto simp: set world_at_def)
qed (rule loading_ok_empty slot_get_empty)+

lemma from_records_reload:
  assumes "world_ok w" and "list_all admissible (world_records w)"
    and "mset records = mset (world_records w)"
  shows "from_records E r records config =
    rbind (validate_rule_limits (config_rule_limits config)) (\<lambda>_.
      let w' = w\<lparr>gw_revision := r, gw_session := session_defaults E, gw_config := config\<rparr>
      in rbind (validate_world E w') (\<lambda>_. Inr w'))"
  using load_world_records [OF assms]
  by (cases w) (simp add: from_records_def builder_of_def Let_def)

section \<open>Rolling back\<close>

lemma require_object_cong: "gw_objects w' = gw_objects w \<Longrightarrow> require_object w' = require_object w"
  by (simp add: require_object_def fun_eq_iff)

lemma validate_parameter_value_cong:
  assumes "gw_objects w' = gw_objects w"
  shows "validate_parameter_value w' t v = validate_parameter_value w t v"
  by (cases t; cases v) (simp_all add: require_object_cong [OF assms])

lemma validate_session_value_cong:
  assumes "gw_objects w' = gw_objects w"
  shows "validate_session_value E w' p = validate_session_value E w p"
  unfolding validate_session_value_def validate_parameter_value_cong [OF assms] ..

lemma validate_world_session:
  assumes "validate_world E w = Inr ()"
  shows "bs_of_list (bt_keys (gw_session w)) = expected_parameters E SessionParameter"
    and "rforeach (validate_session_value E w) (gw_session w) = Inr ()"
  using assms
  by (auto simp: validate_world_def validate_references_def rbind_Inr_iff split: if_splits)

lemma rollback_restores:
  assumes "world_sound E w" and "default_session_ok E w" and "project_records E w = Inr records"
  shows "rollback E w records = Inr w"
proof -
  have ok: "world_ok w" and v: "validate_world E w = Inr ()"
    and lim: "validate_rule_limits (config_rule_limits (gw_config w)) = Inr ()"
    using assms(1) by (simp_all add: world_sound_def)
  let ?w = "w\<lparr>gw_session := session_defaults E\<rparr>"
  have "records = sort_key (domain_sort_key (env_uuid E)) (world_records w)"
    using assms(3) by (simp add: project_records_eq [OF ok])
  then have "mset records = mset (world_records w)"
    by simp
  from from_records_reload [OF ok world_sound_admissible [OF assms(1)] this]
  have "from_records E (gw_revision w) records (gw_config w) = Inr ?w"
    using assms(2) lim by (simp add: default_session_ok_def)
  moreover have "rforeach (validate_session_value E ?w) (gw_session w) = Inr ()"
    using validate_world_session(2) [OF v] validate_session_value_cong [of ?w w E]
    by (simp add: rforeach_Inr_iff)
  ultimately show ?thesis
    using validate_world_session(1) [OF v]
    by (simp add: rollback_def restore_session_parameters_def)
qed

end
