(* ===== verification/Rule_Relations.thy ===== *)
theory Rule_Relations
  imports World_Rules
begin

text \<open>
  The relations the whole rule cascade keeps: those of \<open>effect_relation\<close> that a charge for a rule
  keeps as well.
\<close>

locale rule_relation = effect_relation R E t
  for R :: "exec \<Rightarrow> exec \<Rightarrow> bool" and E :: env and t :: tx +
  assumes keeps_charge_rule: "keeps R (charge charge_rule)"
begin

lemma keeps_store_rule_state:
  assumes "\<And>x. keeps R (g x)"
  shows "keeps R (sbind (query (triggered_state i)) (\<lambda>st.
    sbind (store_and_emit i (RuleStateRec st)) (\<lambda>_. g st)))"
proof (rule keeps_query_store [where i = "\<lambda>_. i"])
  fix w st
  assume "triggered_state i w = Inr st" and ok: "objects_ok (gw_objects w)"
  then obtain st0 where "component_at w i = Some (RuleStateRec st0)" "rs_id st = rs_id st0"
    by (auto simp: triggered_state_def res_inv component_at_Some_iff)
  with ok show "overwrites w i (RuleStateRec st)
      \<and> scheduled E (clock_of w) (component_at w i) (RuleStateRec st)"
    by (auto intro: overwritesI)
qed (rule assms)

lemma keeps_trigger_once: "keeps R (trigger_once E t actor signal state_id rule q)"
  unfolding trigger_once_def
  by (intro keeps_prim keeps_evaluate keeps_charge_rule keeps_apply_effects keeps_store_rule_state)

lemma keeps_trigger_times: "keeps R (trigger_times E t actor signal state_id rule n q)"
  by (induction n arbitrary: q) (auto intro: keeps_sreturn keeps_sbind keeps_trigger_once)

lemma keeps_process_signal: "keeps R (process_signal E t actor signal q)"
  unfolding process_signal_def
  by (intro keeps_sbind keeps_query keeps_sfold)
    (auto simp: run_candidate_def keeps_trigger_times split: prod.splits)

lemma keeps_rule_loop:
  "rule_loop E' t' actor q s = Inr (u, s') \<Longrightarrow> E' = E \<Longrightarrow> t' = t \<Longrightarrow> R s s'"
proof (induction E' t' actor q s rule: rule_loop.induct)
  case (2 E' t' actor signal signals s)
  from "2.prems" obtain q s1 where s1: "process_signal E t actor signal signals s = Inr (q, s1)"
    and rest: "rule_loop E t actor q s1 = Inr (u, s')"
    by (auto simp: rbind_Inr_iff)
  from "2.IH" [of "(q, s1)" q s1] s1 rest "2.prems"(2,3) have "R s1 s'"
    by simp
  with keepsD [OF keeps_process_signal s1] show ?case
    by (rule trans)
qed (simp add: refl)

lemma keeps_run_declarative_rules: "keeps R (run_declarative_rules E t actor)"
  unfolding run_declarative_rules_def
  by (intro keeps_sbind keeps_sgets keeps_query keepsI) (rule keeps_rule_loop, assumption, (rule HOL.refl)+)

end

end
