(* ===== verification/Clock_Relations.thy ===== *)
theory Clock_Relations
  imports Rule_Relations World_Clock World_Views
begin

text \<open>
  The clock loop. Every relation the effects keep is kept by the conditions that tick while the
  clock stands at their boundary; what a step preserves holds when the loop returns; and the loop
  does return when no registered interval or duration is zero (\<open>advance_loop_returns\<close>): a step
  leaves no boundary at or before the one it handled.
\<close>

lemma condition_at_Inr_iff [res_inv]:
  "condition_at i w = Inr c \<longleftrightarrow> component_at w i = Some (ConditionRec c)"
  by (auto simp: condition_at_def res_inv component_at_Some_iff)

lemma ticked_condition_Inr:
  assumes "ticked_condition E b k c = Inr (c', periodic)"
  shows "\<exists>x. c' = c\<lparr>cond_next_periodic_at := Some x\<rparr> \<and> (\<forall>old. rescheduled E b old (Some x))"
proof -
  from assms obtain d x where d: "condition_definition E k = Inr d" "cd_periodic d = Some periodic"
    and x: "world_time_add b (ped_interval_ticks periodic) = Inr x"
    and c': "c' = c\<lparr>cond_next_periodic_at := Some x\<rparr>"
    by (auto simp: ticked_condition_def res_inv)
  from d(1) obtain entry where "registry_get (env_registry E) k = Some entry"
    "reg_definition entry = ConditionDef d"
    by (auto simp: condition_definition_def definition_of_def split: option.splits content_definition.splits)
  then have "registered_condition E d"
    by (auto simp: registered_condition_def)
  moreover have "condition_periodic d b = Inr (Some x)"
    using d(2) x by (simp add: condition_periodic_def)
  ultimately show ?thesis
    using c' rescheduled_periodic by blast
qed

context effect_relation begin

lemma keeps_tick_condition:
  assumes run: "tick_condition E t b p s = Inr (u, s')" and now: "clock_of (ex_world s) = b"
  shows "R s s'"
proof -
  from run obtain c where c: "component_at (ex_world s) (snd p) = Some (ConditionRec c)"
    by (auto simp: tick_condition_def sbind_Inr_iff query_Inr_iff condition_at_Inr_iff)
  show ?thesis
  proof (cases "cond_next_periodic_at c = Some b")
    case True
    with run c obtain c' periodic s1 where c': "ticked_condition E b (fst p) c = Inr (c', periodic)"
      and s1: "emit_event E t (cond_target_id c') (ConditionTicked (snd p) b)
        (stored_state (snd p) (ConditionRec c') s) = Inr ((), s1)"
      and s': "apply_effects E t (cond_target_id c') (fst p) (ped_effects periodic) s1 = Inr (u, s')"
      by (auto simp: tick_condition_def res_inv)
    from ticked_condition_Inr [OF c'] have same: "cond_id c' = cond_id c"
      and "scheduled E b (component_at (ex_world s) (snd p)) (ConditionRec c')"
      using c by (auto simp: scheduled_def rescheduled_def)
    moreover have "overwrites (ex_world s) (snd p) (ConditionRec c')"
      if "objects_ok (gw_objects (ex_world s))"
      using c same that by (intro overwritesI [of _ _ "ConditionRec c"]) simp_all
    ultimately have "R s (stored_state (snd p) (ConditionRec c') s)"
      using now by (intro keeps_store) simp
    from trans [OF this trans [OF keepsD [OF keeps_emit_event s1] keepsD [OF keeps_apply_effects s']]]
    show ?thesis .
  qed (use run c in \<open>auto simp: tick_condition_def res_inv refl\<close>)
qed

end

lemma tick_condition_frame:
  "tick_condition E t b p s = Inr (u, s') \<Longrightarrow> clock_of (ex_world s) = b
    \<Longrightarrow> framed (ex_world s) (ex_world s')"
  by (rule frame.keeps_tick_condition)

context effect_relation begin

lemma keeps_tick_conditions:
  "sforeach (tick_condition E t b) ps s = Inr (u, s') \<Longrightarrow> clock_of (ex_world s) = b \<Longrightarrow> R s s'"
proof (induction ps arbitrary: s)
  case (Cons p ps)
  then obtain v s1 where s1: "tick_condition E t b p s = Inr (v, s1)"
    and rest: "sforeach (tick_condition E t b) ps s1 = Inr (u, s')"
    by (auto simp: sbind_Inr_iff)
  have "clock_of (ex_world s1) = b"
    using tick_condition_frame [OF s1] Cons.prems(2) by (simp add: framed_def)
  with Cons.IH [OF rest] keeps_tick_condition [OF s1 Cons.prems(2)] show ?case
    by (blast intro: trans)
qed (simp add: sreturn_Inr_iff refl)

end

lemma tick_conditions_clock:
  "sforeach (tick_condition E t b) ps s = Inr (u, s') \<Longrightarrow> clock_of (ex_world s) = b
    \<Longrightarrow> clock_of (ex_world s') = b"
  using frame.keeps_tick_conditions by (fastforce simp: framed_def)

lemma set_clock_Inr_iff [res_inv]:
  "set_clock b s = Inr (u, s')
    \<longleftrightarrow> s' = s\<lparr>ex_world := ex_world s\<lparr>gw_state := gw_state (ex_world s)\<lparr>ws_clock := b\<rparr>\<rparr>\<rparr>"
  by (simp add: set_clock_def modify_world_Inr_iff)

lemma advance_step_Inr:
  assumes "advance_step E t b ds s = Inr (ds', s')"
  obtains s1 s2 where "set_clock b s = Inr ((), s1)" and "clock_of (ex_world s1) = b"
    and "sforeach (tick_condition E t b) (conditions_periodic_at b (ex_world s1)) s1 = Inr ((), s2)"
    and "sfold (expire_condition E t b) ds (conditions_expiring_at b (ex_world s2)) s2 = Inr (ds', s')"
  using assms by (auto simp: advance_step_def sbind_Inr_iff sgets_Inr_iff set_clock_Inr_iff)

lemma advance_loop_invariant [consumes 2, case_names step]:
  assumes "advance_loop E t to ds s = Some (Inr (ds', s'))" and "P ds s"
    and inv: "\<And>b ds s ds' s'. P ds s \<Longrightarrow> advance_step E t b ds s = Inr (ds', s') \<Longrightarrow> P ds' s'"
  shows "P ds' s'"
proof -
  have "\<forall>ds' s'. r = Inr (ds', s') \<longrightarrow> P ds' s'"
    if "advance_loop E' t' to ds s = Some r" "E' = E" "t' = t" "P ds s" for E' t' r
    using that
  proof (induction rule: advance_loop.raw_induct [rotated, consumes 1, case_names step])
    case (step advance_loop E' t' to ds s r)
    show ?case
    proof (cases "next_condition_boundary to (ex_world s)")
      case (Some b)
      show ?thesis
      proof (cases "advance_step E t b ds s")
        case (Inr p)
        obtain ds1 s1 where p: "p = (ds1, s1)"
          by (cases p)
        have "advance_loop E' t' to ds1 s1 = Some r"
          using step(2-4) Some Inr p by simp
        from step(1) [OF this step(3,4)] inv [OF step(5)] Inr p show ?thesis
          by blast
      qed (use step(2-4) Some in auto)
    qed (use step(2,5) in auto)
  qed
  with assms(1,2) show ?thesis by blast
qed

section \<open>Boundaries\<close>

definition positive_timing :: "env \<Rightarrow> bool" where
  "positive_timing E \<longleftrightarrow> (\<forall>d. registered_condition E d \<longrightarrow> 0 \<notin> condition_ticks d)"

text \<open>A time that is written at the clock \<open>now\<close> is the old one or a later one.\<close>

definition moved :: "world_time \<Rightarrow> world_time option \<Rightarrow> world_time option \<Rightarrow> bool" where
  "moved now old new \<longleftrightarrow> new = old \<or> (\<forall>x. new = Some x \<longrightarrow> now < x)"

lemma moved_refl [simp]: "moved now x x"
  by (simp add: moved_def)

lemma moved_trans: "moved now x y \<Longrightarrow> moved now y z \<Longrightarrow> moved now x z"
  by (auto simp: moved_def)

lemma moved_now: "moved now old (Some now) \<Longrightarrow> old = Some now"
  by (auto simp: moved_def)

lemma rescheduled_moved:
  assumes "rescheduled E now old new" and "positive_timing E"
  shows "moved now old new"
proof (cases "new = old \<or> new = None")
  case False
  then obtain d n x where d: "registered_condition E d" "n \<in> condition_ticks d"
    and x: "world_time_add now n = Inr x" "new = Some x"
    using assms(1) by (auto simp: rescheduled_def)
  with assms(2) have "n \<noteq> 0"
    by (auto simp: positive_timing_def)
  then have "now < x"
    using x(1) by (simp add: world_time_add_Inr_iff world_time_less_nat unat_gt_0)
  with x(2) show ?thesis
    by (simp add: moved_def)
qed (auto simp: moved_def)

definition time_at :: "(condition_record \<Rightarrow> world_time option) \<Rightarrow> game_world \<Rightarrow> object_id
    \<Rightarrow> world_time option" where
  "time_at f w i = Option.bind (Option.bind (component_at w i) as_condition) f"

abbreviation periodic_time :: "game_world \<Rightarrow> object_id \<Rightarrow> world_time option" where
  "periodic_time \<equiv> time_at cond_next_periodic_at"

abbreviation expiry_time :: "game_world \<Rightarrow> object_id \<Rightarrow> world_time option" where
  "expiry_time \<equiv> time_at cond_expires_at"

definition times_moved :: "game_world \<Rightarrow> game_world \<Rightarrow> bool" where
  "times_moved w w' \<longleftrightarrow> clock_of w' = clock_of w \<and> (objects_ok (gw_objects w) \<longrightarrow>
     objects_ok (gw_objects w')
     \<and> (\<forall>i. moved (clock_of w) (periodic_time w i) (periodic_time w' i)
          \<and> moved (clock_of w) (expiry_time w i) (expiry_time w' i)))"

lemma times_moved_refl: "times_moved w w"
  by (simp add: times_moved_def)

lemma times_moved_trans: "times_moved w v \<Longrightarrow> times_moved v u \<Longrightarrow> times_moved w u"
  by (auto simp: times_moved_def intro: moved_trans)

lemma times_moved_cong: "gw_state w' = gw_state w \<Longrightarrow> gw_objects w' = gw_objects w \<Longrightarrow> times_moved w w'"
  by (simp add: times_moved_def time_at_def component_at_def)

lemma scheduled_moved:
  assumes "scheduled E now old r" and "positive_timing E"
  shows "moved now (Option.bind (Option.bind old as_condition) cond_next_periodic_at)
      (Option.bind (as_condition r) cond_next_periodic_at)"
    and "moved now (Option.bind (Option.bind old as_condition) cond_expires_at)
      (Option.bind (as_condition r) cond_expires_at)"
  using assms by (cases r; force simp: scheduled_def moved_def dest: rescheduled_moved)+

lemma objects_ok_put:
  "objects_ok (gw_objects w) \<Longrightarrow> overwrites w i r \<Longrightarrow> objects_ok (gw_objects (put_component i r w))"
  by (auto simp: overwrites_def put_component_def objects_ok_def entity_ok_def bt_ok_insert
      split: if_splits)

lemma times_moved_put:
  assumes "objects_ok (gw_objects w) \<Longrightarrow> overwrites w i r
      \<and> scheduled E (clock_of w) (component_at w i) r" and "positive_timing E"
  shows "times_moved w (put_component i r w)"
proof -
  have "objects_ok (gw_objects (put_component i r w))
      \<and> moved (clock_of w) (periodic_time w j) (periodic_time (put_component i r w) j)
      \<and> moved (clock_of w) (expiry_time w j) (expiry_time (put_component i r w) j)"
    if ok: "objects_ok (gw_objects w)" for j
  proof -
    from assms(1) [OF ok] have o: "overwrites w i r" and sc: "scheduled E (clock_of w) (component_at w i) r"
      by simp_all
    have "objects_ok (gw_objects (put_component i r w))"
      using ok o by (rule objects_ok_put)
    with scheduled_moved [OF sc assms(2)] show ?thesis
      by (simp add: time_at_def put_component_at [OF o])
  qed
  then show ?thesis
    by (simp add: times_moved_def)
qed

lemma times_moved_spawn:
  assumes "spawn_record w r = Inr w'" and "scheduled E (clock_of w) None r" and "positive_timing E"
  shows "times_moved w w'"
  using assms scheduled_moved [OF assms(2,3)]
  by (auto simp: times_moved_def spawn_record_Inr_iff time_at_def component_at_def objects_ok_insert)

interpretation boundaries: effect_relation "\<lambda>s s'. positive_timing E
    \<longrightarrow> times_moved (ex_world s) (ex_world s')" E t
proof unfold_locales
  fix s :: exec and i r
  assume "objects_ok (gw_objects (ex_world s)) \<longrightarrow> overwrites (ex_world s) i r
      \<and> scheduled E (clock_of (ex_world s)) (component_at (ex_world s) i) r"
  then show "positive_timing E \<longrightarrow> times_moved (ex_world s) (ex_world (stored_state i r s))"
    by (auto simp: stored_state_def intro: times_moved_put)
qed (auto intro!: keepsI intro: times_moved_cong times_moved_trans times_moved_spawn dest!: charge_world)

section \<open>One step\<close>

text \<open>No condition has a boundary before \<open>n\<close>.\<close>

definition quiet_before :: "nat \<Rightarrow> game_world \<Rightarrow> bool" where
  "quiet_before n w \<longleftrightarrow> objects_ok (gw_objects w) \<and> (\<forall>i x. periodic_time w i = Some x \<or> expiry_time w i = Some x
     \<longrightarrow> n \<le> unat (ticks x))"

lemma moved_quiet:
  assumes "moved now old new" and "n \<le> Suc (unat (ticks now))"
    and "\<And>x. old = Some x \<Longrightarrow> n \<le> unat (ticks x)" and "new = Some y"
  shows "n \<le> unat (ticks y)"
  using assms by (auto simp: moved_def world_time_less_nat)

lemma times_moved_quiet:
  assumes "times_moved w w'" and "quiet_before n w" and "n \<le> Suc (unat (ticks (clock_of w)))"
  shows "quiet_before n w'"
  using assms moved_quiet [OF _ assms(3)] unfolding times_moved_def quiet_before_def by metis

lemma time_at_select:
  assumes "objects_ok (gw_objects w)"
  shows "time_at f w i = Some x \<longleftrightarrow> (\<exists>c. (i, c) \<in> set (select as_condition w) \<and> f c = Some x)"
  using assms
  by (auto simp: time_at_def bind_eq_Some_conv select_set component_at_def objects_ok_def bt_ok_get_iff
      split: option.splits)

lemma periodic_at_set:
  assumes "objects_ok (gw_objects w)"
  shows "i \<in> snd ` set (conditions_periodic_at b w) \<longleftrightarrow> periodic_time w i = Some b"
  by (force simp: conditions_periodic_at_def time_at_select [OF assms])

lemma expiring_at_set:
  assumes "objects_ok (gw_objects w)"
  shows "i \<in> snd ` set (conditions_expiring_at b w) \<longleftrightarrow> due_by b (expiry_time w i)"
proof -
  have "due_by b (expiry_time w i) \<longleftrightarrow> (\<exists>x. expiry_time w i = Some x \<and> x \<le> b)"
    by (simp add: due_by_def split: option.split)
  also have "\<dots> \<longleftrightarrow> (\<exists>c. (i, c) \<in> set (select as_condition w) \<and> due_by b (cond_expires_at c))"
    by (auto simp: time_at_select [OF assms] due_by_def split: option.splits)
  finally show ?thesis
    by (force simp: conditions_expiring_at_def)
qed

text \<open>A condition that was due to tick at the clock is not any more once it has been handled.\<close>

lemma tick_condition_done:
  assumes run: "tick_condition E t b p s = Inr (u, s')" and now: "clock_of (ex_world s) = b"
    and E: "positive_timing E" and ok: "objects_ok (gw_objects (ex_world s))"
  shows "periodic_time (ex_world s') (snd p) \<noteq> Some b"
proof -
  from run obtain c where c: "component_at (ex_world s) (snd p) = Some (ConditionRec c)"
    by (auto simp: tick_condition_def sbind_Inr_iff query_Inr_iff condition_at_Inr_iff)
  show ?thesis
  proof (cases "cond_next_periodic_at c = Some b")
    case True
    with run c obtain c' periodic s1 where c': "ticked_condition E b (fst p) c = Inr (c', periodic)"
      and s1: "emit_event E t (cond_target_id c') (ConditionTicked (snd p) b)
        (stored_state (snd p) (ConditionRec c') s) = Inr ((), s1)"
      and s': "apply_effects E t (cond_target_id c') (fst p) (ped_effects periodic) s1 = Inr (u, s')"
      by (auto simp: tick_condition_def res_inv)
    have o: "overwrites (ex_world s) (snd p) (ConditionRec c')"
      using c ticked_condition_Inr [OF c'] by (intro overwritesI [OF ok]) auto
    then have "periodic_time (ex_world (stored_state (snd p) (ConditionRec c') s)) (snd p)
        = cond_next_periodic_at c'"
      by (simp add: stored_state_def time_at_def put_component_at)
    moreover from emit_event_Inr [OF s1] have s1w: "ex_world s1 = ex_world (stored_state (snd p) (ConditionRec c') s)"
      by auto
    moreover have "\<exists>x. cond_next_periodic_at c' = Some x \<and> b < x"
      using ticked_condition_Inr [OF c'] rescheduled_moved [OF _ E, of b None]
      by (fastforce simp: moved_def)
    moreover have "moved b (periodic_time (ex_world s1) i) (periodic_time (ex_world s') i)" for i
    proof -
      have "times_moved (ex_world s1) (ex_world s')"
        using keepsD [OF boundaries.keeps_apply_effects s'] E by blast
      moreover have "clock_of (ex_world s1) = b" "objects_ok (gw_objects (ex_world s1))"
        using s1w now ok o by (auto simp: stored_state_def objects_ok_put)
      ultimately show ?thesis
        by (simp add: times_moved_def)
    qed
    ultimately show ?thesis
      using moved_now by (metis less_irrefl option.inject)
  next
    case False
    then show ?thesis
      using run c by (auto simp: tick_condition_def res_inv time_at_def)
  qed
qed

lemma tick_conditions_done:
  assumes "sforeach (tick_condition E t b) ps s = Inr (u, s')" and "clock_of (ex_world s) = b"
    and "positive_timing E" and "objects_ok (gw_objects (ex_world s))"
    and "\<And>i. periodic_time (ex_world s) i = Some b \<Longrightarrow> i \<in> snd ` set ps"
  shows "periodic_time (ex_world s') i \<noteq> Some b"
  using assms
proof (induction ps arbitrary: s)
  case (Cons p ps)
  then obtain v s1 where s1: "tick_condition E t b p s = Inr (v, s1)"
    and rest: "sforeach (tick_condition E t b) ps s1 = Inr (u, s')"
    by (auto simp: sbind_Inr_iff)
  have moved: "times_moved (ex_world s) (ex_world s1)"
    using boundaries.keeps_tick_condition [OF s1 Cons.prems(2)] Cons.prems(3) by blast
  note handled = tick_condition_done [OF s1 Cons.prems(2-4)]
  show ?case
  proof (rule Cons.IH [OF rest _ Cons.prems(3)])
    fix i
    assume i: "periodic_time (ex_world s1) i = Some b"
    then have "periodic_time (ex_world s) i = Some b"
      using moved Cons.prems(2,4) moved_now [of b "periodic_time (ex_world s) i"]
      by (metis times_moved_def)
    with Cons.prems(5) i handled show "i \<in> snd ` set ps"
      by fastforce
  qed (use moved Cons.prems(2,4) in \<open>simp_all add: times_moved_def\<close>)
qed (auto simp: sreturn_Inr_iff)

text \<open>Expiry only removes conditions, and removes every one that is due.\<close>

definition only_removed :: "world_time \<Rightarrow> game_world \<Rightarrow> game_world \<Rightarrow> bool" where
  "only_removed b w w' \<longleftrightarrow> clock_of w' = clock_of w \<and> (objects_ok (gw_objects w) \<longrightarrow> objects_ok (gw_objects w'))
     \<and> (\<forall>i. component_at w' i = component_at w i \<or> component_at w' i = None)"

lemma expire_condition_removes:
  assumes "expire_condition E t b ds p s = Inr (ds', s')" and ok: "objects_ok (gw_objects (ex_world s))"
  shows "only_removed b (ex_world s) (ex_world s') \<and> \<not> due_by b (expiry_time (ex_world s') (snd p))"
proof -
  from assms(1) obtain c where c: "component_at (ex_world s) (snd p) = Some (ConditionRec c)"
    by (auto simp: expire_condition_def sbind_Inr_iff query_Inr_iff condition_at_Inr_iff)
  show ?thesis
  proof (cases "due_by b (cond_expires_at c)")
    case True
    with assms(1) c obtain s1 where "emit_event E t (cond_target_id c) (ConditionExpired (snd p)) s1 = Inr ((), s')"
      and "ex_world s1 = despawn (snd p) (ex_world s)"
      by (auto simp: expire_condition_def sbind_Inr_iff query_Inr_iff condition_at_Inr_iff
          sreturn_Inr_iff smodify_Inr_iff slift_Inr_iff map_err_Inr_iff modify_world_Inr_iff)
    then have "ex_world s' = despawn (snd p) (ex_world s)"
      by (auto dest: emit_event_Inr)
    with ok show ?thesis
      by (auto simp: only_removed_def despawn_def component_at_def time_at_def objects_ok_def bt_ok_remove
          due_by_def)
  qed (use assms c in \<open>auto simp: expire_condition_def res_inv only_removed_def time_at_def\<close>)
qed

lemma expire_conditions_remove:
  assumes "sfold (expire_condition E t b) ds qs s = Inr (ds', s')"
    and "objects_ok (gw_objects (ex_world s))"
  shows "only_removed b (ex_world s) (ex_world s')
    \<and> (\<forall>i\<in>snd ` set qs. \<not> due_by b (expiry_time (ex_world s') i))"
  using assms
proof (induction qs arbitrary: ds s)
  case (Cons q qs)
  then obtain ds1 s1 where s1: "expire_condition E t b ds q s = Inr (ds1, s1)"
    and rest: "sfold (expire_condition E t b) ds1 qs s1 = Inr (ds', s')"
    by (auto simp: sbind_Inr_iff)
  from expire_condition_removes [OF s1 Cons.prems(2)] Cons.prems(2)
  have r1: "only_removed b (ex_world s) (ex_world s1)" "\<not> due_by b (expiry_time (ex_world s1) (snd q))"
    and ok: "objects_ok (gw_objects (ex_world s1))"
    by (simp_all add: only_removed_def)
  from Cons.IH [OF rest ok] have r2: "only_removed b (ex_world s1) (ex_world s')"
    and qs: "\<forall>i\<in>snd ` set qs. \<not> due_by b (expiry_time (ex_world s') i)"
    by simp_all
  have "only_removed b (ex_world s) (ex_world s')"
    using r1(1) r2 unfolding only_removed_def by metis
  moreover have "component_at (ex_world s') i = component_at (ex_world s1) i
      \<or> component_at (ex_world s') i = None" for i
    using r2 by (simp add: only_removed_def)
  then have "\<not> due_by b (expiry_time (ex_world s') (snd q))"
    using r1(2) by (metis time_at_def due_by_def bind.bind_lzero option.simps(4))
  ultimately show ?case
    using qs by simp
qed (simp add: sreturn_Inr_iff only_removed_def)

text \<open>A step leaves no boundary at or before the one it handles.\<close>

lemma advance_step_quiet:
  assumes E: "positive_timing E" and q: "quiet_before (unat (ticks b)) (ex_world s)"
    and run: "advance_step E t b ds s = Inr (ds', s')"
  shows "quiet_before (Suc (unat (ticks b))) (ex_world s')"
proof -
  from run obtain s1 s2 where s1: "set_clock b s = Inr ((), s1)" and b: "clock_of (ex_world s1) = b"
    and s2: "sforeach (tick_condition E t b) (conditions_periodic_at b (ex_world s1)) s1 = Inr ((), s2)"
    and s': "sfold (expire_condition E t b) ds (conditions_expiring_at b (ex_world s2)) s2 = Inr (ds', s')"
    by (rule advance_step_Inr)
  have q1: "quiet_before (unat (ticks b)) (ex_world s1)"
    using q s1 by (simp add: set_clock_Inr_iff quiet_before_def time_at_def component_at_def)
  then have ok1: "objects_ok (gw_objects (ex_world s1))"
    by (simp add: quiet_before_def)
  have "times_moved (ex_world s1) (ex_world s2)"
    using boundaries.keeps_tick_conditions [OF s2 b] E by blast
  then have q2: "quiet_before (unat (ticks b)) (ex_world s2)"
    using q1 b by (auto intro: times_moved_quiet)
  then have ok2: "objects_ok (gw_objects (ex_world s2))"
    by (simp add: quiet_before_def)
  have ticked: "periodic_time (ex_world s2) i \<noteq> Some b" for i
    by (rule tick_conditions_done [OF s2 b E ok1]) (simp add: periodic_at_set [OF ok1])
  from expire_conditions_remove [OF s' ok2]
  have removed: "only_removed b (ex_world s2) (ex_world s')"
    and qs: "\<And>i. due_by b (expiry_time (ex_world s2) i) \<Longrightarrow> \<not> due_by b (expiry_time (ex_world s') i)"
    by (auto simp: expiring_at_set [OF ok2, symmetric])
  have "Suc (unat (ticks b)) \<le> unat (ticks x)"
    if x: "periodic_time (ex_world s') i = Some x \<or> expiry_time (ex_world s') i = Some x" for i x
  proof -
    have same: "component_at (ex_world s') i = component_at (ex_world s2) i"
      using removed x by (auto simp: only_removed_def time_at_def)
    have "unat (ticks b) \<le> unat (ticks x)"
      using q2 x same by (auto simp: quiet_before_def time_at_def)
    moreover have "x \<noteq> b"
    proof
      assume "x = b"
      with x ticked [of i] same have "expiry_time (ex_world s') i = Some b"
        "expiry_time (ex_world s2) i = Some b"
        by (auto simp: time_at_def)
      with qs [of i] show False
        by (simp add: due_by_def)
    qed
    ultimately show ?thesis
      by (metis Suc_leI world_time_le_nat world_time_less_nat order_le_less)
  qed
  with removed ok2 show ?thesis
    by (simp add: quiet_before_def only_removed_def)
qed

section \<open>The loop ends\<close>

lemma next_boundary_least:
  assumes ok: "objects_ok (gw_objects w)" and b: "next_condition_boundary to w = Some b"
  shows "b \<le> to" and "quiet_before n w \<Longrightarrow> n \<le> unat (ticks b)" and "quiet_before (unat (ticks b)) w"
proof -
  let ?ts = "concat (map (condition_times \<circ> snd) (select as_condition w))"
  have times: "x \<in> set ?ts \<longleftrightarrow> (\<exists>i. periodic_time w i = Some x \<or> expiry_time w i = Some x)" for x
    by (force simp: condition_times_def List.map_filter_def time_at_select [OF ok])
  from b obtain c cs where cs: "filter (\<lambda>x. x \<le> to) ?ts = c # cs" "b = fold min cs c"
    by (auto simp: next_condition_boundary_def split: list.split_asm)
  then have "b \<in> set (filter (\<lambda>x. x \<le> to) ?ts)"
    unfolding cs by (simp only: Min.set_eq_fold [symmetric]) (rule Min_in, simp_all)
  then have b: "b \<le> to" "b \<in> set ?ts"
    by simp_all
  show "b \<le> to" by (rule b(1))
  show "n \<le> unat (ticks b)" if "quiet_before n w"
    using that b(2) times by (auto simp: quiet_before_def)
  have "unat (ticks b) \<le> unat (ticks x)" if "x \<in> set ?ts" for x
  proof (cases "x \<le> to")
    case True
    with that have "x \<in> set (filter (\<lambda>x. x \<le> to) ?ts)"
      by simp
    then show ?thesis
      unfolding cs by (simp add: Min.set_eq_fold [symmetric] world_time_le_nat [symmetric])
  next
    case False
    with b(1) show ?thesis
      by (simp add: world_time_le_nat)
  qed
  with ok times show "quiet_before (unat (ticks b)) w"
    unfolding quiet_before_def by blast
qed

lemma advance_loop_returns:
  assumes E: "positive_timing E" and "objects_ok (gw_objects (ex_world s))"
  shows "\<exists>r. advance_loop E t to ds s = Some r"
proof -
  have "\<exists>r. advance_loop E t to ds s = Some r" if "quiet_before n (ex_world s)" for n
    using that
  proof (induction "Suc (unat (ticks to)) - n" arbitrary: n ds s rule: less_induct)
    case less
    show ?case
    proof (cases "next_condition_boundary to (ex_world s)")
      case None
      then show ?thesis
        by (subst advance_loop.simps) simp
    next
      case (Some b)
      have ok: "objects_ok (gw_objects (ex_world s))"
        using less.prems by (simp add: quiet_before_def)
      note b = next_boundary_least [OF ok Some]
      show ?thesis
      proof (cases "advance_step E t b ds s")
        case (Inl e)
        with Some show ?thesis
          by (subst advance_loop.simps) simp
      next
        case (Inr p)
        obtain ds1 s1 where p: "p = (ds1, s1)"
          by (cases p)
        have "quiet_before (Suc (unat (ticks b))) (ex_world s1)"
          using advance_step_quiet [OF E b(3)] Inr p by simp
        moreover have "n \<le> unat (ticks b)" "unat (ticks b) \<le> unat (ticks to)"
          using b(1) b(2) [OF less.prems] by (simp_all add: world_time_le_nat)
        then have "Suc (unat (ticks to)) - Suc (unat (ticks b)) < Suc (unat (ticks to)) - n"
          by arith
        ultimately obtain r where "advance_loop E t to ds1 s1 = Some r"
          using less.hyps by blast
        with Some Inr p show ?thesis
          by (subst advance_loop.simps) simp
      qed
    qed
  qed
  moreover have "quiet_before 0 (ex_world s)"
    using assms(2) by (simp add: quiet_before_def)
  ultimately show ?thesis by blast
qed

end
