(* ===== verification/World_Changes.thy ===== *)
theory World_Changes
  imports World_Reload Clock_Relations
begin

text \<open>
  Every command reports what it changes. \<open>reports m\<close> says of a handler that the world it leaves is
  \<open>tracked\<close> by its upserts and deletions; the lemmas prove it handler by handler, and from it that
  the change set of a successful \<open>execute\<close> turns the view of the old world into that of the new.
\<close>

interpretation tracking_rules: rule_relation "\<lambda>s s'. tracked L w0 X ds (ex_upserts s) (ex_world s)
    \<longrightarrow> tracked L w0 X ds (ex_upserts s') (ex_world s')" E t
  by unfold_locales (auto intro!: keepsI dest!: charge_world)

section \<open>Handlers\<close>

definition reports :: "env \<Rightarrow> exec \<Rightarrow> change_parts \<Rightarrow> exec \<Rightarrow> bool" where
  "reports E s parts s' \<longleftrightarrow>
     tracked (env_uuid E) (ex_world s) {} (cp_deletes parts) (cp_upserts parts) (ex_world s')"

lemma finish_Inr:
  assumes "finish E t actor records kind text s = Inr (parts, s')"
  shows "ex_world s' = ex_world s \<and> cp_upserts parts = records \<and> cp_deletes parts = []
    \<and> map we_kind (cp_events parts) = [kind]"
  using assms by (auto simp: finish_def summary_def res_inv)

lemma store_component_Inr_iff [res_inv]:
  "store_component i r s = Inr (u, s') \<longleftrightarrow> s' = s\<lparr>ex_world := put_component i r (ex_world s)\<rparr>"
  by (simp add: store_component_def modify_world_Inr_iff)

lemma collected_Inr:
  assumes "collected ds text s = Inr (parts, s')"
  shows "s' = s \<and> cp_upserts parts = ex_upserts s \<and> cp_deletes parts = ds \<and> cp_events parts = ex_events s"
  using assms by (auto simp: collected_def summary_def res_inv)

text \<open>One component changed, then the event.\<close>

lemma reports_one:
  assumes L: "uuid_lib_ok (env_uuid E)" and ok: "world_ok (ex_world s)"
    and r: "component_at (ex_world s) i = Some r" "record_object_id r' = record_object_id r"
      "record_kind r' = record_kind r"
    and run: "finish E t actor [r'] kind text (s\<lparr>ex_world := put_component i r' (ex_world s)\<rparr>)
      = Inr (parts, s')"
  shows "reports E s parts s'"
proof -
  have "overwrites (ex_world s) i r'"
    using ok r by (intro overwritesI) (simp_all add: world_ok_def)
  from tracked_put [OF tracked_start [OF L ok] this] finish_Inr [OF run] show ?thesis
    by (simp add: reports_def)
qed

lemma reports_move:
  assumes "uuid_lib_ok (env_uuid E)" and "world_ok (ex_world s)"
    and "move_character E t actor destination s = Inr (parts, s')"
  shows "reports E s parts s'"
proof -
  from assms(3) obtain c kind where c: "component_at (ex_world s) (object_id_of actor) = Some (CharacterRec c)"
    and fin: "finish E t actor [CharacterRec (c\<lparr>ch_location := destination\<rparr>)] kind ''character moved''
      (s\<lparr>ex_world := put_component (object_id_of actor) (CharacterRec (c\<lparr>ch_location := destination\<rparr>))
         (ex_world s)\<rparr>) = Inr (parts, s')"
    by (auto simp: move_character_def move_checks_def Let_def res_inv split: if_splits)
  show ?thesis
    by (rule reports_one [OF assms(1,2) c _ _ fin]) simp_all
qed

lemma reports_promote:
  assumes "uuid_lib_ok (env_uuid E)" and "world_ok (ex_world s)"
    and "promote_character E t actor target s = Inr (parts, s')"
  shows "reports E s parts s'"
proof -
  from assms(3) obtain c kind where c: "component_at (ex_world s) (object_id_of target) = Some (CharacterRec c)"
    and fin: "finish E t actor [CharacterRec (c\<lparr>ch_lifetime := Persistent\<rparr>)] kind ''character promoted''
      (s\<lparr>ex_world := put_component (object_id_of target) (CharacterRec (c\<lparr>ch_lifetime := Persistent\<rparr>))
         (ex_world s)\<rparr>) = Inr (parts, s')"
    by (auto simp: promote_character_def Let_def res_inv split: if_splits)
  show ?thesis
    by (rule reports_one [OF assms(1,2) c _ _ fin]) simp_all
qed

lemma transfer_checks_Inr:
  assumes "transfer_checks E actor i c w = Inr (v, source)"
  shows "component_at w i = Some (ItemRec v)"
  using assms by (auto simp: transfer_checks_def res_inv split: if_splits)

lemma reports_transfer:
  assumes "uuid_lib_ok (env_uuid E)" and "world_ok (ex_world s)"
    and "transfer_item E t actor i c s = Inr (parts, s')"
  shows "reports E s parts s'"
proof -
  from assms(3) obtain v source kind where c: "transfer_checks E actor i c (ex_world s) = Inr (v, source)"
    and fin: "finish E t actor [ItemRec (v\<lparr>it_contained_by := Some c, it_located_at := None\<rparr>)] kind
      ''item transferred''
      (s\<lparr>ex_world := put_component i (ItemRec (v\<lparr>it_contained_by := Some c, it_located_at := None\<rparr>))
         (ex_world s)\<rparr>) = Inr (parts, s')"
    by (auto simp: transfer_item_def Let_def res_inv)
  show ?thesis
    by (rule reports_one [OF assms(1,2) transfer_checks_Inr [OF c] _ _ fin]) simp_all
qed

lemma reports_equip:
  assumes "uuid_lib_ok (env_uuid E)" and "world_ok (ex_world s)"
    and "equip_item E t actor i slot_id s = Inr (parts, s')"
  shows "reports E s parts s'"
proof -
  let ?eq = "Some \<lparr>eq_wearer_id = actor, eq_slot_id = slot_id\<rparr>"
  from assms(3) obtain v kind where c: "component_at (ex_world s) i = Some (ItemRec v)"
    and fin: "finish E t actor [ItemRec (v\<lparr>it_equipped := ?eq\<rparr>)] kind ''item equipped''
      (s\<lparr>ex_world := put_component i (ItemRec (v\<lparr>it_equipped := ?eq\<rparr>)) (ex_world s)\<rparr>) = Inr (parts, s')"
    by (auto simp: equip_item_def equip_checks_def Let_def res_inv split: if_splits)
  show ?thesis
    by (rule reports_one [OF assms(1,2) c _ _ fin]) simp_all
qed

lemma reports_split:
  assumes "uuid_lib_ok (env_uuid E)" and "world_ok (ex_world s)"
    and "split_stack E t actor i quantity s = Inr (parts, s')"
  shows "reports E s parts s'"
proof -
  from assms(3) obtain v part rest new ids w kind
    where v: "component_at (ex_world s) i = Some (ItemRec v)"
    and w: "spawn_record (put_component i (ItemRec (v\<lparr>it_stack := rest\<rparr>)) (ex_world s))
      (ItemRec (v\<lparr>it_id := new, it_stack := part\<rparr>)) = Inr w"
    and fin: "finish E t actor [ItemRec (v\<lparr>it_stack := rest\<rparr>), ItemRec (v\<lparr>it_id := new, it_stack := part\<rparr>)]
      kind ''stack split'' (s\<lparr>ex_ids := ids, ex_world := w\<rparr>) = Inr (parts, s')"
    by (auto simp: split_stack_def split_checks_def Let_def sbind_Inr_iff query_Inr_iff slift_Inr_iff
        rbind_Inr_iff get_Inr_iff generate_id_Inr_iff store_component_Inr_iff update_world_Inr_iff
        split: if_splits)
  have "overwrites (ex_world s) i (ItemRec (v\<lparr>it_stack := rest\<rparr>))"
    using assms(2) v by (intro overwritesI [OF _ v]) (simp_all add: world_ok_def)
  from tracked_spawn [OF tracked_put [OF tracked_start [OF assms(1,2)] this] w] finish_Inr [OF fin]
  show ?thesis
    by (simp add: reports_def)
qed

subsection \<open>Spawning\<close>

lemma spawn_all_tracked:
  assumes "spawn_all rs s = Inr (u, s')" and "tracked L w0 X ds us (ex_world s)"
  shows "tracked L w0 X ds (us @ rs) (ex_world s') \<and> ex_ids s' = ex_ids s"
  using assms
proof (induction rs arbitrary: s us)
  case (Cons r rs)
  then obtain w where w: "spawn_record (ex_world s) r = Inr w"
    and rest: "spawn_all rs (s\<lparr>ex_world := w\<rparr>) = Inr (u, s')"
    by (auto simp: spawn_all_def res_inv)
  have "tracked L w0 X ds (us @ [r]) (ex_world (s\<lparr>ex_world := w\<rparr>))"
    using tracked_spawn [OF Cons.prems(2) w] by simp
  from Cons.IH [OF rest this] show ?case by simp
qed (simp add: spawn_all_def sreturn_Inr_iff)

lemma spawn_record_grows:
  assumes "spawn_record w r = Inr w'" and "component_at w i = Some x"
  shows "component_at w' i = Some x" and "gw_state w' = gw_state w"
  using assms by (auto simp: spawn_record_Inr_iff component_at_def split: if_splits)

lemma spawn_record_state: "spawn_record w r = Inr w' \<Longrightarrow> gw_state w' = gw_state w"
  by (auto simp: spawn_record_Inr_iff)

lemma spawn_all_grows:
  assumes "spawn_all rs s = Inr (u, s')"
  shows "gw_state (ex_world s') = gw_state (ex_world s)
    \<and> (component_at (ex_world s) i = Some x \<longrightarrow> component_at (ex_world s') i = Some x)"
  using assms
proof (induction rs arbitrary: s)
  case (Cons r rs)
  then obtain w where w: "spawn_record (ex_world s) r = Inr w"
    and rest: "spawn_all rs (s\<lparr>ex_world := w\<rparr>) = Inr (u, s')"
    by (auto simp: spawn_all_def res_inv)
  from Cons.IH [OF rest] spawn_record_state [OF w] spawn_record_grows(1) [OF w] show ?case by auto
qed (simp add: spawn_all_def sreturn_Inr_iff)

lemma with_ids_Inr: "with_ids m s = Inr (x, s') \<Longrightarrow> \<exists>ids. s' = s\<lparr>ex_ids := ids\<rparr>"
  by (auto simp: with_ids_def rbind_Inr_iff)

lemma reports_spawn_character:
  assumes "uuid_lib_ok (env_uuid E)" and "world_ok (ex_world s)"
    and "spawn_character E t actor spec s = Inr (parts, s')"
  shows "reports E s parts s'"
proof -
  from assms(3) obtain s1 u records where run: "spawn_all records s1 = Inr (u, s')"
    and s1: "ex_world s1 = ex_world s"
    and parts: "cp_upserts parts = records" "cp_deletes parts = []"
    by (auto simp: spawn_character_def summary_def res_inv dest!: with_ids_Inr)
  have "tracked (env_uuid E) (ex_world s) {} [] [] (ex_world s1)"
    using tracked_start [OF assms(1,2)] by (simp add: s1)
  from spawn_all_tracked [OF run this] parts show ?thesis
    by (simp add: reports_def)
qed

lemma reports_create_scene:
  assumes "uuid_lib_ok (env_uuid E)" and "world_ok (ex_world s)"
    and "create_scene E t actor name framing entry_name entry_description origin s = Inr (parts, s')"
  shows "reports E s parts s'"
proof -
  from assms(3) obtain s1 s2 u records kind where run: "spawn_all records s1 = Inr (u, s2)"
    and fin: "finish E t actor records kind ''scene created'' s2 = Inr (parts, s')"
    and s1: "ex_world s1 = ex_world s"
    by (auto simp: create_scene_def Let_def res_inv split: if_splits)
  have "tracked (env_uuid E) (ex_world s) {} [] [] (ex_world s1)"
    using tracked_start [OF assms(1,2)] by (simp add: s1)
  from spawn_all_tracked [OF run this] finish_Inr [OF fin] show ?thesis
    by (simp add: reports_def)
qed

lemma create_place_checks_Inr:
  assumes "create_place_checks actor w = Inr (i, p)"
  shows "component_at w i = Some (PlaceRec p)"
  using assms by (auto simp: create_place_checks_def res_inv split: if_splits)

lemma reports_create_place:
  assumes "uuid_lib_ok (env_uuid E)" and "world_ok (ex_world s)"
    and "create_place E t actor name description origin s = Inr (parts, s')"
  shows "reports E s parts s'"
proof -
  from assms(3) obtain i p es place w ids kind
    where p: "create_place_checks actor (ex_world s) = Inr (i, p)"
    and w: "spawn_record (put_component i (PlaceRec (p\<lparr>place_edges := es\<rparr>)) (ex_world s)) place = Inr w"
    and fin: "finish E t actor [PlaceRec (p\<lparr>place_edges := es\<rparr>), place] kind ''place created''
      (s\<lparr>ex_ids := ids, ex_world := w\<rparr>) = Inr (parts, s')"
    by (auto simp: create_place_def Let_def sbind_Inr_iff query_Inr_iff slift_Inr_iff sgets_Inr_iff
        generate_id_Inr_iff store_component_Inr_iff update_world_Inr_iff split: if_splits)
  note c = create_place_checks_Inr [OF p]
  have "overwrites (ex_world s) i (PlaceRec (p\<lparr>place_edges := es\<rparr>))"
    using assms(2) c by (intro overwritesI [OF _ c]) (simp_all add: world_ok_def)
  from tracked_spawn [OF tracked_put [OF tracked_start [OF assms(1,2)] this] w] finish_Inr [OF fin]
  show ?thesis
    by (simp add: reports_def)
qed

subsection \<open>Changing the scene\<close>

lemma materialize_scene_Inr:
  assumes "materialize_scene E plan s = Inr ((scene_id, records), s')"
  shows "\<exists>ids u. spawn_all records (s\<lparr>ex_ids := ids\<rparr>) = Inr (u, s')"
  using assms by (auto simp: materialize_scene_def sbind_Inr_iff sgets_Inr_iff query_Inr_iff
      sreturn_Inr_iff dest!: with_ids_Inr)

lemma resolve_transition_target_tracked:
  assumes "resolve_transition_target E target s = Inr ((target_id, created), s')"
    and "tracked L w0 X ds us (ex_world s)"
  shows "tracked L w0 X ds (us @ created) (ex_world s')
    \<and> gw_state (ex_world s') = gw_state (ex_world s)
    \<and> (component_at (ex_world s) i = Some x \<longrightarrow> component_at (ex_world s') i = Some x)"
proof -
  consider (same) "s' = s" "created = []"
    | (spawned) ids u where "spawn_all created (s\<lparr>ex_ids := ids\<rparr>) = Inr (u, s')"
    using assms(1)
    by (cases target)
      (auto simp: sbind_Inr_iff query_Inr_iff sreturn_Inr_iff sgets_Inr_iff slift_Inr_iff
        split: list.splits dest: materialize_scene_Inr)
  then show ?thesis
  proof cases
    case spawned
    with assms(2) show ?thesis
      using spawn_all_tracked [OF spawned] spawn_all_grows [OF spawned] by simp
  qed (use assms(2) in simp)
qed

lemma put_state:
  "(put_component i r w)\<lparr>gw_state := st\<rparr> = put_component i r (w\<lparr>gw_state := st\<rparr>)"
  by (simp add: put_component_def split: option.splits)

lemma transition_target_checks_Inr:
  assumes "transition_target_checks target_id w = Inr (current, target)"
  shows "target_id \<noteq> ws_active_scene (gw_state w)"
    and "component_at w (ws_active_scene (gw_state w)) = Some (SceneRec current)"
    and "component_at w target_id = Some (SceneRec target)"
  using assms by (auto simp: transition_target_checks_def res_inv split: if_splits)

lemma overwrites_put:
  assumes "world_ok w" and "overwrites w i r" and "component_at w j = Some x" and "i \<noteq> j"
    and "record_object_id y = record_object_id x" and "record_kind y = record_kind x"
  shows "overwrites (put_component i r w) j y"
  using world_ok_put [OF assms(1,2)] assms(3-6)
  by (intro overwritesI [of _ _ x]) (simp_all add: world_ok_def put_component_at [OF assms(2)])

lemma reports_transition:
  assumes L: "uuid_lib_ok (env_uuid E)" and ok: "world_ok (ex_world s)"
    and run: "transition_scene E t actor transition s = Inr (parts, s')"
  shows "reports E s parts s'"
proof -
  from run obtain player s1 target_id created current target
    where player: "component_at (ex_world s) (object_id_of actor) = Some (CharacterRec player)"
    and res: "resolve_transition_target E transition s = Inr ((target_id, created), s1)"
    and checks: "transition_target_checks target_id (ex_world s1) = Inr (current, target)"
    and parts: "cp_deletes parts = []" "cp_upserts parts = created
        @ [WorldStateRec (gw_state (ex_world s1)\<lparr>ws_active_scene := target_id\<rparr>),
           SceneRec (current\<lparr>scene_active := False\<rparr>), SceneRec (target\<lparr>scene_active := True\<rparr>),
           CharacterRec (player\<lparr>ch_location := scene_entry_place target\<rparr>)]"
    and s': "ex_world s' = put_component (object_id_of actor)
          (CharacterRec (player\<lparr>ch_location := scene_entry_place target\<rparr>))
        (put_component target_id (SceneRec (target\<lparr>scene_active := True\<rparr>))
        (put_component (ws_active_scene (gw_state (ex_world s1)))
          (SceneRec (current\<lparr>scene_active := False\<rparr>))
        (ex_world s1\<lparr>gw_state := gw_state (ex_world s1)\<lparr>ws_active_scene := target_id\<rparr>\<rparr>)))"
    by (auto simp: transition_scene_def transition_player_checks_def summary_def Let_def put_state
        res_inv split: if_splits)
  let ?w = "ex_world s1" and ?st = "gw_state (ex_world s1)\<lparr>ws_active_scene := target_id\<rparr>"
  let ?i = "ws_active_scene (gw_state ?w)"
  let ?left = "SceneRec (current\<lparr>scene_active := False\<rparr>)"
  let ?entered = "SceneRec (target\<lparr>scene_active := True\<rparr>)"
  note found = transition_target_checks_Inr [OF checks]
  note step = resolve_transition_target_tracked [OF res tracked_start [OF L ok]]
  have t1: "tracked (env_uuid E) (ex_world s) {} [] (created @ [WorldStateRec ?st]) (?w\<lparr>gw_state := ?st\<rparr>)"
    using step by (intro tracked_state) simp_all
  have at: "component_at (?w\<lparr>gw_state := ?st\<rparr>) = component_at ?w"
    by (simp add: component_at_def fun_eq_iff)
  have player1: "component_at ?w (object_id_of actor) = Some (CharacterRec player)"
    using step player by blast
  have ok1: "world_ok (?w\<lparr>gw_state := ?st\<rparr>)"
    using t1 by (simp add: tracked_def)
  have o1: "overwrites (?w\<lparr>gw_state := ?st\<rparr>) ?i ?left"
    using ok1 found(2) by (intro overwritesI [of _ _ "SceneRec current"]) (simp_all add: at world_ok_def)
  have o2: "overwrites (put_component ?i ?left (?w\<lparr>gw_state := ?st\<rparr>)) target_id ?entered"
    using found(1,3) by (intro overwrites_put [OF ok1 o1, of _ "SceneRec target"]) (simp_all add: at)
  have at2: "component_at (put_component ?i ?left (?w\<lparr>gw_state := ?st\<rparr>)) (object_id_of actor)
      = Some (CharacterRec player)"
    using player1 found(2) by (auto simp: put_component_at [OF o1] at)
  have "target_id \<noteq> object_id_of actor"
    using player1 found(3) by auto
  then have o3: "overwrites (put_component target_id ?entered (put_component ?i ?left (?w\<lparr>gw_state := ?st\<rparr>)))
      (object_id_of actor) (CharacterRec (player\<lparr>ch_location := scene_entry_place target\<rparr>))"
    by (intro overwrites_put [OF world_ok_put [OF ok1 o1] o2 at2]) simp_all
  from tracked_put [OF tracked_put [OF tracked_put [OF t1 o1] o2] o3] show ?thesis
    by (simp add: reports_def parts s')
qed

subsection \<open>Transcripts\<close>

lemma transcripts_tracked:
  assumes "tracked L w0 X ds us w"
    and "list_all (\<lambda>v. domain_validate (TranscriptItemRec v) = Inr ()) vs"
  shows "tracked L w0 X ds (us @ map TranscriptItemRec vs)
    (w\<lparr>gw_transcripts := fold (\<lambda>v. bt_insert (tr_id v) v) vs (gw_transcripts w)\<rparr>)"
  using assms
proof (induction vs arbitrary: us w)
  case (Cons v vs)
  have "tracked L w0 X ds (us @ [TranscriptItemRec v])
      (w\<lparr>gw_transcripts := bt_insert (tr_id v) v (gw_transcripts w)\<rparr>)"
    using Cons.prems by (intro tracked_transcript) simp_all
  from Cons.IH [OF this] Cons.prems(2) show ?case by simp
qed simp

lemma check_transcripts_valid:
  assumes "rfold (check_transcript w actor revision all) seen vs = Inr seen'"
  shows "list_all (\<lambda>v. domain_validate (TranscriptItemRec v) = Inr ()) vs"
  using assms
  by (induction vs arbitrary: seen) (auto simp: rbind_Inr_iff map_err_Inr_iff check_transcript_def)

lemma reports_append:
  assumes "uuid_lib_ok (env_uuid E)" and "world_ok (ex_world s)"
    and "append_transcripts E t actor vs s = Inr (parts, s')"
  shows "reports E s parts s'"
proof -
  let ?sorted = "sort_key (\<lambda>v. domain_sort_key (env_uuid E) (TranscriptItemRec v)) vs"
  from assms(3) obtain seen where
    seen: "rfold (check_transcript (ex_world s) actor (snd t) vs) [] vs = Inr seen"
    and parts: "cp_upserts parts = map TranscriptItemRec ?sorted" "cp_deletes parts = []"
    and s': "ex_world s' = ex_world s\<lparr>gw_transcripts :=
      fold (\<lambda>v. bt_insert (tr_id v) v) ?sorted (gw_transcripts (ex_world s))\<rparr>"
    by (auto simp: append_transcripts_def summary_def Let_def res_inv split: if_splits)
  have "list_all (\<lambda>v. domain_validate (TranscriptItemRec v) = Inr ()) ?sorted"
    using check_transcripts_valid [OF seen] by (simp add: list_all_iff)
  from transcripts_tracked [OF tracked_start [OF assms(1,2)] this] show ?thesis
    by (simp add: reports_def parts s')
qed

subsection \<open>Handlers that run effects\<close>

lemma reports_collected:
  assumes "tracked (env_uuid E) w {} ds (ex_upserts s1) (ex_world s1)"
    and "collected ds text s1 = Inr (parts, s')" and "ex_world s = w"
  shows "reports E s parts s'"
  using assms(1,3) collected_Inr [OF assms(2)] by (simp add: reports_def)

text \<open>A component stored after the effects ran: it is still there.\<close>

definition grows :: "exec \<Rightarrow> exec \<Rightarrow> bool" where
  "grows s s' \<longleftrightarrow> (\<forall>i e. bt_get i (gw_objects (ex_world s)) = Some e \<longrightarrow>
     (\<exists>e'. bt_get i (gw_objects (ex_world s')) = Some e' \<and> ent_kind e' = ent_kind e))"

interpretation growth: effect_relation grows E t
proof unfold_locales
  fix s t u
  assume "grows s t" and "grows t u"
  then show "grows s u"
    unfolding grows_def by metis
next
  fix s :: exec and i r
  show "grows s (stored_state i r s)"
    by (auto simp: grows_def stored_state_def put_component_def split: option.splits)
qed (auto simp: grows_def spawn_record_Inr_iff intro!: keepsI dest!: charge_world)

lemma overwrites_grown:
  assumes "overwrites (ex_world s) i r" and "grows s s'"
  shows "overwrites (ex_world s') i r"
  using assms by (fastforce simp: overwrites_def grows_def)

lemma skill_checks_Inr:
  assumes "skill_checks E actor grant_id target w = Inr (grant, d, c)"
  shows "component_at w grant_id = Some (SkillGrantRec grant)"
    and "\<exists>c0. component_at w (object_id_of actor) = Some (CharacterRec c0) \<and> ch_id c = ch_id c0"
proof -
  have "ch_id c' = ch_id c0" if "rfold pay_cost c0 costs = Inr c'" for c0 c' costs
    using that by (rule rfold_invariant [where P = "\<lambda>c. ch_id c = ch_id c0"])
      (auto simp: pay_cost_def res_inv split: if_splits)
  with assms show "component_at w grant_id = Some (SkillGrantRec grant)"
    and "\<exists>c0. component_at w (object_id_of actor) = Some (CharacterRec c0) \<and> ch_id c = ch_id c0"
    by (auto simp: skill_checks_def component_at_Some_iff [of w grant_id] res_inv split: if_splits)
qed

text \<open>Predicates change nothing but the budget.\<close>

interpretation unchanged: step_relation "\<lambda>s s'. ex_world s' = ex_world s \<and> ex_upserts s' = ex_upserts s"
  by unfold_locales auto

lemma evaluate_world:
  "keeps (\<lambda>s s'. ex_world s' = ex_world s \<and> ex_upserts s' = ex_upserts s) (evaluate_predicate actor p)"
  "keeps (\<lambda>s s'. ex_world s' = ex_world s \<and> ex_upserts s' = ex_upserts s) (evaluate_predicates actor ps)"
  "keeps (\<lambda>s s'. ex_world s' = ex_world s \<and> ex_upserts s' = ex_upserts s) (evaluate_any actor qs)"
proof (induction actor p and actor ps and actor qs
    rule: evaluate_predicate_evaluate_predicates_evaluate_any.induct)
qed (auto intro!: unchanged.keeps_base keepsI [of "charge charge_predicate"] keepsI [of "query _"]
  dest!: charge_world simp: query_Inr_iff)

lemma emit_event_world:
  assumes "emit_event E t actor kind s = Inr (u, s')"
  shows "ex_world s' = ex_world s" and "ex_upserts s' = ex_upserts s"
  using emit_event_Inr [OF assms] by auto

lemma emit_costs_world:
  assumes "sforeach (emit_cost E t actor) costs s = Inr (u, s')"
  shows "ex_world s' = ex_world s \<and> ex_upserts s' = ex_upserts s"
  using assms
proof (induction costs arbitrary: s)
  case (Cons cost costs)
  from Cons.prems obtain delta s1
    where e: "emit_event E t actor (ResourceChanged actor (rc_resource_id cost) delta) s = Inr ((), s1)"
    and rest: "sforeach (emit_cost E t actor) costs s1 = Inr (u, s')"
    by (auto simp: emit_cost_def [of _ _ _ cost] sbind_Inr_iff slift_Inr_iff)
  from Cons.IH [OF rest] emit_event_world [OF e] show ?case by simp
qed (simp add: sreturn_Inr_iff)

lemma reports_use_skill:
  assumes L: "uuid_lib_ok (env_uuid E)" and ok: "world_ok (ex_world s)" and us: "ex_upserts s = []"
    and run: "use_skill E t actor grant_id target s = Inr (parts, s')"
  shows "reports E s parts s'"
proof -
  from run obtain grant d c s1 s3 s4 ready
    where checks: "skill_checks E actor grant_id target (ex_world s) = Inr (grant, d, c)"
    and s1: "sforeach (emit_cost E t actor) (skd_costs d) s = Inr ((), s1)"
    and s3: "apply_effects E t actor (skd_id d) (skd_effects d)
      (stored_state (object_id_of actor) (CharacterRec c) s1) = Inr ((), s3)"
    and s4: "emit_event E t actor (SkillUsed grant_id (sg_skill_id grant) target)
      (s3\<lparr>ex_world := put_component grant_id (SkillGrantRec (grant\<lparr>sg_ready_at := ready\<rparr>)) (ex_world s3)\<rparr>)
      = Inr ((), s4)"
    and fin: "collected [] ''skill used''
      (s4\<lparr>ex_upserts := ex_upserts s4 @ [SkillGrantRec (grant\<lparr>sg_ready_at := ready\<rparr>)]\<rparr>) = Inr (parts, s')"
    by (auto simp: use_skill_def Let_def sbind_Inr_iff sgets_Inr_iff query_Inr_iff slift_Inr_iff
        store_and_emit_Inr_iff store_component_Inr_iff emit_upsert_def smodify_Inr_iff)
  let ?updated = "SkillGrantRec (grant\<lparr>sg_ready_at := ready\<rparr>)"
  let ?s2 = "stored_state (object_id_of actor) (CharacterRec c) s1"
  note w1 = emit_costs_world [OF s1]
  note found = skill_checks_Inr [OF checks]
  have "overwrites (ex_world s) (object_id_of actor) (CharacterRec c)"
    using found(2) ok by (auto simp: world_ok_def intro: overwritesI)
  then have "tracked (env_uuid E) (ex_world s) {} [] (ex_upserts ?s2) (ex_world ?s2)"
    using tracked_put [OF tracked_start [OF L ok]] w1 us by (simp add: stored_state_def)
  then have t3: "tracked (env_uuid E) (ex_world s) {} [] (ex_upserts s3) (ex_world s3)"
    using keepsD [OF tracking.keeps_apply_effects s3] by blast
  have "grows s ?s2"
    using growth.keeps_store [of s1 "object_id_of actor" "CharacterRec c"] w1
    by (auto simp: grows_def stored_state_def put_component_def split: option.splits)
  moreover have "grows ?s2 s3"
    using growth.keeps_apply_effects s3 by (rule keepsD)
  ultimately have "grows s s3"
    by (rule growth.trans)
  moreover have "overwrites (ex_world s) grant_id ?updated"
    using found(1) ok by (auto simp: world_ok_def intro: overwritesI)
  ultimately have "overwrites (ex_world s3) grant_id ?updated"
    by (rule overwrites_grown [rotated])
  from tracked_put [OF t3 this] emit_event_world [OF s4] show ?thesis
    by (intro reports_collected [OF _ fin]) simp_all
qed

lemma keeps_ensure_predicates:
  assumes "ensure_predicates actor ps rule s = Inr (u, s')"
  shows "ex_world s' = ex_world s \<and> ex_upserts s' = ex_upserts s"
proof -
  from assms have "\<exists>b. evaluate_predicates actor ps s = Inr (b, s')"
    by (auto simp: ensure_predicates_def res_inv split: if_splits)
  then show ?thesis
    using keepsD [OF evaluate_world(2)] by blast
qed

lemma reports_choose_option:
  assumes L: "uuid_lib_ok (env_uuid E)" and ok: "world_ok (ex_world s)" and us: "ex_upserts s = []"
    and run: "choose_event_option E t actor i option_id s = Inr (parts, s')"
  shows "reports E s parts s'"
proof -
  from run obtain v d opt s1 s2 s3 s4
    where checks: "event_option_checks E actor i option_id (ex_world s) = Inr (v, d, opt)"
    and s1: "ensure_predicates actor (eo_visible_if opt) ''event_option_not_visible'' s = Inr ((), s1)"
    and s2: "ensure_predicates actor (eo_enabled_if opt) ''event_option_not_enabled'' s1 = Inr ((), s2)"
    and s3: "apply_effects E t actor (ed_id d) (eo_effects opt) s2 = Inr ((), s3)"
    and s4: "emit_event E t actor (EventOptionChosen i option_id)
      (stored_state i (EventInstanceRec (committed_event opt v)) s3) = Inr ((), s4)"
    and fin: "collected [] ''event option chosen'' s4 = Inr (parts, s')"
    by (auto simp: choose_event_option_def sbind_Inr_iff query_Inr_iff store_and_emit_Inr_iff)
  have w2: "ex_world s2 = ex_world s" "ex_upserts s2 = ex_upserts s"
    using keeps_ensure_predicates [OF s1] keeps_ensure_predicates [OF s2] by simp_all
  have "tracked (env_uuid E) (ex_world s) {} [] (ex_upserts s2) (ex_world s2)"
    using tracked_start [OF L ok] w2 us by simp
  then have t3: "tracked (env_uuid E) (ex_world s) {} [] (ex_upserts s3) (ex_world s3)"
    using keepsD [OF tracking.keeps_apply_effects s3] by blast
  have v: "component_at (ex_world s) i = Some (EventInstanceRec v)"
    using checks by (auto simp: event_option_checks_def component_at_Some_iff [of _ i] res_inv
        split: if_splits)
  have "ei_id (committed_event opt v) = ei_id v"
    by (simp add: committed_event_def Let_def split: option.split)
  then have "overwrites (ex_world s2) i (EventInstanceRec (committed_event opt v))"
    using v ok w2 by (intro overwritesI [of _ _ "EventInstanceRec v"]) (simp_all add: world_ok_def)
  from overwrites_grown [OF this keepsD [OF growth.keeps_apply_effects s3]]
  have "tracked (env_uuid E) (ex_world s) {} [] (ex_upserts s4) (ex_world s4)"
    using tracked_put [OF t3] emit_event_world [OF s4] by (simp add: stored_state_def)
  from reports_collected [OF this fin] show ?thesis by simp
qed

lemma reports_perform_action:
  assumes L: "uuid_lib_ok (env_uuid E)" and ok: "world_ok (ex_world s)" and us: "ex_upserts s = []"
    and run: "perform_gameplay_action E t actor i arguments s = Inr (parts, s')"
  shows "reports E s parts s'"
proof -
  from run obtain d :: gameplay_action_definition and s1 s2 s3
    where s1: "ensure_predicates actor (gad_predicates d) ''gameplay_action_predicate'' s = Inr ((), s1)"
    and s2: "apply_effects E t actor (gad_id d) (gad_effects d) s1 = Inr ((), s2)"
    and s3: "emit_event E t actor (GameplayActionPerformed (gad_id d)) s2 = Inr ((), s3)"
    and fin: "collected [] ''gameplay action performed'' s3 = Inr (parts, s')"
    by (auto simp: perform_gameplay_action_def sbind_Inr_iff query_Inr_iff)
  have "tracked (env_uuid E) (ex_world s) {} [] (ex_upserts s1) (ex_world s1)"
    using tracked_start [OF L ok] keeps_ensure_predicates [OF s1] us by simp
  then have "tracked (env_uuid E) (ex_world s) {} [] (ex_upserts s2) (ex_world s2)"
    using keepsD [OF tracking.keeps_apply_effects s2] by blast
  then have "tracked (env_uuid E) (ex_world s) {} [] (ex_upserts s3) (ex_world s3)"
    using emit_event_world [OF s3] by simp
  from reports_collected [OF this fin] show ?thesis by simp
qed

subsection \<open>The clock\<close>

lemma upserted_at:
  "upserted L us m k = fold (\<lambda>r x. if rkey L r = k then Some r else x) us (m k)"
  by (induction us arbitrary: m) (simp_all add: upserted_def)

lemma upserted_filter:
  "(\<And>r. r \<in> set us \<Longrightarrow> rkey L r = k \<Longrightarrow> P r) \<Longrightarrow> upserted L (filter P us) m k = upserted L us m k"
  unfolding upserted_at by (induction us arbitrary: m) (auto simp: upserted_def)

lemma upserted_untouched: "(\<And>r. r \<in> set us \<Longrightarrow> rkey L r \<noteq> k) \<Longrightarrow> upserted L us m k = m k"
  unfolding upserted_at by (induction us) auto

lemma upserted_base: "m k = n k \<Longrightarrow> upserted L us m k = upserted L us n k"
  by (simp add: upserted_at)

lemma tracked_despawn:
  assumes t: "tracked L w0 X ds us w" and c: "component_at w i = Some (ConditionRec c)"
  shows "tracked L w0 X (ds @ [rkey L (ConditionRec c)])
    (filter (\<lambda>r. record_object_id r \<noteq> Some i) us) (despawn i w)"
proof -
  let ?k = "rkey L (ConditionRec c)" and ?us = "filter (\<lambda>r. record_object_id r \<noteq> Some i) us"
  have L: "uuid_lib_ok L" and ok: "world_ok w"
    using t by (simp_all add: tracked_def)
  from entity_at [OF ok c] obtain e where e: "bt_get i (gw_objects w) = Some e"
    "ent_kind e = ConditionKind" and ci: "record_object_id (ConditionRec c) = Some i"
    by auto
  have ok': "world_ok (despawn i w)"
    using ok by (auto simp: world_ok_def despawn_def objects_ok_def bt_ok_remove)
  have at: "world_at (despawn i w) = (world_at w)(slot_of (ConditionRec c) := None)"
  proof
    fix s show "world_at (despawn i w) s = ((world_at w)(slot_of (ConditionRec c) := None)) s"
      using ci by (cases s) (auto simp: despawn_def component_at_def)
  qed
  have view: "world_view L (despawn i w) = (world_view L w)(?k := None)"
    using c ci by (intro world_view_remove [OF L ok ok' _ at]) simp
  have id_of_key: "record_object_id r = Some i" if "rkey L r = ?k" for r
  proof -
    have "slot_of r = ObjectSlot i"
      using rkey_slot [OF L that] slot_of_object [OF ci] by simp
    then show ?thesis by (cases r) simp_all
  qed
  have key_of_id: "rkey L r = ?k" if "r \<in> set us" "record_object_id r = Some i" for r
  proof -
    have "record_kind r = Some ConditionKind"
      using t that e by (auto simp: tracked_def)
    then show ?thesis
      using that(2) ci by (intro kind_rkey) simp_all
  qed
  have "world_view L (despawn i w) k = upserted L ?us (deleted (ds @ [?k]) (world_view L w0)) k"
    if "k \<notin> X" for k
  proof (cases "k = ?k")
    case True
    have "upserted L ?us (deleted (ds @ [?k]) (world_view L w0)) k = deleted (ds @ [?k]) (world_view L w0) k"
      using id_of_key True by (intro upserted_untouched) auto
    then show ?thesis
      by (simp add: view True deleted_def)
  next
    case False
    have "upserted L ?us (deleted (ds @ [?k]) (world_view L w0)) k
        = upserted L us (deleted (ds @ [?k]) (world_view L w0)) k"
      using key_of_id False by (intro upserted_filter) auto
    also have "\<dots> = upserted L us (deleted ds (world_view L w0)) k"
      using False by (intro upserted_base) (simp add: deleted_def)
    finally show ?thesis
      using t that False by (simp add: view tracked_def)
  qed
  moreover have "same_frame w0 (despawn i w)"
    by (rule same_frame_cong [OF tracked_frame [OF t]]) (simp_all add: despawn_def)
  moreover have "\<forall>r\<in>set ?us. \<forall>j. record_object_id r = Some j \<longrightarrow>
      (\<exists>e. bt_get j (gw_objects (despawn i w)) = Some e \<and> record_kind r = Some (ent_kind e))"
    using t by (auto simp: tracked_def despawn_def)
  ultimately show ?thesis
    using L ok' unfolding tracked_def by blast
qed

lemma tracked_clock:
  assumes t: "tracked L w0 X ds us w" and same: "ws_id st = ws_id (gw_state w)"
    and X: "rkey L (WorldStateRec (gw_state w)) \<in> X"
  shows "tracked L w0 X ds us (w\<lparr>gw_state := st\<rparr>)"
proof -
  let ?w = "w\<lparr>gw_state := st\<rparr>"
  have k: "rkey L (WorldStateRec st) = rkey L (WorldStateRec (gw_state w))"
    by (simp add: rkey_def same)
  note t' = tracked_state [OF t same]
  have "world_view L ?w k = upserted L us (deleted ds (world_view L w0)) k" if "k \<notin> X" for k
  proof -
    have "k \<noteq> rkey L (WorldStateRec st)"
      using that X k by auto
    with t' that show ?thesis
      by (simp add: tracked_def upserted_snoc)
  qed
  with t' show ?thesis
    by (simp add: tracked_def)
qed

lemma tracked_seal_state:
  assumes t: "tracked L w0 {rkey L (WorldStateRec (gw_state w))} ds us w"
  shows "tracked L w0 {} ds (us @ [WorldStateRec (gw_state w)]) w"
proof -
  let ?r = "WorldStateRec (gw_state w)"
  have "world_view L w (rkey L ?r) = Some ?r"
    using t by (simp add: world_view_Some_iff tracked_def)
  then have "world_view L w k = upserted L (us @ [?r]) (deleted ds (world_view L w0)) k" for k
    using t by (cases "k = rkey L ?r") (simp_all add: tracked_def upserted_snoc)
  moreover have "\<exists>e. bt_get j (gw_objects w) = Some e \<and> record_kind r = Some (ent_kind e)"
    if "r \<in> insert ?r (set us)" "record_object_id r = Some j" for r j
    using t that by (auto simp: tracked_def)
  ultimately show ?thesis
    using t by (simp add: tracked_def)
qed

text \<open>The invariant of the loop: everything but the clock is tracked.\<close>

definition clock_tracked :: "env \<Rightarrow> game_world \<Rightarrow> record_key list \<Rightarrow> exec \<Rightarrow> bool" where
  "clock_tracked E w0 ds s \<longleftrightarrow> ws_id (gw_state (ex_world s)) = ws_id (gw_state w0)
     \<and> tracked (env_uuid E) w0 {rkey (env_uuid E) (WorldStateRec (gw_state w0))} ds (ex_upserts s)
         (ex_world s)"

lemma set_clock_tracked:
  assumes "clock_tracked E w0 ds s" and "set_clock b s = Inr (u, s')"
  shows "clock_tracked E w0 ds s'"
proof -
  have s': "s' = s\<lparr>ex_world := ex_world s\<lparr>gw_state := gw_state (ex_world s)\<lparr>ws_clock := b\<rparr>\<rparr>\<rparr>"
    using assms(2) by (simp add: set_clock_def modify_world_Inr_iff)
  have "rkey (env_uuid E) (WorldStateRec (gw_state (ex_world s)))
      = rkey (env_uuid E) (WorldStateRec (gw_state w0))"
    using assms(1) by (simp add: clock_tracked_def rkey_def)
  then show ?thesis
    using assms(1) by (auto simp: clock_tracked_def s' intro!: tracked_clock)
qed

lemma tick_conditions_tracked:
  assumes "clock_tracked E w0 ds s" and "sforeach (tick_condition E t b) ps s = Inr (u, s')"
    and "clock_of (ex_world s) = b"
  shows "clock_tracked E w0 ds s'"
  using assms(1) frame.keeps_tick_conditions [OF assms(2,3)] tracking.keeps_tick_conditions [OF assms(2,3)]
  by (auto simp: clock_tracked_def framed_def)

lemma expire_condition_tracked:
  assumes "clock_tracked E w0 ds s" and "expire_condition E t b ds p s = Inr (ds', s')"
  shows "clock_tracked E w0 ds' s'"
proof -
  from assms(2) obtain c where c: "component_at (ex_world s) (snd p) = Some (ConditionRec c)"
    by (auto simp: expire_condition_def sbind_Inr_iff query_Inr_iff condition_at_Inr_iff)
  show ?thesis
  proof (cases "due_by b (cond_expires_at c)")
    case True
    with assms(2) c obtain k
      where k: "key (env_uuid E) (ConditionRec c) = Inr k" and ds': "ds' = ds @ [k]"
      and run: "emit_event E t (cond_target_id c) (ConditionExpired (snd p))
        (s\<lparr>ex_upserts := filter (\<lambda>r. record_object_id r \<noteq> Some (snd p)) (ex_upserts s),
           ex_world := despawn (snd p) (ex_world s)\<rparr>) = Inr ((), s')"
      by (auto simp: expire_condition_def sbind_Inr_iff query_Inr_iff condition_at_Inr_iff
          sreturn_Inr_iff smodify_Inr_iff slift_Inr_iff map_err_Inr_iff modify_world_Inr_iff)
    have "ws_id (gw_state (despawn (snd p) (ex_world s))) = ws_id (gw_state (ex_world s))"
      by (simp add: despawn_def)
    moreover note tracked_despawn [OF _ c]
    ultimately show ?thesis
      using assms(1) emit_event_world [OF run] key_rkey [OF k] by (simp add: clock_tracked_def ds')
  qed (use assms c in \<open>auto simp: expire_condition_def res_inv\<close>)
qed

lemma advance_step_tracked:
  assumes "clock_tracked E w0 ds s" and "advance_step E t b ds s = Inr (ds', s')"
  shows "clock_tracked E w0 ds' s'"
proof -
  from assms(2) obtain s1 s2 ps qs where s1: "set_clock b s = Inr ((), s1)"
    and b: "clock_of (ex_world s1) = b"
    and s2: "sforeach (tick_condition E t b) ps s1 = Inr ((), s2)"
    and run: "sfold (expire_condition E t b) ds qs s2 = Inr (ds', s')"
    by (rule advance_step_Inr)
  have "clock_tracked E w0 ds s2"
    by (rule tick_conditions_tracked [OF set_clock_tracked [OF assms(1) s1] s2 b])
  with run show ?thesis
    by (rule sfold_invariant) (rule expire_condition_tracked)
qed

lemma advance_loop_tracked:
  "advance_loop E t to ds s = Some (Inr (ds', s')) \<Longrightarrow> clock_tracked E w0 ds s
    \<Longrightarrow> clock_tracked E w0 ds' s'"
  by (induction rule: advance_loop_invariant) (rule advance_step_tracked)

lemma reports_advance_time:
  assumes L: "uuid_lib_ok (env_uuid E)" and ok: "world_ok (ex_world s)" and us: "ex_upserts s = []"
    and run: "advance_time E t actor n s = Some (Inr (parts, s'))"
  shows "reports E s parts s'"
proof -
  from run obtain s1 kind to ds s2 s3 where s1: "emit_event E t actor kind s = Inr ((), s1)"
    and s2: "advance_loop E t to [] s1 = Some (Inr (ds, s2))"
    and s3: "set_clock to s2 = Inr ((), s3)"
    and fin: "collected ds ''world clock advanced''
      (s3\<lparr>ex_upserts := ex_upserts s3 @ [WorldStateRec (gw_state (ex_world s3))]\<rparr>) = Inr (parts, s')"
    by (auto simp: advance_time_def then_run_def run_then_def rbind_Inr_iff sbind_Inr_iff sgets_Inr_iff
        query_Inr_iff emit_upsert_def smodify_Inr_iff split: sum.splits prod.splits)
  let ?k = "rkey (env_uuid E) (WorldStateRec (gw_state (ex_world s)))"
  have "tracked (env_uuid E) (ex_world s) {?k} [] [] (ex_world s)"
    using L ok by (rule tracked_start)
  then have "clock_tracked E (ex_world s) [] s1"
    using emit_event_world [OF s1] us by (simp add: clock_tracked_def)
  then have t3: "clock_tracked E (ex_world s) ds s3"
    by (rule set_clock_tracked [OF advance_loop_tracked [OF s2] s3])
  then have "rkey (env_uuid E) (WorldStateRec (gw_state (ex_world s3))) = ?k"
    by (simp add: clock_tracked_def rkey_def)
  with t3 have "tracked (env_uuid E) (ex_world s) {} ds
      (ex_upserts s3 @ [WorldStateRec (gw_state (ex_world s3))]) (ex_world s3)"
    by (intro tracked_seal_state) (simp add: clock_tracked_def)
  then show ?thesis
    by (intro reports_collected [OF _ fin]) simp_all
qed

lemmas reports_handlers = reports_move reports_promote reports_transfer reports_equip reports_split
  reports_spawn_character reports_create_scene reports_create_place reports_transition reports_append
  reports_use_skill reports_choose_option reports_perform_action reports_advance_time

lemma run_command_reports:
  assumes "uuid_lib_ok (env_uuid E)" and "world_ok (ex_world s)" and "ex_upserts s = []"
    and "run_command E t actor c s = Some (Inr (parts, s'))"
  shows "reports E s parts s'"
  using assms by (cases c) (simp_all add: ret_def reports_handlers)

section \<open>Sealing the change set\<close>

lemma coalesced:
  assumes "rfold (\<lambda>latest r. rbind (wdomain (key L r)) (\<lambda>k. Inr (bt_insert k r latest))) acc us = Inr m"
    and "bt_ok acc" and "\<forall>k r. bt_get k acc = Some r \<longrightarrow> rkey L r = k"
  shows "bt_ok m \<and> (\<forall>k r. bt_get k m = Some r \<longrightarrow> rkey L r = k)
    \<and> (\<lambda>k. bt_get k m) = upserted L us (\<lambda>k. bt_get k acc)"
  using assms
proof (induction us arbitrary: acc)
  case (Cons u us)
  then obtain k where k: "key L u = Inr k"
    and rest: "rfold (\<lambda>latest r. rbind (wdomain (key L r)) (\<lambda>k. Inr (bt_insert k r latest)))
      (bt_insert k u acc) us = Inr m"
    by (auto simp: rbind_Inr_iff map_err_Inr_iff)
  have k': "k = rkey L u"
    using k by (rule key_rkey)
  have insert: "(\<lambda>j. bt_get j (bt_insert k u acc)) = (\<lambda>j. bt_get j acc)(rkey L u \<mapsto> u)"
    by (auto simp: k')
  have "bt_ok m \<and> (\<forall>k r. bt_get k m = Some r \<longrightarrow> rkey L r = k)
    \<and> (\<lambda>k. bt_get k m) = upserted L us (\<lambda>j. bt_get j (bt_insert k u acc))"
    using rest by (rule Cons.IH) (use Cons.prems(2,3) in \<open>simp_all add: bt_ok_insert k'\<close>)
  then show ?case
    unfolding insert by (simp add: upserted_def)
qed (simp add: upserted_def)

lemma upserted_distinct:
  "distinct (map (rkey L) us) \<Longrightarrow>
    upserted L us m k = (case map_of (map (\<lambda>r. (rkey L r, r)) us) k of None \<Rightarrow> m k | Some r \<Rightarrow> Some r)"
proof (induction us arbitrary: m)
  case (Cons u us)
  then have "upserted L us (m(rkey L u \<mapsto> u)) k
      = (case map_of (map (\<lambda>r. (rkey L r, r)) us) k of None \<Rightarrow> (m(rkey L u \<mapsto> u)) k | Some r \<Rightarrow> Some r)"
    by simp
  moreover have "k = rkey L u \<Longrightarrow> map_of (map (\<lambda>r. (rkey L r, r)) us) k = None"
    using Cons.prems by (force simp: map_of_eq_None_iff)
  ultimately show ?case
    by (auto simp: upserted_def split: option.splits)
qed (simp add: upserted_def)

lemma coalesce_upserted:
  assumes "coalesce_upserts L us = Inr us'"
  shows "upserted L us' m = upserted L us m" and "distinct (map (rkey L) us')"
proof -
  from assms obtain l where "rfold (\<lambda>latest r. rbind (wdomain (key L r)) (\<lambda>k. Inr (bt_insert k r latest)))
      [] us = Inr l" and us': "us' = bt_values l"
    by (auto simp: coalesce_upserts_def rbind_Inr_iff)
  from coalesced [OF this(1)] have l: "bt_ok l" "\<forall>k r. bt_get k l = Some r \<longrightarrow> rkey L r = k"
    "(\<lambda>k. bt_get k l) = upserted L us (\<lambda>k. None)"
    by simp_all
  then have key: "rkey L (snd p) = fst p" if "p \<in> set l" for p
    using that by (cases p) (simp add: bt_ok_get_iff [OF l(1), symmetric])
  then have "map (\<lambda>r. (rkey L r, r)) us' = l"
    unfolding us' bt_values_def by (simp add: map_idI)
  moreover have keys: "map (rkey L) us' = map fst l"
    unfolding us' bt_values_def using key by simp
  then show d: "distinct (map (rkey L) us')"
    using l(1) by (simp add: bt_ok_distinct)
  ultimately have "upserted L us' m k = (case bt_get k l of None \<Rightarrow> m k | Some r \<Rightarrow> Some r)" for k
    using upserted_distinct [OF d, of m k] by (simp add: bt_get_def)
  moreover have "upserted L us m k = (case upserted L us (\<lambda>k. None) k of None \<Rightarrow> m k | Some r \<Rightarrow> Some r)" for k
    by (induction us rule: rev_induct) (auto simp: upserted_snoc upserted_def)
  ultimately show "upserted L us' m = upserted L us m"
    using fun_cong [OF l(3)] by (auto simp: fun_eq_iff)
qed

section \<open>The outcome of a command\<close>

definition applied :: "uuid_lib \<Rightarrow> execution_change_set \<Rightarrow> (record_key \<Rightarrow> domain_record option)
    \<Rightarrow> record_key \<Rightarrow> domain_record option" where
  "applied L c m = upserted L (cs_upserts c) (deleted (cs_deletes c) m)"

lemma execute_inner_Inr:
  assumes L: "uuid_lib_ok (env_uuid E)" and ok: "world_ok w"
    and run: "execute_inner E c (start_exec w ids) = Some (Inr (changes, s))"
  shows "revision_next (gw_revision w) = Inr (gw_revision (ex_world s))
    \<and> validate_world E (ex_world s) = Inr () \<and> world_ok (ex_world s)
    \<and> gw_config (ex_world s) = gw_config w \<and> (transcripts_valid w \<longrightarrow> transcripts_valid (ex_world s))
    \<and> world_view (env_uuid E) (ex_world s) = applied (env_uuid E) changes (world_view (env_uuid E) w)
    \<and> distinct (map (rkey (env_uuid E)) (cs_upserts changes))
    \<and> cs_action_id changes = wc_action_id c
    \<and> cs_expected_revision changes = wc_expected_revision c
    \<and> cs_revision changes = gw_revision (ex_world s)
    \<and> sorted (map we_id (cs_events changes))"
proof -
  from run obtain r t parts s1 s2 where r: "revision_next (gw_revision w) = Inr r"
    and t: "t = (wc_action_id c, r)"
    and s1: "run_command E t (wc_actor_id c) (wc_kind c) (start_exec w ids) = Some (Inr (parts, s1))"
    and s2: "run_rules E t (wc_actor_id c) parts s1 = Inr ((), s2)"
    and s3: "seal E t (wc_expected_revision c) parts s2 = Inr (changes, s)"
    by (auto simp: execute_inner_def then_run_def run_then_def Let_def sbind_Inr_iff rbind_Inr_iff
        query_def slift_def start_exec_def map_err_Inr_iff split: sum.splits prod.splits)
  have t1: "tracked (env_uuid E) w {} (cp_deletes parts) (cp_upserts parts) (ex_world s1)"
    using run_command_reports [OF L _ _ s1] ok by (simp add: reports_def start_exec_def)
  have t2: "tracked (env_uuid E) w {} (cp_deletes parts) (ex_upserts s2) (ex_world s2)"
    using s2 t1 keepsD [OF tracking_rules.keeps_run_declarative_rules]
    by (fastforce simp: run_rules_def sbind_Inr_iff smodify_Inr_iff)
  from s3 t obtain us where world: "ex_world s = ex_world s2\<lparr>gw_revision := r\<rparr>"
    and valid: "validate_world E (ex_world s) = Inr ()"
    and us: "coalesce_upserts (env_uuid E) (ex_upserts s2) = Inr us"
    and changes: "changes = \<lparr>cs_action_id = wc_action_id c, cs_expected_revision = wc_expected_revision c,
      cs_revision = r, cs_upserts = us, cs_deletes = cp_deletes parts,
      cs_events = sort_key we_id (ex_events s2), cs_safe_summary = cp_summary parts\<rparr>"
    by (auto simp: seal_def res_inv)
  have "world_view (env_uuid E) (ex_world s) = world_view (env_uuid E) (ex_world s2)"
    by (rule world_view_cong) (simp_all add: world)
  also have "\<dots> = applied (env_uuid E) changes (world_view (env_uuid E) w)"
    using t2 by (simp add: tracked_def applied_def changes coalesce_upserted(1) [OF us] fun_eq_iff)
  finally show ?thesis
    using t2 r valid coalesce_upserted(2) [OF us]
    by (simp add: world changes tracked_def world_ok_def same_frame_def transcripts_valid_def)
qed

end
