(* ===== verification/World_Example.thy ===== *)
theory World_Example
  imports World_Changes Core_Properties
begin

text \<open>
  A small world for the witnesses: a scene with two connected places, a player with an inventory
  root that holds a coin and a pouch, a burning condition that ticks and expires, and a rule that
  answers a move with an event.
\<close>

section \<open>Its content\<close>

abbreviation cid :: "string \<Rightarrow> content_definition_id" where
  "cid s \<equiv> ContentDefinitionId s"

definition demo_origin :: "content_definition_id \<Rightarrow> content_origin" where
  "demo_origin i = \<lparr>co_mod_id = ModId ''a.b'', co_mod_version = BoundedText ''1'',
     co_pack_id = cid ''a.b:pack/p'', co_definition_id = i, co_content_version = 1,
     co_content_hash = ContentHash ''h''\<rparr>"

definition demo_item_def :: "string \<Rightarrow> u32 \<Rightarrow> i64 \<Rightarrow> container_definition option
    \<Rightarrow> content_definition" where
  "demo_item_def i limit weight container = ItemDef \<lparr>itd_id = cid i, itd_display_name = BoundedText ''x'',
     itd_description = BoundedText ''x'', itd_tags = [], itd_stack_limit = limit,
     itd_unit_weight_grams = Fixed weight, itd_durability = None, itd_container = container,
     itd_equipment_slots = [], itd_modifiers = []\<rparr>"

definition demo_burning :: condition_definition where
  "demo_burning = \<lparr>cd_id = cid ''a.b:condition/burning'', cd_display_name = BoundedText ''x'', cd_tags = [],
     cd_stack_policy = IncreaseStacks 3 True, cd_intensity_policy = MaximumIntensity,
     cd_duration = Finite 5, cd_symptoms = [], cd_modifiers = [],
     cd_periodic = Some \<lparr>ped_interval_ticks = 2, ped_effects = [EmitEvent (BoundedText ''hiss'')]\<rparr>\<rparr>"

definition demo_rule :: rule_definition where
  "demo_rule = \<lparr>rd_id = cid ''a.b:rule/echo'', rd_priority = 0,
     rd_trigger = OnWorldEvent (BoundedText ''character_moved''), rd_predicates = [],
     rd_effects = [EmitEvent (BoundedText ''steps'')]\<rparr>"

definition demo_definitions :: "content_definition list" where
  "demo_definitions =
     [ConditionDef demo_burning,
      demo_item_def ''a.b:item/bag'' 1 100000000
        (Some \<lparr>ctd_max_weight_grams = Fixed 1000000000, ctd_max_children = 8\<rparr>),
      demo_item_def ''a.b:item/coin'' 10 5000000 None,
      demo_item_def ''a.b:item/pouch'' 1 20000000
        (Some \<lparr>ctd_max_weight_grams = Fixed 50000000, ctd_max_children = 2\<rparr>),
      RuleDef demo_rule]"

definition demo_env :: env where
  "demo_env = \<lparr>env_uuid = hex_uuid_lib, env_registry = \<lparr>dr_contexts = [],
     dr_definitions = map (\<lambda>d. (definition_id d,
       \<lparr>reg_definition = d, reg_origin = demo_origin (definition_id d)\<rparr>)) demo_definitions\<rparr>\<rparr>"

section \<open>Its records\<close>

abbreviation demo_scene_id :: object_id where "demo_scene_id \<equiv> RuntimeId 10"
abbreviation demo_hall :: object_id where "demo_hall \<equiv> RuntimeId 11"
abbreviation demo_yard :: object_id where "demo_yard \<equiv> RuntimeId 12"
abbreviation demo_player :: actor_id where "demo_player \<equiv> ActorId (RuntimeId 13)"
abbreviation demo_root :: object_id where "demo_root \<equiv> RuntimeId 14"
abbreviation demo_coin :: object_id where "demo_coin \<equiv> RuntimeId 15"
abbreviation demo_pouch :: object_id where "demo_pouch \<equiv> RuntimeId 16"
abbreviation demo_condition :: object_id where "demo_condition \<equiv> RuntimeId 17"
abbreviation demo_state :: object_id where "demo_state \<equiv> RuntimeId 18"

definition demo_scene :: scene_record where
  "demo_scene = \<lparr>scene_rec_id = demo_scene_id, scene_display_name = BoundedText ''x'',
     scene_framing = BoundedText ''x'', scene_entry_place = demo_hall, scene_active = True,
     scene_origin = ContentEntity (demo_origin (cid ''a.b:scene/s''))\<rparr>"

definition demo_place :: "object_id \<Rightarrow> object_id \<Rightarrow> place_record" where
  "demo_place i j = \<lparr>place_rec_id = i, place_scene_id = demo_scene_id, place_display_name = BoundedText ''x'',
     place_description = BoundedText ''x'', place_tags = [], place_edges = [j],
     place_origin = ContentEntity (demo_origin (cid ''a.b:place/p''))\<rparr>"

definition demo_character :: "object_id \<Rightarrow> character_record" where
  "demo_character location = \<lparr>ch_id = demo_player, ch_display_name = BoundedText ''x'',
     ch_profile = \<lparr>character_profile.cp_summary = BoundedText ''x'', cp_values = [], cp_speaking_style = BoundedText ''x'',
       cp_narrative_tags = []\<rparr>, ch_appearance = None, ch_controller = PlayerController,
     ch_lifetime = Persistent, ch_location = location, ch_inventory_root = demo_root,
     ch_agent_binding = None, ch_base_attributes = [], ch_attribute_adjustments = [],
     ch_resources = [], ch_life_state = Alive, ch_action_state = Idle, ch_posture = Standing,
     ch_origin = ContentEntity (demo_origin (cid ''a.b:character/c''))\<rparr>"

definition demo_item :: "object_id \<Rightarrow> string \<Rightarrow> u32 \<Rightarrow> container_state option \<Rightarrow> object_id option
    \<Rightarrow> item_record" where
  "demo_item i d n container parent = \<lparr>it_id = i, it_definition_id = cid d, it_stack = StackState n,
     it_durability = None, it_container = container, it_contained_by = parent,
     it_owned_by = Some demo_player, it_equipped = None,
     it_located_at = (if parent = None then Some demo_hall else None), it_custom_name = None,
     it_bound_actor = None, it_parameters = [], it_instance_adjustments = [],
     it_origin = ContentEntity (demo_origin (cid d))\<rparr>"

definition demo_burning_record :: condition_record where
  "demo_burning_record = \<lparr>cond_id = demo_condition, cond_target_id = demo_player,
     cond_condition_id = cid ''a.b:condition/burning'', cond_source = ConditionFromCharacter demo_player,
     cond_stacks = 1, cond_intensity = Fixed 0, cond_applied_at = WorldTime 0,
     cond_expires_at = Some (WorldTime 5), cond_next_periodic_at = Some (WorldTime 2),
     cond_origin = ContentEntity (demo_origin (cid ''a.b:condition/burning''))\<rparr>"

definition demo_bag :: item_record where
  "demo_bag = demo_item demo_root ''a.b:item/bag'' 1
     (Some \<lparr>cont_max_weight_grams = Fixed 1000000000, cont_max_children = 8\<rparr>) None"

definition demo_pouch_record :: item_record where
  "demo_pouch_record = demo_item demo_pouch ''a.b:item/pouch'' 1
     (Some \<lparr>cont_max_weight_grams = Fixed 50000000, cont_max_children = 2\<rparr>) (Some demo_root)"

definition demo_coins :: "object_id \<Rightarrow> item_record" where
  "demo_coins parent = demo_item demo_coin ''a.b:item/coin'' 3 None (Some parent)"

definition demo_rule_state :: "u64 \<Rightarrow> world_time option \<Rightarrow> rule_state_record" where
  "demo_rule_state n fired = \<lparr>rs_id = demo_state, rs_definition_id = cid ''a.b:rule/echo'', rs_values = [],
     rs_trigger_count = n, rs_last_triggered_at = fired\<rparr>"

text \<open>The world with the player at a place, the coins in a container, and the rule in a state.\<close>

definition demo_records :: "object_id \<Rightarrow> object_id \<Rightarrow> rule_state_record \<Rightarrow> domain_record list" where
  "demo_records location parent rs =
     [SceneRec demo_scene, PlaceRec (demo_place demo_hall demo_yard),
      PlaceRec (demo_place demo_yard demo_hall), CharacterRec (demo_character location),
      ItemRec demo_bag, ItemRec (demo_coins parent), ItemRec demo_pouch_record,
      ConditionRec demo_burning_record, RuleStateRec rs]"

definition demo_entity :: "domain_record \<Rightarrow> object_id \<times> entity" where
  "demo_entity r = (the (record_object_id r),
     \<lparr>persistent_id = the (record_object_id r), ent_kind = the (record_kind r), component = r\<rparr>)"

definition demo_world :: "revision \<Rightarrow> object_id \<Rightarrow> object_id \<Rightarrow> rule_state_record \<Rightarrow> game_world" where
  "demo_world revision location parent rs = \<lparr>gw_revision = revision,
     gw_state = \<lparr>ws_id = RuntimeId 1, ws_player_actor = demo_player, ws_active_scene = demo_scene_id,
       ws_clock = WorldTime 0, ws_rng_seed = []\<rparr>,
     gw_objects = map demo_entity (demo_records location parent rs),
     gw_transcripts = [], gw_session = [],
     gw_config = \<lparr>inventory_root_definition = cid ''a.b:item/bag'',
       spawn_system_definition = cid ''a.b:system/spawn'', config_rule_limits = rule_limits_default\<rparr>\<rparr>"

definition demo_ids :: id_generator where
  "demo_ids = siterate (\<lambda>u. u + 1) uuid_7"

definition demo_command :: "world_command_kind \<Rightarrow> world_command" where
  "demo_command kind = \<lparr>wc_action_id = RuntimeId 40, wc_actor_id = demo_player,
     wc_expected_revision = Revision 4, wc_kind = kind\<rparr>"

section \<open>Evaluating it\<close>

lemma demo_uuid [simp]: "env_uuid demo_env = hex_uuid_lib"
  by (simp add: demo_env_def)

lemma demo_registry [simp]:
  "registry_get (env_registry demo_env) (cid ''a.b:item/coin'')
    = Some \<lparr>reg_definition = demo_item_def ''a.b:item/coin'' 10 5000000 None,
        reg_origin = demo_origin (cid ''a.b:item/coin'')\<rparr>"
  "registry_get (env_registry demo_env) (cid ''a.b:item/bag'')
    = Some \<lparr>reg_definition = demo_item_def ''a.b:item/bag'' 1 100000000
          (Some \<lparr>ctd_max_weight_grams = Fixed 1000000000, ctd_max_children = 8\<rparr>),
        reg_origin = demo_origin (cid ''a.b:item/bag'')\<rparr>"
  "registry_get (env_registry demo_env) (cid ''a.b:item/pouch'')
    = Some \<lparr>reg_definition = demo_item_def ''a.b:item/pouch'' 1 20000000
          (Some \<lparr>ctd_max_weight_grams = Fixed 50000000, ctd_max_children = 2\<rparr>),
        reg_origin = demo_origin (cid ''a.b:item/pouch'')\<rparr>"
  "registry_get (env_registry demo_env) (cid ''a.b:condition/burning'')
    = Some \<lparr>reg_definition = ConditionDef demo_burning,
        reg_origin = demo_origin (cid ''a.b:condition/burning'')\<rparr>"
  "registry_get (env_registry demo_env) (cid ''a.b:rule/echo'')
    = Some \<lparr>reg_definition = RuleDef demo_rule, reg_origin = demo_origin (cid ''a.b:rule/echo'')\<rparr>"
  by (simp_all add: registry_get_def demo_env_def demo_definitions_def bt_get_def demo_item_def_def
      demo_burning_def demo_rule_def)

lemma demo_fields [simp]:
  "gw_revision (demo_world r l p rs) = r"
  "ws_player_actor (gw_state (demo_world r l p rs)) = demo_player"
  "ws_active_scene (gw_state (demo_world r l p rs)) = demo_scene_id"
  "ws_clock (gw_state (demo_world r l p rs)) = WorldTime 0"
  "gw_transcripts (demo_world r l p rs) = []"
  "gw_session (demo_world r l p rs) = []"
  "config_rule_limits (gw_config (demo_world r l p rs)) = rule_limits_default"
  "demo_world r l p rs\<lparr>gw_revision := r'\<rparr> = demo_world r' l p rs"
  by (simp_all add: demo_world_def)

lemmas demo_record_defs = demo_records_def demo_scene_def demo_place_def demo_character_def demo_bag_def
  demo_coins_def demo_pouch_record_def demo_item_def demo_burning_record_def demo_rule_state_def

lemma demo_component [simp]:
  "component_at (demo_world r l p rs) demo_scene_id = Some (SceneRec demo_scene)"
  "component_at (demo_world r l p rs) demo_hall = Some (PlaceRec (demo_place demo_hall demo_yard))"
  "component_at (demo_world r l p rs) demo_yard = Some (PlaceRec (demo_place demo_yard demo_hall))"
  "component_at (demo_world r l p rs) (RuntimeId 13) = Some (CharacterRec (demo_character l))"
  "component_at (demo_world r l p rs) demo_root = Some (ItemRec demo_bag)"
  "component_at (demo_world r l p rs) demo_coin = Some (ItemRec (demo_coins p))"
  "component_at (demo_world r l p rs) demo_pouch = Some (ItemRec demo_pouch_record)"
  "component_at (demo_world r l p rs) demo_condition = Some (ConditionRec demo_burning_record)"
  by (simp_all add: component_at_def demo_world_def demo_entity_def bt_get_def demo_record_defs)

lemma demo_objects: "gw_objects (demo_world r l p rs) = map demo_entity (demo_records l p rs)"
  by (simp add: demo_world_def)

lemma demo_object_ids:
  "map fst (gw_objects (demo_world r l p (demo_rule_state n fired)))
    = [demo_scene_id, demo_hall, demo_yard, RuntimeId 13, demo_root, demo_coin, demo_pouch, demo_condition, demo_state]"
  by (simp add: demo_objects demo_entity_def demo_record_defs)

lemma demo_world_ok: "world_ok (demo_world r l p (demo_rule_state n fired))"
proof -
  let ?w = "demo_world r l p (demo_rule_state n fired)"
  have "bt_ok (gw_objects ?w)"
    by (simp only: bt_ok_def demo_object_ids) (simp add: less_runtime_id_def)
  moreover have "list_all (\<lambda>(i, e). entity_ok i e) (gw_objects ?w)"
    by (simp add: demo_objects demo_entity_def demo_record_defs entity_ok_def)
  ultimately show ?thesis
    by (auto simp: world_ok_def objects_ok_def transcripts_ok_def bt_ok_get_iff list_all_iff)
qed


lemma demo_entities: "rfold (validate_entity (demo_world r l p (demo_rule_state n fired))) (0, [])
      (gw_objects (demo_world r l p (demo_rule_state n fired))) = Inr (1, [cid ''a.b:scene/s''])"
  unfolding demo_objects
  by (simp add: demo_records_def demo_entity_def validate_entity_def project_entity_def validate_condition_def
     validate_item_def validate_character_def demo_record_defs bs_contains_def less_fixed_def fixed_zero_def micros_def less_eq_world_time_def demo_origin_def)

lemma demo_lookup [simp]:
  "get_scene (demo_world r l p rs) demo_scene_id = Inr demo_scene"
  "get_place (demo_world r l p rs) demo_hall = Inr (demo_place demo_hall demo_yard)"
  "get_place (demo_world r l p rs) demo_yard = Inr (demo_place demo_yard demo_hall)"
  "get_character (demo_world r l p rs) demo_player = Inr (demo_character l)"
  "get_item (demo_world r l p rs) demo_root = Inr demo_bag"
  "get_item (demo_world r l p rs) demo_coin = Inr (demo_coins p)"
  "get_item (demo_world r l p rs) demo_pouch = Inr demo_pouch_record"
  "item (demo_world r l p rs) demo_root = Some demo_bag"
  "item (demo_world r l p rs) demo_coin = Some (demo_coins p)"
  "item (demo_world r l p rs) demo_pouch = Some demo_pouch_record"
  by (simp_all add: get_Inr_iff item_def)

lemma demo_item_def_kind [simp]: "expected_kind (demo_item_def i limit weight container) = ''item''"
  by (simp add: demo_item_def_def)

lemma demo_valid_parts [simp]:
  assumes "l \<in> {demo_hall, demo_yard}" and "p \<in> {demo_root, demo_pouch}"
  shows "validate_character_state demo_env (demo_world r l p rs) (demo_character l) = Inr ()"
    and "validate_item_references demo_env (demo_world r l p rs) demo_bag = Inr ()"
    and "validate_item_references demo_env (demo_world r l p rs) (demo_coins p) = Inr ()"
    and "validate_item_references demo_env (demo_world r l p rs) demo_pouch_record = Inr ()"
    and "validate_condition_state demo_env (demo_world r l p rs) demo_burning_record = Inr ()"
    and "validate_place_references (demo_world r l p rs) (demo_place demo_hall demo_yard) = Inr ()"
    and "validate_place_references (demo_world r l p rs) (demo_place demo_yard demo_hall) = Inr ()"
  using assms
  by (auto simp: validate_character_state_def validate_item_references_def validate_condition_state_def
      validate_place_references_def validate_place_edge_def require_definition_def
      ensure_no_container_cycle_def condition_definition_def definition_of_def due_by_def
      is_finite_duration_def less_eq_world_time_def demo_burning_def demo_record_defs bt_keys_def
      bs_contains_def)

lemma demo_count [simp]:
  "ra_rule_counts acc = [] \<Longrightarrow> count_rule_state demo_env acc (demo_rule_state n fired)
    = Inr (acc\<lparr>ra_rule_counts := [(cid ''a.b:rule/echo'', 1)]\<rparr>)"
  by (simp add: count_rule_state_def require_definition_def demo_rule_state_def checked_add_def bt_get_def
      bt_insert_def bt_remove_def)

lemma demo_parts [simp]:
  "place_scene_id (demo_place i j) = demo_scene_id" "place_edges (demo_place i j) = [j]"
  "ch_location (demo_character l) = l" "ch_lifetime (demo_character l) = Persistent"
  by (simp_all add: demo_place_def demo_character_def)

lemma demo_coverage [simp]:
  "expected_parameters demo_env kind = []"
  "ra_rule_counts acc = [(cid ''a.b:rule/echo'', 1)] \<Longrightarrow> check_rule_states demo_env acc = Inr ()"
  by (simp_all add: expected_parameters_def check_rule_states_def demo_env_def demo_definitions_def
      demo_item_def_def demo_rule_def bt_get_def List.map_filter_def bs_of_list_def)

lemma demo_references:
  assumes "l \<in> {demo_hall, demo_yard}" and "p \<in> {demo_root, demo_pouch}"
  shows "validate_references demo_env (demo_world r l p (demo_rule_state n fired)) = Inr ()"
proof -
  let ?w = "demo_world r l p (demo_rule_state n fired)"
  have "map component (bt_values (gw_objects ?w)) = demo_records l p (demo_rule_state n fired)"
    by (simp add: demo_objects demo_records_def demo_entity_def bt_values_def)
  moreover have "rfold (validate_component_references demo_env ?w)
              \<lparr>ra_schemas = [], ra_saved = [], ra_rule_counts = []\<rparr> (demo_records l p (demo_rule_state n fired))
    = Inr \<lparr>ra_schemas = [], ra_saved = [], ra_rule_counts = [(cid ''a.b:rule/echo'', 1)]\<rparr>"
    using assms
    by (simp add: demo_records_def demo_scene_def)
  ultimately show ?thesis
    by (simp add: validate_references_def bt_values_def bt_keys_def bs_of_list_def)
qed

lemma demo_valid:
  assumes "l \<in> {demo_hall, demo_yard}" and "p \<in> {demo_root, demo_pouch}"
  shows "validate_world demo_env (demo_world r l p (demo_rule_state n fired)) = Inr ()"
  using demo_references [OF assms] demo_entities
  by (simp add: validate_world_def demo_character_def demo_scene_def)

lemma demo_put [simp]:
  "put_component (RuntimeId 13) (CharacterRec (demo_character l\<lparr>ch_location := l'\<rparr>)) (demo_world r l p (demo_rule_state n fired))
    = demo_world r l' p (demo_rule_state n fired)"
  "put_component demo_coin (ItemRec (demo_coins p\<lparr>it_contained_by := Some p', it_located_at := None\<rparr>)) (demo_world r l p (demo_rule_state n fired))
    = demo_world r l p' (demo_rule_state n fired)"
  "put_component demo_state (RuleStateRec (demo_rule_state n' fired')) (demo_world r l p (demo_rule_state n fired))
    = demo_world r l p (demo_rule_state n' fired')"
  by (simp_all add: put_component_def demo_world_def demo_entity_def bt_get_def bt_insert_def bt_remove_def less_runtime_id_def demo_record_defs)


lemmas run_defs = sbind_def slift_def sgets_def smodify_def sreturn_def query_def modify_world_def update_world_def
  generate_id_def generate_with_def next_uuid_v7_def validate_uuid_v7_def event_def summary_def Let_def
  bounded_text_new_def store_component_def emit_upsert_def emit_event_def store_and_emit_def

lemma demo_ids_ok [simp]: "is_uuid_v7 hex_uuid_lib (shd demo_ids)" "is_uuid_v7 hex_uuid_lib (shd (stl demo_ids))"
  "is_uuid_v7 hex_uuid_lib (shd (stl (stl demo_ids)))"
  by (simp_all add: demo_ids_def is_uuid_v7_def hex_uuid_lib_def uuid_7_def)


definition demo_moved :: "tx \<Rightarrow> change_parts" where
  "demo_moved t = \<lparr>cp_upserts = [CharacterRec (demo_character demo_yard)], cp_deletes = [],
     cp_events = [\<lparr>we_id = RuntimeId (shd demo_ids), we_action_id = fst t, we_actor_id = demo_player,
       we_revision = snd t, we_kind = CharacterMoved demo_player demo_hall demo_yard\<rparr>],
     cp_summary = BoundedText ''character moved''\<rparr>"

lemma start_exec_world [simp]: "ex_world (start_exec w ids) = w"
  by (simp add: start_exec_def)

lemma demo_move:
  "move_character demo_env t demo_player demo_yard
      (start_exec (demo_world r demo_hall p (demo_rule_state n fired)) demo_ids)
    = Inr (demo_moved t, start_exec (demo_world r demo_yard p (demo_rule_state n fired)) (stl demo_ids))"
  by (simp add: move_character_def move_checks_def finish_def run_defs start_exec_def bs_contains_def demo_moved_def)
    (simp add: demo_character_def)

lemma demo_definitions_eq:
  "dr_definitions (env_registry demo_env) = map (\<lambda>d. (definition_id d,
       \<lparr>reg_definition = d, reg_origin = demo_origin (definition_id d)\<rparr>)) demo_definitions"
  by (simp add: demo_env_def)

lemma demo_moved_candidates:
  "candidates demo_env (WorldEventSignal (BoundedText ''character_moved'') d) (demo_world r l p (demo_rule_state n fired)) =
   (if d > 8 then domain_rule ''rule_cascade_depth'' else Inr [((0, cid ''a.b:rule/echo'', demo_state), demo_rule, 1)])"
  apply (simp add: candidates_def demo_definitions_eq demo_definitions_def demo_item_def_def add_candidate_def demo_rule_def Let_def
   rule_state_for_definition_def select_def demo_objects demo_records_def demo_entity_def List.map_filter_def rule_limits_default_def)
 apply (simp add: demo_rule_state_def)
done

lemma demo_steps_candidates:
  "candidates demo_env (WorldEventSignal (BoundedText ''steps'') d) w = Inr []"
  by (simp add: candidates_def demo_definitions_eq demo_definitions_def demo_item_def_def add_candidate_def demo_rule_def Let_def)

lemma demo_triggered_state:
  "triggered_state demo_state (demo_world r l p (demo_rule_state 0 None))
    = Inr (demo_rule_state 1 (Some (WorldTime 0)))"
  by (simp add: triggered_state_def require_object_def demo_objects demo_entity_def bt_get_def
      demo_record_defs checked_add_def)

lemma demo_triggered:
  "trigger_once demo_env t demo_player (WorldEventSignal (BoundedText ''character_moved'') 0) demo_state demo_rule []
    \<lparr>ex_world = demo_world r l p (demo_rule_state 0 None), ex_ids = stl demo_ids, ex_budget = execution_budget_default,
     ex_upserts = us, ex_events = evs\<rparr> =
   Inr ([WorldEventSignal (BoundedText ''steps'') 1],
     \<lparr>ex_world = demo_world r l p (demo_rule_state 1 (Some (WorldTime 0))), ex_ids = stl (stl (stl demo_ids)), ex_budget = \<lparr>eb_triggered_rules = 1, eb_evaluated_predicates = 0, eb_applied_effects = 1\<rparr>,
     ex_upserts = us @ [RuleStateRec (demo_rule_state 1 (Some (WorldTime 0)))],
     ex_events = evs @ [\<lparr>we_id = RuntimeId (shd (stl demo_ids)), we_action_id = fst t, we_actor_id = demo_player, we_revision = snd t,
                we_kind = DeclarativeEventEmitted (BoundedText ''steps'') (cid ''a.b:rule/echo'')\<rparr>,
         \<lparr>we_id = RuntimeId (shd (stl (stl demo_ids))), we_action_id = fst t, we_actor_id = demo_player, we_revision = snd t,
                we_kind = RuleTriggered (cid ''a.b:rule/echo'') (BoundedText ''world_event:character_moved'')\<rparr>]\<rparr>)"
  apply (simp add: trigger_once_def demo_rule_def run_defs charge_def charge_rule_def charge_effect_def execution_budget_default_def
   checked_add_def rule_limits_default_def apply_effects_def signal_label_def enqueue_events_def event_signals_def world_event_type_def demo_triggered_state)
 done

lemma demo_rules:
  "\<exists>s. run_rules demo_env t demo_player (demo_moved t)
      (start_exec (demo_world r demo_yard p (demo_rule_state 0 None)) (stl demo_ids)) = Inr ((), s)
    \<and> ex_world s = demo_world r demo_yard p (demo_rule_state 1 (Some (WorldTime 0)))
    \<and> list_all (\<lambda>r. record_object_id r \<noteq> None) (ex_upserts s)"
  by (simp add: run_rules_def run_declarative_rules_def demo_moved_def run_defs start_exec_def
      enqueue_events_def event_signals_def world_event_type_def process_signal_def
      demo_moved_candidates run_candidate_def demo_triggered demo_steps_candidates)

lemma key_hex_object: "record_object_id r \<noteq> None \<Longrightarrow> \<exists>k. key hex_uuid_lib r = Inr k"
  using hex_record_id by (cases r) (auto simp: key_Inr_iff)

lemma coalesce_hex:
  assumes "list_all (\<lambda>r. record_object_id r \<noteq> None) us"
  shows "\<exists>us'. coalesce_upserts hex_uuid_lib us = Inr us'"
proof -
  have "\<exists>m. rfold (\<lambda>latest r. rbind (wdomain (key hex_uuid_lib r)) (\<lambda>k. Inr (bt_insert k r latest))) acc us = Inr m" for acc
    using assms
  proof (induction us arbitrary: acc)
    case (Cons u us)
    then obtain k where "key hex_uuid_lib u = Inr k"
      using key_hex_object [of u] by auto
    with Cons show ?case by simp
  qed simp
  from this [of "[]"] show ?thesis
    by (auto simp: coalesce_upserts_def)
qed

lemma demo_executes:
  assumes "p \<in> {demo_root, demo_pouch}"
  shows "\<exists>changes s. execute demo_env (demo_world (Revision 4) demo_hall p (demo_rule_state 0 None))
      demo_ids (demo_command (Move demo_yard)) = Some (Executed changes s)"
proof -
  let ?w = "demo_world (Revision 4) demo_hall p (demo_rule_state 0 None)"
  let ?t = "(RuntimeId 40, Revision 5)"
  have records: "\<exists>records. project_records demo_env ?w = Inr records"
    using project_records_eq [OF demo_world_ok] by blast
  from demo_rules [of ?t "Revision 4" p] obtain s where
    s: "run_rules demo_env ?t demo_player (demo_moved ?t)
      (start_exec (demo_world (Revision 4) demo_yard p (demo_rule_state 0 None)) (stl demo_ids)) = Inr ((), s)"
    and w: "ex_world s = demo_world (Revision 4) demo_yard p (demo_rule_state 1 (Some (WorldTime 0)))"
    and us: "list_all (\<lambda>r. record_object_id r \<noteq> None) (ex_upserts s)"
    by blast
  from coalesce_hex [OF us] obtain us' where "coalesce_upserts hex_uuid_lib (ex_upserts s) = Inr us'"
    by blast
  then have "\<exists>changes s'. seal demo_env ?t (Revision 4) (demo_moved ?t) s = Inr (changes, s')"
    using demo_valid [of demo_yard p] assms
    by (simp add: seal_def run_defs w)
  then have "\<exists>changes s'. execute_inner demo_env (demo_command (Move demo_yard)) (start_exec ?w demo_ids)
      = Some (Inr (changes, s'))"
    using s
    by (simp add: execute_inner_def then_run_def run_then_def demo_command_def query_def slift_def
        revision_next_def checked_add_def Let_def ret_def sbind_def demo_move)
  with records show ?thesis
    by (auto simp: execute_def demo_command_def)
qed

text \<open>The registry is one a build can return.\<close>

lemma demo_id_parts:
  "list_all (\<lambda>(i, kind). content_mod_id (cid i) = Inr (ModId ''a.b'') \<and> content_kind (cid i) = Inr kind)
    [(''a.b:condition/burning'', ''condition''), (''a.b:item/bag'', ''item''), (''a.b:item/coin'', ''item''),
     (''a.b:item/pouch'', ''item''), (''a.b:rule/echo'', ''rule'')]"
  by code_simp
lemma demo_ids_sorted:
  "sorted_wrt (<) [''a.b:condition/burning'', ''a.b:item/bag'', ''a.b:item/coin'', ''a.b:item/pouch'', ''a.b:rule/echo'']"
  by code_simp
lemma demo_local: 
  "validate_local_values (ConditionDef demo_burning) = Inr ()"
  "validate_local_values (RuleDef demo_rule) = Inr ()"
  "validate_local_values (demo_item_def ''a.b:item/coin'' 10 5000000 None) = Inr ()"
  "validate_local_values (demo_item_def ''a.b:item/bag'' 1 100000000
          (Some \<lparr>ctd_max_weight_grams = Fixed 1000000000, ctd_max_children = 8\<rparr>)) = Inr ()"
  "validate_local_values (demo_item_def ''a.b:item/pouch'' 1 20000000
          (Some \<lparr>ctd_max_weight_grams = Fixed 50000000, ctd_max_children = 2\<rparr>)) = Inr ()"
  by code_simp+
lemma demo_definitions_ok: "definitions_ok (dr_definitions (env_registry demo_env))"
proof -
  have "bt_ok (dr_definitions (env_registry demo_env))"
    using demo_ids_sorted
    by (simp add: bt_ok_def demo_definitions_eq demo_definitions_def demo_item_def_def demo_burning_def demo_rule_def
     less_content_definition_id_def)
  moreover have "list_all (\<lambda>(i, e). entry_ok i e) (dr_definitions (env_registry demo_env))"
    using demo_id_parts demo_local
    by (simp add: demo_definitions_eq demo_definitions_def entry_ok_def demo_origin_def demo_item_def_def demo_burning_def demo_rule_def)
  ultimately show ?thesis
    by (auto simp: definitions_ok_def bt_ok_get_iff list_all_iff)
qed

end
