(* ===== verification/Content_Properties.thy ===== *)
theory Content_Properties
  imports World_Example
begin

text \<open>
  The properties of content: what a built registry guarantees, and what compilation makes of it. The
  witnesses use a small town with two places, a hero and a form to create one.
\<close>

section \<open>A small town\<close>

definition no_constraints :: spawn_constraints where
  "no_constraints = \<lparr>sc_minimum_attributes = [], sc_maximum_attributes = [], sc_maximum_attribute_points = Fixed 5,
     sc_maximum_items = 2, sc_maximum_skills = 0, sc_allowed_definitions = [cid ''a.b:item/coin'']\<rparr>"

definition town_profile :: character_profile where
  "town_profile = \<lparr>character_profile.cp_summary = BoundedText ''x'', cp_values = [],
     cp_speaking_style = BoundedText ''x'', cp_narrative_tags = []\<rparr>"

definition town_item :: "string \<Rightarrow> initial_item" where
  "town_item k = \<lparr>ii_local_key = BoundedText k, ii_item_id = cid ''a.b:item/coin'', ii_quantity = 3,
     ii_parent_local_key = None\<rparr>"

definition town_hero :: character_definition where
  "town_hero = \<lparr>chd_id = cid ''a.b:character/hero'', chd_display_name = BoundedText ''x'', chd_profile = town_profile,
     chd_appearance = None, chd_agent_profile = None, chd_base_attributes = [], chd_resources = [],
     chd_conditions = [], chd_inventory = [town_item ''purse''], chd_skills = [], chd_knowledge = [],
     chd_goals = [], chd_spawn_constraints = no_constraints\<rparr>"

definition town_place :: "string \<Rightarrow> string \<Rightarrow> place_definition" where
  "town_place i j = \<lparr>pld_id = cid i, pld_display_name = BoundedText ''x'', pld_description = BoundedText ''x'',
     pld_tags = [], pld_edges = [cid j]\<rparr>"

definition town_field :: player_creation_field_definition where
  "town_field = \<lparr>pcf_id = cid ''a.b:player_field/gift'', pcf_display_name = BoundedText ''x'',
     pcf_description = None, pcf_required = True, pcf_binding = None,
     pcf_value_type = SingleChoiceField [\<lparr>pcc_value = cid ''a.b:choice/coin'', pcc_display_name = BoundedText ''x'',
       pcc_description = None, pcc_effects = [PGrantItem (cid ''a.b:item/coin'') 1]\<rparr>] None\<rparr>"

definition town_form :: player_creation_form_definition where
  "town_form = \<lparr>form_id = cid ''a.b:player_creation_form/hero'', form_display_name = BoundedText ''x'',
     form_description = BoundedText ''x'', form_template = cid ''a.b:character/hero'', form_fields = [town_field]\<rparr>"

definition town_scene :: scene_definition where
  "town_scene = \<lparr>snd_id = cid ''a.b:scene/town'', snd_display_name = BoundedText ''x'', snd_framing = BoundedText ''x'',
     snd_entry_place = cid ''a.b:place/hall'', snd_places = [cid ''a.b:place/hall'', cid ''a.b:place/yard''],
     snd_characters = [\<lparr>scd_local_key = BoundedText ''hero'', scd_character_id = cid ''a.b:character/hero'',
       scd_place_id = cid ''a.b:place/hall'', scd_controller = InitialPlayer, scd_lifetime = InitialPersistent\<rparr>]\<rparr>"

definition town_definitions :: "content_definition list" where
  "town_definitions = [CharacterDef town_hero, demo_item_def ''a.b:item/coin'' 10 5000000 None,
     PlaceDef (town_place ''a.b:place/hall'' ''a.b:place/yard''),
     PlaceDef (town_place ''a.b:place/yard'' ''a.b:place/hall''),
     PlayerCreationFormDef town_form, SceneDef town_scene]"

definition town :: definition_registry where
  "town = \<lparr>dr_contexts = [], dr_definitions = map (\<lambda>d. (definition_id d,
     \<lparr>reg_definition = d, reg_origin = demo_origin (definition_id d)\<rparr>)) town_definitions\<rparr>"

lemmas town_defs = town_definitions_def town_hero_def demo_item_def_def town_place_def town_field_def town_form_def town_scene_def

lemma town_ids: "map definition_id town_definitions = map cid [''a.b:character/hero'', ''a.b:item/coin'',
    ''a.b:place/hall'', ''a.b:place/yard'', ''a.b:player_creation_form/hero'', ''a.b:scene/town'']"
  by (simp add: town_defs)

lemma town_ids_sorted: "sorted_wrt (<) [''a.b:character/hero'', ''a.b:item/coin'',
    ''a.b:place/hall'', ''a.b:place/yard'', ''a.b:player_creation_form/hero'', ''a.b:scene/town'']"
  by code_simp

lemma town_entries: "list_all (\<lambda>d. content_mod_id (definition_id d) = Inr (ModId ''a.b'')
    \<and> content_kind (definition_id d) = Inr (expected_kind d) \<and> validate_local_values d = Inr ()) town_definitions"
  by code_simp

lemma town_ok: "definitions_ok (dr_definitions town)"
proof -
  have "map fst (dr_definitions town) = map definition_id town_definitions"
    by (simp add: town_def)
  then have "bt_ok (dr_definitions town)"
    using town_ids_sorted by (simp add: bt_ok_def town_ids less_content_definition_id_def)
  moreover have "list_all (\<lambda>(i, e). entry_ok i e) (dr_definitions town)"
    using town_entries by (simp add: town_def list_all_iff entry_ok_def demo_origin_def)
  ultimately show ?thesis
    by (auto simp: definitions_ok_def bt_ok_get_iff list_all_iff)
qed

section \<open>Building\<close>

text \<open>C26. The search for rule cycles always ends, and accepts a set of definitions exactly when no rule
  can trigger itself again through the events that rules emit.\<close>

theorem rule_cycles_found_exactly:
  "\<exists>r. validate_rule_cycles ds = Some r \<and> (is_ok r \<longleftrightarrow> acyclic (rule_triggers ds))"
  by (rule validate_rule_cycles_exact)

text \<open>C22. Building a registry always returns, and a registry that is built has every definition under
  its own identifier, in its own module and of its own kind, with valid values and references that
  resolve, and no rule cycle.\<close>

theorem built_registry_is_sound:
  "(\<exists>r. build_packages packages = Some r)
   \<and> (build_packages packages = Some (Inr R) \<longrightarrow>
        definitions_ok (dr_definitions R) \<and> acyclic (rule_triggers (dr_definitions R))
        \<and> (bt_get i (dr_definitions R) = Some e \<longrightarrow>
             validate_definition_references (dr_definitions R) i (reg_definition e) = Inr ()))"
  using build_packages_total build_packages_Inr by blast

definition town_packages :: "(content_pack_context \<times> content_document list) list" where
  "town_packages = [(\<lparr>cpc_mod_id = ModId ''a.b'', cpc_mod_version = ''1'', cpc_pack_id = cid ''a.b:pack/p'',
     cpc_content_version = 1, cpc_content_hash = ContentHash ''h''\<rparr>,
     [\<lparr>doc_schema_version = 1, doc_definitions = town_definitions\<rparr>])]"

lemma town_document: "case rfold (insert_document (fst (hd town_packages)) (BoundedText ''1'')) [] (snd (hd town_packages)) of
    Inl _ \<Rightarrow> False
  | Inr ds \<Rightarrow> (case validate_content_references ds of Some r \<Rightarrow> is_ok r | None \<Rightarrow> False)"
  by code_simp

lemma town_pack_id: "content_mod_id (cid ''a.b:pack/p'') = Inr (ModId ''a.b'') \<and> content_kind (cid ''a.b:pack/p'') = Inr ''pack''"
  by code_simp

lemma town_builds: "\<exists>R. build_packages town_packages = Some (Inr R)"
proof -
  obtain c docs where town: "town_packages = [(c, docs)]" and c: "cpc_pack_id c = cid ''a.b:pack/p''"
    "cpc_mod_id c = ModId ''a.b''" "cpc_mod_version c = ''1''"
    by (simp add: town_packages_def)
  obtain ds where ds: "rfold (insert_document c (BoundedText ''1'')) [] docs = Inr ds"
    and refs: "\<exists>u. validate_content_references ds = Some (Inr u)"
    using town_document by (auto simp: town is_ok_iff split: sum.splits option.splits)
  have "bounded_text_new ''1'' = (Inr (BoundedText ''1'') :: text_error + short_text)"
    by (simp add: bounded_text_new_def)
  with ds refs town_pack_id show ?thesis
    by (auto simp: build_packages_def town insert_package_def Let_def c bt_contains_def)
qed

theorem built_registry_is_sound_witness:
  "\<exists>R. build_packages town_packages = Some (Inr R) \<and> definitions_ok (dr_definitions R)
    \<and> acyclic (rule_triggers (dr_definitions R))"
proof -
  obtain R where "build_packages town_packages = Some (Inr R)"
    using town_builds by blast
  with built_registry_is_sound [of town_packages R] show ?thesis
    by blast
qed

section \<open>Compiling\<close>

text \<open>C25. A character compiled from a registry stays within its trusted constraints: no more items and
  skills than allowed, only allowed definitions, attributes within their ranges and budget.\<close>

theorem compiled_character_within_constraints:
  assumes "definitions_ok (dr_definitions R)" and "compile_character R i request = Inr spec"
  shows "spec_within_constraints spec"
  by (rule compile_character_within [OF assms])

definition town_request :: character_compile_request where
  "town_request = \<lparr>ccr_scene_id = demo_scene_id, ccr_place_id = demo_hall, ccr_controller = PlayerController,
     ccr_lifetime = Persistent\<rparr>"

lemma town_get [simp]:
  "registry_get town (cid ''a.b:character/hero'') = Some \<lparr>reg_definition = CharacterDef town_hero,
     reg_origin = demo_origin (cid ''a.b:character/hero'')\<rparr>"
  "registry_get town (cid ''a.b:item/coin'') = Some \<lparr>reg_definition = demo_item_def ''a.b:item/coin'' 10 5000000 None,
     reg_origin = demo_origin (cid ''a.b:item/coin'')\<rparr>"
  "registry_get town (cid ''a.b:place/hall'') = Some \<lparr>reg_definition = PlaceDef (town_place ''a.b:place/hall'' ''a.b:place/yard''),
     reg_origin = demo_origin (cid ''a.b:place/hall'')\<rparr>"
  "registry_get town (cid ''a.b:place/yard'') = Some \<lparr>reg_definition = PlaceDef (town_place ''a.b:place/yard'' ''a.b:place/hall''),
     reg_origin = demo_origin (cid ''a.b:place/yard'')\<rparr>"
  "registry_get town (cid ''a.b:player_creation_form/hero'') = Some \<lparr>reg_definition = PlayerCreationFormDef town_form,
     reg_origin = demo_origin (cid ''a.b:player_creation_form/hero'')\<rparr>"
  "registry_get town (cid ''a.b:scene/town'') = Some \<lparr>reg_definition = SceneDef town_scene,
     reg_origin = demo_origin (cid ''a.b:scene/town'')\<rparr>"
  by (simp_all add: registry_get_def town_def town_defs bt_get_def)

lemma town_character: "\<exists>spec. compile_character town (cid ''a.b:character/hero'') town_request = Inr spec
    \<and> sp_inventory spec = [compile_item (town_item ''purse'')] \<and> sp_controller spec = PlayerController
    \<and> sp_agent_binding spec = None \<and> sp_origin spec = ContentEntity (demo_origin (cid ''a.b:character/hero''))"
  by (simp add: compile_character_def town_hero_def compile_agent_binding_def town_request_def)

theorem compiled_character_within_constraints_witness:
  "\<exists>spec. compile_character town (cid ''a.b:character/hero'') town_request = Inr spec \<and> spec_within_constraints spec"
proof -
  obtain spec where run: "compile_character town (cid ''a.b:character/hero'') town_request = Inr spec"
    using town_character by blast
  from compiled_character_within_constraints [OF town_ok run] run show ?thesis
    by blast
qed

text \<open>C27. The places of a compiled scene form an undirected graph: its edges are symmetric, never from
  a place to itself, and lead to places of the scene, and it has exactly one player.\<close>

theorem compiled_scene_is_a_graph:
  assumes "definitions_ok (dr_definitions R)" and "compile_scene R i = Inr plan"
  shows "sym (place_plan_edges plan) \<and> irrefl (place_plan_edges plan)
    \<and> Range (place_plan_edges plan) \<subseteq> spp_definition_id ` set (ssp_places plan)
    \<and> length (filter (\<lambda>c. scp_controller c = PlayerController) (ssp_characters plan)) = 1"
proof -
  have "scp_controller (character_plan c) = PlayerController \<longleftrightarrow> scd_controller c = InitialPlayer" for c
    by (cases "scd_controller c") (simp_all add: character_plan_def)
  moreover obtain scene :: scene_definition where
    "ssp_characters plan = map character_plan (sort_key scd_local_key (snd_characters scene))"
    "length (filter (\<lambda>c. scd_controller c = InitialPlayer) (snd_characters scene)) = 1"
    using compile_scene_Inr [OF assms(2)] by blast
  ultimately have "length (filter (\<lambda>c. scp_controller c = PlayerController) (ssp_characters plan)) = 1"
    by (simp add: filter_map comp_def length_filter_sort_key)
  with compile_scene_edges [OF assms] show ?thesis
    by blast
qed

lemma town_plan: "\<exists>plan. compile_scene town (cid ''a.b:scene/town'') = Inr plan
    \<and> map spp_definition_id (ssp_places plan) = [cid ''a.b:place/hall'', cid ''a.b:place/yard'']"
  by (simp add: compile_scene_def town_scene_def compile_place_def town_place_def check_place_edge_def
      bs_contains_def)

theorem compiled_scene_is_a_graph_witness:
  "\<exists>plan. compile_scene town (cid ''a.b:scene/town'') = Inr plan \<and> sym (place_plan_edges plan)"
proof -
  obtain plan where run: "compile_scene town (cid ''a.b:scene/town'') = Inr plan"
    using town_plan by blast
  from compiled_scene_is_a_graph [OF town_ok run] run show ?thesis
    by blast
qed

text \<open>C23. A generated character that is accepted stays within the constraints of its policy, has the
  controller that was asked for, and an agent binding exactly if that controller is an agent.\<close>

theorem compiled_draft_within_policy:
  assumes "compile_draft R draft policy request = Inr spec"
  shows "spec_within_constraints spec \<and> sp_trusted_constraints spec = gp_constraints policy
    \<and> sp_controller spec = dcr_controller request
    \<and> (sp_agent_binding spec = None \<longleftrightarrow> dcr_controller request \<noteq> AgentController)"
  by (rule compile_draft_within [OF assms])

definition town_draft :: "nat \<Rightarrow> npc_draft" where
  "town_draft n = \<lparr>nd_display_name = BoundedText ''x'', nd_profile = town_profile, nd_base_attributes = [],
     nd_resources = [], nd_conditions = [], nd_inventory = replicate n (town_item ''purse''), nd_skills = [],
     nd_knowledge = [], nd_goals = []\<rparr>"

definition town_policy :: generation_policy where
  "town_policy = \<lparr>gp_id = cid ''a.b:generation_policy/npc'', gp_constraints = no_constraints,
     gp_allowed_agent_profiles = []\<rparr>"

definition town_draft_request :: draft_compile_request where
  "town_draft_request = \<lparr>dcr_origin = \<lparr>go_generation_id = RuntimeId 1, go_generator_version = BoundedText ''1'',
       go_source = GeneratedByWorldEvent (RuntimeId 2)\<rparr>, dcr_scene_id = demo_scene_id, dcr_place_id = demo_hall,
     dcr_controller = RulesController, dcr_lifetime = Persistent\<rparr>"

lemma town_compile_draft: "is_ok (compile_draft town (town_draft 2) town_policy town_draft_request)"
  "\<not> is_ok (compile_draft town (town_draft 3) town_policy town_draft_request)"
  by code_simp+

theorem compiled_draft_within_policy_witness:
  "\<exists>spec. compile_draft town (town_draft 2) town_policy town_draft_request = Inr spec
    \<and> spec_within_constraints spec"
proof -
  obtain spec where run: "compile_draft town (town_draft 2) town_policy town_draft_request = Inr spec"
    using town_compile_draft(1) by (auto simp: is_ok_iff)
  from compiled_draft_within_policy [OF this] run show ?thesis
    by blast
qed

text \<open>C24. A compiled player is controlled by the player, lives on, has no agent and no two items with
  the same key, and overrides only saved parameters of the registry with values of their types.\<close>

theorem compiled_player_is_sound:
  assumes "definitions_ok (dr_definitions R)" and "compile_player R d form request = Some (Inr out)"
  shows "sp_controller (cpl_character out) = PlayerController
    \<and> sp_agent_binding (cpl_character out) = None
    \<and> sp_lifetime (cpl_character out) = Persistent
    \<and> distinct (map igi_local_key (sp_inventory (cpl_character out)))
    \<and> (\<forall>i v. bt_get i (cpl_parameter_overrides out) = Some v \<longrightarrow> override_ok R i v)"
  using compile_player_Inr [OF assms] by blast

definition town_bootstrap :: player_bootstrap where
  "town_bootstrap = UgcPlayer \<lparr>pdr_form_id = cid ''a.b:player_creation_form/hero'',
     pdr_values = [(cid ''a.b:player_field/gift'', SingleChoiceValue (cid ''a.b:choice/coin''))]\<rparr>"

lemma town_fresh_key: "fresh_item_key town_form [BoundedText ''purse''] 0 = Some (Inr (BoundedText ''ugc_item_0'', 1))"
proof -
  have "item_key_text 0 = ''ugc_item_0''"
    by code_simp
  then show ?thesis
    by (simp add: fresh_item_key.simps bounded_text_new_def bs_contains_def saturating_add_def)
qed

lemma town_compile_player: "\<exists>out. compile_player town (cid ''a.b:character/hero'') town_bootstrap town_request = Some (Inr out)"
proof -
  obtain spec where spec: "compile_character town (cid ''a.b:character/hero'') town_request = Inr spec"
    "sp_inventory spec = [compile_item (town_item ''purse'')]" "sp_controller spec = PlayerController"
    "sp_agent_binding spec = None" "sp_origin spec = ContentEntity (demo_origin (cid ''a.b:character/hero''))"
    using town_character by blast
  let ?b = "start_player_build spec (demo_origin (cid ''a.b:character/hero''))"
  have form: "form_template town_form = cid ''a.b:character/hero''" "form_fields town_form = [town_field]"
    by (simp_all add: town_form_def)
  have "require_form_kind town town_form (cid ''a.b:item/coin'') ''item'' = Inr ()"
    by (simp add: require_form_kind_def require_kind_def registry_get_def [symmetric])
  then have effect: "apply_player_effect town town_form ?b (PGrantItem (cid ''a.b:item/coin'') 1)
      = Some (Inr (push_item (cid ''a.b:item/coin'') 1 (BoundedText ''ugc_item_0'') 1 ?b))"
    using town_fresh_key
    by (simp add: start_player_build_def spec(2) compile_item_def town_item_def bs_of_list_def)
  let ?draft = "\<lparr>pdr_form_id = cid ''a.b:player_creation_form/hero'',
     pdr_values = [(cid ''a.b:player_field/gift'', SingleChoiceValue (cid ''a.b:choice/coin''))]\<rparr>"
  have "apply_player_field town town_form ?draft ?b town_field
      = Some (Inr (push_item (cid ''a.b:item/coin'') 1 (BoundedText ''ugc_item_0'') 1 ?b))"
    using effect by (simp add: apply_player_field_def town_field_def bt_get_def apply_player_binding_def
        apply_selected_player_effects_def)
  moreover have "pcf_id town_field = cid ''a.b:player_field/gift''"
    by (simp add: town_field_def)
  ultimately have "compile_player_draft town ?draft town_request
      = Some (Inr (push_item (cid ''a.b:item/coin'') 1 (BoundedText ''ugc_item_0'') 1 ?b))"
    by (simp add: compile_player_draft_def spec form bt_keys_def)
  then show ?thesis
    by (simp add: compile_player_def town_bootstrap_def push_item_def start_player_build_def spec)
qed

theorem compiled_player_is_sound_witness:
  "\<exists>out. compile_player town (cid ''a.b:character/hero'') town_bootstrap town_request = Some (Inr out)
    \<and> distinct (map igi_local_key (sp_inventory (cpl_character out)))"
proof -
  obtain out where run: "compile_player town (cid ''a.b:character/hero'') town_bootstrap town_request = Some (Inr out)"
    using town_compile_player by blast
  from compiled_player_is_sound [OF town_ok this] run show ?thesis
    by blast
qed

end
