(* ===== verification/Commit_Request.thy ===== *)
theory Commit_Request
  imports Protocol Persistence
begin

text \<open>
  What the store accepts as one durable commit (\<open>loreloom-store/src/request.rs\<close>, \<open>error.rs\<close>): a
  command, the record operations, events and transcripts it produced, and the outcome that is
  returned again when the same action is retried.

  The errors of the database driver and of \<open>serde_json\<close> are kept as the operation they occurred in.
  The lemma \<open>request_validate_Inr_iff\<close> states the contract; \<open>from_execution_Inr_iff\<close> says what of it
  a change set does not already guarantee by its construction.
\<close>

datatype store_error =
    SaveAlreadyExists
  | SaveNotFound
  | SaveNotInitialized
  | InvalidSaveHeadCount
  | Backend string
  | Json string
  | Integrity string
  | RevisionOutOfRange revision
  | InvalidCommit string
  | StoreDomain domain_error
  | StoreRecord record_error
  | StoreRevision revision_error
  | StorePersistence persistence_error

record committed_action =
  ca_action_id :: action_id
  ca_revision :: revision
  ca_event_ids :: "event_id list"
  ca_safe_summary :: short_text

datatype commit_result =
    CommitDone committed_action
  | AlreadyCommitted committed_action
  | CommitConflict revision revision
  | ActionIdentityConflict action_id

record commit_request =
  cr_command :: world_command
  cr_record_ops :: "versioned_record_op list"
  cr_events :: "world_event list"
  cr_transcripts :: "transcript_item_record list"
  cr_safe_outcome :: committed_action

definition invalid_commit :: "string \<Rightarrow> store_error + 'a" where
  "invalid_commit field = Inl (InvalidCommit field)"

lemma invalid_commit_Inr_iff [res_inv, simp]: "invalid_commit field = Inr x \<longleftrightarrow> False"
  by (simp add: invalid_commit_def)

section \<open>Validation\<close>

definition validate_record_op :: "world_command \<Rightarrow> revision \<Rightarrow> nat \<times> versioned_record_op
    \<Rightarrow> store_error + unit" where
  "validate_record_op c r p =
     (if op_action_id (snd p) \<noteq> wc_action_id c \<or> op_revision (snd p) \<noteq> r
         \<or> unat (op_order (snd p)) \<noteq> fst p
      then invalid_commit ''record_op_identity''
      else case op_mutation (snd p) of
             Upsert e \<Rightarrow>
               if re_revision e \<noteq> r then invalid_commit ''record_op_envelope_revision'' else Inr ()
           | DeleteRecord _ \<Rightarrow> Inr ())"

definition upsert_keys :: "versioned_record_op list \<Rightarrow> record_key list" where
  "upsert_keys ops = bs_of_list (List.map_filter (\<lambda>p. case op_mutation p of
     Upsert e \<Rightarrow> Some (envelope_key e) | DeleteRecord _ \<Rightarrow> None) ops)"

definition validate_request_transcript :: "uuid_lib \<Rightarrow> revision \<Rightarrow> record_key list
    \<Rightarrow> transcript_item_record \<Rightarrow> store_error + unit" where
  "validate_request_transcript L r keys v =
     (if tr_revision v \<noteq> Some r then invalid_commit ''transcript_revision''
      else rbind (map_err StoreDomain (key L (TranscriptItemRec v))) (\<lambda>k.
        if \<not> bs_contains k keys then invalid_commit ''transcript_record_op'' else Inr ()))"

definition foreign_event :: "world_command \<Rightarrow> revision \<Rightarrow> world_event \<Rightarrow> bool" where
  "foreign_event c r ev \<longleftrightarrow>
     we_action_id ev \<noteq> wc_action_id c \<or> we_actor_id ev \<noteq> wc_actor_id c \<or> we_revision ev \<noteq> r"

definition request_validate :: "uuid_lib \<Rightarrow> commit_request \<Rightarrow> store_error + unit" where
  "request_validate L q =
     (let c = cr_command q; outcome = cr_safe_outcome q;
          event_ids = map we_id (cr_events q)
      in rbind (map_err StoreRevision (revision_next (wc_expected_revision c))) (\<lambda>r.
         if ca_action_id outcome \<noteq> wc_action_id c \<or> ca_revision outcome \<noteq> r
         then invalid_commit ''safe_outcome_identity''
         else if cr_record_ops q = [] then invalid_commit ''record_ops_empty''
         else rbind (rforeach (validate_record_op c r) (List.enumerate 0 (cr_record_ops q))) (\<lambda>_.
           if event_ids \<noteq> ca_event_ids outcome \<or> length (bs_of_list event_ids) \<noteq> length event_ids
           then invalid_commit ''event_ids''
           else if list_ex (foreign_event c r) (cr_events q) then invalid_commit ''event_identity''
           else rforeach (validate_request_transcript L r (upsert_keys (cr_record_ops q)))
                  (cr_transcripts q))))"

definition commit_request_new :: "uuid_lib \<Rightarrow> world_command \<Rightarrow> versioned_record_op list
    \<Rightarrow> world_event list \<Rightarrow> transcript_item_record list \<Rightarrow> committed_action
    \<Rightarrow> store_error + commit_request" where
  "commit_request_new L c ops events transcripts outcome =
     (let q = \<lparr>cr_command = c, cr_record_ops = ops, cr_events = events,
               cr_transcripts = transcripts, cr_safe_outcome = outcome\<rparr>
      in rbind (request_validate L q) (\<lambda>_. Inr q))"

definition upserted_transcripts :: "domain_record list \<Rightarrow> transcript_item_record list" where
  "upserted_transcripts rs = List.map_filter (\<lambda>r. case r of
     TranscriptItemRec v \<Rightarrow> Some v | _ \<Rightarrow> None) rs"

definition from_execution :: "uuid_lib \<Rightarrow> serde_lib \<Rightarrow> world_command \<Rightarrow> execution_change_set
    \<Rightarrow> store_error + commit_request" where
  "from_execution L S c changes =
     (let outcome = \<lparr>ca_action_id = cs_action_id changes, ca_revision = cs_revision changes,
                     ca_event_ids = map we_id (cs_events changes),
                     ca_safe_summary = cs_safe_summary changes\<rparr>
      in rbind (map_err StoreDomain (record_ops L S changes)) (\<lambda>ops.
           commit_request_new L c ops (cs_events changes)
             (upserted_transcripts (cs_upserts changes)) outcome))"

section \<open>The contract\<close>

lemma bs_of_list_length_distinct: "length (bs_of_list (map f xs)) = length xs \<longleftrightarrow> distinct (map f xs)"
  using bs_ok_length [OF bs_ok_of_list [of "map f xs"]] card_distinct [of "map f xs"]
    distinct_card [of "map f xs"] by auto

lemma request_validate_Inr_iff:
  "request_validate L q = Inr () \<longleftrightarrow>
     (\<exists>r. revision_next (wc_expected_revision (cr_command q)) = Inr r
        \<and> ca_action_id (cr_safe_outcome q) = wc_action_id (cr_command q)
        \<and> ca_revision (cr_safe_outcome q) = r \<and> cr_record_ops q \<noteq> []
        \<and> rforeach (validate_record_op (cr_command q) r) (List.enumerate 0 (cr_record_ops q)) = Inr ()
        \<and> map we_id (cr_events q) = ca_event_ids (cr_safe_outcome q)
        \<and> distinct (map we_id (cr_events q)) \<and> \<not> list_ex (foreign_event (cr_command q) r) (cr_events q)
        \<and> rforeach (validate_request_transcript L r (upsert_keys (cr_record_ops q)))
            (cr_transcripts q) = Inr ())"
  by (auto simp: request_validate_def Let_def rbind_Inr_iff map_err_Inr_iff bs_of_list_length_distinct
      split: if_splits)

text \<open>The operations of a change set are numbered, at its revision, and write every upsert.\<close>

lemma change_set_mutations_in:
  assumes "change_set_mutations L S c ms"
  shows "m \<in> set ms \<longleftrightarrow> (\<exists>r\<in>set (cs_upserts c). \<exists>e. m = Upsert e
      \<and> to_envelope L S r (cs_revision c) (change_set_provenance c) = Inr e)
    \<or> (\<exists>k\<in>set (cs_deletes c). m = DeleteRecord k)"
proof -
  from assms obtain es where es: "list_all2 (\<lambda>r e. to_envelope L S r (cs_revision c)
      (change_set_provenance c) = Inr e) (cs_upserts c) es"
    and "mset ms = mset (map Upsert es @ map DeleteRecord (cs_deletes c))"
    by (auto simp: change_set_mutations_def)
  then have "set ms = set (map Upsert es @ map DeleteRecord (cs_deletes c))"
    by (metis set_mset_mset)
  with es show ?thesis
    by (fastforce simp: list_all2_conv_all_nth in_set_conv_nth)
qed

lemma record_ops_valid:
  assumes ops: "record_ops L S changes = Inr ops" and a: "cs_action_id changes = wc_action_id c"
  shows "rforeach (validate_record_op c (cs_revision changes)) (List.enumerate 0 ops) = Inr ()"
proof -
  from record_ops_commit [OF ops] a obtain ms where
    ops': "ops = commit_ops (cs_revision changes) (wc_action_id c) ms"
    and ms: "change_set_mutations L S changes ms" and len: "length ms \<le> 2 ^ 32"
    by auto
  have "validate_record_op c (cs_revision changes) (i, ops ! i) = Inr ()" if i: "i < length ops" for i
  proof -
    have i': "i < length ms"
      using i by (simp add: ops' commit_ops_def)
    then have op: "ops ! i = commit_op (cs_revision changes) (wc_action_id c) (i, ms ! i)"
      by (simp add: ops' commit_ops_def nth_enumerate_eq)
    have "unat (of_nat i :: u32) = i"
      using i' len by (simp add: unat_of_nat)
    moreover have "re_revision e = cs_revision changes" if "ms ! i = Upsert e" for e
      using change_set_mutations_in [OF ms, of "ms ! i"] nth_mem [OF i'] that
      by (auto dest: to_envelope_key)
    ultimately show ?thesis
      by (auto simp: validate_record_op_def op commit_op_def split: record_mutation.split)
  qed
  then show ?thesis
    by (auto simp: rforeach_Inr_iff in_set_conv_nth nth_enumerate_eq)
qed

lemma upsert_keys_in:
  "bs_contains k (upsert_keys ops) \<longleftrightarrow> (\<exists>e. Upsert e \<in> op_mutation ` set ops \<and> k = envelope_key e)"
proof -
  have "k \<in> set (upsert_keys ops) \<longleftrightarrow> (\<exists>p\<in>set ops. \<exists>e. op_mutation p = Upsert e \<and> k = envelope_key e)"
    by (force simp: upsert_keys_def List.map_filter_def split: record_mutation.splits)
  then show ?thesis
    by (auto simp: bs_contains_def image_iff) metis+
qed

lemma record_ops_upsert_keys:
  assumes ops: "record_ops L S changes = Inr ops" and r: "r \<in> set (cs_upserts changes)"
  shows "\<exists>k. key L r = Inr k \<and> bs_contains k (upsert_keys ops)"
proof -
  from record_ops_commit [OF ops] obtain ms where
    ops': "ops = commit_ops (cs_revision changes) (cs_action_id changes) ms"
    and ms: "change_set_mutations L S changes ms"
    by auto
  from ops have "\<exists>e. to_envelope L S r (cs_revision changes) (change_set_provenance changes) = Inr e"
    using push_upserts_Inr [of "([], [])"] r
    by (fastforce simp: record_ops_def rbind_Inr_iff builder_ok_def list_all2_conv_all_nth in_set_conv_nth)
  then obtain e where e: "to_envelope L S r (cs_revision changes) (change_set_provenance changes) = Inr e" ..
  with change_set_mutations_in [OF ms, of "Upsert e"] r have "Upsert e \<in> set ms"
    by blast
  moreover have "map op_mutation ops = ms"
    by (simp add: ops' commit_ops_def commit_op_def comp_def)
  ultimately have "Upsert e \<in> op_mutation ` set ops"
    by (metis list.set_map)
  moreover have "key L r = Inr (envelope_key e)"
    using e by (auto dest: to_envelope_key)
  ultimately show ?thesis
    by (auto simp: upsert_keys_in)
qed

text \<open>So what a request from an executed command still has to show is that it writes something,
  that its events are distinct and by the actor of the command, and the revisions of its transcripts.\<close>

definition own_events :: "world_command \<Rightarrow> execution_change_set \<Rightarrow> bool" where
  "own_events c changes \<longleftrightarrow> distinct (map we_id (cs_events changes))
     \<and> \<not> list_ex (foreign_event c (cs_revision changes)) (cs_events changes)"

lemma from_execution_Inr_iff:
  assumes "cs_action_id changes = wc_action_id c"
    and next_revision: "revision_next (wc_expected_revision c) = Inr (cs_revision changes)"
  shows "(\<exists>q. from_execution L S c changes = Inr q) \<longleftrightarrow>
    (\<exists>ops. record_ops L S changes = Inr ops \<and> ops \<noteq> []) \<and> own_events c changes
    \<and> list_all (\<lambda>v. tr_revision v = Some (cs_revision changes)) (upserted_transcripts (cs_upserts changes))"
proof -
  have "rforeach (validate_request_transcript L (cs_revision changes) (upsert_keys ops))
      (upserted_transcripts (cs_upserts changes)) = Inr ()
    \<longleftrightarrow> list_all (\<lambda>v. tr_revision v = Some (cs_revision changes)) (upserted_transcripts (cs_upserts changes))"
    if ops: "record_ops L S changes = Inr ops" for ops
  proof -
    have "\<exists>k. key L (TranscriptItemRec v) = Inr k \<and> bs_contains k (upsert_keys ops)"
      if "v \<in> set (upserted_transcripts (cs_upserts changes))" for v
      using that by (intro record_ops_upsert_keys [OF ops])
        (auto simp: upserted_transcripts_def List.map_filter_def split: domain_record.splits)
    then show ?thesis
      by (fastforce simp: rforeach_Inr_iff list_all_iff validate_request_transcript_def rbind_Inr_iff
          map_err_Inr_iff split: if_splits)
  qed
  with assms record_ops_valid [OF _ assms(1)] show ?thesis
    by (auto simp: from_execution_def commit_request_new_def Let_def rbind_Inr_iff map_err_Inr_iff
        request_validate_Inr_iff own_events_def)
qed

end
