(* ===== verification/Store_Rows.thy ===== *)
theory Store_Rows
  imports Commit_Request
begin

text \<open>
  The rows of a save database (\<open>loreloom-store/src/models.rs\<close>, and the row functions of
  \<open>store.rs\<close>): their identifiers, their checksums, and the rows that one commit prepares.

  The code that is not in the repository is the parameter \<open>store_lib\<close>: the derived \<open>serde\<close> code of
  the values that are stored, \<open>serde_json\<close>'s objects, numbers and bytes, and SHA-256. \<open>store_lib_ok\<close>
  is the law that a value that serialises is read back; nothing is assumed of the digest.
\<close>

section \<open>The libraries\<close>

type_synonym bytes = "8 word list"

record store_lib =
  sto_uuid :: uuid_lib
  sto_serde :: serde_lib
  sto_manifest :: "save_manifest codec"
  sto_envelopes :: "record_envelope list codec"
  sto_operation :: "versioned_record_op codec"
  sto_event :: "world_event codec"
  sto_command :: "world_command codec"
  sto_outcome :: "committed_action codec"
  sto_object :: "(string \<times> json) list \<Rightarrow> json"
  sto_number :: "u64 \<Rightarrow> json"
  sto_value_bytes :: "json \<Rightarrow> string + bytes"
  sto_command_bytes :: "world_command \<Rightarrow> string + bytes"
  sto_sha256 :: "bytes \<Rightarrow> bytes"

definition store_lib_ok :: "store_lib \<Rightarrow> bool" where
  "store_lib_ok X \<longleftrightarrow> uuid_lib_ok (sto_uuid X) \<and> serde_lib_ok (sto_serde X)
     \<and> codec_ok (sto_manifest X) \<and> codec_ok (sto_envelopes X) \<and> codec_ok (sto_operation X)
     \<and> codec_ok (sto_event X) \<and> codec_ok (sto_command X) \<and> codec_ok (sto_outcome X)"

section \<open>Rows\<close>

record save_head_row =
  sh_save_id :: string
  sh_revision :: i64
  sh_manifest :: json
  sh_checksum :: string

record checkpoint_row =
  cp_id :: string
  cp_save_id :: string
  cp_revision :: i64
  cp_records :: json
  cp_checksum :: string

record record_op_row =
  ro_id :: string
  ro_save_id :: string
  ro_revision :: i64
  ro_op_order :: i64
  ro_action_id :: string
  ro_payload :: json
  ro_checksum :: string

record world_event_row =
  ev_id :: string
  ev_save_id :: string
  ev_revision :: i64
  ev_event_id :: string
  ev_payload :: json
  ev_checksum :: string

record transcript_row =
  ts_id :: string
  ts_save_id :: string
  ts_revision :: i64
  ts_transcript_id :: string
  ts_payload :: json
  ts_checksum :: string

record action_commit_row =
  ac_id :: string
  ac_save_id :: string
  ac_action_id :: string
  ac_revision :: i64
  ac_request_digest :: string
  ac_command :: json
  ac_outcome :: json
  ac_checksum :: string

section \<open>Helpers\<close>

definition integrity :: "string \<Rightarrow> store_error + 'a" where
  "integrity what = Inl (Integrity what)"

definition to_json :: "'a codec \<Rightarrow> 'a \<Rightarrow> string \<Rightarrow> store_error + json" where
  "to_json c value operation = map_err (\<lambda>_. Json operation) (serialize c value)"

definition from_json :: "'a codec \<Rightarrow> json \<Rightarrow> string \<Rightarrow> store_error + 'a" where
  "from_json c value operation = map_err (\<lambda>_. Json operation) (deserialize c value)"

definition revision_to_i64 :: "revision \<Rightarrow> store_error + i64" where
  "revision_to_i64 r =
     (if unat (revision_get r) < 2 ^ 63 then Inr (ucast (revision_get r)) else Inl (RevisionOutOfRange r))"

definition revision_from_i64 :: "i64 \<Rightarrow> store_error + revision" where
  "revision_from_i64 n = (if 0 \<le> sint n then Inr (Revision (ucast n)) else Inl (Integrity ''negative_revision''))"

text \<open>\<open>{:0w}\<close>: the decimal digits, padded with zeros to a width.\<close>

definition digit_char :: "nat \<Rightarrow> char" where
  "digit_char d = char_of (48 + d)"

fun decimal :: "nat \<Rightarrow> string" where
  "decimal n = (if n < 10 then [digit_char n] else decimal (n div 10) @ [digit_char (n mod 10)])"

declare decimal.simps [simp del]

definition padded :: "nat \<Rightarrow> nat \<Rightarrow> string" where
  "padded w n = replicate (w - length (decimal n)) (CHR ''0'') @ decimal n"

definition SAV :: string where "SAV = ''sav''"
definition EVT :: string where "EVT = ''evt''"

definition checkpoint_row_id :: "revision \<Rightarrow> string" where
  "checkpoint_row_id r = padded 20 (unat (revision_get r))"

definition record_op_row_id :: "revision \<Rightarrow> u32 \<Rightarrow> string" where
  "record_op_row_id r order = padded 20 (unat (revision_get r)) @ ''/'' @ padded 10 (unat order)"

definition event_row_id :: "store_lib \<Rightarrow> revision \<Rightarrow> event_id \<Rightarrow> string" where
  "event_row_id X r i =
     padded 20 (unat (revision_get r)) @ ''/'' @ runtime_id_to_string (sto_uuid X) EVT i"

definition transcript_row_id :: "store_lib \<Rightarrow> revision \<Rightarrow> transcript_item_id \<Rightarrow> string" where
  "transcript_row_id X r i =
     padded 20 (unat (revision_get r)) @ ''/'' @ runtime_id_to_string (sto_uuid X) TRN i"

section \<open>Checksums\<close>

text \<open>The domain separators, as the texts before their final zero byte.\<close>

definition COMMAND_DIGEST_DOMAIN :: string where
  "COMMAND_DIGEST_DOMAIN = ''loreloom.world-command.v1''"
definition HEAD_CHECKSUM_DOMAIN :: string where
  "HEAD_CHECKSUM_DOMAIN = ''loreloom.save-head.v1''"
definition CHECKPOINT_CHECKSUM_DOMAIN :: string where
  "CHECKPOINT_CHECKSUM_DOMAIN = ''loreloom.checkpoint.v1''"
definition RECORD_OP_CHECKSUM_DOMAIN :: string where
  "RECORD_OP_CHECKSUM_DOMAIN = ''loreloom.record-op.v1''"
definition EVENT_CHECKSUM_DOMAIN :: string where
  "EVENT_CHECKSUM_DOMAIN = ''loreloom.world-event.v1''"
definition TRANSCRIPT_CHECKSUM_DOMAIN :: string where
  "TRANSCRIPT_CHECKSUM_DOMAIN = ''loreloom.transcript.v1''"
definition ACTION_CHECKSUM_DOMAIN :: string where
  "ACTION_CHECKSUM_DOMAIN = ''loreloom.action-commit.v1''"

definition text_bytes :: "string \<Rightarrow> bytes" where
  "text_bytes s = map (\<lambda>c. of_nat (of_char c)) s"

definition hex_byte :: "8 word \<Rightarrow> string" where
  "hex_byte b = [''0123456789abcdef'' ! unat (drop_bit 4 b), ''0123456789abcdef'' ! unat (and b 0x0f)]"

definition digest :: "store_lib \<Rightarrow> string \<Rightarrow> bytes \<Rightarrow> string" where
  "digest X separator bs = concat (map hex_byte (sto_sha256 X (text_bytes separator @ [0] @ bs)))"

definition checksum_json :: "store_lib \<Rightarrow> string \<Rightarrow> json \<Rightarrow> store_error + string" where
  "checksum_json X separator value =
     rbind (map_err (\<lambda>_. Json ''encode checksum payload'') (sto_value_bytes X value)) (\<lambda>bs.
       Inr (digest X separator bs))"

definition request_digest :: "store_lib \<Rightarrow> world_command \<Rightarrow> store_error + string" where
  "request_digest X c =
     rbind (map_err (\<lambda>_. Json ''encode command digest'') (sto_command_bytes X c)) (\<lambda>bs.
       Inr (digest X COMMAND_DIGEST_DOMAIN bs))"

definition json_revision :: "store_lib \<Rightarrow> revision \<Rightarrow> json" where
  "json_revision X r = sto_number X (revision_get r)"

definition head_checksum :: "store_lib \<Rightarrow> revision \<Rightarrow> json \<Rightarrow> store_error + string" where
  "head_checksum X r manifest = checksum_json X HEAD_CHECKSUM_DOMAIN
     (sto_object X [(''revision'', json_revision X r), (''manifest'', manifest)])"

definition checkpoint_checksum :: "store_lib \<Rightarrow> revision \<Rightarrow> json \<Rightarrow> store_error + string" where
  "checkpoint_checksum X r records = checksum_json X CHECKPOINT_CHECKSUM_DOMAIN
     (sto_object X [(''revision'', json_revision X r), (''records'', records)])"

definition record_op_checksum_parts :: "store_lib \<Rightarrow> string \<Rightarrow> revision \<Rightarrow> u32 \<Rightarrow> string \<Rightarrow> json
    \<Rightarrow> store_error + string" where
  "record_op_checksum_parts X save_id r order action_id payload =
     checksum_json X RECORD_OP_CHECKSUM_DOMAIN (sto_object X
       [(''save_id'', JString save_id), (''revision'', json_revision X r),
        (''order'', sto_number X (ucast order)), (''action_id'', JString action_id),
        (''payload'', payload)])"

definition event_checksum_parts :: "store_lib \<Rightarrow> string \<Rightarrow> revision \<Rightarrow> event_id \<Rightarrow> json
    \<Rightarrow> store_error + string" where
  "event_checksum_parts X save_id r event_id payload =
     checksum_json X EVENT_CHECKSUM_DOMAIN (sto_object X
       [(''save_id'', JString save_id), (''revision'', json_revision X r),
        (''event_id'', JString (runtime_id_to_string (sto_uuid X) EVT event_id)),
        (''payload'', payload)])"

definition transcript_checksum_parts :: "store_lib \<Rightarrow> string \<Rightarrow> revision \<Rightarrow> transcript_item_id \<Rightarrow> json
    \<Rightarrow> store_error + string" where
  "transcript_checksum_parts X save_id r transcript_id payload =
     checksum_json X TRANSCRIPT_CHECKSUM_DOMAIN (sto_object X
       [(''save_id'', JString save_id), (''revision'', json_revision X r),
        (''transcript_id'', JString (runtime_id_to_string (sto_uuid X) TRN transcript_id)),
        (''payload'', payload)])"

definition action_checksum :: "store_lib \<Rightarrow> string \<Rightarrow> string \<Rightarrow> revision \<Rightarrow> string \<Rightarrow> json \<Rightarrow> json
    \<Rightarrow> store_error + string" where
  "action_checksum X save_id action_id r command_digest command outcome =
     checksum_json X ACTION_CHECKSUM_DOMAIN (sto_object X
       [(''save_id'', JString save_id), (''action_id'', JString action_id),
        (''revision'', json_revision X r), (''request_digest'', JString command_digest),
        (''command'', command), (''outcome'', outcome)])"

definition record_op_checksum :: "store_lib \<Rightarrow> string \<Rightarrow> versioned_record_op \<Rightarrow> json
    \<Rightarrow> store_error + string" where
  "record_op_checksum X save_id operation payload =
     record_op_checksum_parts X save_id (op_revision operation) (op_order operation)
       (runtime_id_to_string (sto_uuid X) ACT (op_action_id operation)) payload"

definition event_checksum :: "store_lib \<Rightarrow> string \<Rightarrow> world_event \<Rightarrow> json \<Rightarrow> store_error + string" where
  "event_checksum X save_id ev payload = event_checksum_parts X save_id (we_revision ev) (we_id ev) payload"

definition transcript_checksum :: "store_lib \<Rightarrow> string \<Rightarrow> revision \<Rightarrow> transcript_item_record \<Rightarrow> json
    \<Rightarrow> store_error + string" where
  "transcript_checksum X save_id r v payload = transcript_checksum_parts X save_id r (tr_id v) payload"

section \<open>Checking rows\<close>

definition validate_head_row :: "store_lib \<Rightarrow> save_head_row \<Rightarrow> store_error + save_manifest \<times> revision" where
  "validate_head_row X row =
     rbind (revision_from_i64 (sh_revision row)) (\<lambda>r.
     rbind (head_checksum X r (sh_manifest row)) (\<lambda>sum.
       if sum \<noteq> sh_checksum row then integrity ''save_head_checksum''
       else
         rbind (from_json (sto_manifest X) (sh_manifest row) ''decode save manifest'') (\<lambda>m.
         rbind (map_err StorePersistence (save_manifest_validate m)) (\<lambda>_.
           if sh_save_id row \<noteq> runtime_id_to_string (sto_uuid X) SAV (sm_save_id m)
           then integrity ''save_head_identity'' else Inr (m, r)))))"

definition validate_action_row :: "store_lib \<Rightarrow> action_commit_row \<Rightarrow> string
    \<Rightarrow> store_error + committed_action" where
  "validate_action_row X row save_id =
     rbind (revision_from_i64 (ac_revision row)) (\<lambda>r.
     rbind (if ac_save_id row \<noteq> save_id \<or> ac_id row \<noteq> ac_action_id row then Inr True
            else rbind (action_checksum X save_id (ac_action_id row) r (ac_request_digest row)
                          (ac_command row) (ac_outcome row)) (\<lambda>sum. Inr (sum \<noteq> ac_checksum row))) (\<lambda>bad.
       if bad then integrity ''action_commit_checksum''
       else
         rbind (from_json (sto_command X) (ac_command row) ''decode committed command'') (\<lambda>c.
         rbind (from_json (sto_outcome X) (ac_outcome row) ''decode committed outcome'') (\<lambda>out.
         rbind (if runtime_id_to_string (sto_uuid X) ACT (wc_action_id c) \<noteq> ac_action_id row
                   \<or> ca_action_id out \<noteq> wc_action_id c \<or> ca_revision out \<noteq> r
                then Inr True
                else rbind (request_digest X c) (\<lambda>d. Inr (d \<noteq> ac_request_digest row))) (\<lambda>bad.
           if bad then integrity ''action_commit_projection'' else Inr out)))))"

section \<open>Records of a checkpoint\<close>

definition validate_world_identity :: "save_manifest \<Rightarrow> domain_record list \<Rightarrow> store_error + unit" where
  "validate_world_identity m records =
     (if List.map_filter (\<lambda>r. case r of WorldStateRec st \<Rightarrow> Some (ws_id st) | _ \<Rightarrow> None) records
         = [sm_world_id m]
      then Inr () else integrity ''world_identity'')"

definition checkpoint_envelope :: "store_lib \<Rightarrow> revision \<Rightarrow> domain_record
    \<Rightarrow> store_error + record_envelope" where
  "checkpoint_envelope X r rec =
     rbind (map_err StoreDomain (domain_validate rec)) (\<lambda>_.
       map_err StoreDomain (to_envelope (sto_uuid X) (sto_serde X) rec r None))"

definition checkpoint_records :: "store_lib \<Rightarrow> domain_record list \<Rightarrow> revision
    \<Rightarrow> store_error + record_envelope list \<times> transcript_item_record list" where
  "checkpoint_records X records r =
     rbind (rmapM (checkpoint_envelope X r) records) (\<lambda>envelopes.
       let sorted_envelopes = sort_key envelope_key envelopes
       in if list_ex (\<lambda>(a, b). envelope_key a = envelope_key b)
               (zip sorted_envelopes (tl sorted_envelopes))
          then integrity ''checkpoint_duplicate_record''
          else Inr (sorted_envelopes, upserted_transcripts records))"

section \<open>The rows of a commit\<close>

record prepared_record_op =
  po_id :: string
  po_revision :: i64
  po_order :: i64
  po_payload :: json
  po_checksum :: string

record prepared_event =
  pe_id :: string
  pe_revision :: i64
  pe_event_id :: string
  pe_payload :: json
  pe_checksum :: string

record prepared_transcript =
  pt_id :: string
  pt_save_id :: string
  pt_revision :: i64
  pt_transcript_id :: string
  pt_payload :: json
  pt_checksum :: string

record prepared_commit =
  pc_save_id :: string
  pc_action_id :: string
  pc_revision :: i64
  pc_request_digest :: string
  pc_command :: json
  pc_outcome :: json
  pc_action_checksum :: string
  pc_head_checksum :: string
  pc_record_ops :: "prepared_record_op list"
  pc_events :: "prepared_event list"
  pc_transcripts :: "prepared_transcript list"

definition prepare_transcript :: "store_lib \<Rightarrow> string \<Rightarrow> revision \<Rightarrow> bool \<Rightarrow> transcript_item_record
    \<Rightarrow> store_error + prepared_transcript" where
  "prepare_transcript X save_id r initial v =
     (if \<not> initial \<and> tr_revision v \<noteq> Some r \<or> initial \<and> tr_revision v \<noteq> None \<and> tr_revision v \<noteq> Some r
      then Inl (InvalidCommit ''transcript_revision'')
      else
        rbind (to_json (sl_transcript_item (sto_serde X)) v ''encode transcript'') (\<lambda>payload.
        rbind (transcript_checksum X save_id r v payload) (\<lambda>sum.
        rbind (revision_to_i64 r) (\<lambda>n.
          Inr \<lparr>pt_id = transcript_row_id X r (tr_id v), pt_save_id = save_id, pt_revision = n,
               pt_transcript_id = runtime_id_to_string (sto_uuid X) TRN (tr_id v),
               pt_payload = payload, pt_checksum = sum\<rparr>))))"

definition prepare_transcripts :: "store_lib \<Rightarrow> string \<Rightarrow> revision \<Rightarrow> transcript_item_record list \<Rightarrow> bool
    \<Rightarrow> store_error + prepared_transcript list" where
  "prepare_transcripts X save_id r transcripts initial =
     rmapM (prepare_transcript X save_id r initial) transcripts"

definition prepare_record_op :: "store_lib \<Rightarrow> string \<Rightarrow> i64 \<Rightarrow> versioned_record_op
    \<Rightarrow> store_error + prepared_record_op" where
  "prepare_record_op X save_id n operation =
     rbind (to_json (sto_operation X) operation ''encode record operation'') (\<lambda>payload.
     rbind (record_op_checksum X save_id operation payload) (\<lambda>sum.
       Inr \<lparr>po_id = record_op_row_id (op_revision operation) (op_order operation), po_revision = n,
            po_order = ucast (op_order operation), po_payload = payload, po_checksum = sum\<rparr>))"

definition prepare_event :: "store_lib \<Rightarrow> string \<Rightarrow> i64 \<Rightarrow> world_event \<Rightarrow> store_error + prepared_event" where
  "prepare_event X save_id n ev =
     rbind (to_json (sto_event X) ev ''encode world event'') (\<lambda>payload.
     rbind (event_checksum X save_id ev payload) (\<lambda>sum.
       Inr \<lparr>pe_id = event_row_id X (we_revision ev) (we_id ev), pe_revision = n,
            pe_event_id = runtime_id_to_string (sto_uuid X) EVT (we_id ev),
            pe_payload = payload, pe_checksum = sum\<rparr>))"

definition prepared_commit_new :: "store_lib \<Rightarrow> save_manifest \<Rightarrow> commit_request
    \<Rightarrow> store_error + prepared_commit" where
  "prepared_commit_new X m q =
     (let r = ca_revision (cr_safe_outcome q);
          save_id = runtime_id_to_string (sto_uuid X) SAV (sm_save_id m);
          action_id = runtime_id_to_string (sto_uuid X) ACT (wc_action_id (cr_command q))
      in
        rbind (revision_to_i64 r) (\<lambda>n.
        rbind (request_digest X (cr_command q)) (\<lambda>d.
        rbind (to_json (sto_command X) (cr_command q) ''encode committed command'') (\<lambda>command.
        rbind (to_json (sto_outcome X) (cr_safe_outcome q) ''encode committed outcome'') (\<lambda>outcome.
        rbind (action_checksum X save_id action_id r d command outcome) (\<lambda>action_sum.
        rbind (to_json (sto_manifest X) m ''encode committed manifest'') (\<lambda>manifest.
        rbind (head_checksum X r manifest) (\<lambda>head_sum.
        rbind (rmapM (prepare_record_op X save_id n) (cr_record_ops q)) (\<lambda>ops.
        rbind (rmapM (prepare_event X save_id n) (cr_events q)) (\<lambda>events.
        rbind (prepare_transcripts X save_id r (cr_transcripts q) False) (\<lambda>transcripts.
          Inr \<lparr>pc_save_id = save_id, pc_action_id = action_id, pc_revision = n,
               pc_request_digest = d, pc_command = command, pc_outcome = outcome,
               pc_action_checksum = action_sum, pc_head_checksum = head_sum,
               pc_record_ops = ops, pc_events = events, pc_transcripts = transcripts\<rparr>)))))))))))"

end
