(* ===== verification/Store.thy ===== *)
theory Store
  imports Store_Rows
begin

text \<open>
  The save store (\<open>loreloom-store/src/store.rs\<close>): creating, opening and loading a save, committing a
  request, resolving an action, adopting content locks and writing a checkpoint.

  The database is the parameter \<open>db_lib\<close>: for each table the scan, the lookup by key, the insertion
  and the update, and transactions, over a state \<open>'d\<close> of which nothing else is known. \<open>db_ok\<close> states
  what the code relies on, through the contents \<open>tables\<close> of a state: what is inserted is found, a key
  is inserted once, a transaction sees the state it began in, and its writes are all there after a
  commit that reports success. After a commit that reports a serialization failure none of them are,
  but other connections may have committed; after a commit that reports any other failure either all
  of them are there or none. Each operation is a step of one connection; steps of several connections
  to the same save are sequences of such steps over one database state.

  A method with \<open>&mut self\<close> returns its result and the store it leaves, on errors too.
\<close>

section \<open>The database\<close>

text \<open>\<open>toasty::Error\<close>, by the two questions the code asks of it.\<close>

datatype driver_error = RecordNotFound | SerializationFailure | DriverFailure

record ('d, 'r) table_lib =
  tb_all :: "'d \<Rightarrow> driver_error + 'r list"
  tb_get :: "'d \<Rightarrow> string \<Rightarrow> driver_error + 'r"
  tb_create :: "'d \<Rightarrow> 'r \<Rightarrow> driver_error + 'd"
  tb_update :: "'d \<Rightarrow> 'r \<Rightarrow> driver_error + 'd"

record 'd db_lib =
  db_fresh :: 'd
  db_push_schema :: "'d \<Rightarrow> driver_error + 'd"
  db_open :: "'d \<Rightarrow> driver_error + 'd"
  db_begin :: "'d \<Rightarrow> driver_error + 'd"
  db_commit :: "'d \<Rightarrow> 'd \<Rightarrow> driver_error option \<times> 'd"
  db_rollback :: "'d \<Rightarrow> driver_error + unit"
  db_heads :: "('d, save_head_row) table_lib"
  db_checkpoints :: "('d, checkpoint_row) table_lib"
  db_ops :: "('d, record_op_row) table_lib"
  db_events :: "('d, world_event_row) table_lib"
  db_transcripts :: "('d, transcript_row) table_lib"
  db_actions :: "('d, action_commit_row) table_lib"

definition backend :: "string \<Rightarrow> driver_error + 'a \<Rightarrow> store_error + 'a" where
  "backend operation m = map_err (\<lambda>_. Backend operation) m"

section \<open>The store\<close>

datatype action_resolution =
    NotCommitted revision
  | ResolvedCommitted committed_action
  | ResolvedIdentityConflict action_id

record loaded_save =
  ld_manifest :: save_manifest
  ld_revision :: revision
  ld_records :: "domain_record list"
  ld_events :: "world_event list"
  ld_transcripts :: "transcript_item_record list"

record 'd save_store =
  ss_db :: 'd
  ss_manifest :: save_manifest
  ss_revision :: revision

record loaded_checkpoint =
  lc_revision :: revision
  lc_records :: "record_envelope list"

type_synonym ('d, 'a) store_step = "'d save_store \<Rightarrow> (store_error + 'a) \<times> 'd save_store"

definition store_save_id :: "store_lib \<Rightarrow> save_manifest \<Rightarrow> string" where
  "store_save_id X m = runtime_id_to_string (sto_uuid X) SAV (sm_save_id m)"

subsection \<open>Opening\<close>

definition load_single_head :: "store_lib \<Rightarrow> 'd db_lib \<Rightarrow> 'd \<Rightarrow> store_error + save_manifest \<times> revision" where
  "load_single_head X D d =
     rbind (backend ''scan save heads'' (tb_all (db_heads D) d)) (\<lambda>heads.
       case heads of
         [] \<Rightarrow> Inl SaveNotInitialized
       | [h] \<Rightarrow> validate_head_row X h
       | _ \<Rightarrow> Inl InvalidSaveHeadCount)"

definition load_head :: "store_lib \<Rightarrow> 'd db_lib \<Rightarrow> 'd \<Rightarrow> string \<Rightarrow> store_error + save_manifest \<times> revision" where
  "load_head X D d save_id =
     rbind (backend ''load save head'' (tb_get (db_heads D) d save_id)) (validate_head_row X)"

definition open_database :: "'d db_lib \<Rightarrow> 'd \<Rightarrow> store_error + 'd" where
  "open_database D d =
     rbind (backend ''open SurrealKV'' (db_open D d)) (\<lambda>d'.
       backend ''apply store schema'' (db_push_schema D d'))"

definition from_driver :: "store_lib \<Rightarrow> 'd db_lib \<Rightarrow> 'd \<Rightarrow> store_error + 'd save_store" where
  "from_driver X D d =
     rbind (open_database D d) (\<lambda>d'.
     rbind (load_single_head X D d') (\<lambda>(m, r).
       Inr \<lparr>ss_db = d', ss_manifest = m, ss_revision = r\<rparr>))"

text \<open>\<open>disk\<close> is the database at the path, if the path exists.\<close>

definition store_open :: "store_lib \<Rightarrow> 'd db_lib \<Rightarrow> 'd option \<Rightarrow> store_error + 'd save_store" where
  "store_open X D disk = (case disk of None \<Rightarrow> Inl SaveNotFound | Some d \<Rightarrow> from_driver X D d)"

definition store_connect :: "store_lib \<Rightarrow> 'd db_lib \<Rightarrow> 'd save_store \<Rightarrow> store_error + 'd save_store" where
  "store_connect X D s =
     rbind (from_driver X D (ss_db s)) (\<lambda>connected.
       if ss_manifest connected \<noteq> ss_manifest s then integrity ''connected_manifest'' else Inr connected)"

subsection \<open>Creating\<close>

definition transcript_row_of :: "prepared_transcript \<Rightarrow> transcript_row" where
  "transcript_row_of row =
     \<lparr>ts_id = pt_id row, ts_save_id = pt_save_id row, ts_revision = pt_revision row,
      ts_transcript_id = pt_transcript_id row, ts_payload = pt_payload row,
      ts_checksum = pt_checksum row\<rparr>"

definition create_transcript_row :: "'d db_lib \<Rightarrow> 'd \<Rightarrow> prepared_transcript \<Rightarrow> store_error + 'd" where
  "create_transcript_row D tx row =
     backend ''write transcript'' (tb_create (db_transcripts D) tx (transcript_row_of row))"

definition commit_tx :: "'d db_lib \<Rightarrow> string \<Rightarrow> 'd \<Rightarrow> 'd \<Rightarrow> (store_error + unit) \<times> 'd" where
  "commit_tx D operation d tx =
     (case db_commit D d tx of
        (None, d') \<Rightarrow> (Inr (), d')
      | (Some _, d') \<Rightarrow> (Inl (Backend operation), d'))"

definition store_create :: "store_lib \<Rightarrow> 'd db_lib \<Rightarrow> bool \<Rightarrow> save_manifest \<Rightarrow> domain_record list
    \<Rightarrow> store_error + 'd save_store" where
  "store_create X D path_exists m initial_records =
     (if path_exists then Inl SaveAlreadyExists
      else
        let r0 = Revision 0; save_id = store_save_id X m in
        rbind (map_err StorePersistence (save_manifest_validate m)) (\<lambda>_.
        rbind (checkpoint_records X initial_records r0) (\<lambda>(envelopes, transcripts).
        rbind (validate_world_identity m initial_records) (\<lambda>_.
        rbind (to_json (sto_envelopes X) envelopes ''encode initial checkpoint'') (\<lambda>records.
        rbind (checkpoint_checksum X r0 records) (\<lambda>checkpoint_sum.
        rbind (to_json (sto_manifest X) m ''encode save manifest'') (\<lambda>manifest.
        rbind (head_checksum X r0 manifest) (\<lambda>head_sum.
        rbind (prepare_transcripts X save_id r0 transcripts True) (\<lambda>prepared.
        rbind (open_database D (db_fresh D)) (\<lambda>d.
        rbind (backend ''begin initialize transaction'' (db_begin D d)) (\<lambda>tx.
        rbind (backend ''write initial save head'' (tb_create (db_heads D) tx
                 \<lparr>sh_save_id = save_id, sh_revision = 0, sh_manifest = manifest,
                  sh_checksum = head_sum\<rparr>)) (\<lambda>tx.
        rbind (backend ''write initial checkpoint'' (tb_create (db_checkpoints D) tx
                 \<lparr>cp_id = checkpoint_row_id r0, cp_save_id = save_id, cp_revision = 0,
                  cp_records = records, cp_checksum = checkpoint_sum\<rparr>)) (\<lambda>tx.
        rbind (rfold (create_transcript_row D) tx prepared) (\<lambda>tx.
          case commit_tx D ''commit save initialization'' d tx of
            (Inl e, _) \<Rightarrow> Inl e
          | (Inr _, d') \<Rightarrow> Inr \<lparr>ss_db = d', ss_manifest = m, ss_revision = r0\<rparr>))))))))))))))"

subsection \<open>Content locks\<close>

definition adopt_content_locks :: "store_lib \<Rightarrow> 'd db_lib \<Rightarrow> world_lock \<Rightarrow> mod_lock
    \<Rightarrow> ('d, unit) store_step" where
  "adopt_content_locks X D world_lock mod_lock s =
     (let m = ss_manifest s;
          candidate = m\<lparr>sm_world_lock := world_lock, sm_mod_lock := mod_lock\<rparr>;
          prepared =
            rbind (map_err StorePersistence (save_manifest_validate candidate)) (\<lambda>_.
            rbind (to_json (sto_manifest X) candidate ''encode adopted save manifest'') (\<lambda>manifest.
            rbind (head_checksum X (ss_revision s) manifest) (\<lambda>sum.
            rbind (backend ''begin content lock adoption'' (db_begin D (ss_db s))) (\<lambda>tx.
            rbind (backend ''read save head for content lock adoption''
                     (tb_get (db_heads D) tx (store_save_id X m))) (\<lambda>head.
            rbind (validate_head_row X head) (\<lambda>(durable_manifest, durable_revision).
              if durable_manifest \<noteq> m \<or> durable_revision \<noteq> ss_revision s
              then rbind (backend ''rollback stale content lock adoption'' (db_rollback D tx)) (\<lambda>_.
                     Inl (InvalidCommit ''content_lock_adoption_head''))
              else if candidate = m
              then rbind (backend ''rollback unchanged content lock adoption'' (db_rollback D tx)) (\<lambda>_.
                     Inr None)
              else rbind (backend ''write adopted content locks'' (tb_update (db_heads D) tx
                            (head\<lparr>sh_manifest := manifest, sh_checksum := sum\<rparr>))) (\<lambda>tx.
                     Inr (Some tx))))))))
      in case prepared of
           Inl e \<Rightarrow> (Inl e, s)
         | Inr None \<Rightarrow> (Inr (), s)
         | Inr (Some tx) \<Rightarrow>
             (case commit_tx D ''commit content lock adoption'' (ss_db s) tx of
                (Inl e, d) \<Rightarrow> (Inl e, s\<lparr>ss_db := d\<rparr>)
              | (Inr _, d) \<Rightarrow> (Inr (), s\<lparr>ss_db := d, ss_manifest := candidate\<rparr>)))"

subsection \<open>Committing\<close>

definition op_row_of :: "prepared_commit \<Rightarrow> prepared_record_op \<Rightarrow> record_op_row" where
  "op_row_of p row =
     \<lparr>ro_id = po_id row, ro_save_id = pc_save_id p, ro_revision = po_revision row,
      ro_op_order = po_order row, ro_action_id = pc_action_id p, ro_payload = po_payload row,
      ro_checksum = po_checksum row\<rparr>"

definition create_op_row :: "'d db_lib \<Rightarrow> prepared_commit \<Rightarrow> 'd \<Rightarrow> prepared_record_op
    \<Rightarrow> store_error + 'd" where
  "create_op_row D p tx row =
     backend ''write record operation'' (tb_create (db_ops D) tx (op_row_of p row))"

definition event_row_of :: "prepared_commit \<Rightarrow> prepared_event \<Rightarrow> world_event_row" where
  "event_row_of p row =
     \<lparr>ev_id = pe_id row, ev_save_id = pc_save_id p, ev_revision = pe_revision row,
      ev_event_id = pe_event_id row, ev_payload = pe_payload row, ev_checksum = pe_checksum row\<rparr>"

definition create_event_row :: "'d db_lib \<Rightarrow> prepared_commit \<Rightarrow> 'd \<Rightarrow> prepared_event
    \<Rightarrow> store_error + 'd" where
  "create_event_row D p tx row =
     backend ''write world event'' (tb_create (db_events D) tx (event_row_of p row))"

definition action_row_of :: "prepared_commit \<Rightarrow> action_commit_row" where
  "action_row_of p =
     \<lparr>ac_id = pc_action_id p, ac_save_id = pc_save_id p, ac_action_id = pc_action_id p,
      ac_revision = pc_revision p, ac_request_digest = pc_request_digest p, ac_command = pc_command p,
      ac_outcome = pc_outcome p, ac_checksum = pc_action_checksum p\<rparr>"

text \<open>The writes of the transaction, in their order.\<close>

definition write_commit :: "'d db_lib \<Rightarrow> prepared_commit \<Rightarrow> save_head_row \<Rightarrow> 'd \<Rightarrow> store_error + 'd" where
  "write_commit D p head tx =
     rbind (rfold (create_op_row D p) tx (pc_record_ops p)) (\<lambda>tx.
     rbind (rfold (create_event_row D p) tx (pc_events p)) (\<lambda>tx.
     rbind (rfold (create_transcript_row D) tx (pc_transcripts p)) (\<lambda>tx.
     rbind (backend ''write action commit'' (tb_create (db_actions D) tx (action_row_of p))) (\<lambda>tx.
       backend ''advance save head'' (tb_update (db_heads D) tx
         (head\<lparr>sh_revision := pc_revision p, sh_checksum := pc_head_checksum p\<rparr>))))))"

text \<open>What a commit decides before its writes: an answer, or a transaction to commit.\<close>

definition known_action :: "store_lib \<Rightarrow> 'd db_lib \<Rightarrow> save_manifest \<Rightarrow> commit_request \<Rightarrow> prepared_commit
    \<Rightarrow> 'd \<Rightarrow> store_error + commit_result option" where
  "known_action X D m q p tx =
     (case tb_get (db_actions D) tx (pc_action_id p) of
        Inr existing \<Rightarrow>
          rbind (validate_action_row X existing (store_save_id X m)) (\<lambda>outcome.
          rbind (backend ''rollback duplicate action'' (db_rollback D tx)) (\<lambda>_.
            Inr (Some (if ac_request_digest existing = pc_request_digest p
                       then AlreadyCommitted outcome
                       else ActionIdentityConflict (wc_action_id (cr_command q))))))
      | Inl RecordNotFound \<Rightarrow> Inr None
      | Inl _ \<Rightarrow> Inl (Backend ''read action identity''))"

definition stage_commit :: "store_lib \<Rightarrow> 'd db_lib \<Rightarrow> save_manifest \<Rightarrow> commit_request \<Rightarrow> prepared_commit
    \<Rightarrow> 'd \<Rightarrow> store_error + (commit_result + 'd)" where
  "stage_commit X D m q p tx =
     rbind (known_action X D m q p tx) (\<lambda>known.
       case known of
         Some answer \<Rightarrow> Inr (Inl answer)
       | None \<Rightarrow>
           rbind (backend ''read save head for commit'' (tb_get (db_heads D) tx (pc_save_id p))) (\<lambda>head.
           rbind (validate_head_row X head) (\<lambda>(_, actual).
             if actual \<noteq> wc_expected_revision (cr_command q)
             then rbind (backend ''rollback revision conflict'' (db_rollback D tx)) (\<lambda>_.
                    Inr (Inl (CommitConflict (wc_expected_revision (cr_command q)) actual)))
             else rbind (write_commit D p head tx) (\<lambda>tx'. Inr (Inr tx')))))"

definition store_commit :: "store_lib \<Rightarrow> 'd db_lib \<Rightarrow> commit_request \<Rightarrow> ('d, commit_result) store_step" where
  "store_commit X D q s =
     (let m = ss_manifest s;
          staged =
            rbind (request_validate (sto_uuid X) q) (\<lambda>_.
            rbind (prepared_commit_new X m q) (\<lambda>p.
            rbind (backend ''begin durable transaction'' (db_begin D (ss_db s))) (\<lambda>tx.
              stage_commit X D m q p tx)))
      in case staged of
           Inl e \<Rightarrow> (Inl e, s)
         | Inr (Inl answer) \<Rightarrow> (Inr answer, s)
         | Inr (Inr tx) \<Rightarrow>
             (case db_commit D (ss_db s) tx of
                (None, d) \<Rightarrow>
                  (Inr (CommitDone (cr_safe_outcome q)),
                   s\<lparr>ss_db := d, ss_revision := ca_revision (cr_safe_outcome q)\<rparr>)
              | (Some SerializationFailure, d) \<Rightarrow>
                  (case load_head X D d (store_save_id X m) of
                     Inl e \<Rightarrow> (Inl e, s\<lparr>ss_db := d\<rparr>)
                   | Inr (_, actual) \<Rightarrow>
                       (Inr (CommitConflict (wc_expected_revision (cr_command q)) actual),
                        s\<lparr>ss_db := d, ss_revision := actual\<rparr>))
              | (Some _, d) \<Rightarrow> (Inl (Backend ''commit durable transaction''), s\<lparr>ss_db := d\<rparr>)))"

definition resolve_action :: "store_lib \<Rightarrow> 'd db_lib \<Rightarrow> world_command \<Rightarrow> ('d, action_resolution) store_step" where
  "resolve_action X D c s =
     (case request_digest X c of
        Inl e \<Rightarrow> (Inl e, s)
      | Inr d \<Rightarrow>
          (case tb_get (db_actions D) (ss_db s) (runtime_id_to_string (sto_uuid X) ACT (wc_action_id c)) of
             Inr row \<Rightarrow>
               (rbind (validate_action_row X row (store_save_id X (ss_manifest s))) (\<lambda>outcome.
                  Inr (if ac_request_digest row = d then ResolvedCommitted outcome
                       else ResolvedIdentityConflict (wc_action_id c))), s)
           | Inl RecordNotFound \<Rightarrow>
               (case load_head X D (ss_db s) (store_save_id X (ss_manifest s)) of
                  Inl e \<Rightarrow> (Inl e, s)
                | Inr (_, r) \<Rightarrow> (Inr (NotCommitted r), s\<lparr>ss_revision := r\<rparr>))
           | Inl _ \<Rightarrow> (Inl (Backend ''resolve action identity''), s)))"

subsection \<open>Loading\<close>

text \<open>The body of each scan, over the rows of one table.\<close>

definition select_checkpoint :: "store_lib \<Rightarrow> save_manifest \<Rightarrow> revision \<Rightarrow> (revision \<times> json) option
    \<Rightarrow> checkpoint_row \<Rightarrow> store_error + (revision \<times> json) option" where
  "select_checkpoint X m head selected row =
     (if cp_save_id row \<noteq> store_save_id X m then integrity ''checkpoint_save_identity''
      else rbind (revision_from_i64 (cp_revision row)) (\<lambda>r.
        if r > head then integrity ''checkpoint_future_revision''
        else rbind (if cp_id row \<noteq> checkpoint_row_id r then Inr True
                    else rbind (checkpoint_checksum X r (cp_records row)) (\<lambda>sum.
                           Inr (sum \<noteq> cp_checksum row))) (\<lambda>bad.
          if bad then integrity ''checkpoint_checksum''
          else Inr (case selected of
                      None \<Rightarrow> Some (r, cp_records row)
                    | Some (r0, _) \<Rightarrow> if r > r0 then Some (r, cp_records row) else selected))))"

fun checkpoint_ordered :: "revision \<Rightarrow> record_key option \<Rightarrow> record_envelope list \<Rightarrow> bool" where
  "checkpoint_ordered r previous [] = True"
| "checkpoint_ordered r previous (e # es) =
     (re_revision e \<le> r \<and> (case previous of None \<Rightarrow> True | Some k \<Rightarrow> k < envelope_key e)
      \<and> checkpoint_ordered r (Some (envelope_key e)) es)"

definition store_load_checkpoint :: "store_lib \<Rightarrow> 'd db_lib \<Rightarrow> 'd \<Rightarrow> save_manifest \<Rightarrow> revision
    \<Rightarrow> store_error + loaded_checkpoint" where
  "store_load_checkpoint X D d m head =
     rbind (backend ''scan checkpoints'' (tb_all (db_checkpoints D) d)) (\<lambda>rows.
     rbind (rfold (select_checkpoint X m head) None rows) (\<lambda>selected.
     rbind (ok_or (Integrity ''checkpoint_missing'') selected) (\<lambda>(r, payload).
     rbind (from_json (sto_envelopes X) payload ''decode checkpoint'') (\<lambda>records.
       if checkpoint_ordered r None records
       then Inr \<lparr>lc_revision = r, lc_records = records\<rparr>
       else integrity ''checkpoint_record_order''))))"

definition read_op_row :: "store_lib \<Rightarrow> save_manifest \<Rightarrow> revision \<Rightarrow> record_op_row
    \<Rightarrow> store_error + versioned_record_op" where
  "read_op_row X m head row =
     (if ro_save_id row \<noteq> store_save_id X m then integrity ''record_op_save_identity''
      else rbind (revision_from_i64 (ro_revision row)) (\<lambda>r.
        if \<not> (0 \<le> sint (ro_op_order row) \<and> sint (ro_op_order row) < 2 ^ 32)
        then integrity ''record_op_order_range''
        else
          let order = ucast (ro_op_order row) :: u32 in
          rbind (if r > head \<or> ro_id row \<noteq> record_op_row_id r order then Inr True
                 else rbind (record_op_checksum_parts X (ro_save_id row) r order (ro_action_id row)
                               (ro_payload row)) (\<lambda>sum. Inr (sum \<noteq> ro_checksum row))) (\<lambda>bad.
            if bad then integrity ''record_op_checksum''
            else rbind (from_json (sto_operation X) (ro_payload row) ''decode record operation'') (\<lambda>op.
              if op_revision op \<noteq> r \<or> op_order op \<noteq> order
                 \<or> runtime_id_to_string (sto_uuid X) ACT (op_action_id op) \<noteq> ro_action_id row
              then integrity ''record_op_projection'' else Inr op))))"

definition load_record_ops :: "store_lib \<Rightarrow> 'd db_lib \<Rightarrow> 'd \<Rightarrow> save_manifest \<Rightarrow> revision \<Rightarrow> revision
    \<Rightarrow> store_error + versioned_record_op list" where
  "load_record_ops X D d m checkpoint_revision head =
     rbind (backend ''scan record operations'' (tb_all (db_ops D) d)) (\<lambda>rows.
     rbind (rmapM (read_op_row X m head) rows) (\<lambda>ops.
       Inr (sort_key (\<lambda>op. (op_revision op, op_order op))
              (filter (\<lambda>op. op_revision op > checkpoint_revision) ops))))"

definition read_action_row :: "store_lib \<Rightarrow> save_manifest \<Rightarrow> revision
    \<Rightarrow> (action_id, committed_action) btree \<Rightarrow> action_commit_row
    \<Rightarrow> store_error + (action_id, committed_action) btree" where
  "read_action_row X m head actions row =
     (if ac_save_id row \<noteq> store_save_id X m then integrity ''action_save_identity''
      else rbind (validate_action_row X row (store_save_id X m)) (\<lambda>outcome.
        if ca_revision outcome > head \<or> bt_contains (ca_action_id outcome) actions
        then integrity ''action_projection''
        else Inr (bt_insert (ca_action_id outcome) outcome actions)))"

definition load_actions :: "store_lib \<Rightarrow> 'd db_lib \<Rightarrow> 'd \<Rightarrow> save_manifest \<Rightarrow> revision
    \<Rightarrow> store_error + (action_id, committed_action) btree" where
  "load_actions X D d m head =
     rbind (backend ''scan action commits'' (tb_all (db_actions D) d)) (rfold (read_action_row X m head) [])"

definition read_event_row :: "store_lib \<Rightarrow> save_manifest \<Rightarrow> revision \<Rightarrow> event_id list \<times> world_event list
    \<Rightarrow> world_event_row \<Rightarrow> store_error + event_id list \<times> world_event list" where
  "read_event_row X m head acc row =
     (if ev_save_id row \<noteq> store_save_id X m then integrity ''event_save_identity''
      else rbind (revision_from_i64 (ev_revision row)) (\<lambda>r.
        rbind (map_err (\<lambda>_. Integrity ''event_id_encoding'')
                 (runtime_id_from_str (sto_uuid X) EVT (ev_event_id row))) (\<lambda>i.
        rbind (if r > head \<or> ev_id row \<noteq> event_row_id X r i then Inr True
               else rbind (event_checksum_parts X (ev_save_id row) r i (ev_payload row)) (\<lambda>sum.
                      Inr (sum \<noteq> ev_checksum row))) (\<lambda>bad.
          if bad then integrity ''event_checksum''
          else rbind (from_json (sto_event X) (ev_payload row) ''decode world event'') (\<lambda>ev.
            if we_revision ev \<noteq> r \<or> we_id ev \<noteq> i \<or> bs_contains (we_id ev) (fst acc)
            then integrity ''event_projection''
            else Inr (bs_insort (we_id ev) (fst acc), snd acc @ [ev]))))))"

definition load_events :: "store_lib \<Rightarrow> 'd db_lib \<Rightarrow> 'd \<Rightarrow> save_manifest \<Rightarrow> revision
    \<Rightarrow> store_error + world_event list" where
  "load_events X D d m head =
     rbind (backend ''scan world events'' (tb_all (db_events D) d)) (\<lambda>rows.
     rbind (rfold (read_event_row X m head) ([], []) rows) (\<lambda>(_, events).
       Inr (sort_key (\<lambda>ev. (we_revision ev, we_id ev)) events)))"

definition read_transcript_row :: "store_lib \<Rightarrow> save_manifest \<Rightarrow> revision \<Rightarrow> transcript_row
    \<Rightarrow> store_error + revision \<times> transcript_item_record" where
  "read_transcript_row X m head row =
     (if ts_save_id row \<noteq> store_save_id X m then integrity ''transcript_save_identity''
      else rbind (revision_from_i64 (ts_revision row)) (\<lambda>r.
        rbind (map_err (\<lambda>_. Integrity ''transcript_id_encoding'')
                 (runtime_id_from_str (sto_uuid X) TRN (ts_transcript_id row))) (\<lambda>i.
        rbind (if r > head \<or> ts_id row \<noteq> transcript_row_id X r i then Inr True
               else rbind (transcript_checksum_parts X (ts_save_id row) r i (ts_payload row)) (\<lambda>sum.
                      Inr (sum \<noteq> ts_checksum row))) (\<lambda>bad.
          if bad then integrity ''transcript_checksum''
          else rbind (from_json (sl_transcript_item (sto_serde X)) (ts_payload row) ''decode transcript'') (\<lambda>v.
            if tr_id v \<noteq> i \<or> tr_revision v \<noteq> None \<and> tr_revision v \<noteq> Some r
            then integrity ''transcript_projection'' else Inr (r, v))))))"

definition load_transcripts :: "store_lib \<Rightarrow> 'd db_lib \<Rightarrow> 'd \<Rightarrow> save_manifest \<Rightarrow> revision
    \<Rightarrow> store_error + transcript_item_record list" where
  "load_transcripts X D d m head =
     rbind (backend ''scan transcripts'' (tb_all (db_transcripts D) d)) (\<lambda>rows.
     rbind (rmapM (read_transcript_row X m head) rows) (\<lambda>versions.
       Inr (bt_values (bt_of_list (map (\<lambda>(_, v). (tr_id v, v))
              (sort_key (\<lambda>(r, v). (r, tr_id v)) versions))))))"

definition validate_transcript_projection :: "domain_record list \<Rightarrow> transcript_item_record list
    \<Rightarrow> store_error + unit" where
  "validate_transcript_projection records transcripts =
     (let from_records = bt_of_list (map (\<lambda>v. (tr_id v, v)) (upserted_transcripts records))
      in if length from_records \<noteq> length transcripts
            \<or> list_ex (\<lambda>v. bt_get (tr_id v) from_records \<noteq> Some v) transcripts
         then integrity ''transcript_record_projection'' else Inr ())"

definition check_op_action :: "(action_id, committed_action) btree \<Rightarrow> versioned_record_op
    \<Rightarrow> store_error + unit" where
  "check_op_action actions op =
     (case bt_get (op_action_id op) actions of
        None \<Rightarrow> integrity ''record_op_action_missing''
      | Some a \<Rightarrow> if ca_revision a \<noteq> op_revision op then integrity ''record_op_action_revision'' else Inr ())"

definition check_event_action :: "(action_id, committed_action) btree \<Rightarrow> world_event
    \<Rightarrow> store_error + unit" where
  "check_event_action actions ev =
     (if (case bt_get (we_action_id ev) actions of None \<Rightarrow> True
          | Some a \<Rightarrow> ca_revision a \<noteq> we_revision ev)
      then integrity ''event_action_projection'' else Inr ())"

definition load_from :: "store_lib \<Rightarrow> 'd db_lib \<Rightarrow> save_manifest \<Rightarrow> 'd \<Rightarrow> store_error + loaded_save" where
  "load_from X D m0 d =
     rbind (load_head X D d (store_save_id X m0)) (\<lambda>(m, r).
       if m \<noteq> m0 then integrity ''manifest_changed''
       else
         rbind (store_load_checkpoint X D d m r) (\<lambda>checkpoint.
         rbind (load_record_ops X D d m (lc_revision checkpoint) r) (\<lambda>ops.
         rbind (load_actions X D d m r) (\<lambda>actions.
         rbind (rforeach (check_op_action actions) ops) (\<lambda>_.
         rbind (map_err StoreRecord (rebuild_records (lc_revision checkpoint) (lc_records checkpoint) ops))
           (\<lambda>(rebuilt_revision, records).
         if rebuilt_revision \<noteq> r then integrity ''rebuilt_revision''
         else
           rbind (map_err StoreDomain (decode_domain_records (sto_uuid X) (sto_serde X) records)) (\<lambda>typed.
           rbind (validate_world_identity m (bt_values typed)) (\<lambda>_.
           rbind (load_events X D d m r) (\<lambda>events.
           rbind (rforeach (check_event_action actions) events) (\<lambda>_.
           rbind (load_transcripts X D d m r) (\<lambda>transcripts.
           rbind (validate_transcript_projection (bt_values typed) transcripts) (\<lambda>_.
             Inr \<lparr>ld_manifest = m, ld_revision = r, ld_records = bt_values typed, ld_events = events,
                  ld_transcripts = transcripts\<rparr>))))))))))))"

definition store_load :: "store_lib \<Rightarrow> 'd db_lib \<Rightarrow> ('d, loaded_save) store_step" where
  "store_load X D s =
     (case load_from X D (ss_manifest s) (ss_db s) of
        Inl e \<Rightarrow> (Inl e, s)
      | Inr loaded \<Rightarrow> (Inr loaded, s\<lparr>ss_revision := ld_revision loaded\<rparr>))"

subsection \<open>Checkpoints\<close>

text \<open>After the load: the transaction that writes the checkpoint, unless it is there already. A stale
  head is noted in the store before the error is returned.\<close>

datatype 'd staged_checkpoint = WriteCheckpoint 'd | CheckpointThere | StaleHead revision

definition stage_checkpoint :: "store_lib \<Rightarrow> 'd db_lib \<Rightarrow> save_manifest \<Rightarrow> revision
    \<Rightarrow> record_envelope list \<Rightarrow> 'd \<Rightarrow> store_error + 'd staged_checkpoint" where
  "stage_checkpoint X D m r envelopes d =
     rbind (to_json (sto_envelopes X) envelopes ''encode checkpoint'') (\<lambda>records.
     rbind (checkpoint_checksum X r records) (\<lambda>sum.
     rbind (revision_to_i64 r) (\<lambda>n.
     rbind (backend ''begin checkpoint transaction'' (db_begin D d)) (\<lambda>tx.
     rbind (backend ''read checkpoint save head'' (tb_get (db_heads D) tx (store_save_id X m))) (\<lambda>head.
     rbind (validate_head_row X head) (\<lambda>(_, actual).
       if actual \<noteq> r
       then rbind (backend ''rollback stale checkpoint'' (db_rollback D tx)) (\<lambda>_. Inr (StaleHead actual))
       else
         let row = \<lparr>cp_id = checkpoint_row_id r, cp_save_id = store_save_id X m, cp_revision = n,
                    cp_records = records, cp_checksum = sum\<rparr>
         in case tb_get (db_checkpoints D) tx (checkpoint_row_id r) of
              Inr existing \<Rightarrow>
                let same = cp_save_id existing = cp_save_id row \<and> cp_revision existing = n
                  \<and> cp_records existing = records \<and> cp_checksum existing = sum
                in rbind (backend ''rollback existing checkpoint'' (db_rollback D tx)) (\<lambda>_.
                     if same then Inr CheckpointThere else integrity ''checkpoint_identity'')
            | Inl RecordNotFound \<Rightarrow>
                rbind (backend ''write checkpoint'' (tb_create (db_checkpoints D) tx row)) (\<lambda>tx'.
                  Inr (WriteCheckpoint tx'))
            | Inl _ \<Rightarrow> Inl (Backend ''read checkpoint identity'')))))))"

definition store_checkpoint :: "store_lib \<Rightarrow> 'd db_lib \<Rightarrow> domain_record list \<Rightarrow> ('d, unit) store_step" where
  "store_checkpoint X D records s =
     (case rbind (validate_world_identity (ss_manifest s) records) (\<lambda>_.
             checkpoint_records X records (ss_revision s)) of
        Inl e \<Rightarrow> (Inl e, s)
      | Inr (envelopes, _) \<Rightarrow>
          (case store_load X D s of
             (Inl e, s') \<Rightarrow> (Inl e, s')
           | (Inr loaded, s') \<Rightarrow>
               (case rbind (checkpoint_records X (ld_records loaded) (ss_revision s')) (\<lambda>(durable, _).
                       if envelopes \<noteq> durable then integrity ''checkpoint_projection''
                       else stage_checkpoint X D (ss_manifest s') (ss_revision s') envelopes (ss_db s')) of
                  Inl e \<Rightarrow> (Inl e, s')
                | Inr CheckpointThere \<Rightarrow> (Inr (), s')
                | Inr (StaleHead actual) \<Rightarrow>
                    (Inl (InvalidCommit ''checkpoint_revision''), s'\<lparr>ss_revision := actual\<rparr>)
                | Inr (WriteCheckpoint tx) \<Rightarrow>
                    (case commit_tx D ''commit checkpoint'' (ss_db s') tx of
                       (result, d) \<Rightarrow> (result, s'\<lparr>ss_db := d\<rparr>)))))"

end
