(* ===== verification/Store_Log.thy ===== *)
theory Store_Log
  imports Store
begin

text \<open>
  What a save database holds. \<open>db_ok\<close> is the contract of the driver, over the contents of its tables: a
  commit that fails may have been written, as a whole. What a serialization failure leaves is the
  work of other connections; \<open>others_commit\<close> of \<open>Store_Commit\<close> says that it is commits, too.
  \<open>save_holds\<close> says that the tables are those of a manifest, its checkpoints and a log of committed
  requests. Then comes what writing a commit makes of the tables.
\<close>

section \<open>Tables\<close>

record tables =
  tv_heads :: "string \<rightharpoonup> save_head_row"
  tv_checkpoints :: "string \<rightharpoonup> checkpoint_row"
  tv_ops :: "string \<rightharpoonup> record_op_row"
  tv_events :: "string \<rightharpoonup> world_event_row"
  tv_transcripts :: "string \<rightharpoonup> transcript_row"
  tv_actions :: "string \<rightharpoonup> action_commit_row"

text \<open>What the code relies on of one table, seen through the lens \<open>get\<close>, \<open>put\<close> of the contents.\<close>

definition table_ok :: "('d, 'r) table_lib \<Rightarrow> ('d \<Rightarrow> tables) \<Rightarrow> (tables \<Rightarrow> string \<rightharpoonup> 'r)
    \<Rightarrow> (((string \<rightharpoonup> 'r) \<Rightarrow> (string \<rightharpoonup> 'r)) \<Rightarrow> tables \<Rightarrow> tables) \<Rightarrow> ('r \<Rightarrow> string) \<Rightarrow> bool" where
  "table_ok T V get put ident \<longleftrightarrow>
     (\<forall>d rs. tb_all T d = Inr rs \<longrightarrow> distinct (map ident rs) \<and> set rs = ran (get (V d)))
     \<and> (\<forall>d i r. tb_get T d i = Inr r \<longrightarrow> get (V d) i = Some r)
     \<and> (\<forall>d i. tb_get T d i = Inl RecordNotFound \<longrightarrow> get (V d) i = None)
     \<and> (\<forall>d r d'. tb_create T d r = Inr d' \<longrightarrow>
          get (V d) (ident r) = None \<and> V d' = put (\<lambda>m. m(ident r \<mapsto> r)) (V d))
     \<and> (\<forall>d r d'. tb_update T d r = Inr d' \<longrightarrow>
          get (V d) (ident r) \<noteq> None \<and> V d' = put (\<lambda>m. m(ident r \<mapsto> r)) (V d))"

definition no_tables :: tables where
  "no_tables = \<lparr>tv_heads = Map.empty, tv_checkpoints = Map.empty, tv_ops = Map.empty,
     tv_events = Map.empty, tv_transcripts = Map.empty, tv_actions = Map.empty\<rparr>"

definition db_ok :: "'d db_lib \<Rightarrow> ('d \<Rightarrow> tables) \<Rightarrow> bool" where
  "db_ok D V \<longleftrightarrow>
     table_ok (db_heads D) V tv_heads tv_heads_update sh_save_id
     \<and> table_ok (db_checkpoints D) V tv_checkpoints tv_checkpoints_update cp_id
     \<and> table_ok (db_ops D) V tv_ops tv_ops_update ro_id
     \<and> table_ok (db_events D) V tv_events tv_events_update ev_id
     \<and> table_ok (db_transcripts D) V tv_transcripts tv_transcripts_update ts_id
     \<and> table_ok (db_actions D) V tv_actions tv_actions_update ac_id
     \<and> V (db_fresh D) = no_tables
     \<and> (\<forall>d d'. db_open D d = Inr d' \<or> db_push_schema D d = Inr d' \<or> db_begin D d = Inr d'
          \<longrightarrow> V d' = V d)
     \<and> (\<forall>d tx d'. db_commit D d tx = (None, d') \<longrightarrow> V d' = V tx)
     \<and> (\<forall>d tx e d'. db_commit D d tx = (Some e, d') \<and> e \<noteq> SerializationFailure
          \<longrightarrow> V d' = V d \<or> V d' = V tx)"

lemma commit_success: "db_ok D V \<Longrightarrow> db_commit D d tx = (None, d') \<Longrightarrow> V d' = V tx"
  by (simp add: db_ok_def)

lemma commit_uncertain: "db_ok D V \<Longrightarrow> db_commit D d tx = (Some e, d') \<Longrightarrow> e \<noteq> SerializationFailure
    \<Longrightarrow> V d' = V d \<or> V d' = V tx"
  by (simp add: db_ok_def)

lemma table_all: "table_ok T V get put ident \<Longrightarrow> tb_all T d = Inr rs
    \<Longrightarrow> distinct (map ident rs) \<and> set rs = ran (get (V d))"
  by (simp add: table_ok_def)

lemma table_get: "table_ok T V get put ident \<Longrightarrow> tb_get T d i = Inr r \<Longrightarrow> get (V d) i = Some r"
  by (simp add: table_ok_def)

lemma table_get_none: "table_ok T V get put ident \<Longrightarrow> tb_get T d i = Inl RecordNotFound
    \<Longrightarrow> get (V d) i = None"
  by (simp add: table_ok_def)

lemma table_create: "table_ok T V get put ident \<Longrightarrow> tb_create T d r = Inr d'
    \<Longrightarrow> get (V d) (ident r) = None \<and> V d' = put (\<lambda>m. m(ident r \<mapsto> r)) (V d)"
  by (simp add: table_ok_def)

lemma table_update: "table_ok T V get put ident \<Longrightarrow> tb_update T d r = Inr d'
    \<Longrightarrow> get (V d) (ident r) \<noteq> None \<and> V d' = put (\<lambda>m. m(ident r \<mapsto> r)) (V d)"
  by (simp add: table_ok_def)

lemma backend_Inr_iff [res_inv]: "backend op m = Inr x \<longleftrightarrow> m = Inr x"
  by (simp add: backend_def map_err_Inr_iff)

text \<open>A table that holds a list of rows.\<close>

definition holds :: "('r \<Rightarrow> string) \<Rightarrow> (string \<rightharpoonup> 'r) \<Rightarrow> 'r list \<Rightarrow> bool" where
  "holds ident m rows \<longleftrightarrow> distinct (map ident rows) \<and> m = map_of (map (\<lambda>r. (ident r, r)) rows)"

lemma holds_empty [simp]: "holds ident Map.empty []"
  by (simp add: holds_def)

lemma holds_get: "holds ident m rows \<Longrightarrow> m k = Some r \<longleftrightarrow> r \<in> set rows \<and> ident r = k"
  by (auto simp: holds_def map_of_eq_Some_iff comp_def)

lemma holds_ran: "holds ident m rows \<Longrightarrow> ran m = set rows"
  by (auto simp: ran_def holds_get)

lemma holds_snoc:
  assumes "holds ident m rows" and "m (ident r) = None"
  shows "holds ident (m(ident r \<mapsto> r)) (rows @ [r])"
proof -
  have fresh: "ident r \<notin> ident ` set rows"
    using assms by (auto simp: holds_def map_of_eq_None_iff image_iff)
  have "m(ident r \<mapsto> r) = map_of (map (\<lambda>r. (ident r, r)) (rows @ [r]))"
  proof
    fix k
    show "(m(ident r \<mapsto> r)) k = map_of (map (\<lambda>r. (ident r, r)) (rows @ [r])) k"
      using assms fresh
      by (auto simp: holds_def map_add_def image_iff split: option.split dest: map_of_SomeD)
  qed
  with assms(1) fresh show ?thesis
    by (auto simp: holds_def)
qed

lemma holds_replace:
  assumes "holds ident m [r]" and "ident r' = ident r"
  shows "holds ident (m(ident r' \<mapsto> r')) [r']"
  using assms by (simp add: holds_def fun_upd_def fun_eq_iff)

lemma holds_scan:
  assumes "holds ident m rows" and "distinct (map ident rs)" and "set rs = ran m"
  shows "mset rs = mset rows"
  using assms
  by (metis distinct_map holds_def holds_ran set_eq_iff_mset_eq_distinct)

text \<open>A sort by distinct keys does not depend on the order of the scan.\<close>

lemma sort_key_unique:
  assumes "mset xs = mset ys" and "sorted (map f ys)" and "distinct (map f ys)"
  shows "sort_key f xs = ys"
proof (rule properties_for_sort_key)
  fix k assume k: "k \<in> set ys"
  have inj: "inj_on f (set ys)"
    using assms(3) by (simp add: distinct_map)
  have "filter (\<lambda>x. f k = f x) zs = filter ((=) k) zs" if "set zs = set ys" for zs
    using inj k that by (intro filter_cong) (auto simp: inj_on_def)
  moreover have "set xs = set ys"
    using assms(1) by (metis set_mset_mset)
  moreover have "filter ((=) k) xs = filter ((=) k) ys"
    using assms(1) by (simp flip: replicate_count_mset_eq_filter_eq)
  ultimately show "filter (\<lambda>x. f k = f x) ys = filter (\<lambda>x. f k = f x) xs"
    by simp
qed (use assms in simp_all)

section \<open>Writing a commit\<close>

lemma create_rows:
  assumes T: "table_ok T V get put ident" and get: "\<And>g t. get (put g t) = g (get t)"
    and put: "\<And>g h t. put g (put h t) = put (g \<circ> h) t" "\<And>t. put id t = t"
    and "rfold (\<lambda>tx row. backend op (tb_create T tx (f row))) tx rows = Inr tx'"
    and "holds ident (get (V tx)) rs"
  shows "holds ident (get (V tx')) (rs @ map f rows) \<and> (\<exists>g. V tx' = put g (V tx))"
  using assms(5,6)
proof (induction rows arbitrary: tx rs)
  case Nil
  then show ?case
    using put(2) [of "V tx"] by (auto intro: exI [of _ id])
next
  case (Cons row rows)
  from Cons.prems(1) obtain tx1 where tx1: "tb_create T tx (f row) = Inr tx1"
    and rest: "rfold (\<lambda>tx row. backend op (tb_create T tx (f row))) tx1 rows = Inr tx'"
    by (auto simp: rbind_Inr_iff backend_Inr_iff)
  from table_create [OF T tx1] have fresh: "get (V tx) (ident (f row)) = None"
    and V1: "V tx1 = put (\<lambda>m. m(ident (f row) \<mapsto> f row)) (V tx)"
    by simp_all
  have "holds ident (get (V tx1)) (rs @ [f row])"
    using holds_snoc [OF Cons.prems(2) fresh] unfolding V1 get .
  from Cons.IH [OF rest this] V1 put(1) show ?case
    by auto
qed

lemma write_commit_tables:
  assumes D: "db_ok D V" and run: "write_commit D p h tx = Inr tx'"
    and heads: "holds sh_save_id (tv_heads (V tx)) [h]"
    and ops: "holds ro_id (tv_ops (V tx)) ops" and events: "holds ev_id (tv_events (V tx)) events"
    and transcripts: "holds ts_id (tv_transcripts (V tx)) transcripts"
    and actions: "holds ac_id (tv_actions (V tx)) actions"
  shows "holds sh_save_id (tv_heads (V tx'))
      [h\<lparr>sh_revision := pc_revision p, sh_checksum := pc_head_checksum p\<rparr>]"
    and "tv_checkpoints (V tx') = tv_checkpoints (V tx)"
    and "holds ro_id (tv_ops (V tx')) (ops @ map (op_row_of p) (pc_record_ops p))"
    and "holds ev_id (tv_events (V tx')) (events @ map (event_row_of p) (pc_events p))"
    and "holds ts_id (tv_transcripts (V tx')) (transcripts @ map transcript_row_of (pc_transcripts p))"
    and "holds ac_id (tv_actions (V tx')) (actions @ [action_row_of p])"
proof -
  have T: "table_ok (db_heads D) V tv_heads tv_heads_update sh_save_id"
    "table_ok (db_ops D) V tv_ops tv_ops_update ro_id"
    "table_ok (db_events D) V tv_events tv_events_update ev_id"
    "table_ok (db_transcripts D) V tv_transcripts tv_transcripts_update ts_id"
    "table_ok (db_actions D) V tv_actions tv_actions_update ac_id"
    using D by (simp_all add: db_ok_def)
  from run obtain t1 t2 t3 t4
    where t1: "rfold (\<lambda>tx row. backend ''write record operation'' (tb_create (db_ops D) tx (op_row_of p row)))
        tx (pc_record_ops p) = Inr t1"
      and t2: "rfold (\<lambda>tx row. backend ''write world event'' (tb_create (db_events D) tx (event_row_of p row)))
        t1 (pc_events p) = Inr t2"
      and t3: "rfold (\<lambda>tx row. backend ''write transcript'' (tb_create (db_transcripts D) tx (transcript_row_of row)))
        t2 (pc_transcripts p) = Inr t3"
      and t4: "tb_create (db_actions D) t3 (action_row_of p) = Inr t4"
      and t5: "tb_update (db_heads D) t4
        (h\<lparr>sh_revision := pc_revision p, sh_checksum := pc_head_checksum p\<rparr>) = Inr tx'"
    by (auto simp: write_commit_def rbind_Inr_iff backend_Inr_iff create_op_row_def [abs_def]
        create_event_row_def [abs_def] create_transcript_row_def [abs_def])
  from create_rows [OF T(2) _ _ _ t1 ops] obtain g1
    where o1: "holds ro_id (tv_ops (V t1)) (ops @ map (op_row_of p) (pc_record_ops p))"
      and g1: "V t1 = tv_ops_update g1 (V tx)"
    by (auto simp: comp_def id_def)
  have "holds ev_id (tv_events (V t1)) events"
    using events by (simp add: g1)
  from create_rows [OF T(3) _ _ _ t2 this] obtain g2
    where o2: "holds ev_id (tv_events (V t2)) (events @ map (event_row_of p) (pc_events p))"
      and g2: "V t2 = tv_events_update g2 (V t1)"
    by (auto simp: comp_def id_def)
  have "holds ts_id (tv_transcripts (V t2)) transcripts"
    using transcripts by (simp add: g1 g2)
  from create_rows [OF T(4) _ _ _ t3 this] obtain g3
    where o3: "holds ts_id (tv_transcripts (V t3)) (transcripts @ map transcript_row_of (pc_transcripts p))"
      and g3: "V t3 = tv_transcripts_update g3 (V t2)"
    by (auto simp: comp_def id_def)
  have a3: "holds ac_id (tv_actions (V t3)) actions"
    using actions by (simp add: g1 g2 g3)
  from table_create [OF T(5) t4] have a4: "tv_actions (V t3) (ac_id (action_row_of p)) = None"
    and g4: "V t4 = tv_actions_update (\<lambda>m. m(ac_id (action_row_of p) \<mapsto> action_row_of p)) (V t3)"
    by simp_all
  from table_update [OF T(1) t5] have g5: "V tx' = tv_heads_update (\<lambda>m. m(sh_save_id h
      \<mapsto> h\<lparr>sh_revision := pc_revision p, sh_checksum := pc_head_checksum p\<rparr>)) (V t4)"
    by simp
  have "holds sh_save_id (tv_heads (V t4)) [h]"
    using heads by (simp add: g1 g2 g3 g4)
  from holds_replace [OF this, of "h\<lparr>sh_revision := pc_revision p, sh_checksum := pc_head_checksum p\<rparr>"]
  show "holds sh_save_id (tv_heads (V tx'))
      [h\<lparr>sh_revision := pc_revision p, sh_checksum := pc_head_checksum p\<rparr>]"
    by (simp add: g5)
  show "holds ac_id (tv_actions (V tx')) (actions @ [action_row_of p])"
    using holds_snoc [OF a3 a4] by (simp add: g5 g4)
  show "tv_checkpoints (V tx') = tv_checkpoints (V tx)"
    by (simp add: g1 g2 g3 g4 g5)
  show "holds ro_id (tv_ops (V tx')) (ops @ map (op_row_of p) (pc_record_ops p))"
    using o1 by (simp add: g2 g3 g4 g5)
  show "holds ev_id (tv_events (V tx')) (events @ map (event_row_of p) (pc_events p))"
    using o2 by (simp add: g3 g4 g5)
  show "holds ts_id (tv_transcripts (V tx')) (transcripts @ map transcript_row_of (pc_transcripts p))"
    using o3 by (simp add: g4 g5)
qed

section \<open>Reading rows back\<close>

lemma minus_two_power_le: "- (2 ^ n) \<le> (0 :: int)"
  by simp

lemma revision_i64: "revision_to_i64 r = Inr n \<Longrightarrow> revision_from_i64 n = Inr r"
proof -
  assume "revision_to_i64 r = Inr n"
  then have r: "unat (revision_get r) < 2 ^ 63" and n: "n = revision_get r"
    by (auto simp: revision_to_i64_def split: if_splits)
  have "uint (revision_get r) < 2 ^ 63"
    using r by (metis of_nat_less_iff of_nat_numeral of_nat_power uint_nat)
  with order_trans [OF minus_two_power_le uint_ge_0] have "in_i64 (uint (revision_get r))"
    unfolding in_i64_def by blast
  from sint_of_int_in_i64 [OF this] have "0 \<le> sint (revision_get r)"
    by simp
  with n show ?thesis
    by (simp add: revision_from_i64_def)
qed

lemma to_json_Inr_iff [res_inv]: "to_json c x op = Inr v \<longleftrightarrow> serialize c x = Inr v"
  by (simp add: to_json_def map_err_Inr_iff)

lemma from_json_serialize: "codec_ok c \<Longrightarrow> serialize c x = Inr v \<Longrightarrow> from_json c v op = Inr x"
  by (simp add: from_json_def codec_ok_def)

text \<open>The head row of a manifest at a revision.\<close>

definition head_row :: "store_lib \<Rightarrow> save_manifest \<Rightarrow> revision \<Rightarrow> save_head_row \<Rightarrow> bool" where
  "head_row X m r h \<longleftrightarrow> sh_save_id h = store_save_id X m \<and> revision_to_i64 r = Inr (sh_revision h)
     \<and> serialize (sto_manifest X) m = Inr (sh_manifest h)
     \<and> head_checksum X r (sh_manifest h) = Inr (sh_checksum h)
     \<and> save_manifest_validate m = Inr ()"

lemma head_row_valid:
  "store_lib_ok X \<Longrightarrow> head_row X m r h \<Longrightarrow> validate_head_row X h = Inr (m, r)"
  using revision_i64 [of r "sh_revision h"] from_json_serialize [of "sto_manifest X" m "sh_manifest h"]
  by (simp add: head_row_def validate_head_row_def store_lib_ok_def store_save_id_def)

text \<open>A committed request and the rows it was committed as, under some manifest of the save.\<close>

definition logged_ok :: "store_lib \<Rightarrow> save_id \<Rightarrow> commit_request \<times> prepared_commit \<Rightarrow> bool" where
  "logged_ok X i e \<longleftrightarrow> request_validate (sto_uuid X) (fst e) = Inr ()
     \<and> (\<exists>m. sm_save_id m = i \<and> prepared_commit_new X m (fst e) = Inr (snd e))"

lemma logged_okD:
  assumes "logged_ok X i (q, p)"
  shows "ca_action_id (cr_safe_outcome q) = wc_action_id (cr_command q)"
    and "revision_next (wc_expected_revision (cr_command q)) = Inr (ca_revision (cr_safe_outcome q))"
    and "pc_save_id p = runtime_id_to_string (sto_uuid X) SAV i"
    and "pc_action_id p = runtime_id_to_string (sto_uuid X) ACT (wc_action_id (cr_command q))"
    and "revision_to_i64 (ca_revision (cr_safe_outcome q)) = Inr (pc_revision p)"
    and "request_digest X (cr_command q) = Inr (pc_request_digest p)"
    and "serialize (sto_command X) (cr_command q) = Inr (pc_command p)"
    and "serialize (sto_outcome X) (cr_safe_outcome q) = Inr (pc_outcome p)"
    and "action_checksum X (pc_save_id p) (pc_action_id p) (ca_revision (cr_safe_outcome q))
      (pc_request_digest p) (pc_command p) (pc_outcome p) = Inr (pc_action_checksum p)"
    and "rmapM (prepare_record_op X (pc_save_id p) (pc_revision p)) (cr_record_ops q) = Inr (pc_record_ops p)"
    and "rmapM (prepare_event X (pc_save_id p) (pc_revision p)) (cr_events q) = Inr (pc_events p)"
    and "prepare_transcripts X (pc_save_id p) (ca_revision (cr_safe_outcome q)) (cr_transcripts q) False
      = Inr (pc_transcripts p)"
  using assms
  by (auto simp: logged_ok_def request_validate_Inr_iff prepared_commit_new_def Let_def rbind_Inr_iff
      to_json_Inr_iff)

lemma action_row_valid:
  assumes X: "store_lib_ok X" and e: "logged_ok X i (q, p)"
  shows "validate_action_row X (action_row_of p) (runtime_id_to_string (sto_uuid X) SAV i)
    = Inr (cr_safe_outcome q)"
  using X logged_okD [OF e] revision_i64 [OF logged_okD(5) [OF e]]
    from_json_serialize [OF _ logged_okD(7) [OF e]] from_json_serialize [OF _ logged_okD(8) [OF e]]
  by (simp add: validate_action_row_def action_row_of_def store_lib_ok_def)

lemma runtime_id_text_inject:
  "uuid_lib_ok L \<Longrightarrow> runtime_id_to_string L prefix i = runtime_id_to_string L prefix j \<longleftrightarrow> i = j"
  by (auto simp: runtime_id_to_string_def uuid_lib_ok_def intro: runtime_id.expand)
    (metis option.inject runtime_id.expand)

section \<open>A save\<close>

type_synonym log = "(commit_request \<times> prepared_commit) list"

definition head_revision :: "log \<Rightarrow> revision" where
  "head_revision log = revision_add (Revision 0) (length log)"

text \<open>The log: every request was valid and expected the revision of its position.\<close>

definition log_ok :: "store_lib \<Rightarrow> save_id \<Rightarrow> log \<Rightarrow> bool" where
  "log_ok X i log \<longleftrightarrow> list_all (logged_ok X i) log \<and> length log < 2 ^ 63
     \<and> (\<forall>n<length log. wc_expected_revision (cr_command (fst (log ! n))) = revision_add (Revision 0) n)"

definition save_holds :: "store_lib \<Rightarrow> tables \<Rightarrow> save_manifest \<Rightarrow> checkpoint_row list
    \<Rightarrow> prepared_transcript list \<Rightarrow> log \<Rightarrow> bool" where
  "save_holds X v m cps initial log \<longleftrightarrow>
     (\<exists>h. holds sh_save_id (tv_heads v) [h] \<and> head_row X m (head_revision log) h)
     \<and> holds cp_id (tv_checkpoints v) cps
     \<and> holds ro_id (tv_ops v) (concat (map (\<lambda>(_, p). map (op_row_of p) (pc_record_ops p)) log))
     \<and> holds ev_id (tv_events v) (concat (map (\<lambda>(_, p). map (event_row_of p) (pc_events p)) log))
     \<and> holds ts_id (tv_transcripts v) (map transcript_row_of initial
          @ concat (map (\<lambda>(_, p). map transcript_row_of (pc_transcripts p)) log))
     \<and> holds ac_id (tv_actions v) (map (\<lambda>(_, p). action_row_of p) log)
     \<and> log_ok X (sm_save_id m) log"

lemma head_revision_le: "length log < 2 ^ 64 \<Longrightarrow> unat (revision_get (head_revision log)) = length log"
  by (simp add: head_revision_def unat_revision_add)

text \<open>An action that is already in the log.\<close>

lemma known_action_Inr:
  assumes X: "store_lib_ok X" and D: "db_ok D V" and s: "save_holds X (V tx) m cps initial log"
    and e: "logged_ok X (sm_save_id m) (q, p)"
    and run: "known_action X D m q p tx = Inr answer"
  shows "case answer of
      None \<Rightarrow> \<forall>(q', _)\<in>set log. wc_action_id (cr_command q') \<noteq> wc_action_id (cr_command q)
    | Some r \<Rightarrow> \<exists>(q', p')\<in>set log. wc_action_id (cr_command q') = wc_action_id (cr_command q)
        \<and> r = (if pc_request_digest p' = pc_request_digest p then AlreadyCommitted (cr_safe_outcome q')
               else ActionIdentityConflict (wc_action_id (cr_command q)))"
proof -
  let ?L = "sto_uuid X"
  have L: "uuid_lib_ok ?L"
    using X by (simp add: store_lib_ok_def)
  have T: "table_ok (db_actions D) V tv_actions tv_actions_update ac_id"
    using D by (simp add: db_ok_def)
  have acts: "holds ac_id (tv_actions (V tx)) (map (\<lambda>(_, p). action_row_of p) log)"
    and entries: "\<And>q' p'. (q', p') \<in> set log \<Longrightarrow> logged_ok X (sm_save_id m) (q', p')"
    using s by (auto simp: save_holds_def log_ok_def list_all_iff)
  have id_of: "ac_id (action_row_of p') = pc_action_id p \<longleftrightarrow> wc_action_id (cr_command q') = wc_action_id (cr_command q)"
    if "(q', p') \<in> set log" for q' p'
    using logged_okD(4) [OF entries [OF that]] logged_okD(4) [OF e]
    by (simp add: action_row_of_def runtime_id_text_inject [OF L])
  show ?thesis
  proof (cases "tb_get (db_actions D) tx (pc_action_id p)")
    case (Inr row)
    from table_get [OF T Inr] obtain q' p' where qp: "(q', p') \<in> set log" "row = action_row_of p'"
      and same: "ac_id (action_row_of p') = pc_action_id p"
      using holds_get [OF acts] by auto
    have "validate_action_row X row (store_save_id X m) = Inr (cr_safe_outcome q')"
      using action_row_valid [OF X entries [OF qp(1)]] by (simp add: qp store_save_id_def)
    with run Inr qp have "answer = Some (if pc_request_digest p' = pc_request_digest p
        then AlreadyCommitted (cr_safe_outcome q') else ActionIdentityConflict (wc_action_id (cr_command q)))"
      by (auto simp: known_action_def rbind_Inr_iff backend_Inr_iff action_row_of_def)
    with qp id_of [OF qp(1)] same show ?thesis
      by auto
  next
    case (Inl err)
    with run have "err = RecordNotFound" "answer = None"
      by (auto simp: known_action_def split: driver_error.splits)
    with table_get_none [OF T] Inl have none: "tv_actions (V tx) (pc_action_id p) = None"
      by simp
    have "wc_action_id (cr_command q') \<noteq> wc_action_id (cr_command q)" if qp: "(q', p') \<in> set log" for q' p'
    proof
      assume "wc_action_id (cr_command q') = wc_action_id (cr_command q)"
      with id_of [OF qp] have "ac_id (action_row_of p') = pc_action_id p"
        by simp
      with holds_get [OF acts, of "pc_action_id p" "action_row_of p'"] qp none show False
        by force
    qed
    with \<open>answer = None\<close> show ?thesis by auto
  qed
qed

end
