(* ===== verification/Store_Commit.thy ===== *)
theory Store_Commit
  imports Store_Log
begin

text \<open>
  Commits and the log: what a commit answers, and what it leaves of the log of the save, when it is
  written, when it is refused, and when the database reports a failure.
\<close>

text \<open>What a commit answers when it appends nothing.\<close>

definition commit_answer :: "store_lib \<Rightarrow> log \<Rightarrow> commit_request \<Rightarrow> store_error + commit_result \<Rightarrow> bool" where
  "commit_answer X log q res = (case res of
     Inl _ \<Rightarrow> True
   | Inr (CommitDone _) \<Rightarrow> False
   | Inr (AlreadyCommitted out) \<Rightarrow>
       (\<exists>(q', _)\<in>set log. wc_action_id (cr_command q') = wc_action_id (cr_command q)
          \<and> request_digest X (cr_command q') = request_digest X (cr_command q)
          \<and> out = cr_safe_outcome q')
   | Inr (ActionIdentityConflict i) \<Rightarrow> i = wc_action_id (cr_command q)
       \<and> (\<exists>(q', _)\<in>set log. wc_action_id (cr_command q') = i
          \<and> request_digest X (cr_command q') \<noteq> request_digest X (cr_command q))
   | Inr (CommitConflict e a) \<Rightarrow> e = wc_expected_revision (cr_command q) \<and> a = head_revision log)"

lemma load_head_holds:
  assumes X: "store_lib_ok X" and D: "db_ok D V" and s: "save_holds X (V d) m cps initial log"
    and run: "load_head X D d (store_save_id X m) = Inr x"
  shows "x = (m, head_revision log)"
proof -
  from s obtain h where heads: "holds sh_save_id (tv_heads (V d)) [h]"
    and h: "head_row X m (head_revision log) h"
    by (auto simp: save_holds_def)
  from run obtain h' where "tb_get (db_heads D) d (store_save_id X m) = Inr h'"
    and x: "validate_head_row X h' = Inr x"
    by (auto simp: load_head_def res_inv)
  with D have "tv_heads (V d) (store_save_id X m) = Some h'"
    by (auto simp: db_ok_def intro: table_get)
  then have "h' = h"
    using holds_get [OF heads] by simp
  with x head_row_valid [OF X h] show ?thesis
    by simp
qed

lemma prepared_head:
  assumes "prepared_commit_new X m q = Inr p" and "serialize (sto_manifest X) m = Inr manifest"
  shows "head_checksum X (ca_revision (cr_safe_outcome q)) manifest = Inr (pc_head_checksum p)"
  using assms by (auto simp: prepared_commit_new_def Let_def rbind_Inr_iff to_json_Inr_iff)

lemma stage_commit_Inr:
  assumes X: "store_lib_ok X" and D: "db_ok D V" and s: "save_holds X (V tx) m cps initial log"
    and e: "logged_ok X (sm_save_id m) (q, p)" and p: "prepared_commit_new X m q = Inr p"
    and run: "stage_commit X D m q p tx = Inr staged"
  shows "case staged of
      Inl answer \<Rightarrow> commit_answer X log q (Inr answer)
    | Inr tx' \<Rightarrow> wc_expected_revision (cr_command q) = head_revision log
        \<and> (\<forall>(q', _)\<in>set log. wc_action_id (cr_command q') \<noteq> wc_action_id (cr_command q))
        \<and> save_holds X (V tx') m cps initial (log @ [(q, p)])"
proof -
  from run obtain known where known: "known_action X D m q p tx = Inr known"
    and rest: "(case known of Some answer \<Rightarrow> Inr (Inl answer)
       | None \<Rightarrow>
           rbind (backend ''read save head for commit'' (tb_get (db_heads D) tx (pc_save_id p))) (\<lambda>head.
           rbind (validate_head_row X head) (\<lambda>(_, actual).
             if actual \<noteq> wc_expected_revision (cr_command q)
             then rbind (backend ''rollback revision conflict'' (db_rollback D tx)) (\<lambda>_.
                    Inr (Inl (CommitConflict (wc_expected_revision (cr_command q)) actual)))
             else rbind (write_commit D p head tx) (\<lambda>tx'. Inr (Inr tx'))))) = Inr staged"
    by (auto simp: stage_commit_def rbind_Inr_iff)
  note known' = known_action_Inr [OF X D s e known]
  show ?thesis
  proof (cases known)
    case (Some r)
    then have staged: "staged = Inl r"
      using rest by simp
    from known' Some obtain q' p' where qp: "(q', p') \<in> set log"
      and same: "wc_action_id (cr_command q') = wc_action_id (cr_command q)"
      and r: "r = (if pc_request_digest p' = pc_request_digest p then AlreadyCommitted (cr_safe_outcome q')
         else ActionIdentityConflict (wc_action_id (cr_command q)))"
      by auto
    have "logged_ok X (sm_save_id m) (q', p')"
      using s qp by (auto simp: save_holds_def log_ok_def list_all_iff)
    then have "request_digest X (cr_command q') = Inr (pc_request_digest p')"
      by (rule logged_okD(6))
    with logged_okD(6) [OF e] qp same show ?thesis
      by (auto simp: staged r commit_answer_def)
  next
    case None
    with rest obtain h m' r' where get: "tb_get (db_heads D) tx (pc_save_id p) = Inr h"
      and h': "validate_head_row X h = Inr (m', r')"
      and rest: "(if r' \<noteq> wc_expected_revision (cr_command q)
             then rbind (backend ''rollback revision conflict'' (db_rollback D tx)) (\<lambda>_.
                    Inr (Inl (CommitConflict (wc_expected_revision (cr_command q)) r')))
             else rbind (write_commit D p h tx) (\<lambda>tx'. Inr (Inr tx'))) = Inr staged"
      by (auto simp: rbind_Inr_iff backend_Inr_iff)
    from s obtain h0 where heads: "holds sh_save_id (tv_heads (V tx)) [h0]"
      and h0: "head_row X m (head_revision log) h0"
      by (auto simp: save_holds_def)
    have "tv_heads (V tx) (pc_save_id p) = Some h"
      using D get by (auto simp: db_ok_def intro: table_get)
    then have "h = h0"
      using holds_get [OF heads] by simp
    with h' head_row_valid [OF X h0] have r': "r' = head_revision log"
      by simp
    show ?thesis
    proof (cases "r' = wc_expected_revision (cr_command q)")
      case False
      with rest have "staged = Inl (CommitConflict (wc_expected_revision (cr_command q)) r')"
        by (auto simp: rbind_Inr_iff)
      then show ?thesis
        by (simp add: commit_answer_def r')
    next
      case True
      with rest obtain tx' where tx': "write_commit D p h tx = Inr tx'" and staged: "staged = Inr tx'"
        by (auto simp: rbind_Inr_iff)
      let ?log = "log @ [(q, p)]"
      have next_rev: "revision_next (head_revision log) = Inr (ca_revision (cr_safe_outcome q))"
        using logged_okD(2) [OF e] True r' by simp
      then have rev: "ca_revision (cr_safe_outcome q) = head_revision ?log"
        by (simp add: revision_next_add head_revision_def revision_add_add)
      have len: "length log < 2 ^ 63"
        using s by (simp add: save_holds_def log_ok_def)
      have "unat (revision_get (ca_revision (cr_safe_outcome q))) = Suc (length log)"
        using next_rev len head_revision_le [of log] by (auto simp: revision_next_Inr_iff)
      then have len': "length ?log < 2 ^ 63"
        using logged_okD(5) [OF e] by (auto simp: revision_to_i64_def split: if_splits)
      have expected: "wc_expected_revision (cr_command (fst (?log ! n))) = revision_add (Revision 0) n"
        if "n < length ?log" for n
        using that s True r'
        by (cases "n < length log")
          (auto simp: save_holds_def log_ok_def nth_append head_revision_def less_Suc_eq)
      have head: "head_row X m (head_revision ?log)
          (h\<lparr>sh_revision := pc_revision p, sh_checksum := pc_head_checksum p\<rparr>)"
        using h0 \<open>h = h0\<close> prepared_head [OF p] logged_okD(5) [OF e]
        by (simp add: head_row_def rev [symmetric])
      have parts: "holds ro_id (tv_ops (V tx)) (concat (map (\<lambda>(_, p). map (op_row_of p) (pc_record_ops p)) log))"
        "holds ev_id (tv_events (V tx)) (concat (map (\<lambda>(_, p). map (event_row_of p) (pc_events p)) log))"
        "holds ts_id (tv_transcripts (V tx)) (map transcript_row_of initial
          @ concat (map (\<lambda>(_, p). map transcript_row_of (pc_transcripts p)) log))"
        "holds ac_id (tv_actions (V tx)) (map (\<lambda>(_, p). action_row_of p) log)"
        and rest: "holds cp_id (tv_checkpoints (V tx)) cps" "log_ok X (sm_save_id m) log"
        using s by (simp_all add: save_holds_def)
      note tables = write_commit_tables [OF D tx' heads [folded \<open>h = h0\<close>] parts]
      have "log_ok X (sm_save_id m) ?log"
        using rest(2) e len' expected by (simp add: log_ok_def)
      then have "save_holds X (V tx') m cps initial ?log"
        unfolding save_holds_def using tables head rest(1) by auto
      with known' None True r' show ?thesis
        by (auto simp: staged)
    qed
  qed
qed

text \<open>The commit of the database reported a failure.\<close>

definition commit_failed :: "'d db_lib \<Rightarrow> 'd save_store \<Rightarrow> driver_error \<Rightarrow> 'd save_store \<Rightarrow> bool" where
  "commit_failed D s e s' \<longleftrightarrow> (\<exists>tx. db_commit D (ss_db s) tx = (Some e, ss_db s'))"

text \<open>The request is in the log after a commit.\<close>

definition appends :: "store_lib \<Rightarrow> ('d \<Rightarrow> tables) \<Rightarrow> save_manifest \<Rightarrow> checkpoint_row list \<Rightarrow> prepared_transcript list
    \<Rightarrow> log \<Rightarrow> commit_request \<Rightarrow> 'd \<Rightarrow> bool" where
  "appends X V m cps initial log q d \<longleftrightarrow> wc_expected_revision (cr_command q) = head_revision log
     \<and> (\<forall>(q', _)\<in>set log. wc_action_id (cr_command q') \<noteq> wc_action_id (cr_command q))
     \<and> (\<exists>p. ca_revision (cr_safe_outcome q) = head_revision (log @ [(q, p)])
          \<and> save_holds X (V d) m cps initial (log @ [(q, p)]))"

text \<open>A commit appends the request and says so; or it leaves the tables as they were and says why; or
  the database reports a failure: of a transaction that was written all the same, or of one that lost
  against other connections, where the answer is read from what they left.\<close>

lemma store_commit_outcomes:
  assumes X: "store_lib_ok X" and D: "db_ok D V"
    and s: "save_holds X (V (ss_db s)) (ss_manifest s) cps initial log"
    and run: "store_commit X D q s = (res, s')"
  shows "ss_manifest s' = ss_manifest s
    \<and> (res = Inr (CommitDone (cr_safe_outcome q)) \<and> ss_revision s' = ca_revision (cr_safe_outcome q)
          \<and> appends X V (ss_manifest s) cps initial log q (ss_db s')
      \<or> commit_answer X log q res \<and> V (ss_db s') = V (ss_db s)
      \<or> (\<exists>e. commit_failed D s e s' \<and> e \<noteq> SerializationFailure)
          \<and> res = Inl (Backend ''commit durable transaction'')
          \<and> appends X V (ss_manifest s) cps initial log q (ss_db s')
      \<or> commit_failed D s SerializationFailure s'
          \<and> (case load_head X D (ss_db s') (store_save_id X (ss_manifest s)) of
               Inl e \<Rightarrow> res = Inl e
             | Inr (_, actual) \<Rightarrow> res = Inr (CommitConflict (wc_expected_revision (cr_command q)) actual)
                 \<and> ss_revision s' = actual))"
proof -
  let ?m = "ss_manifest s"
  define staged where "staged = rbind (request_validate (sto_uuid X) q) (\<lambda>_.
      rbind (prepared_commit_new X ?m q) (\<lambda>p.
      rbind (backend ''begin durable transaction'' (db_begin D (ss_db s))) (\<lambda>tx.
        stage_commit X D ?m q p tx)))"
  note run' = run [unfolded store_commit_def Let_def, folded staged_def]
  show ?thesis
  proof (cases staged)
    case (Inl e)
    with run' show ?thesis
      by (auto simp: commit_answer_def)
  next
    case (Inr a)
    then obtain p tx where valid: "request_validate (sto_uuid X) q = Inr ()"
      and p: "prepared_commit_new X ?m q = Inr p" and tx: "db_begin D (ss_db s) = Inr tx"
      and stage: "stage_commit X D ?m q p tx = Inr a"
      by (auto simp: staged_def rbind_Inr_iff backend_Inr_iff)
    have e: "logged_ok X (sm_save_id ?m) (q, p)"
      using valid p by (auto simp: logged_ok_def)
    have "V tx = V (ss_db s)"
      using D tx by (auto simp: db_ok_def)
    with s have "save_holds X (V tx) ?m cps initial log"
      by simp
    note stage' = stage_commit_Inr [OF X D this e p stage]
    show ?thesis
    proof (cases a)
      case (Inl answer)
      with run' \<open>staged = Inr a\<close> stage' show ?thesis
        by auto
    next
      case a: (Inr tx')
      obtain out d where commit: "db_commit D (ss_db s) tx' = (out, d)"
        by (cases "db_commit D (ss_db s) tx'")
      have "ca_revision (cr_safe_outcome q) = head_revision (log @ [(q, p)])"
        using logged_okD(2) [OF e] stage' a
        by (simp add: revision_next_add head_revision_def revision_add_add)
      with stage' a have written: "appends X V ?m cps initial log q d" if "V d = V tx'"
        using that by (auto simp: appends_def)
      show ?thesis
      proof (cases out)
        case None
        with commit_success [OF D] commit written have "appends X V ?m cps initial log q d"
          by auto
        with run' \<open>staged = Inr a\<close> a commit None show ?thesis
          by auto
      next
        case failed: (Some err)
        show ?thesis
        proof (cases "err = SerializationFailure")
          case True
          with run' \<open>staged = Inr a\<close> a commit failed show ?thesis
            by (auto simp: commit_failed_def split: sum.splits)
        next
          case False
          with run' \<open>staged = Inr a\<close> a commit failed
          have s': "s' = s\<lparr>ss_db := d\<rparr>" and res: "res = Inl (Backend ''commit durable transaction'')"
            by (cases err; simp)+
          from commit_uncertain [OF D commit [unfolded failed] False] written
          have "V d = V (ss_db s) \<or> appends X V ?m cps initial log q d"
            by blast
          with commit failed False s' res show ?thesis
            by (auto simp: commit_failed_def commit_answer_def)
        qed
      qed
    qed
  qed
qed

text \<open>A commit loses against other connections of the same program: what a serialization failure leaves
  is what their commits made of the save, whether these were acknowledged or not.\<close>

inductive others_append :: "store_lib \<Rightarrow> ('d \<Rightarrow> tables) \<Rightarrow> save_manifest \<Rightarrow> 'd \<Rightarrow> 'd \<Rightarrow> bool"
  for X V m d where
  others_none: "V d' = V d \<Longrightarrow> others_append X V m d d'"
| others_one: "others_append X V m d (ss_db st) \<Longrightarrow> ss_manifest st = m \<Longrightarrow> db_ok D V
    \<Longrightarrow> store_commit X D q st = (res, st') \<Longrightarrow> \<not> commit_failed D st SerializationFailure st'
    \<Longrightarrow> V d' = V (ss_db st') \<Longrightarrow> others_append X V m d d'"

definition others_commit :: "store_lib \<Rightarrow> 'd db_lib \<Rightarrow> ('d \<Rightarrow> tables) \<Rightarrow> bool" where
  "others_commit X D V \<longleftrightarrow> (\<forall>d tx d' m cps initial log. db_commit D d tx = (Some SerializationFailure, d')
     \<and> save_holds X (V d) m cps initial log \<longrightarrow> others_append X V m d d')"

lemma others_append_holds:
  assumes X: "store_lib_ok X" and run: "others_append X V m d d'" and s: "save_holds X (V d) m cps initial log"
  shows "\<exists>more. save_holds X (V d') m cps initial (log @ more)"
  using run
proof induction
  case (others_none d')
  with s have "save_holds X (V d') m cps initial (log @ [])"
    by simp
  then show ?case ..
next
  case (others_one st D q res st' d')
  then obtain more where "save_holds X (V (ss_db st)) (ss_manifest st) cps initial (log @ more)"
    by blast
  from store_commit_outcomes [OF X others_one(3) this others_one(4)] others_one
  have "appends X V m cps initial (log @ more) q (ss_db st') \<or> V (ss_db st') = V (ss_db st)"
    by blast
  then show ?case
    using others_one.IH others_one(6) by (auto simp: appends_def)
qed

lemma store_commit_holds:
  assumes X: "store_lib_ok X" and D: "db_ok D V" and others: "others_commit X D V"
    and s: "save_holds X (V (ss_db s)) (ss_manifest s) cps initial log"
    and run: "store_commit X D q s = (res, s')"
  shows "ss_manifest s' = ss_manifest s
    \<and> (res = Inr (CommitDone (cr_safe_outcome q)) \<and> ss_revision s' = ca_revision (cr_safe_outcome q)
          \<and> appends X V (ss_manifest s) cps initial log q (ss_db s')
      \<or> commit_answer X log q res \<and> V (ss_db s') = V (ss_db s)
      \<or> (\<exists>e. commit_failed D s e s' \<and> e \<noteq> SerializationFailure)
          \<and> res = Inl (Backend ''commit durable transaction'')
          \<and> appends X V (ss_manifest s) cps initial log q (ss_db s')
      \<or> commit_failed D s SerializationFailure s'
          \<and> (\<exists>more. save_holds X (V (ss_db s')) (ss_manifest s) cps initial (log @ more)
             \<and> ((\<exists>e. res = Inl e)
                \<or> res = Inr (CommitConflict (wc_expected_revision (cr_command q)) (head_revision (log @ more)))
                  \<and> ss_revision s' = head_revision (log @ more))))"
proof -
  have contended: "\<exists>more. save_holds X (V (ss_db s')) (ss_manifest s) cps initial (log @ more)
             \<and> ((\<exists>e. res = Inl e)
                \<or> res = Inr (CommitConflict (wc_expected_revision (cr_command q)) (head_revision (log @ more)))
                  \<and> ss_revision s' = head_revision (log @ more))"
    if failed: "commit_failed D s SerializationFailure s'"
      and answer: "case load_head X D (ss_db s') (store_save_id X (ss_manifest s)) of
               Inl e \<Rightarrow> res = Inl e
             | Inr (_, actual) \<Rightarrow> res = Inr (CommitConflict (wc_expected_revision (cr_command q)) actual)
                 \<and> ss_revision s' = actual"
  proof -
    from failed others s obtain more where
      h: "save_holds X (V (ss_db s')) (ss_manifest s) cps initial (log @ more)"
      using others_append_holds [where V = V and d = "ss_db s", OF X _ s] unfolding commit_failed_def others_commit_def by blast
    have "x = (ss_manifest s, head_revision (log @ more))"
      if "load_head X D (ss_db s') (store_save_id X (ss_manifest s)) = Inr x" for x
      using load_head_holds [OF X D h that] .
    with h answer show ?thesis
      by (fastforce split: sum.splits prod.splits)
  qed
  from store_commit_outcomes [OF X D s run] contended show ?thesis
    by blast
qed

end
