(* ===== verification/Store_Load.thy ===== *)
theory Store_Load
  imports Store_Commit
begin

text \<open>
  Creating, opening and loading a save. Whatever order the scans return the rows in, the operations
  of the log are read back in commit order, and the newest checkpoint is the one that is replayed
  from; so what is loaded is a function of the checkpoint and the log.
\<close>

section \<open>Creating and opening\<close>

text \<open>The row of a checkpoint, and the checkpoints of a save: none is later than the log.\<close>

definition checkpoint_row_ok :: "store_lib \<Rightarrow> save_id \<Rightarrow> revision \<Rightarrow> record_envelope list
    \<Rightarrow> checkpoint_row \<Rightarrow> bool" where
  "checkpoint_row_ok X i r envelopes row \<longleftrightarrow> cp_id row = checkpoint_row_id r
     \<and> cp_save_id row = runtime_id_to_string (sto_uuid X) SAV i
     \<and> revision_to_i64 r = Inr (cp_revision row)
     \<and> serialize (sto_envelopes X) envelopes = Inr (cp_records row)
     \<and> checkpoint_checksum X r (cp_records row) = Inr (cp_checksum row)
     \<and> checkpoint_ordered r None envelopes"

lemma open_database_V: "db_ok D V \<Longrightarrow> open_database D d = Inr d' \<Longrightarrow> V d' = V d"
  by (auto simp: open_database_def res_inv db_ok_def)

lemma commit_tx_Inr: "db_ok D V \<Longrightarrow> commit_tx D op d tx = (Inr (), d') \<Longrightarrow> V d' = V tx"
  by (auto simp: commit_tx_def db_ok_def split: prod.splits option.splits)

lemma commit_result_Inr:
  "(case c of (Inl e, _) \<Rightarrow> Inl e | (Inr (_ :: unit), d) \<Rightarrow> Inr (f d)) = Inr s
    \<longleftrightarrow> (\<exists>d. c = (Inr (), d) \<and> s = f d)"
  by (cases c; cases "fst c") auto

lemma envelope_keys_ordered:
  "sorted (map envelope_key es) \<Longrightarrow> distinct (map envelope_key es) \<Longrightarrow> (\<forall>e\<in>set es. re_revision e \<le> r)
    \<Longrightarrow> (\<forall>k. previous = Some k \<longrightarrow> (\<forall>e\<in>set es. k < envelope_key e)) \<Longrightarrow> checkpoint_ordered r previous es"
  by (induction r previous es rule: checkpoint_ordered.induct)
    (auto split: option.splits simp: order_le_less)

lemma adjacent_distinct:
  "sorted (map f xs) \<Longrightarrow> \<not> list_ex (\<lambda>(a, b). f a = f b) (zip xs (tl xs)) \<Longrightarrow> distinct (map f xs)"
proof (induction xs)
  case (Cons x xs)
  then show ?case
    by (cases xs) (auto simp: order_le_less dest!: order_le_less_trans)
qed simp

lemma checkpoint_records_Inr:
  assumes "checkpoint_records X records r = Inr (envelopes, transcripts)"
  shows "checkpoint_ordered r None envelopes" and "transcripts = upserted_transcripts records"
    and "\<exists>es. list_all2 (\<lambda>rec e. to_envelope (sto_uuid X) (sto_serde X) rec r None = Inr e) records es
      \<and> envelopes = sort_key envelope_key es \<and> distinct (map envelope_key envelopes)"
proof -
  from assms obtain es where es: "rmapM (checkpoint_envelope X r) records = Inr es"
    and env: "envelopes = sort_key envelope_key es"
    and adj: "\<not> list_ex (\<lambda>(a, b). envelope_key a = envelope_key b) (zip envelopes (tl envelopes))"
    and tr: "transcripts = upserted_transcripts records"
    by (auto simp: checkpoint_records_def rbind_Inr_iff Let_def integrity_def split: if_splits)
  have all2: "list_all2 (\<lambda>rec e. to_envelope (sto_uuid X) (sto_serde X) rec r None = Inr e) records es"
    using es unfolding rmapM_Inr_iff
    by (rule list_all2_mono) (auto simp: checkpoint_envelope_def rbind_Inr_iff map_err_Inr_iff)
  have sorted: "sorted (map envelope_key envelopes)"
    by (simp add: env)
  have distinct: "distinct (map envelope_key envelopes)"
    by (rule adjacent_distinct [OF sorted adj])
  have "re_revision e = r" if "e \<in> set es" for e
    using all2 that by (auto simp: list_all2_conv_all_nth in_set_conv_nth to_envelope_Inr_iff)
  then show "checkpoint_ordered r None envelopes"
    by (intro envelope_keys_ordered sorted distinct) (simp_all add: env)
  show "transcripts = upserted_transcripts records"
    by (rule tr)
  show "\<exists>es. list_all2 (\<lambda>rec e. to_envelope (sto_uuid X) (sto_serde X) rec r None = Inr e) records es
      \<and> envelopes = sort_key envelope_key es \<and> distinct (map envelope_key envelopes)"
    using all2 env distinct by blast
qed

text \<open>A created save holds its manifest, one checkpoint of the initial records, and an empty log.\<close>

lemma store_create_holds:
  assumes X: "store_lib_ok X" and D: "db_ok D V" and run: "store_create X D b m records = Inr s"
  shows "\<not> b \<and> ss_manifest s = m \<and> ss_revision s = Revision 0
    \<and> validate_world_identity m records = Inr ()
    \<and> (\<exists>envelopes row initial. checkpoint_records X records (Revision 0)
          = Inr (envelopes, upserted_transcripts records)
        \<and> prepare_transcripts X (store_save_id X m) (Revision 0) (upserted_transcripts records) True
          = Inr initial
        \<and> checkpoint_row_ok X (sm_save_id m) (Revision 0) envelopes row
        \<and> save_holds X (V (ss_db s)) m [row] initial [])"
proof -
  let ?r0 = "Revision 0"
  from run obtain envelopes transcripts js cs mj hs prepared d tx0 tx1 tx2 tx3 d' where b: "\<not> b"
    and m: "save_manifest_validate m = Inr ()"
    and recs: "checkpoint_records X records ?r0 = Inr (envelopes, transcripts)"
    and wid: "validate_world_identity m records = Inr ()"
    and js: "serialize (sto_envelopes X) envelopes = Inr js" and cs: "checkpoint_checksum X ?r0 js = Inr cs"
    and mj: "serialize (sto_manifest X) m = Inr mj" and hs: "head_checksum X ?r0 mj = Inr hs"
    and prepared: "prepare_transcripts X (store_save_id X m) ?r0 transcripts True = Inr prepared"
    and d: "open_database D (db_fresh D) = Inr d" and tx0: "db_begin D d = Inr tx0"
    and tx1: "tb_create (db_heads D) tx0 \<lparr>sh_save_id = store_save_id X m, sh_revision = 0,
        sh_manifest = mj, sh_checksum = hs\<rparr> = Inr tx1"
    and tx2: "tb_create (db_checkpoints D) tx1 \<lparr>cp_id = checkpoint_row_id ?r0,
        cp_save_id = store_save_id X m, cp_revision = 0, cp_records = js, cp_checksum = cs\<rparr> = Inr tx2"
    and tx3: "rfold (create_transcript_row D) tx2 prepared = Inr tx3"
    and d': "commit_tx D ''commit save initialization'' d tx3 = (Inr (), d')"
    and s: "s = \<lparr>ss_db = d', ss_manifest = m, ss_revision = ?r0\<rparr>"
    by (auto simp: store_create_def Let_def rbind_Inr_iff backend_Inr_iff map_err_Inr_iff to_json_Inr_iff
        commit_result_Inr split: if_split_asm)
  let ?h = "\<lparr>sh_save_id = store_save_id X m, sh_revision = 0, sh_manifest = mj, sh_checksum = hs\<rparr>"
  let ?row = "\<lparr>cp_id = checkpoint_row_id ?r0, cp_save_id = store_save_id X m, cp_revision = 0,
      cp_records = js, cp_checksum = cs\<rparr>"
  have T: "table_ok (db_heads D) V tv_heads tv_heads_update sh_save_id"
    "table_ok (db_checkpoints D) V tv_checkpoints tv_checkpoints_update cp_id"
    "table_ok (db_transcripts D) V tv_transcripts tv_transcripts_update ts_id"
    using D by (simp_all add: db_ok_def)
  have V0: "V tx0 = no_tables"
    using D tx0 open_database_V [OF D d] by (auto simp: db_ok_def)
  have V1: "V tx1 = tv_heads_update (\<lambda>m. m(sh_save_id ?h \<mapsto> ?h)) no_tables"
    using table_create [OF T(1) tx1] V0 by simp
  have V2: "V tx2 = tv_checkpoints_update (\<lambda>m. m(cp_id ?row \<mapsto> ?row)) (V tx1)"
    using table_create [OF T(2) tx2] by simp
  have rows: "rfold (\<lambda>tx row. backend ''write transcript'' (tb_create (db_transcripts D) tx (transcript_row_of row)))
      tx2 prepared = Inr tx3"
    using tx3 by (simp add: create_transcript_row_def [abs_def])
  have "holds ts_id (tv_transcripts (V tx2)) []"
    by (simp add: V1 V2 no_tables_def)
  from create_rows [OF T(3) _ _ _ rows this] obtain g
    where ts: "holds ts_id (tv_transcripts (V tx3)) (map transcript_row_of prepared)"
      and V3: "V tx3 = tv_transcripts_update g (V tx2)"
    by (auto simp: comp_def id_def)
  have Vd: "V d' = V tx3"
    by (rule commit_tx_Inr [OF D d'])
  have i64: "revision_to_i64 ?r0 = Inr 0"
    by (simp add: revision_to_i64_def)
  have head: "head_row X m (head_revision []) ?h"
    using m mj hs i64 by (simp add: head_row_def head_revision_def)
  have "holds sh_save_id (Map.empty(sh_save_id ?h \<mapsto> ?h)) ([] @ [?h])"
    by (rule holds_snoc) simp_all
  then have heads: "holds sh_save_id (tv_heads (V d')) [?h]"
    by (simp add: Vd V3 V2 V1 no_tables_def)
  have "holds cp_id (Map.empty(cp_id ?row \<mapsto> ?row)) ([] @ [?row])"
    by (rule holds_snoc) simp_all
  then have cps: "holds cp_id (tv_checkpoints (V d')) [?row]"
    by (simp add: Vd V3 V2 V1 no_tables_def)
  have "save_holds X (V d') m [?row] prepared []"
    unfolding save_holds_def
    using heads head cps ts by (auto simp: Vd V3 V2 V1 no_tables_def log_ok_def)
  moreover have "checkpoint_row_ok X (sm_save_id m) ?r0 envelopes ?row"
    using js cs i64 checkpoint_records_Inr(1) [OF recs] by (simp add: checkpoint_row_ok_def store_save_id_def)
  ultimately show ?thesis
    using b s wid recs checkpoint_records_Inr(2) [OF recs] prepared by auto
qed

text \<open>Opening a save finds its manifest and the revision of its log.\<close>

lemma from_driver_holds:
  assumes X: "store_lib_ok X" and D: "db_ok D V" and h: "save_holds X (V d) m cps initial log"
    and run: "from_driver X D d = Inr s"
  shows "ss_manifest s = m \<and> ss_revision s = head_revision log \<and> V (ss_db s) = V d"
proof -
  from run obtain d' where d': "open_database D d = Inr d'"
    and head: "load_single_head X D d' = Inr (ss_manifest s, ss_revision s)" and s: "ss_db s = d'"
    by (auto simp: from_driver_def rbind_Inr_iff)
  have V: "V d' = V d"
    by (rule open_database_V [OF D d'])
  from h obtain h0 where heads: "holds sh_save_id (tv_heads (V d')) [h0]"
    and h0: "head_row X m (head_revision log) h0"
    by (auto simp: save_holds_def V)
  from head obtain hs where hs: "tb_all (db_heads D) d' = Inr hs"
    and single: "(case hs of [] \<Rightarrow> Inl SaveNotInitialized | [h] \<Rightarrow> validate_head_row X h
        | _ \<Rightarrow> Inl InvalidSaveHeadCount) = Inr (ss_manifest s, ss_revision s)"
    by (auto simp: load_single_head_def rbind_Inr_iff backend_Inr_iff)
  have "distinct (map sh_save_id hs) \<and> set hs = ran (tv_heads (V d'))"
    using D hs by (auto simp: db_ok_def dest: table_all)
  with holds_scan [OF heads] have "mset hs = mset [h0]"
    by blast
  then have "hs = [h0]"
    by (metis mset_single_iff mset.simps add_mset_add_single)
  with single head_row_valid [OF X h0] s V show ?thesis
    by simp
qed

section \<open>The operations of the log\<close>

definition log_ops :: "log \<Rightarrow> versioned_record_op list" where
  "log_ops log = concat (map (\<lambda>(q, _). cr_record_ops q) log)"

definition op_position :: "versioned_record_op \<Rightarrow> revision \<times> u32" where
  "op_position op = (op_revision op, op_order op)"

lemma entry_op:
  assumes "logged_ok X i (q, p)" and "n < length (cr_record_ops q)"
  shows "op_action_id (cr_record_ops q ! n) = wc_action_id (cr_command q)"
    and "op_revision (cr_record_ops q ! n) = ca_revision (cr_safe_outcome q)"
    and "unat (op_order (cr_record_ops q ! n)) = n"
proof -
  from assms(1) obtain r where r: "ca_revision (cr_safe_outcome q) = r"
    and ops: "rforeach (validate_record_op (cr_command q) r) (List.enumerate 0 (cr_record_ops q)) = Inr ()"
    by (auto simp: logged_ok_def request_validate_Inr_iff)
  have "(n, cr_record_ops q ! n) \<in> set (List.enumerate 0 (cr_record_ops q))"
    using assms(2) by (simp add: in_set_enumerate_eq)
  with ops have "validate_record_op (cr_command q) r (n, cr_record_ops q ! n) = Inr ()"
    by (auto simp: rforeach_Inr_iff)
  with r show "op_action_id (cr_record_ops q ! n) = wc_action_id (cr_command q)"
    and "op_revision (cr_record_ops q ! n) = ca_revision (cr_safe_outcome q)"
    and "unat (op_order (cr_record_ops q ! n)) = n"
    by (auto simp: validate_record_op_def split: if_splits)
qed

lemma log_entry_revision:
  assumes "log_ok X i log" and "n < length log"
  shows "ca_revision (cr_safe_outcome (fst (log ! n))) = revision_add (Revision 0) (Suc n)"
proof -
  obtain q p where qp: "log ! n = (q, p)"
    by (cases "log ! n")
  with assms have e: "logged_ok X i (q, p)" and "wc_expected_revision (cr_command q) = revision_add (Revision 0) n"
    by (auto simp: log_ok_def list_all_length dest: spec [of _ n])
  with logged_okD(2) [OF e] qp show ?thesis
    by (simp add: revision_next_add revision_add_add)
qed

lemma log_ok_snoc:
  "log_ok X i (log @ [e]) \<Longrightarrow> log_ok X i log \<and> logged_ok X i e
    \<and> ca_revision (cr_safe_outcome (fst e)) = revision_add (Revision 0) (Suc (length log))"
proof -
  assume l: "log_ok X i (log @ [e])"
  have "ca_revision (cr_safe_outcome (fst ((log @ [e]) ! length log))) = revision_add (Revision 0) (Suc (length log))"
    by (rule log_entry_revision [OF l]) simp
  moreover have "\<forall>n<length log. wc_expected_revision (cr_command (fst (log ! n))) = revision_add (Revision 0) n"
    using l by (auto simp: log_ok_def nth_append dest: less_SucI)
  ultimately show ?thesis
    using l by (simp add: log_ok_def)
qed

lemma revision_add_less:
  "m < n \<Longrightarrow> n < 2 ^ 63 \<Longrightarrow> revision_add (Revision 0) m < revision_add (Revision 0) n"
  by (simp add: less_revision_def revision_add_def word_less_nat_alt unat_of_nat)

lemma op_revision_bounds:
  assumes "log_ok X i log" and "op \<in> set (log_ops log)"
  shows "\<exists>n<length log. op_revision op = revision_add (Revision 0) (Suc n)"
proof -
  from assms(2) obtain n where n: "n < length log" "op \<in> set (cr_record_ops (fst (log ! n)))"
    by (fastforce simp: log_ops_def in_set_conv_nth)
  obtain q p where qp: "log ! n = (q, p)"
    by (cases "log ! n")
  with assms(1) n(1) have "logged_ok X i (q, p)"
    by (auto simp: log_ok_def list_all_length dest: spec [of _ n])
  with n(2) qp log_entry_revision [OF assms(1) n(1)] show ?thesis
    using n(1) by (fastforce simp: in_set_conv_nth entry_op(2))
qed

text \<open>Commit order is the order of revisions and, within a commit, of the orders.\<close>

lemma log_ops_sorted:
  "log_ok X i log \<Longrightarrow> sorted_wrt (<) (map op_position (log_ops log))"
proof (induction log rule: rev_induct)
  case (snoc e log)
  obtain q p where e: "e = (q, p)"
    by (cases e)
  from log_ok_snoc [OF snoc.prems] e have l: "log_ok X i log" and qp: "logged_ok X i (q, p)"
    and rev: "ca_revision (cr_safe_outcome q) = revision_add (Revision 0) (Suc (length log))"
    by simp_all
  have len: "Suc (length log) < 2 ^ 63"
    using snoc.prems by (simp add: log_ok_def)
  have "op_position (cr_record_ops q ! m) < op_position (cr_record_ops q ! n)"
    if "m < n" "n < length (cr_record_ops q)" for m n
    using that by (simp add: op_position_def entry_op [OF qp] word_less_nat_alt)
  then have "sorted_wrt (<) (map op_position (cr_record_ops q))"
    by (simp add: sorted_wrt_iff_nth_less)
  moreover have "op_position a < op_position b" if a: "a \<in> set (log_ops log)" and b: "b \<in> set (cr_record_ops q)" for a b
  proof -
    from op_revision_bounds [OF l a] obtain n where "n < length log"
      "op_revision a = revision_add (Revision 0) (Suc n)"
      by blast
    moreover have "op_revision b = revision_add (Revision 0) (Suc (length log))"
      using b entry_op(2) [OF qp] rev by (auto simp: in_set_conv_nth)
    ultimately show ?thesis
      using revision_add_less [of "Suc n" "Suc (length log)"] len by (simp add: op_position_def)
  qed
  ultimately show ?case
    using snoc.IH [OF l] e by (auto simp: log_ops_def sorted_wrt_append)
qed (simp add: log_ops_def)

lemma widened_order:
  fixes n :: u32
  shows "sint (ucast n :: i64) = uint n" and "uint n < 2 ^ 32" and "(ucast (ucast n :: i64) :: u32) = n"
proof -
  show bound: "uint n < 2 ^ 32"
    using uint_bounded [of n] by simp
  then have "uint n < 2 ^ 63"
    by (rule less_le_trans) simp
  with order_trans [OF minus_two_power_le uint_ge_0, of 63 n] have "in_i64 (uint n)"
    unfolding in_i64_def by (rule conjI)
  from sint_of_int_in_i64 [OF this] show "sint (ucast n :: i64) = uint n"
    by (simp only: ucast_eq)
  show "(ucast (ucast n :: i64) :: u32) = n"
    by (simp add: ucast_up_ucast_id is_up)
qed

lemma prepare_record_op_Inr:
  assumes "prepare_record_op X save_id n op = Inr row"
  shows "serialize (sto_operation X) op = Inr (po_payload row)"
    and "record_op_checksum X save_id op (po_payload row) = Inr (po_checksum row)"
    and "po_id row = record_op_row_id (op_revision op) (op_order op)" and "po_revision row = n"
    and "po_order row = ucast (op_order op)"
  using assms by (auto simp: prepare_record_op_def rbind_Inr_iff to_json_Inr_iff)

lemma read_op_row_prepared:
  assumes X: "store_lib_ok X" and e: "logged_ok X (sm_save_id m) (q, p)"
    and op: "n < length (cr_record_ops q)"
    and le: "ca_revision (cr_safe_outcome q) \<le> head"
  shows "read_op_row X m head (op_row_of p (pc_record_ops p ! n)) = Inr (cr_record_ops q ! n)"
proof -
  let ?op = "cr_record_ops q ! n" and ?row = "pc_record_ops p ! n"
  from logged_okD(10) [OF e] op have "prepare_record_op X (pc_save_id p) (pc_revision p) ?op = Inr ?row"
    by (simp add: rmapM_Inr_iff list_all2_conv_all_nth)
  note row = prepare_record_op_Inr [OF this]
  note order = widened_order [of "op_order ?op"]
  then show ?thesis
    using row order entry_op [OF e op] logged_okD [OF e] leD [OF le] revision_i64 [OF logged_okD(5) [OF e]]
      from_json_serialize [OF _ row(1)] X
    by (simp add: read_op_row_def op_row_of_def Let_def store_save_id_def record_op_checksum_def
        store_lib_ok_def)
qed

end
