(* ===== verification/Store_Read.thy ===== *)
theory Store_Read
  imports Store_Load
begin

text \<open>
  Loading a save: each scan of \<open>load\<close> returns what the log says, whatever order the rows come in, so
  that loading is \<open>replay_log\<close>, a function of the newest checkpoint and the log.
\<close>

section \<open>Scans\<close>

lemma scan_rows:
  assumes "mset rs = mset rows" and "list_all2 (\<lambda>row x. f row = Inr x) rows xs"
  shows "\<exists>ys. rmapM f rs = Inr ys \<and> mset ys = mset xs"
proof -
  let ?g = "projr \<circ> f"
  have xs: "xs = map ?g rows" and ok: "\<forall>row\<in>set rows. f row = Inr (?g row)"
    using assms(2) by (induction rule: list_all2_induct) auto
  have "set rs = set rows"
    using assms(1) by (metis set_mset_mset)
  with ok have "rmapM f rs = Inr (map ?g rs)"
    by (simp add: rmapM_Inr_iff list_all2_map2 list_all2_same)
  moreover have "mset (map ?g rs) = mset xs"
    by (simp add: xs assms(1))
  ultimately show ?thesis by blast
qed

lemma list_all2_concat_map:
  "(\<And>e. e \<in> set es \<Longrightarrow> list_all2 P (F e) (G e))
    \<Longrightarrow> list_all2 P (concat (map F es)) (concat (map G es))"
  by (induction es) (auto intro: list_all2_appendI)

lemma sort_key_permuted:
  assumes "mset xs = mset ys" and "distinct (map f ys)"
  shows "sort_key f xs = sort_key f ys"
proof (rule sort_key_unique)
  show "distinct (map f (sort_key f ys))"
    using assms(2) by (metis distinct_map distinct_sort set_sort)
qed (use assms(1) in simp_all)

lemma table_scan:
  "table_ok T V get put ident \<Longrightarrow> holds ident (get (V d)) rows \<Longrightarrow> tb_all T d = Inr rs
    \<Longrightarrow> mset rs = mset rows"
  using holds_scan table_all by metis

section \<open>Operations and actions\<close>

lemma head_revision_ge:
  assumes "log_ok X i log" and "n < length log"
  shows "ca_revision (cr_safe_outcome (fst (log ! n))) \<le> head_revision log"
proof (cases "Suc n = length log")
  case True
  with log_entry_revision [OF assms] show ?thesis
    by (simp add: head_revision_def)
next
  case False
  with assms have "revision_add (Revision 0) (Suc n) < head_revision log"
    unfolding head_revision_def by (intro revision_add_less) (auto simp: log_ok_def)
  with log_entry_revision [OF assms] show ?thesis
    by simp
qed

lemma log_entry_le:
  assumes "log_ok X i log" and "(q, p) \<in> set log"
  shows "logged_ok X i (q, p)" and "ca_revision (cr_safe_outcome q) \<le> head_revision log"
proof -
  show "logged_ok X i (q, p)"
    using assms by (auto simp: log_ok_def list_all_iff)
  from assms(2) obtain n where "n < length log" "log ! n = (q, p)"
    by (auto simp: in_set_conv_nth)
  with head_revision_ge [OF assms(1), of n] show "ca_revision (cr_safe_outcome q) \<le> head_revision log"
    by simp
qed

lemma load_record_ops_holds:
  assumes X: "store_lib_ok X" and D: "db_ok D V" and s: "save_holds X (V d) m cps initial log"
    and scan: "tb_all (db_ops D) d = Inr rs"
  shows "load_record_ops X D d m r0 (head_revision log)
    = Inr (filter (\<lambda>op. op_revision op > r0) (log_ops log))"
proof -
  let ?rows = "concat (map (\<lambda>(_, p). map (op_row_of p) (pc_record_ops p)) log)"
  have log: "log_ok X (sm_save_id m) log" and rows: "holds ro_id (tv_ops (V d)) ?rows"
    using s by (simp_all add: save_holds_def)
  have "mset rs = mset ?rows"
    using D rows scan by (auto simp: db_ok_def intro: table_scan)
  moreover have "list_all2 (\<lambda>row op. read_op_row X m (head_revision log) row = Inr op) ?rows (log_ops log)"
    unfolding log_ops_def
  proof (rule list_all2_concat_map)
    fix e assume "e \<in> set log"
    moreover obtain q p where "e = (q, p)"
      by (cases e)
    ultimately have e: "e = (q, p)" "(q, p) \<in> set log"
      by simp_all
    have "length (pc_record_ops p) = length (cr_record_ops q)"
      using logged_okD(10) [OF log_entry_le(1) [OF log e(2)]] by (rule rmapM_length)
    then show "list_all2 (\<lambda>row op. read_op_row X m (head_revision log) row = Inr op)
        (case e of (_, p) \<Rightarrow> map (op_row_of p) (pc_record_ops p)) (case e of (q, _) \<Rightarrow> cr_record_ops q)"
      using read_op_row_prepared [OF X log_entry_le(1) [OF log e(2)] _ log_entry_le(2) [OF log e(2)]]
      by (simp add: e(1) list_all2_conv_all_nth)
  qed
  ultimately obtain ops where ops: "rmapM (read_op_row X m (head_revision log)) rs = Inr ops"
    "mset ops = mset (log_ops log)"
    using scan_rows by blast
  let ?P = "\<lambda>op. op_revision op > r0"
  have sorted: "sorted (map op_position (log_ops log))" "distinct (map op_position (log_ops log))"
    using log_ops_sorted [OF log] by (simp_all add: strict_sorted_iff)
  have "sort_key op_position (filter ?P ops) = filter ?P (log_ops log)"
  proof (rule sort_key_unique)
    show "mset (filter ?P ops) = mset (filter ?P (log_ops log))"
      using ops(2) by simp
  qed (use sorted in \<open>auto intro: sorted_filter distinct_map_filter\<close>)
  with scan ops(1) show ?thesis
    by (simp add: load_record_ops_def op_position_def [abs_def] backend_def)
qed

lemma load_actions_rows:
  assumes "\<And>row. row \<in> set rows \<Longrightarrow> ac_save_id row = store_save_id X m
      \<and> validate_action_row X row (store_save_id X m) = Inr (g row) \<and> ca_revision (g row) \<le> head"
    and "distinct (map (ca_action_id \<circ> g) rows)"
    and "\<And>row. row \<in> set rows \<Longrightarrow> bt_get (ca_action_id (g row)) acc = None"
  shows "\<exists>acc'. rfold (read_action_row X m head) acc rows = Inr acc'
    \<and> (\<forall>row\<in>set rows. bt_get (ca_action_id (g row)) acc' = Some (g row))
    \<and> (\<forall>a. a \<notin> (ca_action_id \<circ> g) ` set rows \<longrightarrow> bt_get a acc' = bt_get a acc)"
  using assms
proof (induction rows arbitrary: acc)
  case (Cons row rows)
  let ?acc = "bt_insert (ca_action_id (g row)) (g row) acc"
  have "read_action_row X m head acc row = Inr ?acc"
    using Cons.prems(1,3) [of row] by (simp add: read_action_row_def bt_contains_get leD)
  moreover have new: "ca_action_id (g row) \<notin> (ca_action_id \<circ> g) ` set rows"
    using Cons.prems(2) by simp
  moreover have "bt_get (ca_action_id (g row')) ?acc = None" if "row' \<in> set rows" for row'
    using Cons.prems(3) [of row'] new that by (auto simp: image_iff)
  moreover have "distinct (map (ca_action_id \<circ> g) rows)"
    using Cons.prems(2) by (simp add: comp_def)
  ultimately show ?case
    using Cons.IH [of ?acc] Cons.prems(1) by fastforce
qed simp

lemma load_actions_holds:
  assumes X: "store_lib_ok X" and D: "db_ok D V" and s: "save_holds X (V d) m cps initial log"
    and scan: "tb_all (db_actions D) d = Inr rs"
  shows "\<exists>actions. load_actions X D d m (head_revision log) = Inr actions
    \<and> (\<forall>(q, p)\<in>set log. bt_get (wc_action_id (cr_command q)) actions = Some (cr_safe_outcome q))"
proof -
  let ?rows = "map (\<lambda>(_, p). action_row_of p) log"
  have log: "log_ok X (sm_save_id m) log" and rows: "holds ac_id (tv_actions (V d)) ?rows"
    using s by (simp_all add: save_holds_def)
  have table: "table_ok (db_actions D) V tv_actions tv_actions_update ac_id"
    using D by (simp add: db_ok_def)
  from table_scan [OF table rows scan] have "set rs = set ?rows"
    by (metis set_mset_mset)
  then have in_rs: "row \<in> set rs \<longleftrightarrow> (\<exists>q p. (q, p) \<in> set log \<and> row = action_row_of p)" for row
    by force
  define g where "g row = projr (validate_action_row X row (store_save_id X m))" for row
  have g: "validate_action_row X (action_row_of p) (store_save_id X m) = Inr (cr_safe_outcome q)
      \<and> g (action_row_of p) = cr_safe_outcome q" if "(q, p) \<in> set log" for q p
    using action_row_valid [OF X log_entry_le(1) [OF log that]] by (simp add: g_def store_save_id_def)
  have facts: "ac_save_id (action_row_of p) = store_save_id X m"
    "ac_id (action_row_of p) = runtime_id_to_string (sto_uuid X) ACT (wc_action_id (cr_command q))"
    "ca_action_id (cr_safe_outcome q) = wc_action_id (cr_command q)" if "(q, p) \<in> set log" for q p
    using logged_okD [OF log_entry_le(1) [OF log that]] by (simp_all add: action_row_of_def store_save_id_def)
  have "inj_on (ca_action_id \<circ> g) (set rs)"
  proof (rule inj_onI)
    fix a b assume "a \<in> set rs" "b \<in> set rs" and eq: "(ca_action_id \<circ> g) a = (ca_action_id \<circ> g) b"
    then obtain q p q' p' where a: "(q, p) \<in> set log" "a = action_row_of p"
      and b: "(q', p') \<in> set log" "b = action_row_of p'"
      by (auto simp: in_rs)
    with eq g facts have "ac_id a = ac_id b"
      by (metis comp_apply)
    moreover have "a \<in> set ?rows" "b \<in> set ?rows"
      using \<open>a \<in> set rs\<close> \<open>b \<in> set rs\<close> \<open>set rs = set ?rows\<close> by blast+
    ultimately have "tv_actions (V d) (ac_id a) = Some a" "tv_actions (V d) (ac_id a) = Some b"
      unfolding holds_get [OF rows] by simp_all
    then show "a = b" by simp
  qed
  moreover have "distinct rs"
    using table_all [OF table scan] by (metis distinct_map)
  ultimately have "distinct (map (ca_action_id \<circ> g) rs)"
    by (simp add: distinct_map)
  then obtain actions where run: "rfold (read_action_row X m (head_revision log)) [] rs = Inr actions"
    and all: "\<forall>row\<in>set rs. bt_get (ca_action_id (g row)) actions = Some (g row)"
    using load_actions_rows [of rs X m g "head_revision log" "[]"] g facts(1) log_entry_le(2) [OF log]
    by (fastforce simp: in_rs)
  have "bt_get (wc_action_id (cr_command q)) actions = Some (cr_safe_outcome q)" if "(q, p) \<in> set log" for q p
    using all g [OF that] facts(3) [OF that] that in_rs by metis
  with run scan show ?thesis
    by (auto simp: load_actions_def backend_def)
qed

end
