(* ===== verification/Store_Replay.thy ===== *)
theory Store_Replay
  imports Store_Read
begin

text \<open>
  Events, transcripts and checkpoints as they are read back, and \<open>load\<close> as a whole: when the reads
  succeed it is \<open>replay_save\<close>, a function of the newest checkpoint and the log alone.
\<close>

section \<open>Events\<close>

lemma runtime_id_text_read:
  fixes i :: "'k runtime_id"
  assumes "uuid_lib_ok L" and "length prefix = 3" and "is_uuid_v7 L (as_uuid i)"
  shows "runtime_id_from_str L prefix (runtime_id_to_string L prefix i) = Inr i"
proof -
  have "parse_str L (hyphenated L (as_uuid i)) = Some (as_uuid i)"
    "length (hyphenated L (as_uuid i)) = 36"
    "\<not> list_ex is_ascii_uppercase (hyphenated L (as_uuid i))"
    using assms(1) by (simp_all add: uuid_lib_ok_def)
  with assms(2,3) show ?thesis
    by (cases i) (simp add: runtime_id_from_str_def parse_prefixed_def runtime_id_to_string_def
        PREFIXED_ID_LEN_def UUID_TEXT_LEN_def is_uuid_v7_def nth_append)
qed

lemma prefix_lengths [simp]: "length EVT = 3" "length TRN = 3"
  by (simp_all add: EVT_def TRN_def)

definition log_events :: "log \<Rightarrow> world_event list" where
  "log_events log = concat (map (\<lambda>(q, _). cr_events q) log)"

definition event_position :: "world_event \<Rightarrow> revision \<times> event_id" where
  "event_position ev = (we_revision ev, we_id ev)"

text \<open>How an event row reads, whatever was read before it.\<close>

definition reads_event :: "store_lib \<Rightarrow> save_manifest \<Rightarrow> revision \<Rightarrow> world_event_row \<Rightarrow> world_event \<Rightarrow> bool" where
  "reads_event X m head row ev \<longleftrightarrow> (\<forall>acc. we_id ev \<notin> set (fst acc) \<longrightarrow>
     read_event_row X m head acc row = Inr (bs_insort (we_id ev) (fst acc), snd acc @ [ev]))"

lemma entry_event:
  "logged_ok X i (q, p) \<Longrightarrow> ev \<in> set (cr_events q) \<Longrightarrow> we_action_id ev = wc_action_id (cr_command q)
    \<and> we_revision ev = ca_revision (cr_safe_outcome q)"
  by (auto simp: logged_ok_def request_validate_Inr_iff foreign_event_def list_ex_iff)

lemma reads_event_prepared:
  assumes X: "store_lib_ok X" and e: "logged_ok X (sm_save_id m) (q, p)"
    and ev: "ev \<in> set (cr_events q)" and prep: "prepare_event X (pc_save_id p) (pc_revision p) ev = Inr row"
    and le: "ca_revision (cr_safe_outcome q) \<le> head" and v7: "is_uuid_v7 (sto_uuid X) (as_uuid (we_id ev))"
  shows "reads_event X m head (event_row_of p row) ev"
proof -
  have ok: "uuid_lib_ok (sto_uuid X)" "codec_ok (sto_event X)"
    using X by (simp_all add: store_lib_ok_def)
  have ser: "serialize (sto_event X) ev = Inr (pe_payload row)"
    and sum: "event_checksum X (pc_save_id p) ev (pe_payload row) = Inr (pe_checksum row)"
    and ids: "pe_id row = event_row_id X (we_revision ev) (we_id ev)" "pe_revision row = pc_revision p"
      "pe_event_id row = runtime_id_to_string (sto_uuid X) EVT (we_id ev)"
    using prep by (auto simp: prepare_event_def rbind_Inr_iff to_json_Inr_iff)
  show ?thesis
    unfolding reads_event_def
    using ids sum entry_event [OF e ev] logged_okD [OF e] leD [OF le] revision_i64 [OF logged_okD(5) [OF e]]
      from_json_serialize [OF ok(2) ser] runtime_id_text_read [OF ok(1) prefix_lengths(1) v7]
    by (simp add: read_event_row_def event_row_of_def store_save_id_def event_checksum_def bs_contains_def)
qed

lemma read_events:
  "list_all2 (reads_event X m head) rows evs \<Longrightarrow> distinct (map we_id evs)
    \<Longrightarrow> (\<forall>ev\<in>set evs. we_id ev \<notin> set ids)
    \<Longrightarrow> \<exists>ids'. rfold (read_event_row X m head) (ids, done_events) rows = Inr (ids', done_events @ evs)"
proof (induction rows evs arbitrary: ids done_events rule: list_all2_induct)
  case (Cons row rows ev evs)
  from Cons.hyps(1) Cons.prems(2) have step: "read_event_row X m head (ids, done_events) row
      = Inr (bs_insort (we_id ev) ids, done_events @ [ev])"
    by (simp add: reads_event_def)
  have "\<exists>ids'. rfold (read_event_row X m head) (bs_insort (we_id ev) ids, done_events @ [ev]) rows
      = Inr (ids', (done_events @ [ev]) @ evs)"
    using Cons.prems by (intro Cons.IH) (auto simp: image_iff)
  with step show ?case
    by simp
qed simp

lemma distinct_map_comp: "distinct (map (f \<circ> g) xs) \<Longrightarrow> distinct (map g xs)"
  by (auto simp: distinct_map dest: inj_on_imageI2)

lemma load_events_holds:
  assumes X: "store_lib_ok X" and D: "db_ok D V" and s: "save_holds X (V d) m cps initial log"
    and scan: "tb_all (db_events D) d = Inr rs" and ids: "distinct (map we_id (log_events log))"
    and v7: "\<And>ev. ev \<in> set (log_events log) \<Longrightarrow> is_uuid_v7 (sto_uuid X) (as_uuid (we_id ev))"
  shows "load_events X D d m (head_revision log) = Inr (sort_key event_position (log_events log))"
proof -
  let ?rows = "concat (map (\<lambda>(_, p). map (event_row_of p) (pc_events p)) log)"
  have log: "log_ok X (sm_save_id m) log" and rows: "holds ev_id (tv_events (V d)) ?rows"
    using s by (simp_all add: save_holds_def)
  have perm: "mset rs = mset ?rows"
    using D rows scan by (auto simp: db_ok_def intro: table_scan)
  have "list_all2 (reads_event X m (head_revision log)) ?rows (log_events log)"
    unfolding log_events_def
  proof (rule list_all2_concat_map)
    fix x assume "x \<in> set log"
    moreover obtain q p where "x = (q, p)"
      by (cases x)
    ultimately have x: "x = (q, p)" "(q, p) \<in> set log"
      by simp_all
    note e = log_entry_le [OF log x(2)]
    have "reads_event X m (head_revision log) (event_row_of p row) ev"
      if "ev \<in> set (cr_events q)" "prepare_event X (pc_save_id p) (pc_revision p) ev = Inr row" for row ev
      using reads_event_prepared [OF X e(1) that e(2)] v7 x(2) that(1) by (fastforce simp: log_events_def)
    with logged_okD(11) [OF e(1)]
    show "list_all2 (reads_event X m (head_revision log))
        (case x of (_, p) \<Rightarrow> map (event_row_of p) (pc_events p)) (case x of (q, _) \<Rightarrow> cr_events q)"
      by (simp add: x(1) rmapM_Inr_iff list_all2_conv_all_nth)
  qed
  from list_all2_reorder_left_invariance [OF this perm] obtain evs
    where evs: "list_all2 (reads_event X m (head_revision log)) rs evs" "mset evs = mset (log_events log)"
    by blast
  have "distinct (map we_id evs)"
    using ids evs(2) by (metis mset_eq_imp_distinct_iff mset_map)
  from read_events [OF evs(1) this, of "[]" "[]"] obtain ids'
    where run: "rfold (read_event_row X m (head_revision log)) ([], []) rs = Inr (ids', evs)"
    by auto
  have "we_id = snd \<circ> event_position"
    by (simp add: fun_eq_iff event_position_def)
  with ids have "distinct (map event_position (log_events log))"
    by (metis distinct_map_comp)
  from sort_key_permuted [OF evs(2) this] run scan show ?thesis
    by (simp add: load_events_def backend_def event_position_def [abs_def])
qed

section \<open>Transcripts\<close>

text \<open>The versions of the transcripts: those the save began with, and those of each commit.\<close>

definition log_transcripts :: "transcript_item_record list \<Rightarrow> log \<Rightarrow> (revision \<times> transcript_item_record) list" where
  "log_transcripts first log = map (Pair (Revision 0)) first
     @ concat (map (\<lambda>(q, _). map (Pair (ca_revision (cr_safe_outcome q))) (cr_transcripts q)) log)"

definition version_position :: "revision \<times> transcript_item_record \<Rightarrow> revision \<times> transcript_item_id" where
  "version_position = (\<lambda>(r, v). (r, tr_id v))"

definition latest_transcripts :: "(revision \<times> transcript_item_record) list \<Rightarrow> transcript_item_record list" where
  "latest_transcripts versions = bt_values (bt_of_list (map (\<lambda>(_, v). (tr_id v, v))
     (sort_key version_position versions)))"

definition reads_version :: "store_lib \<Rightarrow> save_manifest \<Rightarrow> revision \<Rightarrow> transcript_row
    \<Rightarrow> revision \<times> transcript_item_record \<Rightarrow> bool" where
  "reads_version X m head row x \<longleftrightarrow> read_transcript_row X m head row = Inr x
     \<and> ts_id row = transcript_row_id X (fst x) (tr_id (snd x))"

lemma reads_version_prepared:
  assumes X: "store_lib_ok X" and prep: "prepare_transcript X (store_save_id X m) r first v = Inr row"
    and le: "r \<le> head" and v7: "is_uuid_v7 (sto_uuid X) (as_uuid (tr_id v))"
  shows "reads_version X m head (transcript_row_of row) (r, v)"
proof -
  have ok: "uuid_lib_ok (sto_uuid X)" "codec_ok (sl_transcript_item (sto_serde X))"
    using X by (simp_all add: store_lib_ok_def serde_lib_ok_def)
  have ser: "serialize (sl_transcript_item (sto_serde X)) v = Inr (pt_payload row)"
    and sum: "transcript_checksum X (store_save_id X m) r v (pt_payload row) = Inr (pt_checksum row)"
    and i64: "revision_to_i64 r = Inr (pt_revision row)"
    and ids: "pt_id row = transcript_row_id X r (tr_id v)" "pt_save_id row = store_save_id X m"
      "pt_transcript_id row = runtime_id_to_string (sto_uuid X) TRN (tr_id v)"
    and at: "tr_revision v = None \<or> tr_revision v = Some r"
    using prep by (auto simp: prepare_transcript_def rbind_Inr_iff to_json_Inr_iff split: if_splits)
  show ?thesis
    unfolding reads_version_def
    using ids sum at leD [OF le] revision_i64 [OF i64]
      from_json_serialize [OF ok(2) ser] runtime_id_text_read [OF ok(1) prefix_lengths(2) v7]
    by (auto simp: read_transcript_row_def transcript_row_of_def transcript_checksum_def)
qed

lemma reads_versions_prepared:
  assumes X: "store_lib_ok X" and prep: "prepare_transcripts X (store_save_id X m) r vs first = Inr rows"
    and le: "r \<le> head" and v7: "\<And>v. v \<in> set vs \<Longrightarrow> is_uuid_v7 (sto_uuid X) (as_uuid (tr_id v))"
  shows "list_all2 (reads_version X m head) (map transcript_row_of rows) (map (Pair r) vs)"
  using prep reads_version_prepared [OF X _ le v7]
  by (auto simp: prepare_transcripts_def rmapM_Inr_iff list_all2_conv_all_nth)

lemma load_transcripts_holds:
  assumes X: "store_lib_ok X" and D: "db_ok D V" and s: "save_holds X (V d) m cps initial log"
    and first: "prepare_transcripts X (store_save_id X m) (Revision 0) first b = Inr initial"
    and scan: "tb_all (db_transcripts D) d = Inr rs"
    and v7: "\<And>r v. (r, v) \<in> set (log_transcripts first log) \<Longrightarrow> is_uuid_v7 (sto_uuid X) (as_uuid (tr_id v))"
  shows "load_transcripts X D d m (head_revision log) = Inr (latest_transcripts (log_transcripts first log))"
proof -
  let ?head = "head_revision log"
  let ?rows = "map transcript_row_of initial @ concat (map (\<lambda>(_, p). map transcript_row_of (pc_transcripts p)) log)"
  have log: "log_ok X (sm_save_id m) log" and rows: "holds ts_id (tv_transcripts (V d)) ?rows"
    using s by (simp_all add: save_holds_def)
  have "table_ok (db_transcripts D) V tv_transcripts tv_transcripts_update ts_id"
    using D by (simp add: db_ok_def)
  from table_scan [OF this rows scan] have perm: "mset rs = mset ?rows" .
  have zero: "Revision 0 \<le> ?head"
    by (simp add: less_eq_revision_def)
  have "list_all2 (reads_version X m ?head) (map transcript_row_of initial) (map (Pair (Revision 0)) first)"
    by (rule reads_versions_prepared [OF X first zero], rule v7 [of "Revision 0"]) (simp add: log_transcripts_def)
  moreover have "list_all2 (reads_version X m ?head)
      (concat (map (\<lambda>(_, p). map transcript_row_of (pc_transcripts p)) log))
      (concat (map (\<lambda>(q, _). map (Pair (ca_revision (cr_safe_outcome q))) (cr_transcripts q)) log))"
  proof (rule list_all2_concat_map)
    fix x assume "x \<in> set log"
    moreover obtain q p where "x = (q, p)"
      by (cases x)
    ultimately have x: "x = (q, p)" "(q, p) \<in> set log"
      by simp_all
    note e = log_entry_le [OF log x(2)]
    have save: "pc_save_id p = store_save_id X m"
      using logged_okD(3) [OF e(1)] by (simp add: store_save_id_def)
    have "is_uuid_v7 (sto_uuid X) (as_uuid (tr_id v))" if "v \<in> set (cr_transcripts q)" for v
      using that x(2) by (intro v7 [of "ca_revision (cr_safe_outcome q)"]) (fastforce simp: log_transcripts_def)
    from reads_versions_prepared [OF X logged_okD(12) [OF e(1), unfolded save] e(2) this]
    show "list_all2 (reads_version X m ?head) (case x of (_, p) \<Rightarrow> map transcript_row_of (pc_transcripts p))
        (case x of (q, _) \<Rightarrow> map (Pair (ca_revision (cr_safe_outcome q))) (cr_transcripts q))"
      by (simp add: x(1))
  qed
  ultimately have all: "list_all2 (reads_version X m ?head) ?rows (log_transcripts first log)"
    unfolding log_transcripts_def by (rule list_all2_appendI)
  let ?id = "\<lambda>x. transcript_row_id X (fst x) (snd x)"
  from all have "map ts_id ?rows = map (\<lambda>x. transcript_row_id X (fst x) (tr_id (snd x))) (log_transcripts first log)"
    by (induction rule: list_all2_induct) (auto simp: reads_version_def)
  then have "distinct (map (?id \<circ> version_position) (log_transcripts first log))"
    using rows by (simp add: holds_def version_position_def comp_def case_prod_beta)
  then have distinct: "distinct (map version_position (log_transcripts first log))"
    by (rule distinct_map_comp)
  from list_all2_reorder_left_invariance [OF all perm] obtain vs
    where vs: "list_all2 (reads_version X m ?head) rs vs" "mset vs = mset (log_transcripts first log)"
    by blast
  from vs(1) have "rmapM (read_transcript_row X m ?head) rs = Inr vs"
    unfolding rmapM_Inr_iff by (rule list_all2_mono) (simp add: reads_version_def)
  with sort_key_permuted [OF vs(2) distinct] scan show ?thesis
    by (simp add: load_transcripts_def backend_def latest_transcripts_def version_position_def [abs_def])
qed

section \<open>Checkpoints\<close>

type_synonym checkpoint = "revision \<times> record_envelope list"

definition newer :: "checkpoint \<Rightarrow> checkpoint option \<Rightarrow> checkpoint option" where
  "newer c sel = (case sel of None \<Rightarrow> Some c | Some c0 \<Rightarrow> if fst c > fst c0 then Some c else sel)"

lemma newest_Some:
  "\<exists>c. fold newer cs (Some c0) = Some c \<and> c \<in> insert c0 (set cs) \<and> (\<forall>x\<in>insert c0 (set cs). fst x \<le> fst c)"
proof (induction cs arbitrary: c0)
  case (Cons x cs)
  from Cons.IH [of c0] Cons.IH [of x] show ?case
    by (auto simp: newer_def not_less dest: order_trans less_imp_le)
qed simp

definition is_checkpoint :: "store_lib \<Rightarrow> save_manifest \<Rightarrow> revision \<Rightarrow> checkpoint_row \<Rightarrow> checkpoint \<Rightarrow> bool" where
  "is_checkpoint X m head row c \<longleftrightarrow> checkpoint_row_ok X (sm_save_id m) (fst c) (snd c) row \<and> fst c \<le> head"

lemma select_checkpoints:
  assumes "list_all2 (is_checkpoint X m head) rows cs"
  shows "\<exists>sel'. rfold (select_checkpoint X m head) (map_option (\<lambda>c. (fst c, projr (serialize (sto_envelopes X) (snd c)))) sel) rows
    = Inr (map_option (\<lambda>c. (fst c, projr (serialize (sto_envelopes X) (snd c)))) (fold newer cs sel))"
  using assms
proof (induction arbitrary: sel rule: list_all2_induct)
  case (Cons row rows c cs)
  have "select_checkpoint X m head (map_option (\<lambda>c. (fst c, projr (serialize (sto_envelopes X) (snd c)))) sel) row
      = Inr (map_option (\<lambda>c. (fst c, projr (serialize (sto_envelopes X) (snd c)))) (newer c sel))"
    using Cons.hyps(1) revision_i64 [of "fst c" "cp_revision row"]
    by (cases sel) (auto simp: select_checkpoint_def is_checkpoint_def checkpoint_row_ok_def store_save_id_def
        newer_def leD)
  with Cons.IH [of "newer c sel"] show ?case
    by simp
qed simp

lemma load_checkpoint_holds:
  assumes X: "store_lib_ok X" and D: "db_ok D V" and s: "save_holds X (V d) m cps initial log"
    and cs: "list_all2 (is_checkpoint X m (head_revision log)) cps cs" "cps \<noteq> []"
    and scan: "tb_all (db_checkpoints D) d = Inr rs"
  shows "\<exists>r es. (r, es) \<in> set cs \<and> (\<forall>c\<in>set cs. fst c \<le> r)
    \<and> store_load_checkpoint X D d m (head_revision log) = Inr \<lparr>lc_revision = r, lc_records = es\<rparr>"
proof -
  let ?enc = "\<lambda>c. (fst c, projr (serialize (sto_envelopes X) (snd c)))"
  have "mset rs = mset cps"
    using D s scan by (auto simp: db_ok_def save_holds_def intro: table_scan)
  from list_all2_reorder_left_invariance [OF cs(1) this] obtain cs'
    where cs': "list_all2 (is_checkpoint X m (head_revision log)) rs cs'" "mset cs' = mset cs"
    by blast
  from cs' have same: "set cs' = set cs"
    by (metis set_mset_mset)
  from cs cs'(2) obtain x xs where x: "cs' = x # xs"
    by (cases cs') auto
  have "fold newer cs' None = fold newer xs (Some x)" "insert x (set xs) = set cs"
    using same by (simp_all add: x newer_def)
  with newest_Some [of xs x] obtain c where c: "fold newer cs' None = Some c" "c \<in> set cs"
    "\<forall>y\<in>set cs. fst y \<le> fst c"
    by metis
  from select_checkpoints [OF cs'(1), of None] have sel:
    "rfold (select_checkpoint X m (head_revision log)) None rs = Inr (Some (?enc c))"
    by (simp add: c(1))
  from cs(1) c(2) obtain row where "is_checkpoint X m (head_revision log) row c"
    by (auto simp: list_all2_conv_all_nth in_set_conv_nth)
  then have ser: "serialize (sto_envelopes X) (snd c) = Inr (snd (?enc c))"
    and ord: "checkpoint_ordered (fst c) None (snd c)"
    by (auto simp: is_checkpoint_def checkpoint_row_ok_def)
  have "codec_ok (sto_envelopes X)"
    using X by (simp add: store_lib_ok_def)
  from from_json_serialize [OF this ser] sel ord scan
  have "store_load_checkpoint X D d m (head_revision log) = Inr \<lparr>lc_revision = fst c, lc_records = snd c\<rparr>"
    by (simp add: store_load_checkpoint_def backend_def)
  with c(2,3) show ?thesis
    by (metis prod.collapse)
qed

section \<open>Loading\<close>

text \<open>What a load returns, as a function of a checkpoint and the log.\<close>

definition replay_save :: "store_lib \<Rightarrow> save_manifest \<Rightarrow> transcript_item_record list \<Rightarrow> log \<Rightarrow> checkpoint
    \<Rightarrow> store_error + loaded_save" where
  "replay_save X m first log c =
     rbind (map_err StoreRecord (rebuild_records (fst c) (snd c)
              (filter (\<lambda>op. op_revision op > fst c) (log_ops log)))) (\<lambda>(rebuilt_revision, records).
       if rebuilt_revision \<noteq> head_revision log then integrity ''rebuilt_revision''
       else
         let transcripts = latest_transcripts (log_transcripts first log)
         in rbind (map_err StoreDomain (decode_domain_records (sto_uuid X) (sto_serde X) records)) (\<lambda>typed.
            rbind (validate_world_identity m (bt_values typed)) (\<lambda>_.
            rbind (validate_transcript_projection (bt_values typed) transcripts) (\<lambda>_.
              Inr \<lparr>ld_manifest = m, ld_revision = head_revision log, ld_records = bt_values typed,
                   ld_events = sort_key event_position (log_events log), ld_transcripts = transcripts\<rparr>))))"

text \<open>The reads of a database state succeed.\<close>

definition readable :: "'d db_lib \<Rightarrow> ('d \<Rightarrow> tables) \<Rightarrow> 'd \<Rightarrow> bool" where
  "readable D V d \<longleftrightarrow> is_ok (tb_all (db_checkpoints D) d) \<and> is_ok (tb_all (db_ops D) d)
     \<and> is_ok (tb_all (db_events D) d) \<and> is_ok (tb_all (db_transcripts D) d)
     \<and> is_ok (tb_all (db_actions D) d)
     \<and> (\<forall>i\<in>dom (tv_heads (V d)). is_ok (tb_get (db_heads D) d i))"

text \<open>The identifiers a load parses back and compares: those of the events and transcripts.\<close>

definition log_ids_ok :: "store_lib \<Rightarrow> transcript_item_record list \<Rightarrow> log \<Rightarrow> bool" where
  "log_ids_ok X first log \<longleftrightarrow> distinct (map we_id (log_events log))
     \<and> (\<forall>ev\<in>set (log_events log). is_uuid_v7 (sto_uuid X) (as_uuid (we_id ev)))
     \<and> (\<forall>(_, v)\<in>set (log_transcripts first log). is_uuid_v7 (sto_uuid X) (as_uuid (tr_id v)))"

lemma check_ops:
  assumes log: "log_ok X i log"
    and actions: "\<forall>(q, p)\<in>set log. bt_get (wc_action_id (cr_command q)) actions = Some (cr_safe_outcome q)"
    and op: "op \<in> set (log_ops log)"
  shows "check_op_action actions op = Inr ()"
proof -
  from op obtain q p n where qp: "(q, p) \<in> set log" and n: "n < length (cr_record_ops q)" "op = cr_record_ops q ! n"
    by (fastforce simp: log_ops_def in_set_conv_nth)
  from entry_op [OF log_entry_le(1) [OF log qp] n(1)] actions qp n(2) show ?thesis
    by (auto simp: check_op_action_def)
qed

lemma check_events:
  assumes log: "log_ok X i log"
    and actions: "\<forall>(q, p)\<in>set log. bt_get (wc_action_id (cr_command q)) actions = Some (cr_safe_outcome q)"
    and ev: "ev \<in> set (log_events log)"
  shows "check_event_action actions ev = Inr ()"
proof -
  from ev obtain q p where qp: "(q, p) \<in> set log" and "ev \<in> set (cr_events q)"
    by (auto simp: log_events_def)
  from entry_event [OF log_entry_le(1) [OF log qp] this(2)] actions qp show ?thesis
    by (auto simp: check_event_action_def)
qed

lemma load_head_Inr:
  assumes X: "store_lib_ok X" and D: "db_ok D V" and s: "save_holds X (V d) m cps initial log"
    and "readable D V d"
  shows "load_head X D d (store_save_id X m) = Inr (m, head_revision log)"
proof -
  from s obtain h where heads: "holds sh_save_id (tv_heads (V d)) [h]" and h: "head_row X m (head_revision log) h"
    by (auto simp: save_holds_def)
  then have "tv_heads (V d) (store_save_id X m) = Some h"
    using holds_get [OF heads] by (simp add: head_row_def)
  then have "is_ok (tb_get (db_heads D) d (store_save_id X m))"
    using assms(4) by (auto simp: readable_def)
  then have "is_ok (load_head X D d (store_save_id X m))"
  proof -
    assume "is_ok (tb_get (db_heads D) d (store_save_id X m))"
    then obtain h' where h': "tb_get (db_heads D) d (store_save_id X m) = Inr h'"
      by (auto simp: is_ok_iff)
    have "table_ok (db_heads D) V tv_heads tv_heads_update sh_save_id"
      using D by (simp add: db_ok_def)
    from table_get [OF this h'] \<open>tv_heads (V d) (store_save_id X m) = Some h\<close> have "h' = h"
      by simp
    with h' head_row_valid [OF X h] show ?thesis
      by (simp add: load_head_def backend_def)
  qed
  with load_head_holds [OF X D s] show ?thesis
    by (auto simp: is_ok_iff)
qed

text \<open>Loading replays the newest checkpoint: no other row of the tables matters.\<close>

lemma load_from_holds:
  assumes X: "store_lib_ok X" and D: "db_ok D V" and s: "save_holds X (V d) m cps initial log"
    and first: "prepare_transcripts X (store_save_id X m) (Revision 0) first b = Inr initial"
    and cs: "list_all2 (is_checkpoint X m (head_revision log)) cps cs" "cps \<noteq> []"
    and ids: "log_ids_ok X first log" and reads: "readable D V d"
  shows "\<exists>c\<in>set cs. (\<forall>c'\<in>set cs. fst c' \<le> fst c) \<and> load_from X D m d = replay_save X m first log c"
proof -
  from reads obtain r1 r2 r3 r4 r5 where scans: "tb_all (db_checkpoints D) d = Inr r1"
    "tb_all (db_ops D) d = Inr r2" "tb_all (db_events D) d = Inr r3"
    "tb_all (db_transcripts D) d = Inr r4" "tb_all (db_actions D) d = Inr r5"
    by (auto simp: readable_def is_ok_iff)
  from load_checkpoint_holds [OF X D s cs scans(1)] obtain r es where c: "(r, es) \<in> set cs"
    "\<forall>c\<in>set cs. fst c \<le> r"
    and cp: "store_load_checkpoint X D d m (head_revision log) = Inr \<lparr>lc_revision = r, lc_records = es\<rparr>"
    by blast
  from load_actions_holds [OF X D s scans(5)] obtain actions
    where actions: "load_actions X D d m (head_revision log) = Inr actions"
      and acts: "\<forall>(q, p)\<in>set log. bt_get (wc_action_id (cr_command q)) actions = Some (cr_safe_outcome q)"
    by blast
  have log: "log_ok X (sm_save_id m) log"
    using s by (simp add: save_holds_def)
  note ops = load_record_ops_holds [OF X D s scans(2)]
  have events: "load_events X D d m (head_revision log) = Inr (sort_key event_position (log_events log))"
    using ids by (intro load_events_holds [OF X D s scans(3)]) (auto simp: log_ids_ok_def)
  have transcripts: "load_transcripts X D d m (head_revision log)
      = Inr (latest_transcripts (log_transcripts first log))"
    using ids by (intro load_transcripts_holds [OF X D s first scans(4)]) (auto simp: log_ids_ok_def)
  have "rforeach (check_op_action actions) (filter (\<lambda>op. op_revision op > r) (log_ops log)) = Inr ()"
    "rforeach (check_event_action actions) (sort_key event_position (log_events log)) = Inr ()"
    using check_ops [OF log acts] check_events [OF log acts] by (auto simp: rforeach_Inr_iff)
  with load_head_Inr [OF X D s reads] cp ops actions events transcripts
  have "load_from X D m d = replay_save X m first log (r, es)"
    by (cases "rebuild_records r es (filter (\<lambda>op. op_revision op > r) (log_ops log))")
      (auto simp: load_from_def replay_save_def Let_def integrity_def)
  with c show ?thesis
    by (intro bexI [of _ "(r, es)"]) simp_all
qed

end
