(* ===== verification/Store_Example.thy ===== *)
theory Store_Example
  imports Store_Replay World_Example
begin

text \<open>
  A database kept in lists and a small save in it, for the witnesses: a world record, one command that
  adds a goal, and serialisers that know the values that are stored.
\<close>

section \<open>A database in memory\<close>

record mem =
  mem_heads :: "save_head_row list"
  mem_checkpoints :: "checkpoint_row list"
  mem_ops :: "record_op_row list"
  mem_events :: "world_event_row list"
  mem_transcripts :: "transcript_row list"
  mem_actions :: "action_commit_row list"

definition mem_table :: "(mem \<Rightarrow> 'r list) \<Rightarrow> (('r list \<Rightarrow> 'r list) \<Rightarrow> mem \<Rightarrow> mem) \<Rightarrow> ('r \<Rightarrow> string)
    \<Rightarrow> (mem, 'r) table_lib" where
  "mem_table get put ident = \<lparr>
     tb_all = (\<lambda>d. if distinct (map ident (get d)) then Inr (get d) else Inl DriverFailure),
     tb_get = (\<lambda>d i. case find (\<lambda>r. ident r = i) (get d) of None \<Rightarrow> Inl RecordNotFound | Some r \<Rightarrow> Inr r),
     tb_create = (\<lambda>d r. if ident r \<in> set (map ident (get d)) then Inl DriverFailure
                        else Inr (put (\<lambda>rs. r # rs) d)),
     tb_update = (\<lambda>d r. if ident r \<notin> set (map ident (get d)) then Inl RecordNotFound
                        else Inr (put (\<lambda>rs. r # filter (\<lambda>x. ident x \<noteq> ident r) rs) d))\<rparr>"

definition mem_db :: "mem db_lib" where
  "mem_db = \<lparr>
     db_fresh = \<lparr>mem_heads = [], mem_checkpoints = [], mem_ops = [], mem_events = [],
                 mem_transcripts = [], mem_actions = []\<rparr>,
     db_push_schema = Inr, db_open = Inr, db_begin = Inr,
     db_commit = (\<lambda>d tx. (None, tx)), db_rollback = (\<lambda>tx. Inr ()),
     db_heads = mem_table mem_heads mem_heads_update sh_save_id,
     db_checkpoints = mem_table mem_checkpoints mem_checkpoints_update cp_id,
     db_ops = mem_table mem_ops mem_ops_update ro_id,
     db_events = mem_table mem_events mem_events_update ev_id,
     db_transcripts = mem_table mem_transcripts mem_transcripts_update ts_id,
     db_actions = mem_table mem_actions mem_actions_update ac_id\<rparr>"

definition rows_map :: "('r \<Rightarrow> string) \<Rightarrow> 'r list \<Rightarrow> string \<rightharpoonup> 'r" where
  "rows_map ident rs = map_of (map (\<lambda>r. (ident r, r)) rs)"

definition mem_tables :: "mem \<Rightarrow> tables" where
  "mem_tables d = \<lparr>tv_heads = rows_map sh_save_id (mem_heads d), tv_checkpoints = rows_map cp_id (mem_checkpoints d),
     tv_ops = rows_map ro_id (mem_ops d), tv_events = rows_map ev_id (mem_events d),
     tv_transcripts = rows_map ts_id (mem_transcripts d), tv_actions = rows_map ac_id (mem_actions d)\<rparr>"

lemma rows_map_ran: "distinct (map ident rs) \<Longrightarrow> ran (rows_map ident rs) = set rs"
  by (auto simp: rows_map_def ran_def map_of_eq_Some_iff comp_def)

lemma rows_map_find: "rows_map ident rs i = find (\<lambda>r. ident r = i) rs"
  by (induction rs) (simp_all add: rows_map_def)

lemma rows_map_None: "rows_map ident rs i = None \<longleftrightarrow> i \<notin> ident ` set rs"
  by (force simp: rows_map_def map_of_eq_None_iff)

lemma rows_map_Cons: "rows_map ident (r # rs) = (rows_map ident rs)(ident r \<mapsto> r)"
  by (simp add: rows_map_def)

lemma rows_map_filter: "i \<noteq> k \<Longrightarrow> rows_map ident (filter (\<lambda>x. ident x \<noteq> k) rs) i = rows_map ident rs i"
  by (induction rs) (auto simp: rows_map_def)

lemma rows_map_replace:
  "(rows_map ident (filter (\<lambda>x. ident x \<noteq> k) rs))(k \<mapsto> r) = (rows_map ident rs)(k \<mapsto> r)"
  by (auto simp: fun_eq_iff rows_map_filter)

lemma mem_table_ok:
  assumes get: "\<And>d. tget (V d) = rows_map ident (get d)"
    and put: "\<And>f g d. g (rows_map ident (get d)) = rows_map ident (f (get d)) \<Longrightarrow> V (put f d) = tput g (V d)"
  shows "table_ok (mem_table get put ident) V tget tput ident"
  unfolding table_ok_def mem_table_def
  using rows_map_ran [of ident] rows_map_None [of ident]
  by (auto simp: get rows_map_find [of ident, symmetric] rows_map_Cons rows_map_replace image_iff
      intro!: put split: option.splits if_splits)

lemma mem_db_ok: "db_ok mem_db mem_tables"
  unfolding db_ok_def
  by (simp add: mem_db_def mem_tables_def no_tables_def rows_map_def)
    (auto intro!: mem_table_ok simp: mem_tables_def rows_map_def)

text \<open>The same database behind a connection that breaks once a save is in it: its commits are written,
  and then fail.\<close>

definition lossy_db :: "mem db_lib" where
  "lossy_db = mem_db\<lparr>db_commit := (\<lambda>d tx. (if mem_heads d = [] then None else Some DriverFailure, tx))\<rparr>"

lemma lossy_db_ok: "db_ok lossy_db mem_tables"
  using mem_db_ok by (simp add: db_ok_def lossy_db_def)

lemma mem_others_commit: "others_commit X mem_db V" "others_commit X lossy_db V"
  by (simp_all add: others_commit_def mem_db_def lossy_db_def)

lemma write_commit_db: "write_commit (D\<lparr>db_commit := f\<rparr>) = write_commit D"
  by (simp add: fun_eq_iff write_commit_def create_op_row_def [abs_def] create_event_row_def [abs_def]
      create_transcript_row_def [abs_def])

lemma stage_commit_db: "stage_commit X (D\<lparr>db_commit := f\<rparr>) m q p tx = stage_commit X D m q p tx"
  unfolding stage_commit_def known_action_def write_commit_db by (simp cong: option.case_cong sum.case_cong if_cong)

lemma load_head_db: "load_head X (D\<lparr>db_commit := f\<rparr>) = load_head X D"
  by (simp add: fun_eq_iff load_head_def)

lemma stage_commit_answers: "stage_commit X D m q p tx \<noteq> Inr (Inl (CommitDone out))"
  by (auto simp: stage_commit_def known_action_def rbind_Inr_iff split: sum.splits option.splits driver_error.splits if_splits)

text \<open>What would have been a commit, when the database reports a failure.\<close>

lemma store_commit_lossy:
  assumes "store_commit X mem_db q s = (Inr (CommitDone out), s')" and "mem_heads (ss_db s) \<noteq> []"
  shows "store_commit X lossy_db q s = (Inl (Backend ''commit durable transaction''), s\<lparr>ss_db := ss_db s'\<rparr>)"
proof -
  have "db_begin lossy_db = db_begin mem_db" "db_commit lossy_db (ss_db s) tx = (Some DriverFailure, tx)"
    "db_commit mem_db d tx = (None, tx)" for d tx
    using assms(2) by (simp_all add: lossy_db_def mem_db_def)
  with assms(1) show ?thesis
    unfolding lossy_db_def stage_commit_db store_commit_def Let_def
    by (auto simp: rbind_Inr_iff stage_commit_answers split: sum.splits)
qed

section \<open>A save\<close>

definition demo_manifest :: save_manifest where
  "demo_manifest = \<lparr>sm_format_version = 1, sm_save_id = RuntimeId uuid_7, sm_world_id = RuntimeId uuid_7b,
     sm_world_lock = \<lparr>wl_world_id = ModId ''a.b'', wl_version = ''1'', wl_content_hash = ContentHash ''h'',
       wl_manifest_schema = 1, wl_content_schema = 1\<rparr>, sm_mod_lock = []\<rparr>"

definition demo_state_record :: world_state_record where
  "demo_state_record = \<lparr>ws_id = RuntimeId uuid_7b, ws_player_actor = ActorId (RuntimeId uuid_7b),
     ws_active_scene = RuntimeId uuid_7, ws_clock = WorldTime 0, ws_rng_seed = []\<rparr>"

definition demo_state_json :: json where
  "demo_state_json = JObject [(''clock'', JNumber 0)]"

definition demo_state_envelope :: record_envelope where
  "demo_state_envelope = \<lparr>re_record_type = RecordType ''world_state'', re_schema_version = SchemaVersion 1,
     re_record_id = RecordId (runtime_id_to_string hex_uuid_lib WLD (RuntimeId uuid_7b :: world_id)),
     re_revision = Revision 0, re_payload = demo_state_json, re_provenance = None\<rparr>"

definition demo_goal_op :: versioned_record_op where
  "demo_goal_op = \<lparr>op_revision = Revision 1, op_action_id = RuntimeId uuid_7, op_order = 0,
     op_mutation = Upsert (sample_envelope\<lparr>re_revision := Revision 1\<rparr>)\<rparr>"

definition goal_command :: world_command where
  "goal_command = \<lparr>wc_action_id = RuntimeId uuid_7, wc_actor_id = ActorId (RuntimeId uuid_7b),
     wc_expected_revision = Revision 0, wc_kind = AdvanceTime 1\<rparr>"

definition goal_outcome :: committed_action where
  "goal_outcome = \<lparr>ca_action_id = RuntimeId uuid_7, ca_revision = Revision 1, ca_event_ids = [],
     ca_safe_summary = BoundedText ''goal noted''\<rparr>"

definition goal_request :: commit_request where
  "goal_request = \<lparr>cr_command = goal_command, cr_record_ops = [demo_goal_op], cr_events = [],
     cr_transcripts = [], cr_safe_outcome = goal_outcome\<rparr>"

definition demo_store_lib :: store_lib where
  "demo_store_lib = \<lparr>sto_uuid = hex_uuid_lib,
     sto_serde = sample_serde\<lparr>sl_world_state := table_codec [(demo_state_record, demo_state_json)]\<rparr>,
     sto_manifest = table_codec [(demo_manifest, JNull)],
     sto_envelopes = table_codec [([demo_state_envelope], JNull)],
     sto_operation = table_codec [(demo_goal_op, JNull)],
     sto_event = table_codec [], sto_command = table_codec [(goal_command, JNull)],
     sto_outcome = table_codec [(goal_outcome, JNull)],
     sto_object = JObject, sto_number = (\<lambda>n. JNumber (unat n)), sto_value_bytes = (\<lambda>_. Inr []),
     sto_command_bytes = (\<lambda>_. Inr []), sto_sha256 = (\<lambda>bs. replicate 32 (of_nat (length bs)))\<rparr>"

lemma demo_store_lib_ok: "store_lib_ok demo_store_lib"
  using sample_serde_ok
  by (simp add: store_lib_ok_def demo_store_lib_def hex_uuid_lib_ok table_codec_ok serde_lib_ok_def)

lemma demo_store_serialize [simp]:
  "sto_uuid demo_store_lib = hex_uuid_lib"
  "serialize (sto_manifest demo_store_lib) demo_manifest = Inr JNull"
  "serialize (sto_envelopes demo_store_lib) [demo_state_envelope] = Inr JNull"
  "serialize (sto_operation demo_store_lib) demo_goal_op = Inr JNull"
  "serialize (sto_command demo_store_lib) goal_command = Inr JNull"
  "serialize (sto_outcome demo_store_lib) goal_outcome = Inr JNull"
  by (simp_all add: demo_store_lib_def table_codec_def)

lemma demo_checksum [simp]:
  "checksum_json demo_store_lib separator v = Inr (digest demo_store_lib separator [])"
  "request_digest demo_store_lib c = Inr (digest demo_store_lib COMMAND_DIGEST_DOMAIN [])"
  by (simp_all add: checksum_json_def request_digest_def demo_store_lib_def)

section \<open>Creating and committing\<close>

lemma hex_prefixed_id:
  assumes "list_all is_ascii_lowercase prefix" and "length prefix = 3"
  shows "is_ok (record_id_parse (runtime_id_to_string hex_uuid_lib prefix i))"
proof -
  have "record_id_byte c \<and> byte c < 128" if "c \<in> set (runtime_id_to_string hex_uuid_lib prefix i)" for c
  proof -
    have "c \<in> set prefix \<or> c \<in> set ''_-'' \<or> is_ascii_lowercase c \<or> is_ascii_digit c"
      using that hyphenate_chars [of c 32 "unat (as_uuid i)"]
      by (auto simp: runtime_id_to_string_def hex_uuid_lib_def)
    with assms(1) have "c \<in> set ''_-'' \<or> is_ascii_lowercase c \<or> is_ascii_digit c"
      by (auto simp: list_all_iff)
    moreover have "list_all (\<lambda>c. record_id_byte c \<and> byte c < 128) ''_-''"
      by code_simp
    ultimately show ?thesis
      by (auto simp: record_id_byte_def is_ascii_lowercase_def is_ascii_digit_def list_all_iff)
  qed
  then show ?thesis
    using assms(2) by (simp add: record_id_parse_def list_all_iff is_ascii_def Let_def)
      (simp add: runtime_id_to_string_def hex_uuid_lib_def hyphenate_length)
qed

lemma demo_world_key: "is_ok (record_id_parse (runtime_id_to_string hex_uuid_lib WLD (RuntimeId uuid_7b :: world_id)))"
  by (rule hex_prefixed_id) (simp_all add: WLD_def is_ascii_lowercase_def byte_def)

lemma demo_state_to_envelope:
  "to_envelope hex_uuid_lib (sto_serde demo_store_lib) (WorldStateRec demo_state_record) (Revision 0) None
    = Inr demo_state_envelope"
  using demo_world_key
  unfolding to_envelope_Inr_iff
  by (simp add: demo_store_lib_def sample_serde_def table_codec_def encode_def demo_state_envelope_def SCHEMA_V1_def
        validate_payload_def demo_state_json_def key_Inr_iff demo_state_record_def)

lemma demo_manifest_valid: "save_manifest_validate demo_manifest = Inr ()"
  by (simp add: save_manifest_validate_def demo_manifest_def SAVE_FORMAT_V1_def world_lock_validate_def
      mod_lock_validate_def mod_positions_def)

definition demo_head :: "i64 \<Rightarrow> save_head_row" where
  "demo_head n = \<lparr>sh_save_id = store_save_id demo_store_lib demo_manifest, sh_revision = n, sh_manifest = JNull,
     sh_checksum = digest demo_store_lib HEAD_CHECKSUM_DOMAIN []\<rparr>"

definition demo_checkpoint :: checkpoint_row where
  "demo_checkpoint = \<lparr>cp_id = checkpoint_row_id (Revision 0), cp_save_id = store_save_id demo_store_lib demo_manifest,
     cp_revision = 0, cp_records = JNull, cp_checksum = digest demo_store_lib CHECKPOINT_CHECKSUM_DOMAIN []\<rparr>"

definition demo_save :: "mem save_store" where
  "demo_save = \<lparr>ss_db = \<lparr>mem_heads = [demo_head 0], mem_checkpoints = [demo_checkpoint], mem_ops = [], mem_events = [],
       mem_transcripts = [], mem_actions = []\<rparr>,
     ss_manifest = demo_manifest, ss_revision = Revision 0\<rparr>"

lemma demo_create:
  "store_create demo_store_lib mem_db False demo_manifest [WorldStateRec demo_state_record] = Inr demo_save"
proof -
  have "checkpoint_records demo_store_lib [WorldStateRec demo_state_record] (Revision 0)
      = Inr ([demo_state_envelope], [])"
    using demo_state_to_envelope to_envelope_key [OF demo_state_to_envelope]
    by (simp add: checkpoint_records_def checkpoint_envelope_def upserted_transcripts_def List.map_filter_def)
  moreover have "validate_world_identity demo_manifest [WorldStateRec demo_state_record] = Inr ()"
    by (simp add: validate_world_identity_def List.map_filter_def demo_state_record_def demo_manifest_def)
  ultimately show ?thesis
    by (simp add: store_create_def Let_def demo_manifest_valid to_json_def checkpoint_checksum_def
        head_checksum_def prepare_transcripts_def open_database_def mem_db_def backend_def mem_table_def
        commit_tx_def demo_save_def demo_head_def demo_checkpoint_def)
qed

lemma demo_request_valid: "request_validate hex_uuid_lib goal_request = Inr ()"
  by (simp add: request_validate_Inr_iff goal_request_def goal_command_def goal_outcome_def
      demo_goal_op_def revision_next_def checked_add_def validate_record_op_def)

lemma demo_commit: "\<exists>s'. store_commit demo_store_lib mem_db goal_request demo_save = (Inr (CommitDone goal_outcome), s')"
proof -
  have outcome: "ca_revision goal_outcome = Revision 1"
    by (simp add: goal_outcome_def)
  have save_id: "sh_save_id (demo_head 0) = store_save_id demo_store_lib demo_manifest"
    by (simp add: demo_head_def)
  have request: "cr_command goal_request = goal_command" "cr_record_ops goal_request = [demo_goal_op]"
    "cr_events goal_request = []" "cr_transcripts goal_request = []" "cr_safe_outcome goal_request = goal_outcome"
    "wc_expected_revision goal_command = Revision 0"
    by (simp_all add: goal_request_def goal_command_def)
  have "\<exists>p. prepared_commit_new demo_store_lib demo_manifest goal_request = Inr p
      \<and> pc_save_id p = store_save_id demo_store_lib demo_manifest
      \<and> pc_events p = [] \<and> pc_transcripts p = [] \<and> (\<exists>row. pc_record_ops p = [row])"
    by (simp add: prepared_commit_new_def request outcome revision_to_i64_def to_json_def
        action_checksum_def head_checksum_def prepare_record_op_def record_op_checksum_def
        record_op_checksum_parts_def prepare_transcripts_def store_save_id_def Let_def)
  then obtain p row where p: "prepared_commit_new demo_store_lib demo_manifest goal_request = Inr p"
    and parts: "pc_save_id p = store_save_id demo_store_lib demo_manifest" "pc_events p = []"
      "pc_transcripts p = []" "pc_record_ops p = [row]"
    by blast
  have head: "validate_head_row demo_store_lib (demo_head 0) = Inr (demo_manifest, Revision 0)"
    using demo_store_lib_ok demo_manifest_valid
    by (intro head_row_valid) (simp_all add: head_row_def demo_head_def revision_to_i64_def head_checksum_def)
  with p parts demo_request_valid show ?thesis
    by (simp add: store_commit_def demo_save_def mem_db_def mem_table_def backend_def stage_commit_def
        known_action_def Let_def save_id request write_commit_def create_op_row_def)
qed

lemma demo_head_id: "sh_save_id (demo_head n) = store_save_id demo_store_lib demo_manifest"
  by (simp add: demo_head_def)

text \<open>The same request once more: the database in memory answers every read.\<close>

lemma demo_prepared: "is_ok (prepared_commit_new demo_store_lib demo_manifest goal_request)"
proof -
  have outcome: "ca_revision goal_outcome = Revision 1"
    by (simp add: goal_outcome_def)
  have request: "cr_command goal_request = goal_command" "cr_record_ops goal_request = [demo_goal_op]"
    "cr_events goal_request = []" "cr_transcripts goal_request = []" "cr_safe_outcome goal_request = goal_outcome"
    by (simp_all add: goal_request_def)
  show ?thesis
    by (simp add: prepared_commit_new_def request outcome revision_to_i64_def to_json_def
        action_checksum_def head_checksum_def prepare_record_op_def record_op_checksum_def
        record_op_checksum_parts_def prepare_transcripts_def Let_def is_ok_def)
qed

lemma mem_get: "tb_get (db_actions mem_db) d i = (case tv_actions (mem_tables d) i of
    None \<Rightarrow> Inl RecordNotFound | Some r \<Rightarrow> Inr r)"
  by (simp add: mem_db_def mem_table_def mem_tables_def rows_map_find)

lemma demo_replay:
  "rebuild_records (Revision 0) [demo_state_envelope] [] = Inr (Revision 0, [(envelope_key demo_state_envelope, demo_state_envelope)])"
  by (simp add: rebuild_records_def load_checkpoint_def checkpoint_insert_def demo_state_envelope_def
      less_revision_def bt_contains_def bt_insert_def bt_remove_def)

lemma demo_replay_save:
  "replay_save demo_store_lib demo_manifest [] [] (Revision 0, [demo_state_envelope])
    = Inr \<lparr>ld_manifest = demo_manifest, ld_revision = Revision 0, ld_records = [WorldStateRec demo_state_record],
        ld_events = [], ld_transcripts = []\<rparr>"
proof -
  have "serde_lib_ok (sto_serde demo_store_lib)"
    using demo_store_lib_ok by (simp add: store_lib_ok_def)
  from to_from_envelope [OF this demo_state_to_envelope]
  have "decode_domain_records hex_uuid_lib (sto_serde demo_store_lib)
      [(envelope_key demo_state_envelope, demo_state_envelope)]
    = Inr [(envelope_key demo_state_envelope, WorldStateRec demo_state_record)]"
    by (simp add: decode_domain_records_def)
  moreover have "validate_world_identity demo_manifest [WorldStateRec demo_state_record] = Inr ()"
    by (simp add: validate_world_identity_def List.map_filter_def demo_state_record_def demo_manifest_def)
  moreover have "validate_transcript_projection [WorldStateRec demo_state_record] [] = Inr ()"
    by (simp add: validate_transcript_projection_def upserted_transcripts_def List.map_filter_def bt_of_list_def)
  ultimately show ?thesis
    by (simp add: replay_save_def demo_replay log_ops_def log_events_def log_transcripts_def latest_transcripts_def
        head_revision_def bt_values_def bt_of_list_def)
qed

end
