(* ===== verification/Store_Properties.thy ===== *)
theory Store_Properties
  imports Store_Example
begin

text \<open>
  The properties of the save store, over the log of committed requests that its tables hold.
\<close>

section \<open>Actions of a log\<close>

lemma log_action_unique:
  assumes X: "store_lib_ok X" and s: "save_holds X v m cps initial log"
    and e: "(q, p) \<in> set log" and e': "(q', p') \<in> set log"
    and same: "wc_action_id (cr_command q') = wc_action_id (cr_command q)"
  shows "(q', p') = (q, p)"
proof -
  have log: "log_ok X (sm_save_id m) log" and "distinct (map (ac_id \<circ> (\<lambda>(_, p). action_row_of p)) log)"
    using s by (simp_all add: save_holds_def holds_def)
  then have inj: "inj_on (ac_id \<circ> (\<lambda>(_, p). action_row_of p)) (set log)"
    by (simp add: distinct_map)
  have "ac_id (action_row_of p') = ac_id (action_row_of p)"
    using logged_okD(4) [OF log_entry_le(1) [OF log e]] logged_okD(4) [OF log_entry_le(1) [OF log e']] same
    by (simp add: action_row_of_def)
  with inj_onD [OF inj _ e' e] show ?thesis
    by simp
qed

lemma log_action_row:
  assumes X: "store_lib_ok X" and s: "save_holds X v m cps initial log" and e: "(q, p) \<in> set log"
  shows "tv_actions v (runtime_id_to_string (sto_uuid X) ACT (wc_action_id (cr_command q))) = Some (action_row_of p)"
proof -
  have log: "log_ok X (sm_save_id m) log" and rows: "holds ac_id (tv_actions v) (map (\<lambda>(_, p). action_row_of p) log)"
    using s by (simp_all add: save_holds_def)
  have "action_row_of p \<in> set (map (\<lambda>(_, p). action_row_of p) log)"
    using e by force
  with logged_okD(4) [OF log_entry_le(1) [OF log e]] show ?thesis
    by (simp add: holds_get [OF rows] action_row_of_def)
qed

lemma no_action_row:
  assumes X: "store_lib_ok X" and s: "save_holds X v m cps initial log"
    and none: "\<forall>(q, _)\<in>set log. wc_action_id (cr_command q) \<noteq> i"
  shows "tv_actions v (runtime_id_to_string (sto_uuid X) ACT i) = None"
proof (rule ccontr)
  assume "tv_actions v (runtime_id_to_string (sto_uuid X) ACT i) \<noteq> None"
  then obtain row where row: "tv_actions v (runtime_id_to_string (sto_uuid X) ACT i) = Some row"
    by blast
  have L: "uuid_lib_ok (sto_uuid X)"
    using X by (simp add: store_lib_ok_def)
  have log: "log_ok X (sm_save_id m) log" and rows: "holds ac_id (tv_actions v) (map (\<lambda>(_, p). action_row_of p) log)"
    using s by (simp_all add: save_holds_def)
  from row obtain q p where e: "(q, p) \<in> set log" "row = action_row_of p"
    and "ac_id row = runtime_id_to_string (sto_uuid X) ACT i"
    by (auto simp: holds_get [OF rows])
  then have "wc_action_id (cr_command q) = i"
    using logged_okD(4) [OF log_entry_le(1) [OF log e(1)]]
    by (simp add: action_row_of_def runtime_id_text_inject [OF L])
  with none e show False by auto
qed

lemma stage_commit_known:
  assumes X: "store_lib_ok X" and D: "db_ok D V" and s: "save_holds X (V tx) m cps initial log"
    and e: "logged_ok X (sm_save_id m) (q, p)" and run: "stage_commit X D m q p tx = Inr staged"
    and old: "(q', p') \<in> set log" "wc_action_id (cr_command q') = wc_action_id (cr_command q)"
  shows "staged = Inl (if request_digest X (cr_command q') = request_digest X (cr_command q)
         then AlreadyCommitted (cr_safe_outcome q')
         else ActionIdentityConflict (wc_action_id (cr_command q)))"
proof -
  have log: "log_ok X (sm_save_id m) log"
    using s by (simp add: save_holds_def)
  obtain known where known: "known_action X D m q p tx = Inr known"
    using run by (cases "known_action X D m q p tx") (auto simp: stage_commit_def)
  have rest: "staged = Inl answer" if "known = Some answer" for answer
    using run known that by (simp add: stage_commit_def)
  from known_action_Inr [OF X D s e known] old obtain r q1 p1 where r: "known = Some r" "(q1, p1) \<in> set log"
    "wc_action_id (cr_command q1) = wc_action_id (cr_command q)"
    "r = (if pc_request_digest p1 = pc_request_digest p then AlreadyCommitted (cr_safe_outcome q1)
        else ActionIdentityConflict (wc_action_id (cr_command q)))"
    by (cases known) auto
  have "(q1, p1) = (q', p')"
    using r(3) old by (intro log_action_unique [OF X s old(1) r(2)]) simp
  with r rest logged_okD(6) [OF e] logged_okD(6) [OF log_entry_le(1) [OF log old(1)]] show ?thesis
    by auto
qed

section \<open>Creating and opening\<close>

text \<open>C18. A save that is created holds its manifest, one checkpoint with the initial records, and an
  empty log; it is created only where no save is, with a valid manifest and the world it names.\<close>

theorem created_save_is_an_empty_log:
  assumes "store_lib_ok X" and "db_ok D V" and "store_create X D b m records = Inr s"
  shows "\<not> b \<and> ss_manifest s = m \<and> ss_revision s = Revision 0
    \<and> validate_world_identity m records = Inr ()
    \<and> (\<exists>envelopes row initial. checkpoint_records X records (Revision 0)
          = Inr (envelopes, upserted_transcripts records)
        \<and> checkpoint_row_ok X (sm_save_id m) (Revision 0) envelopes row
        \<and> save_holds X (V (ss_db s)) m [row] initial [])"
  using store_create_holds [OF assms] by blast

theorem created_save_is_an_empty_log_witness:
  "\<exists>row initial. store_create demo_store_lib mem_db False demo_manifest [WorldStateRec demo_state_record] = Inr demo_save
    \<and> save_holds demo_store_lib (mem_tables (ss_db demo_save)) demo_manifest [row] initial []"
  using created_save_is_an_empty_log [OF demo_store_lib_ok mem_db_ok demo_create] demo_create by blast

text \<open>C21. Opening a save finds its manifest and the revision of its log, and changes nothing.\<close>

theorem opened_save_is_at_its_head:
  assumes "store_lib_ok X" and "db_ok D V" and "save_holds X (V d) m cps initial log"
    and "store_open X D disk = Inr s" and "disk = Some d"
  shows "ss_manifest s = m \<and> ss_revision s = head_revision log \<and> V (ss_db s) = V d"
  using assms from_driver_holds [OF assms(1-3)] by (simp add: store_open_def)

lemma demo_head_valid: "validate_head_row demo_store_lib (demo_head 0) = Inr (demo_manifest, Revision 0)"
  using demo_store_lib_ok demo_manifest_valid
  by (intro head_row_valid) (simp_all add: head_row_def demo_head_def revision_to_i64_def head_checksum_def)

lemma demo_holds:
  "\<exists>row initial. checkpoint_row_ok demo_store_lib (sm_save_id demo_manifest) (Revision 0) [demo_state_envelope] row
    \<and> prepare_transcripts demo_store_lib (store_save_id demo_store_lib demo_manifest) (Revision 0) [] True = Inr initial
    \<and> save_holds demo_store_lib (mem_tables (ss_db demo_save)) demo_manifest [row] initial []"
proof -
  have "checkpoint_records demo_store_lib [WorldStateRec demo_state_record] (Revision 0)
      = Inr ([demo_state_envelope], [])"
    using demo_state_to_envelope to_envelope_key [OF demo_state_to_envelope]
    by (simp add: checkpoint_records_def checkpoint_envelope_def upserted_transcripts_def List.map_filter_def)
  moreover have "upserted_transcripts [WorldStateRec demo_state_record] = []"
    by (simp add: upserted_transcripts_def List.map_filter_def)
  ultimately show ?thesis
    using store_create_holds [OF demo_store_lib_ok mem_db_ok demo_create] by auto
qed

theorem opened_save_is_at_its_head_witness:
  "\<exists>s. store_open demo_store_lib mem_db (Some (ss_db demo_save)) = Inr s \<and> ss_revision s = Revision 0"
proof -
  have run: "store_open demo_store_lib mem_db (Some (ss_db demo_save)) = Inr demo_save"
    by (simp add: store_open_def from_driver_def open_database_def mem_db_def backend_def load_single_head_def
        mem_table_def demo_save_def demo_head_valid)
  obtain row initial where "save_holds demo_store_lib (mem_tables (ss_db demo_save)) demo_manifest [row] initial []"
    using demo_holds by blast
  from opened_save_is_at_its_head [OF demo_store_lib_ok mem_db_ok this run refl] run show ?thesis
    by (simp add: head_revision_def)
qed

section \<open>Committing\<close>

text \<open>C4. What a commit leaves is one of four things. It appends exactly its request to the log, which
  was at the revision the command expected and had no such action, and says that it did. Or it leaves
  every table as it was and its answer says why: the outcome of the same command committed before,
  another command under the same action, the revision the log is at, or an error. Or the database
  reports a failure other than a serialization failure, the answer is that error, and the request is
  in the log all the same. Or the database reports a serialization failure: then the log holds what
  other connections committed, and the answer is the revision the log is at now, or an error.\<close>

theorem commit_outcomes_exact:
  assumes "store_lib_ok X" and "db_ok D V" and "others_commit X D V"
    and "save_holds X (V (ss_db s)) (ss_manifest s) cps initial log"
    and "store_commit X D q s = (res, s')"
  shows "ss_manifest s' = ss_manifest s
    \<and> (res = Inr (CommitDone (cr_safe_outcome q)) \<and> ss_revision s' = ca_revision (cr_safe_outcome q)
          \<and> appends X V (ss_manifest s) cps initial log q (ss_db s')
      \<or> commit_answer X log q res \<and> V (ss_db s') = V (ss_db s)
      \<or> (\<exists>e. commit_failed D s e s' \<and> e \<noteq> SerializationFailure)
          \<and> res = Inl (Backend ''commit durable transaction'')
          \<and> appends X V (ss_manifest s) cps initial log q (ss_db s')
      \<or> commit_failed D s SerializationFailure s'
          \<and> (\<exists>more. save_holds X (V (ss_db s')) (ss_manifest s) cps initial (log @ more)
             \<and> ((\<exists>e. res = Inl e)
                \<or> res = Inr (CommitConflict (wc_expected_revision (cr_command q)) (head_revision (log @ more)))
                  \<and> ss_revision s' = head_revision (log @ more))))"
  by (rule store_commit_holds [OF assms])

lemma mem_load_head:
  assumes "store_lib_ok X" and "save_holds X (mem_tables d) m cps initial log"
  shows "load_head X mem_db d (store_save_id X m) = Inr (m, head_revision log)"
proof -
  from assms(2) obtain h where heads: "holds sh_save_id (tv_heads (mem_tables d)) [h]"
    and h: "head_row X m (head_revision log) h"
    by (auto simp: save_holds_def)
  have "sh_save_id h = store_save_id X m"
    using h by (simp add: head_row_def)
  then have "tv_heads (mem_tables d) (store_save_id X m) = Some h"
    using holds_get [OF heads] by simp
  then have "tb_get (db_heads mem_db) d (store_save_id X m) = Inr h"
    by (simp add: mem_db_def mem_table_def mem_tables_def rows_map_find)
  with head_row_valid [OF assms(1) h] show ?thesis
    by (simp add: load_head_def backend_def)
qed

text \<open>For the witness: a database where another connection commits the request first.\<close>

definition rival_db :: "mem db_lib" where
  "rival_db = mem_db\<lparr>db_commit := (\<lambda>d tx. (Some SerializationFailure,
     if d = ss_db demo_save then ss_db (snd (store_commit demo_store_lib mem_db goal_request demo_save)) else d))\<rparr>"

lemma rival_db_ok: "db_ok rival_db mem_tables"
  using mem_db_ok by (simp add: db_ok_def rival_db_def)

lemma demo_manifest_unique:
  assumes "save_holds demo_store_lib (mem_tables (ss_db demo_save)) m cps initial log"
  shows "m = demo_manifest"
proof -
  from assms obtain h where heads: "holds sh_save_id (tv_heads (mem_tables (ss_db demo_save))) [h]"
    and h: "head_row demo_store_lib m (head_revision log) h"
    by (auto simp: save_holds_def)
  have "tv_heads (mem_tables (ss_db demo_save)) (sh_save_id (demo_head 0)) = Some (demo_head 0)"
    by (simp add: mem_tables_def demo_save_def rows_map_def)
  with holds_get [OF heads] have "h = demo_head 0"
    by simp
  with head_row_valid [OF demo_store_lib_ok h] demo_head_valid show ?thesis
    by simp
qed

lemma rival_others_commit: "others_commit demo_store_lib rival_db mem_tables"
  unfolding others_commit_def
proof (intro allI impI)
  fix d tx d' m cps initial log
  assume run: "db_commit rival_db d tx = (Some SerializationFailure, d')
    \<and> save_holds demo_store_lib (mem_tables d) m cps initial log"
  obtain s' where commit: "store_commit demo_store_lib mem_db goal_request demo_save = (Inr (CommitDone goal_outcome), s')"
    using demo_commit by blast
  show "others_append demo_store_lib mem_tables m d d'"
  proof (cases "d = ss_db demo_save")
    case True
    with run have h: "save_holds demo_store_lib (mem_tables (ss_db demo_save)) m cps initial log"
      by simp
    then have "m = ss_manifest demo_save"
      using demo_manifest_unique [OF h] by (simp add: demo_save_def)
    moreover have "d' = ss_db s'" and "\<not> commit_failed mem_db demo_save SerializationFailure s'"
      using run True commit by (simp_all add: rival_db_def commit_failed_def mem_db_def)
    ultimately show ?thesis
      using others_one [OF others_none _ mem_db_ok commit] True by simp
  next
    case False
    then have "d' = d"
      using run by (simp add: rival_db_def)
    then show ?thesis
      by (simp add: others_none)
  qed
qed

lemma store_commit_rival:
  assumes "store_commit demo_store_lib mem_db goal_request demo_save = (Inr (CommitDone out), s')"
  shows "\<exists>s''. ss_db s'' = ss_db s' \<and> store_commit demo_store_lib rival_db goal_request demo_save =
    (case load_head demo_store_lib mem_db (ss_db s') (store_save_id demo_store_lib demo_manifest) of
       Inl e \<Rightarrow> Inl e
     | Inr (_, actual) \<Rightarrow> Inr (CommitConflict (wc_expected_revision (cr_command goal_request)) actual), s'')"
proof -
  have "db_begin rival_db = db_begin mem_db" "db_commit rival_db (ss_db demo_save) tx = (Some SerializationFailure, ss_db s')"
    "db_commit mem_db d tx = (None, tx)" for d tx
    using assms by (simp_all add: rival_db_def) (simp add: mem_db_def)
  moreover have "ss_manifest demo_save = demo_manifest"
    by (simp add: demo_save_def)
  ultimately show ?thesis
    using assms unfolding rival_db_def stage_commit_db load_head_db store_commit_def Let_def
    by (auto simp: rbind_Inr_iff stage_commit_answers split: sum.splits)
qed

text \<open>The request committed, committed behind a connection that breaks, and overtaken by another one.\<close>

theorem commit_outcomes_exact_witness:
  "\<exists>row initial s s' s'' p more.
     store_commit demo_store_lib mem_db goal_request demo_save = (Inr (CommitDone goal_outcome), s)
   \<and> save_holds demo_store_lib (mem_tables (ss_db s)) demo_manifest [row] initial [(goal_request, p)]
   \<and> store_commit demo_store_lib lossy_db goal_request demo_save = (Inl (Backend ''commit durable transaction''), s')
   \<and> save_holds demo_store_lib (mem_tables (ss_db s')) demo_manifest [row] initial [(goal_request, p)]
   \<and> store_commit demo_store_lib rival_db goal_request demo_save
       = (Inr (CommitConflict (Revision 0) (head_revision more)), s'')
   \<and> save_holds demo_store_lib (mem_tables (ss_db s'')) demo_manifest [row] initial more"
proof -
  obtain s where run: "store_commit demo_store_lib mem_db goal_request demo_save = (Inr (CommitDone goal_outcome), s)"
    using demo_commit by blast
  obtain row initial where "save_holds demo_store_lib (mem_tables (ss_db demo_save)) demo_manifest [row] initial []"
    using demo_holds by blast
  then have h: "save_holds demo_store_lib (mem_tables (ss_db demo_save)) (ss_manifest demo_save) [row] initial []"
    by (simp add: demo_save_def)
  have m: "ss_manifest demo_save = demo_manifest"
    by (simp add: demo_save_def)
  have revision: "wc_expected_revision (cr_command goal_request) = Revision 0" and fresh: "head_revision [] = Revision 0"
    by (simp_all add: goal_request_def goal_command_def head_revision_def)
  from commit_outcomes_exact [OF demo_store_lib_ok mem_db_ok mem_others_commit(1) h run]
  have "appends demo_store_lib mem_tables demo_manifest [row] initial [] goal_request (ss_db s)"
    by (auto simp: commit_answer_def m)
  then obtain p where held: "save_holds demo_store_lib (mem_tables (ss_db s)) demo_manifest [row] initial [(goal_request, p)]"
    by (auto simp: appends_def)
  let ?s' = "demo_save\<lparr>ss_db := ss_db s\<rparr>"
  have "mem_heads (ss_db demo_save) \<noteq> []"
    by (simp add: demo_save_def)
  note lossy = store_commit_lossy [OF run this]
  from store_commit_rival [OF run] mem_load_head [OF demo_store_lib_ok held] obtain s'' where
    db: "ss_db s'' = ss_db s" and rival: "store_commit demo_store_lib rival_db goal_request demo_save
      = (Inr (CommitConflict (Revision 0) (head_revision [(goal_request, p)])), s'')"
    by (auto simp: revision)
  have moved: "head_revision [(goal_request, p)] \<noteq> Revision 0"
    by (simp add: head_revision_def revision_add_def)
  from commit_outcomes_exact [OF demo_store_lib_ok rival_db_ok rival_others_commit h rival] moved
  obtain more where "save_holds demo_store_lib (mem_tables (ss_db s'')) demo_manifest [row] initial more"
    and "head_revision more = head_revision [(goal_request, p)]"
    by (auto simp: commit_answer_def m fresh)
  moreover have "Inl (Backend ''commit durable transaction'') \<noteq> (Inr (CommitDone (cr_safe_outcome goal_request)) :: store_error + commit_result)"
    by simp
  ultimately show ?thesis
    using run held lossy rival by (intro exI [of _ row] exI [of _ initial] exI [of _ s] exI [of _ ?s'] exI [of _ s''] exI [of _ p] exI [of _ more]) simp
qed


lemma demo_commit_again:
  assumes h: "save_holds demo_store_lib (mem_tables (ss_db s)) (ss_manifest s) cps initial [(goal_request, p)]"
    and m: "ss_manifest s = demo_manifest"
  shows "is_ok (fst (store_commit demo_store_lib mem_db goal_request s))"
proof -
  from demo_prepared obtain p0 where p0: "prepared_commit_new demo_store_lib demo_manifest goal_request = Inr p0"
    by (auto simp: is_ok_iff)
  have e: "logged_ok demo_store_lib (sm_save_id demo_manifest) (goal_request, p)"
    using h by (simp add: save_holds_def log_ok_def m)
  have e0: "logged_ok demo_store_lib (sm_save_id demo_manifest) (goal_request, p0)"
    using demo_request_valid p0 by (auto simp: logged_ok_def)
  have "tv_actions (mem_tables (ss_db s)) (pc_action_id p0) = Some (action_row_of p)"
    using log_action_row [OF demo_store_lib_ok h, of goal_request p] logged_okD(4) [OF e0] by simp
  then have "tb_get (db_actions mem_db) (ss_db s) (pc_action_id p0) = Inr (action_row_of p)"
    by (simp add: mem_get)
  moreover have "validate_action_row demo_store_lib (action_row_of p) (store_save_id demo_store_lib demo_manifest)
      = Inr (cr_safe_outcome goal_request)"
    using action_row_valid [OF demo_store_lib_ok e] by (simp add: store_save_id_def)
  moreover have "db_begin mem_db = Inr" "db_rollback mem_db = (\<lambda>_. Inr ())"
    by (simp_all add: mem_db_def)
  ultimately show ?thesis
    using demo_request_valid p0
    by (simp add: store_commit_def Let_def m stage_commit_def known_action_def backend_def)
qed

text \<open>C14. A committed action is never carried out twice: a commit with the action of a committed
  request answers with the outcome of that request if it is the same command (by digest) and with an
  identity conflict if it is not, or fails; the tables stay as they are.\<close>

theorem committed_action_is_not_repeated:
  assumes "store_lib_ok X" and "db_ok D V"
    and "save_holds X (V (ss_db s)) (ss_manifest s) cps initial log"
    and "(q', p') \<in> set log" and "wc_action_id (cr_command q') = wc_action_id (cr_command q)"
    and "store_commit X D q s = (Inr answer, s')"
  shows "s' = s \<and> answer = (if request_digest X (cr_command q') = request_digest X (cr_command q)
         then AlreadyCommitted (cr_safe_outcome q')
         else ActionIdentityConflict (wc_action_id (cr_command q)))"
proof -
  let ?m = "ss_manifest s"
  define staged where "staged = rbind (request_validate (sto_uuid X) q) (\<lambda>_.
      rbind (prepared_commit_new X ?m q) (\<lambda>p.
      rbind (backend ''begin durable transaction'' (db_begin D (ss_db s))) (\<lambda>tx.
        stage_commit X D ?m q p tx)))"
  note run = assms(6) [unfolded store_commit_def Let_def, folded staged_def]
  from run obtain a where "staged = Inr a"
    by (cases staged) auto
  then obtain p tx where valid: "request_validate (sto_uuid X) q = Inr ()"
    and p: "prepared_commit_new X ?m q = Inr p" and tx: "db_begin D (ss_db s) = Inr tx"
    and stage: "stage_commit X D ?m q p tx = Inr a"
    by (auto simp: staged_def rbind_Inr_iff backend_Inr_iff)
  have e: "logged_ok X (sm_save_id ?m) (q, p)"
    using valid p by (auto simp: logged_ok_def)
  have "V tx = V (ss_db s)"
    using assms(2) tx by (auto simp: db_ok_def)
  with assms(3) have h: "save_holds X (V tx) ?m cps initial log"
    by simp
  from stage_commit_known [OF assms(1,2) h e stage assms(4,5)] run \<open>staged = Inr a\<close> show ?thesis
    by auto
qed

theorem committed_action_is_not_repeated_witness:
  "\<exists>s. store_commit demo_store_lib mem_db goal_request s = (Inr (AlreadyCommitted goal_outcome), s)"
proof -
  obtain s where run: "store_commit demo_store_lib mem_db goal_request demo_save = (Inr (CommitDone goal_outcome), s)"
    using demo_commit by blast
  obtain row initial where h: "save_holds demo_store_lib (mem_tables (ss_db demo_save)) demo_manifest [row] initial []"
    using demo_holds by blast
  have m: "ss_manifest demo_save = demo_manifest"
    by (simp add: demo_save_def)
  have out: "cr_safe_outcome goal_request = goal_outcome"
    by (simp add: goal_request_def)
  from store_commit_holds [OF demo_store_lib_ok mem_db_ok mem_others_commit(1) h [folded m] run] obtain p
    where h': "save_holds demo_store_lib (mem_tables (ss_db s)) (ss_manifest s) [row] initial [(goal_request, p)]"
      and m': "ss_manifest s = demo_manifest"
    by (auto simp: commit_answer_def appends_def m)
  have "is_ok (fst (store_commit demo_store_lib mem_db goal_request s))"
    by (rule demo_commit_again [OF h' m'])
  then obtain answer s' where again: "store_commit demo_store_lib mem_db goal_request s = (Inr answer, s')"
    by (cases "store_commit demo_store_lib mem_db goal_request s") (auto simp: is_ok_iff)
  have "(goal_request, p) \<in> set [(goal_request, p)]"
    by simp
  from committed_action_is_not_repeated [OF demo_store_lib_ok mem_db_ok h' this refl again] again out show ?thesis
    by auto
qed

lemma resolve_action_holds:
  assumes "store_lib_ok X" and "db_ok D V"
    and "save_holds X (V (ss_db s)) (ss_manifest s) cps initial log"
    and "resolve_action X D c s = (Inr answer, s')"
  shows "case answer of
      ResolvedCommitted out \<Rightarrow> \<exists>(q, _)\<in>set log. wc_action_id (cr_command q) = wc_action_id c
        \<and> request_digest X (cr_command q) = request_digest X c \<and> out = cr_safe_outcome q
    | ResolvedIdentityConflict i \<Rightarrow> i = wc_action_id c
        \<and> (\<exists>(q, _)\<in>set log. wc_action_id (cr_command q) = i
             \<and> request_digest X (cr_command q) \<noteq> request_digest X c)
    | NotCommitted r \<Rightarrow> r = head_revision log
        \<and> (\<forall>(q, _)\<in>set log. wc_action_id (cr_command q) \<noteq> wc_action_id c)"
proof -
  let ?i = "runtime_id_to_string (sto_uuid X) ACT (wc_action_id c)"
  have T: "table_ok (db_actions D) V tv_actions tv_actions_update ac_id"
    using assms(2) by (simp add: db_ok_def)
  have log: "log_ok X (sm_save_id (ss_manifest s)) log"
    and rows: "holds ac_id (tv_actions (V (ss_db s))) (map (\<lambda>(_, p). action_row_of p) log)"
    using assms(3) by (simp_all add: save_holds_def)
  from assms(4) obtain d where d: "request_digest X c = Inr d"
    by (auto simp: resolve_action_def split: sum.splits)
  show ?thesis
  proof (cases "tb_get (db_actions D) (ss_db s) ?i")
    case (Inr row)
    from table_get [OF T Inr] obtain q p where qp: "(q, p) \<in> set log" "row = action_row_of p" "ac_id row = ?i"
      by (auto simp: holds_get [OF rows])
    note e = log_entry_le(1) [OF log qp(1)]
    have "wc_action_id (cr_command q) = wc_action_id c"
      using logged_okD(4) [OF e] qp(2,3) assms(1)
      by (simp add: action_row_of_def runtime_id_text_inject store_lib_ok_def)
    then show ?thesis
      using assms(4) d Inr qp action_row_valid [OF assms(1) e] logged_okD(6) [OF e]
      by (fastforce simp: resolve_action_def store_save_id_def action_row_of_def split: if_splits)
  next
    case (Inl err)
    with assms(4) d obtain m r where "err = RecordNotFound" "answer = NotCommitted r"
      and head: "load_head X D (ss_db s) (store_save_id X (ss_manifest s)) = Inr (m, r)"
      by (auto simp: resolve_action_def split: driver_error.splits sum.splits)
    moreover have "r = head_revision log"
      using load_head_holds [OF assms(1-3) head] by simp
    moreover have "wc_action_id (cr_command q) \<noteq> wc_action_id c" if "(q, p) \<in> set log" for q p
      using log_action_row [OF assms(1,3) that] table_get_none [OF T] Inl \<open>err = RecordNotFound\<close> by auto
    ultimately show ?thesis
      by auto
  qed
qed

text \<open>C20. Resolving an action answers exactly what the log says of it: the outcome it was committed
  with, a conflict if it was another command, or that it was not committed and where the head is.\<close>

theorem resolve_action_exact:
  assumes "store_lib_ok X" and "db_ok D V"
    and "save_holds X (V (ss_db s)) (ss_manifest s) cps initial log"
    and "resolve_action X D c s = (Inr answer, s')"
  shows "case answer of
      ResolvedCommitted out \<Rightarrow> \<exists>(q, _)\<in>set log. wc_action_id (cr_command q) = wc_action_id c
        \<and> request_digest X (cr_command q) = request_digest X c \<and> out = cr_safe_outcome q
    | ResolvedIdentityConflict i \<Rightarrow> i = wc_action_id c
        \<and> (\<exists>(q, _)\<in>set log. wc_action_id (cr_command q) = i
             \<and> request_digest X (cr_command q) \<noteq> request_digest X c)
    | NotCommitted r \<Rightarrow> r = head_revision log
        \<and> (\<forall>(q, _)\<in>set log. wc_action_id (cr_command q) \<noteq> wc_action_id c)"
  by (rule resolve_action_holds [OF assms])

theorem resolve_action_exact_witness:
  "resolve_action demo_store_lib mem_db goal_command demo_save = (Inr (NotCommitted (Revision 0)), demo_save)
    \<and> head_revision [] = Revision 0"
proof -
  have run: "resolve_action demo_store_lib mem_db goal_command demo_save = (Inr (NotCommitted (Revision 0)), demo_save)"
    by (simp add: resolve_action_def mem_db_def mem_table_def demo_save_def load_head_def backend_def
        demo_head_valid demo_head_id)
  obtain row initial where h: "save_holds demo_store_lib (mem_tables (ss_db demo_save)) demo_manifest [row] initial []"
    using demo_holds by blast
  have m: "ss_manifest demo_save = demo_manifest"
    by (simp add: demo_save_def)
  from resolve_action_exact [OF demo_store_lib_ok mem_db_ok h [folded m] run] run show ?thesis
    by simp
qed

section \<open>Loading\<close>

text \<open>C6. When the reads succeed and the identifiers of events and transcripts are well formed,
  loading a save is the replay of its newest checkpoint and the operations of the log after it, in
  commit order, with the log's events and latest transcripts, in whatever order the rows are
  returned. No checksum or projection check can fail on what the store itself has written.\<close>

theorem load_replays_the_log:
  assumes "store_lib_ok X" and "db_ok D V"
    and "save_holds X (V (ss_db s)) (ss_manifest s) cps initial log"
    and "prepare_transcripts X (store_save_id X (ss_manifest s)) (Revision 0) first True = Inr initial"
    and "list_all2 (is_checkpoint X (ss_manifest s) (head_revision log)) cps cs" and "cps \<noteq> []"
    and "log_ids_ok X first log" and "readable D V (ss_db s)"
  shows "\<exists>c\<in>set cs. (\<forall>c'\<in>set cs. fst c' \<le> fst c)
    \<and> store_load X D s = (case replay_save X (ss_manifest s) first log c of
          Inl e \<Rightarrow> (Inl e, s) | Inr loaded \<Rightarrow> (Inr loaded, s\<lparr>ss_revision := head_revision log\<rparr>))"
proof -
  from load_from_holds [OF assms] obtain c where c: "c \<in> set cs" "\<forall>c'\<in>set cs. fst c' \<le> fst c"
    and run: "load_from X D (ss_manifest s) (ss_db s) = replay_save X (ss_manifest s) first log c"
    by blast
  have "ld_revision loaded = head_revision log" if "replay_save X (ss_manifest s) first log c = Inr loaded" for loaded
    using that by (auto simp: replay_save_def Let_def integrity_def rbind_Inr_iff split: if_splits)
  with c run show ?thesis
    by (intro bexI [of _ c]) (auto simp: store_load_def split: sum.splits)
qed

theorem load_replays_the_log_witness:
  "\<exists>loaded. fst (store_load demo_store_lib mem_db demo_save) = Inr loaded
    \<and> ld_records loaded = [WorldStateRec demo_state_record]"
proof -
  obtain row initial where row: "checkpoint_row_ok demo_store_lib (sm_save_id demo_manifest) (Revision 0) [demo_state_envelope] row"
    and initial: "prepare_transcripts demo_store_lib (store_save_id demo_store_lib demo_manifest) (Revision 0) [] True = Inr initial"
    and h: "save_holds demo_store_lib (mem_tables (ss_db demo_save)) demo_manifest [row] initial []"
    using demo_holds by blast
  have m: "ss_manifest demo_save = demo_manifest"
    by (simp add: demo_save_def)
  have cs: "list_all2 (is_checkpoint demo_store_lib demo_manifest (head_revision [])) [row] [(Revision 0, [demo_state_envelope])]"
    using row by (simp add: is_checkpoint_def head_revision_def)
  have ids: "log_ids_ok demo_store_lib [] []"
    by (simp add: log_ids_ok_def log_events_def log_transcripts_def)
  have reads: "readable mem_db mem_tables (ss_db demo_save)"
    by (simp add: readable_def mem_db_def mem_table_def demo_save_def mem_tables_def rows_map_def is_ok_def
        split: if_splits)
  have "replay_save demo_store_lib demo_manifest [] [] (Revision 0, [demo_state_envelope])
      = Inr \<lparr>ld_manifest = demo_manifest, ld_revision = Revision 0, ld_records = [WorldStateRec demo_state_record],
          ld_events = [], ld_transcripts = []\<rparr>"
    by (rule demo_replay_save)
  with load_replays_the_log [OF demo_store_lib_ok mem_db_ok h [folded m] initial [folded m] cs [folded m] _ ids reads]
  show ?thesis
    by (auto simp: m)
qed

end
