(* ===== verification/World_History.thy ===== *)
theory World_History
  imports World_Changes
begin

text \<open>
  Runs of commands. \<open>history\<close> is the step relation of a world driven by \<open>execute\<close>: a successful
  command leaves the world it computed, a rejected one the world that was rebuilt. A sound world
  stays sound along every history, and what it stores is the initial view with the change sets
  applied in order.

  A rebuilt world starts from the default session parameters, which the registry has validated
  except for references to objects; \<open>plain_session_defaults\<close> says that no session parameter is one.
\<close>

section \<open>Default session parameters\<close>

definition plain_session_defaults :: "env \<Rightarrow> bool" where
  "plain_session_defaults E \<longleftrightarrow> list_all (\<lambda>(_, e).
     case reg_definition e of
       ParameterDef d \<Rightarrow> pd_persistence d = SessionParameter
         \<longrightarrow> (case pd_value_type d of ObjectRefType _ \<Rightarrow> False | _ \<Rightarrow> True)
     | _ \<Rightarrow> True) (dr_definitions (env_registry E))"

lemma matching_value_valid:
  "parameter_value_matches t v \<Longrightarrow> (\<And>kinds. t \<noteq> ObjectRefType kinds)
    \<Longrightarrow> validate_parameter_value w t v = Inr ()"
  by (cases t; cases v) auto

lemma bs_of_list_cong: "set xs = set ys \<Longrightarrow> bs_of_list xs = bs_of_list ys"
  using bs_ok_of_list [of xs] bs_ok_of_list [of ys]
  by (auto simp: bs_ok_def strict_sorted_iff intro: sorted_distinct_set_unique)

lemma bt_of_list_keys: "set (bt_keys (bt_of_list ps)) = fst ` set ps"
proof -
  have "fst ` set (fold (\<lambda>(k, v). bt_insert k v) ps m) = fst ` set ps \<union> fst ` set m" for m :: "('a, 'b) btree"
    by (induction ps arbitrary: m) (auto simp: bt_insert_def bt_insort_set bt_remove_def image_iff)
  then show ?thesis
    by (simp add: bt_of_list_def bt_keys_def)
qed

lemma session_defaults_in:
  assumes "definitions_ok (dr_definitions (env_registry E))" and "(i, v) \<in> set (session_defaults E)"
  obtains d where "parameter_definition E i = Inr d" and "pd_persistence d = SessionParameter"
    and "v = pd_default d" and "parameter_value_matches (pd_value_type d) v"
    and "\<And>kinds. plain_session_defaults E \<Longrightarrow> pd_value_type d \<noteq> ObjectRefType kinds"
proof -
  from assms(2) obtain k e d where e: "(k, e) \<in> set (dr_definitions (env_registry E))"
    and d: "reg_definition e = ParameterDef d" "pd_persistence d = SessionParameter"
      "i = pd_id d" "v = pd_default d"
    unfolding session_defaults_def
    by (auto simp: List.map_filter_def split: content_definition.splits if_splits
        dest!: bt_of_list_subset [THEN subsetD])
  have "bt_get k (dr_definitions (env_registry E)) = Some e"
    using assms(1) e by (simp add: definitions_ok_def bt_ok_get_iff)
  moreover from definitions_okD [OF assms(1) this] have "entry_ok k e" .
  ultimately have "parameter_definition E i = Inr d" "validate_parameter d = Inr ()"
    using d by (auto simp: entry_ok_def parameter_definition_def definition_of_def registry_get_def
        validate_local_values_def map_err_Inr_iff)
  moreover have "pd_value_type d \<noteq> ObjectRefType kinds" if "plain_session_defaults E" for kinds
    using that e d by (fastforce simp: plain_session_defaults_def list_all_iff)
  ultimately show thesis
    using d by (intro that) (auto simp: validate_parameter_def split: if_splits)
qed

text \<open>Validation reads the session parameters only at its end.\<close>

lemma session_lookup [simp]:
  "component_at (w\<lparr>gw_session := m\<rparr>) = component_at w"
  "get_scene (w\<lparr>gw_session := m\<rparr>) = get_scene w"
  "get_place (w\<lparr>gw_session := m\<rparr>) = get_place w"
  "get_character (w\<lparr>gw_session := m\<rparr>) = get_character w"
  "get_item (w\<lparr>gw_session := m\<rparr>) = get_item w"
  "require_object (w\<lparr>gw_session := m\<rparr>) = require_object w"
  "character (w\<lparr>gw_session := m\<rparr>) = character w"
  "item (w\<lparr>gw_session := m\<rparr>) = item w"
  by (simp_all add: component_at_def get_scene_def get_place_def get_character_def get_item_def
      require_object_def character_def item_def fun_eq_iff)

lemma session_container_chain [simp]:
  "container_chain (w\<lparr>gw_session := m\<rparr>) i seen p = container_chain w i seen p"
  by (induction w i seen p rule: container_chain.induct) simp_all

lemma session_validate_value [simp]:
  "validate_parameter_value (w\<lparr>gw_session := m\<rparr>) = validate_parameter_value w"
  by (intro ext validate_parameter_value_cong) simp

lemma session_component_references [simp]:
  "validate_component_references E (w\<lparr>gw_session := m\<rparr>) acc r = validate_component_references E w acc r"
proof -
  have "validate_place_edge (w\<lparr>gw_session := m\<rparr>) = validate_place_edge w"
    and "validate_saved_value E (w\<lparr>gw_session := m\<rparr>) = validate_saved_value E w"
    by (simp_all add: validate_place_edge_def validate_saved_value_def fun_eq_iff cong: if_cong)
  then show ?thesis
    by (cases r) (simp_all add: validate_place_references_def validate_character_state_def
        validate_item_references_def ensure_no_container_cycle_def validate_condition_state_def
        validate_event_instance_def validate_parameter_set_def cong: if_cong option.case_cong)
qed

lemma session_validators [simp]:
  "validate_entity (w\<lparr>gw_session := m\<rparr>) = validate_entity w"
  "validate_transcript_item (w\<lparr>gw_session := m\<rparr>) = validate_transcript_item w"
  "validate_session_value E (w\<lparr>gw_session := m\<rparr>) = validate_session_value E w"
proof -
  have "validate_scene_component (w\<lparr>gw_session := m\<rparr>) acc r = validate_scene_component w acc r" for acc r
    by (cases acc; cases r) (simp_all cong: if_cong)
  then show "validate_entity (w\<lparr>gw_session := m\<rparr>) = validate_entity w"
    by (simp add: validate_entity_def fun_eq_iff)
qed (simp_all add: validate_transcript_item_def validate_transcript_audience_def
    validate_session_value_def fun_eq_iff cong: if_cong option.case_cong transcript_audience.case_cong)

lemma validate_world_session_update:
  assumes "validate_world E w = Inr ()"
    and "bs_of_list (bt_keys m) = expected_parameters E SessionParameter"
    and "rforeach (validate_session_value E w) m = Inr ()"
  shows "validate_world E (w\<lparr>gw_session := m\<rparr>) = Inr ()"
proof -
  have "validate_component_references E (w\<lparr>gw_session := m\<rparr>) = validate_component_references E w"
    by (simp add: fun_eq_iff)
  with assms show ?thesis
    by (auto simp: validate_world_def validate_references_def rbind_Inr_iff split: if_splits)
qed

lemma default_session_ok:
  assumes "definitions_ok (dr_definitions (env_registry E))" and "plain_session_defaults E"
    and "validate_world E w = Inr ()"
  shows "default_session_ok E w"
  unfolding default_session_ok_def
proof (rule validate_world_session_update [OF assms(3)])
  show "bs_of_list (bt_keys (session_defaults E)) = expected_parameters E SessionParameter"
    unfolding expected_parameters_def
    by (rule bs_of_list_cong)
      (force simp: session_defaults_def bt_of_list_keys List.map_filter_def
        split: content_definition.splits if_splits)
  have "validate_session_value E w (i, v) = Inr ()" if "(i, v) \<in> set (session_defaults E)" for i v
    using assms(1) that
  proof (rule session_defaults_in)
    fix d
    assume "parameter_definition E i = Inr d" "pd_persistence d = SessionParameter"
      "parameter_value_matches (pd_value_type d) v"
      "\<And>kinds. plain_session_defaults E \<Longrightarrow> pd_value_type d \<noteq> ObjectRefType kinds"
    with assms(2) show ?thesis
      by (simp add: validate_session_value_def matching_value_valid)
  qed
  then show "rforeach (validate_session_value E w) (session_defaults E) = Inr ()"
    by (auto simp: rforeach_Inr_iff)
qed

section \<open>One command\<close>

lemma run_cases:
  obtains (diverges) "r = None" | (fails) e where "r = Some (Inl e)"
    | (returns) x s where "r = Some (Inr (x, s))"
  by (metis option.exhaust sum.exhaust prod.exhaust)

lemma execute_Executed:
  assumes "uuid_lib_ok (env_uuid E)" and "world_sound E w"
    and run: "execute E w ids c = Some (Executed changes s)"
  shows "wc_expected_revision c = gw_revision w
    \<and> revision_next (gw_revision w) = Inr (gw_revision (ex_world s))
    \<and> world_sound E (ex_world s) \<and> gw_config (ex_world s) = gw_config w
    \<and> world_view (env_uuid E) (ex_world s) = applied (env_uuid E) changes (world_view (env_uuid E) w)
    \<and> distinct (map (rkey (env_uuid E)) (cs_upserts changes))
    \<and> cs_action_id changes = wc_action_id c \<and> cs_expected_revision changes = wc_expected_revision c
    \<and> cs_revision changes = gw_revision (ex_world s) \<and> sorted (map we_id (cs_events changes))"
proof -
  from run have rev: "wc_expected_revision c = gw_revision w"
    and inner: "execute_inner E c (start_exec w ids) = Some (Inr (changes, s))"
    by (cases "execute_inner E c (start_exec w ids)" rule: run_cases;
        auto simp: execute_def split: if_splits sum.split_asm)+
  from assms(2) have "world_ok w" "transcripts_valid w"
    "validate_rule_limits (config_rule_limits (gw_config w)) = Inr ()"
    by (simp_all add: world_sound_def)
  with rev execute_inner_Inr [OF assms(1) _ inner] show ?thesis
    by (auto simp: world_sound_def)
qed

lemma execute_Rejected:
  assumes "world_sound E w" and "default_session_ok E w" and run: "execute E w ids c = Some out"
  shows "(\<exists>changes s. out = Executed changes s)
    \<or> (\<exists>e. out = Rejected e w \<and> (wc_expected_revision c \<noteq> gw_revision w
         \<longrightarrow> e = Conflict (wc_expected_revision c) (gw_revision w)))"
proof (cases "wc_expected_revision c = gw_revision w")
  case True
  have "world_ok w"
    using assms(1) by (simp add: world_sound_def)
  then obtain records where records: "project_records E w = Inr records"
    by (simp add: project_records_eq)
  from rollback_restores [OF assms(1,2) records] run True show ?thesis
    by (cases "execute_inner E c (start_exec w ids)" rule: run_cases) (auto simp: execute_def records)
qed (use run in \<open>simp add: execute_def\<close>)

section \<open>Runs\<close>

inductive history :: "env \<Rightarrow> game_world \<Rightarrow> execution_change_set list \<Rightarrow> game_world \<Rightarrow> bool"
  for E :: env and w :: game_world where
  begun: "history E w [] w"
| executed: "history E w cs w' \<Longrightarrow> execute E w' ids c = Some (Executed changes s)
    \<Longrightarrow> history E w (cs @ [changes]) (ex_world s)"
| rejected: "history E w cs w' \<Longrightarrow> execute E w' ids c = Some (Rejected e w'')
    \<Longrightarrow> history E w cs w''"

lemma history_sound:
  assumes L: "uuid_lib_ok (env_uuid E)" and D: "definitions_ok (dr_definitions (env_registry E))"
    and P: "plain_session_defaults E" and run: "history E w cs w'" and w: "world_sound E w"
  shows "world_sound E w' \<and> gw_config w' = gw_config w
    \<and> world_view (env_uuid E) w' = fold (applied (env_uuid E)) cs (world_view (env_uuid E) w)
    \<and> unat (revision_get (gw_revision w')) = unat (revision_get (gw_revision w)) + length cs
    \<and> list_all (\<lambda>c. distinct (map (rkey (env_uuid E)) (cs_upserts c))
          \<and> revision_next (cs_expected_revision c) = Inr (cs_revision c)) cs
    \<and> map (\<lambda>c. unat (revision_get (cs_revision c))) cs
        = map (\<lambda>n. unat (revision_get (gw_revision w)) + Suc n) [0..<length cs]"
  using run
proof induction
  case (executed cs w' ids c changes s)
  note step = execute_Executed [OF L _ executed(2)]
  have "unat (revision_get (gw_revision (ex_world s))) = Suc (unat (revision_get (gw_revision w')))"
    using step executed(3) by (auto simp: revision_next_Inr_iff)
  with step executed(3) show ?case by auto
next
  case (rejected cs w' ids c e w'')
  have "validate_world E w' = Inr ()"
    using rejected(3) by (simp add: world_sound_def)
  then have "default_session_ok E w'"
    by (rule default_session_ok [OF D P])
  with execute_Rejected [OF _ this rejected(2)] rejected(3) show ?case by auto
qed (use w in simp)

end
