(* ===== verification/World_Events.thy ===== *)
theory World_Events
  imports World_Changes
begin

text \<open>
  The events of a command. Every event a command reports carries the identifier of its action and
  the revision it creates: the handlers that report one event of their own build it with \<open>event\<close>,
  the others collect what the effects emitted, and the rules only add to either.
\<close>

interpretation stamping: rule_relation "\<lambda>s s'. list_all (stamped t) (ex_events s)
    \<longrightarrow> list_all (stamped t) (ex_events s')" E t
  by unfold_locales (auto intro!: keepsI simp: charge_Inr_iff stored_state_def)

section \<open>What a computation returns\<close>

definition ensures :: "('a \<Rightarrow> bool) \<Rightarrow> 'a cmd \<Rightarrow> bool" where
  "ensures P m \<longleftrightarrow> (\<forall>s x s'. m s = Inr (x, s') \<longrightarrow> P x)"

lemma ensuresD: "ensures P m \<Longrightarrow> m s = Inr (x, s') \<Longrightarrow> P x"
  by (auto simp: ensures_def)

lemma ensures_sbind: "(\<And>x. ensures P (f x)) \<Longrightarrow> ensures P (sbind m f)"
  by (fastforce simp: ensures_def sbind_Inr_iff)

lemma ensures_sbind_with: "ensures Q m \<Longrightarrow> (\<And>x. Q x \<Longrightarrow> ensures P (f x)) \<Longrightarrow> ensures P (sbind m f)"
  by (fastforce simp: ensures_def sbind_Inr_iff)

lemma ensures_slift: "(\<And>x. m = Inr x \<Longrightarrow> P x) \<Longrightarrow> ensures P (slift m)"
  by (simp add: ensures_def slift_Inr_iff)

lemma ensures_sreturn: "P x \<Longrightarrow> ensures P (sreturn x)"
  by (simp add: ensures_def sreturn_Inr_iff)

lemma ensures_if: "(c \<Longrightarrow> ensures P m) \<Longrightarrow> (\<not> c \<Longrightarrow> ensures P n) \<Longrightarrow> ensures P (if c then m else n)"
  by simp

lemma ensures_let: "(\<And>x. ensures P (f x)) \<Longrightarrow> ensures P (Let x f)"
  by simp

lemma ensures_prod: "(\<And>a b. ensures P (f a b)) \<Longrightarrow> ensures P (case p of (a, b) \<Rightarrow> f a b)"
  by (cases p) simp

lemmas ensures_base = ensures_sreturn ensures_slift ensures_if ensures_let ensures_prod

lemma ensures_event: "ensures (stamped t) (event E t actor kind)"
  by (auto simp: ensures_def event_Inr_iff generate_id_Inr_iff stamped_def)

definition stamped_parts :: "tx \<Rightarrow> change_parts \<Rightarrow> bool" where
  "stamped_parts t parts \<longleftrightarrow> list_all (stamped t) (cp_events parts)"

lemma ensures_finish: "ensures (stamped_parts t) (finish E t actor records kind text)"
  unfolding finish_def
  by (rule ensures_sbind_with [OF ensures_event])
    (intro ensures_sbind ensures_sreturn, simp add: stamped_parts_def)

section \<open>Handlers with events of their own\<close>

lemma ensures_handlers:
  "ensures (stamped_parts t) (move_character E t actor i)"
  "ensures (stamped_parts t) (promote_character E t actor a)"
  "ensures (stamped_parts t) (transfer_item E t actor i c)"
  "ensures (stamped_parts t) (equip_item E t actor i d)"
  "ensures (stamped_parts t) (split_stack E t actor i n)"
  "ensures (stamped_parts t) (create_scene E t actor name framing entry_name entry_description origin)"
  "ensures (stamped_parts t) (create_place E t actor name description origin)"
  by (simp_all add: move_character_def promote_character_def transfer_item_def equip_item_def
      split_stack_def create_scene_def create_place_def)
    (intro ensures_sbind ensures_base ensures_finish; simp)+

lemma ensures_spawn_character: "ensures (stamped_parts t) (spawn_character E t actor spec)"
  unfolding spawn_character_def
  by (intro ensures_sbind ensures_sbind_with [OF ensures_event] ensures_base) (simp add: stamped_parts_def)

lemma ensures_transition_scene: "ensures (stamped_parts t) (transition_scene E t actor target)"
  unfolding transition_scene_def
  by (intro ensures_sbind ensures_sbind_with [OF ensures_event] ensures_base) (simp add: stamped_parts_def)

lemma ensures_append_transcripts: "ensures (stamped_parts t) (append_transcripts E t actor vs)"
  unfolding append_transcripts_def
  by (intro ensures_sbind ensures_base) (simp_all add: stamped_parts_def)

section \<open>Handlers that collect\<close>

definition keeps_stamps :: "tx \<Rightarrow> 'a cmd \<Rightarrow> bool" where
  "keeps_stamps t m \<longleftrightarrow>
     keeps (\<lambda>s s'. list_all (stamped t) (ex_events s) \<longrightarrow> list_all (stamped t) (ex_events s')) m"

definition collects :: "tx \<Rightarrow> change_parts cmd \<Rightarrow> bool" where
  "collects t m \<longleftrightarrow> (\<forall>s parts s'. m s = Inr (parts, s') \<longrightarrow> list_all (stamped t) (ex_events s)
     \<longrightarrow> stamped_parts t parts)"

lemma collects_collected: "collects t (collected ds text)"
  by (auto simp: collects_def stamped_parts_def dest: collected_Inr)

lemma collects_sbind: "keeps_stamps t m \<Longrightarrow> (\<And>x. collects t (f x)) \<Longrightarrow> collects t (sbind m f)"
  unfolding collects_def keeps_stamps_def by (metis keepsD sbind_Inr_iff)

lemma collects_let: "(\<And>x. collects t (f x)) \<Longrightarrow> collects t (Let x f)"
  by simp

lemma collects_prod: "(\<And>a b. collects t (f a b)) \<Longrightarrow> collects t (case p of (a, b) \<Rightarrow> f a b)"
  by (cases p) simp

lemma keeps_stamps_world:
  "keeps_stamps t (store_and_emit i r)" "keeps_stamps t (store_component i r)"
  "keeps_stamps t (emit_upsert r)" "keeps_stamps t (set_clock b)" "keeps_stamps t (modify_world g)"
  "keeps_stamps t (smodify (\<lambda>s. s\<lparr>ex_upserts := h s\<rparr>))"
  by (auto simp: keeps_stamps_def keeps_def store_and_emit_Inr_iff stored_state_def
      store_component_Inr_iff emit_upsert_def set_clock_def modify_world_Inr_iff smodify_Inr_iff)

lemma keeps_stamps_base:
  "keeps_stamps t (query f)" "keeps_stamps t (slift r)" "keeps_stamps t (sgets g)"
  "keeps_stamps t (sreturn x)"
  "keeps_stamps t (emit_event E t actor kind)" "keeps_stamps t (apply_effects E t actor source effects)"
  unfolding keeps_stamps_def
  by (intro stamping.keeps_prim stamping.keeps_apply_effects)+

lemma keeps_stamps_sbind:
  "keeps_stamps t m \<Longrightarrow> (\<And>x. keeps_stamps t (f x)) \<Longrightarrow> keeps_stamps t (sbind m f)"
  unfolding keeps_stamps_def by (rule stamping.keeps_sbind)

lemma keeps_stamps_ensure: "keeps_stamps t (ensure_predicates actor ps rule)"
  unfolding ensure_predicates_def keeps_stamps_def
  by (intro stamping.keeps_prim stamping.keeps_evaluate)

lemma keeps_stamps_costs: "keeps_stamps t (sforeach (emit_cost E t actor) costs)"
  unfolding keeps_stamps_def emit_cost_def
  by (intro stamping.keeps_sforeach stamping.keeps_prim)

lemmas keeps_stamps = keeps_stamps_world keeps_stamps_base keeps_stamps_ensure keeps_stamps_costs

lemma collects_handlers:
  "collects t (use_skill E t actor grant target)"
  "collects t (choose_event_option E t actor inst option_id)"
  "collects t (perform_gameplay_action E t actor act arguments)"
  unfolding use_skill_def choose_event_option_def perform_gameplay_action_def
  by (intro collects_sbind collects_let collects_prod collects_collected keeps_stamps)+

subsection \<open>The clock\<close>

lemma advance_step_stamps:
  assumes "list_all (stamped t) (ex_events s)" and "advance_step E t b ds s = Inr (ds', s')"
  shows "list_all (stamped t) (ex_events s')"
proof -
  from assms(2) obtain s1 s2 ps qs where s1: "set_clock b s = Inr ((), s1)"
    and b: "clock_of (ex_world s1) = b"
    and s2: "sforeach (tick_condition E t b) ps s1 = Inr ((), s2)"
    and run: "sfold (expire_condition E t b) ds qs s2 = Inr (ds', s')"
    by (rule advance_step_Inr)
  have "keeps_stamps t (expire_condition E t b ds p)" for ds p
    unfolding expire_condition_def
    by (intro keeps_stamps_sbind keeps_stamps) (auto intro!: keeps_stamps_sbind keeps_stamps)
  then have "keeps_stamps t (sfold (expire_condition E t b) ds qs)"
    unfolding keeps_stamps_def by (intro stamping.keeps_sfold)
  from keepsD [OF this [unfolded keeps_stamps_def] run] stamping.keeps_tick_conditions [OF s2 b] s1
    assms(1) show ?thesis
    by (simp add: set_clock_Inr_iff)
qed

lemma advance_loop_stamps:
  "advance_loop E t to ds s = Some (Inr (ds', s')) \<Longrightarrow> list_all (stamped t) (ex_events s)
    \<Longrightarrow> list_all (stamped t) (ex_events s')"
  by (induction rule: advance_loop_invariant) (rule advance_step_stamps)

lemma advance_time_stamps:
  assumes "advance_time E t actor n s = Some (Inr (parts, s'))" and "ex_events s = []"
  shows "stamped_parts t parts"
proof -
  from assms(1) obtain s1 kind to ds s2 s3 where s1: "emit_event E t actor kind s = Inr ((), s1)"
    and s2: "advance_loop E t to [] s1 = Some (Inr (ds, s2))"
    and s3: "set_clock to s2 = Inr ((), s3)"
    and fin: "collected ds ''world clock advanced''
      (s3\<lparr>ex_upserts := ex_upserts s3 @ [WorldStateRec (gw_state (ex_world s3))]\<rparr>) = Inr (parts, s')"
    by (auto simp: advance_time_def then_run_def run_then_def rbind_Inr_iff sbind_Inr_iff sgets_Inr_iff
        query_Inr_iff emit_upsert_def smodify_Inr_iff split: sum.splits prod.splits)
  have "list_all (stamped t) (ex_events s1)"
    using keepsD [OF keeps_stamps_base(5) [unfolded keeps_stamps_def] s1] assms(2) by simp
  then have "list_all (stamped t) (ex_events s2)"
    by (rule advance_loop_stamps [OF s2])
  with keepsD [OF keeps_stamps_world(4) [unfolded keeps_stamps_def] s3] collected_Inr [OF fin]
  show ?thesis by (simp add: stamped_parts_def)
qed

section \<open>Every command\<close>

lemma run_command_stamps:
  assumes "run_command E t actor c s = Some (Inr (parts, s'))" and "ex_events s = []"
  shows "stamped_parts t parts"
proof -
  note handlers = ensures_handlers ensures_spawn_character ensures_transition_scene
    ensures_append_transcripts
  show ?thesis
    using assms
    by (cases c)
      (auto simp: ret_def advance_time_stamps
        dest: ensuresD [OF handlers(1)] ensuresD [OF handlers(2)] ensuresD [OF handlers(3)]
          ensuresD [OF handlers(4)] ensuresD [OF handlers(5)] ensuresD [OF handlers(6)]
          ensuresD [OF handlers(7)] ensuresD [OF handlers(8)] ensuresD [OF handlers(9)]
          ensuresD [OF handlers(10)]
          collects_handlers [unfolded collects_def, rule_format])
qed

lemma execute_inner_stamps:
  assumes "execute_inner E c (start_exec w ids) = Some (Inr (changes, s))"
  shows "list_all (stamped (cs_action_id changes, cs_revision changes)) (cs_events changes)"
    and "cs_action_id changes = wc_action_id c" and "sorted (map we_id (cs_events changes))"
proof -
  from assms obtain r t parts s1 s2 where t: "t = (wc_action_id c, r)"
    and s1: "run_command E t (wc_actor_id c) (wc_kind c) (start_exec w ids) = Some (Inr (parts, s1))"
    and s2: "run_rules E t (wc_actor_id c) parts s1 = Inr ((), s2)"
    and s3: "seal E t (wc_expected_revision c) parts s2 = Inr (changes, s)"
    by (auto simp: execute_inner_def then_run_def run_then_def Let_def sbind_Inr_iff rbind_Inr_iff
        query_def slift_def start_exec_def map_err_Inr_iff split: sum.splits prod.splits)
  have "stamped_parts t parts"
    using s1 by (rule run_command_stamps) (simp add: start_exec_def)
  then have "list_all (stamped t) (ex_events s2)"
    using s2 keepsD [OF stamping.keeps_run_declarative_rules]
    by (fastforce simp: run_rules_def sbind_Inr_iff smodify_Inr_iff stamped_parts_def)
  with s3 t show "list_all (stamped (cs_action_id changes, cs_revision changes)) (cs_events changes)"
    and "cs_action_id changes = wc_action_id c" and "sorted (map we_id (cs_events changes))"
    by (auto simp: seal_def res_inv list_all_iff)
qed

end
