(* ===== verification/World_Properties.thy ===== *)
theory World_Properties
  imports World_History World_Events World_Example
begin

text \<open>
  The properties of a world and its commands. Each is a consequence of the lemmas of the component
  theories; the witnesses run the small world of \<open>World_Example\<close>.
\<close>

section \<open>The example world is sound\<close>

lemma demo_sound:
  "l \<in> {demo_hall, demo_yard} \<Longrightarrow> p \<in> {demo_root, demo_pouch}
    \<Longrightarrow> world_sound demo_env (demo_world r l p (demo_rule_state n fired))"
  by (simp add: world_sound_def demo_world_ok demo_valid transcripts_valid_def bt_values_def
      validate_rule_limits_def rule_limits_default_def del: insert_iff)

lemma demo_hex_ok [simp]: "uuid_lib_ok (env_uuid demo_env)"
  by (simp add: hex_uuid_lib_ok)

lemma demo_session_plain: "plain_session_defaults demo_env"
  by (simp add: plain_session_defaults_def demo_definitions_eq demo_definitions_def demo_item_def_def)

lemma demo_default_session:
  "l \<in> {demo_hall, demo_yard} \<Longrightarrow> p \<in> {demo_root, demo_pouch}
    \<Longrightarrow> default_session_ok demo_env (demo_world r l p (demo_rule_state n fired))"
  by (rule default_session_ok [OF demo_definitions_ok demo_session_plain demo_valid])

lemma demo_positive: "positive_timing demo_env"
proof -
  have "d = demo_burning" if "registered_condition demo_env d" for d
    using that
    by (auto simp: registered_condition_def registry_get_def demo_definitions_eq demo_definitions_def
        bt_get_def demo_item_def_def demo_rule_def split: if_splits)
  moreover have "0 \<notin> condition_ticks demo_burning"
    by (simp add: condition_ticks_def demo_burning_def)
  ultimately show ?thesis
    unfolding positive_timing_def by blast
qed

abbreviation demo_start :: game_world where
  "demo_start \<equiv> demo_world (Revision 4) demo_hall demo_root (demo_rule_state 0 None)"

lemma demo_run: "\<exists>changes s. execute demo_env demo_start demo_ids (demo_command (Move demo_yard))
    = Some (Executed changes s)"
  by (rule demo_executes) simp

section \<open>Commands\<close>

lemma execute_returns:
  assumes "positive_timing E" and "objects_ok (gw_objects w)"
  shows "\<exists>out. execute E w ids c = Some out"
proof -
  have "\<exists>r. advance_time E t actor n s = Some r" if "objects_ok (gw_objects (ex_world s))" for t actor n s
  proof (cases "query (clock_checks n) s")
    case (Inr p)
    then obtain a b where ab: "query (clock_checks n) s = Inr ((a, b), s)"
      by (cases p) (auto simp: query_Inr_iff)
    show ?thesis
    proof (cases "emit_event E t actor (ClockAdvanced (ticks a) (ticks b)) s")
      case (Inr q)
      then obtain s1 where s1: "emit_event E t actor (ClockAdvanced (ticks a) (ticks b)) s = Inr ((), s1)"
        by (cases q) auto
      then have "objects_ok (gw_objects (ex_world s1))"
        using that by (auto dest: emit_event_Inr)
      from advance_loop_returns [OF assms(1) this] ab s1 show ?thesis
        by (fastforce simp: advance_time_def then_run_def run_then_def)
    qed (use ab in \<open>simp add: advance_time_def then_run_def\<close>)
  qed (simp add: advance_time_def then_run_def)
  then have "\<exists>r. run_command E t actor k s = Some r" if "objects_ok (gw_objects (ex_world s))" for t actor k s
    using that by (cases k) (simp_all add: ret_def)
  then have "\<exists>r. execute_inner E c (start_exec w ids) = Some r"
    using assms(2)
    by (fastforce simp: execute_inner_def then_run_def run_then_def query_def slift_def Let_def
        start_exec_def split: sum.splits)
  then show ?thesis
    by (auto simp: execute_def split: sum.splits)
qed

text \<open>C3. A command that is carried out reports exactly what it changed: it ran at the expected
  revision, the new world is sound and one revision later, and the records of the new world are
  those of the old with the change set applied, one upsert per record.\<close>

theorem executed_command_reports_changes:
  assumes "uuid_lib_ok (env_uuid E)" and "world_sound E w"
    and "execute E w ids c = Some (Executed changes s)"
  shows "wc_expected_revision c = gw_revision w
    \<and> revision_next (gw_revision w) = Inr (gw_revision (ex_world s))
    \<and> world_sound E (ex_world s)
    \<and> world_view (env_uuid E) (ex_world s) = applied (env_uuid E) changes (world_view (env_uuid E) w)
    \<and> distinct (map (rkey (env_uuid E)) (cs_upserts changes))
    \<and> cs_action_id changes = wc_action_id c \<and> cs_revision changes = gw_revision (ex_world s)"
  using execute_Executed [OF assms] by simp

theorem executed_command_reports_changes_witness:
  "\<exists>changes s. execute demo_env demo_start demo_ids (demo_command (Move demo_yard)) = Some (Executed changes s)
    \<and> world_sound demo_env (ex_world s)
    \<and> world_view hex_uuid_lib (ex_world s) = applied hex_uuid_lib changes (world_view hex_uuid_lib demo_start)"
proof -
  obtain changes s where run: "execute demo_env demo_start demo_ids (demo_command (Move demo_yard))
      = Some (Executed changes s)"
    using demo_run by blast
  have "world_sound demo_env demo_start"
    by (rule demo_sound) simp_all
  from executed_command_reports_changes [OF demo_hex_ok this run] run show ?thesis
    by auto
qed

text \<open>C7. A command that fails, or that was meant for another revision, leaves the world exactly as
  it was, session parameters included; the rollback that rebuilds the world cannot fail.\<close>

theorem rejected_command_changes_nothing:
  assumes "world_sound E w" and "default_session_ok E w" and "execute E w ids c = Some out"
  shows "(\<exists>changes s. out = Executed changes s)
    \<or> (\<exists>e. out = Rejected e w \<and> (wc_expected_revision c \<noteq> gw_revision w
         \<longrightarrow> e = Conflict (wc_expected_revision c) (gw_revision w)))"
  by (rule execute_Rejected [OF assms])

theorem rejected_command_changes_nothing_witness:
  "\<exists>e. execute demo_env (demo_world (Revision 7) demo_hall demo_root (demo_rule_state 0 None)) demo_ids
      (demo_command (Move demo_yard))
    = Some (Rejected e (demo_world (Revision 7) demo_hall demo_root (demo_rule_state 0 None)))"
proof -
  let ?w = "demo_world (Revision 7) demo_hall demo_root (demo_rule_state 0 None)"
  obtain out where out: "execute demo_env ?w demo_ids (demo_command (Move demo_yard)) = Some out"
    by (simp add: execute_def demo_command_def)
  have "world_sound demo_env ?w" "default_session_ok demo_env ?w"
    by (rule demo_sound demo_default_session; simp)+
  from rejected_command_changes_nothing [OF this out] out show ?thesis
    by (auto simp: execute_def demo_command_def)
qed

text \<open>C13. Every command returns. The only loop that is not structural, the one that advances the
  clock, ends when no registered duration or interval is zero.\<close>

theorem every_command_returns:
  assumes "positive_timing E" and "world_sound E w"
  shows "\<exists>out. execute E w ids c = Some out"
  using assms by (intro execute_returns) (simp_all add: world_sound_def world_ok_def)

theorem every_command_returns_witness:
  "\<exists>out. execute demo_env demo_start demo_ids (demo_command (AdvanceTime 1000)) = Some out"
  by (rule every_command_returns [OF demo_positive demo_sound]) simp_all

text \<open>C5. Along every sequence of commands the world stays sound, its records are those it began
  with under the change sets in order, and the revisions of the change sets are consecutive.\<close>

theorem every_history_is_replayed:
  assumes "uuid_lib_ok (env_uuid E)" and "definitions_ok (dr_definitions (env_registry E))"
    and "plain_session_defaults E" and "history E w cs w'" and "world_sound E w"
  shows "world_sound E w'
    \<and> world_view (env_uuid E) w' = fold (applied (env_uuid E)) cs (world_view (env_uuid E) w)
    \<and> unat (revision_get (gw_revision w')) = unat (revision_get (gw_revision w)) + length cs
    \<and> map (\<lambda>c. unat (revision_get (cs_revision c))) cs
        = map (\<lambda>n. unat (revision_get (gw_revision w)) + Suc n) [0..<length cs]"
  using history_sound [OF assms] by blast

theorem every_history_is_replayed_witness:
  "\<exists>changes w'. history demo_env demo_start [changes] w' \<and> world_sound demo_env w'
    \<and> unat (revision_get (gw_revision w')) = 5"
proof -
  obtain changes s where run: "execute demo_env demo_start demo_ids (demo_command (Move demo_yard))
      = Some (Executed changes s)"
    using demo_run by blast
  have "history demo_env demo_start ([] @ [changes]) (ex_world s)"
    by (rule history.executed [OF history.begun run])
  then have h: "history demo_env demo_start [changes] (ex_world s)"
    by simp
  have "world_sound demo_env demo_start"
    by (rule demo_sound) simp_all
  from every_history_is_replayed [OF demo_hex_ok demo_definitions_ok demo_session_plain h this] h
  show ?thesis
    by auto
qed

text \<open>C17. The records of a sound world, in any order, load back to that world with the default
  session parameters; restoring the saved session gives the world itself.\<close>

theorem world_records_round_trip:
  assumes "world_sound E w" and "default_session_ok E w" and "project_records E w = Inr records"
    and "mset records' = mset records"
  shows "rbind (from_records E (gw_revision w) records' (gw_config w))
    (restore_session_parameters E (gw_session w)) = Inr w"
proof -
  have ok: "world_ok w" and "validate_rule_limits (config_rule_limits (gw_config w)) = Inr ()"
    using assms(1) by (simp_all add: world_sound_def)
  have "mset records = mset (world_records w)"
    using assms(3) by (auto simp: project_records_eq [OF ok])
  with assms(4) from_records_reload [OF ok world_sound_admissible [OF assms(1)]]
  have "from_records E (gw_revision w) records' (gw_config w)
      = from_records E (gw_revision w) records (gw_config w)"
    by simp
  with rollback_restores [OF assms(1-3)] show ?thesis
    by (simp add: rollback_def)
qed

theorem world_records_round_trip_witness:
  "\<exists>records. project_records demo_env demo_start = Inr records
    \<and> rbind (from_records demo_env (Revision 4) (rev records) (gw_config demo_start))
        (restore_session_parameters demo_env []) = Inr demo_start"
proof -
  obtain records where records: "project_records demo_env demo_start = Inr records"
    using project_records_eq [OF demo_world_ok] by blast
  have "world_sound demo_env demo_start" "default_session_ok demo_env demo_start"
    by (rule demo_sound demo_default_session; simp)+
  from world_records_round_trip [OF this records mset_rev] records show ?thesis
    by simp
qed

text \<open>C30. Every event of a command carries the identifier of its action and the revision it
  creates, and the events are sorted by their own identifiers.\<close>

theorem events_carry_the_command:
  assumes "execute E w ids c = Some (Executed changes s)"
  shows "list_all (\<lambda>ev. we_action_id ev = wc_action_id c \<and> we_revision ev = cs_revision changes)
      (cs_events changes)
    \<and> sorted (map we_id (cs_events changes))"
proof -
  from assms have inner: "execute_inner E c (start_exec w ids) = Some (Inr (changes, s))"
    by (cases "execute_inner E c (start_exec w ids)" rule: run_cases;
        auto simp: execute_def split: if_splits sum.split_asm)
  from execute_inner_stamps [OF inner] show ?thesis
    by (simp add: stamped_def list_all_iff)
qed

theorem events_carry_the_command_witness:
  "\<exists>changes s. execute demo_env demo_start demo_ids (demo_command (Move demo_yard)) = Some (Executed changes s)
    \<and> list_all (\<lambda>ev. we_action_id ev = RuntimeId 40) (cs_events changes)"
proof -
  obtain changes s where run: "execute demo_env demo_start demo_ids (demo_command (Move demo_yard))
      = Some (Executed changes s)"
    using demo_run by blast
  from events_carry_the_command [OF this] run show ?thesis
    by (auto simp: demo_command_def list_all_iff)
qed

end
