(* ===== verification/World_Structure.thy ===== *)
theory World_Structure
  imports World_Properties
begin

text \<open>
  What validation says about the shape of a world: its places, its containers, its characters and its
  scenes. With the preservation of soundness by every command it holds at every point of a history.
\<close>

section \<open>Each component is checked\<close>

lemma valid_component:
  assumes "validate_world E w = Inr ()" and "component_at w i = Some r"
  shows "(\<exists>acc acc'. validate_component_references E w acc r = Inr acc')
    \<and> (\<exists>acc acc'. validate_scene_component w acc r = Inr acc')"
proof -
  from assms(2) obtain e where e: "bt_get i (gw_objects w) = Some e" "component e = r"
    by (auto simp: component_at_def)
  note entry = bt_get_in_set [OF e(1)]
  from assms(1) obtain acc acc' where passes: "rfold (validate_entity w) (0, []) (gw_objects w) = Inr acc"
    "rfold (validate_component_references E w) \<lparr>ra_schemas = [], ra_saved = [], ra_rule_counts = []\<rparr>
       (map component (bt_values (gw_objects w))) = Inr acc'"
    by (auto simp: validate_world_def validate_references_def rbind_Inr_iff split: if_splits)
  have "r \<in> set (map component (bt_values (gw_objects w)))"
    using entry e(2) by (force simp: bt_values_def)
  from rfold_element [OF passes(2) this] rfold_element [OF passes(1) entry] e(2) show ?thesis
    by (auto simp: validate_entity_def rbind_Inr_iff split: if_splits)
qed

lemma component_identity:
  "world_ok w \<Longrightarrow> component_at w i = Some r \<Longrightarrow> record_object_id r = Some i"
  by (auto simp: world_ok_def objects_ok_def entity_ok_def component_at_def)

lemma item_Some_iff: "item w i = Some v \<longleftrightarrow> component_at w i = Some (ItemRec v)"
  by (auto simp: item_def bind_eq_Some_conv)

section \<open>Containers\<close>

definition contained_in :: "game_world \<Rightarrow> (object_id \<times> object_id) set" where
  "contained_in w = {(i, c). \<exists>v. item w i = Some v \<and> it_contained_by v = Some c}"

lemma container_chain_Inr:
  "container_chain w i visited parent = Inr () \<Longrightarrow> parent = Some p \<Longrightarrow> (p, i) \<notin> (contained_in w)\<^sup>*"
proof (induction w i visited parent arbitrary: p rule: container_chain.induct)
  case (2 w i visited j)
  then have j: "p = j" and neq: "j \<noteq> i" and
    rest: "container_chain w i (bs_insort j visited) (Option.bind (item w j) it_contained_by) = Inr ()"
    and unseen: "\<not> (j = i \<or> bs_contains j visited)"
    by (auto split: if_splits)
  show ?case
  proof
    assume "(p, i) \<in> (contained_in w)\<^sup>*"
    with j neq obtain c where c: "(j, c) \<in> contained_in w" "(c, i) \<in> (contained_in w)\<^sup>*"
      by (metis converse_rtranclE)
    then have "Option.bind (item w j) it_contained_by = Some c"
      by (auto simp: contained_in_def)
    from "2.IH" [OF unseen rest this] c(2) show False by simp
  qed
qed simp

lemma contained_acyclic:
  assumes "world_ok w" and "validate_world E w = Inr ()"
  shows "acyclic (contained_in w)"
proof (rule acyclicI, rule allI, rule notI)
  fix i assume "(i, i) \<in> (contained_in w)\<^sup>+"
  then obtain c where c: "(i, c) \<in> contained_in w" "(c, i) \<in> (contained_in w)\<^sup>*"
    by (metis tranclD)
  then obtain v where v: "component_at w i = Some (ItemRec v)" "it_contained_by v = Some c"
    by (auto simp: contained_in_def item_Some_iff)
  from component_identity [OF assms(1) v(1)] have "it_id v = i"
    by simp
  with valid_component [OF assms(2) v(1)] v(2) have "container_chain w i [] (Some c) = Inr ()"
    by (auto simp: validate_item_references_def ensure_no_container_cycle_def rbind_Inr_iff)
  from container_chain_Inr [OF this refl] c(2) show False by simp
qed

section \<open>The shape of a world\<close>

definition place_graph :: "game_world \<Rightarrow> (object_id \<times> object_id) set" where
  "place_graph w = {(i, j). \<exists>p. component_at w i = Some (PlaceRec p) \<and> j \<in> set (place_edges p)}"

definition well_shaped :: "env \<Rightarrow> game_world \<Rightarrow> bool" where
  "well_shaped E w \<longleftrightarrow>
     (\<exists>c. component_at w (object_id_of (ws_player_actor (gw_state w))) = Some (CharacterRec c)
        \<and> ch_controller c = PlayerController)
     \<and> (\<forall>i s. component_at w i = Some (SceneRec s) \<longrightarrow>
          (scene_active s \<longleftrightarrow> i = ws_active_scene (gw_state w))
          \<and> (\<exists>p. component_at w (scene_entry_place s) = Some (PlaceRec p) \<and> place_scene_id p = i))
     \<and> (\<exists>s. component_at w (ws_active_scene (gw_state w)) = Some (SceneRec s))
     \<and> sym (place_graph w) \<and> irrefl (place_graph w)
     \<and> (\<forall>i p. component_at w i = Some (PlaceRec p) \<longrightarrow>
          (\<exists>s. component_at w (place_scene_id p) = Some (SceneRec s))
          \<and> (\<forall>j\<in>set (place_edges p). \<exists>q. component_at w j = Some (PlaceRec q)
               \<and> place_scene_id q = place_scene_id p))
     \<and> (\<forall>i c. component_at w i = Some (CharacterRec c) \<longrightarrow>
          (\<exists>p. component_at w (ch_location c) = Some (PlaceRec p))
          \<and> (\<exists>v. item w (ch_inventory_root c) = Some v \<and> it_container v \<noteq> None
               \<and> it_owned_by v = Some (ch_id c)))
     \<and> acyclic (contained_in w)
     \<and> (\<forall>i c. (i, c) \<in> contained_in w \<longrightarrow> (\<exists>v. item w c = Some v \<and> it_container v \<noteq> None))
     \<and> (\<forall>i c. component_at w i = Some (ConditionRec c) \<longrightarrow>
          \<not> due_by (ws_clock (gw_state w)) (cond_expires_at c)
          \<and> \<not> due_by (ws_clock (gw_state w)) (cond_next_periodic_at c))"

lemma valid_place_edges:
  assumes "world_ok w" and "validate_world E w = Inr ()" and "component_at w i = Some (PlaceRec p)"
    and "j \<in> set (place_edges p)"
  shows "j \<noteq> i \<and> (\<exists>q. component_at w j = Some (PlaceRec q) \<and> place_scene_id q = place_scene_id p
    \<and> i \<in> set (place_edges q))"
proof -
  have "place_rec_id p = i"
    using component_identity [OF assms(1,3)] by simp
  with valid_component [OF assms(2,3)] assms(4) show ?thesis
    by (auto simp: validate_place_references_def rbind_Inr_iff rforeach_Inr_iff validate_place_edge_def
        get_Inr_iff bs_contains_def split: if_splits)
qed

lemma valid_world_shape:
  assumes ok: "world_ok w" and valid: "validate_world E w = Inr ()"
  shows "well_shaped E w"
proof -
  note comp = valid_component [OF valid]
  have active: "\<exists>s. component_at w (ws_active_scene (gw_state w)) = Some (SceneRec s) \<and> scene_active s"
    and player: "\<exists>c. component_at w (object_id_of (ws_player_actor (gw_state w))) = Some (CharacterRec c)
        \<and> ch_controller c = PlayerController"
    using valid by (auto simp: validate_world_def rbind_Inr_iff get_Inr_iff split: if_splits)
  have scene: "(scene_active s \<longleftrightarrow> i = ws_active_scene (gw_state w))
      \<and> (\<exists>p. component_at w (scene_entry_place s) = Some (PlaceRec p) \<and> place_scene_id p = i)"
    if s: "component_at w i = Some (SceneRec s)" for i s
  proof -
    have "scene_rec_id s = i"
      using component_identity [OF ok s] by simp
    with comp [OF s] active s show ?thesis
      by (auto simp: rbind_Inr_iff get_Inr_iff split: if_splits)
  qed
  note edges = valid_place_edges [OF ok valid]
  have "sym (place_graph w)"
    by (rule symI) (auto simp: place_graph_def dest: edges)
  moreover have "irrefl (place_graph w)"
    by (rule irreflI) (auto simp: place_graph_def dest: edges)
  moreover have "\<exists>s. component_at w (place_scene_id p) = Some (SceneRec s)"
    if "component_at w i = Some (PlaceRec p)" for i p
    using comp [OF that] by (auto simp: validate_place_references_def rbind_Inr_iff get_Inr_iff)
  moreover have "(\<exists>p. component_at w (ch_location c) = Some (PlaceRec p))
      \<and> (\<exists>v. item w (ch_inventory_root c) = Some v \<and> it_container v \<noteq> None \<and> it_owned_by v = Some (ch_id c))"
    if "component_at w i = Some (CharacterRec c)" for i c
    using comp [OF that]
    by (auto simp: validate_character_state_def rbind_Inr_iff get_Inr_iff item_Some_iff split: if_splits)
  moreover have "\<exists>v. item w c = Some v \<and> it_container v \<noteq> None" if "(i, c) \<in> contained_in w" for i c
  proof -
    from that obtain v where v: "component_at w i = Some (ItemRec v)" "it_contained_by v = Some c"
      by (auto simp: contained_in_def item_Some_iff)
    from comp [OF v(1)] v(2) show ?thesis
      by (auto simp: validate_item_references_def rbind_Inr_iff get_Inr_iff item_Some_iff split: if_splits)
  qed
  moreover have "\<not> due_by (ws_clock (gw_state w)) (cond_expires_at c)
      \<and> \<not> due_by (ws_clock (gw_state w)) (cond_next_periodic_at c)"
    if "component_at w i = Some (ConditionRec c)" for i c
    using comp [OF that] by (auto simp: validate_condition_state_def rbind_Inr_iff split: if_splits)
  ultimately show ?thesis
    unfolding well_shaped_def using active player scene edges contained_acyclic [OF ok valid] by blast
qed

text \<open>C8. After any sequence of commands the world keeps its shape: the player is there and player
  controlled, one scene is active and every scene is entered at a place of its own, paths between
  places go both ways and stay within a scene, every character is at a place and owns a container,
  no item is inside itself, containers are containers, and no condition is overdue.\<close>

theorem histories_keep_the_shape:
  assumes "uuid_lib_ok (env_uuid E)" and "definitions_ok (dr_definitions (env_registry E))"
    and "plain_session_defaults E" and "history E w cs w'" and "world_sound E w"
  shows "well_shaped E w'"
proof -
  have "world_sound E w'"
    using history_sound [OF assms] by blast
  then show ?thesis
    by (intro valid_world_shape) (simp_all add: world_sound_def)
qed

theorem histories_keep_the_shape_witness:
  "\<exists>changes w'. history demo_env demo_start [changes] w' \<and> well_shaped demo_env w'"
proof -
  obtain changes s where run: "execute demo_env demo_start demo_ids (demo_command (Move demo_yard))
      = Some (Executed changes s)"
    using demo_run by blast
  have "history demo_env demo_start ([] @ [changes]) (ex_world s)"
    by (rule history.executed [OF history.begun run])
  then have h: "history demo_env demo_start [changes] (ex_world s)"
    by simp
  have "world_sound demo_env demo_start"
    by (rule demo_sound) simp_all
  from histories_keep_the_shape [OF demo_hex_ok demo_definitions_ok demo_session_plain h this] h
  show ?thesis
    by auto
qed

end
