(* ===== verification/Durable_World.thy ===== *)
theory Durable_World
  imports Store_Properties World_Structure
begin

text \<open>
  A world and its save. A game is played by executing commands and committing their change sets; the
  save then holds the world: whatever is loaded from it rebuilds exactly the world in memory.
\<close>

section \<open>Records as they are stored\<close>

text \<open>The stored envelopes decode to a view of the records.\<close>

definition decodes :: "store_lib \<Rightarrow> record_set \<Rightarrow> (record_key \<Rightarrow> domain_record option) \<Rightarrow> bool" where
  "decodes X recs view \<longleftrightarrow> (\<forall>k. case bt_get k recs of
       None \<Rightarrow> view k = None
     | Some e \<Rightarrow> (\<exists>r. from_envelope (sto_uuid X) (sto_serde X) e = Inr r \<and> view k = Some r))"

lemma bt_get_of_list:
  assumes "distinct (map fst ps)"
  shows "bt_get k (bt_of_list ps) = map_of ps k"
proof -
  have "bt_get k (fold (\<lambda>(k, v). bt_insert k v) ps m)
      = (case map_of ps k of Some v \<Rightarrow> Some v | None \<Rightarrow> bt_get k m)" for m
    using assms
  proof (induction ps arbitrary: m)
    case (Cons p ps)
    obtain k0 v0 where p: "p = (k0, v0)"
      by (cases p)
    with Cons.prems have "map_of ps k0 = None"
      by (simp add: map_of_eq_None_iff)
    with Cons.IH [of "bt_insert k0 v0 m"] Cons.prems show ?case
      by (cases "k = k0") (simp_all add: p split: option.splits)
  qed simp
  then show ?thesis
    by (simp add: bt_of_list_def split: option.splits)
qed

lemma decodes_checkpoint:
  assumes X: "store_lib_ok X" and cp: "checkpoint_records X records r = Inr (envelopes, ts)"
    and base: "load_checkpoint r envelopes = Inr recs"
  shows "decodes X recs (map_of (map (\<lambda>r. (rkey (sto_uuid X) r, r)) records))"
proof -
  let ?L = "sto_uuid X" and ?S = "sto_serde X"
  have S: "serde_lib_ok ?S"
    using X by (simp add: store_lib_ok_def)
  from checkpoint_records_Inr(3) [OF cp] obtain es
    where es: "list_all2 (\<lambda>rec e. to_envelope ?L ?S rec r None = Inr e) records es"
      and env: "envelopes = sort_key envelope_key es" and d: "distinct (map envelope_key envelopes)"
    by blast
  have keys: "map envelope_key es = map (rkey ?L) records"
    using es by (induction rule: list_all2_induct) (auto dest!: to_envelope_key key_rkey)
  have perm: "mset (map envelope_key envelopes) = mset (map (rkey ?L) records)"
    by (metis env keys mset_map mset_sort)
  then have dk: "distinct (map (rkey ?L) records)"
    using d by (metis mset_eq_imp_distinct_iff)
  have get: "bt_get k recs = map_of (map (\<lambda>e. (envelope_key e, e)) envelopes) k" for k
    using base d by (simp add: load_checkpoint_Inr_iff bt_get_of_list comp_def)
  have at: "bt_get k recs = Some e \<longleftrightarrow> e \<in> set es \<and> envelope_key e = k" for k e
    using d by (auto simp: get env map_of_eq_Some_iff comp_def)
  have view: "map_of (map (\<lambda>r. (rkey ?L r, r)) records) k = Some x \<longleftrightarrow> x \<in> set records \<and> rkey ?L x = k" for k x
    using dk by (auto simp: map_of_eq_Some_iff comp_def)
  show ?thesis
    unfolding decodes_def
  proof
    fix k
    show "case bt_get k recs of None \<Rightarrow> map_of (map (\<lambda>r. (rkey ?L r, r)) records) k = None
      | Some e \<Rightarrow> (\<exists>x. from_envelope ?L ?S e = Inr x \<and> map_of (map (\<lambda>r. (rkey ?L r, r)) records) k = Some x)"
    proof (cases "bt_get k recs")
      case None
      have "k \<notin> set (map envelope_key es)"
        using None at by force
      then show ?thesis
        using None by (simp add: keys map_of_eq_None_iff image_iff)
    next
      case (Some e)
      then have e: "e \<in> set es" "envelope_key e = k"
        using at by simp_all
      from list_all2_in_right [OF es e(1)] obtain x where x: "x \<in> set records" "to_envelope ?L ?S x r None = Inr e"
        by blast
      have "rkey ?L x = k"
        using to_envelope_key [OF x(2)] e(2) key_rkey [of ?L x "envelope_key e"] by simp
      with x(1) to_from_envelope [OF S x(2)] Some show ?thesis
        by (auto simp: view)
    qed
  qed
qed

lemma fold_mutation_effect:
  assumes "distinct (map mutation_key ms)"
  shows "fold mutation_effect ms f k = (case find (\<lambda>m. mutation_key m = k) ms of
      None \<Rightarrow> f k | Some (Upsert e) \<Rightarrow> Some e | Some (DeleteRecord _) \<Rightarrow> None)"
  using assms
proof (induction ms arbitrary: f)
  case (Cons m ms)
  have none: "find (\<lambda>m. mutation_key m = k) ms = None" if "mutation_key m = k"
    using Cons.prems that by (auto simp: find_None_iff image_iff)
  have "mutation_effect m f k = (if mutation_key m = k then case m of Upsert e \<Rightarrow> Some e | DeleteRecord _ \<Rightarrow> None
      else f k)"
    by (cases m) (auto simp: mutation_effect_def)
  with Cons.IH [of "mutation_effect m f"] Cons.prems none show ?case
    by (auto split: option.splits record_mutation.splits)
qed simp

lemma decodes_mutations:
  assumes X: "store_lib_ok X" and d: "decodes X recs view"
    and ms: "change_set_mutations (sto_uuid X) (sto_serde X) changes ms" "distinct (map mutation_key ms)"
    and run: "apply_mutations r recs ms = Inr recs'"
    and upserts: "distinct (map (rkey (sto_uuid X)) (cs_upserts changes))"
  shows "decodes X recs' (applied (sto_uuid X) changes view)"
  unfolding decodes_def
proof
  let ?L = "sto_uuid X" and ?S = "sto_serde X"
  have S: "serde_lib_ok ?S"
    using X by (simp add: store_lib_ok_def)
  note in_ms = change_set_mutations_in [OF ms(1)]
  fix k
  have get: "bt_get k recs' = (case find (\<lambda>m. mutation_key m = k) ms of
      None \<Rightarrow> bt_get k recs | Some (Upsert e) \<Rightarrow> Some e | Some (DeleteRecord _) \<Rightarrow> None)"
    using apply_mutations_effect [OF run] fold_mutation_effect [OF ms(2)] by metis
  have unique: "find (\<lambda>m. mutation_key m = k) ms = Some m" if "m \<in> set ms" "mutation_key m = k" for m
  proof (cases "find (\<lambda>m. mutation_key m = k) ms")
    case None
    with that show ?thesis by (auto simp: find_None_iff)
  next
    case (Some m')
    then have "m' \<in> set ms" "mutation_key m' = k"
      by (auto simp: find_Some_iff)
    with that ms(2) Some show ?thesis
      by (auto simp: distinct_map inj_on_def)
  qed
  have key_of: "rkey ?L x = envelope_key e"
    if "to_envelope ?L ?S x (cs_revision changes) (change_set_provenance changes) = Inr e" for x e
    using to_envelope_key [OF that] key_rkey by metis
  have encoded: "\<exists>e. Upsert e \<in> set ms \<and> to_envelope ?L ?S x (cs_revision changes) (change_set_provenance changes) = Inr e"
    if "x \<in> set (cs_upserts changes)" for x
  proof -
    from ms(1) obtain es where "list_all2 (\<lambda>r e. to_envelope ?L ?S r (cs_revision changes)
        (change_set_provenance changes) = Inr e) (cs_upserts changes) es"
      by (auto simp: change_set_mutations_def)
    from list_all2_in_left [OF this that] obtain e
      where "to_envelope ?L ?S x (cs_revision changes) (change_set_provenance changes) = Inr e"
      by blast
    with that in_ms show ?thesis by blast
  qed
  show "case bt_get k recs' of None \<Rightarrow> applied ?L changes view k = None
    | Some e \<Rightarrow> (\<exists>x. from_envelope ?L ?S e = Inr x \<and> applied ?L changes view k = Some x)"
  proof (cases "\<exists>x\<in>set (cs_upserts changes). rkey ?L x = k")
    case True
    then obtain x where x: "x \<in> set (cs_upserts changes)" "rkey ?L x = k"
      by blast
    from encoded [OF x(1)] obtain e where e: "Upsert e \<in> set ms"
      "to_envelope ?L ?S x (cs_revision changes) (change_set_provenance changes) = Inr e"
      by blast
    have "mutation_key (Upsert e) = k"
      using key_of [OF e(2)] x(2) by simp
    from unique [OF e(1) this] have "bt_get k recs' = Some e"
      unfolding get by simp
    moreover have "applied ?L changes view k = Some x"
    proof -
      have "map_of (map (\<lambda>r. (rkey ?L r, r)) (cs_upserts changes)) k = Some x"
        using upserts x by (force simp: map_of_eq_Some_iff comp_def)
      then show ?thesis
        by (simp add: applied_def upserted_distinct [OF upserts])
    qed
    ultimately show ?thesis
      using to_from_envelope [OF S e(2)] by simp
  next
    case False
    then have view: "applied ?L changes view k = deleted (cs_deletes changes) view k"
      unfolding applied_def by (intro upserted_untouched) auto
    show ?thesis
    proof (cases "k \<in> set (cs_deletes changes)")
      case True
      then have "DeleteRecord k \<in> set ms"
        using in_ms by blast
      with unique have "bt_get k recs' = None"
        by (fastforce simp: get)
      with True view show ?thesis
        by (simp add: deleted_def)
    next
      case delete: False
      have "mutation_key m \<noteq> k" if "m \<in> set ms" for m
        using that in_ms [of m] False delete key_of by auto
      then have "find (\<lambda>m. mutation_key m = k) ms = None"
        by (simp add: find_None_iff)
      then have "bt_get k recs' = bt_get k recs"
        by (simp add: get)
      moreover have "applied ?L changes view k = view k"
        using delete view by (simp add: deleted_def)
      ultimately show ?thesis
        using d [unfolded decodes_def, THEN spec, of k] by (cases "bt_get k recs") simp_all
    qed
  qed
qed

text \<open>Decoding gives the records of the world, each once.\<close>

lemma decodes_world:
  assumes L: "uuid_lib_ok (sto_uuid X)" and ok: "world_ok w" and recs: "bt_ok recs"
    and d: "decodes X recs (world_view (sto_uuid X) w)"
    and typed: "decode_domain_records (sto_uuid X) (sto_serde X) recs = Inr typed"
  shows "mset (bt_values typed) = mset (world_records w)"
proof -
  let ?L = "sto_uuid X"
  have keys: "map fst typed = map fst recs"
    by (rule decode_domain_records_keys [OF typed])
  then have "bt_ok typed"
    using recs by (simp add: bt_ok_def)
  have all2: "list_all2 (\<lambda>p q. fst q = fst p \<and> from_envelope ?L (sto_serde X) (snd p) = Inr (snd q)) recs typed"
    using typed by (simp add: decode_domain_records_Inr_iff)
  have sound: "world_view ?L w k = Some r" if "(k, r) \<in> set typed" for k r
  proof -
    from list_all2_in_right [OF all2 that] obtain p where "p \<in> set recs" "fst p = k"
      "from_envelope ?L (sto_serde X) (snd p) = Inr r"
      by auto
    then obtain e where e: "(k, e) \<in> set recs" "from_envelope ?L (sto_serde X) e = Inr r"
      by (metis prod.collapse)
    then have "bt_get k recs = Some e"
      using recs by (simp add: bt_ok_get_iff)
    with d e(2) show ?thesis
      by (auto simp: decodes_def dest!: spec [of _ k])
  qed
  have complete: "(k, r) \<in> set typed" if "world_view ?L w k = Some r" for k r
  proof -
    from d that obtain e where "bt_get k recs = Some e"
      by (auto simp: decodes_def dest!: spec [of _ k] split: option.splits)
    then have "k \<in> set (map fst typed)"
      unfolding keys using bt_get_in_set by force
    then obtain r' where "(k, r') \<in> set typed"
      by auto
    with sound [OF this] that show ?thesis
      by simp
  qed
  have "r \<in> set (bt_values typed) \<longleftrightarrow> r \<in> set (world_records w)" for r
  proof -
    have "r \<in> set (bt_values typed) \<longleftrightarrow> (\<exists>k. (k, r) \<in> set typed)"
      by (force simp: bt_values_def)
    also have "\<dots> \<longleftrightarrow> (\<exists>k. world_view ?L w k = Some r)"
      using sound complete by blast
    also have "\<dots> \<longleftrightarrow> r \<in> set (world_records w)"
      by (simp add: world_view_Some_iff [OF L ok] world_records_set [OF ok])
    finally show ?thesis .
  qed
  then have "set (bt_values typed) = set (world_records w)"
    by blast
  moreover have "distinct (bt_values typed)"
  proof -
    have "rkey ?L r = k" if "(k, r) \<in> set typed" for k r
      using sound [OF that] by (simp add: world_view_Some_iff [OF L ok])
    then have "map (rkey ?L) (bt_values typed) = map fst typed"
      by (auto simp: bt_values_def)
    with bt_ok_distinct [OF \<open>bt_ok typed\<close>] show ?thesis
      by (metis distinct_map)
  qed
  moreover have "distinct (world_records w)"
    using world_records_distinct [OF ok] by (rule distinct_map [THEN iffD1, THEN conjunct1])
  ultimately show ?thesis
    by (simp add: set_eq_iff_mset_eq_distinct)
qed

section \<open>A world in its save\<close>

text \<open>What the save of a game holds: the log of the world, which replays to the records of the world.\<close>

definition holds_world :: "store_lib \<Rightarrow> tables \<Rightarrow> save_manifest \<Rightarrow> record_envelope list \<Rightarrow> checkpoint_row
    \<Rightarrow> prepared_transcript list \<Rightarrow> log \<Rightarrow> game_world \<Rightarrow> bool" where
  "holds_world X v m envelopes row initial log w \<longleftrightarrow> save_holds X v m [row] initial log
     \<and> checkpoint_row_ok X (sm_save_id m) (Revision 0) envelopes row
     \<and> head_revision log = gw_revision w
     \<and> (\<forall>r recs. rebuild_records (Revision 0) envelopes (log_ops log) = Inr (r, recs)
          \<longrightarrow> r = gw_revision w \<and> decodes X recs (world_view (sto_uuid X) w))"

lemma holds_world_created:
  assumes X: "store_lib_ok X" and D: "db_ok D V" and ok: "world_ok w" and L: "env_uuid E = sto_uuid X"
    and run: "store_create X D b m records = Inr st" and records: "project_records E w = Inr records"
    and zero: "gw_revision w = Revision 0"
  shows "ss_manifest st = m \<and> (\<exists>envelopes row initial. holds_world X (V (ss_db st)) m envelopes row initial [] w
    \<and> prepare_transcripts X (store_save_id X m) (Revision 0) (upserted_transcripts records) True = Inr initial)"
proof -
  from store_create_holds [OF X D run] obtain envelopes row initial where m: "ss_manifest st = m"
    and cp: "checkpoint_records X records (Revision 0) = Inr (envelopes, upserted_transcripts records)"
    and initial: "prepare_transcripts X (store_save_id X m) (Revision 0) (upserted_transcripts records) True
      = Inr initial"
    and row: "checkpoint_row_ok X (sm_save_id m) (Revision 0) envelopes row"
    and h: "save_holds X (V (ss_db st)) m [row] initial []"
    by blast
  have perm: "mset records = mset (world_records w)"
    using records by (auto simp: project_records_eq [OF ok])
  have uuid: "uuid_lib_ok (sto_uuid X)"
    using X by (simp add: store_lib_ok_def)
  have "distinct (map (rkey (sto_uuid X)) (world_records w))"
  proof -
    have "inj_on (rkey (sto_uuid X)) (set (world_records w))"
      using rkey_slot [OF uuid] by (intro inj_onI) (metis option.inject ok world_records_set)
    moreover have "distinct (world_records w)"
      using world_records_distinct [OF ok] by (rule distinct_map [THEN iffD1, THEN conjunct1])
    ultimately show ?thesis
      by (simp add: distinct_map)
  qed
  then have "distinct (map fst (map (\<lambda>r. (rkey (sto_uuid X) r, r)) (world_records w)))"
    by (simp add: comp_def)
  moreover have "mset (map (\<lambda>r. (rkey (sto_uuid X) r, r)) records) = mset (map (\<lambda>r. (rkey (sto_uuid X) r, r)) (world_records w))"
    using perm by simp
  ultimately have view: "map_of (map (\<lambda>r. (rkey (sto_uuid X) r, r)) records) = world_view (sto_uuid X) w"
    unfolding world_view_def
    by (metis (no_types, lifting) map_of_inject_set mset_eq_imp_distinct_iff mset_map set_mset_mset)
  have "decodes X recs (world_view (sto_uuid X) w)" if "load_checkpoint (Revision 0) envelopes = Inr recs" for recs
    using decodes_checkpoint [OF X cp that] by (simp add: view)
  then have "holds_world X (V (ss_db st)) m envelopes row initial [] w"
    using h row zero
    by (auto simp: holds_world_def head_revision_def log_ops_def rebuild_records_def rbind_Inr_iff)
  with m initial show ?thesis
    by blast
qed

lemma holds_world_committed:
  assumes X: "store_lib_ok X" and h: "holds_world X v m envelopes row initial log w"
    and L: "env_uuid E = sto_uuid X" and sound: "world_sound E w"
    and run: "execute E w ids c = Some (Executed changes s)"
    and request: "from_execution (sto_uuid X) (sto_serde X) c changes = Inr q"
    and len: "length (cr_record_ops q) < 2 ^ 32"
    and h': "save_holds X v' m [row] initial (log @ [(q, p)])"
  shows "holds_world X v' m envelopes row initial (log @ [(q, p)]) (ex_world s)"
proof -
  have uuid: "uuid_lib_ok (env_uuid E)"
    using X by (simp add: store_lib_ok_def L)
  note ex = execute_Executed [OF uuid sound run]
  from request have ops: "record_ops (sto_uuid X) (sto_serde X) changes = Inr (cr_record_ops q)"
    and valid: "request_validate (sto_uuid X) q = Inr ()"
    by (auto simp: from_execution_def commit_request_new_def Let_def rbind_Inr_iff map_err_Inr_iff)
  have nonempty: "cr_record_ops q \<noteq> []"
    using valid by (simp add: request_validate_Inr_iff)
  from record_ops_commit [OF ops] obtain ms where
    commit: "cr_record_ops q = commit_ops (cs_revision changes) (cs_action_id changes) ms"
    and ms: "change_set_mutations (sto_uuid X) (sto_serde X) changes ms" "sorted_wrt (<) (map mutation_key ms)"
    by blast
  have ms_ok: "commit_ok (cs_action_id changes, ms)"
    using nonempty len by (cases ms) (simp_all add: commit commit_ops_def commit_ok_def)
  have old: "save_holds X v m [row] initial log" and row: "checkpoint_row_ok X (sm_save_id m) (Revision 0) envelopes row"
    and head: "head_revision log = gw_revision w"
    and replay: "\<And>r recs. rebuild_records (Revision 0) envelopes (log_ops log) = Inr (r, recs)
      \<Longrightarrow> r = gw_revision w \<and> decodes X recs (world_view (sto_uuid X) w)"
    using h by (simp_all add: holds_world_def)
  have next_rev: "unat (revision_get (gw_revision w)) + 1 < 2 ^ 64"
    "gw_revision (ex_world s) = revision_add (gw_revision w) 1"
    using ex by (simp_all add: revision_next_add)
  have head': "head_revision (log @ [(q, p)]) = gw_revision (ex_world s)"
    using next_rev(2) by (simp add: head_revision_def revision_add_add flip: head)
  have "r = gw_revision (ex_world s) \<and> decodes X recs (world_view (sto_uuid X) (ex_world s))"
    if rebuilt: "rebuild_records (Revision 0) envelopes (log_ops (log @ [(q, p)])) = Inr (r, recs)" for r recs
  proof -
    from rebuilt obtain base t t' where base: "load_checkpoint (Revision 0) envelopes = Inr base"
      and t: "rfold replay_op \<lparr>rp_records = base, rp_revision = Revision 0, rp_action = None, rp_order = 0\<rparr>
        (log_ops log) = Inr t"
      and t': "rfold replay_op t (cr_record_ops q) = Inr t'" "r = rp_revision t'" "recs = rp_records t'"
      by (auto simp: rebuild_records_def log_ops_def rfold_append rbind_Inr_iff)
    from base t have "rebuild_records (Revision 0) envelopes (log_ops log) = Inr (rp_revision t, rp_records t)"
      by (simp add: rebuild_records_def)
    from replay [OF this] have rev: "rp_revision t = gw_revision w"
      and dec: "decodes X (rp_records t) (world_view (sto_uuid X) w)"
      by simp_all
    have at: "cs_revision changes = revision_add (rp_revision t) 1"
      using ex next_rev(2) rev by simp
    from replay_commit [OF ms_ok, of t] next_rev(1) t'
    have "apply_mutations (cs_revision changes) (rp_records t) ms = Inr recs" and "r = cs_revision changes"
      by (auto simp: commit at rev rbind_Inr_iff)
    moreover have "distinct (map mutation_key ms)"
      using ms(2) by (simp add: strict_sorted_iff)
    moreover have "distinct (map (rkey (sto_uuid X)) (cs_upserts changes))"
      "world_view (sto_uuid X) (ex_world s) = applied (sto_uuid X) changes (world_view (sto_uuid X) w)"
      using ex by (simp_all add: L)
    ultimately show ?thesis
      using decodes_mutations [OF X dec ms(1)] ex by auto
  qed
  with h' row head' show ?thesis
    by (simp add: holds_world_def)
qed

lemma log_ops_after_zero: "log_ok X i log \<Longrightarrow> filter (\<lambda>op. op_revision op > Revision 0) (log_ops log) = log_ops log"
proof -
  assume log: "log_ok X i log"
  have "op_revision op > Revision 0" if op: "op \<in> set (log_ops log)" for op
  proof -
    from op_revision_bounds [OF log op] obtain n where n: "n < length log"
      "op_revision op = revision_add (Revision 0) (Suc n)"
      by blast
    moreover have "length log < 2 ^ 63"
      using log by (simp add: log_ok_def)
    ultimately show ?thesis
      using revision_add_less [of 0 "Suc n"] by simp
  qed
  then show ?thesis
    by simp
qed

lemma reload_permuted:
  assumes "world_sound E w" and "default_session_ok E w" and "mset records = mset (world_records w)"
  shows "rbind (from_records E (gw_revision w) records (gw_config w))
    (restore_session_parameters E (gw_session w)) = Inr w"
proof -
  have ok: "world_ok w"
    using assms(1) by (simp add: world_sound_def)
  let ?sorted = "sort_key (domain_sort_key (env_uuid E)) (world_records w)"
  from from_records_reload [OF ok world_sound_admissible [OF assms(1)]]
  have "from_records E (gw_revision w) records (gw_config w) = from_records E (gw_revision w) ?sorted (gw_config w)"
    using assms(3) by simp
  with rollback_restores [OF assms(1,2) project_records_eq [OF ok]] show ?thesis
    by (simp add: rollback_def)
qed

text \<open>What a load that succeeds has rebuilt.\<close>

lemma load_from_Inr:
  assumes X: "store_lib_ok X" and D: "db_ok D V" and h: "holds_world X (V d) m envelopes row initial log w"
    and run: "load_from X D m d = Inr loaded"
  shows "ld_revision loaded = gw_revision w \<and> (\<exists>recs typed. bt_ok recs
    \<and> decodes X recs (world_view (sto_uuid X) w) \<and> ld_records loaded = bt_values typed
    \<and> decode_domain_records (sto_uuid X) (sto_serde X) recs = Inr typed)"
proof -
  from h have s: "save_holds X (V d) m [row] initial log" and row: "checkpoint_row_ok X (sm_save_id m) (Revision 0) envelopes row"
    and head: "head_revision log = gw_revision w"
    and replay: "\<And>r recs. rebuild_records (Revision 0) envelopes (log_ops log) = Inr (r, recs)
      \<Longrightarrow> r = gw_revision w \<and> decodes X recs (world_view (sto_uuid X) w)"
    by (simp_all add: holds_world_def)
  have log: "log_ok X (sm_save_id m) log"
    using s by (simp add: save_holds_def)
  have "load_head X D d (store_save_id X m) = Inr x \<Longrightarrow> x = (m, head_revision log)" for x
    using load_head_holds [OF X D s] .
  with run obtain cp ops r recs typed where
    cp: "store_load_checkpoint X D d m (head_revision log) = Inr cp"
    and ops: "load_record_ops X D d m (lc_revision cp) (head_revision log) = Inr ops"
    and rebuilt: "rebuild_records (lc_revision cp) (lc_records cp) ops = Inr (r, recs)"
    and typed: "decode_domain_records (sto_uuid X) (sto_serde X) recs = Inr typed"
    and loaded: "ld_revision loaded = head_revision log" "ld_records loaded = bt_values typed"
    by (fastforce simp: load_from_def rbind_Inr_iff map_err_Inr_iff integrity_def split: if_splits prod.splits)
  from cp obtain rs where scan: "tb_all (db_checkpoints D) d = Inr rs"
    by (auto simp: store_load_checkpoint_def rbind_Inr_iff backend_Inr_iff)
  have "list_all2 (is_checkpoint X m (head_revision log)) [row] [(Revision 0, envelopes)]"
    using row by (simp add: is_checkpoint_def less_eq_revision_def)
  from load_checkpoint_holds [OF X D s this _ scan] cp
  have cp': "lc_revision cp = Revision 0" "lc_records cp = envelopes"
    by auto
  from ops obtain rs' where "tb_all (db_ops D) d = Inr rs'"
    by (auto simp: load_record_ops_def rbind_Inr_iff backend_Inr_iff)
  from load_record_ops_holds [OF X D s this, of "Revision 0"] ops have "ops = log_ops log"
    by (simp add: cp' log_ops_after_zero [OF log])
  with rebuilt have rebuilt': "rebuild_records (Revision 0) envelopes (log_ops log) = Inr (r, recs)"
    by (simp add: cp')
  then have "bt_ok recs"
    by (auto simp: rebuild_records_Inr_iff dest: load_checkpoint_ok apply_commits_ok)
  with replay [OF rebuilt'] typed loaded head show ?thesis
    by (intro conjI exI [of _ recs] exI [of _ typed]) simp_all
qed

text \<open>What a load gives of a world that a save holds, and the world it becomes in memory: the world of
  the save, with the session parameters of the one who loads it.\<close>

lemma load_of_world:
  assumes X: "store_lib_ok X" and D: "db_ok D V" and h: "holds_world X (V d) m envelopes row initial log w"
    and ok: "world_ok w" and run: "load_from X D m d = Inr loaded"
  shows "ld_revision loaded = gw_revision w \<and> mset (ld_records loaded) = mset (world_records w)"
proof -
  from load_from_Inr [OF X D h run] obtain recs typed where "ld_revision loaded = gw_revision w"
    and recs: "bt_ok recs" "decodes X recs (world_view (sto_uuid X) w)" "ld_records loaded = bt_values typed"
      "decode_domain_records (sto_uuid X) (sto_serde X) recs = Inr typed"
    by blast
  moreover have "uuid_lib_ok (sto_uuid X)"
    using X by (simp add: store_lib_ok_def)
  ultimately show ?thesis
    using decodes_world [OF _ ok recs(1,2,4)] by simp
qed

lemma reload_session:
  assumes sound: "world_sound E w" and session: "default_session_ok E w" and perm: "mset records = mset (world_records w)"
  shows "rbind (from_records E (gw_revision w) records (gw_config w)) (restore_session_parameters E p)
    = restore_session_parameters E p w"
proof -
  from reload_permuted [OF sound session perm] obtain w0
    where w0: "from_records E (gw_revision w) records (gw_config w) = Inr w0"
      and "restore_session_parameters E (gw_session w) w0 = Inr w"
    by (auto simp: rbind_Inr_iff)
  then have w: "w = w0\<lparr>gw_session := gw_session w\<rparr>"
    by (auto simp: restore_session_parameters_def rbind_Inr_iff split: if_splits)
  have "restore_session_parameters E p (w0\<lparr>gw_session := q\<rparr>) = restore_session_parameters E p w0" for q
    by (simp add: restore_session_parameters_def)
  from this [of "gw_session w"] w w0 show ?thesis
    by simp
qed

lemma restored_world:
  assumes sound: "world_sound E w" and run: "restore_session_parameters E p w = Inr w'"
  shows "w' = w\<lparr>gw_session := p\<rparr> \<and> world_sound E w'"
proof -
  from run have w': "w' = w\<lparr>gw_session := p\<rparr>"
    and "bs_of_list (bt_keys p) = expected_parameters E SessionParameter"
    and "rforeach (validate_session_value E w) p = Inr ()"
    by (auto simp: restore_session_parameters_def rbind_Inr_iff split: if_splits)
  then have "validate_world E w' = Inr ()"
    using validate_world_session_update [of E w p] sound by (simp add: world_sound_def)
  with sound w' show ?thesis
    by (simp add: world_sound_def world_ok_def transcripts_valid_def)
qed

lemma restored_own: "world_sound E w \<Longrightarrow> restore_session_parameters E (gw_session w) w = Inr w"
  using validate_world_session [of E w]
  by (simp add: world_sound_def restore_session_parameters_def)

lemma session_view [simp]: "world_view L (w\<lparr>gw_session := p\<rparr>) = world_view L w"
  by (simp add: world_view_def world_records_def)

lemma holds_world_session [simp]:
  "holds_world X v m envelopes row initial log (w\<lparr>gw_session := p\<rparr>) = holds_world X v m envelopes row initial log w"
  by (simp add: holds_world_def)

text \<open>A world that was loaded is, but for its session parameters, the world of the save.\<close>

lemma loaded_world:
  assumes X: "store_lib_ok X" and D: "db_ok D V"
    and defs: "definitions_ok (dr_definitions (env_registry E))" "plain_session_defaults E"
    and sound: "world_sound E w" and h: "holds_world X (V (ss_db st)) (ss_manifest st) envelopes row initial log w"
    and load: "store_load X D st = (Inr loaded, st')"
  shows "rbind (from_records E (ld_revision loaded) (ld_records loaded) (gw_config w)) (restore_session_parameters E p)
      = restore_session_parameters E p w"
    and "ss_manifest st' = ss_manifest st" and "ss_db st' = ss_db st"
proof -
  have "world_ok w"
    using sound by (simp add: world_sound_def)
  moreover have "load_from X D (ss_manifest st) (ss_db st) = Inr loaded"
    using load by (auto simp: store_load_def split: sum.splits)
  ultimately have "ld_revision loaded = gw_revision w \<and> mset (ld_records loaded) = mset (world_records w)"
    by (rule load_of_world [OF X D h])
  moreover have "default_session_ok E w"
    using sound by (intro default_session_ok [OF defs]) (simp add: world_sound_def)
  ultimately show "rbind (from_records E (ld_revision loaded) (ld_records loaded) (gw_config w)) (restore_session_parameters E p)
      = restore_session_parameters E p w"
    using reload_session [OF sound, of "ld_records loaded" p] by simp
  show "ss_manifest st' = ss_manifest st" and "ss_db st' = ss_db st"
    using load by (auto simp: store_load_def split: sum.splits)
qed

section \<open>Playing a game\<close>

text \<open>The worlds and saves a game passes through: it is created from the records of a first world; a
  command is executed, made a request and committed; a command is rejected; a command is executed and
  its commit gives no success, whatever the database did, so the world is loaded again, with some
  session parameters; the world is loaded again for another reason; the save is opened again. A commit
  of \<open>2 ^ 32\<close> operations cannot be replayed.\<close>

definition reloads :: "env \<Rightarrow> store_lib \<Rightarrow> 'd db_lib \<Rightarrow> world_config \<Rightarrow> 'd save_store \<Rightarrow> game_world \<Rightarrow> 'd save_store \<Rightarrow> bool" where
  "reloads E X D config st w st' \<longleftrightarrow> (\<exists>loaded p. store_load X D st = (Inr loaded, st')
     \<and> rbind (from_records E (ld_revision loaded) (ld_records loaded) config) (restore_session_parameters E p) = Inr w)"

inductive played :: "env \<Rightarrow> store_lib \<Rightarrow> 'd db_lib \<Rightarrow> save_manifest \<Rightarrow> game_world \<Rightarrow> game_world \<Rightarrow> 'd save_store \<Rightarrow> bool"
  for E X D m w0 where
  created: "store_create X D b m records = Inr st \<Longrightarrow> project_records E w0 = Inr records \<Longrightarrow> played E X D m w0 w0 st"
| committed: "played E X D m w0 w st \<Longrightarrow> execute E w ids c = Some (Executed changes s)
    \<Longrightarrow> from_execution (sto_uuid X) (sto_serde X) c changes = Inr q \<Longrightarrow> length (cr_record_ops q) < 2 ^ 32
    \<Longrightarrow> store_commit X D q st = (Inr (CommitDone out), st') \<Longrightarrow> played E X D m w0 (ex_world s) st'"
| rejected: "played E X D m w0 w st \<Longrightarrow> execute E w ids c = Some (Rejected e w') \<Longrightarrow> played E X D m w0 w' st"
| recovered: "played E X D m w0 w st \<Longrightarrow> execute E w ids c = Some (Executed changes s)
    \<Longrightarrow> from_execution (sto_uuid X) (sto_serde X) c changes = Inr q \<Longrightarrow> length (cr_record_ops q) < 2 ^ 32
    \<Longrightarrow> store_commit X D q st = (res, st1) \<Longrightarrow> (\<forall>out. res \<noteq> Inr (CommitDone out))
    \<Longrightarrow> reloads E X D (gw_config w) st1 w' st' \<Longrightarrow> played E X D m w0 w' st'"
| reloaded: "played E X D m w0 w st \<Longrightarrow> reloads E X D (gw_config w) st w' st' \<Longrightarrow> played E X D m w0 w' st'"
| reopened: "played E X D m w0 w st \<Longrightarrow> from_driver X D (ss_db st) = Inr st' \<Longrightarrow> played E X D m w0 w st'"

text \<open>Other connections that serve the save are games of the same program: what a serialization failure
  leaves is what they made of it, by executing commands and committing them.\<close>

inductive others_play :: "env \<Rightarrow> store_lib \<Rightarrow> ('d \<Rightarrow> tables) \<Rightarrow> save_manifest \<Rightarrow> game_world \<Rightarrow> 'd
    \<Rightarrow> game_world \<Rightarrow> 'd \<Rightarrow> bool" for E X V m w d where
  play_none: "V d' = V d \<Longrightarrow> others_play E X V m w d w d'"
| play_one: "others_play E X V m w d w1 (ss_db st) \<Longrightarrow> ss_manifest st = m \<Longrightarrow> db_ok D V
    \<Longrightarrow> execute E w1 ids c = Some (Executed changes s)
    \<Longrightarrow> from_execution (sto_uuid X) (sto_serde X) c changes = Inr q \<Longrightarrow> length (cr_record_ops q) < 2 ^ 32
    \<Longrightarrow> store_commit X D q st = (res, st') \<Longrightarrow> \<not> commit_failed D st SerializationFailure st'
    \<Longrightarrow> V d' = V (ss_db st') \<Longrightarrow> V d' \<noteq> V (ss_db st) \<Longrightarrow> others_play E X V m w d (ex_world s) d'"

definition others_serve :: "env \<Rightarrow> store_lib \<Rightarrow> 'd db_lib \<Rightarrow> ('d \<Rightarrow> tables) \<Rightarrow> bool" where
  "others_serve E X D V \<longleftrightarrow> (\<forall>d tx d' m envelopes row initial log w.
     db_commit D d tx = (Some SerializationFailure, d') \<and> world_sound E w
     \<and> holds_world X (V d) m envelopes row initial log w \<longrightarrow> (\<exists>w'. others_play E X V m w d w' d'))"

text \<open>What a save holds after the commit of a request that was executed, when no other connection won.\<close>

lemma commit_alone_leaves_world:
  assumes X: "store_lib_ok X" and D: "db_ok D V" and L: "env_uuid E = sto_uuid X"
    and sound: "world_sound E w" and h: "holds_world X (V (ss_db st)) (ss_manifest st) envelopes row initial log w"
    and ex: "execute E w ids c = Some (Executed changes s)"
    and request: "from_execution (sto_uuid X) (sto_serde X) c changes = Inr q"
    and len: "length (cr_record_ops q) < 2 ^ 32"
    and run: "store_commit X D q st = (res, st')" and alone: "\<not> commit_failed D st SerializationFailure st'"
  shows "V (ss_db st') = V (ss_db st)
    \<or> (\<exists>p. holds_world X (V (ss_db st')) (ss_manifest st) envelopes row initial (log @ [(q, p)]) (ex_world s))"
proof -
  have s: "save_holds X (V (ss_db st)) (ss_manifest st) [row] initial log"
    using h by (simp add: holds_world_def)
  have written: "\<exists>p. holds_world X (V d) (ss_manifest st) envelopes row initial (log @ [(q, p)]) (ex_world s)"
    if "appends X V (ss_manifest st) [row] initial log q d" for d
    using that holds_world_committed [OF X h L sound ex request len] unfolding appends_def by blast
  with store_commit_outcomes [OF X D s run] alone show ?thesis
    by blast
qed

lemma others_play_holds:
  assumes X: "store_lib_ok X" and L: "env_uuid E = sto_uuid X" and run: "others_play E X V m w d w' d'"
    and sound: "world_sound E w" and h: "holds_world X (V d) m envelopes row initial log w"
  shows "world_sound E w' \<and> gw_config w' = gw_config w
    \<and> (\<exists>more. holds_world X (V d') m envelopes row initial (log @ more) w')"
  using run
proof induction
  case (play_none d')
  with h have "holds_world X (V d') m envelopes row initial (log @ []) w"
    by simp
  with sound show ?case
    by blast
next
  case (play_one w1 st D ids c changes s q res st' d')
  then obtain more where sound1: "world_sound E w1" and config: "gw_config w1 = gw_config w"
    and h1: "holds_world X (V (ss_db st)) (ss_manifest st) envelopes row initial (log @ more) w1"
    by blast
  have "uuid_lib_ok (env_uuid E)"
    using X by (simp add: store_lib_ok_def L)
  note executed = execute_Executed [OF this sound1 play_one(4)]
  from commit_alone_leaves_world [OF X play_one(3) L sound1 h1 play_one(4-8)] play_one(2,9,10) obtain p where
    "holds_world X (V d') m envelopes row initial (log @ (more @ [(q, p)])) (ex_world s)"
    by auto
  with executed config show ?case
    by auto
qed

text \<open>What a save holds after the commit of a request that was executed: the executed world, the world
  before, or, after a serialization failure, one that others left.\<close>

lemma commit_leaves_world:
  assumes X: "store_lib_ok X" and D: "db_ok D V" and L: "env_uuid E = sto_uuid X" and others: "others_serve E X D V"
    and sound: "world_sound E w" and h: "holds_world X (V (ss_db st)) (ss_manifest st) envelopes row initial log w"
    and ex: "execute E w ids c = Some (Executed changes s)"
    and request: "from_execution (sto_uuid X) (sto_serde X) c changes = Inr q"
    and len: "length (cr_record_ops q) < 2 ^ 32"
    and run: "store_commit X D q st = (res, st')"
  shows "ss_manifest st' = ss_manifest st \<and> world_sound E (ex_world s) \<and> gw_config (ex_world s) = gw_config w
    \<and> ((res = Inr (CommitDone (cr_safe_outcome q))
          \<or> res = Inl (Backend ''commit durable transaction'')
            \<and> (\<exists>e. commit_failed D st e st' \<and> e \<noteq> SerializationFailure))
          \<and> (\<exists>p. holds_world X (V (ss_db st')) (ss_manifest st) envelopes row initial (log @ [(q, p)]) (ex_world s))
      \<or> commit_answer X log q res \<and> V (ss_db st') = V (ss_db st)
      \<or> commit_failed D st SerializationFailure st' \<and> ((\<exists>e. res = Inl e) \<or> (\<exists>e a. res = Inr (CommitConflict e a)))
          \<and> (\<exists>more w'. world_sound E w' \<and> gw_config w' = gw_config w
               \<and> holds_world X (V (ss_db st')) (ss_manifest st) envelopes row initial (log @ more) w'))"
proof -
  have "uuid_lib_ok (env_uuid E)"
    using X by (simp add: store_lib_ok_def L)
  note executed = execute_Executed [OF this sound ex]
  have s: "save_holds X (V (ss_db st)) (ss_manifest st) [row] initial log"
    using h by (simp add: holds_world_def)
  have written: "\<exists>p. holds_world X (V d) (ss_manifest st) envelopes row initial (log @ [(q, p)]) (ex_world s)"
    if "appends X V (ss_manifest st) [row] initial log q d" for d
    using that holds_world_committed [OF X h L sound ex request len] unfolding appends_def by blast
  have left: "\<exists>more w'. world_sound E w' \<and> gw_config w' = gw_config w
      \<and> holds_world X (V (ss_db st')) (ss_manifest st) envelopes row initial (log @ more) w'"
    if "commit_failed D st SerializationFailure st'"
    using that others sound h others_play_holds [where V = V and d = "ss_db st", OF X L _ sound h]
    unfolding commit_failed_def others_serve_def by metis
  have "(\<exists>e. res = Inl e) \<or> (\<exists>e a. res = Inr (CommitConflict e a))"
    if "case load_head X D (ss_db st') (store_save_id X (ss_manifest st)) of
         Inl e \<Rightarrow> res = Inl e
       | Inr (_, actual) \<Rightarrow> res = Inr (CommitConflict (wc_expected_revision (cr_command q)) actual)
           \<and> ss_revision st' = actual"
    using that by (auto split: sum.splits)
  with store_commit_outcomes [OF X D s run] written left executed show ?thesis
    by blast
qed

lemma played_holds:
  assumes X: "store_lib_ok X" and D: "db_ok D V" and L: "env_uuid E = sto_uuid X" and others: "others_serve E X D V"
    and defs: "definitions_ok (dr_definitions (env_registry E))" and plain: "plain_session_defaults E"
    and w0: "world_sound E w0" "gw_revision w0 = Revision 0" and run: "played E X D m w0 w st"
  shows "world_sound E w \<and> gw_config w = gw_config w0 \<and> ss_manifest st = m
    \<and> (\<exists>envelopes row initial log. holds_world X (V (ss_db st)) m envelopes row initial log w)"
  using run
proof induction
  case (created b records st)
  have "world_ok w0"
    using w0(1) by (simp add: world_sound_def)
  from holds_world_created [OF X D this L created w0(2)] w0(1) show ?case
    by blast
next
  case (committed w st ids c changes s q out st')
  then obtain envelopes row initial log where sound: "world_sound E w" and m: "ss_manifest st = m"
    and h: "holds_world X (V (ss_db st)) (ss_manifest st) envelopes row initial log w"
    by blast
  from commit_leaves_world [OF X D L others sound h committed.hyps(2-5)] committed.IH show ?case
    by (auto simp: m commit_answer_def)
next
  case (rejected w st ids c e w')
  have "default_session_ok E w"
    using rejected.IH by (intro default_session_ok [OF defs plain]) (simp add: world_sound_def)
  with execute_Rejected [of E w ids c "Rejected e w'"] rejected have "w' = w"
    by auto
  with rejected.IH show ?case
    by simp
next
  case (recovered w st ids c changes s q res st1 w' st')
  then obtain envelopes row initial log where sound: "world_sound E w" and m: "ss_manifest st = m"
    and h: "holds_world X (V (ss_db st)) (ss_manifest st) envelopes row initial log w"
    by blast
  from commit_leaves_world [OF X D L others sound h recovered.hyps(2-5)] sound h
  obtain log' v where m1: "ss_manifest st1 = m" and v: "world_sound E v" "gw_config v = gw_config w"
    and held: "holds_world X (V (ss_db st1)) (ss_manifest st1) envelopes row initial log' v"
    by (auto simp: m)
  from recovered.hyps(7) obtain loaded p where load: "store_load X D st1 = (Inr loaded, st')"
    and w': "rbind (from_records E (ld_revision loaded) (ld_records loaded) (gw_config v)) (restore_session_parameters E p) = Inr w'"
    by (auto simp: reloads_def v(2))
  note loaded = loaded_world [OF X D defs plain v(1) held load]
  from w' loaded(1) [of p] restored_world [OF v(1), of p w'] held loaded(2,3) m1 v(2) recovered.IH show ?case
    by auto
next
  case (reloaded w st w' st')
  then obtain envelopes row initial log where sound: "world_sound E w"
    and h: "holds_world X (V (ss_db st)) (ss_manifest st) envelopes row initial log w"
    by blast
  from reloaded.hyps(2) obtain loaded p where load: "store_load X D st = (Inr loaded, st')"
    and w': "rbind (from_records E (ld_revision loaded) (ld_records loaded) (gw_config w)) (restore_session_parameters E p) = Inr w'"
    by (auto simp: reloads_def)
  note loaded = loaded_world [OF X D defs plain sound h load]
  from w' loaded(1) [of p] restored_world [OF sound, of p w'] h loaded(2,3) reloaded.IH show ?case
    by auto
next
  case (reopened w st st')
  then obtain envelopes row initial log where
    h: "holds_world X (V (ss_db st)) m envelopes row initial log w"
    by blast
  then have "save_holds X (V (ss_db st)) m [row] initial log"
    by (simp add: holds_world_def)
  from from_driver_holds [OF X D this reopened.hyps(2)] reopened.IH show ?case
    by simp
qed

end
