(* ===== verification/Store_Fresh.thy ===== *)
theory Store_Fresh
  imports Durable_World
begin

text \<open>
  A save that was just created loads: with no log the load is the checkpoint of the initial records.
\<close>

lemma map_filter_mset: "mset xs = mset ys \<Longrightarrow> mset (List.map_filter f xs) = mset (List.map_filter f ys)"
  unfolding List.map_filter_def by (metis mset_filter mset_map)

lemma distinct_map_permuted: "mset xs = mset ys \<Longrightarrow> distinct (map f ys) \<Longrightarrow> distinct (map f xs)"
  by (metis mset_eq_imp_distinct_iff mset_map)

lemma bt_of_list_distinct:
  assumes "distinct (map fst ps)"
  shows "mset (bt_of_list ps) = mset ps"
proof -
  have ok: "bt_ok (bt_of_list ps)"
    by (rule bt_ok_of_list)
  have "p \<in> set (bt_of_list ps) \<longleftrightarrow> p \<in> set ps" for p
    using bt_get_of_list [OF assms, of "fst p"] bt_ok_get_iff [OF ok, of "fst p" "snd p"] assms
    by (cases p) (auto simp: map_of_eq_Some_iff)
  then have "set (bt_of_list ps) = set ps"
    by blast
  moreover have "distinct (bt_of_list ps)" "distinct ps"
    using bt_ok_distinct [OF ok] assms by (simp_all add: distinct_map)
  ultimately show ?thesis
    by (simp add: set_eq_iff_mset_eq_distinct)
qed

lemma transcript_projection_ok:
  assumes ids: "distinct (map tr_id (upserted_transcripts records))"
    and perm: "mset typed = mset records"
  shows "validate_transcript_projection typed
    (latest_transcripts (log_transcripts (upserted_transcripts records) [])) = Inr ()"
proof -
  let ?vs = "upserted_transcripts records" and ?us = "upserted_transcripts typed"
  let ?versions = "map (Pair (Revision 0)) ?vs"
  let ?pairs = "map (\<lambda>(_, v). (tr_id v, v)) (sort_key version_position ?versions)"
  have us: "mset ?us = mset ?vs"
    unfolding upserted_transcripts_def by (rule map_filter_mset [OF perm])
  have pairs: "mset ?pairs = mset (map (\<lambda>v. (tr_id v, v)) ?vs)"
  proof -
    have "mset ?pairs = image_mset (\<lambda>(_, v). (tr_id v, v)) (mset ?versions)"
      by (simp only: mset_map mset_sort)
    also have "\<dots> = mset (map (\<lambda>v. (tr_id v, v)) ?vs)"
      by (simp add: image_mset.compositionality comp_def)
    finally show ?thesis .
  qed
  have dv: "distinct (map fst (map (\<lambda>v. (tr_id v, v)) ?vs))"
    using ids by (simp add: comp_def)
  have dp: "distinct (map fst ?pairs)"
    by (rule distinct_map_permuted [OF pairs dv])
  have du: "distinct (map fst (map (\<lambda>v. (tr_id v, v)) ?us))"
    using distinct_map_permuted [OF us ids] by (simp add: comp_def)
  have latest: "mset (latest_transcripts (log_transcripts ?vs [])) = mset ?vs"
    using bt_of_list_distinct [OF dp] pairs
    by (simp add: latest_transcripts_def log_transcripts_def bt_values_def image_mset.compositionality comp_def)
  have "length (bt_of_list (map (\<lambda>v. (tr_id v, v)) ?us)) = length (latest_transcripts (log_transcripts ?vs []))"
    using bt_of_list_distinct [OF du] latest us by (metis length_map mset_eq_length)
  moreover have "bt_get (tr_id v) (bt_of_list (map (\<lambda>v. (tr_id v, v)) ?us)) = Some v"
    if "v \<in> set (latest_transcripts (log_transcripts ?vs []))" for v
  proof -
    have "v \<in> set ?us"
      using that latest us by (metis set_mset_mset)
    with du show ?thesis
      by (auto simp: bt_get_of_list [OF du] map_of_eq_Some_iff)
  qed
  ultimately show ?thesis
    by (auto simp: validate_transcript_projection_def Let_def list_ex_iff)
qed

lemma checkpoint_loads:
  assumes cp: "checkpoint_records X records (Revision 0) = Inr (envelopes, ts)"
  shows "\<exists>recs. load_checkpoint (Revision 0) envelopes = Inr recs"
proof -
  from checkpoint_records_Inr(3) [OF cp] obtain es
    where es: "list_all2 (\<lambda>rec e. to_envelope (sto_uuid X) (sto_serde X) rec (Revision 0) None = Inr e) records es"
      and env: "envelopes = sort_key envelope_key es" and d: "distinct (map envelope_key envelopes)"
    by blast
  have "re_revision e \<le> Revision 0" if "e \<in> set envelopes" for e
    using list_all2_in_right [OF es, of e] that by (auto simp: env dest!: to_envelope_key)
  with d show ?thesis
    by (auto simp: load_checkpoint_Inr_iff)
qed

lemma created_loads:
  assumes X: "store_lib_ok X" and D: "db_ok D V" and run: "store_create X D b m records = Inr s"
    and v7: "\<forall>v\<in>set (upserted_transcripts records). is_uuid_v7 (sto_uuid X) (as_uuid (tr_id v))"
    and reads: "readable D V (ss_db s)"
  shows "\<exists>loaded. store_load X D s = (Inr loaded, s) \<and> ld_manifest loaded = m
    \<and> ld_revision loaded = Revision 0 \<and> mset (ld_records loaded) = mset records \<and> ld_events loaded = []"
proof -
  let ?L = "sto_uuid X" and ?S = "sto_serde X"
  from store_create_holds [OF X D run] obtain envelopes row initial where m: "ss_manifest s = m"
    and rev: "ss_revision s = Revision 0" and wid: "validate_world_identity m records = Inr ()"
    and cp: "checkpoint_records X records (Revision 0) = Inr (envelopes, upserted_transcripts records)"
    and initial: "prepare_transcripts X (store_save_id X m) (Revision 0) (upserted_transcripts records) True = Inr initial"
    and row: "checkpoint_row_ok X (sm_save_id m) (Revision 0) envelopes row"
    and h: "save_holds X (V (ss_db s)) m [row] initial []"
    by blast
  from checkpoint_records_Inr(3) [OF cp] obtain es
    where es: "list_all2 (\<lambda>rec e. to_envelope ?L ?S rec (Revision 0) None = Inr e) records es"
      and env: "envelopes = sort_key envelope_key es" and d: "distinct (map envelope_key envelopes)"
    by blast
  obtain recs where base: "load_checkpoint (Revision 0) envelopes = Inr recs"
    using checkpoint_loads [OF cp] by blast
  have all: "mset recs = mset (map (\<lambda>e. (envelope_key e, e)) envelopes)"
    using base d by (simp add: load_checkpoint_Inr_iff bt_of_list_distinct comp_def)
  have S: "serde_lib_ok ?S" and L: "uuid_lib_ok ?L"
    using X by (simp_all add: store_lib_ok_def)
  define dec where "dec e = projr (from_envelope ?L ?S e)" for e
  have dec: "from_envelope ?L ?S e = Inr (dec e)" if "e \<in> set es" for e
    using list_all2_in_right [OF es that] to_from_envelope [OF S] by (auto simp: dec_def)
  have "set recs = (\<lambda>e. (envelope_key e, e)) ` set es"
    using all by (metis env list.set_map set_mset_mset set_sort)
  with dec have "decode_domain_records ?L ?S recs = Inr (map (\<lambda>(k, e). (k, dec e)) recs)"
    by (auto simp: decode_domain_records_def rmapM_Inr_iff list_all2_map2 list_all2_same)
  moreover define typed where "typed = map (\<lambda>(k, e). (k, dec e)) recs"
  ultimately have decode: "decode_domain_records ?L ?S recs = Inr typed"
    by simp
  have "map dec es = records"
    using es by (induction rule: list_all2_induct) (auto simp: dec_def dest: to_from_envelope [OF S])
  have "mset (bt_values typed) = mset (map (dec \<circ> snd) recs)"
    by (simp add: typed_def bt_values_def comp_def case_prod_beta)
  also have "\<dots> = image_mset (dec \<circ> snd) (mset (map (\<lambda>e. (envelope_key e, e)) envelopes))"
    using all by (metis mset_map)
  also have "\<dots> = mset (map dec es)"
    by (simp add: env image_mset.compositionality comp_def)
  finally have perm: "mset (bt_values typed) = mset records"
    by (simp add: \<open>map dec es = records\<close>)
  have "mset (List.map_filter (\<lambda>r. case r of WorldStateRec st \<Rightarrow> Some (ws_id st) | _ \<Rightarrow> None) (bt_values typed))
      = {#sm_world_id m#}"
    using map_filter_mset [OF perm, of "\<lambda>r. case r of WorldStateRec st \<Rightarrow> Some (ws_id st) | _ \<Rightarrow> None"] wid
    by (simp add: validate_world_identity_def integrity_def split: if_splits)
  then have wid': "validate_world_identity m (bt_values typed) = Inr ()"
    by (simp add: validate_world_identity_def)
  have "distinct (map tr_id (upserted_transcripts records))"
  proof -
    have "map envelope_key es = map (rkey ?L) records"
      using es by (induction rule: list_all2_induct) (auto dest!: to_envelope_key key_rkey)
    then have "distinct (map (rkey ?L) records)"
      using d by (metis env mset_eq_imp_distinct_iff mset_map mset_sort)
    then show ?thesis
      by (induction records)
        (auto simp: upserted_transcripts_def List.map_filter_def rkey_def image_iff split: domain_record.splits)
  qed
  note proj = transcript_projection_ok [OF this perm]
  have "replay_save X m (upserted_transcripts records) [] (Revision 0, envelopes)
      = Inr \<lparr>ld_manifest = m, ld_revision = Revision 0, ld_records = bt_values typed, ld_events = [],
          ld_transcripts = latest_transcripts (log_transcripts (upserted_transcripts records) [])\<rparr>"
    using base decode wid' proj
    by (simp add: replay_save_def Let_def log_ops_def log_events_def rebuild_records_def head_revision_def)
  moreover have "list_all2 (is_checkpoint X m (head_revision [])) [row] [(Revision 0, envelopes)]"
    using row by (simp add: is_checkpoint_def head_revision_def)
  moreover have "log_ids_ok X (upserted_transcripts records) []"
    using v7 by (auto simp: log_ids_ok_def log_events_def log_transcripts_def)
  ultimately have "load_from X D m (ss_db s)
      = Inr \<lparr>ld_manifest = m, ld_revision = Revision 0, ld_records = bt_values typed, ld_events = [],
          ld_transcripts = latest_transcripts (log_transcripts (upserted_transcripts records) [])\<rparr>"
    using load_from_holds [OF X D h initial _ _ _ reads, of "[(Revision 0, envelopes)]"] by auto
  with perm m rev show ?thesis
    by (auto simp: store_load_def)
qed

end
