(* ===== verification/Durable_Example.thy ===== *)
theory Durable_Example
  imports Store_Fresh
begin

text \<open>
  The small world of \<open>World_Example\<close> in a save, and a command in it that puts the coins into the pouch,
  executed and committed, for the witnesses. The serialisers know the records of the world and what
  the commit stores.
\<close>

section \<open>A command\<close>

abbreviation demo_new :: game_world where
  "demo_new \<equiv> demo_world (Revision 0) demo_hall demo_root (demo_rule_state 0 None)"

definition put_command :: world_command where
  "put_command = demo_command (TransferItem demo_coin demo_pouch)\<lparr>wc_expected_revision := Revision 0\<rparr>"

abbreviation put_world :: game_world where
  "put_world \<equiv> demo_world (Revision 1) demo_hall demo_pouch (demo_rule_state 0 None)"

definition put_event :: world_event where
  "put_event = \<lparr>we_id = RuntimeId (shd demo_ids), we_action_id = RuntimeId 40, we_actor_id = demo_player,
     we_revision = Revision 1, we_kind = ItemTransferred demo_coin demo_root demo_pouch\<rparr>"

definition put_changes :: execution_change_set where
  "put_changes = \<lparr>cs_action_id = RuntimeId 40, cs_expected_revision = Revision 0, cs_revision = Revision 1,
     cs_upserts = [ItemRec (demo_coins demo_pouch)], cs_deletes = [], cs_events = [put_event],
     cs_safe_summary = BoundedText ''item transferred''\<rparr>"

lemma demo_items:
  "items (demo_world r l p (demo_rule_state n fired)) = [demo_bag, demo_coins p, demo_pouch_record]"
  by (simp add: items_def world_items_def select_def List.map_filter_def demo_objects demo_entity_def
      demo_records_def demo_scene_def demo_place_def demo_character_def demo_burning_record_def demo_rule_state_def)

lemma demo_parents: "it_contained_by demo_bag = None" "it_contained_by (demo_coins p) = Some p"
  "it_contained_by demo_pouch_record = Some demo_root"
  by (simp_all add: demo_record_defs)

lemma demo_owned: "it_owned_by demo_bag = Some demo_player" "it_owned_by (demo_coins p) = Some demo_player"
  "it_owned_by demo_pouch_record = Some demo_player" "it_id (demo_coins p) = demo_coin"
  "it_container demo_pouch_record = Some \<lparr>cont_max_weight_grams = Fixed 50000000, cont_max_children = 2\<rparr>"
  by (simp_all add: demo_record_defs)

lemma coins_arith: "from_integer 3 = Inr (Fixed 3000000)" "fixed_mul (Fixed 5000000) (Fixed 3000000) = Inr (Fixed 15000000)"
  "fixed_add fixed_zero (Fixed 15000000) = Inr (Fixed 15000000)" "\<not> Fixed 50000000 < Fixed 15000000"
  by code_simp+

lemma coins_weight: "item_own_weight demo_env (demo_coins p) = Inr (Fixed 15000000)"
  by (simp add: item_own_weight_def demo_coins_def demo_item_def item_definition_def definition_of_def
      demo_item_def_def coins_arith)

lemma put_checks: "transfer_checks demo_env demo_player demo_coin demo_pouch demo_new = Inr (demo_coins demo_root, demo_root)"
  by (simp add: transfer_checks_def demo_owned demo_parents children_def demo_items container_weight_def
      world_item_weight_def item_tree_weight.simps bs_contains_def coins_weight ensure_no_container_cycle_def coins_arith)

definition put_parts :: change_parts where
  "put_parts = \<lparr>cp_upserts = [ItemRec (demo_coins demo_pouch)], cp_deletes = [], cp_events = [put_event],
     cp_summary = BoundedText ''item transferred''\<rparr>"

abbreviation put_tx :: tx where
  "put_tx \<equiv> (RuntimeId 40, Revision 1)"

lemma moved_coins: "demo_coins p\<lparr>it_contained_by := Some p', it_located_at := None\<rparr> = demo_coins p'"
  by (simp add: demo_coins_def demo_item_def)

lemma put_transfer:
  "transfer_item demo_env put_tx demo_player demo_coin demo_pouch (start_exec demo_new demo_ids)
    = Inr (put_parts, start_exec (demo_world (Revision 0) demo_hall demo_pouch (demo_rule_state 0 None)) (stl demo_ids))"
  by (simp add: transfer_item_def put_checks finish_def run_defs put_parts_def put_event_def moved_coins
      demo_put(2) [unfolded moved_coins])
    (simp add: start_exec_def demo_put(2) [unfolded moved_coins])

lemma put_candidates: "candidates demo_env (WorldEventSignal (BoundedText ''item_transferred'') d) w = Inr []"
  by (simp add: candidates_def demo_definitions_eq demo_definitions_def demo_item_def_def add_candidate_def
      demo_rule_def Let_def)

lemma put_rules:
  "run_rules demo_env put_tx demo_player put_parts (start_exec w ids)
    = Inr ((), start_exec w ids\<lparr>ex_upserts := [ItemRec (demo_coins demo_pouch)], ex_events := [put_event]\<rparr>)"
  by (simp add: run_rules_def run_declarative_rules_def put_parts_def put_event_def run_defs start_exec_def
      enqueue_events_def event_signals_def world_event_type_def process_signal_def put_candidates)

definition put_exec :: exec where
  "put_exec = start_exec put_world (stl demo_ids)
     \<lparr>ex_upserts := [ItemRec (demo_coins demo_pouch)], ex_events := [put_event]\<rparr>"

lemma put_exec_world [simp]: "ex_world put_exec = put_world"
  by (simp add: put_exec_def start_exec_def)

lemma put_executes: "execute demo_env demo_new demo_ids put_command = Some (Executed put_changes put_exec)"
proof -
  have "\<exists>records. project_records demo_env demo_new = Inr records"
    using project_records_eq [OF demo_world_ok] by blast
  moreover obtain k where "key hex_uuid_lib (ItemRec (demo_coins demo_pouch)) = Inr k"
    using key_hex_object [of "ItemRec (demo_coins demo_pouch)"] by auto
  then have "coalesce_upserts hex_uuid_lib [ItemRec (demo_coins demo_pouch)] = Inr [ItemRec (demo_coins demo_pouch)]"
    by (simp add: coalesce_upserts_def bt_insert_def bt_remove_def bt_values_def)
  then have "seal demo_env put_tx (Revision 0) put_parts
      (start_exec (demo_world (Revision 0) demo_hall demo_pouch (demo_rule_state 0 None)) (stl demo_ids)
        \<lparr>ex_upserts := [ItemRec (demo_coins demo_pouch)], ex_events := [put_event]\<rparr>)
    = Inr (put_changes, put_exec)"
    using demo_valid [of demo_hall demo_pouch]
    by (simp add: put_exec_def seal_def run_defs start_exec_def put_changes_def put_parts_def)
  ultimately show ?thesis
    by (auto simp: execute_def execute_inner_def then_run_def run_then_def put_command_def demo_command_def query_def
        slift_def revision_next_def checked_add_def Let_def ret_def sbind_def put_transfer put_rules)
qed

section \<open>The small world in a save\<close>

lemma table_codec_distinct:
  assumes "distinct (map snd ps)"
  shows "codec_ok (table_codec ps)"
proof -
  have "map_of (map (\<lambda>(x, v). (v, x)) ps) v = Some x" if "map_of ps x = Some v" for x v
  proof -
    have "(v, x) \<in> set (map (\<lambda>(x, v). (v, x)) ps)"
      using map_of_SomeD [OF that] by force
    moreover have "distinct (map fst (map (\<lambda>(x, v). (v, x)) ps))"
      using assms by (simp add: comp_def case_prod_beta)
    ultimately show ?thesis
      by (simp add: map_of_eq_Some_iff)
  qed
  then show ?thesis
    by (auto simp: codec_ok_def table_codec_def split: option.splits)
qed

definition tag_json :: "nat \<Rightarrow> json" where
  "tag_json n = JObject [(''n'', JNumber n)]"

definition world_serde :: serde_lib where
  "world_serde = sample_serde\<lparr>
     sl_world_state := table_codec [(gw_state demo_new, tag_json 0)],
     sl_scene := table_codec [(demo_scene, tag_json 0)],
     sl_place := table_codec [(demo_place demo_hall demo_yard, tag_json 0), (demo_place demo_yard demo_hall, tag_json 1)],
     sl_character := table_codec [(demo_character demo_hall, tag_json 0)],
     sl_item := table_codec [(demo_bag, tag_json 0), (demo_coins demo_root, tag_json 1), (demo_pouch_record, tag_json 2),
       (demo_coins demo_pouch, tag_json 3)],
     sl_condition := table_codec [(demo_burning_record, tag_json 0)],
     sl_rule_state := table_codec [(demo_rule_state 0 None, tag_json 0)]\<rparr>"

lemma world_serde_ok: "serde_lib_ok world_serde"
  using sample_serde_ok
  by (auto simp: serde_lib_ok_def world_serde_def tag_json_def intro!: table_codec_distinct)

text \<open>The envelopes of the first world, the request of the command, and the library that knows them.\<close>

definition world_envelopes :: "record_envelope list" where
  "world_envelopes = sort_key envelope_key (map (\<lambda>r. projr (to_envelope hex_uuid_lib world_serde r (Revision 0) None))
     (sort_key (domain_sort_key hex_uuid_lib) (world_records demo_new)))"

definition world_manifest :: save_manifest where
  "world_manifest = demo_manifest\<lparr>sm_world_id := RuntimeId 1\<rparr>"

definition put_envelope :: record_envelope where
  "put_envelope = projr (to_envelope hex_uuid_lib world_serde (ItemRec (demo_coins demo_pouch)) (Revision 1)
     (change_set_provenance put_changes))"

definition put_op :: versioned_record_op where
  "put_op = \<lparr>op_revision = Revision 1, op_action_id = RuntimeId 40, op_order = 0, op_mutation = Upsert put_envelope\<rparr>"

definition put_outcome :: committed_action where
  "put_outcome = \<lparr>ca_action_id = RuntimeId 40, ca_revision = Revision 1, ca_event_ids = [we_id put_event],
     ca_safe_summary = BoundedText ''item transferred''\<rparr>"

definition put_request :: commit_request where
  "put_request = \<lparr>cr_command = put_command, cr_record_ops = [put_op], cr_events = [put_event],
     cr_transcripts = [], cr_safe_outcome = put_outcome\<rparr>"

definition world_store_lib :: store_lib where
  "world_store_lib = demo_store_lib\<lparr>sto_serde := world_serde, sto_manifest := table_codec [(world_manifest, JNull)],
     sto_envelopes := table_codec [(world_envelopes, JNull)], sto_operation := table_codec [(put_op, JNull)],
     sto_event := table_codec [(put_event, JNull)], sto_command := table_codec [(put_command, JNull)],
     sto_outcome := table_codec [(put_outcome, JNull)]\<rparr>"

lemma world_store_lib_ok: "store_lib_ok world_store_lib"
  using demo_store_lib_ok world_serde_ok
  by (simp add: store_lib_ok_def world_store_lib_def table_codec_ok)

lemma demo_new_sound: "world_sound demo_env demo_new"
  by (rule demo_sound) simp_all

lemma demo_new_records: "world_records demo_new = WorldStateRec (gw_state demo_new)
    # demo_records demo_hall demo_root (demo_rule_state 0 None)"
  by (simp add: world_records_def demo_objects bt_values_def demo_entity_def comp_def)

lemma put_world_records: "world_records put_world = WorldStateRec (gw_state put_world)
    # demo_records demo_hall demo_pouch (demo_rule_state 0 None)"
  by (simp add: world_records_def demo_objects bt_values_def demo_entity_def comp_def)

lemma world_to_envelope:
  assumes "r \<in> set (world_records demo_new)"
  shows "\<exists>e. to_envelope hex_uuid_lib world_serde r (Revision 0) None = Inr e"
proof -
  have "domain_validate r = Inr ()"
    using world_sound_admissible [OF demo_new_sound] assms by (auto simp: list_all_iff admissible_def)
  moreover have "\<exists>n. encode_record world_serde r = Inr (tag_json n)"
    using assms by (auto simp: demo_new_records demo_records_def world_serde_def table_codec_def encode_def
        demo_place_def demo_item_def demo_bag_def demo_coins_def demo_pouch_record_def)
  moreover have "is_ok (record_id_parse (record_id_text hex_uuid_lib r))"
    using assms hex_prefixed_id [of OBJ] hex_prefixed_id [of WLD]
    by (auto simp: demo_new_records demo_records_def OBJ_def WLD_def is_ascii_lowercase_def byte_def)
  moreover have "validate_payload (sl_numbers world_serde) (tag_json n) = Inr ()" for n
    by (simp add: validate_payload_def tag_json_def world_serde_def sample_serde_def)
  ultimately show ?thesis
    by (auto simp: to_envelope_Inr_iff key_Inr_iff)
qed

lemma adjacent_differ: "distinct (map f xs) \<Longrightarrow> \<not> list_ex (\<lambda>(a, b). f a = f b) (zip xs (tl xs))"
proof (induction xs)
  case (Cons x xs)
  then show ?case
    by (cases xs) auto
qed simp

definition demo_new_list :: "domain_record list" where
  "demo_new_list = sort_key (domain_sort_key hex_uuid_lib) (world_records demo_new)"

lemma demo_new_list_project: "project_records demo_env demo_new = Inr demo_new_list"
  using project_records_eq [OF demo_world_ok] by (simp add: demo_new_list_def)

lemma demo_new_list_mset: "mset demo_new_list = mset (world_records demo_new)"
  by (simp add: demo_new_list_def)

lemma demo_new_list_set: "set demo_new_list = set (world_records demo_new)"
  by (simp add: demo_new_list_def del: sort_key_simps)

lemma demo_new_no_transcripts: "upserted_transcripts demo_new_list = []"
proof -
  have "r \<noteq> TranscriptItemRec v" if "r \<in> set demo_new_list" for r v
    using that by (auto simp: demo_new_list_set demo_new_records demo_records_def)
  then have "v \<notin> set (upserted_transcripts demo_new_list)" for v
    by (auto simp: upserted_transcripts_def List.map_filter_def split: domain_record.splits)
  then show ?thesis
    by (cases "upserted_transcripts demo_new_list") force+
qed

lemma world_checkpoint:
  "checkpoint_records world_store_lib demo_new_list (Revision 0) = Inr (world_envelopes, [])"
proof -
  let ?to = "\<lambda>r. to_envelope hex_uuid_lib world_serde r (Revision 0) None"
  have lib: "sto_uuid world_store_lib = hex_uuid_lib" "sto_serde world_store_lib = world_serde"
    by (simp_all add: world_store_lib_def)
  have in_world: "r \<in> set (world_records demo_new)" if "r \<in> set demo_new_list" for r
    using that by (simp add: demo_new_list_def)
  have to: "?to r = Inr (projr (?to r))" if "r \<in> set demo_new_list" for r
    using world_to_envelope [OF in_world [OF that]] by auto
  have "domain_validate r = Inr ()" if "r \<in> set demo_new_list" for r
    using world_sound_admissible [OF demo_new_sound] in_world [OF that] by (auto simp: list_all_iff admissible_def)
  with to have es: "rmapM (checkpoint_envelope world_store_lib (Revision 0)) demo_new_list
      = Inr (map (\<lambda>r. projr (?to r)) demo_new_list)"
    by (auto simp: rmapM_Inr_iff list_all2_map2 list_all2_same checkpoint_envelope_def lib rbind_Inr_iff
        map_err_Inr_iff)
  have keys: "envelope_key (projr (?to r)) = rkey hex_uuid_lib r" if "r \<in> set demo_new_list" for r
    using to_envelope_key [OF to [OF that]] key_rkey [of hex_uuid_lib r] by simp
  have "inj_on (rkey hex_uuid_lib) (set (world_records demo_new))"
    using rkey_slot [OF hex_uuid_lib_ok]
    by (intro inj_onI) (metis option.inject demo_world_ok world_records_set)
  moreover have "distinct (world_records demo_new)"
    using world_records_distinct [OF demo_world_ok] by (rule distinct_map [THEN iffD1, THEN conjunct1])
  ultimately have "distinct (map (rkey hex_uuid_lib) demo_new_list)"
    using distinct_map_permuted [OF demo_new_list_mset] by (simp add: distinct_map)
  then have "distinct (map envelope_key (map (\<lambda>r. projr (?to r)) demo_new_list))"
    using keys by (simp add: comp_def cong: map_cong)
  then have "distinct (map envelope_key world_envelopes)"
    unfolding world_envelopes_def demo_new_list_def [symmetric]
    by (rule distinct_map_permuted [OF mset_sort])
  from adjacent_differ [OF this] es demo_new_no_transcripts show ?thesis
    by (simp add: checkpoint_records_def Let_def world_envelopes_def demo_new_list_def)
qed

lemma world_lib [simp]:
  "sto_uuid world_store_lib = hex_uuid_lib" "sto_serde world_store_lib = world_serde"
  "serialize (sto_manifest world_store_lib) world_manifest = Inr JNull"
  "serialize (sto_envelopes world_store_lib) world_envelopes = Inr JNull"
  "serialize (sto_operation world_store_lib) put_op = Inr JNull"
  "serialize (sto_event world_store_lib) put_event = Inr JNull"
  "serialize (sto_command world_store_lib) put_command = Inr JNull"
  "serialize (sto_outcome world_store_lib) put_outcome = Inr JNull"
  "checksum_json world_store_lib separator v = Inr (digest world_store_lib separator [])"
  "request_digest world_store_lib c = Inr (digest world_store_lib COMMAND_DIGEST_DOMAIN [])"
  by (simp_all add: world_store_lib_def table_codec_def checksum_json_def request_digest_def demo_store_lib_def)

definition world_head :: save_head_row where
  "world_head = \<lparr>sh_save_id = store_save_id world_store_lib world_manifest, sh_revision = 0, sh_manifest = JNull,
     sh_checksum = digest world_store_lib HEAD_CHECKSUM_DOMAIN []\<rparr>"

definition world_row :: checkpoint_row where
  "world_row = \<lparr>cp_id = checkpoint_row_id (Revision 0), cp_save_id = store_save_id world_store_lib world_manifest,
     cp_revision = 0, cp_records = JNull, cp_checksum = digest world_store_lib CHECKPOINT_CHECKSUM_DOMAIN []\<rparr>"

definition world_save :: "mem save_store" where
  "world_save = \<lparr>ss_db = \<lparr>mem_heads = [world_head], mem_checkpoints = [world_row], mem_ops = [], mem_events = [],
       mem_transcripts = [], mem_actions = []\<rparr>,
     ss_manifest = world_manifest, ss_revision = Revision 0\<rparr>"

lemma world_manifest_valid: "save_manifest_validate world_manifest = Inr ()"
  by (simp add: save_manifest_validate_def world_manifest_def demo_manifest_def SAVE_FORMAT_V1_def
      world_lock_validate_def mod_lock_validate_def mod_positions_def)

lemma world_create:
  "store_create world_store_lib mem_db False world_manifest demo_new_list = Inr world_save"
  "store_create world_store_lib lossy_db False world_manifest demo_new_list = Inr world_save"
proof -
  have "mset (List.map_filter (\<lambda>r. case r of WorldStateRec st \<Rightarrow> Some (ws_id st) | _ \<Rightarrow> None) demo_new_list)
      = {#RuntimeId 1#}"
    unfolding map_filter_mset [OF demo_new_list_mset]
    by (simp add: demo_new_records demo_records_def List.map_filter_def) (simp add: demo_world_def)
  then have "validate_world_identity world_manifest demo_new_list = Inr ()"
    by (simp add: validate_world_identity_def world_manifest_def)
  then show "store_create world_store_lib mem_db False world_manifest demo_new_list = Inr world_save"
    "store_create world_store_lib lossy_db False world_manifest demo_new_list = Inr world_save"
    using world_manifest_valid world_checkpoint
    by (simp_all add: store_create_def Let_def to_json_def checkpoint_checksum_def
        head_checksum_def prepare_transcripts_def open_database_def lossy_db_def mem_db_def backend_def mem_table_def
        commit_tx_def world_save_def world_head_def world_row_def)
qed

lemma mem_readable: "readable mem_db mem_tables d" if "distinct (map cp_id (mem_checkpoints d))"
    "distinct (map ro_id (mem_ops d))" "distinct (map ev_id (mem_events d))"
    "distinct (map ts_id (mem_transcripts d))" "distinct (map ac_id (mem_actions d))"
  using that by (auto simp: readable_def mem_db_def mem_table_def mem_tables_def rows_map_find split: option.splits)

lemma world_readable: "readable mem_db mem_tables (ss_db world_save)"
  by (rule mem_readable) (simp_all add: world_save_def)

section \<open>Committing the command\<close>

lemma put_to_envelope:
  "to_envelope hex_uuid_lib world_serde (ItemRec (demo_coins demo_pouch)) (Revision 1) (change_set_provenance put_changes)
    = Inr put_envelope"
proof -
  have "world_sound demo_env put_world"
    by (rule demo_sound) simp_all
  from world_sound_admissible [OF this] have "domain_validate (ItemRec (demo_coins demo_pouch)) = Inr ()"
    by (auto simp: list_all_iff admissible_def world_records_def demo_objects bt_values_def demo_entity_def demo_records_def)
  moreover have "encode_record world_serde (ItemRec (demo_coins demo_pouch)) = Inr (tag_json 3)"
    by (simp add: world_serde_def table_codec_def encode_def demo_item_def demo_bag_def demo_coins_def demo_pouch_record_def)
  moreover have "is_ok (record_id_parse (record_id_text hex_uuid_lib (ItemRec (demo_coins demo_pouch))))"
    using hex_prefixed_id [of OBJ] by (simp add: OBJ_def is_ascii_lowercase_def byte_def)
  moreover have "validate_payload (sl_numbers world_serde) (tag_json 3) = Inr ()"
    by (simp add: validate_payload_def tag_json_def world_serde_def sample_serde_def)
  ultimately have "\<exists>e. to_envelope hex_uuid_lib world_serde (ItemRec (demo_coins demo_pouch)) (Revision 1)
      (change_set_provenance put_changes) = Inr e"
    by (auto simp: to_envelope_Inr_iff key_Inr_iff)
  then show ?thesis
    by (auto simp: put_envelope_def)
qed

lemma put_request_made: "from_execution hex_uuid_lib world_serde put_command put_changes = Inr put_request"
proof -
  have "cs_upserts put_changes = [ItemRec (demo_coins demo_pouch)]" "cs_deletes put_changes = []"
    "cs_revision put_changes = Revision 1" "cs_action_id put_changes = RuntimeId 40"
    by (simp_all add: put_changes_def)
  with put_to_envelope to_envelope_key [OF put_to_envelope]
  have "record_ops hex_uuid_lib world_serde put_changes = Inr [put_op]"
    by (simp add: record_ops_def push_upsert_def number_op_def put_op_def bs_contains_def)
  moreover have "request_validate hex_uuid_lib put_request = Inr ()"
    by (simp add: request_validate_Inr_iff put_request_def put_command_def demo_command_def put_op_def put_event_def
        put_outcome_def revision_next_def checked_add_def validate_record_op_def foreign_event_def
        conjunct1 [OF conjunct2 [OF to_envelope_key [OF put_to_envelope]]])
  ultimately show ?thesis
    by (simp add: from_execution_def commit_request_new_def Let_def upserted_transcripts_def List.map_filter_def
        put_changes_def put_outcome_def flip: put_request_def [unfolded put_outcome_def])
qed

lemma put_request_parts [simp]: "cr_command put_request = put_command" "cr_record_ops put_request = [put_op]"
    "cr_events put_request = [put_event]" "cr_transcripts put_request = []"
    "cr_safe_outcome put_request = put_outcome" "ca_revision put_outcome = Revision 1"
    "wc_expected_revision put_command = Revision 0"
  by (simp_all add: put_request_def put_outcome_def put_command_def)

lemma put_commit:
  "\<exists>s'. store_commit world_store_lib mem_db put_request world_save = (Inr (CommitDone put_outcome), s')
    \<and> readable mem_db mem_tables (ss_db s')"
proof -
  have valid: "request_validate hex_uuid_lib put_request = Inr ()"
    using put_request_made by (auto simp: from_execution_def commit_request_new_def Let_def rbind_Inr_iff)
  have "\<exists>p op ev. prepared_commit_new world_store_lib world_manifest put_request = Inr p
      \<and> pc_save_id p = store_save_id world_store_lib world_manifest
      \<and> pc_record_ops p = [op] \<and> pc_events p = [ev] \<and> pc_transcripts p = []"
    by (simp add: prepared_commit_new_def revision_to_i64_def to_json_def
        action_checksum_def head_checksum_def prepare_record_op_def record_op_checksum_def
        record_op_checksum_parts_def prepare_event_def event_checksum_def event_checksum_parts_def
        prepare_transcripts_def store_save_id_def Let_def)
  then obtain p op ev where p: "prepared_commit_new world_store_lib world_manifest put_request = Inr p"
    and parts: "pc_save_id p = store_save_id world_store_lib world_manifest" "pc_record_ops p = [op]"
      "pc_events p = [ev]" "pc_transcripts p = []"
    by blast
  have save_id: "sh_save_id world_head = store_save_id world_store_lib world_manifest"
    by (simp add: world_head_def)
  have head: "validate_head_row world_store_lib world_head = Inr (world_manifest, Revision 0)"
    using world_store_lib_ok world_manifest_valid
    by (intro head_row_valid) (simp_all add: head_row_def world_head_def revision_to_i64_def head_checksum_def)
  let ?d = "\<lparr>mem_heads = [world_head\<lparr>sh_revision := pc_revision p, sh_checksum := pc_head_checksum p\<rparr>],
    mem_checkpoints = [world_row], mem_ops = [op_row_of p op], mem_events = [event_row_of p ev],
    mem_transcripts = [], mem_actions = [action_row_of p]\<rparr>"
  have "\<exists>s'. store_commit world_store_lib mem_db put_request world_save = (Inr (CommitDone put_outcome), s') \<and> ss_db s' = ?d"
    using p parts valid head save_id
    by (simp add: store_commit_def world_save_def mem_db_def mem_table_def backend_def stage_commit_def
        known_action_def Let_def write_commit_def create_op_row_def create_event_row_def)
  moreover have "readable mem_db mem_tables ?d"
    by (rule mem_readable) simp_all
  ultimately show ?thesis
    by metis
qed

text \<open>What the save then holds, and that it loads, through either connection.\<close>

lemma world_holds:
  "\<exists>envelopes row. holds_world world_store_lib (mem_tables (ss_db world_save)) world_manifest envelopes row [] [] demo_new"
proof -
  have L: "env_uuid demo_env = sto_uuid world_store_lib"
    by simp
  obtain envelopes row initial where
    h: "holds_world world_store_lib (mem_tables (ss_db world_save)) world_manifest envelopes row initial [] demo_new"
    and "prepare_transcripts world_store_lib (store_save_id world_store_lib world_manifest) (Revision 0)
      (upserted_transcripts demo_new_list) True = Inr initial"
    using holds_world_created [OF world_store_lib_ok mem_db_ok demo_world_ok L world_create(1) demo_new_list_project]
    by auto
  then have "initial = []"
    by (simp add: demo_new_no_transcripts prepare_transcripts_def)
  with h show ?thesis
    by blast
qed

lemma put_holds:
  assumes "store_commit world_store_lib mem_db put_request world_save = (Inr (CommitDone put_outcome), s')"
  shows "\<exists>envelopes row p. holds_world world_store_lib (mem_tables (ss_db s')) world_manifest envelopes row []
    [(put_request, p)] put_world"
proof -
  obtain envelopes row where
    h: "holds_world world_store_lib (mem_tables (ss_db world_save)) (ss_manifest world_save) envelopes row [] [] demo_new"
    using world_holds by (auto simp: world_save_def)
  have L: "env_uuid demo_env = sto_uuid world_store_lib"
    by simp
  have others: "others_serve demo_env world_store_lib mem_db mem_tables"
    by (simp add: others_serve_def mem_db_def)
  have request: "from_execution (sto_uuid world_store_lib) (sto_serde world_store_lib) put_command put_changes = Inr put_request"
    by (simp add: put_request_made)
  have len: "length (cr_record_ops put_request) < 2 ^ 32"
    by simp
  from commit_leaves_world [OF world_store_lib_ok mem_db_ok L others demo_new_sound h put_executes request len assms]
  show ?thesis
    by (auto simp: commit_answer_def world_save_def)
qed

lemma put_loads:
  assumes D: "db_ok D mem_tables" and reads: "readable D mem_tables d"
    and h: "holds_world world_store_lib (mem_tables d) world_manifest envelopes row [] [(put_request, p)] put_world"
  shows "\<exists>loaded. load_from world_store_lib D world_manifest d = Inr loaded"
proof -
  let ?X = world_store_lib
  have s: "save_holds ?X (mem_tables d) world_manifest [row] [] [(put_request, p)]"
    and row: "checkpoint_row_ok ?X (sm_save_id world_manifest) (Revision 0) envelopes row"
    and head: "head_revision [(put_request, p)] = Revision 1"
    and replay: "\<And>r recs. rebuild_records (Revision 0) envelopes (log_ops [(put_request, p)]) = Inr (r, recs)
      \<Longrightarrow> r = Revision 1 \<and> decodes ?X recs (world_view hex_uuid_lib put_world)"
    using h by (simp_all add: holds_world_def)
  have log: "log_ok ?X (sm_save_id world_manifest) [(put_request, p)]"
    using s by (simp add: save_holds_def)
  have "envelopes = world_envelopes"
    using row by (auto simp: checkpoint_row_ok_def world_store_lib_def table_codec_def split: if_splits)
  then obtain base where base: "load_checkpoint (Revision 0) envelopes = Inr base"
    using checkpoint_loads [OF world_checkpoint] by blast
  have ops: "log_ops [(put_request, p)] = commit_ops (revision_add (Revision 0) 1) (RuntimeId 40) [Upsert put_envelope]"
    by (simp add: log_ops_def put_op_def commit_ops_def commit_op_def revision_add_def)
  have ok: "commit_ok (RuntimeId 40, [Upsert put_envelope])"
    by (simp add: commit_ok_def)
  have "re_revision put_envelope = Revision 1"
    using to_envelope_key [OF put_to_envelope] by simp
  then have "apply_mutations (revision_add (Revision 0) 1) base [Upsert put_envelope]
      = Inr (bt_insert (envelope_key put_envelope) put_envelope base)"
    by (simp add: apply_mutations_def apply_mutation_def revision_add_def)
  with replay_commit [OF ok, of "\<lparr>rp_records = base, rp_revision = Revision 0, rp_action = None, rp_order = 0\<rparr>"] base
  obtain recs where rebuilt: "rebuild_records (Revision 0) envelopes (log_ops [(put_request, p)]) = Inr (Revision 1, recs)"
    by (simp add: rebuild_records_def ops revision_add_def)
  then have bt: "bt_ok recs"
    by (auto simp: rebuild_records_Inr_iff dest: load_checkpoint_ok apply_commits_ok)
  have dec: "decodes ?X recs (world_view hex_uuid_lib put_world)"
    using replay [OF rebuilt] by simp
  have "\<exists>r. from_envelope hex_uuid_lib world_serde e = Inr r" if "(k, e) \<in> set recs" for k e
  proof -
    have "bt_get k recs = Some e"
      using that bt by (simp add: bt_ok_get_iff)
    with dec show ?thesis
      by (auto simp: decodes_def dest!: spec [of _ k])
  qed
  then have "decode_domain_records hex_uuid_lib world_serde recs
      = Inr (map (\<lambda>(k, e). (k, projr (from_envelope hex_uuid_lib world_serde e))) recs)"
    by (fastforce simp: decode_domain_records_def rmapM_Inr_iff list_all2_map2 list_all2_same)
  then obtain typed where typed: "decode_domain_records hex_uuid_lib world_serde recs = Inr typed" ..
  have perm: "mset (bt_values typed) = mset (world_records put_world)"
    using decodes_world [of ?X put_world recs typed] dec typed bt demo_world_ok hex_uuid_lib_ok by simp
  have identity: "validate_world_identity world_manifest (bt_values typed) = Inr ()"
  proof -
    have "mset (List.map_filter (\<lambda>r. case r of WorldStateRec st \<Rightarrow> Some (ws_id st) | _ \<Rightarrow> None) (bt_values typed))
        = {#RuntimeId 1#}"
      unfolding map_filter_mset [OF perm]
      by (simp add: put_world_records demo_records_def List.map_filter_def) (simp add: demo_world_def)
    then show ?thesis
      by (simp add: validate_world_identity_def world_manifest_def)
  qed
  have "mset (upserted_transcripts (bt_values typed)) = {#}"
    unfolding upserted_transcripts_def map_filter_mset [OF perm]
    by (simp add: put_world_records demo_records_def List.map_filter_def)
  then have projection: "validate_transcript_projection (bt_values typed) [] = Inr ()"
    by (simp add: validate_transcript_projection_def bt_of_list_def)
  have replayed: "\<exists>loaded. replay_save ?X world_manifest [] [(put_request, p)] (Revision 0, envelopes) = Inr loaded"
    using rebuilt typed identity projection log_ops_after_zero [OF log] head
    by (simp add: replay_save_def Let_def log_transcripts_def latest_transcripts_def bt_of_list_def bt_values_def)
  have "prepare_transcripts ?X (store_save_id ?X world_manifest) (Revision 0) [] True = Inr []"
    by (simp add: prepare_transcripts_def)
  moreover have "list_all2 (is_checkpoint ?X world_manifest (head_revision [(put_request, p)])) [row] [(Revision 0, envelopes)]"
    using row by (simp add: is_checkpoint_def less_eq_revision_def)
  moreover have "log_ids_ok ?X [] [(put_request, p)]"
    by (simp add: log_ids_ok_def log_events_def log_transcripts_def put_event_def)
  ultimately show ?thesis
    using load_from_holds [OF world_store_lib_ok D s _ _ _ _ reads, of "[]" True "[(Revision 0, envelopes)]"] replayed
    by auto
qed

text \<open>The world is loaded again, through a connection that may have broken during the commit.\<close>

lemma lossy_readable: "readable lossy_db V d = readable mem_db V d"
  by (simp add: readable_def lossy_db_def)

lemma put_reloads:
  assumes D: "db_ok D mem_tables" and reads: "readable D mem_tables (ss_db st)" and m: "ss_manifest st = world_manifest"
    and h: "holds_world world_store_lib (mem_tables (ss_db st)) world_manifest envelopes row [] [(put_request, p)] put_world"
  shows "\<exists>loaded st'. store_load world_store_lib D st = (Inr loaded, st') \<and> ss_db st' = ss_db st
    \<and> ss_manifest st' = world_manifest
    \<and> rbind (from_records demo_env (ld_revision loaded) (ld_records loaded) (gw_config put_world))
        (restore_session_parameters demo_env []) = Inr put_world"
proof -
  from put_loads [OF D reads h] obtain loaded st' where load: "store_load world_store_lib D st = (Inr loaded, st')"
    by (auto simp: store_load_def m)
  have sound: "world_sound demo_env put_world"
    by (rule demo_sound) simp_all
  note loaded = loaded_world [OF world_store_lib_ok D demo_definitions_ok demo_session_plain sound _ load, of envelopes row "[]" "[(put_request, p)]"]
  from restored_own [OF sound] have "restore_session_parameters demo_env [] put_world = Inr put_world"
    by simp
  with load loaded h m show ?thesis
    by auto
qed

text \<open>The two games: the command is committed; the commit is written, fails, and the world is loaded
  again.\<close>

lemma put_game:
  "from_execution (sto_uuid world_store_lib) (sto_serde world_store_lib) put_command put_changes = Inr put_request"
  "length (cr_record_ops put_request) < 2 ^ 32" "env_uuid demo_env = sto_uuid world_store_lib"
  "gw_revision demo_new = Revision 0"
  "others_serve demo_env world_store_lib mem_db V" "others_serve demo_env world_store_lib lossy_db V"
  by (simp_all add: put_request_made others_serve_def mem_db_def lossy_db_def)

lemma put_committed:
  "\<exists>st envelopes row p. store_commit world_store_lib mem_db put_request world_save = (Inr (CommitDone put_outcome), st)
    \<and> ss_manifest st = world_manifest \<and> readable mem_db mem_tables (ss_db st)
    \<and> holds_world world_store_lib (mem_tables (ss_db st)) world_manifest envelopes row [] [(put_request, p)] put_world"
proof -
  from put_commit obtain st where commit: "store_commit world_store_lib mem_db put_request world_save = (Inr (CommitDone put_outcome), st)"
    and reads: "readable mem_db mem_tables (ss_db st)"
    by blast
  obtain envelopes row where
    h: "save_holds world_store_lib (mem_tables (ss_db world_save)) (ss_manifest world_save) [row] [] []"
    using world_holds by (auto simp: world_save_def holds_world_def)
  have "ss_manifest st = ss_manifest world_save"
    using store_commit_outcomes [OF world_store_lib_ok mem_db_ok h commit] by blast
  with commit reads put_holds [OF commit] show ?thesis
    by (auto simp: world_save_def)
qed

lemma put_played:
  "\<exists>st loaded st'. store_commit world_store_lib mem_db put_request world_save = (Inr (CommitDone put_outcome), st)
    \<and> played demo_env world_store_lib mem_db world_manifest demo_new put_world st
    \<and> store_load world_store_lib mem_db st = (Inr loaded, st')"
proof -
  from put_committed obtain st envelopes row p where
    commit: "store_commit world_store_lib mem_db put_request world_save = (Inr (CommitDone put_outcome), st)"
    and st: "ss_manifest st = world_manifest" "readable mem_db mem_tables (ss_db st)"
    and h: "holds_world world_store_lib (mem_tables (ss_db st)) world_manifest envelopes row [] [(put_request, p)] put_world"
    by blast
  have "played demo_env world_store_lib mem_db world_manifest demo_new (ex_world put_exec) st"
    by (rule played.committed [OF played.created [OF world_create(1) demo_new_list_project] put_executes
          put_game(1,2) commit])
  with commit put_reloads [OF mem_db_ok st(2,1) h] show ?thesis
    by auto
qed

lemma put_lost:
  "\<exists>st envelopes row p. store_commit world_store_lib lossy_db put_request world_save
      = (Inl (Backend ''commit durable transaction''), st)
    \<and> ss_manifest st = world_manifest \<and> readable lossy_db mem_tables (ss_db st)
    \<and> holds_world world_store_lib (mem_tables (ss_db st)) world_manifest envelopes row [] [(put_request, p)] put_world"
proof -
  from put_committed obtain st envelopes row p where
    commit: "store_commit world_store_lib mem_db put_request world_save = (Inr (CommitDone put_outcome), st)"
    and "readable lossy_db mem_tables (ss_db st)"
    "holds_world world_store_lib (mem_tables (ss_db st)) world_manifest envelopes row [] [(put_request, p)] put_world"
    by (auto simp: lossy_readable)
  moreover have "mem_heads (ss_db world_save) \<noteq> []" "ss_manifest world_save = world_manifest"
    by (simp_all add: world_save_def)
  ultimately show ?thesis
    using store_commit_lossy [OF commit]
    by (intro exI [of _ "world_save\<lparr>ss_db := ss_db st\<rparr>"]) auto
qed

lemma put_recovered:
  "\<exists>st1 st loaded st'. store_commit world_store_lib lossy_db put_request world_save
      = (Inl (Backend ''commit durable transaction''), st1)
    \<and> played demo_env world_store_lib lossy_db world_manifest demo_new put_world st
    \<and> store_load world_store_lib lossy_db st = (Inr loaded, st')"
proof -
  from put_lost obtain st1 envelopes row p where
    commit: "store_commit world_store_lib lossy_db put_request world_save
      = (Inl (Backend ''commit durable transaction'') :: store_error + commit_result, st1)"
    and st1: "ss_manifest st1 = world_manifest" "readable lossy_db mem_tables (ss_db st1)"
    and h: "holds_world world_store_lib (mem_tables (ss_db st1)) world_manifest envelopes row [] [(put_request, p)] put_world"
    by blast
  from put_reloads [OF lossy_db_ok st1(2,1) h] obtain loaded st where
    load: "store_load world_store_lib lossy_db st1 = (Inr loaded, st)"
    and st: "ss_db st = ss_db st1" "ss_manifest st = world_manifest"
    and w: "rbind (from_records demo_env (ld_revision loaded) (ld_records loaded) (gw_config put_world))
      (restore_session_parameters demo_env []) = Inr put_world"
    by blast
  have "gw_config put_world = gw_config demo_new"
    by (simp add: demo_world_def)
  with load w have again: "reloads demo_env world_store_lib lossy_db (gw_config demo_new) st1 put_world st"
    unfolding reloads_def by metis
  have "\<forall>out. Inl (Backend ''commit durable transaction'') \<noteq> (Inr (CommitDone out) :: store_error + commit_result)"
    by simp
  from played.recovered [OF played.created [OF world_create(2) demo_new_list_project] put_executes put_game(1,2)
      commit this again] commit put_reloads [OF lossy_db_ok, of st envelopes row p] st st1(2) h
  show ?thesis
    by auto
qed

end
