(* ===== verification/Durable_Properties.thy ===== *)
theory Durable_Properties
  imports Durable_Example
begin

text \<open>
  The properties of a world and its save together, with witnesses on the small world of
  \<open>Durable_Example\<close>.
\<close>

section \<open>Durability\<close>



text \<open>C19. A save that was just created loads, when the reads succeed and its transcripts have proper
  identifiers: to the manifest and the records it was created with, at revision 0.\<close>

theorem created_save_loads:
  assumes "store_lib_ok X" and "db_ok D V" and "store_create X D b m records = Inr s"
    and "\<forall>v\<in>set (upserted_transcripts records). is_uuid_v7 (sto_uuid X) (as_uuid (tr_id v))"
    and "readable D V (ss_db s)"
  shows "\<exists>loaded. store_load X D s = (Inr loaded, s) \<and> ld_manifest loaded = m
    \<and> ld_revision loaded = Revision 0 \<and> mset (ld_records loaded) = mset records \<and> ld_events loaded = []"
  by (rule created_loads [OF assms])

theorem created_save_loads_witness:
  "\<exists>s loaded. store_load world_store_lib mem_db s = (Inr loaded, s)
    \<and> mset (ld_records loaded) = mset demo_new_list"
proof -
  have "\<forall>v\<in>set (upserted_transcripts demo_new_list). is_uuid_v7 (sto_uuid world_store_lib) (as_uuid (tr_id v))"
    by (simp add: demo_new_no_transcripts)
  from created_save_loads [OF world_store_lib_ok mem_db_ok world_create(1) this world_readable] show ?thesis
    by blast
qed

end
