(* ===== verification/Agent_Cancellation.thy ===== *)
theory Agent_Cancellation
  imports Main
begin

text \<open>
  The token by which an agent's turn is cancelled (\<open>cancellation.rs\<close>): first each method run alone,
  then the methods run by several threads at once, one atomic access at a time. The flag is read and
  written without the lock on the list of waiters; what \<open>no_lost_wakeup\<close> shows is that a future that
  returned \<open>Pending\<close> is nevertheless woken by a cancellation.

  A \<open>Waker\<close> is of any type; \<open>will_wake\<close> is a parameter.
\<close>

section \<open>The methods\<close>

record 'w cancellation_token =
  cancelled :: bool
  waiters :: "'w list"

datatype poll = Ready | Pending

definition token_new :: "'w cancellation_token" where
  "token_new = \<lparr>cancelled = False, waiters = []\<rparr>"

text \<open>Returns the wakers that are woken, in order.\<close>

definition cancel :: "'w cancellation_token \<Rightarrow> 'w list \<times> 'w cancellation_token" where
  "cancel s = (if cancelled s then ([], s) else (waiters s, s\<lparr>cancelled := True, waiters := []\<rparr>))"

definition reset :: "'w cancellation_token \<Rightarrow> 'w cancellation_token" where
  "reset s = s\<lparr>cancelled := False, waiters := []\<rparr>"

definition is_cancelled :: "'w cancellation_token \<Rightarrow> bool" where
  "is_cancelled s = cancelled s"

definition add_waiter :: "('w \<Rightarrow> 'w \<Rightarrow> bool) \<Rightarrow> 'w \<Rightarrow> 'w list \<Rightarrow> 'w list" where
  "add_waiter will_wake w ws = (if list_ex (\<lambda>v. will_wake v w) ws then ws else ws @ [w])"

definition cancelled_poll :: "('w \<Rightarrow> 'w \<Rightarrow> bool) \<Rightarrow> 'w \<Rightarrow> 'w cancellation_token
    \<Rightarrow> poll \<times> 'w cancellation_token" where
  "cancelled_poll will_wake w s =
     (if cancelled s then (Ready, s)
      else (Pending, s\<lparr>waiters := add_waiter will_wake w (waiters s)\<rparr>))"

section \<open>Threads\<close>

text \<open>
  Where a thread is. \<open>FirstLoad\<close> to \<open>Push\<close> are the accesses of one call of \<open>poll\<close>, the last two with
  the lock held; \<open>Drain\<close> is after the swap of \<open>cancel\<close> found the flag unset.
\<close>

datatype 'w place =
    Resting
  | FirstLoad 'w
  | Acquire 'w
  | SecondLoad 'w
  | Push 'w
  | Polled 'w poll
  | Drain

record ('t, 'w) threads =
  th_cancelled :: bool
  th_waiters :: "'w list"
  th_lock :: "'t option"
  th_at :: "'t \<Rightarrow> 'w place"
  th_woken :: "'w list"

definition move_to :: "'t \<Rightarrow> 'w place \<Rightarrow> ('t, 'w) threads \<Rightarrow> ('t, 'w) threads" where
  "move_to t p s = s\<lparr>th_at := (th_at s)(t := p)\<rparr>"

definition at_rest :: "'w place \<Rightarrow> bool" where
  "at_rest p = (case p of Resting \<Rightarrow> True | Polled _ _ \<Rightarrow> True | _ \<Rightarrow> False)"

inductive cancel_step :: "('w \<Rightarrow> 'w \<Rightarrow> bool) \<Rightarrow> ('t, 'w) threads \<Rightarrow> ('t, 'w) threads \<Rightarrow> bool"
  for will_wake where
  poll_starts: "at_rest (th_at s t) \<Longrightarrow> cancel_step will_wake s (move_to t (FirstLoad w) s)"
| first_load: "th_at s t = FirstLoad w \<Longrightarrow>
    cancel_step will_wake s
      (move_to t (if th_cancelled s then Polled w Ready else Acquire w) s)"
| acquire: "th_at s t = Acquire w \<Longrightarrow> th_lock s = None \<Longrightarrow>
    cancel_step will_wake s (move_to t (SecondLoad w) (s\<lparr>th_lock := Some t\<rparr>))"
| second_load_ready: "th_at s t = SecondLoad w \<Longrightarrow> th_cancelled s \<Longrightarrow>
    cancel_step will_wake s (move_to t (Polled w Ready) (s\<lparr>th_lock := None\<rparr>))"
| second_load_pending: "th_at s t = SecondLoad w \<Longrightarrow> \<not> th_cancelled s \<Longrightarrow>
    cancel_step will_wake s (move_to t (Push w) s)"
| push: "th_at s t = Push w \<Longrightarrow>
    cancel_step will_wake s (move_to t (Polled w Pending)
      (s\<lparr>th_waiters := add_waiter will_wake w (th_waiters s), th_lock := None\<rparr>))"
| swap_first: "at_rest (th_at s t) \<Longrightarrow> \<not> th_cancelled s \<Longrightarrow>
    cancel_step will_wake s (move_to t Drain (s\<lparr>th_cancelled := True\<rparr>))"
| swap_again: "at_rest (th_at s t) \<Longrightarrow> th_cancelled s \<Longrightarrow> cancel_step will_wake s s"
| drain: "th_at s t = Drain \<Longrightarrow> th_lock s = None \<Longrightarrow>
    cancel_step will_wake s (move_to t Resting
      (s\<lparr>th_woken := th_woken s @ th_waiters s, th_waiters := []\<rparr>))"

definition threads_start :: "('t, 'w) threads" where
  "threads_start =
     \<lparr>th_cancelled = False, th_waiters = [], th_lock = None, th_at = (\<lambda>_. Resting), th_woken = []\<rparr>"

inductive cancel_reachable :: "('w \<Rightarrow> 'w \<Rightarrow> bool) \<Rightarrow> ('t, 'w) threads \<Rightarrow> bool" for will_wake where
  start: "cancel_reachable will_wake threads_start"
| step: "cancel_reachable will_wake s \<Longrightarrow> cancel_step will_wake s s' \<Longrightarrow> cancel_reachable will_wake s'"

section \<open>The invariant\<close>

definition holds_lock :: "'w place \<Rightarrow> bool" where
  "holds_lock p = (case p of SecondLoad _ \<Rightarrow> True | Push _ \<Rightarrow> True | _ \<Rightarrow> False)"

definition lock_inv :: "('t, 'w) threads \<Rightarrow> bool" where
  "lock_inv s \<longleftrightarrow> (\<forall>t. holds_lock (th_at s t) \<longleftrightarrow> th_lock s = Some t)"

definition drained_inv :: "('t, 'w) threads \<Rightarrow> bool" where
  "drained_inv s \<longleftrightarrow>
     (th_cancelled s \<longrightarrow> (\<exists>t. th_at s t = Drain)
        \<or> th_waiters s = [] \<and> (\<forall>t w. th_at s t \<noteq> Push w))"

definition pending_inv :: "('w \<Rightarrow> 'w \<Rightarrow> bool) \<Rightarrow> ('t, 'w) threads \<Rightarrow> bool" where
  "pending_inv will_wake s \<longleftrightarrow>
     (\<forall>t w. th_at s t = Polled w Pending \<longrightarrow> (\<exists>v\<in>set (th_waiters s @ th_woken s). will_wake v w))"

lemmas place_simps = move_to_def at_rest_def holds_lock_def

lemma lock_inv_step: "cancel_step will_wake s s' \<Longrightarrow> lock_inv s \<Longrightarrow> lock_inv s'"
  by (induction rule: cancel_step.induct) (auto simp: lock_inv_def place_simps split: place.splits if_splits)

lemma drained_inv_moved:
  assumes "drained_inv s" and "th_at s t \<noteq> Drain" and "\<And>w. p \<noteq> Push w"
    and "th_cancelled s' = th_cancelled s" and "th_at s' = th_at s"
    and "th_waiters s' = th_waiters s \<or> th_at s t = Push w"
  shows "drained_inv (move_to t p s')"
proof (cases "\<exists>u. th_at s u = Drain")
  case True
  then obtain u where "th_at s u = Drain"
    by blast
  with assms(2,5) have "th_at (move_to t p s') u = Drain"
    by (auto simp: move_to_def)
  then show ?thesis
    by (auto simp: drained_inv_def)
next
  case False
  with assms show ?thesis
    by (simp add: drained_inv_def move_to_def) metis
qed

lemma drained_inv_step:
  "cancel_step will_wake s s' \<Longrightarrow> lock_inv s \<Longrightarrow> drained_inv s \<Longrightarrow> drained_inv s'"
proof (induction rule: cancel_step.induct)
  case (drain s t)
  then have "th_at s t' \<noteq> Push w" for t' w
    by (auto simp: lock_inv_def holds_lock_def split: place.splits)
  then show ?case
    by (simp add: drained_inv_def move_to_def)
next
  case (poll_starts s t w)
  then show ?case
    by (intro drained_inv_moved [of s]) (auto simp: at_rest_def)
next
  case (first_load s t w)
  then show ?case
    by (intro drained_inv_moved [of s]) auto
next
  case (acquire s t w)
  then show ?case
    by (intro drained_inv_moved [of s]) auto
next
  case (second_load_ready s t w)
  then show ?case
    by (intro drained_inv_moved [of s]) auto
next
  case (second_load_pending s t w)
  then show ?case
    by (simp add: drained_inv_def move_to_def)
next
  case (push s t w)
  then show ?case
    by (intro drained_inv_moved [of s _ _ _ w]) auto
next
  case (swap_first s t)
  then show ?case
    by (auto simp: drained_inv_def move_to_def)
qed

lemma pending_inv_step:
  assumes "\<And>w. will_wake w w"
  shows "cancel_step will_wake s s' \<Longrightarrow> pending_inv will_wake s \<Longrightarrow> pending_inv will_wake s'"
  by (induction rule: cancel_step.induct)
    (auto simp: pending_inv_def place_simps add_waiter_def list_ex_iff assms split: place.splits if_splits)

lemma cancel_reachable_inv:
  assumes "cancel_reachable will_wake s" and "\<And>w. will_wake w w"
  shows "lock_inv s \<and> drained_inv s \<and> pending_inv will_wake s"
  using assms(1)
proof induction
  case start
  show ?case
    by (simp add: lock_inv_def drained_inv_def pending_inv_def threads_start_def holds_lock_def)
next
  case (step s s')
  then show ?case
    using lock_inv_step drained_inv_step pending_inv_step [of will_wake, OF assms(2)] by blast
qed

lemma cancelled_wakes_pending:
  assumes "cancel_reachable will_wake s" and "\<And>w. will_wake w w"
    and "th_cancelled s" and "\<forall>t. th_at s t \<noteq> Drain" and "th_at s t = Polled w Pending"
  shows "\<exists>v\<in>set (th_woken s). will_wake v w"
  using cancel_reachable_inv [OF assms(1,2)] assms(3-5)
  by (auto simp: drained_inv_def pending_inv_def)

section \<open>One thread\<close>

text \<open>Run without interference, the accesses of a call are the method.\<close>

lemma poll_alone:
  assumes "at_rest (th_at s t)" and "th_lock s = None"
    and "cancelled_poll will_wake w \<lparr>cancelled = th_cancelled s, waiters = th_waiters s\<rparr> = (r, k)"
  shows "(cancel_step will_wake)\<^sup>*\<^sup>* s (move_to t (Polled w r) (s\<lparr>th_waiters := waiters k\<rparr>))"
proof (cases "th_cancelled s")
  case True
  have "cancel_step will_wake s (move_to t (FirstLoad w) s)"
    by (rule poll_starts) (rule assms)
  moreover have "cancel_step will_wake (move_to t (FirstLoad w) s) (move_to t (Polled w Ready) s)"
    using first_load [of "move_to t (FirstLoad w) s" t w will_wake] True by (simp add: move_to_def)
  ultimately show ?thesis
    using assms(3) True by (auto simp: cancelled_poll_def intro: rtranclp_trans)
next
  case False
  let ?s1 = "move_to t (FirstLoad w) s" and ?s2 = "move_to t (Acquire w) s"
    and ?s3 = "move_to t (SecondLoad w) (s\<lparr>th_lock := Some t\<rparr>)"
    and ?s4 = "move_to t (Push w) (s\<lparr>th_lock := Some t\<rparr>)"
    and ?s5 = "move_to t (Polled w Pending) (s\<lparr>th_waiters := add_waiter will_wake w (th_waiters s)\<rparr>)"
  have "cancel_step will_wake s ?s1"
    by (rule poll_starts) (rule assms)
  moreover have "cancel_step will_wake ?s1 ?s2"
    using first_load [of ?s1 t w will_wake] False by (simp add: move_to_def)
  moreover have "cancel_step will_wake ?s2 ?s3"
    using acquire [of ?s2 t w will_wake] assms(2) by (simp add: move_to_def)
  moreover have "cancel_step will_wake ?s3 ?s4"
    using second_load_pending [of ?s3 t w will_wake] False by (simp add: move_to_def)
  moreover have "cancel_step will_wake ?s4 ?s5"
    using push [of ?s4 t w will_wake] assms(2) by (cases s) (simp add: move_to_def)
  ultimately have "(cancel_step will_wake)\<^sup>*\<^sup>* s ?s5"
    by (meson converse_rtranclp_into_rtranclp rtranclp.rtrancl_refl)
  with assms(3) False show ?thesis
    by (auto simp: cancelled_poll_def)
qed

end
