(* ===== verification/View.thy ===== *)
theory View
  imports Protocol
begin

text \<open>
  What the runtime shows of a world, to the interface and to the language models (\<open>view.rs\<close> of the
  core): one \<open>record\<close> per struct and one \<open>datatype\<close> per enum, in the source's order, with the two
  saturating sums of \<open>PackageContentView\<close>. A \<open>semver::Version\<close> is its text.
\<close>

section \<open>Saturating words\<close>

definition saturating_sub :: "'a::len word \<Rightarrow> 'a word \<Rightarrow> 'a word" where
  "saturating_sub a b = (if b \<le> a then a - b else 0)"

lemma unat_saturating_sub: "unat (saturating_sub a b) = unat a - unat b"
  by (auto simp: saturating_sub_def unat_sub word_le_nat_alt)

section \<open>Characters\<close>

definition DIAGNOSED_CONDITION_PREDICATE_ID :: string where
  "DIAGNOSED_CONDITION_PREDICATE_ID = ''games.loreloom.core:tag/diagnosed_condition''"

record attribute_view =
  av_attribute_id :: content_definition_id
  av_display_name :: display_name
  av_base :: fixed
  av_effective :: fixed

record resource_view =
  rv_resource_id :: content_definition_id
  rv_display_name :: display_name
  rv_current :: fixed
  rv_maximum :: fixed

record condition_view =
  cv_condition :: condition_record
  cv_display_name :: "display_name option"
  cv_symptoms :: "short_text list"

record inventory_view =
  iv_item :: item_record
  iv_display_name :: display_name

record skill_view =
  skv_grant :: skill_grant_record
  skv_display_name :: display_name
  skv_available :: bool

record appearance_view =
  apv_revision :: revision
  apv_model_id :: content_definition_id
  apv_parameters :: "(content_definition_id, appearance_value) btree"

record character_context =
  cc_actor_id :: actor_id
  cc_revision :: revision
  cc_display_name :: display_name
  cc_profile :: character_profile
  cc_appearance :: "appearance_view option"
  cc_location_id :: object_id
  cc_attributes :: "attribute_view list"
  cc_resources :: "resource_view list"
  cc_conditions :: "condition_view list"
  cc_inventory :: "inventory_view list"
  cc_skills :: "skill_view list"
  cc_known_facts :: "known_fact_record list"
  cc_goals :: "goal_record list"
  cc_life_state :: life_state
  cc_action_state :: action_state
  cc_posture :: posture

section \<open>Scenes\<close>

record visible_actor_view =
  va_actor_id :: actor_id
  va_display_name :: display_name
  va_controller :: character_controller
  va_npc_turn_available :: bool
  va_life_state :: life_state
  va_action_state :: action_state
  va_posture :: posture

record adjacent_place_view =
  adj_place_id :: object_id
  adj_display_name :: display_name
  adj_description :: short_text

record scene_context =
  scx_scene_id :: object_id
  scx_revision :: revision
  scx_display_name :: display_name
  scx_framing :: short_text
  scx_place_id :: object_id
  scx_place_name :: display_name
  scx_adjacent_places :: "adjacent_place_view list"
  scx_clock :: world_time
  scx_visible_actors :: "visible_actor_view list"
  scx_recent_events :: "world_event list"

record scene_observation =
  so_revision :: revision
  so_session_id :: session_id
  so_player :: character_context
  so_scene :: scene_context
  so_recent_transcript :: "transcript_item_record list"
  so_player_input :: long_text
  so_truncated :: bool

section \<open>The runtime\<close>

datatype runtime_phase =
    PhaseIdle | PersistingInput | NarratorThinking | ResolvingOrchestration | NpcThinking
  | UpdatingWorld | PhaseCompleted | PhaseCancelled | PhaseFailed

datatype tool_activity_state = ActivityPending | ActivitySucceeded | ActivityRejected | ActivityFailed

record tool_activity =
  ta_call_id :: string
  ta_name :: string
  ta_state :: tool_activity_state
  ta_code :: "string option"

datatype runtime_progress_event =
    PhaseChanged runtime_phase
  | ToolActivityChanged "tool_activity list"

datatype notice_kind = NoticeInfo | NoticeWarning | NoticeError

record ui_notice =
  un_kind :: notice_kind
  un_message :: short_text

record parameter_value_view =
  pv_parameter_id :: content_definition_id
  pv_display_name :: display_name
  pv_value :: parameter_value

record parameter_set_view =
  psv_set_id :: object_id
  psv_schema_id :: content_definition_id
  psv_values :: "parameter_value_view list"

record event_option_view =
  eov_option_id :: content_definition_id
  eov_display_name :: display_name
  eov_enabled :: bool

record active_event_view =
  aev_event_id :: object_id
  aev_definition_id :: content_definition_id
  aev_display_name :: display_name
  aev_current_node :: content_definition_id
  aev_node_text :: short_text
  aev_options :: "event_option_view list"

section \<open>Packages\<close>

record world_package_view =
  wpv_world_id :: mod_id
  wpv_version :: string

datatype mod_package_status = PackageEnabled | PackageInstalled

record package_content_view =
  pcv_characters :: u32
  pcv_scenes :: u32
  pcv_places :: u32
  pcv_items :: u32
  pcv_skills :: u32
  pcv_conditions :: u32
  pcv_events :: u32
  pcv_gameplay_actions :: u32
  pcv_rules :: u32
  pcv_parameters :: u32
  pcv_support_definitions :: u32
  pcv_narrator_prompts :: u32
  pcv_npc_prompts :: u32
  pcv_patches :: u32

definition package_content_view_default :: package_content_view where
  "package_content_view_default =
     \<lparr>pcv_characters = 0, pcv_scenes = 0, pcv_places = 0, pcv_items = 0, pcv_skills = 0,
      pcv_conditions = 0, pcv_events = 0, pcv_gameplay_actions = 0, pcv_rules = 0,
      pcv_parameters = 0, pcv_support_definitions = 0, pcv_narrator_prompts = 0,
      pcv_npc_prompts = 0, pcv_patches = 0\<rparr>"

definition definition_count :: "package_content_view \<Rightarrow> u32" where
  "definition_count v =
     foldl saturating_add 0
       [pcv_characters v, pcv_scenes v, pcv_places v, pcv_items v, pcv_skills v, pcv_conditions v,
        pcv_events v, pcv_gameplay_actions v, pcv_rules v, pcv_parameters v,
        pcv_support_definitions v]"

definition prompt_count :: "package_content_view \<Rightarrow> u32" where
  "prompt_count v = saturating_add (pcv_narrator_prompts v) (pcv_npc_prompts v)"

record mod_package_view =
  mpv_mod_id :: mod_id
  mpv_version :: string
  mpv_status :: mod_package_status
  mpv_dependency_count :: u32
  mpv_content :: package_content_view

record package_catalog_view =
  pcat_world :: world_package_view
  pcat_mods :: "mod_package_view list"
  pcat_unavailable_installed :: u32

record transcript_window =
  tw_items :: "transcript_item_record list"
  tw_before_cursor :: "transcript_item_id option"

record ui_snapshot =
  us_revision :: revision
  us_session_id :: session_id
  us_player :: character_context
  us_scene :: scene_context
  us_parameters :: "parameter_set_view list"
  us_active_events :: "active_event_view list"
  us_packages :: package_catalog_view
  us_transcript :: transcript_window
  us_tool_activity :: "tool_activity list"
  us_phase :: runtime_phase
  us_can_submit :: bool
  us_can_cancel :: bool
  us_waiting :: bool
  us_notices :: "ui_notice list"
  us_supporting_events :: "event_id list"

text \<open>The saturating sum of a list is the sum of the numbers, or the largest word.\<close>

lemma unat_saturating_sum:
  "unat (foldl saturating_add x xs) = min (unat x + sum_list (map unat xs)) (2 ^ LENGTH('a) - 1)"
  for x :: "'a::len word"
proof (induction xs arbitrary: x)
  case Nil
  have "unat x < 2 ^ LENGTH('a)"
    by (rule unsigned_less)
  then have "unat x \<le> 2 ^ LENGTH('a) - 1"
    by linarith
  then show ?case
    by simp
next
  case (Cons y ys)
  then show ?case
    by (simp add: unat_saturating_add)
qed

end
