(* ===== verification/Agent_Budget.thy ===== *)
theory Agent_Budget
  imports View
begin

text \<open>
  The resources an agent's turn may use (\<open>budget.rs\<close> of the agent crate) and the token by which it is
  cancelled (\<open>cancellation.rs\<close>). Counters are words that saturate; \<open>usize\<close> is 64 bits wide. Of a
  model's response, which is a type of the \<open>armillae\<close> crate, the budget reads the reported usage.

  A \<open>&mut self\<close> method returns the updated usage with its result, since the code changes the usage
  also when it refuses.
\<close>

section \<open>Budgets\<close>

datatype budget_reason =
    ModelCalls | ToolCalls | InputTokens | OutputTokens | TotalTokens | ModelOutputBytes | Deadline
  | MissingTokenUsage | AgentTurns | OrchestrationRounds

record resource_budget =
  max_model_calls :: u32
  max_tool_calls :: u32
  max_input_tokens :: u64
  max_output_tokens :: u64
  max_total_tokens :: u64
  max_model_output_bytes :: u64
  max_elapsed_ms :: u64
  require_reported_tokens :: bool

definition resource_budget_default :: resource_budget where
  "resource_budget_default =
     \<lparr>max_model_calls = 16, max_tool_calls = 64, max_input_tokens = 524288,
      max_output_tokens = 32768, max_total_tokens = 557056, max_model_output_bytes = 1048576,
      max_elapsed_ms = 600000, require_reported_tokens = False\<rparr>"

definition budget_min :: "resource_budget \<Rightarrow> resource_budget \<Rightarrow> resource_budget" where
  "budget_min a b =
     \<lparr>max_model_calls = min (max_model_calls a) (max_model_calls b),
      max_tool_calls = min (max_tool_calls a) (max_tool_calls b),
      max_input_tokens = min (max_input_tokens a) (max_input_tokens b),
      max_output_tokens = min (max_output_tokens a) (max_output_tokens b),
      max_total_tokens = min (max_total_tokens a) (max_total_tokens b),
      max_model_output_bytes = min (max_model_output_bytes a) (max_model_output_bytes b),
      max_elapsed_ms = min (max_elapsed_ms a) (max_elapsed_ms b),
      require_reported_tokens = (require_reported_tokens a \<or> require_reported_tokens b)\<rparr>"

fun strictest :: "resource_budget list \<Rightarrow> resource_budget" where
  "strictest [] = resource_budget_default"
| "strictest (b # bs) = foldl budget_min b bs"

section \<open>Usage\<close>

record resource_usage =
  model_calls :: u32
  tool_calls :: u32
  input_tokens :: u64
  output_tokens :: u64
  total_tokens :: u64
  model_output_bytes :: u64
  missing_token_reports :: u32

definition resource_usage_default :: resource_usage where
  "resource_usage_default =
     \<lparr>model_calls = 0, tool_calls = 0, input_tokens = 0, output_tokens = 0, total_tokens = 0,
      model_output_bytes = 0, missing_token_reports = 0\<rparr>"

definition check_tokens :: "resource_budget \<Rightarrow> resource_usage \<Rightarrow> budget_reason + unit" where
  "check_tokens b u =
     (if input_tokens u > max_input_tokens b then Inl InputTokens
      else if output_tokens u > max_output_tokens b then Inl OutputTokens
      else if total_tokens u > max_total_tokens b then Inl TotalTokens
      else Inr ())"

definition usage_merge :: "resource_usage \<Rightarrow> resource_usage \<Rightarrow> resource_budget
    \<Rightarrow> (budget_reason + unit) \<times> resource_usage" where
  "usage_merge u v b =
     (let u = \<lparr>model_calls = saturating_add (model_calls u) (model_calls v),
               tool_calls = saturating_add (tool_calls u) (tool_calls v),
               input_tokens = saturating_add (input_tokens u) (input_tokens v),
               output_tokens = saturating_add (output_tokens u) (output_tokens v),
               total_tokens = saturating_add (total_tokens u) (total_tokens v),
               model_output_bytes = saturating_add (model_output_bytes u) (model_output_bytes v),
               missing_token_reports =
                 saturating_add (missing_token_reports u) (missing_token_reports v)\<rparr>
      in (if model_calls u > max_model_calls b then Inl ModelCalls
          else if tool_calls u > max_tool_calls b then Inl ToolCalls
          else rbind (check_tokens b u) (\<lambda>_.
            if model_output_bytes u > max_model_output_bytes b then Inl ModelOutputBytes
            else if require_reported_tokens b \<and> missing_token_reports u > 0
            then Inl MissingTokenUsage
            else Inr ()), u))"

definition check_deadline :: "resource_budget \<Rightarrow> u64 \<Rightarrow> budget_reason + unit" where
  "check_deadline b elapsed = (if elapsed > max_elapsed_ms b then Inl Deadline else Inr ())"

definition before_model :: "resource_budget \<Rightarrow> u64 \<Rightarrow> resource_usage
    \<Rightarrow> (budget_reason + unit) \<times> resource_usage" where
  "before_model b elapsed u =
     (case check_deadline b elapsed of
        Inl e \<Rightarrow> (Inl e, u)
      | Inr _ \<Rightarrow>
          if model_calls u \<ge> max_model_calls b then (Inl ModelCalls, u)
          else (Inr (), u\<lparr>model_calls := model_calls u + 1\<rparr>))"

definition before_tool :: "resource_budget \<Rightarrow> u64 \<Rightarrow> resource_usage
    \<Rightarrow> (budget_reason + unit) \<times> resource_usage" where
  "before_tool b elapsed u =
     (case check_deadline b elapsed of
        Inl e \<Rightarrow> (Inl e, u)
      | Inr _ \<Rightarrow>
          if tool_calls u \<ge> max_tool_calls b then (Inl ToolCalls, u)
          else (Inr (), u\<lparr>tool_calls := tool_calls u + 1\<rparr>))"

text \<open>The usage a provider reports, each count of which may be missing.\<close>

record reported_usage =
  ru_input_tokens :: "u64 option"
  ru_output_tokens :: "u64 option"
  ru_total_tokens :: "u64 option"

definition or_zero :: "u64 option \<Rightarrow> u64" where
  "or_zero x = (case x of None \<Rightarrow> 0 | Some n \<Rightarrow> n)"

definition add_reported :: "reported_usage \<Rightarrow> resource_usage \<Rightarrow> resource_usage" where
  "add_reported r u =
     u\<lparr>input_tokens := saturating_add (input_tokens u) (or_zero (ru_input_tokens r)),
       output_tokens := saturating_add (output_tokens u) (or_zero (ru_output_tokens r)),
       total_tokens := saturating_add (total_tokens u)
         (case ru_total_tokens r of
            Some n \<Rightarrow> n
          | None \<Rightarrow> saturating_add (or_zero (ru_input_tokens r)) (or_zero (ru_output_tokens r)))\<rparr>"

definition after_response :: "resource_budget \<Rightarrow> reported_usage option \<Rightarrow> u64 \<Rightarrow> u64 \<Rightarrow> resource_usage
    \<Rightarrow> (budget_reason + unit) \<times> resource_usage" where
  "after_response b reported output_bytes elapsed u =
     (case check_deadline b elapsed of
        Inl e \<Rightarrow> (Inl e, u)
      | Inr _ \<Rightarrow>
          let u = u\<lparr>model_output_bytes := saturating_add (model_output_bytes u) output_bytes\<rparr>
          in if model_output_bytes u > max_model_output_bytes b then (Inl ModelOutputBytes, u)
             else (case reported of
                 None \<Rightarrow>
                   (if require_reported_tokens b then Inl MissingTokenUsage else Inr (),
                    u\<lparr>missing_token_reports := saturating_add (missing_token_reports u) 1\<rparr>)
               | Some r \<Rightarrow> (check_tokens b (add_reported r u), add_reported r u)))"

subsection \<open>What a budget guarantees\<close>

definition calls_within :: "resource_budget \<Rightarrow> resource_usage \<Rightarrow> bool" where
  "calls_within b u \<longleftrightarrow> model_calls u \<le> max_model_calls b \<and> tool_calls u \<le> max_tool_calls b"

definition tokens_within :: "resource_budget \<Rightarrow> resource_usage \<Rightarrow> bool" where
  "tokens_within b u \<longleftrightarrow>
     input_tokens u \<le> max_input_tokens b \<and> output_tokens u \<le> max_output_tokens b
     \<and> total_tokens u \<le> max_total_tokens b \<and> model_output_bytes u \<le> max_model_output_bytes b"

lemma check_tokens_Inr_iff [res_inv]:
  "check_tokens b u = Inr x \<longleftrightarrow> input_tokens u \<le> max_input_tokens b
    \<and> output_tokens u \<le> max_output_tokens b \<and> total_tokens u \<le> max_total_tokens b"
  by (auto simp: check_tokens_def not_less)

lemma usage_merge_Inr_iff:
  "fst (usage_merge u v b) = Inr x \<longleftrightarrow>
     calls_within b (snd (usage_merge u v b)) \<and> tokens_within b (snd (usage_merge u v b))
     \<and> (require_reported_tokens b \<longrightarrow> missing_token_reports (snd (usage_merge u v b)) = 0)"
  by (auto simp: usage_merge_def Let_def calls_within_def tokens_within_def rbind_Inr_iff
      check_tokens_Inr_iff not_less word_neq_0_conv split: if_splits)

lemma word_succ_le:
  assumes "(x :: 'a::len word) < m"
  shows "x + 1 \<le> m" and "unat (x + 1) = Suc (unat x)"
proof -
  have "unat m < 2 ^ LENGTH('a)"
    by (rule unsigned_less)
  moreover from assms have "unat x < unat m"
    by (simp add: word_less_nat_alt)
  ultimately have "unat x + 1 < 2 ^ LENGTH('a)"
    by linarith
  then have "unat (x + 1) = Suc (unat x)"
    by (simp add: unat_word_ariths)
  then show "unat (x + 1) = Suc (unat x)" .
  with assms show "x + 1 \<le> m"
    by (simp add: word_less_nat_alt word_le_nat_alt)
qed

lemma before_model_cases:
  obtains e where "before_model b t u = (Inl e, u)"
  | "before_model b t u = (Inr (), u\<lparr>model_calls := model_calls u + 1\<rparr>)"
    and "model_calls u < max_model_calls b" and "t \<le> max_elapsed_ms b"
  by (cases "t \<le> max_elapsed_ms b"; cases "model_calls u < max_model_calls b")
    (simp_all add: before_model_def check_deadline_def linorder_not_less [symmetric])

lemma before_tool_cases:
  obtains e where "before_tool b t u = (Inl e, u)"
  | "before_tool b t u = (Inr (), u\<lparr>tool_calls := tool_calls u + 1\<rparr>)"
    and "tool_calls u < max_tool_calls b" and "t \<le> max_elapsed_ms b"
  by (cases "t \<le> max_elapsed_ms b"; cases "tool_calls u < max_tool_calls b")
    (simp_all add: before_tool_def check_deadline_def linorder_not_less [symmetric])

lemma before_model_within:
  "before_model b t u = (r, u') \<Longrightarrow> calls_within b u \<Longrightarrow> calls_within b u'"
  by (cases rule: before_model_cases [of b t u]) (auto simp: calls_within_def word_succ_le(1))

lemma before_tool_within:
  "before_tool b t u = (r, u') \<Longrightarrow> calls_within b u \<Longrightarrow> calls_within b u'"
  by (cases rule: before_tool_cases [of b t u]) (auto simp: calls_within_def word_succ_le(1))

lemma after_response_calls:
  "after_response b rep n t u = (r, u') \<Longrightarrow> model_calls u' = model_calls u \<and> tool_calls u' = tool_calls u"
  by (auto simp: after_response_def add_reported_def Let_def split: sum.splits if_splits option.splits)

lemma after_response_within:
  assumes "after_response b rep n t u = (Inr x, u')" and "tokens_within b u"
  shows "tokens_within b u'"
  using assms by (auto simp: after_response_def add_reported_def Let_def tokens_within_def
      check_tokens_Inr_iff not_less split: sum.splits if_splits option.splits)

subsection \<open>The strictest budget\<close>

definition budget_le :: "resource_budget \<Rightarrow> resource_budget \<Rightarrow> bool" where
  "budget_le a b \<longleftrightarrow>
     max_model_calls a \<le> max_model_calls b \<and> max_tool_calls a \<le> max_tool_calls b
     \<and> max_input_tokens a \<le> max_input_tokens b \<and> max_output_tokens a \<le> max_output_tokens b
     \<and> max_total_tokens a \<le> max_total_tokens b
     \<and> max_model_output_bytes a \<le> max_model_output_bytes b
     \<and> max_elapsed_ms a \<le> max_elapsed_ms b
     \<and> (require_reported_tokens b \<longrightarrow> require_reported_tokens a)"

lemma budget_le_refl: "budget_le a a"
  by (simp add: budget_le_def)

lemma budget_le_min: "budget_le c (budget_min a b) \<longleftrightarrow> budget_le c a \<and> budget_le c b"
  by (auto simp: budget_le_def budget_min_def)

lemma budget_le_foldl: "budget_le c (foldl budget_min b bs) \<longleftrightarrow> (\<forall>x\<in>set (b # bs). budget_le c x)"
  by (induction bs arbitrary: b) (auto simp: budget_le_min)

lemma strictest_greatest_lower:
  assumes "bs \<noteq> []"
  shows "budget_le c (strictest bs) \<longleftrightarrow> (\<forall>b\<in>set bs. budget_le c b)"
  using assms by (cases bs) (simp_all add: budget_le_foldl)

end
