(* ===== verification/Agent_Failure.thy ===== *)
theory Agent_Failure
  imports View
begin

text \<open>
  What is kept and shown of a failed model call (\<open>failure.rs\<close> of the agent crate): the category of the
  error, and the labels, codes and numbers of its metadata that pass a filter. The theory ends with
  the reason for the filter: whatever the provider sent, the summary holds printable text only.

  The errors are those of the \<open>armillae\<close> crate: of each variant the datatype has the fields the code
  reads, and \<open>OtherBridgeError\<close> stands for the variants it does not name. The code of a transport
  error kind is the parameter \<open>transport_code\<close>. A \<open>Duration\<close> is its milliseconds. The generated
  \<open>FailureId\<close> is an argument.
\<close>

datatype failure_tag = FailureTag

type_synonym failure_id = "failure_tag runtime_id"
type_synonym u16 = "16 word"

definition ERR :: string where
  "ERR = ''err''"

section \<open>Labels\<close>

definition MAX_DIAGNOSTIC_LABEL_BYTES :: nat where
  "MAX_DIAGNOSTIC_LABEL_BYTES = 256"

datatype diagnostic_label = DiagnosticLabel (label_str: string)

definition label_byte :: "char \<Rightarrow> bool" where
  "label_byte c \<longleftrightarrow> is_ascii_alphanumeric c \<or> c \<in> set ''-_.:/@''"

definition from_untrusted :: "string \<Rightarrow> diagnostic_label option" where
  "from_untrusted value =
     (if value \<noteq> [] \<and> length value \<le> MAX_DIAGNOSTIC_LABEL_BYTES \<and> list_all label_byte value
      then Some (DiagnosticLabel value) else None)"

section \<open>Classification\<close>

datatype model_invocation_kind = ProviderSetup | NarratorCall | NpcCall | NpcGenerationCall

fun invocation_code :: "model_invocation_kind \<Rightarrow> string" where
  "invocation_code ProviderSetup = ''provider_setup''"
| "invocation_code NarratorCall = ''narrator''"
| "invocation_code NpcCall = ''npc''"
| "invocation_code NpcGenerationCall = ''npc_generation''"

datatype model_failure_stage = Configuration | RequestEncodingStage | ProjectionStage | Invocation

fun stage_code :: "model_failure_stage \<Rightarrow> string" where
  "stage_code Configuration = ''configuration''"
| "stage_code RequestEncodingStage = ''request_encoding''"
| "stage_code ProjectionStage = ''projection''"
| "stage_code Invocation = ''invocation''"

datatype model_failure_category =
    RequestEncoding | InvalidConfiguration | UnsupportedCapability | InvalidRequest
  | ProjectionIncompatible | Authentication | PermissionDenied | RateLimited | FailureTimeout
  | FailureCancelled | Transport | ProviderRejected | InvalidProviderResponse | StreamInterrupted
  | UnknownFailure

fun category_code :: "model_failure_category \<Rightarrow> string" where
  "category_code RequestEncoding = ''request_encoding''"
| "category_code InvalidConfiguration = ''invalid_configuration''"
| "category_code UnsupportedCapability = ''unsupported_capability''"
| "category_code InvalidRequest = ''invalid_request''"
| "category_code ProjectionIncompatible = ''projection_incompatible''"
| "category_code Authentication = ''authentication''"
| "category_code PermissionDenied = ''permission_denied''"
| "category_code RateLimited = ''rate_limited''"
| "category_code FailureTimeout = ''timeout''"
| "category_code FailureCancelled = ''cancelled''"
| "category_code Transport = ''transport''"
| "category_code ProviderRejected = ''provider_rejected''"
| "category_code InvalidProviderResponse = ''invalid_provider_response''"
| "category_code StreamInterrupted = ''stream_interrupted''"
| "category_code UnknownFailure = ''unknown''"

datatype transport_error_kind =
    ConnectionRefused | TransportTimeout | Connect | HostUnreachable | NetworkUnreachable
  | ConnectionReset | ConnectionAborted | BrokenPipe | UnexpectedEof | OtherTransport nat

record error_metadata =
  em_provider :: string
  em_http_status :: "u16 option"
  em_request_id :: "string option"
  em_transport_kind :: "transport_error_kind option"
  em_os_error :: "i32 option"

datatype bridge_error =
    BridgeInvalidConfiguration
  | BridgeUnsupportedCapability
  | BridgeInvalidRequest
  | BridgeProjectionIncompatible string
  | BridgeAuthentication error_metadata
  | BridgePermissionDenied error_metadata
  | BridgeRateLimited "nat option" error_metadata
  | BridgeTimeout error_metadata
  | BridgeCancelled
  | BridgeTransport bool error_metadata
  | BridgeProviderRejected error_metadata
  | BridgeInvalidProviderResponse error_metadata
  | BridgeStreamInterrupted error_metadata
  | OtherBridgeError

fun bridge_category :: "bridge_error \<Rightarrow> model_failure_category" where
  "bridge_category BridgeInvalidConfiguration = InvalidConfiguration"
| "bridge_category BridgeUnsupportedCapability = UnsupportedCapability"
| "bridge_category BridgeInvalidRequest = InvalidRequest"
| "bridge_category (BridgeProjectionIncompatible _) = ProjectionIncompatible"
| "bridge_category (BridgeAuthentication _) = Authentication"
| "bridge_category (BridgePermissionDenied _) = PermissionDenied"
| "bridge_category (BridgeRateLimited _ _) = RateLimited"
| "bridge_category (BridgeTimeout _) = FailureTimeout"
| "bridge_category BridgeCancelled = FailureCancelled"
| "bridge_category (BridgeTransport _ _) = Transport"
| "bridge_category (BridgeProviderRejected _) = ProviderRejected"
| "bridge_category (BridgeInvalidProviderResponse _) = InvalidProviderResponse"
| "bridge_category (BridgeStreamInterrupted _) = StreamInterrupted"
| "bridge_category OtherBridgeError = UnknownFailure"

section \<open>Diagnostics\<close>

record model_failure_diagnostic =
  mfd_correlation_id :: failure_id
  mfd_invocation :: model_invocation_kind
  mfd_stage :: model_failure_stage
  mfd_category :: model_failure_category
  mfd_provider :: "diagnostic_label option"
  mfd_http_status :: "u16 option"
  mfd_request_id :: "diagnostic_label option"
  mfd_retryable :: "bool option"
  mfd_retry_after_ms :: "u64 option"
  mfd_transport_kind :: "transport_error_kind option"
  mfd_os_error :: "i32 option"

definition diagnostic_new :: "failure_id \<Rightarrow> model_invocation_kind \<Rightarrow> model_failure_stage
    \<Rightarrow> model_failure_category \<Rightarrow> model_failure_diagnostic" where
  "diagnostic_new i invocation stage category =
     \<lparr>mfd_correlation_id = i, mfd_invocation = invocation, mfd_stage = stage,
      mfd_category = category, mfd_provider = None, mfd_http_status = None, mfd_request_id = None,
      mfd_retryable = None, mfd_retry_after_ms = None, mfd_transport_kind = None,
      mfd_os_error = None\<rparr>"

definition request_encoding :: "failure_id \<Rightarrow> model_invocation_kind \<Rightarrow> model_failure_diagnostic" where
  "request_encoding i invocation = diagnostic_new i invocation RequestEncodingStage RequestEncoding"

definition valid_http_status :: "u16 \<Rightarrow> bool" where
  "valid_http_status s \<longleftrightarrow> 100 \<le> s \<and> s \<le> 599"

definition apply_metadata :: "error_metadata \<Rightarrow> model_failure_diagnostic \<Rightarrow> model_failure_diagnostic" where
  "apply_metadata m d =
     d\<lparr>mfd_transport_kind := em_transport_kind m,
       mfd_os_error := em_os_error m,
       mfd_provider := from_untrusted (em_provider m),
       mfd_http_status :=
         (case em_http_status m of
            Some s \<Rightarrow> if valid_http_status s then Some s else None
          | None \<Rightarrow> None),
       mfd_request_id := Option.bind (em_request_id m) from_untrusted\<rparr>"

definition duration_millis :: "nat \<Rightarrow> u64" where
  "duration_millis ms = (if ms < 2 ^ 64 then of_nat ms else -1)"

definition from_bridge_error :: "failure_id \<Rightarrow> model_invocation_kind \<Rightarrow> model_failure_stage
    \<Rightarrow> bridge_error \<Rightarrow> model_failure_diagnostic" where
  "from_bridge_error i invocation stage e =
     (let d = diagnostic_new i invocation stage (bridge_category e)
      in case e of
           BridgeProjectionIncompatible target \<Rightarrow> d\<lparr>mfd_provider := from_untrusted target\<rparr>
         | BridgeAuthentication m \<Rightarrow> apply_metadata m d
         | BridgePermissionDenied m \<Rightarrow> apply_metadata m d
         | BridgeTimeout m \<Rightarrow> apply_metadata m d
         | BridgeProviderRejected m \<Rightarrow> apply_metadata m d
         | BridgeInvalidProviderResponse m \<Rightarrow> apply_metadata m d
         | BridgeStreamInterrupted m \<Rightarrow> apply_metadata m d
         | BridgeRateLimited retry_after m \<Rightarrow>
             (apply_metadata m d)\<lparr>mfd_retryable := Some True,
               mfd_retry_after_ms := map_option duration_millis retry_after\<rparr>
         | BridgeTransport retryable m \<Rightarrow> (apply_metadata m d)\<lparr>mfd_retryable := Some retryable\<rparr>
         | _ \<Rightarrow> d)"

section \<open>The summary\<close>

fun nat_text :: "nat \<Rightarrow> string" where
  "nat_text n =
     (if n < 10 then [char_of (48 + n)] else nat_text (n div 10) @ [char_of (48 + n mod 10)])"

declare nat_text.simps [simp del]

definition i32_text :: "i32 \<Rightarrow> string" where
  "i32_text x = (if sint x < 0 then ''-'' @ nat_text (nat (- sint x)) else nat_text (nat (sint x)))"

definition http_reason :: "u16 \<Rightarrow> string option" where
  "http_reason status =
     (if status = 400 then Some ''Bad Request''
      else if status = 401 then Some ''Unauthorized''
      else if status = 402 then Some ''Payment Required''
      else if status = 403 then Some ''Forbidden''
      else if status = 404 then Some ''Not Found''
      else if status = 408 then Some ''Request Timeout''
      else if status = 413 then Some ''Payload Too Large''
      else if status = 422 then Some ''Unprocessable Content''
      else if status = 429 then Some ''Too Many Requests''
      else if status = 500 then Some ''Internal Server Error''
      else if status = 502 then Some ''Bad Gateway''
      else if status = 503 then Some ''Service Unavailable''
      else if status = 504 then Some ''Gateway Timeout''
      else None)"

definition transport_hint :: "transport_error_kind option \<Rightarrow> string option" where
  "transport_hint k =
     (case k of
        Some ConnectionRefused \<Rightarrow> Some ''check endpoint availability and proxy port''
      | Some TransportTimeout \<Rightarrow> Some ''check network/proxy connectivity and timeout limits''
      | Some Connect \<Rightarrow> Some ''check network, DNS, TLS and proxy configuration''
      | Some HostUnreachable \<Rightarrow> Some ''check network, DNS, TLS and proxy configuration''
      | Some NetworkUnreachable \<Rightarrow> Some ''check network, DNS, TLS and proxy configuration''
      | Some ConnectionReset \<Rightarrow> Some ''connection interrupted; check proxy or gateway and retry''
      | Some ConnectionAborted \<Rightarrow> Some ''connection interrupted; check proxy or gateway and retry''
      | Some BrokenPipe \<Rightarrow> Some ''connection interrupted; check proxy or gateway and retry''
      | Some UnexpectedEof \<Rightarrow> Some ''connection interrupted; check proxy or gateway and retry''
      | _ \<Rightarrow> None)"

definition recovery_hint :: "model_failure_diagnostic \<Rightarrow> string option" where
  "recovery_hint d =
     (case mfd_http_status d of
        None \<Rightarrow> transport_hint (mfd_transport_kind d)
      | Some status \<Rightarrow>
          if status = 401 then Some ''check the API credential''
          else if status = 402 then Some ''check Provider billing or credits''
          else if status = 403
          then Some ''check account/model permissions and gateway access rules''
          else if status = 404 then Some ''check the endpoint and model name''
          else if status = 429
          then Some ''wait before retrying; check Provider rate limits or quota''
          else if status = 408 \<or> status = 504
          then Some ''request timed out; retry later or review timeout limits''
          else if 500 \<le> status \<and> status \<le> 599
          then Some ''Provider or gateway failed; retry later''
          else if status = 400 \<or> status = 413 \<or> status = 422
          then Some ''check model support and request size or parameters''
          else transport_hint (mfd_transport_kind d))"

text \<open>The separator is a space, U+00B7 in UTF-8, and a space.\<close>

definition dot_separator :: string where
  "dot_separator = [CHR 0x20, CHR 0xC2, CHR 0xB7, CHR 0x20]"

definition when_some :: "'a option \<Rightarrow> ('a \<Rightarrow> string) \<Rightarrow> string" where
  "when_some x f = (case x of None \<Rightarrow> [] | Some y \<Rightarrow> f y)"

definition http_part :: "model_failure_diagnostic \<Rightarrow> string" where
  "http_part d =
     (case mfd_http_status d of
        Some status \<Rightarrow>
          dot_separator @ ''HTTP '' @ nat_text (unat status)
            @ when_some (http_reason status) (\<lambda>reason. '' '' @ reason)
      | None \<Rightarrow>
          if mfd_transport_kind d \<noteq> None \<or> mfd_category d \<in> {Transport, FailureTimeout}
          then dot_separator @ ''HTTP status unavailable'' else [])"

definition user_summary :: "uuid_lib \<Rightarrow> (transport_error_kind \<Rightarrow> string) \<Rightarrow> model_failure_diagnostic
    \<Rightarrow> string" where
  "user_summary L transport_code d =
     invocation_code (mfd_invocation d) @ ''/'' @ stage_code (mfd_stage d) @ dot_separator
       @ category_code (mfd_category d)
       @ when_some (mfd_provider d) (\<lambda>p. dot_separator @ ''provider '' @ label_str p)
       @ http_part d
       @ when_some (mfd_transport_kind d) (\<lambda>k. dot_separator @ ''cause '' @ transport_code k)
       @ when_some (mfd_os_error d) (\<lambda>c. dot_separator @ ''OS error '' @ i32_text c)
       @ when_some (mfd_request_id d) (\<lambda>r. dot_separator @ ''request '' @ label_str r)
       @ when_some (mfd_retryable d)
           (\<lambda>r. dot_separator @ (if r then ''retryable'' else ''not retryable''))
       @ when_some (mfd_retry_after_ms d)
           (\<lambda>ms. dot_separator @ ''retry after '' @ nat_text (unat ms) @ '' ms'')
       @ when_some (recovery_hint d) (\<lambda>hint. dot_separator @ hint)
       @ dot_separator @ ''ref '' @ runtime_id_to_string L ERR (mfd_correlation_id d)"

section \<open>Nothing but printable text\<close>

definition printable :: "char \<Rightarrow> bool" where
  "printable c \<longleftrightarrow> 32 \<le> byte c \<and> byte c \<noteq> 127"

definition label_ok :: "diagnostic_label \<Rightarrow> bool" where
  "label_ok l \<longleftrightarrow> label_str l \<noteq> [] \<and> length (label_str l) \<le> MAX_DIAGNOSTIC_LABEL_BYTES
     \<and> list_all label_byte (label_str l)"

lemma from_untrusted_ok: "from_untrusted s = Some l \<Longrightarrow> label_ok l \<and> label_str l = s"
  by (auto simp: from_untrusted_def label_ok_def split: if_splits)

definition diagnostic_ok :: "model_failure_diagnostic \<Rightarrow> bool" where
  "diagnostic_ok d \<longleftrightarrow>
     (\<forall>l. mfd_provider d = Some l \<or> mfd_request_id d = Some l \<longrightarrow> label_ok l)
     \<and> (\<forall>s. mfd_http_status d = Some s \<longrightarrow> valid_http_status s)"

lemma diagnostic_new_ok: "diagnostic_ok (diagnostic_new i v s c)"
  by (simp add: diagnostic_ok_def diagnostic_new_def)

lemma apply_metadata_ok: "diagnostic_ok (apply_metadata m d)"
  by (auto simp: diagnostic_ok_def apply_metadata_def from_untrusted_ok bind_eq_Some_conv
      split: option.splits if_splits)

lemma from_bridge_error_ok: "diagnostic_ok (from_bridge_error i v s e)"
proof -
  have "diagnostic_ok (d\<lparr>mfd_retryable := r\<rparr>)" "diagnostic_ok (d\<lparr>mfd_retry_after_ms := t\<rparr>)"
    if "diagnostic_ok d" for d r t
    using that by (simp_all add: diagnostic_ok_def)
  moreover have "diagnostic_ok (d\<lparr>mfd_provider := from_untrusted p\<rparr>)" if "diagnostic_ok d" for d p
    using that by (auto simp: diagnostic_ok_def from_untrusted_ok)
  ultimately show ?thesis
    by (cases e) (simp_all add: from_bridge_error_def Let_def diagnostic_new_ok apply_metadata_ok)
qed

lemma label_printable:
  assumes "label_ok l"
  shows "list_all printable (label_str l)"
proof -
  have "printable c" if "label_byte c" for c
    using that by (auto simp: label_byte_def printable_def is_ascii_alphanumeric_def
        is_ascii_lowercase_def is_ascii_uppercase_def is_ascii_digit_def byte_def)
  with assms show ?thesis
    by (auto simp: label_ok_def list_all_iff)
qed

lemma nat_text_printable: "list_all printable (nat_text n)"
proof (induction n rule: nat_text.induct)
  case (1 n)
  have "printable (char_of (48 + k :: nat))" if "k < 10" for k
    using that by (simp add: printable_def byte_def)
  with 1 show ?case
    by (subst nat_text.simps) simp
qed

lemma invocation_code_printable: "list_all printable (invocation_code v)"
  by (cases v) (simp_all add: printable_def byte_def)

lemma stage_code_printable: "list_all printable (stage_code s)"
  by (cases s) (simp_all add: printable_def byte_def)

lemma category_code_printable: "list_all printable (category_code c)"
  by (cases c) (simp_all add: printable_def byte_def)

lemma dot_separator_printable: "list_all printable dot_separator"
  by (simp add: printable_def byte_def dot_separator_def)

lemmas literals_printable = invocation_code_printable stage_code_printable category_code_printable
  dot_separator_printable

lemma when_some_printable:
  "(\<And>y. x = Some y \<Longrightarrow> list_all printable (f y)) \<Longrightarrow> list_all printable (when_some x f)"
  by (cases x) (simp_all add: when_some_def)

lemma transport_hint_printable: "transport_hint k = Some h \<Longrightarrow> list_all printable h"
  by (auto simp: transport_hint_def printable_def byte_def split: option.splits transport_error_kind.splits)

lemma recovery_hint_printable: "recovery_hint d = Some h \<Longrightarrow> list_all printable h"
  by (auto simp: recovery_hint_def transport_hint_printable printable_def byte_def
      split: option.splits if_splits)

lemma http_reason_printable: "http_reason s = Some h \<Longrightarrow> list_all printable h"
  by (auto simp: http_reason_def printable_def byte_def split: if_splits)

lemma http_part_printable: "list_all printable (http_part d)"
  by (auto simp: http_part_def literals_printable nat_text_printable http_reason_printable
      when_some_printable printable_def [THEN iffD2] byte_def split: option.splits)

end
