(* ===== verification/Agent_Protocol.thy ===== *)
theory Agent_Protocol
  imports Record_Log Agent_Budget Agent_Failure
begin

text \<open>
  What the narrator and the agents of characters exchange (\<open>protocol.rs\<close> of the agent crate): the
  narrator's decisions about characters and the rules they obey, the context an agent may see, and
  the request that is made of it.

  A request to a language model is a type of the \<open>armillae\<close> crate. \<open>completion_request\<close> has the
  fields the code sets; a message is what it was made from. The JSON text of an agent's context is
  the parameter \<open>encode_context\<close>.
\<close>

type_synonym assignment_text = "4096 bounded_text"
type_synonym narration_text = "65536 bounded_text"

datatype npc_turn_request_tag = NpcTurnRequestTag

type_synonym npc_turn_request_id = "npc_turn_request_tag runtime_id"

definition NTR :: string where
  "NTR = ''ntr''"

datatype agent_error =
    ContextRevision
  | ContextOwnership
  | InvalidPlan string
  | InvalidNpcDecision string
  | ContextEncoding

section \<open>Messages\<close>

record tool_call =
  tc_id :: string
  tc_name :: string
  tc_arguments :: json

datatype tool_result_content = JsonContent json | OtherToolContent string

record tool_result =
  tlr_call_id :: string
  tlr_content :: "tool_result_content list"
  tlr_is_error :: bool

datatype assistant_content = AssistantText string | OtherAssistantContent json

text \<open>\<open>rsp_tool_calls\<close> is what the method \<open>tool_calls\<close> of the response yields.\<close>

record completion_response =
  rsp_content :: "assistant_content list"
  rsp_tool_calls :: "tool_call list"
  rsp_usage :: "reported_usage option"

datatype message =
    SystemMessage string
  | UserMessage string
  | AssistantMessage completion_response
  | ToolResultMessage tool_result

record tool_definition =
  td_name :: string
  td_description :: string
  td_input_schema :: json

record completion_request =
  rq_messages :: "message list"
  rq_tools :: "tool_definition list"
  rq_max_output_tokens :: "u64 option"

section \<open>Definitions\<close>

record agent_definition =
  ad_profile_id :: content_definition_id
  ad_system_style :: long_text
  ad_model_alias :: short_text
  ad_allowed_tools :: "string list"

record narrator_definition =
  nrd_narrator_prompts :: "long_text list"
  nrd_npc_prompts :: "long_text list"

record npc_assignment =
  na_text :: assignment_text
  na_revision :: revision

datatype narrative_importance = Ambient | Supporting | Principal

record npc_generation_request =
  ngr_scene_id :: object_id
  ngr_role :: short_text
  ngr_purpose :: long_text
  ngr_desired_traits :: "content_definition_id list"
  ngr_importance :: narrative_importance

datatype npc_creation_source =
    PresetSource content_definition_id
  | GeneratedSource short_text long_text

datatype npc_creation_mode = NarratedMode | AgentMode

datatype npc_lifetime = NpcScene | NpcPersistent

record create_npc_request =
  cnr_source :: npc_creation_source
  cnr_lifetime :: npc_lifetime
  cnr_mode :: npc_creation_mode

datatype npc_target =
    ExistingNpc actor_id
  | PresetNpc content_definition_id object_id
  | GeneratedNpc content_definition_id object_id npc_generation_request
  | MentionedNpc display_name

datatype npc_narrative_action = MentionOnly | MaterializeLightweight | RequestNpcTurn

datatype npc_controller_kind = NpcNarratorProxy | NpcRules | NpcAgentProfile content_definition_id

section \<open>Decisions\<close>

record narrator_npc_decision =
  dec_target :: npc_target
  dec_action :: npc_narrative_action
  dec_lifetime :: npc_lifetime
  dec_controller :: npc_controller_kind
  dec_assignment :: "npc_assignment option"

fun is_mentioned :: "npc_target \<Rightarrow> bool" where
  "is_mentioned (MentionedNpc _) = True"
| "is_mentioned _ = False"

fun is_existing :: "npc_target \<Rightarrow> bool" where
  "is_existing (ExistingNpc _) = True"
| "is_existing _ = False"

fun is_new :: "npc_target \<Rightarrow> bool" where
  "is_new (PresetNpc _ _) = True"
| "is_new (GeneratedNpc _ _ _) = True"
| "is_new _ = False"

fun is_agent_controller :: "npc_controller_kind \<Rightarrow> bool" where
  "is_agent_controller (NpcAgentProfile _) = True"
| "is_agent_controller _ = False"

definition requires_materialization :: "narrator_npc_decision \<Rightarrow> bool" where
  "requires_materialization d \<longleftrightarrow> dec_action d \<noteq> MentionOnly \<and> is_new (dec_target d)"

definition validate_action :: "narrator_npc_decision \<Rightarrow> agent_error + unit" where
  "validate_action d =
     (case dec_action d of
        MentionOnly \<Rightarrow>
          reject_if (dec_assignment d \<noteq> None) (InvalidNpcDecision ''mention_has_no_assignment'')
      | MaterializeLightweight \<Rightarrow>
          rbind (reject_if (is_agent_controller (dec_controller d))
              (InvalidNpcDecision ''lightweight_controller'')) (\<lambda>_.
            reject_if (dec_assignment d \<noteq> None)
              (InvalidNpcDecision ''lightweight_has_no_assignment''))
      | RequestNpcTurn \<Rightarrow>
          reject_if (\<not> is_agent_controller (dec_controller d))
            (InvalidNpcDecision ''npc_turn_requires_agent''))"

definition decision_validate :: "narrator_npc_decision \<Rightarrow> agent_error + unit" where
  "decision_validate d =
     rbind (reject_if (is_mentioned (dec_target d) \<and> dec_action d \<noteq> MentionOnly)
         (InvalidNpcDecision ''mentioned_requires_mention_only'')) (\<lambda>_.
     rbind (reject_if (is_existing (dec_target d) \<and> dec_action d = MaterializeLightweight)
         (InvalidNpcDecision ''existing_is_already_materialized'')) (\<lambda>_.
     rbind (validate_action d) (\<lambda>_.
       reject_if (requires_materialization d \<and> dec_assignment d \<noteq> None)
         (InvalidNpcDecision ''assignment_requires_materialized_actor''))))"

section \<open>The context of an agent\<close>

record npc_context =
  nc_actor_id :: actor_id
  nc_revision :: revision
  nc_character :: character_context
  nc_scene :: scene_context
  nc_recent_dialogue :: "transcript_item_record list"
  nc_truncated :: bool

definition npc_context_validate :: "npc_context \<Rightarrow> agent_error + unit" where
  "npc_context_validate c =
     (if nc_revision c \<noteq> cc_revision (nc_character c) \<or> nc_revision c \<noteq> scx_revision (nc_scene c)
      then Inl ContextRevision
      else reject_if
        (nc_actor_id c \<noteq> cc_actor_id (nc_character c)
         \<or> cc_location_id (nc_character c) \<noteq> scx_place_id (nc_scene c)
         \<or> scx_recent_events (nc_scene c) \<noteq> []
         \<or> list_ex (\<lambda>f. kf_owner_id f \<noteq> nc_actor_id c) (cc_known_facts (nc_character c))
         \<or> list_ex (\<lambda>g. goal_owner_id g \<noteq> nc_actor_id c) (cc_goals (nc_character c))
         \<or> list_ex (\<lambda>i. tr_audience i \<noteq> NpcAudience (nc_actor_id c)) (nc_recent_dialogue c))
        ContextOwnership)"

record npc_agent =
  ag_definition :: agent_definition
  ag_context :: npc_context

definition npc_agent_new :: "agent_definition \<Rightarrow> character_context \<Rightarrow> scene_context
    \<Rightarrow> transcript_item_record list \<Rightarrow> bool \<Rightarrow> agent_error + npc_agent" where
  "npc_agent_new d character scene dialogue truncated =
     (if cc_revision character \<noteq> scx_revision scene then Inl ContextRevision
      else
        let agent = \<lparr>ag_definition = d,
              ag_context = \<lparr>nc_actor_id = cc_actor_id character, nc_revision = cc_revision character,
                nc_character = character, nc_scene = scene, nc_recent_dialogue = dialogue,
                nc_truncated = truncated\<rparr>\<rparr>
        in rbind (npc_context_validate (ag_context agent)) (\<lambda>_. Inr agent))"

definition npc_agent_request :: "(content_definition_id \<Rightarrow> npc_context \<Rightarrow> string option)
    \<Rightarrow> npc_agent \<Rightarrow> tool_definition list \<Rightarrow> long_text list \<Rightarrow> agent_error + completion_request" where
  "npc_agent_request encode_context agent definitions global_prompts =
     rbind (npc_context_validate (ag_context agent)) (\<lambda>_.
     let d = ag_definition agent;
         tools = filter (\<lambda>t. td_name t \<in> set (ad_allowed_tools d)) definitions
     in rbind (ok_or ContextEncoding (encode_context (ad_profile_id d) (ag_context agent))) (\<lambda>context.
          Inr \<lparr>rq_messages = SystemMessage (as_str (ad_system_style d))
                 # map (\<lambda>p. SystemMessage (as_str p)) global_prompts @ [UserMessage context],
               rq_tools = tools, rq_max_output_tokens = None\<rparr>))"

section \<open>Plans and turns\<close>

record npc_turn_request =
  ntr_request_id :: npc_turn_request_id
  ntr_actor_id :: actor_id
  ntr_scene_id :: object_id
  ntr_based_on_revision :: revision

record narrator_plan =
  np_based_on_revision :: revision
  np_npc_turns :: "npc_turn_request list"

fun validate_turns :: "revision \<Rightarrow> npc_turn_request_id set \<Rightarrow> npc_turn_request list
    \<Rightarrow> agent_error + unit" where
  "validate_turns r ids [] = Inr ()"
| "validate_turns r ids (t # ts) =
     rbind (reject_if (ntr_based_on_revision t \<noteq> r) (InvalidPlan ''request_revision'')) (\<lambda>_.
     rbind (reject_if (ntr_request_id t \<in> ids) (InvalidPlan ''duplicate_request_id'')) (\<lambda>_.
       validate_turns r (insert (ntr_request_id t) ids) ts))"

definition narrator_plan_validate :: "narrator_plan \<Rightarrow> agent_error + unit" where
  "narrator_plan_validate p = validate_turns (np_based_on_revision p) {} (np_npc_turns p)"

datatype npc_turn_status =
    TurnCompleted | TurnStale | TurnRejected | TurnCancelled | TurnBudgetExhausted budget_reason
  | TurnFailed

record npc_turn_result =
  ntres_request_id :: npc_turn_request_id
  ntres_actor_id :: actor_id
  ntres_observed_revision :: "revision option"
  ntres_final_revision :: revision
  ntres_status :: npc_turn_status
  ntres_response :: "long_text option"
  ntres_failure :: "model_failure_diagnostic option"
  ntres_tool_call_ids :: "string list"
  ntres_world_events :: "event_id list"

section \<open>What is accepted\<close>

lemma validate_turns_Inr_iff:
  "validate_turns r ids ts = Inr u \<longleftrightarrow>
     (\<forall>t\<in>set ts. ntr_based_on_revision t = r) \<and> distinct (map ntr_request_id ts)
     \<and> ids \<inter> ntr_request_id ` set ts = {}"
  by (induction ts arbitrary: ids) (auto simp: res_inv)

lemma decision_validate_Inr_iff:
  "decision_validate d = Inr u \<longleftrightarrow>
     (case dec_target d of
        MentionedNpc _ \<Rightarrow> dec_action d = MentionOnly \<and> dec_assignment d = None
      | ExistingNpc _ \<Rightarrow>
          dec_action d = MentionOnly \<and> dec_assignment d = None
          \<or> dec_action d = RequestNpcTurn \<and> is_agent_controller (dec_controller d)
      | _ \<Rightarrow>
          dec_assignment d = None
          \<and> (dec_action d = MentionOnly
             \<or> (dec_action d = RequestNpcTurn \<longleftrightarrow> is_agent_controller (dec_controller d))))"
  by (cases "dec_target d"; cases "dec_action d")
    (auto simp: decision_validate_def validate_action_def requires_materialization_def res_inv)

lemma npc_agent_new_Inr:
  assumes "npc_agent_new d character scene dialogue truncated = Inr agent"
  shows "npc_context_validate (ag_context agent) = Inr ()" and "ag_definition agent = d"
    and "nc_character (ag_context agent) = character"
  using assms by (auto simp: npc_agent_new_def Let_def res_inv split: if_splits)

end
