(* ===== verification/Agent_Runner.thy ===== *)
theory Agent_Runner
  imports Agent_Protocol
begin

text \<open>
  One turn of an agent (\<open>runner.rs\<close> of the agent crate): the model is called, the tools it asks for
  are executed, their results are appended to the request, and the model is called again, until it
  asks for no tool, a tool ends the turn, the turn is cancelled, a call fails or the budget is spent.

  What happens outside, the cancellation by another task, the clock, the language model, the tools
  and the observer of the progress, is the parameter \<open>turn_env\<close>: operations on a state \<open>'w\<close> of which
  nothing is known. The loop itself is a function: each round counts one more call of the model.
\<close>

section \<open>Outcomes\<close>

datatype turn_failure_stage = ProjectionFailure | ProviderFailure

datatype turn_status =
    TurnDone
  | TurnWasCancelled
  | BudgetExhausted budget_reason
  | TurnFailedAt turn_failure_stage

record tool_call_outcome =
  tco_call_id :: string
  tco_name :: string
  tco_is_error :: bool
  tco_error_code :: "string option"

datatype tool_call_progress =
    Started string string
  | Finished tool_call_outcome

record turn_outcome =
  to_status :: turn_status
  to_final_text :: "string option"
  to_failure :: "model_failure_diagnostic option"
  to_tool_results :: "tool_result list"
  to_tool_calls :: "tool_call_outcome list"
  to_committed_events :: "event_id list"
  to_usage :: resource_usage

record agent_tool_context =
  atc_actor_id :: actor_id
  atc_revision :: revision
  atc_session_id :: session_id
  atc_capabilities :: "string list"

section \<open>Reading results\<close>

definition json_get :: "string \<Rightarrow> json \<Rightarrow> json option" where
  "json_get k v = (case v of JObject members \<Rightarrow> map_of members k | _ \<Rightarrow> None)"

fun as_json_str :: "json \<Rightarrow> string option" where
  "as_json_str (JString s) = Some s"
| "as_json_str _ = None"

fun as_json_array :: "json \<Rightarrow> json list option" where
  "as_json_array (JArray vs) = Some vs"
| "as_json_array _ = None"

fun as_json_bool :: "json \<Rightarrow> bool option" where
  "as_json_bool (JBool b) = Some b"
| "as_json_bool _ = None"

fun json_contents :: "tool_result_content list \<Rightarrow> json list" where
  "json_contents [] = []"
| "json_contents (JsonContent v # cs) = v # json_contents cs"
| "json_contents (OtherToolContent _ # cs) = json_contents cs"

definition advance_tool_revision :: "(json \<Rightarrow> revision option) \<Rightarrow> tool_result \<Rightarrow> agent_tool_context
    \<Rightarrow> agent_tool_context" where
  "advance_tool_revision revision_of result context =
     foldl (\<lambda>c v. case Option.bind (json_get ''revision'' v) revision_of of
                    Some r \<Rightarrow> if r > atc_revision c then c\<lparr>atc_revision := r\<rparr> else c
                  | None \<Rightarrow> c)
       context (json_contents (tlr_content result))"

definition code_byte :: "char \<Rightarrow> bool" where
  "code_byte c \<longleftrightarrow> is_ascii_lowercase c \<or> is_ascii_digit c \<or> c = CHR ''_''"

definition result_code :: "json \<Rightarrow> string option" where
  "result_code v =
     (case Option.bind (json_get ''code'' v) as_json_str of
        Some c \<Rightarrow> if c \<noteq> [] \<and> length c \<le> 64 \<and> list_all code_byte c then Some c else None
      | None \<Rightarrow> None)"

fun find_map :: "('a \<Rightarrow> 'b option) \<Rightarrow> 'a list \<Rightarrow> 'b option" where
  "find_map f [] = None"
| "find_map f (x # xs) = (case f x of None \<Rightarrow> find_map f xs | Some y \<Rightarrow> Some y)"

definition tool_error_code :: "tool_result \<Rightarrow> string option" where
  "tool_error_code result = find_map result_code (json_contents (tlr_content result))"

definition tool_result_is_turn_barrier :: "tool_result \<Rightarrow> bool" where
  "tool_result_is_turn_barrier result \<longleftrightarrow>
     list_ex (\<lambda>v. Option.bind (json_get ''turn_barrier'' v) as_json_bool = Some True)
       (json_contents (tlr_content result))"

definition response_text :: "completion_response \<Rightarrow> string" where
  "response_text response =
     concat (map (\<lambda>c. case c of AssistantText t \<Rightarrow> t | OtherAssistantContent _ \<Rightarrow> []) (rsp_content response))"

definition EVT_ID :: string where
  "EVT_ID = ''evt''"

definition parse_event :: "uuid_lib \<Rightarrow> json \<Rightarrow> event_id option" where
  "parse_event L v =
     Option.bind (as_json_str v) (\<lambda>s. ok (runtime_id_from_str L EVT_ID s))"

definition push_event :: "event_id list \<Rightarrow> event_id \<Rightarrow> event_id list" where
  "push_event events e = (if e \<in> set events then events else events @ [e])"

definition named_events :: "uuid_lib \<Rightarrow> json \<Rightarrow> event_id list" where
  "named_events L v =
     (case Option.bind (json_get ''event_ids'' v) as_json_array of
        Some ids \<Rightarrow> List.map_filter (parse_event L) ids
      | None \<Rightarrow>
          (case Option.bind (json_get ''event_id'' v) (parse_event L) of
             Some e \<Rightarrow> [e]
           | None \<Rightarrow> []))"

definition collect_events :: "uuid_lib \<Rightarrow> tool_result \<Rightarrow> event_id list \<Rightarrow> event_id list" where
  "collect_events L result events =
     foldl (\<lambda>es v. foldl push_event es (named_events L v)) events (json_contents (tlr_content result))"

text \<open>An estimate of the tokens of a request: a third of its ASCII characters, rounded up, and one for
  each other character. A character other than ASCII is counted at its first byte.\<close>

definition count_chars :: "string \<Rightarrow> u64 \<times> u64" where
  "count_chars encoded =
     foldl (\<lambda>(ascii, others) c.
         if byte c < 128 then (saturating_add ascii 1, others)
         else if byte c < 192 then (ascii, others)
         else (ascii, saturating_add others 1))
       (0, 0) encoded"

definition div_ceil_3 :: "u64 \<Rightarrow> u64" where
  "div_ceil_3 n = n div 3 + (if n mod 3 > 0 then 1 else 0)"

definition estimate_tokens :: "string \<Rightarrow> u64" where
  "estimate_tokens encoded =
     (let (ascii, others) = count_chars encoded in saturating_add (div_ceil_3 ascii) others)"

section \<open>A turn\<close>

datatype model_reply = Reply completion_response | ReplyError bridge_error | ReplyCancelled

record 'w turn_env =
  te_uuid :: uuid_lib
  te_revision_of :: "json \<Rightarrow> revision option"
  te_encode :: "completion_request \<Rightarrow> string option"
  te_is_cancelled :: "'w \<Rightarrow> bool \<times> 'w"
  te_elapsed_ms :: "'w \<Rightarrow> u64 \<times> 'w"
  te_failure_id :: "'w \<Rightarrow> failure_id \<times> 'w"
  te_project :: "completion_request \<Rightarrow> 'w \<Rightarrow> bridge_error option \<times> 'w"
  te_complete :: "completion_request \<Rightarrow> 'w \<Rightarrow> model_reply \<times> 'w"
  te_execute :: "agent_tool_context \<Rightarrow> tool_call \<Rightarrow> 'w \<Rightarrow> tool_result option \<times> 'w"
  te_progress :: "tool_call_progress \<Rightarrow> 'w \<Rightarrow> 'w"

record turn_params =
  tp_model_invocation :: model_invocation_kind
  tp_budget :: resource_budget
  tp_max_context_tokens :: u64
  tp_offered_tools :: "string list"

record turn_state =
  ts_request :: completion_request
  ts_context :: agent_tool_context
  ts_usage :: resource_usage
  ts_results :: "tool_result list"
  ts_calls :: "tool_call_outcome list"
  ts_events :: "event_id list"

definition turn_ends :: "turn_status \<Rightarrow> string option \<Rightarrow> model_failure_diagnostic option \<Rightarrow> turn_state
    \<Rightarrow> turn_outcome" where
  "turn_ends status text failure s =
     \<lparr>to_status = status, to_final_text = text, to_failure = failure,
      to_tool_results = ts_results s, to_tool_calls = ts_calls s,
      to_committed_events = ts_events s, to_usage = ts_usage s\<rparr>"

definition error_result :: "tool_call \<Rightarrow> string \<Rightarrow> tool_result" where
  "error_result call c =
     \<lparr>tlr_call_id = tc_id call, tlr_content = [JsonContent (JObject [(''code'', JString c)])],
      tlr_is_error = True\<rparr>"

definition execute_call :: "'w turn_env \<Rightarrow> turn_params \<Rightarrow> agent_tool_context \<Rightarrow> tool_call \<Rightarrow> 'w
    \<Rightarrow> tool_result \<times> 'w" where
  "execute_call E P context call w =
     (if tc_name call \<in> set (tp_offered_tools P)
      then (case te_execute E context call w of
              (Some result, w) \<Rightarrow> (result, w)
            | (None, w) \<Rightarrow> (error_result call ''tool_execution_error'', w))
      else (error_result call ''tool_not_offered'', w))"

text \<open>What is kept of a result: its events and revision if it is no error, its outcome, and the message
  that tells the model of it.\<close>

definition call_outcome :: "tool_call \<Rightarrow> tool_result \<Rightarrow> tool_call_outcome" where
  "call_outcome call result =
     \<lparr>tco_call_id = tc_id call, tco_name = tc_name call, tco_is_error = tlr_is_error result,
      tco_error_code = (if tlr_is_error result then tool_error_code result else None)\<rparr>"

definition take_result :: "'w turn_env \<Rightarrow> tool_call \<Rightarrow> tool_result \<Rightarrow> turn_state \<Rightarrow> turn_state" where
  "take_result E call result s =
     s\<lparr>ts_events :=
         (if tlr_is_error result then ts_events s else collect_events (te_uuid E) result (ts_events s)),
       ts_context :=
         (if tlr_is_error result then ts_context s
          else advance_tool_revision (te_revision_of E) result (ts_context s)),
       ts_calls := ts_calls s @ [call_outcome call result],
       ts_request := (ts_request s)\<lparr>rq_messages :=
         rq_messages (ts_request s) @ [ToolResultMessage result]\<rparr>,
       ts_results := ts_results s @ [result]\<rparr>"

definition one_call :: "'w turn_env \<Rightarrow> turn_params \<Rightarrow> tool_call \<Rightarrow> turn_state \<Rightarrow> 'w
    \<Rightarrow> (turn_outcome + turn_state) \<times> 'w" where
  "one_call E P call s w =
     (let (stop, w) = te_is_cancelled E w
      in if stop then (Inl (turn_ends TurnWasCancelled None None s), w)
      else
        let (elapsed, w) = te_elapsed_ms E w;
            (checked, usage) = before_tool (tp_budget P) elapsed (ts_usage s);
            s = s\<lparr>ts_usage := usage\<rparr>
        in case checked of
             Inl reason \<Rightarrow> (Inl (turn_ends (BudgetExhausted reason) None None s), w)
           | Inr _ \<Rightarrow>
               let w = te_progress E (Started (tc_id call) (tc_name call)) w;
                   (result, w) = execute_call E P (ts_context s) call w;
                   w = te_progress E (Finished (call_outcome call result)) w;
                   s = take_result E call result s
               in if \<not> tlr_is_error result \<and> tool_result_is_turn_barrier result
                  then (Inl (turn_ends TurnDone None None s), w)
                  else (Inr s, w))"

fun run_calls :: "'w turn_env \<Rightarrow> turn_params \<Rightarrow> tool_call list \<Rightarrow> turn_state \<Rightarrow> 'w
    \<Rightarrow> (turn_outcome + turn_state) \<times> 'w" where
  "run_calls E P [] s w = (Inr s, w)"
| "run_calls E P (call # calls) s w =
     (case one_call E P call s w of
        (Inl out, w) \<Rightarrow> (Inl out, w)
      | (Inr s, w) \<Rightarrow> run_calls E P calls s w)"

definition failed_turn :: "'w turn_env \<Rightarrow> turn_failure_stage
    \<Rightarrow> (failure_id \<Rightarrow> model_failure_diagnostic) \<Rightarrow> turn_state \<Rightarrow> 'w
    \<Rightarrow> (turn_outcome + 'a) \<times> 'w" where
  "failed_turn E stage diagnostic s w =
     (let (i, w) = te_failure_id E w
      in (Inl (turn_ends (TurnFailedAt stage) None (Some (diagnostic i)) s), w))"

definition limit_output :: "u64 \<Rightarrow> completion_request \<Rightarrow> completion_request" where
  "limit_output remaining request =
     request\<lparr>rq_max_output_tokens :=
       Some (min (case rq_max_output_tokens request of None \<Rightarrow> remaining | Some n \<Rightarrow> n) remaining)\<rparr>"

text \<open>From the head of the loop to the call of the model.\<close>

definition prepare_call :: "'w turn_env \<Rightarrow> turn_params \<Rightarrow> turn_state \<Rightarrow> 'w
    \<Rightarrow> (turn_outcome + turn_state) \<times> 'w" where
  "prepare_call E P s w =
     (let (stop, w) = te_is_cancelled E w
      in if stop then (Inl (turn_ends TurnWasCancelled None None s), w)
      else case te_encode E (ts_request s) of
        None \<Rightarrow>
          failed_turn E ProjectionFailure (\<lambda>i. request_encoding i (tp_model_invocation P)) s w
      | Some encoded \<Rightarrow>
          if estimate_tokens encoded > tp_max_context_tokens P
          then (Inl (turn_ends (BudgetExhausted InputTokens) None None s), w)
          else
            let (elapsed, w) = te_elapsed_ms E w;
                (checked, usage) = before_model (tp_budget P) elapsed (ts_usage s);
                s = s\<lparr>ts_usage := usage\<rparr>;
                remaining = saturating_sub (max_output_tokens (tp_budget P)) (output_tokens usage)
            in case checked of
                 Inl reason \<Rightarrow> (Inl (turn_ends (BudgetExhausted reason) None None s), w)
               | Inr _ \<Rightarrow>
                   if remaining = 0
                   then (Inl (turn_ends (BudgetExhausted OutputTokens) None None s), w)
                   else
                     let s = s\<lparr>ts_request := limit_output remaining (ts_request s)\<rparr>
                     in case te_project E (ts_request s) w of
                          (Some e, w) \<Rightarrow>
                            failed_turn E ProjectionFailure
                              (\<lambda>i. from_bridge_error i (tp_model_invocation P) ProjectionStage e) s w
                        | (None, w) \<Rightarrow> (Inr s, w))"

text \<open>From the response to the end of the round.\<close>

definition take_response :: "'w turn_env \<Rightarrow> turn_params \<Rightarrow> completion_response \<Rightarrow> turn_state \<Rightarrow> 'w
    \<Rightarrow> (turn_outcome + turn_state) \<times> 'w" where
  "take_response E P response s w =
     (let text = response_text response;
          (elapsed, w) = te_elapsed_ms E w;
          (checked, usage) = after_response (tp_budget P) (rsp_usage response)
              (of_nat (length text)) elapsed (ts_usage s);
          s = s\<lparr>ts_usage := usage\<rparr>
      in case checked of
           Inl reason \<Rightarrow> (Inl (turn_ends (BudgetExhausted reason) None None s), w)
         | Inr _ \<Rightarrow>
             let s = s\<lparr>ts_request := (ts_request s)\<lparr>rq_messages :=
                     rq_messages (ts_request s) @ [AssistantMessage response]\<rparr>\<rparr>
             in if rsp_tool_calls response = []
                then (Inl (turn_ends TurnDone (Some text) None s), w)
                else run_calls E P (rsp_tool_calls response) s w)"

definition turn_round :: "'w turn_env \<Rightarrow> turn_params \<Rightarrow> turn_state \<Rightarrow> 'w
    \<Rightarrow> (turn_outcome + turn_state) \<times> 'w" where
  "turn_round E P s w =
     (case prepare_call E P s w of
        (Inl out, w) \<Rightarrow> (Inl out, w)
      | (Inr s, w) \<Rightarrow>
          (case te_complete E (ts_request s) w of
             (ReplyError e, w) \<Rightarrow>
               failed_turn E ProviderFailure
                 (\<lambda>i. from_bridge_error i (tp_model_invocation P) Invocation e) s w
           | (ReplyCancelled, w) \<Rightarrow> (Inl (turn_ends TurnWasCancelled None None s), w)
           | (Reply response, w) \<Rightarrow> take_response E P response s w))"

section \<open>Every round counts a call of the model\<close>

lemma one_call_cases:
  obtains (stopped) w1 where "one_call E P call s w = (Inl (turn_ends TurnWasCancelled None None s), w1)"
  | (spent) reason w1 where "one_call E P call s w = (Inl (turn_ends (BudgetExhausted reason) None None s), w1)"
  | (called) w1 result w2 s2 where
      "s2 = take_result E call result (s\<lparr>ts_usage := (ts_usage s)\<lparr>tool_calls := tool_calls (ts_usage s) + 1\<rparr>\<rparr>)"
    and "tool_calls (ts_usage s) < max_tool_calls (tp_budget P)"
    and "execute_call E P (ts_context s) call w1 = (result, w2)"
    and "one_call E P call s w =
      (if \<not> tlr_is_error result \<and> tool_result_is_turn_barrier result
       then Inl (turn_ends TurnDone None None s2) else Inr s2, te_progress E (Finished (call_outcome call result)) w2)"
proof -
  obtain stop w1 where 1: "te_is_cancelled E w = (stop, w1)"
    by fastforce
  obtain elapsed w2 where 2: "te_elapsed_ms E w1 = (elapsed, w2)"
    by fastforce
  show thesis
  proof (cases stop)
    case True
    with 1 show thesis
      by (intro stopped) (simp add: one_call_def)
  next
    case False
    note running = this
    show thesis
    proof (cases rule: before_tool_cases [of "tp_budget P" elapsed "ts_usage s"])
      case (1 e)
      with \<open>te_is_cancelled E w = (stop, w1)\<close> 2 running show thesis
        by (intro spent) (simp add: one_call_def)
    next
      case 3: 2
      obtain result w3 where r: "execute_call E P (ts_context s) call
          (te_progress E (Started (tc_id call) (tc_name call)) w2) = (result, w3)"
        by fastforce
      with 1 2 3 running show thesis
        by (intro called [OF refl _ r]) (simp_all add: one_call_def)
    qed
  qed
qed

lemma one_call_model_calls:
  "one_call E P call s w = (Inr s', w') \<Longrightarrow> model_calls (ts_usage s') = model_calls (ts_usage s)"
  by (cases rule: one_call_cases [of E P call s w]) (auto simp: take_result_def split: if_splits)

lemma run_calls_model_calls:
  "run_calls E P calls s w = (Inr s', w') \<Longrightarrow> model_calls (ts_usage s') = model_calls (ts_usage s)"
  by (induction calls arbitrary: s w) (auto split: prod.splits sum.splits dest: one_call_model_calls)

lemma turn_ends_usage [simp]: "to_usage (turn_ends status text failure s) = ts_usage s"
  by (simp add: turn_ends_def)

lemma failed_turn_Inl: "\<exists>i w'. failed_turn E stage f s w = (Inl (turn_ends (TurnFailedAt stage) None (Some (f i)) s), w')"
  by (cases "te_failure_id E w") (auto simp: failed_turn_def)

lemma prepare_call_cases:
  obtains (ended) out w1 where "prepare_call E P s w = (Inl out, w1)" and "to_usage out = ts_usage s"
  | (counted) out w1 where "prepare_call E P s w = (Inl out, w1)"
      and "to_usage out = (ts_usage s)\<lparr>model_calls := model_calls (ts_usage s) + 1\<rparr>"
      and "model_calls (ts_usage s) < max_model_calls (tp_budget P)"
  | (prepared) w1 remaining where "prepare_call E P s w
        = (Inr (s\<lparr>ts_usage := (ts_usage s)\<lparr>model_calls := model_calls (ts_usage s) + 1\<rparr>,
              ts_request := limit_output remaining (ts_request s)\<rparr>), w1)"
      and "model_calls (ts_usage s) < max_model_calls (tp_budget P)"
proof -
  obtain stop w1 where 1: "te_is_cancelled E w = (stop, w1)"
    by fastforce
  obtain elapsed w2 where 2: "te_elapsed_ms E w1 = (elapsed, w2)"
    by fastforce
  consider (stop) stop | (encode) "\<not> stop" "te_encode E (ts_request s) = None"
    | (run) encoded where "\<not> stop" "te_encode E (ts_request s) = Some encoded"
    by (cases stop; cases "te_encode E (ts_request s)") auto
  then show thesis
  proof cases
    case stop
    with 1 show thesis
      by (intro ended [of "turn_ends TurnWasCancelled None None s" w1]) (simp_all add: prepare_call_def)
  next
    case encode
    with 1 show thesis
      using failed_turn_Inl [of E ProjectionFailure "\<lambda>i. request_encoding i (tp_model_invocation P)" s w1]
      by (auto simp: prepare_call_def intro: ended)
  next
    case run
    show thesis
    proof (cases rule: before_model_cases [of "tp_budget P" elapsed "ts_usage s"])
      case (1 e)
      with \<open>te_is_cancelled E w = (stop, w1)\<close> 2 run show thesis
        by (cases "tp_max_context_tokens P < estimate_tokens encoded")
          (auto simp: prepare_call_def intro: ended)
    next
      case 3: 2
      let ?u = "(ts_usage s)\<lparr>model_calls := model_calls (ts_usage s) + 1\<rparr>"
      let ?remaining = "saturating_sub (max_output_tokens (tp_budget P)) (output_tokens (ts_usage s))"
      let ?s = "s\<lparr>ts_usage := ?u, ts_request := limit_output ?remaining (ts_request s)\<rparr>"
      obtain failure w3 where p: "te_project E (limit_output ?remaining (ts_request s)) w2 = (failure, w3)"
        by fastforce
      have prep: "prepare_call E P s w =
          (if estimate_tokens encoded > tp_max_context_tokens P
           then (Inl (turn_ends (BudgetExhausted InputTokens) None None s), w1)
           else if ?remaining = 0
           then (Inl (turn_ends (BudgetExhausted OutputTokens) None None (s\<lparr>ts_usage := ?u\<rparr>)), w2)
           else case failure of
             Some e \<Rightarrow> failed_turn E ProjectionFailure
               (\<lambda>i. from_bridge_error i (tp_model_invocation P) ProjectionStage e) ?s w3
           | None \<Rightarrow> (Inr ?s, w3))"
        using 1 2 3 run p by (simp add: prepare_call_def Let_def split: option.split)
      show thesis
      proof (cases "estimate_tokens encoded > tp_max_context_tokens P")
        case True
        with prep show thesis
          by (intro ended [of "turn_ends (BudgetExhausted InputTokens) None None s" w1]) simp_all
      next
        case fits: False
        show thesis
        proof (cases "?remaining = 0 \<or> failure \<noteq> None")
          case True
          with prep fits 3(2) show thesis
            using failed_turn_Inl [of E ProjectionFailure
                "\<lambda>i. from_bridge_error i (tp_model_invocation P) ProjectionStage (the failure)" ?s w3]
            by (auto intro: counted split: if_splits)
        next
          case False
          with prep fits 3(2) show thesis
            by (intro prepared) simp_all
        qed
      qed
    qed
  qed
qed

lemma take_response_model_calls:
  "take_response E P response s w = (Inr s', w') \<Longrightarrow> model_calls (ts_usage s') = model_calls (ts_usage s)"
  by (auto simp: take_response_def Let_def dest!: run_calls_model_calls after_response_calls
      split: prod.splits sum.splits if_splits)

lemma turn_round_counts:
  assumes "turn_round E P s w = (Inr s', w')"
  shows "model_calls (ts_usage s) < max_model_calls (tp_budget P)"
    and "model_calls (ts_usage s') = model_calls (ts_usage s) + 1"
  using assms by (cases rule: prepare_call_cases [of E P s w];
      auto simp: turn_round_def failed_turn_def dest!: take_response_model_calls
        split: prod.splits model_reply.splits)+

lemma turn_round_decreases:
  assumes "turn_round E P s w = (Inr s', w')"
  shows "unat (max_model_calls (tp_budget P)) - unat (model_calls (ts_usage s'))
    < unat (max_model_calls (tp_budget P)) - unat (model_calls (ts_usage s))"
  using turn_round_counts [OF assms]
    word_succ_le(2) [of "model_calls (ts_usage s)" "max_model_calls (tp_budget P)"]
  by (simp add: word_less_nat_alt)

function run_loop :: "'w turn_env \<Rightarrow> turn_params \<Rightarrow> turn_state \<Rightarrow> 'w \<Rightarrow> turn_outcome \<times> 'w" where
  "run_loop E P s w =
     (case turn_round E P s w of
        (Inl out, w) \<Rightarrow> (out, w)
      | (Inr s, w) \<Rightarrow> run_loop E P s w)"
  by pat_completeness auto
termination
  by (relation "measure (\<lambda>(E, P, s, w).
      unat (max_model_calls (tp_budget P)) - unat (model_calls (ts_usage s)))")
    (auto dest: turn_round_decreases [OF sym] turn_round_decreases)

declare run_loop.simps [simp del]

definition run_turn :: "'w turn_env \<Rightarrow> turn_params \<Rightarrow> completion_request \<Rightarrow> agent_tool_context \<Rightarrow> 'w
    \<Rightarrow> turn_outcome \<times> 'w" where
  "run_turn E P request context w =
     run_loop E (P\<lparr>tp_offered_tools := map td_name (rq_tools request)\<rparr>)
       \<lparr>ts_request = request, ts_context = context, ts_usage = resource_usage_default,
        ts_results = [], ts_calls = [], ts_events = []\<rparr> w"

end
