(* ===== verification/Agent_Properties.thy ===== *)
theory Agent_Properties
  imports Agent_Cancellation Agent_Runner Core_Properties
begin

text \<open>
  What a turn of an agent guarantees, whatever the model, the tools, the clock and the other tasks
  do: it stays within its budget, records every call it counted, is woken by a cancellation, and
  shows nothing of a failure but printable text.
\<close>

section \<open>The bookkeeping of a turn\<close>

definition turn_inv :: "resource_budget \<Rightarrow> turn_state \<Rightarrow> bool" where
  "turn_inv b s \<longleftrightarrow>
     calls_within b (ts_usage s) \<and> tokens_within b (ts_usage s)
     \<and> length (ts_calls s) = unat (tool_calls (ts_usage s))
     \<and> length (ts_results s) = unat (tool_calls (ts_usage s))
     \<and> distinct (ts_events s)"

definition outcome_inv :: "resource_budget \<Rightarrow> turn_outcome \<Rightarrow> bool" where
  "outcome_inv b out \<longleftrightarrow>
     calls_within b (to_usage out)
     \<and> (tokens_within b (to_usage out) \<or> (\<exists>reason. to_status out = BudgetExhausted reason))
     \<and> length (to_tool_calls out) = unat (tool_calls (to_usage out))
     \<and> length (to_tool_results out) = unat (tool_calls (to_usage out))
     \<and> distinct (to_committed_events out)"

definition round_inv :: "resource_budget \<Rightarrow> (turn_outcome + turn_state) \<times> 'w \<Rightarrow> bool" where
  "round_inv b r = (case fst r of Inl out \<Rightarrow> outcome_inv b out | Inr s \<Rightarrow> turn_inv b s)"

lemma round_inv_simps [simp]:
  "round_inv b (Inl out, w) = outcome_inv b out"
  "round_inv b (Inr s, w) = turn_inv b s"
  by (simp_all add: round_inv_def)

lemma turn_ends_inv: "turn_inv b s \<Longrightarrow> outcome_inv b (turn_ends status text failure s)"
  by (simp add: turn_inv_def outcome_inv_def turn_ends_def)

lemma failed_turn_inv: "turn_inv b s \<Longrightarrow> round_inv b (failed_turn E stage f s w)"
  by (simp add: failed_turn_def turn_ends_inv split: prod.split)

lemma distinct_push_event: "distinct es \<Longrightarrow> distinct (push_event es e)"
  by (simp add: push_event_def)

lemma distinct_collect_events: "distinct es \<Longrightarrow> distinct (collect_events L result es)"
proof -
  have named: "distinct (foldl push_event es ids)" if "distinct es" for es ids
    using that by (induction ids arbitrary: es) (simp_all add: distinct_push_event)
  have "distinct (foldl (\<lambda>es v. foldl push_event es (named_events L v)) es vs)" if "distinct es" for vs es
    using that by (induction vs arbitrary: es) (simp_all add: named)
  then show "distinct es \<Longrightarrow> distinct (collect_events L result es)"
    by (simp add: collect_events_def)
qed

lemma take_result_inv:
  assumes "turn_inv b s" and "tool_calls (ts_usage s) < max_tool_calls b"
  shows "turn_inv b (take_result E call result
    (s\<lparr>ts_usage := (ts_usage s)\<lparr>tool_calls := tool_calls (ts_usage s) + 1\<rparr>\<rparr>))"
  using assms word_succ_le [OF assms(2)]
  by (auto simp: turn_inv_def take_result_def calls_within_def tokens_within_def distinct_collect_events)

lemma one_call_inv:
  assumes "turn_inv (tp_budget P) s"
  shows "round_inv (tp_budget P) (one_call E P call s w)"
proof (cases rule: one_call_cases [of E P call s w])
  case (called w1 result w2 s2)
  with take_result_inv [OF assms called(2), of E call result] show ?thesis
    by (simp add: turn_ends_inv)
qed (simp_all add: assms turn_ends_inv)

lemma run_calls_inv:
  "turn_inv (tp_budget P) s \<Longrightarrow> round_inv (tp_budget P) (run_calls E P calls s w)"
proof (induction calls arbitrary: s w)
  case (Cons call calls)
  with one_call_inv [of P s E call w] show ?case
    by (auto split: prod.split sum.split)
qed simp

lemma prepare_call_inv:
  assumes "turn_inv (tp_budget P) s"
  shows "round_inv (tp_budget P) (prepare_call E P s w)"
proof -
  let ?u = "(ts_usage s)\<lparr>model_calls := model_calls (ts_usage s) + 1\<rparr>"
  have counted: "turn_inv (tp_budget P) (s\<lparr>ts_usage := ?u\<rparr>)"
    "turn_inv (tp_budget P) (s\<lparr>ts_usage := ?u, ts_request := r\<rparr>)"
    if "model_calls (ts_usage s) < max_model_calls (tp_budget P)" for r
    using assms word_succ_le(1) [OF that] by (simp_all add: turn_inv_def calls_within_def tokens_within_def)
  obtain stop w1 where 1: "te_is_cancelled E w = (stop, w1)"
    by fastforce
  obtain elapsed w2 where 2: "te_elapsed_ms E w1 = (elapsed, w2)"
    by fastforce
  show ?thesis
  proof (cases rule: before_model_cases [of "tp_budget P" elapsed "ts_usage s"])
    case (1 e)
    with \<open>te_is_cancelled E w = (stop, w1)\<close> 2 assms show ?thesis
      by (auto simp: prepare_call_def turn_ends_inv failed_turn_inv split: option.split)
  next
    case 3: 2
    with 1 2 assms counted [OF 3(2)] show ?thesis
      by (auto simp: prepare_call_def Let_def turn_ends_inv failed_turn_inv
          split: option.split prod.split)
  qed
qed

lemma take_response_inv:
  assumes "turn_inv (tp_budget P) s"
  shows "round_inv (tp_budget P) (take_response E P response s w)"
proof -
  obtain elapsed w1 where 1: "te_elapsed_ms E w = (elapsed, w1)"
    by fastforce
  obtain checked usage where 2: "after_response (tp_budget P) (rsp_usage response)
      (of_nat (length (response_text response))) elapsed (ts_usage s) = (checked, usage)"
    by fastforce
  note calls = after_response_calls [OF 2]
  show ?thesis
  proof (cases checked)
    case (Inl reason)
    with 1 2 calls assms show ?thesis
      by (simp add: take_response_def turn_ends_def outcome_inv_def turn_inv_def calls_within_def)
  next
    case (Inr x)
    with 2 have "tokens_within (tp_budget P) usage"
      using assms by (auto simp: turn_inv_def intro: after_response_within)
    with calls assms have "turn_inv (tp_budget P) (s\<lparr>ts_usage := usage, ts_request := r\<rparr>)" for r
      by (simp add: turn_inv_def calls_within_def)
    with 1 2 Inr show ?thesis
      by (simp add: take_response_def Let_def turn_ends_inv run_calls_inv)
  qed
qed

lemma turn_round_inv:
  assumes "turn_inv (tp_budget P) s"
  shows "round_inv (tp_budget P) (turn_round E P s w)"
  using prepare_call_inv [OF assms, of E w]
  by (auto simp: turn_round_def turn_ends_inv failed_turn_inv take_response_inv
      split: prod.split sum.split model_reply.split)

lemma run_loop_inv: "turn_inv (tp_budget P) s \<Longrightarrow> outcome_inv (tp_budget P) (fst (run_loop E P s w))"
proof (induction E P s w rule: run_loop.induct)
  case (1 E P s w)
  obtain r w' where round: "turn_round E P s w = (r, w')"
    by fastforce
  with turn_round_inv [OF 1(2), of E w] have "round_inv (tp_budget P) (r, w')"
    by simp
  with 1(1) round show ?case
    by (cases r) (simp_all add: run_loop.simps [of E P s w])
qed

text \<open>C9. A turn of an agent always ends, within its budget of calls, and within its budget of tokens and
  output bytes unless it ends for exceeding the budget; every call of a tool that was counted has
  one outcome and one result, and no event is reported twice.\<close>

theorem turn_stays_within_budget:
  "outcome_inv (tp_budget P) (fst (run_turn E P request context w))"
  unfolding run_turn_def
  by (rule run_loop_inv [of "P\<lparr>tp_offered_tools := map td_name (rq_tools request)\<rparr>", simplified])
    (simp add: turn_inv_def calls_within_def tokens_within_def resource_usage_default_def)

section \<open>Cancellation\<close>

text \<open>C12. No wakeup is lost: however polls and cancellations of several threads interleave, once the
  token is cancelled and no thread is still waking the waiters, every poll that returned pending has
  been woken.\<close>

theorem no_lost_wakeup:
  assumes "cancel_reachable will_wake s" and "\<And>w. will_wake w w"
    and "th_cancelled s" and "\<forall>t. th_at s t \<noteq> Drain" and "th_at s t = Polled w Pending"
  shows "\<exists>v\<in>set (th_woken s). will_wake v w"
  by (rule cancelled_wakes_pending [OF assms])

lemma demo_interleaving:
  "\<exists>s. cancel_reachable (=) s \<and> th_cancelled s \<and> (\<forall>t. th_at s t \<noteq> Drain)
    \<and> th_at s False = Polled (7::nat) Pending"
proof -
  let ?s0 = "threads_start :: (bool, nat) threads"
  let ?s1 = "move_to False (FirstLoad 7) ?s0"
  let ?s2 = "move_to False (Acquire 7) ?s1"
  let ?s3 = "move_to False (SecondLoad 7) (?s2\<lparr>th_lock := Some False\<rparr>)"
  let ?s4 = "move_to False (Push 7) ?s3"
  let ?s5 = "move_to True Drain (?s4\<lparr>th_cancelled := True\<rparr>)"
  let ?s6 = "move_to False (Polled 7 Pending) (?s5\<lparr>th_waiters := [7], th_lock := None\<rparr>)"
  let ?s7 = "move_to True Resting (?s6\<lparr>th_woken := [7], th_waiters := []\<rparr>)"
  note simps = threads_start_def move_to_def at_rest_def add_waiter_def
  have "cancel_step (=) ?s0 ?s1"
    by (rule poll_starts) (simp add: simps)
  moreover have "cancel_step (=) ?s1 ?s2"
    using first_load [of ?s1 False 7 "(=)"] by (simp add: simps)
  moreover have "cancel_step (=) ?s2 ?s3"
    by (rule acquire) (simp_all add: simps)
  moreover have "cancel_step (=) ?s3 ?s4"
    by (rule second_load_pending) (simp_all add: simps)
  moreover have "cancel_step (=) ?s4 ?s5"
    by (rule swap_first) (simp_all add: simps)
  moreover have "cancel_step (=) ?s5 ?s6"
    using push [of ?s5 False 7 "(=)"] by (simp add: simps)
  moreover have "cancel_step (=) ?s6 ?s7"
    using drain [of ?s6 True "(=)"] by (simp add: simps)
  ultimately have "cancel_reachable (=) ?s7"
    by (meson cancel_reachable.intros)
  moreover have "th_cancelled ?s7 \<and> (\<forall>t. th_at ?s7 t \<noteq> Drain) \<and> th_at ?s7 False = Polled 7 Pending"
    by (simp add: simps)
  ultimately show ?thesis
    by blast
qed

theorem no_lost_wakeup_witness:
  "\<exists>s. cancel_reachable (=) s \<and> th_at s False = Polled (7::nat) Pending \<and> 7 \<in> set (th_woken s)"
  using demo_interleaving no_lost_wakeup [of "(=)" _ False 7] by (metis (no_types, lifting))

section \<open>Failures\<close>

text \<open>C31. The summary of a failure that is shown to the user holds no control characters, whatever text
  the provider put into the metadata of its error.\<close>

theorem summary_is_printable:
  assumes "\<And>u. list_all printable (hyphenated L u)" and "\<And>k. list_all printable (transport_code k)"
  shows "list_all printable (user_summary L transport_code (from_bridge_error i invocation stage e))"
proof -
  have labels: "list_all printable (label_str l)"
    if "mfd_provider (from_bridge_error i invocation stage e) = Some l
      \<or> mfd_request_id (from_bridge_error i invocation stage e) = Some l" for l
    using that from_bridge_error_ok [of i invocation stage e] by (auto simp: diagnostic_ok_def label_printable)
  show ?thesis
    unfolding user_summary_def runtime_id_to_string_def ERR_def i32_text_def
    by (simp add: literals_printable http_part_printable nat_text_printable assms labels
        when_some_printable recovery_hint_printable printable_def byte_def)
qed

theorem summary_is_printable_witness:
  "list_all printable (user_summary hex_uuid_lib (\<lambda>_. ''timeout'')
     (from_bridge_error (RuntimeId 7) NpcCall Invocation
        (BridgeTransport True \<lparr>em_provider = [CHR 0x1B], em_http_status = Some 999,
           em_request_id = Some ''two words'', em_transport_kind = None, em_os_error = Some 61\<rparr>)))"
proof (rule summary_is_printable)
  show "list_all printable (hyphenated hex_uuid_lib u)" for u
  proof -
    have "printable c" if "c \<in> set (hyphenate (hex_text 32 (unat u)))" for c
      using hyphenate_chars [OF that]
      by (auto simp: printable_def is_ascii_lowercase_def is_ascii_digit_def byte_def)
    then show ?thesis
      by (simp add: hex_uuid_lib_def list_all_iff)
  qed
  show "list_all printable ''timeout''" for k :: transport_error_kind
    by (simp add: printable_def byte_def)
qed

end
