(* ===== verification/Runtime_Config.thy ===== *)
theory Runtime_Config
  imports Agent_Protocol Commit_Request World_Execute "HOL-Library.Sublist"
begin

text \<open>
  The limits and errors of the runtime (\<open>config.rs\<close>, \<open>error.rs\<close> of the runtime crate), and the
  projection that cuts what a model is shown down to its limits (\<open>context.rs\<close>). A \<open>usize\<close> is 64 bits
  wide; the lengths that are compared to one are lengths of lists.
\<close>

section \<open>Errors\<close>

datatype runtime_error =
    InvalidInput
  | InvalidNpcDraft string
  | Unavailable
  | ContentLockMismatch
  | InvalidRuntimeConfiguration string
  | ModelProtocol string
  | BridgeUnavailable model_failure_diagnostic
  | CapabilityDenied
  | SceneTransitionTargetUnavailable
  | WorldTopologyConflict
  | BudgetSpent budget_reason
  | RuntimeCancelled
  | RuntimeAgent agent_error
  | RuntimeContent content_error
  | RuntimeIdentity identity_error
  | RuntimeRevision revision_error
  | RuntimeText text_error
  | RuntimeWorld world_error
  | RuntimeStore store_error
  | RuntimeJson string

fun runtime_error_code :: "runtime_error \<Rightarrow> string" where
  "runtime_error_code InvalidInput = ''invalid_input''"
| "runtime_error_code (InvalidNpcDraft _) = ''invalid_npc_draft''"
| "runtime_error_code Unavailable = ''unavailable''"
| "runtime_error_code ContentLockMismatch = ''content_lock_mismatch''"
| "runtime_error_code (InvalidRuntimeConfiguration _) = ''invalid_configuration''"
| "runtime_error_code (ModelProtocol _) = ''agent_error''"
| "runtime_error_code (RuntimeAgent _) = ''agent_error''"
| "runtime_error_code (RuntimeJson _) = ''agent_error''"
| "runtime_error_code (RuntimeContent _) = ''content_error''"
| "runtime_error_code (BridgeUnavailable _) = ''bridge_unavailable''"
| "runtime_error_code CapabilityDenied = ''capability_denied''"
| "runtime_error_code SceneTransitionTargetUnavailable = ''scene_transition_target_unavailable''"
| "runtime_error_code WorldTopologyConflict = ''world_topology_conflict''"
| "runtime_error_code (BudgetSpent _) = ''budget_exhausted''"
| "runtime_error_code RuntimeCancelled = ''cancelled''"
| "runtime_error_code (RuntimeIdentity _) = ''identity_error''"
| "runtime_error_code (RuntimeRevision _) = ''revision_error''"
| "runtime_error_code (RuntimeText _) = ''text_error''"
| "runtime_error_code (RuntimeWorld e) =
     (case e of
        Conflict _ _ \<Rightarrow> ''revision_conflict''
      | DomainRule _ \<Rightarrow> ''domain_rule''
      | _ \<Rightarrow> ''world_error'')"
| "runtime_error_code (RuntimeStore _) = ''store_error''"

section \<open>Limits\<close>

definition NARRATOR_CREATE_NPC_CAPABILITY :: string where
  "NARRATOR_CREATE_NPC_CAPABILITY = ''narrator.create_npc''"

definition NARRATOR_CREATE_PLACE_CAPABILITY :: string where
  "NARRATOR_CREATE_PLACE_CAPABILITY = ''narrator.create_place''"

definition NARRATOR_CREATE_SCENE_CAPABILITY :: string where
  "NARRATOR_CREATE_SCENE_CAPABILITY = ''narrator.create_scene''"

definition NARRATOR_REQUEST_NPC_TURN_CAPABILITY :: string where
  "NARRATOR_REQUEST_NPC_TURN_CAPABILITY = ''narrator.request_npc_turn''"

definition NARRATOR_SUBMIT_NPC_DRAFT_CAPABILITY :: string where
  "NARRATOR_SUBMIT_NPC_DRAFT_CAPABILITY = ''narrator.submit_npc_draft''"

definition NARRATOR_TRANSITION_SCENE_CAPABILITY :: string where
  "NARRATOR_TRANSITION_SCENE_CAPABILITY = ''narrator.transition_scene''"

record context_projection_policy =
  cpp_transcript_items :: u64
  cpp_transcript_bytes :: u64
  cpp_known_facts :: u64
  cpp_goals :: u64
  cpp_visible_actors :: u64
  cpp_inventory_items :: u64
  cpp_skills :: u64
  cpp_max_context_tokens :: u64

definition context_projection_policy_default :: context_projection_policy where
  "context_projection_policy_default =
     \<lparr>cpp_transcript_items = 64, cpp_transcript_bytes = 64 * 1024, cpp_known_facts = 256,
      cpp_goals = 64, cpp_visible_actors = 128, cpp_inventory_items = 128, cpp_skills = 64,
      cpp_max_context_tokens = 32768\<rparr>"

definition MAXIMUM_PROJECTION :: context_projection_policy where
  "MAXIMUM_PROJECTION =
     \<lparr>cpp_transcript_items = 256, cpp_transcript_bytes = 256 * 1024, cpp_known_facts = 1024,
      cpp_goals = 256, cpp_visible_actors = 512, cpp_inventory_items = 512, cpp_skills = 256,
      cpp_max_context_tokens = 131072\<rparr>"

definition projection_policy_validate :: "context_projection_policy \<Rightarrow> string + unit" where
  "projection_policy_validate p =
     (let m = MAXIMUM_PROJECTION
      in if cpp_transcript_items p > cpp_transcript_items m
         then Inl ''context_projection.transcript_items''
         else if cpp_transcript_bytes p > cpp_transcript_bytes m
         then Inl ''context_projection.transcript_bytes''
         else if cpp_known_facts p > cpp_known_facts m then Inl ''context_projection.known_facts''
         else if cpp_goals p > cpp_goals m then Inl ''context_projection.goals''
         else if cpp_visible_actors p > cpp_visible_actors m
         then Inl ''context_projection.visible_actors''
         else if cpp_inventory_items p > cpp_inventory_items m
         then Inl ''context_projection.inventory_items''
         else if cpp_skills p > cpp_skills m then Inl ''context_projection.skills''
         else if cpp_max_context_tokens p = 0 \<or> cpp_max_context_tokens p > cpp_max_context_tokens m
         then Inl ''context_projection.max_context_tokens''
         else Inr ())"

record orchestration_budget =
  ob_resources :: resource_budget
  ob_max_started_agent_turns :: u32
  ob_max_orchestration_rounds :: u32

definition orchestration_budget_default :: orchestration_budget where
  "orchestration_budget_default =
     \<lparr>ob_resources =
        \<lparr>max_model_calls = 128, max_tool_calls = 512, max_input_tokens = 4194304,
         max_output_tokens = 524288, max_total_tokens = 4718592, max_model_output_bytes = 8388608,
         max_elapsed_ms = 1800000, require_reported_tokens = False\<rparr>,
      ob_max_started_agent_turns = 48, ob_max_orchestration_rounds = 8\<rparr>"

record npc_resource_policy =
  nrp_max_generated_per_orchestration :: u32
  nrp_max_materialized_per_scene :: u32
  nrp_max_persistent_generated :: u32

definition npc_resource_policy_default :: npc_resource_policy where
  "npc_resource_policy_default =
     \<lparr>nrp_max_generated_per_orchestration = 32, nrp_max_materialized_per_scene = 256,
      nrp_max_persistent_generated = 1024\<rparr>"

record runtime_config =
  rc_turn_budget :: resource_budget
  rc_orchestration_budget :: orchestration_budget
  rc_narrator_capabilities :: "string list"
  rc_npc_resources :: npc_resource_policy
  rc_generation_policy :: "generation_policy option"
  rc_context_projection :: context_projection_policy

definition runtime_config_default :: runtime_config where
  "runtime_config_default =
     \<lparr>rc_turn_budget = resource_budget_default,
      rc_orchestration_budget = orchestration_budget_default,
      rc_narrator_capabilities = bs_of_list
        [NARRATOR_CREATE_NPC_CAPABILITY, NARRATOR_CREATE_PLACE_CAPABILITY,
         NARRATOR_CREATE_SCENE_CAPABILITY, NARRATOR_REQUEST_NPC_TURN_CAPABILITY,
         NARRATOR_TRANSITION_SCENE_CAPABILITY],
      rc_npc_resources = npc_resource_policy_default,
      rc_generation_policy = None,
      rc_context_projection = context_projection_policy_default\<rparr>"

section \<open>Projection\<close>

text \<open>A \<open>&mut\<close> argument is returned with the flag that says whether something was cut off.\<close>

definition truncate_list :: "u64 \<Rightarrow> 'a list \<Rightarrow> bool \<times> 'a list" where
  "truncate_list limit xs = (unat limit < length xs, take (unat limit) xs)"

fun goal_status_order :: "goal_status \<Rightarrow> nat" where
  "goal_status_order ActiveGoal = 0"
| "goal_status_order Blocked = 1"
| "goal_status_order Achieved = 2"
| "goal_status_order Abandoned = 3"

text \<open>Facts from the latest confirmation, goals by status, priority and update, the latest first: a
  descending order is the reverse of the ascending one of the same key.\<close>

definition fact_rank :: "known_fact_record \<Rightarrow> int \<times> object_id" where
  "fact_rank f = (- int (unat (ticks (kf_last_confirmed_at f))), kf_id f)"

definition goal_rank :: "goal_record \<Rightarrow> nat \<times> int \<times> int \<times> object_id" where
  "goal_rank g =
     (goal_status_order (goal_status_of g), - sint (goal_priority g),
      - int (unat (ticks (goal_updated_at g))), goal_id g)"

definition project_character :: "context_projection_policy \<Rightarrow> character_context
    \<Rightarrow> bool \<times> character_context" where
  "project_character p c =
     (let (b1, facts) = truncate_list (cpp_known_facts p) (sort_key fact_rank (cc_known_facts c));
          (b2, goals) = truncate_list (cpp_goals p) (sort_key goal_rank (cc_goals c));
          (b3, inventory) = truncate_list (cpp_inventory_items p) (cc_inventory c);
          (b4, skills) = truncate_list (cpp_skills p) (cc_skills c)
      in (b1 \<or> b2 \<or> b3 \<or> b4,
          c\<lparr>cc_known_facts := facts, cc_goals := goals, cc_inventory := inventory,
            cc_skills := skills\<rparr>))"

definition project_scene :: "context_projection_policy \<Rightarrow> scene_context \<Rightarrow> bool \<times> scene_context" where
  "project_scene p s =
     (let (b, actors) = truncate_list (cpp_visible_actors p) (scx_visible_actors s)
      in (b, s\<lparr>scx_visible_actors := actors\<rparr>))"

fun drop_items :: "nat \<Rightarrow> transcript_item_record list \<Rightarrow> bool \<times> transcript_item_record list" where
  "drop_items limit [] = (False, [])"
| "drop_items limit (x # xs) =
     (if length (x # xs) > limit then (True, snd (drop_items limit xs)) else (False, x # xs))"

definition item_bytes :: "transcript_item_record \<Rightarrow> nat" where
  "item_bytes i = length (as_str (tr_text i))"

fun drop_bytes :: "nat \<Rightarrow> nat \<Rightarrow> transcript_item_record list \<Rightarrow> bool \<times> transcript_item_record list" where
  "drop_bytes limit bytes [] = (False, [])"
| "drop_bytes limit bytes (x # xs) =
     (if bytes > limit then (True, snd (drop_bytes limit (bytes - item_bytes x) xs))
      else (False, x # xs))"

definition project_transcript :: "context_projection_policy \<Rightarrow> transcript_item_record list
    \<Rightarrow> bool \<times> transcript_item_record list" where
  "project_transcript p xs =
     (let (b1, xs) = drop_items (unat (cpp_transcript_items p)) xs;
          (b2, xs) = drop_bytes (unat (cpp_transcript_bytes p)) (sum_list (map item_bytes xs)) xs
      in (b1 \<or> b2, xs))"

definition project_observation :: "context_projection_policy \<Rightarrow> scene_observation \<Rightarrow> scene_observation" where
  "project_observation p o1 =
     (let (b1, cc) = project_character p (so_player o1);
          (b2, sc) = project_scene p (so_scene o1);
          (b3, transcript) = project_transcript p (so_recent_transcript o1)
      in o1\<lparr>so_player := cc, so_scene := sc, so_recent_transcript := transcript,
            so_truncated := (so_truncated o1 \<or> b1 \<or> b2 \<or> b3)\<rparr>)"

definition project_npc_context :: "context_projection_policy \<Rightarrow> character_context \<Rightarrow> scene_context
    \<Rightarrow> transcript_item_record list
    \<Rightarrow> bool \<times> character_context \<times> scene_context \<times> transcript_item_record list" where
  "project_npc_context p cc sc dialogue =
     (let (b1, cc) = project_character p cc;
          (b2, sc) = project_scene p sc;
          (b3, dialogue) = project_transcript p dialogue
      in (b1 \<or> b2 \<or> b3, cc, sc, dialogue))"

subsection \<open>The transcript that is kept\<close>

definition fits :: "context_projection_policy \<Rightarrow> transcript_item_record list \<Rightarrow> bool" where
  "fits p xs \<longleftrightarrow> length xs \<le> unat (cpp_transcript_items p)
     \<and> sum_list (map item_bytes xs) \<le> unat (cpp_transcript_bytes p)"

lemma drop_items_eq: "drop_items n xs = (length xs > n, drop (length xs - n) xs)"
proof (induction xs)
  case (Cons x xs)
  then show ?case
    by (cases "length xs < n") (auto simp: Suc_diff_le not_less)
qed simp

lemma drop_items_longest:
  assumes "drop_items n xs = (b, ys)"
  shows "suffix ys xs" and "length ys \<le> n" and "b \<longleftrightarrow> ys \<noteq> xs"
    and "suffix zs xs \<Longrightarrow> length zs \<le> n \<Longrightarrow> suffix zs ys"
proof -
  have ys: "ys = drop (length xs - n) xs" and b: "b \<longleftrightarrow> length xs > n"
    using assms by (auto simp: drop_items_eq)
  show "suffix ys xs"
    by (simp add: ys suffix_drop)
  show "length ys \<le> n"
    by (simp add: ys)
  show "b \<longleftrightarrow> ys \<noteq> xs"
  proof (cases "length xs > n")
    case True
    then have "length xs = 0 \<or> length ys < length xs"
      by (cases n) (auto simp: ys)
    with True show ?thesis
      by (auto simp: b)
  qed (simp add: ys b)
  show "suffix zs ys" if "suffix zs xs" "length zs \<le> n"
    using that \<open>suffix ys xs\<close> suffix_length_le [OF that(1)]
    by (auto intro: suffix_length_suffix simp: ys)
qed

abbreviation bytes_of :: "transcript_item_record list \<Rightarrow> nat" where
  "bytes_of xs \<equiv> sum_list (map item_bytes xs)"

lemma drop_bytes_longest:
  "drop_bytes limit (bytes_of xs) xs = (b, ys) \<Longrightarrow>
     suffix ys xs \<and> bytes_of ys \<le> limit \<and> (b \<longleftrightarrow> ys \<noteq> xs)
     \<and> (\<forall>zs. suffix zs xs \<and> bytes_of zs \<le> limit \<longrightarrow> suffix zs ys)"
proof (induction xs arbitrary: b)
  case (Cons x xs)
  show ?case
  proof (cases "bytes_of (x # xs) > limit")
    case True
    obtain b' ys' where rest: "drop_bytes limit (bytes_of xs) xs = (b', ys')"
      by fastforce
    with Cons.prems True have "ys' = ys" and b
      by auto
    with Cons.IH rest have IH: "suffix ys xs" "bytes_of ys \<le> limit"
      "\<And>zs. suffix zs xs \<Longrightarrow> bytes_of zs \<le> limit \<Longrightarrow> suffix zs ys"
      by blast+
    have "ys \<noteq> x # xs"
      using suffix_length_le [OF IH(1)] by auto
    moreover have "suffix zs ys" if "suffix zs (x # xs)" "bytes_of zs \<le> limit" for zs
      using that True IH(3) by (auto simp: suffix_Cons)
    ultimately show ?thesis
      using \<open>b\<close> IH(1,2) by (simp add: suffix_ConsI)
  next
    case False
    with Cons.prems show ?thesis
      by auto
  qed
qed simp

lemma suffix_bytes: "suffix ys xs \<Longrightarrow> bytes_of ys \<le> bytes_of xs"
  by (auto simp: suffix_def)

lemma project_transcript_longest:
  assumes "project_transcript p xs = (b, ys)"
  shows "suffix ys xs \<and> fits p ys \<and> (b \<longleftrightarrow> ys \<noteq> xs)
    \<and> (\<forall>zs. suffix zs xs \<and> fits p zs \<longrightarrow> suffix zs ys)"
proof -
  obtain b1 us where items: "drop_items (unat (cpp_transcript_items p)) xs = (b1, us)"
    by fastforce
  obtain b2 vs where bytes: "drop_bytes (unat (cpp_transcript_bytes p)) (bytes_of us) us = (b2, vs)"
    by fastforce
  have res: "b \<longleftrightarrow> b1 \<or> b2" "ys = vs"
    using assms items bytes by (auto simp: project_transcript_def)
  note i = drop_items_longest [OF items] and j = drop_bytes_longest [OF bytes]
  have "suffix ys xs"
    using i(1) j by (auto simp: res intro: suffix_order.trans)
  moreover have "length ys \<le> unat (cpp_transcript_items p)"
    using i(2) j suffix_length_le [of vs us] by (auto simp: res)
  moreover have "b \<longleftrightarrow> ys \<noteq> xs"
    using i(1,3) j suffix_order.antisym by (auto simp: res)
  ultimately show ?thesis
    using i(4) j by (auto simp: fits_def res)
qed

end
