(* ===== verification/World_Service.thy ===== *)
theory World_Service
  imports Runtime_Config Agent_Runner Store
begin

text \<open>
  The service that owns a world and its save (\<open>world_service.rs\<close> of the runtime crate, first part): a
  command is executed on the world in memory, its change set committed to the save, and whenever
  that fails the world is loaded again. The queries that follow it are those the agents' tools and
  the orchestration use.

  The mutex of the service makes each method one step on its state. The registry, fixed when the
  service is opened, is in the environment \<open>E\<close>, and a method takes the identifiers it draws as a
  stream. The outer \<open>None\<close> of a method that executes commands is that of \<open>execute\<close>. When a rollback
  of \<open>execute\<close> fails, which a sound world excludes, the service is left with the world it had.
\<close>

record 'd world_service =
  sv_world :: game_world
  sv_store :: "'d save_store"
  sv_config :: world_config
  sv_events :: "world_event list"

type_synonym ('d, 'a) service_step = "'d world_service \<Rightarrow> (runtime_error + 'a) \<times> 'd world_service"

type_synonym ('d, 'a) service_run =
  "'d world_service \<Rightarrow> ((runtime_error + 'a) \<times> 'd world_service) option"

section \<open>Applying a command\<close>

definition reload :: "env \<Rightarrow> world_config \<Rightarrow> session_parameters \<Rightarrow> loaded_save
    \<Rightarrow> world_error + game_world" where
  "reload E config session loaded =
     rbind (from_records E (ld_revision loaded) (ld_records loaded) config)
       (restore_session_parameters E session)"

definition recover :: "env \<Rightarrow> store_lib \<Rightarrow> 'd db_lib \<Rightarrow> session_parameters \<Rightarrow> ('d, unit) service_step" where
  "recover E X D session sv =
     (case store_load X D (sv_store sv) of
        (Inl e, st) \<Rightarrow> (Inl (RuntimeStore e), sv\<lparr>sv_store := st\<rparr>)
      | (Inr loaded, st) \<Rightarrow>
          (case reload E (sv_config sv) session loaded of
             Inl e \<Rightarrow> (Inl (RuntimeWorld e), sv\<lparr>sv_store := st\<rparr>)
           | Inr w \<Rightarrow>
               (Inr (), sv\<lparr>sv_store := st, sv_world := w, sv_events := ld_events loaded\<rparr>)))"

text \<open>Recover, then return.\<close>

definition recover_then :: "env \<Rightarrow> store_lib \<Rightarrow> 'd db_lib \<Rightarrow> session_parameters \<Rightarrow> runtime_error + 'a
    \<Rightarrow> ('d, 'a) service_step" where
  "recover_then E X D session answer sv =
     (case recover E X D session sv of
        (Inl e, sv) \<Rightarrow> (Inl e, sv)
      | (Inr _, sv) \<Rightarrow> (answer, sv))"

definition add_event :: "world_event list \<Rightarrow> world_event \<Rightarrow> world_event list" where
  "add_event events e = (if list_ex (\<lambda>x. we_id x = we_id e) events then events else events @ [e])"

definition note_events :: "world_event list \<Rightarrow> 'd world_service \<Rightarrow> 'd world_service" where
  "note_events events sv =
     sv\<lparr>sv_events := sort_key (\<lambda>e. (we_revision e, we_id e)) (foldl add_event (sv_events sv) events)\<rparr>"

definition commit_changes :: "env \<Rightarrow> store_lib \<Rightarrow> 'd db_lib \<Rightarrow> session_parameters \<Rightarrow> world_command
    \<Rightarrow> execution_change_set \<Rightarrow> ('d, committed_action) service_step" where
  "commit_changes E X D committed_session c changes sv =
     (let candidate_session = gw_session (sv_world sv)
      in case from_execution (sto_uuid X) (sto_serde X) c changes of
           Inl e \<Rightarrow> (Inl (RuntimeStore e), sv)
         | Inr q \<Rightarrow>
             (case store_commit X D q (sv_store sv) of
                (Inr (CommitDone out), st) \<Rightarrow>
                  (Inr out, note_events (cs_events changes) (sv\<lparr>sv_store := st\<rparr>))
              | (Inr (AlreadyCommitted out), st) \<Rightarrow>
                  (Inr out, note_events (cs_events changes) (sv\<lparr>sv_store := st\<rparr>))
              | (Inr (CommitConflict _ _), st) \<Rightarrow>
                  recover_then E X D committed_session (Inl Unavailable) (sv\<lparr>sv_store := st\<rparr>)
              | (Inr (ActionIdentityConflict _), st) \<Rightarrow>
                  recover_then E X D committed_session (Inl Unavailable) (sv\<lparr>sv_store := st\<rparr>)
              | (Inl e, st) \<Rightarrow>
                  (case resolve_action X D c st of
                     (Inr (ResolvedCommitted out), st) \<Rightarrow>
                       recover_then E X D candidate_session (Inr out) (sv\<lparr>sv_store := st\<rparr>)
                   | (_, st) \<Rightarrow>
                       recover_then E X D committed_session (Inl (RuntimeStore e)) (sv\<lparr>sv_store := st\<rparr>))))"

definition apply_command :: "env \<Rightarrow> store_lib \<Rightarrow> 'd db_lib \<Rightarrow> id_generator \<Rightarrow> world_command
    \<Rightarrow> ('d, committed_action) service_run" where
  "apply_command E X D ids c sv =
     (let committed_session = gw_session (sv_world sv)
      in map_option (\<lambda>result.
           case result of
             Executed changes s \<Rightarrow>
               commit_changes E X D committed_session c changes (sv\<lparr>sv_world := ex_world s\<rparr>)
           | Rejected e w \<Rightarrow>
               recover_then E X D committed_session (Inl (RuntimeWorld e)) (sv\<lparr>sv_world := w\<rparr>)
           | RollbackFailed e \<Rightarrow>
               recover_then E X D committed_session (Inl (RuntimeWorld e)) sv)
           (execute E (sv_world sv) ids c))"

section \<open>Opening\<close>

definition service_open :: "env \<Rightarrow> store_lib \<Rightarrow> 'd db_lib \<Rightarrow> world_lock \<Rightarrow> mod_lock \<Rightarrow> world_config
    \<Rightarrow> 'd save_store \<Rightarrow> runtime_error + 'd world_service" where
  "service_open E X D candidate_world candidate_mods config st =
     (let durable = sm_world_lock (ss_manifest st)
      in if wl_world_id durable \<noteq> wl_world_id candidate_world
            \<or> wl_manifest_schema durable \<noteq> wl_manifest_schema candidate_world
            \<or> wl_content_schema durable \<noteq> wl_content_schema candidate_world
         then Inl ContentLockMismatch
         else case store_load X D st of
             (Inl e, _) \<Rightarrow> Inl (RuntimeStore e)
           | (Inr loaded, st) \<Rightarrow>
               rbind (map_err RuntimeWorld
                   (from_records E (ld_revision loaded) (ld_records loaded) config)) (\<lambda>w.
                 case adopt_content_locks X D candidate_world candidate_mods st of
                   (Inl e, _) \<Rightarrow> Inl (RuntimeStore e)
                 | (Inr _, st) \<Rightarrow>
                     Inr \<lparr>sv_world = w, sv_store = st, sv_config = config,
                          sv_events = ld_events loaded\<rparr>))"

definition create_with_player :: "env \<Rightarrow> store_lib \<Rightarrow> 'd db_lib \<Rightarrow> bool \<Rightarrow> save_id \<Rightarrow> world_lock \<Rightarrow> mod_lock
    \<Rightarrow> scene_spawn_plan \<Rightarrow> player_bootstrap \<Rightarrow> u8 list \<Rightarrow> world_config \<Rightarrow> id_generator
    \<Rightarrow> (runtime_error + 'd world_service \<times> world_bootstrap) option" where
  "create_with_player E X D path_exists save_id world_lock mod_lock plan player seed config ids =
     map_option (\<lambda>started.
         rbind (map_err RuntimeWorld started) (\<lambda>(b, _).
         rbind (map_err RuntimeStore (store_create X D path_exists
             \<lparr>sm_format_version = SAVE_FORMAT_V1, sm_save_id = save_id, sm_world_id = wbs_world_id b,
              sm_world_lock = world_lock, sm_mod_lock = mod_lock\<rparr> (wbs_records b))) (\<lambda>st.
         rbind (service_open E X D world_lock mod_lock config st) (\<lambda>sv. Inr (sv, b)))))
       (bootstrap_with_player E plan player seed config ids)"

section \<open>Queries\<close>

definition require_revision :: "revision \<Rightarrow> 'd world_service \<Rightarrow> runtime_error + unit" where
  "require_revision expected sv = reject_if (gw_revision (sv_world sv) \<noteq> expected) Unavailable"

definition player_actor :: "'d world_service \<Rightarrow> actor_id" where
  "player_actor sv = ws_player_actor (gw_state (sv_world sv))"

definition enabled_binding :: "character_record \<Rightarrow> agent_binding option" where
  "enabled_binding ch =
     (if ch_controller ch = AgentController
      then (case ch_agent_binding ch of
              Some b \<Rightarrow> if ab_enabled b then Some b else None
            | None \<Rightarrow> None)
      else None)"

definition agent_profile :: "actor_id \<Rightarrow> 'd world_service \<Rightarrow> content_definition_id option" where
  "agent_profile actor sv =
     map_option ab_profile_id (Option.bind (character (sv_world sv) actor) enabled_binding)"

definition registered_profile :: "env \<Rightarrow> content_definition_id \<Rightarrow> agent_profile_definition option" where
  "registered_profile E i =
     (case registry_get (env_registry E) i of
        Some e \<Rightarrow> (case reg_definition e of AgentProfileDef d \<Rightarrow> Some d | _ \<Rightarrow> None)
      | None \<Rightarrow> None)"

definition projected :: "env \<Rightarrow> 'd world_service \<Rightarrow> runtime_error + domain_record list" where
  "projected E sv = map_err RuntimeWorld (project_records E (sv_world sv))"

text \<open>The place of a character in the active scene.\<close>

definition find_place :: "object_id \<Rightarrow> domain_record list \<Rightarrow> place_record option" where
  "find_place i records =
     find_map (\<lambda>r. case r of PlaceRec p \<Rightarrow> if place_rec_id p = i then Some p else None | _ \<Rightarrow> None) records"

definition active_place :: "env \<Rightarrow> object_id \<Rightarrow> 'd world_service \<Rightarrow> runtime_error + place_record" where
  "active_place E location sv =
     rbind (projected E sv) (\<lambda>records.
     rbind (ok_or Unavailable (find_place location records)) (\<lambda>p.
       if place_scene_id p \<noteq> ws_active_scene (gw_state (sv_world sv)) then Inl Unavailable
       else Inr p))"

definition npc_creation_location :: "env \<Rightarrow> actor_id \<Rightarrow> revision \<Rightarrow> 'd world_service
    \<Rightarrow> runtime_error + object_id \<times> object_id" where
  "npc_creation_location E actor expected sv =
     rbind (require_revision expected sv) (\<lambda>_.
     rbind (reject_if (player_actor sv \<noteq> actor) CapabilityDenied) (\<lambda>_.
     rbind (ok_or Unavailable (character (sv_world sv) actor)) (\<lambda>ch.
     rbind (active_place E (ch_location ch) sv) (\<lambda>p.
       Inr (place_scene_id p, place_rec_id p)))))"

definition preset_agent_profile :: "env \<Rightarrow> content_definition_id \<Rightarrow> runtime_error + content_definition_id" where
  "preset_agent_profile E i =
     rbind (ok_or Unavailable
         (case registry_get (env_registry E) i of
            Some e \<Rightarrow> (case reg_definition e of CharacterDef d \<Rightarrow> chd_agent_profile d | _ \<Rightarrow> None)
          | None \<Rightarrow> None)) (\<lambda>profile.
       if registered_profile E profile \<noteq> None then Inr profile else Inl Unavailable)"

definition npc_turn_scene :: "env \<Rightarrow> actor_id \<Rightarrow> actor_id \<Rightarrow> revision \<Rightarrow> 'd world_service
    \<Rightarrow> runtime_error + object_id" where
  "npc_turn_scene E player_id npc_id expected sv =
     rbind (require_revision expected sv) (\<lambda>_.
     rbind (reject_if (player_actor sv \<noteq> player_id) CapabilityDenied) (\<lambda>_.
     rbind (ok_or Unavailable (character (sv_world sv) player_id)) (\<lambda>player.
     rbind (ok_or Unavailable (character (sv_world sv) npc_id)) (\<lambda>npc.
     rbind (reject_if (ch_location npc \<noteq> ch_location player) Unavailable) (\<lambda>_.
     rbind (ok_or Unavailable (enabled_binding npc)) (\<lambda>b.
     rbind (reject_if (registered_profile E (ab_profile_id b) = None) Unavailable) (\<lambda>_.
     rbind (active_place E (ch_location player) sv) (\<lambda>p.
       Inr (place_scene_id p)))))))))"

definition has_character :: "actor_id \<Rightarrow> 'd world_service \<Rightarrow> bool" where
  "has_character actor sv \<longleftrightarrow> character (sv_world sv) actor \<noteq> None"

definition service_agent_definition :: "env \<Rightarrow> actor_id \<Rightarrow> 'd world_service
    \<Rightarrow> runtime_error + agent_definition" where
  "service_agent_definition E actor sv =
     rbind (ok_or Unavailable (Option.bind (character (sv_world sv) actor) enabled_binding)) (\<lambda>b.
     rbind (ok_or Unavailable (registered_profile E (ab_profile_id b))) (\<lambda>profile.
     rbind (map_err RuntimeText (bounded_text_new (as_str (apd_system_style profile)))) (\<lambda>style.
       Inr \<lparr>ad_profile_id = apd_id profile, ad_system_style = style,
            ad_model_alias = apd_model_alias profile,
            ad_allowed_tools = bs_of_list (map as_str (apd_tool_capabilities profile))\<rparr>)))"

definition generation_definitions :: "env \<Rightarrow> generation_policy \<Rightarrow> runtime_error + content_definition list" where
  "generation_definitions E policy =
     rmapM (\<lambda>i. ok_or Unavailable (map_option reg_definition (registry_get (env_registry E) i)))
       (sc_allowed_definitions (gp_constraints policy))"

record materialization_counts =
  mc_scene_characters :: nat
  mc_persistent_generated :: nat

definition characters_of :: "domain_record list \<Rightarrow> character_record list" where
  "characters_of records = List.map_filter as_character records"

definition place_scenes :: "domain_record list \<Rightarrow> (object_id, object_id) btree" where
  "place_scenes records =
     fold (\<lambda>r m. case r of PlaceRec p \<Rightarrow> bt_insert (place_rec_id p) (place_scene_id p) m | _ \<Rightarrow> m) records []"

fun is_generated :: "entity_origin \<Rightarrow> bool" where
  "is_generated (GeneratedEntity _) = True"
| "is_generated _ = False"

definition count_materialized :: "env \<Rightarrow> object_id \<Rightarrow> 'd world_service
    \<Rightarrow> runtime_error + materialization_counts" where
  "count_materialized E scene_id sv =
     rbind (projected E sv) (\<lambda>records.
       let places = place_scenes records
       in Inr \<lparr>mc_scene_characters = length (filter (\<lambda>ch. ch_id ch \<noteq> player_actor sv
                   \<and> bt_get (ch_location ch) places = Some scene_id) (characters_of records)),
               mc_persistent_generated = length (filter (\<lambda>ch. ch_lifetime ch = Persistent
                   \<and> is_generated (ch_origin ch)) (characters_of records))\<rparr>)"

section \<open>Commands\<close>

definition command_of :: "action_id \<Rightarrow> actor_id \<Rightarrow> revision \<Rightarrow> world_command_kind \<Rightarrow> world_command" where
  "command_of action actor expected kind =
     \<lparr>wc_action_id = action, wc_actor_id = actor, wc_expected_revision = expected, wc_kind = kind\<rparr>"

text \<open>A method that draws the identifier of its action, then applies the command.\<close>

definition draw_and_apply :: "env \<Rightarrow> store_lib \<Rightarrow> 'd db_lib \<Rightarrow> id_generator
    \<Rightarrow> actor_id \<Rightarrow> revision \<Rightarrow> world_command_kind \<Rightarrow> ('d, committed_action) service_run" where
  "draw_and_apply E X D ids actor expected kind sv =
     (case generate_with (env_uuid E) ids of
        Inl e \<Rightarrow> Some (Inl (RuntimeIdentity e), sv)
      | Inr (action, ids) \<Rightarrow> apply_command E X D ids (command_of action actor expected kind) sv)"

definition service_execute :: "env \<Rightarrow> store_lib \<Rightarrow> 'd db_lib \<Rightarrow> id_generator \<Rightarrow> agent_tool_context
    \<Rightarrow> world_command_kind \<Rightarrow> ('d, committed_action) service_run" where
  "service_execute E X D ids context kind =
     draw_and_apply E X D ids (atc_actor_id context) (atc_revision context) kind"

definition service_gameplay_action :: "env \<Rightarrow> store_lib \<Rightarrow> 'd db_lib \<Rightarrow> id_generator
    \<Rightarrow> agent_tool_context \<Rightarrow> content_definition_id \<Rightarrow> (content_definition_id, parameter_value) btree
    \<Rightarrow> ('d, committed_action) service_run" where
  "service_gameplay_action E X D ids context action_id arguments sv =
     (case registry_get (env_registry E) action_id of
        Some e \<Rightarrow>
          (case reg_definition e of
             GameplayActionDef d \<Rightarrow>
               if as_str (gad_capability d) \<in> set (atc_capabilities context)
               then draw_and_apply E X D ids (atc_actor_id context) (atc_revision context)
                      (PerformGameplayAction action_id arguments) sv
               else Some (Inl CapabilityDenied, sv)
           | _ \<Rightarrow> Some (Inl InvalidInput, sv))
      | None \<Rightarrow> Some (Inl InvalidInput, sv))"

definition spawned_in :: "committed_action \<Rightarrow> world_event list \<Rightarrow> actor_id option" where
  "spawned_in out events =
     find_map (\<lambda>e. case we_kind e of CharacterSpawned i \<Rightarrow> Some i | _ \<Rightarrow> None)
       (filter (\<lambda>e. we_id e \<in> set (ca_event_ids out)) events)"

definition service_spawn_character :: "env \<Rightarrow> store_lib \<Rightarrow> 'd db_lib \<Rightarrow> id_generator \<Rightarrow> actor_id
    \<Rightarrow> character_spawn_spec \<Rightarrow> ('d, actor_id) service_run" where
  "service_spawn_character E X D ids acting spec sv =
     map_option (\<lambda>(r, sv).
         (rbind r (\<lambda>out. ok_or Unavailable (spawned_in out (sv_events sv))), sv))
       (draw_and_apply E X D ids acting (gw_revision (sv_world sv)) (SpawnCharacter spec) sv)"

record character_materialization_request =
  cmr_acting_actor :: actor_id
  cmr_scene_id :: object_id
  cmr_place_id :: object_id
  cmr_controller :: character_controller
  cmr_lifetime :: character_lifetime
  cmr_required_agent_profile :: "content_definition_id option"

definition spawn_compiled :: "env \<Rightarrow> store_lib \<Rightarrow> 'd db_lib \<Rightarrow> id_generator
    \<Rightarrow> character_materialization_request \<Rightarrow> content_error + character_spawn_spec
    \<Rightarrow> ('d, actor_id) service_run" where
  "spawn_compiled E X D ids request compiled sv =
     (case compiled of
        Inl e \<Rightarrow> Some (Inl (RuntimeContent e), sv)
      | Inr spec \<Rightarrow>
          if map_option ab_profile_id (sp_agent_binding spec) \<noteq> cmr_required_agent_profile request
          then Some (Inl Unavailable, sv)
          else service_spawn_character E X D ids (cmr_acting_actor request) spec sv)"

definition spawn_preset_character :: "env \<Rightarrow> store_lib \<Rightarrow> 'd db_lib \<Rightarrow> id_generator
    \<Rightarrow> content_definition_id \<Rightarrow> character_materialization_request \<Rightarrow> ('d, actor_id) service_run" where
  "spawn_preset_character E X D ids character_id request =
     spawn_compiled E X D ids request
       (compile_character (env_registry E) character_id
          \<lparr>ccr_scene_id = cmr_scene_id request, ccr_place_id = cmr_place_id request,
           ccr_controller = cmr_controller request, ccr_lifetime = cmr_lifetime request\<rparr>)"

definition spawn_generated_character :: "env \<Rightarrow> store_lib \<Rightarrow> 'd db_lib \<Rightarrow> id_generator
    \<Rightarrow> npc_draft \<Rightarrow> generation_policy \<Rightarrow> generated_origin \<Rightarrow> character_materialization_request
    \<Rightarrow> ('d, actor_id) service_run" where
  "spawn_generated_character E X D ids draft policy origin request =
     spawn_compiled E X D ids request
       (compile_draft (env_registry E) draft policy
          \<lparr>dcr_origin = origin, dcr_scene_id = cmr_scene_id request,
           dcr_place_id = cmr_place_id request, dcr_controller = cmr_controller request,
           dcr_lifetime = cmr_lifetime request\<rparr>)"

subsection \<open>Transcripts\<close>

text \<open>The next revision, the identifier of the item, then that of the action.\<close>

definition append_item :: "env \<Rightarrow> store_lib \<Rightarrow> 'd db_lib \<Rightarrow> id_generator \<Rightarrow> actor_id
    \<Rightarrow> (revision \<Rightarrow> transcript_item_id \<Rightarrow> transcript_item_record)
    \<Rightarrow> ('d, transcript_item_record) service_run" where
  "append_item E X D ids actor mk sv =
     (case revision_next (gw_revision (sv_world sv)) of
        Inl e \<Rightarrow> Some (Inl (RuntimeRevision e), sv)
      | Inr revision \<Rightarrow>
          (case generate_with (env_uuid E) ids of
             Inl e \<Rightarrow> Some (Inl (RuntimeIdentity e), sv)
           | Inr (i, ids) \<Rightarrow>
               map_option (\<lambda>(r, sv). (rbind r (\<lambda>_. Inr (mk revision i)), sv))
                 (draw_and_apply E X D ids actor (gw_revision (sv_world sv))
                    (AppendTranscript [mk revision i]) sv)))"

definition append_transcript :: "env \<Rightarrow> store_lib \<Rightarrow> 'd db_lib \<Rightarrow> id_generator \<Rightarrow> actor_id \<Rightarrow> session_id
    \<Rightarrow> transcript_speaker \<Rightarrow> long_text \<Rightarrow> event_id list \<Rightarrow> ('d, transcript_item_record) service_run" where
  "append_transcript E X D ids actor session speaker t supporting =
     append_item E X D ids actor (\<lambda>revision i.
       \<lparr>tr_audience = PlayerAudience, tr_source_id = None, tr_id = i, tr_session_id = session,
        tr_revision = Some revision, tr_speaker = speaker, tr_text = t, tr_state = Committed,
        tr_supporting_events = supporting\<rparr>)"

definition remembered :: "actor_id \<Rightarrow> transcript_item_record \<Rightarrow> game_world \<Rightarrow> bool" where
  "remembered actor source w \<longleftrightarrow>
     list_ex (\<lambda>i. tr_audience i = NpcAudience actor \<and> tr_source_id i = Some (tr_id source))
       (bt_values (gw_transcripts w))"

definition remember_npc_dialogue :: "env \<Rightarrow> store_lib \<Rightarrow> 'd db_lib \<Rightarrow> id_generator \<Rightarrow> actor_id
    \<Rightarrow> session_id \<Rightarrow> transcript_item_record option \<Rightarrow> long_text option \<Rightarrow> ('d, unit) service_run" where
  "remember_npc_dialogue E X D ids actor session source response sv =
     (if (\<exists>v\<in>set_option source. remembered actor v (sv_world sv)) then Some (Inr (), sv)
      else case character (sv_world sv) actor of
        None \<Rightarrow> Some (Inl Unavailable, sv)
      | Some ch \<Rightarrow>
          let item = (\<lambda>speaker t source_id revision i.
                \<lparr>tr_audience = NpcAudience actor, tr_source_id = source_id, tr_id = i,
                 tr_session_id = session, tr_revision = Some revision, tr_speaker = speaker,
                 tr_text = t, tr_state = Committed, tr_supporting_events = []\<rparr>);
              append = (\<lambda>mk. map_option (\<lambda>(r, sv). (rbind r (\<lambda>_. Inr ()), sv))
                (append_item E X D ids actor mk sv))
          in (case (source, response) of
                (Some v, None) \<Rightarrow> append (item (tr_speaker v) (tr_text v) (Some (tr_id v)))
              | (None, Some t) \<Rightarrow>
                  append (item (ActorSpeaker (Some actor) (ch_display_name ch)) t None)
              | _ \<Rightarrow> Some (Inl InvalidInput, sv)))"

subsection \<open>Scene transitions\<close>

record scene_transition_option =
  sto_target :: scene_transition_target
  sto_display_name :: display_name
  sto_framing :: short_text

record scene_transition_projection =
  stp_current :: scene_record
  stp_targets :: "scene_transition_option list"

definition transition_sort_key :: "env \<Rightarrow> scene_transition_option \<Rightarrow> string" where
  "transition_sort_key E o1 =
     (case sto_target o1 of
        ExistingScene i \<Rightarrow> ''existing:'' @ runtime_id_to_string (env_uuid E) OBJ i
      | SceneDefinition d \<Rightarrow> ''definition:'' @ content_id_str d)"

definition existing_targets :: "object_id \<Rightarrow> scene_record list \<Rightarrow> scene_transition_option list" where
  "existing_targets active scenes =
     map (\<lambda>s. \<lparr>sto_target = ExistingScene (scene_rec_id s), sto_display_name = scene_display_name s,
               sto_framing = scene_framing s\<rparr>)
       (filter (\<lambda>s. scene_rec_id s \<noteq> active \<and> \<not> scene_active s) scenes)"

definition definition_targets :: "env \<Rightarrow> scene_record list \<Rightarrow> scene_transition_option list" where
  "definition_targets E scenes =
     (let materialized = map co_definition_id
            (List.map_filter (\<lambda>s. entity_origin_content (scene_origin s)) scenes)
      in List.map_filter (\<lambda>(_, e).
           case reg_definition e of
             SceneDef d \<Rightarrow>
               if snd_id d \<in> set materialized then None
               else Some \<lparr>sto_target = SceneDefinition (snd_id d),
                          sto_display_name = snd_display_name d, sto_framing = snd_framing d\<rparr>
           | _ \<Rightarrow> None) (dr_definitions (env_registry E)))"

definition project_transitions :: "env \<Rightarrow> 'd world_service
    \<Rightarrow> runtime_error + scene_transition_projection" where
  "project_transitions E sv =
     rbind (projected E sv) (\<lambda>records.
       let active = ws_active_scene (gw_state (sv_world sv));
           scenes = List.map_filter as_scene records
       in rbind (ok_or Unavailable
            (find (\<lambda>s. scene_rec_id s = active \<and> scene_active s) scenes)) (\<lambda>current.
            Inr \<lparr>stp_current = current,
                 stp_targets = sort_key (transition_sort_key E)
                   (existing_targets active scenes @ definition_targets E scenes)\<rparr>))"

definition validate_scene_transition_target :: "env \<Rightarrow> agent_tool_context \<Rightarrow> scene_transition_target
    \<Rightarrow> 'd world_service \<Rightarrow> runtime_error + unit" where
  "validate_scene_transition_target E context target sv =
     rbind (reject_if (gw_revision (sv_world sv) \<noteq> atc_revision context) Unavailable) (\<lambda>_.
     rbind (project_transitions E sv) (\<lambda>p.
       reject_if (\<not> list_ex (\<lambda>o1. sto_target o1 = target) (stp_targets p))
         SceneTransitionTargetUnavailable))"

end
