(* ===== verification/Service_Durable.thy ===== *)
theory Service_Durable
  imports Durable_World Store_Properties World_Service
begin

text \<open>
  The service and its save: a service that serves a world holds in its save the log of the world it
  has in memory. Applying a command commits and serves the next world, or leaves the log as it was, or,
  when the database reported a failure of the commit, leaves what the database wrote; the lemmas say
  what is then in memory.
\<close>

section \<open>A service and its save\<close>

text \<open>The save of a service holds a log, of a sound world.\<close>

definition save_of :: "env \<Rightarrow> store_lib \<Rightarrow> ('d \<Rightarrow> tables) \<Rightarrow> 'd world_service \<Rightarrow> log \<Rightarrow> game_world \<Rightarrow> bool" where
  "save_of E X V sv log w \<longleftrightarrow> world_sound E w \<and> gw_config w = sv_config sv
     \<and> (\<exists>envelopes row initial. holds_world X (V (ss_db (sv_store sv))) (ss_manifest (sv_store sv))
          envelopes row initial log w)"

text \<open>It serves that world if that is the world in memory.\<close>

definition serves :: "env \<Rightarrow> store_lib \<Rightarrow> ('d \<Rightarrow> tables) \<Rightarrow> 'd world_service \<Rightarrow> log \<Rightarrow> bool" where
  "serves E X V sv log \<longleftrightarrow> save_of E X V sv log (sv_world sv)"

text \<open>The parts of a service that its save depends on.\<close>

definition same_save :: "('d \<Rightarrow> tables) \<Rightarrow> 'd world_service \<Rightarrow> 'd world_service \<Rightarrow> bool" where
  "same_save V sv sv' \<longleftrightarrow> V (ss_db (sv_store sv')) = V (ss_db (sv_store sv))
     \<and> ss_manifest (sv_store sv') = ss_manifest (sv_store sv) \<and> sv_config sv' = sv_config sv"

lemma same_save_refl [simp]: "same_save V sv sv"
  by (simp add: same_save_def)

lemma save_of_same: "save_of E X V sv log w \<Longrightarrow> same_save V sv sv' \<Longrightarrow> save_of E X V sv' log w"
  by (simp add: save_of_def same_save_def)

lemma save_of_log: "save_of E X V sv log w \<Longrightarrow> \<exists>cps initial.
    save_holds X (V (ss_db (sv_store sv))) (ss_manifest (sv_store sv)) cps initial log"
  by (auto simp: save_of_def holds_world_def)

text \<open>The save can be read: its load succeeds; an action can be looked up in it.\<close>

definition loads :: "store_lib \<Rightarrow> 'd db_lib \<Rightarrow> 'd world_service \<Rightarrow> bool" where
  "loads X D sv \<longleftrightarrow> is_ok (fst (store_load X D (sv_store sv)))"

definition resolves :: "store_lib \<Rightarrow> 'd db_lib \<Rightarrow> world_command \<Rightarrow> 'd world_service \<Rightarrow> bool" where
  "resolves X D c sv \<longleftrightarrow> is_ok (fst (resolve_action X D c (sv_store sv)))"

text \<open>Neither depends on more than the database and the manifest, and neither changes these.\<close>

lemma loads_same: "ss_db (sv_store sv') = ss_db (sv_store sv) \<Longrightarrow> ss_manifest (sv_store sv') = ss_manifest (sv_store sv)
    \<Longrightarrow> loads X D sv' = loads X D sv"
  by (auto simp: loads_def store_load_def split: sum.splits)

lemma resolve_action_same:
  assumes "resolve_action X D c st = (answer, st')"
  shows "ss_db st' = ss_db st" and "ss_manifest st' = ss_manifest st"
    and "ss_db t = ss_db st \<Longrightarrow> ss_manifest t = ss_manifest st \<Longrightarrow> fst (resolve_action X D c t) = answer"
  using assms by (auto simp: resolve_action_def split: sum.splits driver_error.splits)

text \<open>To recover is to take the world of the save, with the session parameters given, or to fail and
  keep the world in memory.\<close>

definition recovered :: "env \<Rightarrow> store_lib \<Rightarrow> 'd db_lib \<Rightarrow> session_parameters \<Rightarrow> game_world \<Rightarrow> game_world
    \<Rightarrow> runtime_error + 'a \<Rightarrow> runtime_error + 'a \<Rightarrow> 'd world_service \<Rightarrow> bool" where
  "recovered E X D p w before answer r sv' \<longleftrightarrow>
     r = answer \<and> sv_world sv' = w\<lparr>gw_session := p\<rparr>
     \<or> (\<exists>e. r = Inl e) \<and> sv_world sv' = before
         \<and> (\<not> loads X D sv' \<or> \<not> is_ok (restore_session_parameters E p w))"

lemma recover_save:
  assumes X: "store_lib_ok X" and D: "db_ok D V"
    and defs: "definitions_ok (dr_definitions (env_registry E))" "plain_session_defaults E"
    and s: "save_of E X V sv log w" and run: "recover_then E X D p answer sv = (r, sv')"
  shows "save_of E X V sv' log w \<and> recovered E X D p w (sv_world sv) answer r sv'
    \<and> ss_db (sv_store sv') = ss_db (sv_store sv) \<and> ss_manifest (sv_store sv') = ss_manifest (sv_store sv)"
proof -
  from s obtain envelopes row initial where sound: "world_sound E w" and config: "sv_config sv = gw_config w"
    and h: "holds_world X (V (ss_db (sv_store sv))) (ss_manifest (sv_store sv)) envelopes row initial log w"
    by (auto simp: save_of_def)
  obtain loaded st where load: "store_load X D (sv_store sv) = (loaded, st)"
    by fastforce
  then have st: "ss_db st = ss_db (sv_store sv)" "ss_manifest st = ss_manifest (sv_store sv)"
    by (auto simp: store_load_def split: sum.splits)
  have left: "ss_db (sv_store sv') = ss_db (sv_store sv) \<and> ss_manifest (sv_store sv') = ss_manifest (sv_store sv)
      \<and> sv_config sv' = sv_config sv"
    using run load st by (auto simp: recover_then_def recover_def split: sum.splits)
  then have "save_of E X V sv' log w"
    using s by (simp add: save_of_def)
  moreover have "recovered E X D p w (sv_world sv) answer r sv'"
  proof (cases loaded)
    case (Inl e)
    then have "\<not> loads X D sv'"
      using load loads_same [of sv' sv X D] left by (simp add: loads_def)
    with Inl run load show ?thesis
      by (auto simp: recovered_def recover_then_def recover_def)
  next
    case (Inr x)
    with loaded_world(1) [OF X D defs sound h, of x st p] load
    have reload: "reload E (sv_config sv) p x = restore_session_parameters E p w"
      by (simp add: reload_def config)
    show ?thesis
    proof (cases "restore_session_parameters E p w")
      case (Inl e)
      with Inr run load reload show ?thesis
        by (auto simp: recovered_def recover_then_def recover_def)
    next
      case ok: (Inr v)
      with Inr run load reload restored_world [OF sound ok] show ?thesis
        by (auto simp: recovered_def recover_then_def recover_def)
    qed
  qed
  ultimately show ?thesis
    using left by simp
qed

text \<open>A service that recovers the world it serves, with its own session parameters, has it again.\<close>

lemma recovered_served:
  assumes "world_sound E w" and "recovered E X D (gw_session w) w before (Inl e) r sv'"
  shows "(\<exists>e. r = Inl e) \<and> (sv_world sv' = w \<or> sv_world sv' = before \<and> \<not> loads X D sv')"
  using assms restored_own [OF assms(1)] by (auto simp: recovered_def)

section \<open>Committing\<close>

text \<open>A command is fresh if no committed request has its identity.\<close>

definition fresh_action :: "log \<Rightarrow> world_command \<Rightarrow> bool" where
  "fresh_action log c \<longleftrightarrow> (\<forall>(q, _)\<in>set log. wc_action_id (cr_command q) \<noteq> wc_action_id c)"

lemma from_execution_command:
  "from_execution L S c changes = Inr q \<Longrightarrow> cr_command q = c"
  by (auto simp: from_execution_def commit_request_new_def Let_def rbind_Inr_iff)

text \<open>The database of a service reported a failure of a commit.\<close>

definition commit_fails :: "'d db_lib \<Rightarrow> 'd world_service \<Rightarrow> driver_error \<Rightarrow> bool" where
  "commit_fails D sv e \<longleftrightarrow> (\<exists>tx d. db_commit D (ss_db (sv_store sv)) tx = (Some e, d))"

text \<open>What a command that was executed leaves, in four cases. It is applied: the save holds its request
  and the world in memory is the executed one. It is not applied: the log is as it was, and so is the
  world in memory, unless the request was refused before the store was asked or the save cannot be
  loaded. The database reported a failure of a commit that was written: the save holds the request, and
  the answer is an error because the action cannot be looked up or the save cannot be loaded. Others
  committed in between: the save holds their log, and the world in memory is theirs.\<close>

definition left_applied :: "env \<Rightarrow> store_lib \<Rightarrow> ('d \<Rightarrow> tables) \<Rightarrow> log \<Rightarrow> world_command
    \<Rightarrow> execution_change_set \<Rightarrow> game_world \<Rightarrow> runtime_error + committed_action \<Rightarrow> 'd world_service \<Rightarrow> bool" where
  "left_applied E X V log c changes candidate r sv' \<longleftrightarrow>
     (\<exists>q p. from_execution (sto_uuid X) (sto_serde X) c changes = Inr q \<and> r = Inr (cr_safe_outcome q)
        \<and> sv_world sv' = candidate \<and> serves E X V sv' (log @ [(q, p)]))"

definition left_unapplied :: "env \<Rightarrow> store_lib \<Rightarrow> 'd db_lib \<Rightarrow> ('d \<Rightarrow> tables) \<Rightarrow> 'd world_service \<Rightarrow> log
    \<Rightarrow> world_command \<Rightarrow> execution_change_set \<Rightarrow> game_world \<Rightarrow> runtime_error + committed_action
    \<Rightarrow> 'd world_service \<Rightarrow> bool" where
  "left_unapplied E X D V sv log c changes candidate r sv' \<longleftrightarrow>
     (\<exists>e. r = Inl e) \<and> save_of E X V sv' log (sv_world sv)
     \<and> (sv_world sv' = sv_world sv
        \<or> sv_world sv' = candidate
          \<and> (\<not> is_ok (from_execution (sto_uuid X) (sto_serde X) c changes) \<or> \<not> loads X D sv'))"

definition left_uncertain :: "env \<Rightarrow> store_lib \<Rightarrow> 'd db_lib \<Rightarrow> ('d \<Rightarrow> tables) \<Rightarrow> 'd world_service \<Rightarrow> log
    \<Rightarrow> world_command \<Rightarrow> execution_change_set \<Rightarrow> game_world \<Rightarrow> runtime_error + committed_action
    \<Rightarrow> 'd world_service \<Rightarrow> bool" where
  "left_uncertain E X D V sv log c changes candidate r sv' \<longleftrightarrow>
     (\<exists>e. commit_fails D sv e \<and> e \<noteq> SerializationFailure) \<and> (\<exists>e. r = Inl e)
     \<and> (\<exists>q p. from_execution (sto_uuid X) (sto_serde X) c changes = Inr q
          \<and> save_of E X V sv' (log @ [(q, p)]) candidate)
     \<and> (\<not> loads X D sv' \<and> sv_world sv' = candidate
        \<or> \<not> resolves X D c sv'
          \<and> recovered E X D (gw_session (sv_world sv)) candidate candidate r r sv')"

definition left_to_others :: "env \<Rightarrow> store_lib \<Rightarrow> 'd db_lib \<Rightarrow> ('d \<Rightarrow> tables) \<Rightarrow> 'd world_service \<Rightarrow> log
    \<Rightarrow> world_command \<Rightarrow> game_world \<Rightarrow> runtime_error + committed_action \<Rightarrow> 'd world_service \<Rightarrow> bool" where
  "left_to_others E X D V sv log c candidate r sv' \<longleftrightarrow> commit_fails D sv SerializationFailure
     \<and> (\<exists>more w. save_of E X V sv' (log @ more) w
          \<and> ((\<exists>e. r = Inl e) \<and> recovered E X D (gw_session (sv_world sv)) w candidate r r sv'
             \<or> (\<exists>(q, _)\<in>set more. wc_action_id (cr_command q) = wc_action_id c
                  \<and> request_digest X (cr_command q) = request_digest X c
                  \<and> recovered E X D (gw_session candidate) w candidate (Inr (cr_safe_outcome q)) r sv')))"

definition command_left :: "env \<Rightarrow> store_lib \<Rightarrow> 'd db_lib \<Rightarrow> ('d \<Rightarrow> tables) \<Rightarrow> 'd world_service \<Rightarrow> log
    \<Rightarrow> world_command \<Rightarrow> execution_change_set \<Rightarrow> game_world \<Rightarrow> runtime_error + committed_action
    \<Rightarrow> 'd world_service \<Rightarrow> bool" where
  "command_left E X D V sv log c changes candidate r sv' \<longleftrightarrow>
     left_applied E X V log c changes candidate r sv'
     \<or> left_unapplied E X D V sv log c changes candidate r sv'
     \<or> left_uncertain E X D V sv log c changes candidate r sv'
     \<or> left_to_others E X D V sv log c candidate r sv'"

text \<open>What follows a commit that gave no outcome.\<close>

lemma resolved:
  assumes X: "store_lib_ok X" and D: "db_ok D V" and s: "save_of E X V sv log w"
    and run: "resolve_action X D c (sv_store sv) = (Inr (ResolvedCommitted out), st)"
  shows "\<exists>(q, _)\<in>set log. wc_action_id (cr_command q) = wc_action_id c
    \<and> request_digest X (cr_command q) = request_digest X c \<and> out = cr_safe_outcome q"
proof -
  from save_of_log [OF s] obtain cps initial where
    "save_holds X (V (ss_db (sv_store sv))) (ss_manifest (sv_store sv)) cps initial log"
    by blast
  from resolve_action_holds [OF X D this run] show ?thesis
    by simp
qed

lemma resolved_other:
  assumes X: "store_lib_ok X" and D: "db_ok D V" and s: "save_of E X V sv (log @ [(q, p)]) w" and fresh: "fresh_action log c"
    and c: "cr_command q = c" and run: "resolve_action X D c (sv_store sv) = (Inr answer, st)"
  shows "answer = ResolvedCommitted (cr_safe_outcome q)"
proof -
  from save_of_log [OF s] obtain cps initial where
    "save_holds X (V (ss_db (sv_store sv))) (ss_manifest (sv_store sv)) cps initial (log @ [(q, p)])"
    by blast
  from resolve_action_holds [OF X D this run] fresh c show ?thesis
    by (cases answer) (auto simp: fresh_action_def)
qed

text \<open>The commit of the database failed, or the store did: the action is looked up, the world loaded.\<close>

definition after_error :: "env \<Rightarrow> store_lib \<Rightarrow> 'd db_lib \<Rightarrow> session_parameters \<Rightarrow> world_command \<Rightarrow> store_error
    \<Rightarrow> ('d, committed_action) service_step" where
  "after_error E X D committed_session c e sv =
     (case resolve_action X D c (sv_store sv) of
        (Inr (ResolvedCommitted out), st) \<Rightarrow>
          recover_then E X D (gw_session (sv_world sv)) (Inr out) (sv\<lparr>sv_store := st\<rparr>)
      | (_, st) \<Rightarrow> recover_then E X D committed_session (Inl (RuntimeStore e)) (sv\<lparr>sv_store := st\<rparr>))"

lemma after_error_left:
  assumes X: "store_lib_ok X" and D: "db_ok D V"
    and defs: "definitions_ok (dr_definitions (env_registry E))" "plain_session_defaults E"
    and s: "save_of E X V sv log w" and run: "after_error E X D p c e sv = (r, sv')"
  shows "save_of E X V sv' log w
    \<and> ((\<exists>out. fst (resolve_action X D c (sv_store sv)) = Inr (ResolvedCommitted out)
          \<and> recovered E X D (gw_session (sv_world sv)) w (sv_world sv) (Inr out) r sv')
       \<or> (\<forall>out. fst (resolve_action X D c (sv_store sv)) \<noteq> Inr (ResolvedCommitted out))
          \<and> recovered E X D p w (sv_world sv) (Inl (RuntimeStore e)) r sv')
    \<and> resolves X D c sv' = resolves X D c sv"
proof -
  obtain answer st where resolve: "resolve_action X D c (sv_store sv) = (answer, st)"
    by fastforce
  let ?at = "sv\<lparr>sv_store := st\<rparr>"
  note same = resolve_action_same [OF resolve]
  have at: "save_of E X V ?at log w"
    using s same(1,2) by (simp add: save_of_def)
  have kept: "resolves X D c sv' = resolves X D c sv"
    if "ss_db (sv_store sv') = ss_db st" "ss_manifest (sv_store sv') = ss_manifest st"
    using same(3) [of "sv_store sv'"] same(1,2) that resolve by (simp add: resolves_def)
  show ?thesis
  proof (cases "\<exists>out. answer = Inr (ResolvedCommitted out)")
    case True
    then obtain out where out: "answer = Inr (ResolvedCommitted out)" ..
    with run resolve have "recover_then E X D (gw_session (sv_world sv)) (Inr out) ?at = (r, sv')"
      by (simp add: after_error_def)
    from recover_save [OF X D defs at this] out resolve kept show ?thesis
      by auto
  next
    case False
    with run resolve have "recover_then E X D p (Inl (RuntimeStore e)) ?at = (r, sv')"
      by (auto simp: after_error_def split: sum.splits action_resolution.splits)
    from recover_save [OF X D defs at this] False resolve kept show ?thesis
      by auto
  qed
qed

lemma recovered_Inl: "recovered E X D p w before (Inl e) r sv' \<Longrightarrow> (\<exists>e. r = Inl e) \<and> recovered E X D p w before r r sv'"
  by (auto simp: recovered_def)

lemma commit_changes_left:
  assumes X: "store_lib_ok X" and D: "db_ok D V" and L: "env_uuid E = sto_uuid X" and others: "others_serve E X D V"
    and defs: "definitions_ok (dr_definitions (env_registry E))" "plain_session_defaults E"
    and s: "serves E X V sv log" and fresh: "fresh_action log c"
    and ex: "execute E (sv_world sv) ids c = Some (Executed changes s)"
    and len: "\<And>q. from_execution (sto_uuid X) (sto_serde X) c changes = Inr q \<Longrightarrow> length (cr_record_ops q) < 2 ^ 32"
    and run: "commit_changes E X D (gw_session (sv_world sv)) c changes (sv\<lparr>sv_world := ex_world s\<rparr>) = (r, sv')"
  shows "command_left E X D V sv log c changes (ex_world s) r sv'"
proof (cases "from_execution (sto_uuid X) (sto_serde X) c changes")
  case (Inl e)
  with run s have "left_unapplied E X D V sv log c changes (ex_world s) r sv'"
    by (auto simp: commit_changes_def left_unapplied_def serves_def save_of_def) blast
  then show ?thesis
    by (simp add: command_left_def)
next
  case (Inr q)
  let ?w = "sv_world sv" and ?cand = "ex_world s"
  from s obtain envelopes row initial where sound: "world_sound E ?w" and config: "gw_config ?w = sv_config sv"
    and h: "holds_world X (V (ss_db (sv_store sv))) (ss_manifest (sv_store sv)) envelopes row initial log ?w"
    by (auto simp: serves_def save_of_def)
  have c: "cr_command q = c"
    by (rule from_execution_command [OF Inr])
  obtain res st where commit: "store_commit X D q (sv_store sv) = (res, st)"
    by fastforce
  let ?at = "sv\<lparr>sv_world := ?cand, sv_store := st\<rparr>"
  note leaves = commit_leaves_world [OF X D L others sound h ex Inr len [OF Inr] commit]
  have cand: "world_sound E ?cand" "gw_config ?cand = sv_config sv"
    using leaves config by simp_all
  have fails: "commit_fails D sv e" if "commit_failed D (sv_store sv) e st" for e
    using that by (auto simp: commit_failed_def commit_fails_def)
  have error: "after_error E X D (gw_session ?w) c e ?at = (r, sv')" if "res = Inl e" for e
    using run that by (cases "resolve_action X D c st")
      (auto simp: commit_changes_def Let_def Inr commit after_error_def split: sum.splits action_resolution.splits)
  have conflict: "recover_then E X D (gw_session ?w) (Inl Unavailable) ?at = (r, sv')"
    if "res = Inr (CommitConflict e a)" for e a
    using run that by (simp add: commit_changes_def Let_def Inr commit)
  from leaves consider
      (applied) p where "res = Inr (CommitDone (cr_safe_outcome q))"
        "holds_world X (V (ss_db st)) (ss_manifest (sv_store sv)) envelopes row initial (log @ [(q, p)]) ?cand"
    | (written) e e' p where "res = Inl e" "commit_failed D (sv_store sv) e' st" "e' \<noteq> SerializationFailure"
        "holds_world X (V (ss_db st)) (ss_manifest (sv_store sv)) envelopes row initial (log @ [(q, p)]) ?cand"
    | (unwritten) "commit_answer X log q res" "V (ss_db st) = V (ss_db (sv_store sv))"
    | (others) more v where "commit_failed D (sv_store sv) SerializationFailure st"
        "(\<exists>e. res = Inl e) \<or> (\<exists>e a. res = Inr (CommitConflict e a))" "world_sound E v" "gw_config v = gw_config ?w"
        "holds_world X (V (ss_db st)) (ss_manifest (sv_store sv)) envelopes row initial (log @ more) v"
    by blast
  then show ?thesis
  proof cases
    case applied
    with run have "r = Inr (cr_safe_outcome q)" and sv': "sv' = note_events (cs_events changes) ?at"
      by (simp_all add: commit_changes_def Let_def Inr commit)
    moreover have "serves E X V sv' (log @ [(q, p)])"
      using applied cand leaves by (auto simp: sv' note_events_def serves_def save_of_def)
    ultimately have "left_applied E X V log c changes ?cand r sv'"
      using Inr by (auto simp: left_applied_def note_events_def)
    then show ?thesis
      by (simp add: command_left_def)
  next
    case written
    have at: "save_of E X V ?at (log @ [(q, p)]) ?cand"
      using written cand leaves by (auto simp: save_of_def)
    note left = after_error_left [OF X D defs at error [OF written(1)]]
    show ?thesis
    proof (cases "\<exists>out. fst (resolve_action X D c (sv_store ?at)) = Inr (ResolvedCommitted out)")
      case True
      then obtain out st' where found: "resolve_action X D c (sv_store ?at) = (Inr (ResolvedCommitted out), st')"
        by (metis fst_conv surj_pair)
      have "out = cr_safe_outcome q"
        using resolved_other [OF X D at fresh c found] by simp
      with left found have "recovered E X D (gw_session ?cand) ?cand ?cand (Inr (cr_safe_outcome q)) r sv'"
        and held: "save_of E X V sv' (log @ [(q, p)]) ?cand"
        by auto
      then consider "r = Inr (cr_safe_outcome q)" "sv_world sv' = ?cand"
        | "\<exists>e. r = Inl e" "sv_world sv' = ?cand" "\<not> loads X D sv'"
        using restored_own [OF cand(1)] by (auto simp: recovered_def)
      then show ?thesis
      proof cases
        case 1
        then have "left_applied E X V log c changes ?cand r sv'"
          using Inr held by (auto simp: left_applied_def serves_def)
        then show ?thesis
          by (simp add: command_left_def)
      next
        case 2
        then have "left_uncertain E X D V sv log c changes ?cand r sv'"
          using Inr held written fails by (auto simp: left_uncertain_def)
        then show ?thesis
          by (simp add: command_left_def)
      qed
    next
      case False
      then have "\<not> resolves X D c ?at"
        using resolved_other [OF X D at fresh c]
        by (cases "resolve_action X D c (sv_store ?at)") (auto simp: resolves_def is_ok_iff)
      with left False have "left_uncertain E X D V sv log c changes ?cand r sv'"
        using Inr written fails recovered_Inl [of E X D "gw_session ?w" ?cand ?cand]
        by (fastforce simp: left_uncertain_def)
      then show ?thesis
        by (simp add: command_left_def)
    qed
  next
    case unwritten
    have at: "save_of E X V ?at log ?w"
      using unwritten leaves sound config h by (auto simp: save_of_def)
    have "save_of E X V sv' log ?w \<and> (\<exists>e. recovered E X D (gw_session ?w) ?w ?cand (Inl e) r sv')"
    proof (cases res)
      case (Inl e)
      note left = after_error_left [OF X D defs at error [OF Inl]]
      have "fst (resolve_action X D c (sv_store ?at)) \<noteq> Inr (ResolvedCommitted out)" for out
        using resolved [OF X D at, of c out] fresh
        by (cases "resolve_action X D c (sv_store ?at)") (auto simp: fresh_action_def)
      with left show ?thesis
        by auto
    next
      case a: (Inr answer)
      then have "\<exists>e. recover_then E X D (gw_session ?w) (Inl e) ?at = (r, sv')"
        using run unwritten(1) fresh c
        by (cases answer) (auto simp: commit_changes_def Let_def Inr commit commit_answer_def fresh_action_def)
      then obtain e where "recover_then E X D (gw_session ?w) (Inl e) ?at = (r, sv')" ..
      from recover_save [OF X D defs at this] show ?thesis
        by auto
    qed
    then obtain e where held: "save_of E X V sv' log ?w" and "recovered E X D (gw_session ?w) ?w ?cand (Inl e) r sv'"
      by blast
    from recovered_served [OF sound this(2)] held have "left_unapplied E X D V sv log c changes ?cand r sv'"
      by (auto simp: left_unapplied_def)
    then show ?thesis
      by (simp add: command_left_def)
  next
    case (others more v)
    have at: "save_of E X V ?at (log @ more) v"
      using others leaves config by (auto simp: save_of_def)
    have "left_to_others E X D V sv log c ?cand r sv'"
    proof (cases "\<exists>e. res = Inl e")
      case True
      then obtain e where e: "res = Inl e" ..
      note left = after_error_left [OF X D defs at error [OF e]]
      show ?thesis
      proof (cases "\<exists>out. fst (resolve_action X D c (sv_store ?at)) = Inr (ResolvedCommitted out)")
        case True
        then obtain out st' where found: "resolve_action X D c (sv_store ?at) = (Inr (ResolvedCommitted out), st')"
          by (metis fst_conv surj_pair)
        from resolved [OF X D at found] fresh have "\<exists>(q, _)\<in>set more. wc_action_id (cr_command q) = wc_action_id c
            \<and> request_digest X (cr_command q) = request_digest X c \<and> out = cr_safe_outcome q"
          by (auto simp: fresh_action_def)
        with left found others(1) fails show ?thesis
          unfolding left_to_others_def by fastforce
      next
        case False
        with left others(1) fails recovered_Inl [of E X D "gw_session ?w" v ?cand] show ?thesis
          unfolding left_to_others_def by fastforce
      qed
    next
      case False
      with others(2) conflict obtain e where "recover_then E X D (gw_session ?w) (Inl e) ?at = (r, sv')"
        by blast
      from recover_save [OF X D defs at this] others(1) fails recovered_Inl [of E X D "gw_session ?w" v ?cand]
      show ?thesis
        unfolding left_to_others_def by fastforce
    qed
    then show ?thesis
      by (simp add: command_left_def)
  qed
qed

text \<open>A service is opened on the world of its save.\<close>

lemma serves_created:
  assumes X: "store_lib_ok X" and D: "db_ok D V" and L: "env_uuid E = sto_uuid X"
    and sound: "world_sound E w" and zero: "gw_revision w = Revision 0"
    and create: "store_create X D b m records = Inr st" and records: "project_records E w = Inr records"
  shows "serves E X V \<lparr>sv_world = w, sv_store = st, sv_config = gw_config w, sv_events = []\<rparr> []"
proof -
  have "world_ok w"
    using sound by (simp add: world_sound_def)
  from holds_world_created [OF X D this L create records zero] sound show ?thesis
    by (auto simp: serves_def save_of_def)
qed

end
