(* ===== verification/Service_Properties.thy ===== *)
theory Service_Properties
  imports Service_Durable Durable_Properties
begin

text \<open>
  The properties of the runtime's world service and of the contexts it gives the models, with
  their witnesses on the world of \<open>World_Example\<close> and its save.
\<close>

section \<open>The service and its save\<close>







section \<open>What a model is shown\<close>

text \<open>C29. The transcript that is projected for a model is the longest end of the transcript within the
  limits on items and bytes of the policy, and it is marked truncated exactly when something was
  cut off.\<close>

theorem projected_transcript_is_the_longest:
  assumes "project_transcript p xs = (b, ys)"
  shows "suffix ys xs
    \<and> length ys \<le> unat (cpp_transcript_items p) \<and> sum_list (map item_bytes ys) \<le> unat (cpp_transcript_bytes p)
    \<and> (b \<longleftrightarrow> ys \<noteq> xs)
    \<and> (\<forall>zs. suffix zs xs \<and> length zs \<le> unat (cpp_transcript_items p)
          \<and> sum_list (map item_bytes zs) \<le> unat (cpp_transcript_bytes p) \<longrightarrow> suffix zs ys)"
  using project_transcript_longest [OF assms] by (simp add: fits_def)

definition demo_lines :: "transcript_item_record list" where
  "demo_lines = map (\<lambda>n. \<lparr>tr_audience = PlayerAudience, tr_source_id = None, tr_id = RuntimeId n,
     tr_session_id = RuntimeId 1, tr_revision = None, tr_speaker = NarratorSpeaker,
     tr_text = BoundedText ''hello'', tr_state = Committed, tr_supporting_events = []\<rparr>) [1, 2, 3]"

theorem projected_transcript_is_the_longest_witness:
  "\<exists>ys. project_transcript (context_projection_policy_default\<lparr>cpp_transcript_bytes := 12\<rparr>) demo_lines = (True, ys)
    \<and> ys = drop 1 demo_lines \<and> sum_list (map item_bytes ys) \<le> 12"
proof -
  let ?p = "context_projection_policy_default\<lparr>cpp_transcript_bytes := 12\<rparr>"
  have run: "project_transcript ?p demo_lines = (True, drop 1 demo_lines)"
    by (simp add: project_transcript_def context_projection_policy_default_def demo_lines_def item_bytes_def)
  from projected_transcript_is_the_longest [OF this] show ?thesis
    using run by simp
qed

end
