(* ===== verification/World_Contexts.thy ===== *)
theory World_Contexts
  imports World_Service
begin

text \<open>
  What the world service shows of its world (\<open>world_service.rs\<close> of the runtime crate, second part):
  the contexts of a character and of its scene, the active events with the options they offer, the
  parameters, the transcripts, and from these the snapshot for the interface, the observation for
  the narrator and the context for a character's agent; then the reading tools of the agents, with
  the object they return as a \<open>record\<close> of its members.

  Everything is computed from the projected records and the registry of the environment.
  \<open>Fixed::clamp\<close> panics on an empty range, which the registry excludes for attributes;
  \<open>fixed_clamp\<close> then gives the lower bound.
\<close>

section \<open>Records and definitions\<close>

text \<open>An iterator filtered to the records of one kind, and the first of them that satisfies a guard.\<close>

abbreviation of_kind :: "(domain_record \<Rightarrow> 'a option) \<Rightarrow> domain_record list \<Rightarrow> 'a list" where
  "of_kind f records \<equiv> List.map_filter f records"

definition first_of :: "(domain_record \<Rightarrow> 'a option) \<Rightarrow> ('a \<Rightarrow> bool) \<Rightarrow> domain_record list
    \<Rightarrow> runtime_error + 'a" where
  "first_of f P records = ok_or Unavailable (find P (of_kind f records))"

fun as_world_state :: "domain_record \<Rightarrow> world_state_record option" where
  "as_world_state (WorldStateRec r) = Some r"
| "as_world_state _ = None"

fun as_known_fact :: "domain_record \<Rightarrow> known_fact_record option" where
  "as_known_fact (KnownFactRec r) = Some r"
| "as_known_fact _ = None"

fun as_goal :: "domain_record \<Rightarrow> goal_record option" where
  "as_goal (GoalRec r) = Some r"
| "as_goal _ = None"

fun as_transcript :: "domain_record \<Rightarrow> transcript_item_record option" where
  "as_transcript (TranscriptItemRec r) = Some r"
| "as_transcript _ = None"

definition registered_of :: "env \<Rightarrow> content_definition_id \<Rightarrow> runtime_error + content_definition" where
  "registered_of E i = ok_or Unavailable (map_option reg_definition (registry_get (env_registry E) i))"

text \<open>A definition that must be of one kind.\<close>

definition need :: "env \<Rightarrow> content_definition_id \<Rightarrow> (content_definition \<Rightarrow> 'a option) \<Rightarrow> runtime_error + 'a" where
  "need E i f = rbind (registered_of E i) (\<lambda>d. ok_or Unavailable (f d))"

fun as_item_def :: "content_definition \<Rightarrow> item_definition option" where
  "as_item_def (ItemDef d) = Some d"
| "as_item_def _ = None"

fun as_condition_def :: "content_definition \<Rightarrow> condition_definition option" where
  "as_condition_def (ConditionDef d) = Some d"
| "as_condition_def _ = None"

fun as_attribute_def :: "content_definition \<Rightarrow> attribute_definition option" where
  "as_attribute_def (AttributeDef d) = Some d"
| "as_attribute_def _ = None"

fun as_resource_def :: "content_definition \<Rightarrow> resource_definition option" where
  "as_resource_def (ResourceDef d) = Some d"
| "as_resource_def _ = None"

fun as_skill_def :: "content_definition \<Rightarrow> skill_definition option" where
  "as_skill_def (SkillDef d) = Some d"
| "as_skill_def _ = None"

fun as_event_def :: "content_definition \<Rightarrow> event_definition option" where
  "as_event_def (EventDef d) = Some d"
| "as_event_def _ = None"

fun as_tag_def :: "content_definition \<Rightarrow> tag_definition option" where
  "as_tag_def (TagDef d) = Some d"
| "as_tag_def _ = None"

section \<open>Attributes\<close>

definition modifier_adjustment :: "object_id \<Rightarrow> modifier_definition \<Rightarrow> attribute_adjustment" where
  "modifier_adjustment source m =
     \<lparr>aa_source_id = source, aa_attribute_id = md_attribute_id m, aa_operation = md_operation m,
      aa_value = md_value m, aa_priority = md_priority m\<rparr>"

definition worn_by :: "actor_id \<Rightarrow> item_record \<Rightarrow> bool" where
  "worn_by actor i \<longleftrightarrow> (case it_equipped i of Some e \<Rightarrow> eq_wearer_id e = actor | None \<Rightarrow> False)"

fun record_adjustments :: "env \<Rightarrow> actor_id \<Rightarrow> domain_record \<Rightarrow> runtime_error + attribute_adjustment list" where
  "record_adjustments E actor (ItemRec i) =
     (if worn_by actor i
      then rbind (need E (it_definition_id i) as_item_def) (\<lambda>d.
             Inr (it_instance_adjustments i @ map (modifier_adjustment (it_id i)) (itd_modifiers d)))
      else Inr [])"
| "record_adjustments E actor (ConditionRec c) =
     (if cond_target_id c = actor
      then rbind (need E (cond_condition_id c) as_condition_def) (\<lambda>d.
             Inr (map (modifier_adjustment (cond_id c)) (cd_modifiers d)))
      else Inr [])"
| "record_adjustments E actor _ = Inr []"

fun operation_order :: "attribute_operation \<Rightarrow> nat" where
  "operation_order Flat = 0"
| "operation_order Multiply = 1"
| "operation_order Override = 2"
| "operation_order ClampMinimum = 3"
| "operation_order ClampMaximum = 4"

definition adjustment_rank :: "attribute_adjustment \<Rightarrow> nat \<times> int \<times> object_id" where
  "adjustment_rank a = (operation_order (aa_operation a), sint (aa_priority a), aa_source_id a)"

definition adjustments_of :: "env \<Rightarrow> domain_record list \<Rightarrow> character_record
    \<Rightarrow> runtime_error + attribute_adjustment list" where
  "adjustments_of E records ch =
     rbind (rmapM (record_adjustments E (ch_id ch)) records) (\<lambda>found.
       Inr (sort_key adjustment_rank (ch_attribute_adjustments ch @ concat found)))"

definition adjust :: "attribute_definition \<Rightarrow> fixed \<Rightarrow> attribute_adjustment \<Rightarrow> runtime_error + fixed" where
  "adjust d effective a =
     (if aa_operation a \<notin> set (atd_allowed_operations d) then Inl Unavailable
      else map_err (\<lambda>e. RuntimeWorld (WorldFixed e))
        (case aa_operation a of
           Flat \<Rightarrow> fixed_add effective (aa_value a)
         | Multiply \<Rightarrow> fixed_mul effective (aa_value a)
         | Override \<Rightarrow> Inr (aa_value a)
         | ClampMinimum \<Rightarrow> Inr (max effective (aa_value a))
         | ClampMaximum \<Rightarrow> Inr (min effective (aa_value a))))"

definition attribute_view_of :: "env \<Rightarrow> attribute_adjustment list \<Rightarrow> content_definition_id \<times> fixed
    \<Rightarrow> runtime_error + attribute_view" where
  "attribute_view_of E adjustments = (\<lambda>(i, base).
     rbind (need E i as_attribute_def) (\<lambda>d.
     rbind (rfold (adjust d) base (filter (\<lambda>a. aa_attribute_id a = i) adjustments)) (\<lambda>effective.
       Inr \<lparr>av_attribute_id = i, av_display_name = atd_display_name d, av_base = base,
            av_effective = fixed_clamp effective (atd_minimum d) (atd_maximum d)\<rparr>)))"

definition attribute_views :: "env \<Rightarrow> domain_record list \<Rightarrow> character_record
    \<Rightarrow> runtime_error + attribute_view list" where
  "attribute_views E records ch =
     rbind (adjustments_of E records ch) (\<lambda>adjustments.
     rbind (rmapM (attribute_view_of E adjustments) (ch_base_attributes ch)) (\<lambda>views.
       if list_ex (\<lambda>a. bt_get (aa_attribute_id a) (ch_base_attributes ch) = None) adjustments
       then Inl Unavailable else Inr views))"

section \<open>The context of a character\<close>

definition resource_view_of :: "env \<Rightarrow> attribute_view list \<Rightarrow> resource_pool \<Rightarrow> runtime_error + resource_view" where
  "resource_view_of E attributes pool =
     rbind (need E (rp_resource_id pool) as_resource_def) (\<lambda>d.
       let derived = Option.bind (rsd_derived_from_attribute d) (\<lambda>i.
             map_option av_effective (find (\<lambda>a. av_attribute_id a = i) attributes))
       in Inr \<lparr>rv_resource_id = rp_resource_id pool, rv_display_name = rsd_display_name d,
               rv_current = rp_current pool,
               rv_maximum = (case derived of Some m \<Rightarrow> m | None \<Rightarrow> rp_base_maximum pool)\<rparr>)"

definition inventory_view_of :: "env \<Rightarrow> item_record \<Rightarrow> runtime_error + inventory_view" where
  "inventory_view_of E i =
     rbind (need E (it_definition_id i) as_item_def) (\<lambda>d.
       Inr \<lparr>iv_item = i, iv_display_name = itd_display_name d\<rparr>)"

definition ready :: "world_time \<Rightarrow> skill_grant_record \<Rightarrow> bool" where
  "ready clock g \<longleftrightarrow> (case sg_ready_at g of None \<Rightarrow> True | Some at \<Rightarrow> at \<le> clock)"

definition skill_view_of :: "env \<Rightarrow> world_time \<Rightarrow> skill_grant_record \<Rightarrow> runtime_error + skill_view" where
  "skill_view_of E clock g =
     rbind (need E (sg_skill_id g) as_skill_def) (\<lambda>d.
       Inr \<lparr>skv_grant = g, skv_display_name = skd_display_name d,
            skv_available = (sg_enabled g \<and> ready clock g)\<rparr>)"

text \<open>A condition is named to an observer who has confirmed the diagnosis.\<close>

definition diagnosis :: "actor_id \<Rightarrow> condition_record \<Rightarrow> content_definition_id \<Rightarrow> known_fact_record \<Rightarrow> bool" where
  "diagnosis observer c predicate_id f \<longleftrightarrow>
     kf_owner_id f = observer \<and> kf_subject f = ObjectSubject (object_id_of (cond_target_id c))
     \<and> kf_predicate_id f = predicate_id \<and> kf_value f = FTag (cond_condition_id c)
     \<and> kf_status f = Confirmed"

definition condition_is_diagnosed :: "env \<Rightarrow> domain_record list \<Rightarrow> actor_id \<Rightarrow> condition_record
    \<Rightarrow> runtime_error + bool" where
  "condition_is_diagnosed E records observer c =
     rbind (map_err (\<lambda>_. Unavailable) (content_id_parse DIAGNOSED_CONDITION_PREDICATE_ID)) (\<lambda>predicate_id.
       let diagnosed = list_ex (diagnosis observer c predicate_id) (of_kind as_known_fact records)
       in if diagnosed then rbind (need E predicate_id as_tag_def) (\<lambda>_. Inr True) else Inr False)"

definition condition_view_of :: "env \<Rightarrow> domain_record list \<Rightarrow> actor_id \<Rightarrow> condition_record
    \<Rightarrow> runtime_error + condition_view" where
  "condition_view_of E records observer c =
     rbind (need E (cond_condition_id c) as_condition_def) (\<lambda>d.
     rbind (condition_is_diagnosed E records observer c) (\<lambda>diagnosed.
       Inr \<lparr>cv_condition = c,
            cv_display_name = (if diagnosed then Some (cd_display_name d) else None),
            cv_symptoms = map sym_text
              (filter (\<lambda>s. sym_minimum_intensity s \<le> cond_intensity c) (cd_symptoms d))\<rparr>))"

definition character_context_of :: "env \<Rightarrow> domain_record list \<Rightarrow> actor_id \<Rightarrow> revision
    \<Rightarrow> runtime_error + character_context" where
  "character_context_of E records actor at_rev =
     rbind (first_of as_character (\<lambda>ch. ch_id ch = actor) records) (\<lambda>ch.
     rbind (first_of as_world_state (\<lambda>_. True) records) (\<lambda>state.
     rbind (attribute_views E records ch) (\<lambda>attributes.
     rbind (rmapM (resource_view_of E attributes) (bt_values (ch_resources ch))) (\<lambda>resources.
     rbind (rmapM (inventory_view_of E)
         (filter (\<lambda>i. it_owned_by i = Some actor) (of_kind as_item records))) (\<lambda>inventory.
     rbind (rmapM (skill_view_of E (ws_clock state))
         (filter (\<lambda>g. sg_owner_id g = actor) (of_kind as_skill_grant records))) (\<lambda>skills.
     rbind (rmapM (condition_view_of E records actor)
         (filter (\<lambda>c. cond_target_id c = actor) (of_kind as_condition records))) (\<lambda>conditions.
       Inr \<lparr>cc_actor_id = actor, cc_revision = at_rev, cc_display_name = ch_display_name ch,
            cc_profile = ch_profile ch,
            cc_appearance = map_option (\<lambda>a. \<lparr>apv_revision = at_rev, apv_model_id = cap_model_id a,
              apv_parameters = cap_parameters a\<rparr>) (ch_appearance ch),
            cc_location_id = ch_location ch, cc_attributes = attributes,
            cc_resources = sort_key rv_resource_id resources,
            cc_conditions = sort_key (\<lambda>v. cond_id (cv_condition v)) conditions,
            cc_inventory = sort_key (\<lambda>v. it_id (iv_item v)) inventory,
            cc_skills = sort_key (\<lambda>v. sg_id (skv_grant v)) skills,
            cc_known_facts = sort_key kf_id
              (filter (\<lambda>f. kf_owner_id f = actor \<and> kf_status f \<noteq> Forgotten) (of_kind as_known_fact records)),
            cc_goals = sort_key goal_id
              (filter (\<lambda>g. goal_owner_id g = actor) (of_kind as_goal records)),
            cc_life_state = ch_life_state ch, cc_action_state = ch_action_state ch,
            cc_posture = ch_posture ch\<rparr>)))))))"

section \<open>The context of a scene\<close>

definition tail_of :: "nat \<Rightarrow> 'a list \<Rightarrow> 'a list" where
  "tail_of limit xs = (if length xs > limit then drop (length xs - limit) xs else xs)"

definition CONTEXT_EVENT_LIMIT :: nat where
  "CONTEXT_EVENT_LIMIT = 64"

definition CONTEXT_TRANSCRIPT_SOURCE_LIMIT :: nat where
  "CONTEXT_TRANSCRIPT_SOURCE_LIMIT = 256"

definition UI_TRANSCRIPT_LIMIT :: nat where
  "UI_TRANSCRIPT_LIMIT = 64"

definition npc_turn_available :: "env \<Rightarrow> character_record \<Rightarrow> bool" where
  "npc_turn_available E ch \<longleftrightarrow>
     (case enabled_binding ch of
        Some b \<Rightarrow> registered_profile E (ab_profile_id b) \<noteq> None
      | None \<Rightarrow> False)"

definition visible_actor :: "env \<Rightarrow> character_record \<Rightarrow> visible_actor_view" where
  "visible_actor E other =
     \<lparr>va_actor_id = ch_id other, va_display_name = ch_display_name other,
      va_controller = ch_controller other, va_npc_turn_available = npc_turn_available E other,
      va_life_state = ch_life_state other, va_action_state = ch_action_state other,
      va_posture = ch_posture other\<rparr>"

definition adjacent_place :: "domain_record list \<Rightarrow> object_id \<Rightarrow> runtime_error + adjacent_place_view" where
  "adjacent_place records i =
     rbind (first_of as_place (\<lambda>p. place_rec_id p = i) records) (\<lambda>p.
       Inr \<lparr>adj_place_id = place_rec_id p, adj_display_name = place_display_name p,
            adj_description = place_description p\<rparr>)"

definition scene_context_of :: "env \<Rightarrow> domain_record list \<Rightarrow> world_event list \<Rightarrow> actor_id \<Rightarrow> revision
    \<Rightarrow> runtime_error + scene_context" where
  "scene_context_of E records events actor at_rev =
     rbind (first_of as_character (\<lambda>ch. ch_id ch = actor) records) (\<lambda>ch.
     rbind (first_of as_place (\<lambda>p. place_rec_id p = ch_location ch) records) (\<lambda>p.
     rbind (first_of as_scene (\<lambda>s. scene_rec_id s = place_scene_id p) records) (\<lambda>s.
     rbind (first_of as_world_state (\<lambda>_. True) records) (\<lambda>state.
     rbind (rmapM (adjacent_place records) (place_edges p)) (\<lambda>adjacent.
       Inr \<lparr>scx_scene_id = scene_rec_id s, scx_revision = at_rev,
            scx_display_name = scene_display_name s, scx_framing = scene_framing s,
            scx_place_id = place_rec_id p, scx_place_name = place_display_name p,
            scx_adjacent_places = sort_key adj_place_id adjacent, scx_clock = ws_clock state,
            scx_visible_actors = sort_key (\<lambda>v. object_id_of (va_actor_id v)) (map (visible_actor E)
              (filter (\<lambda>other. ch_location other = ch_location ch) (of_kind as_character records))),
            scx_recent_events = tail_of CONTEXT_EVENT_LIMIT events\<rparr>)))))"

section \<open>Parameters\<close>

definition parameter_value_view_of :: "env \<Rightarrow> content_definition_id \<times> parameter_value
    \<Rightarrow> parameter_value_view option" where
  "parameter_value_view_of E = (\<lambda>(i, v).
     case registry_get (env_registry E) i of
       None \<Rightarrow> None
     | Some e \<Rightarrow>
         (case reg_definition e of
            ParameterDef d \<Rightarrow>
              if pd_visibility d = Public
              then Some \<lparr>pv_parameter_id = i, pv_display_name = pd_display_name d, pv_value = v\<rparr>
              else None
          | _ \<Rightarrow> None))"

definition in_pack :: "env \<Rightarrow> content_definition_id \<Rightarrow> content_definition_id \<Rightarrow> bool" where
  "in_pack E pack i \<longleftrightarrow>
     (case registry_get (env_registry E) i of
        Some e \<Rightarrow> co_pack_id (reg_origin e) = pack
      | None \<Rightarrow> False)"

definition parameter_views :: "env \<Rightarrow> session_parameters \<Rightarrow> domain_record list \<Rightarrow> parameter_set_view list" where
  "parameter_views E session records =
     sort_key psv_set_id (map (\<lambda>set.
       \<lparr>psv_set_id = ps_id set, psv_schema_id = ps_schema_id set,
        psv_values = sort_key pv_parameter_id (List.map_filter (parameter_value_view_of E)
          (ps_values set @ filter (\<lambda>(i, _). in_pack E (ps_schema_id set) i) session))\<rparr>)
       (of_kind as_parameter_set records))"

section \<open>Active events\<close>

fun predicate_matches :: "character_record \<Rightarrow> place_record \<Rightarrow> domain_record list \<Rightarrow> predicate_definition \<Rightarrow> bool" where
  "predicate_matches ch p records (ResourceAtLeast i amount) =
     (case bt_get i (ch_resources ch) of Some pool \<Rightarrow> rp_current pool \<ge> amount | None \<Rightarrow> False)"
| "predicate_matches ch p records (HasCondition i) =
     list_ex (\<lambda>c. cond_target_id c = ch_id ch \<and> cond_condition_id c = i) (of_kind as_condition records)"
| "predicate_matches ch p records (HasTag i) =
     (bs_contains i (cp_narrative_tags (ch_profile ch)) \<or> bs_contains i (place_tags p))"
| "predicate_matches ch p records (PredNot q) = (\<not> predicate_matches ch p records q)"
| "predicate_matches ch p records (PredAll qs) = list_all (predicate_matches ch p records) qs"
| "predicate_matches ch p records (PredAny qs) = list_ex (predicate_matches ch p records) qs"

definition predicates_match :: "character_record \<Rightarrow> place_record \<Rightarrow> domain_record list
    \<Rightarrow> predicate_definition list \<Rightarrow> bool" where
  "predicates_match ch p records qs = list_all (predicate_matches ch p records) qs"

definition event_option_views :: "character_record \<Rightarrow> place_record \<Rightarrow> domain_record list
    \<Rightarrow> event_option_definition list \<Rightarrow> event_option_view list" where
  "event_option_views ch p records options =
     sort_key eov_option_id (map (\<lambda>o1.
       \<lparr>eov_option_id = eo_id o1, eov_display_name = eo_display_name o1,
        eov_enabled = predicates_match ch p records (eo_enabled_if o1)\<rparr>)
       (filter (\<lambda>o1. predicates_match ch p records (eo_visible_if o1)) options))"

definition active_event_view_of :: "env \<Rightarrow> character_record \<Rightarrow> place_record \<Rightarrow> domain_record list
    \<Rightarrow> event_instance_record \<Rightarrow> runtime_error + active_event_view" where
  "active_event_view_of E ch p records e =
     rbind (need E (ei_definition_id e) as_event_def) (\<lambda>d.
     rbind (ok_or Unavailable (find (\<lambda>n. en_id n = ei_current_node e) (ed_nodes d))) (\<lambda>node.
       Inr \<lparr>aev_event_id = ei_id e, aev_definition_id = ei_definition_id e,
            aev_display_name = ed_display_name d, aev_current_node = ei_current_node e,
            aev_node_text = en_text node,
            aev_options = event_option_views ch p records (en_options node)\<rparr>))"

definition event_in_scene :: "object_id \<Rightarrow> event_instance_record \<Rightarrow> bool" where
  "event_in_scene scene_id e \<longleftrightarrow> ei_status e = EventActive
     \<and> (case ei_scene_id e of None \<Rightarrow> True | Some i \<Rightarrow> i = scene_id)"

definition active_event_views :: "env \<Rightarrow> domain_record list \<Rightarrow> actor_id \<Rightarrow> runtime_error + active_event_view list" where
  "active_event_views E records actor =
     rbind (first_of as_character (\<lambda>ch. ch_id ch = actor) records) (\<lambda>ch.
     rbind (first_of as_place (\<lambda>p. place_rec_id p = ch_location ch) records) (\<lambda>p.
     rbind (rmapM (active_event_view_of E ch p records)
         (filter (event_in_scene (place_scene_id p)) (of_kind as_event_instance records))) (\<lambda>views.
       Inr (sort_key aev_event_id views))))"

section \<open>Transcripts and packages\<close>

text \<open>\<open>Option<Revision>\<close> orders \<open>None\<close> first.\<close>

definition transcript_rank :: "transcript_item_record \<Rightarrow> nat \<times> transcript_item_id" where
  "transcript_rank t =
     ((case tr_revision t of None \<Rightarrow> 0 | Some r \<Rightarrow> Suc (unat (revision_get r))), tr_id t)"

definition audience_records :: "transcript_audience \<Rightarrow> domain_record list \<Rightarrow> transcript_item_record list" where
  "audience_records audience records =
     sort_key transcript_rank (filter (\<lambda>t. tr_audience t = audience) (of_kind as_transcript records))"

definition transcript_records :: "domain_record list \<Rightarrow> transcript_item_record list" where
  "transcript_records records = audience_records PlayerAudience records"

definition npc_transcript_records :: "domain_record list \<Rightarrow> actor_id \<Rightarrow> transcript_item_record list" where
  "npc_transcript_records records actor = audience_records (NpcAudience actor) records"

definition transcript_window_of :: "domain_record list \<Rightarrow> nat \<Rightarrow> transcript_window" where
  "transcript_window_of records limit =
     (let items = transcript_records records; start = length items - limit
      in \<lparr>tw_items = drop start items,
          tw_before_cursor = (if start > 0 then Some (tr_id (items ! start)) else None)\<rparr>)"

text \<open>The order of versions is that of the \<open>semver\<close> crate, here through a \<open>version_key\<close>.\<close>

definition package_catalog :: "(version \<Rightarrow> 'k::linorder) \<Rightarrow> save_manifest \<Rightarrow> package_catalog_view" where
  "package_catalog version_key m =
     \<lparr>pcat_world = \<lparr>wpv_world_id = wl_world_id (sm_world_lock m), wpv_version = wl_version (sm_world_lock m)\<rparr>,
      pcat_mods = sort_key (\<lambda>v. (mpv_mod_id v, version_key (mpv_version v))) (map (\<lambda>locked.
        \<lparr>mpv_mod_id = lm_mod_id locked, mpv_version = lm_version locked, mpv_status = PackageEnabled,
         mpv_dependency_count = of_nat (min (length (lm_dependencies locked)) (2 ^ 32 - 1)),
         mpv_content = package_content_view_default\<rparr>) (sm_mod_lock m)),
      pcat_unavailable_installed = 0\<rparr>"

section \<open>Snapshots, observations and contexts\<close>

definition can_submit :: "runtime_phase \<Rightarrow> bool" where
  "can_submit phase \<longleftrightarrow> phase \<in> {PhaseIdle, PhaseCompleted}"

definition can_cancel :: "runtime_phase \<Rightarrow> bool" where
  "can_cancel phase \<longleftrightarrow> phase \<notin> {PhaseIdle, PhaseCompleted, PhaseCancelled, PhaseFailed}"

definition snapshot :: "env \<Rightarrow> (version \<Rightarrow> 'k::linorder) \<Rightarrow> session_id \<Rightarrow> runtime_phase
    \<Rightarrow> tool_activity list \<Rightarrow> ui_notice list \<Rightarrow> event_id list \<Rightarrow> 'd world_service
    \<Rightarrow> runtime_error + ui_snapshot" where
  "snapshot E version_key session_id phase activity notices supporting sv =
     (let w = sv_world sv; at_rev = gw_revision w; player = player_actor sv
      in rbind (projected E sv) (\<lambda>records.
         rbind (character_context_of E records player at_rev) (\<lambda>cc.
         rbind (scene_context_of E records (sv_events sv) player at_rev) (\<lambda>sc.
         rbind (active_event_views E records player) (\<lambda>events.
           Inr \<lparr>us_revision = at_rev, us_session_id = session_id, us_player = cc, us_scene = sc,
                us_parameters = parameter_views E (gw_session w) records, us_active_events = events,
                us_packages = package_catalog version_key (ss_manifest (sv_store sv)),
                us_transcript = transcript_window_of records UI_TRANSCRIPT_LIMIT,
                us_tool_activity = activity, us_phase = phase, us_can_submit = can_submit phase,
                us_can_cancel = can_cancel phase, us_waiting = can_cancel phase,
                us_notices = notices, us_supporting_events = supporting\<rparr>)))))"

definition observation :: "env \<Rightarrow> session_id \<Rightarrow> long_text \<Rightarrow> 'd world_service
    \<Rightarrow> runtime_error + scene_observation" where
  "observation E session_id input sv =
     (let at_rev = gw_revision (sv_world sv); player = player_actor sv
      in rbind (projected E sv) (\<lambda>records.
         rbind (character_context_of E records player at_rev) (\<lambda>cc.
         rbind (scene_context_of E records (sv_events sv) player at_rev) (\<lambda>sc.
           let transcript = transcript_records records
           in Inr \<lparr>so_revision = at_rev, so_session_id = session_id, so_player = cc, so_scene = sc,
                   so_recent_transcript = tail_of CONTEXT_TRANSCRIPT_SOURCE_LIMIT transcript,
                   so_player_input = input,
                   so_truncated = (length transcript > CONTEXT_TRANSCRIPT_SOURCE_LIMIT)\<rparr>))))"

definition npc_context :: "env \<Rightarrow> actor_id \<Rightarrow> object_id \<Rightarrow> 'd world_service
    \<Rightarrow> runtime_error + character_context \<times> scene_context \<times> transcript_item_record list" where
  "npc_context E actor scene_id sv =
     (let at_rev = gw_revision (sv_world sv)
      in rbind (projected E sv) (\<lambda>records.
         rbind (character_context_of E records actor at_rev) (\<lambda>cc.
         rbind (scene_context_of E records [] actor at_rev) (\<lambda>sc.
         rbind (reject_if (scx_scene_id sc \<noteq> scene_id) Unavailable) (\<lambda>_.
           Inr (cc, sc, tail_of CONTEXT_TRANSCRIPT_SOURCE_LIMIT (npc_transcript_records records actor)))))))"

section \<open>Reading tools\<close>

definition inspect_character :: "env \<Rightarrow> actor_id \<Rightarrow> revision \<Rightarrow> 'd world_service
    \<Rightarrow> runtime_error + character_context" where
  "inspect_character E actor expected sv =
     rbind (require_revision expected sv) (\<lambda>_.
     rbind (projected E sv) (\<lambda>records. character_context_of E records actor expected))"

text \<open>A page of a list ordered by identifier: what follows the cursor, at most \<open>limit\<close> of it, and
  the cursor of the next page if there is more.\<close>

definition page_after :: "('a \<Rightarrow> object_id) \<Rightarrow> object_id option \<Rightarrow> nat \<Rightarrow> 'a list
    \<Rightarrow> 'a list \<times> object_id option" where
  "page_after f after limit xs =
     (let rest = sort_key f (filter (\<lambda>x. case after of None \<Rightarrow> True | Some cursor \<Rightarrow> f x > cursor) xs);
          page = take limit rest
      in (page, if length rest > limit \<and> page \<noteq> [] then Some (f (last page)) else None))"

record item_summary =
  is_item_id :: object_id
  is_definition_id :: content_definition_id
  is_display_name :: display_name
  is_custom_name :: "display_name option"
  is_quantity :: u32
  is_durability :: "durability option"
  is_contained_by :: "object_id option"
  is_equipped :: "equipped_state option"
  is_container_item :: bool

definition item_summary_of :: "env \<Rightarrow> item_record \<Rightarrow> runtime_error + item_summary" where
  "item_summary_of E i =
     rbind (need E (it_definition_id i) as_item_def) (\<lambda>d.
       Inr \<lparr>is_item_id = it_id i, is_definition_id = it_definition_id i,
            is_display_name = itd_display_name d, is_custom_name = it_custom_name i,
            is_quantity = stack_count (it_stack i), is_durability = it_durability i,
            is_contained_by = it_contained_by i, is_equipped = it_equipped i,
            is_container_item = (it_container i \<noteq> None)\<rparr>)"

record 'a tool_page =
  tp_revision :: revision
  tp_members :: "'a list"
  tp_next_after :: "object_id option"

definition list_inventory :: "env \<Rightarrow> agent_tool_context \<Rightarrow> object_id option \<Rightarrow> nat \<Rightarrow> 'd world_service
    \<Rightarrow> runtime_error + item_summary tool_page" where
  "list_inventory E ctx after limit sv =
     rbind (require_revision (atc_revision ctx) sv) (\<lambda>_.
     rbind (reject_if (character (sv_world sv) (atc_actor_id ctx) = None) Unavailable) (\<lambda>_.
     rbind (projected E sv) (\<lambda>records.
       let (page, next_after) = page_after it_id after limit
             (filter (\<lambda>i. it_owned_by i = Some (atc_actor_id ctx)) (of_kind as_item records))
       in rbind (rmapM (item_summary_of E) page) (\<lambda>summaries.
            Inr \<lparr>tp_revision = atc_revision ctx, tp_members = summaries, tp_next_after = next_after\<rparr>))))"

definition inspect_item :: "env \<Rightarrow> agent_tool_context \<Rightarrow> object_id \<Rightarrow> 'd world_service
    \<Rightarrow> runtime_error + item_record \<times> item_definition" where
  "inspect_item E ctx i sv =
     rbind (require_revision (atc_revision ctx) sv) (\<lambda>_.
     rbind (ok_or Unavailable (item (sv_world sv) i)) (\<lambda>found.
     rbind (reject_if (it_owned_by found \<noteq> Some (atc_actor_id ctx)) Unavailable) (\<lambda>_.
     rbind (need E (it_definition_id found) as_item_def) (\<lambda>d. Inr (found, d)))))"

definition skill_is_available :: "character_record \<Rightarrow> skill_grant_record \<Rightarrow> skill_definition \<Rightarrow> world_time \<Rightarrow> bool" where
  "skill_is_available ch g skill clock \<longleftrightarrow>
     sg_enabled g \<and> skd_kind skill = ActiveSkill \<and> ready clock g
     \<and> list_all (\<lambda>cost. case bt_get (rc_resource_id cost) (ch_resources ch) of
           Some pool \<Rightarrow> rp_current pool \<ge> rc_amount cost
         | None \<Rightarrow> False) (skd_costs skill)"

record skill_summary =
  ks_grant_id :: object_id
  ks_skill_id :: content_definition_id
  ks_display_name :: display_name
  ks_kind :: skill_kind
  ks_available :: bool
  ks_costs :: "resource_cost list"
  ks_target :: skill_target
  ks_cooldown_ticks :: u64
  ks_ready_at :: "world_time option"

definition skill_summary_of :: "env \<Rightarrow> character_record \<Rightarrow> world_time \<Rightarrow> skill_grant_record
    \<Rightarrow> runtime_error + skill_summary" where
  "skill_summary_of E ch clock g =
     rbind (need E (sg_skill_id g) as_skill_def) (\<lambda>d.
       Inr \<lparr>ks_grant_id = sg_id g, ks_skill_id = sg_skill_id g, ks_display_name = skd_display_name d,
            ks_kind = skd_kind d, ks_available = skill_is_available ch g d clock,
            ks_costs = skd_costs d, ks_target = skd_target d, ks_cooldown_ticks = skd_cooldown_ticks d,
            ks_ready_at = sg_ready_at g\<rparr>)"

definition list_available_skills :: "env \<Rightarrow> agent_tool_context \<Rightarrow> object_id option \<Rightarrow> nat \<Rightarrow> 'd world_service
    \<Rightarrow> runtime_error + skill_summary tool_page" where
  "list_available_skills E ctx after limit sv =
     rbind (require_revision (atc_revision ctx) sv) (\<lambda>_.
     rbind (ok_or Unavailable (character (sv_world sv) (atc_actor_id ctx))) (\<lambda>ch.
     rbind (projected E sv) (\<lambda>records.
       let clock = ws_clock (gw_state (sv_world sv));
           (page, next_after) = page_after sg_id after limit
             (filter (\<lambda>g. sg_owner_id g = atc_actor_id ctx) (of_kind as_skill_grant records))
       in rbind (rmapM (skill_summary_of E ch clock) page) (\<lambda>summaries.
            Inr \<lparr>tp_revision = atc_revision ctx, tp_members = summaries, tp_next_after = next_after\<rparr>))))"

definition inspect_skill :: "env \<Rightarrow> agent_tool_context \<Rightarrow> object_id \<Rightarrow> 'd world_service
    \<Rightarrow> runtime_error + skill_grant_record \<times> skill_definition \<times> bool" where
  "inspect_skill E ctx i sv =
     rbind (require_revision (atc_revision ctx) sv) (\<lambda>_.
     rbind (ok_or Unavailable (character (sv_world sv) (atc_actor_id ctx))) (\<lambda>ch.
     rbind (projected E sv) (\<lambda>records.
     rbind (first_of as_skill_grant (\<lambda>g. sg_id g = i \<and> sg_owner_id g = atc_actor_id ctx) records) (\<lambda>g.
     rbind (need E (sg_skill_id g) as_skill_def) (\<lambda>d.
       Inr (g, d, skill_is_available ch g d (ws_clock (gw_state (sv_world sv)))))))))"

record action_summary =
  as_action_id :: content_definition_id
  as_display_name :: display_name
  as_capability :: short_text
  as_parameters :: "action_parameter_definition list"

fun offered_action :: "string list \<Rightarrow> content_definition \<Rightarrow> action_summary option" where
  "offered_action capabilities (GameplayActionDef d) =
     (if as_str (gad_capability d) \<in> set capabilities
      then Some \<lparr>as_action_id = gad_id d, as_display_name = gad_display_name d,
                 as_capability = gad_capability d, as_parameters = gad_parameters d\<rparr>
      else None)"
| "offered_action capabilities _ = None"

definition list_gameplay_actions :: "env \<Rightarrow> agent_tool_context \<Rightarrow> 'd world_service
    \<Rightarrow> runtime_error + action_summary list" where
  "list_gameplay_actions E ctx sv =
     rbind (require_revision (atc_revision ctx) sv) (\<lambda>_.
       Inr (sort_key (\<lambda>a. content_id_str (as_action_id a)) (List.map_filter
         (\<lambda>(_, e). offered_action (atc_capabilities ctx) (reg_definition e))
         (dr_definitions (env_registry E)))))"

definition list_scene_transitions :: "env \<Rightarrow> agent_tool_context \<Rightarrow> 'd world_service
    \<Rightarrow> runtime_error + scene_transition_projection" where
  "list_scene_transitions E ctx sv =
     rbind (require_revision (atc_revision ctx) sv) (\<lambda>_.
     rbind (reject_if (player_actor sv \<noteq> atc_actor_id ctx
         \<or> NARRATOR_TRANSITION_SCENE_CAPABILITY \<notin> set (atc_capabilities ctx)) CapabilityDenied) (\<lambda>_.
       project_transitions E sv))"

end
