(* ===== verification/Context_Properties.thy ===== *)
theory Context_Properties
  imports World_Contexts World_Example
begin

text \<open>
  The properties of what the world service shows: the options of an event against the options the
  world accepts, and the pages of the reading tools against the list they cut up, with their
  witnesses.
\<close>

section \<open>Records of a world\<close>

text \<open>The first record of a kind with an identifier is the component with that identifier.\<close>

lemma first_of_component:
  assumes ok: "world_ok w" and records: "project_records E w = Inr records"
    and ids: "\<And>r x. f r = Some x \<Longrightarrow> record_object_id r = Some (g x)"
  shows "first_of f (\<lambda>x. g x = i) records = ok_or Unavailable (Option.bind (component_at w i) f)"
proof -
  let ?xs = "of_kind f records"
  have member: "r \<in> set records \<longleftrightarrow> component_at w j = Some r" if "record_object_id r = Some j" for r j
  proof -
    have "set records = set (world_records w)"
      using records by (simp add: project_records_eq [OF ok] del: sort_key_simps) (auto simp del: sort_key_simps)
    then show ?thesis
      using world_records_set [OF ok, of r] slot_of_object [OF that] by simp
  qed
  have found: "x \<in> set ?xs \<and> g x = i \<longleftrightarrow> Option.bind (component_at w i) f = Some x" for x
  proof
    assume "x \<in> set ?xs \<and> g x = i"
    then obtain r where r: "r \<in> set records" "f r = Some x" "g x = i"
      by (auto simp: List.map_filter_def split: option.splits)
    from member [OF ids [OF r(2)]] r show "Option.bind (component_at w i) f = Some x"
      by simp
  next
    assume "Option.bind (component_at w i) f = Some x"
    then obtain r where r: "component_at w i = Some r" "f r = Some x"
      by (auto split: Option.bind_splits)
    from entity_at [OF ok r(1)] ids [OF r(2)] have "g x = i"
      by auto
    with member [OF ids [OF r(2)]] r show "x \<in> set ?xs \<and> g x = i"
      by (force simp: List.map_filter_def)
  qed
  show ?thesis
  proof (cases "find (\<lambda>x. g x = i) ?xs")
    case None
    then have "\<nexists>x. x \<in> set ?xs \<and> g x = i"
      by (auto simp: find_None_iff)
    with found have "Option.bind (component_at w i) f = None"
      by (cases "Option.bind (component_at w i) f") auto
    with None show ?thesis
      by (simp add: first_of_def)
  next
    case (Some x)
    then have "x \<in> set ?xs \<and> g x = i"
      by (auto simp: find_Some_iff)
    with found have "Option.bind (component_at w i) f = Some x"
      by blast
    with Some show ?thesis
      by (simp add: first_of_def)
  qed
qed

lemma as_character_id: "as_character r = Some c \<Longrightarrow> record_object_id r = Some (object_id_of (ch_id c))"
  by (cases r) auto

lemma as_place_id: "as_place r = Some p \<Longrightarrow> record_object_id r = Some (place_rec_id p)"
  by (cases r) auto

lemma first_character:
  assumes "world_ok w" and "project_records E w = Inr records" and "get_character w actor = Inr ch"
  shows "first_of as_character (\<lambda>c. ch_id c = actor) records = Inr ch" and "ch_id ch = actor"
proof -
  have same: "(\<lambda>c. ch_id c = actor) = (\<lambda>c. object_id_of (ch_id c) = object_id_of actor)"
    by (auto simp: actor_id.expand)
  show first: "first_of as_character (\<lambda>c. ch_id c = actor) records = Inr ch"
    unfolding same using first_of_component [OF assms(1,2), of as_character "\<lambda>c. object_id_of (ch_id c)" "object_id_of actor"] assms(3)
    as_character_id
    by (simp add: get_character_def character_def ok_or_Inr_iff)
  then show "ch_id ch = actor"
    by (auto simp: first_of_def ok_or_Inr_iff find_Some_iff)
qed

lemma first_place:
  assumes "world_ok w" and "project_records E w = Inr records" and "get_place w i = Inr p"
  shows "first_of as_place (\<lambda>p. place_rec_id p = i) records = Inr p"
  using first_of_component [OF assms(1,2), of as_place place_rec_id i] assms(3) as_place_id
  by (simp add: get_place_def ok_or_Inr_iff)

lemma of_kind_set:
  assumes ok: "world_ok w" and records: "project_records E w = Inr records"
    and ids: "\<And>r x. f r = Some x \<Longrightarrow> record_object_id r = Some (g x)"
  shows "x \<in> set (of_kind f records) \<longleftrightarrow> Option.bind (component_at w (g x)) f = Some x"
proof -
  have set: "set records = set (world_records w)"
    using records by (simp add: project_records_eq [OF ok] del: sort_key_simps) (auto simp del: sort_key_simps)
  show ?thesis
  proof
    assume "x \<in> set (of_kind f records)"
    then obtain r where r: "r \<in> set records" "f r = Some x"
      by (auto simp: List.map_filter_def split: option.splits)
    with world_records_set [OF ok, of r] slot_of_object [OF ids [OF r(2)]] set
    show "Option.bind (component_at w (g x)) f = Some x"
      by simp
  next
    assume "Option.bind (component_at w (g x)) f = Some x"
    then obtain r where r: "component_at w (g x) = Some r" "f r = Some x"
      by (auto split: Option.bind_splits)
    with world_records_set [OF ok, of r] slot_of_object [OF ids [OF r(2)]] set have "r \<in> set records"
      by simp
    with r show "x \<in> set (of_kind f records)"
      by (force simp: List.map_filter_def)
  qed
qed

lemma as_condition_id: "as_condition r = Some c \<Longrightarrow> record_object_id r = Some (cond_id c)"
  by (cases r) auto

lemma as_event_id: "as_event_instance r = Some e \<Longrightarrow> record_object_id r = Some (ei_id e)"
  by (cases r) auto

lemma has_condition_records:
  assumes ok: "world_ok w" and records: "project_records E w = Inr records"
  shows "has_condition actor i w
    \<longleftrightarrow> list_ex (\<lambda>c. cond_target_id c = actor \<and> cond_condition_id c = i) (of_kind as_condition records)"
proof -
  have bt: "bt_ok (gw_objects w)"
    using ok by (simp add: world_ok_def objects_ok_def)
  have "c \<in> snd ` set (select as_condition w) \<longleftrightarrow> c \<in> set (of_kind as_condition records)" for c
  proof
    assume "c \<in> snd ` set (select as_condition w)"
    then obtain j where "(j, c) \<in> set (select as_condition w)"
      by auto
    from select_component [OF bt this] obtain r where r: "component_at w j = Some r" "as_condition r = Some c"
      by blast
    with entity_at [OF ok r(1)] as_condition_id [OF r(2)] have "j = cond_id c"
      by auto
    with r show "c \<in> set (of_kind as_condition records)"
      by (simp add: of_kind_set [OF ok records, of as_condition cond_id, OF as_condition_id])
  next
    assume "c \<in> set (of_kind as_condition records)"
    then obtain r where "component_at w (cond_id c) = Some r" "as_condition r = Some c"
      by (auto simp: of_kind_set [OF ok records, of as_condition cond_id, OF as_condition_id] split: Option.bind_splits)
    then have "(cond_id c, c) \<in> set (select as_condition w)"
      by (auto simp: select_set component_at_Some_iff dest!: bt_get_in_set)
    then show "c \<in> snd ` set (select as_condition w)"
      by force
  qed
  then show ?thesis
    by (force simp: has_condition_def list_ex_iff)
qed

section \<open>Predicates\<close>

text \<open>A predicate the world evaluates has the value that is shown.\<close>

lemma evaluated_as_shown:
  assumes ok: "world_ok w" and records: "project_records E w = Inr records"
    and ch: "get_character w actor = Inr ch" and p: "get_place w (ch_location ch) = Inr p"
  shows "\<lbrakk>evaluate_predicate actor q s = Inr (b, s'); ex_world s = w\<rbrakk> \<Longrightarrow> b = predicate_matches ch p records q"
    and "\<lbrakk>evaluate_predicates actor qs s = Inr (b, s'); ex_world s = w\<rbrakk> \<Longrightarrow> b = list_all (predicate_matches ch p records) qs"
    and "\<lbrakk>evaluate_any actor qs s = Inr (b, s'); ex_world s = w\<rbrakk> \<Longrightarrow> b = list_ex (predicate_matches ch p records) qs"
  using ch
proof (induction actor q and actor qs and actor qs arbitrary: s b s' and s b s' and s b s'
    rule: evaluate_predicate_evaluate_predicates_evaluate_any.induct)
  case (3 actor tag)
  then show ?case
    using p by (auto simp: sbind_Inr_iff query_Inr_iff has_tag_def rbind_Inr_iff dest!: charge_world split: if_splits)
next
  case (2 actor i)
  then show ?case
    using has_condition_records [OF ok records] first_character(2) [OF ok records 2(3)]
    by (auto simp: sbind_Inr_iff query_Inr_iff dest!: charge_world)
next
  case (8 actor q qs)
  from 8(3) obtain b1 s1 where q: "evaluate_predicate actor q s = Inr (b1, s1)"
    and rest: "(if \<not> b1 then sreturn False else evaluate_predicates actor qs) s1 = Inr (b, s')"
    by (auto simp: sbind_Inr_iff)
  have "ex_world s1 = w"
    using evaluate_world(1) [of actor q] q 8(4) by (auto dest: keepsD)
  with 8(1) [OF q 8(4,5)] 8(2) rest 8(5) show ?case
    by (auto simp: sreturn_def split: if_splits)
next
  case (10 actor q qs)
  from 10(3) obtain b1 s1 where q: "evaluate_predicate actor q s = Inr (b1, s1)"
    and rest: "(if b1 then sreturn True else evaluate_any actor qs) s1 = Inr (b, s')"
    by (auto simp: sbind_Inr_iff)
  have "ex_world s1 = w"
    using evaluate_world(1) [of actor q] q 10(4) by (auto dest: keepsD)
  with 10(1) [OF q 10(4,5)] 10(2) rest 10(5) show ?case
    by (auto simp: sreturn_def split: if_splits)
qed (auto simp: sbind_Inr_iff query_Inr_iff sreturn_Inr_iff has_resource_def rbind_Inr_iff dest!: charge_world
      split: option.splits)

section \<open>Event options\<close>

lemma rmapM_member: "rmapM f xs = Inr ys \<Longrightarrow> x \<in> set xs \<Longrightarrow> \<exists>y\<in>set ys. f x = Inr y"
  by (induction xs arbitrary: ys) (auto simp: rbind_Inr_iff)

lemma chosen_option_shown:
  assumes ok: "world_ok w" and records: "project_records E w = Inr records"
    and views: "active_event_views E records actor = Inr views"
    and checks: "event_option_checks E actor i o1 w = Inr (v, d, opt)"
    and visible: "predicates_match ch p records (eo_visible_if opt)"
    and enabled: "predicates_match ch p records (eo_enabled_if opt)"
    and ch: "get_character w actor = Inr ch" and p: "get_place w (ch_location ch) = Inr p"
  shows "\<exists>view\<in>set views. aev_event_id view = i
    \<and> (\<exists>shown\<in>set (aev_options view). eov_option_id shown = o1 \<and> eov_enabled shown)"
proof -
  from checks ch p obtain e node where e: "bt_get i (gw_objects w) = Some e" "as_event_instance (component e) = Some v"
    and active: "event_in_scene (place_scene_id p) v"
    and d: "event_definition E (ei_definition_id v) = Inr d"
    and node: "find (\<lambda>n. en_id n = ei_current_node v) (ed_nodes d) = Some node"
    and opt: "find (\<lambda>opt. eo_id opt = o1) (en_options node) = Some opt"
    by (auto simp: event_option_checks_def rbind_Inr_iff ok_or_Inr_iff require_object_def event_in_scene_def
        split: if_splits option.splits)
  from e have at: "component_at w i = Some (EventInstanceRec v)"
    by (cases "component e") (auto simp: component_at_def)
  from entity_at [OF ok at] have i: "ei_id v = i"
    by auto
  have "v \<in> set (of_kind as_event_instance records)"
    using of_kind_set [OF ok records, of as_event_instance ei_id v] as_event_id at i by simp
  moreover from views first_character(1) [OF ok records ch] first_place [OF ok records p] obtain found where
    found: "rmapM (active_event_view_of E ch p records) (filter (event_in_scene (place_scene_id p))
      (of_kind as_event_instance records)) = Inr found" "set views = set found"
    by (auto simp: active_event_views_def rbind_Inr_iff)
  ultimately obtain view where view: "view \<in> set views" "active_event_view_of E ch p records v = Inr view"
    using active rmapM_member [OF found(1), of v] by auto
  have "opt \<in> set (en_options node)" "eo_id opt = o1"
    using opt by (auto simp: find_Some_iff)
  then have "\<exists>shown\<in>set (event_option_views ch p records (en_options node)). eov_option_id shown = o1 \<and> eov_enabled shown"
    using visible enabled by (force simp: event_option_views_def)
  moreover have "need E (ei_definition_id v) as_event_def = Inr d"
    using d by (auto simp: need_def registered_of_def event_definition_def definition_of_def
        split: option.splits content_definition.splits)
  ultimately have "aev_event_id view = i
    \<and> (\<exists>shown\<in>set (aev_options view). eov_option_id shown = o1 \<and> eov_enabled shown)"
    using view(2) node i by (auto simp: active_event_view_of_def)
  with view(1) show ?thesis
    by (rule rev_bexI)
qed

text \<open>C10. What the interface offers is what the world accepts: an option of an event that an actor chooses
  successfully is shown to it, as enabled, by the active events of its world.\<close>

theorem chosen_options_were_offered:
  assumes "world_ok (ex_world s)" and "project_records E (ex_world s) = Inr records"
    and "active_event_views E records actor = Inr views"
    and "get_character (ex_world s) actor = Inr ch" and "get_place (ex_world s) (ch_location ch) = Inr p"
    and "choose_event_option E t actor i o1 s = Inr (parts, s')"
  shows "\<exists>view\<in>set views. aev_event_id view = i
    \<and> (\<exists>shown\<in>set (aev_options view). eov_option_id shown = o1 \<and> eov_enabled shown)"
proof -
  let ?w = "ex_world s"
  from assms(6) obtain v d opt s1 s2 where checks: "event_option_checks E actor i o1 ?w = Inr (v, d, opt)"
    and visible: "evaluate_predicates actor (eo_visible_if opt) s = Inr (True, s1)"
    and enabled: "evaluate_predicates actor (eo_enabled_if opt) s1 = Inr (True, s2)"
    by (auto simp: choose_event_option_def ensure_predicates_def sbind_Inr_iff query_Inr_iff sreturn_Inr_iff
        slift_Inr_iff split: if_splits)
  have "ex_world s1 = ?w"
    using evaluate_world(2) [of actor] visible by (auto dest: keepsD)
  with evaluated_as_shown(2) [OF assms(1,2,4,5)] visible enabled
  have "predicates_match ch p records (eo_visible_if opt)" "predicates_match ch p records (eo_enabled_if opt)"
    by (auto simp: predicates_match_def)
  from chosen_option_shown [OF assms(1-3) checks this assms(4,5)] show ?thesis .
qed

text \<open>A meeting at which the player, while burning and not shy, may wave.\<close>

definition demo_option :: event_option_definition where
  "demo_option = \<lparr>eo_id = cid ''a.b:option/wave'', eo_display_name = BoundedText ''x'',
     eo_visible_if = [PredNot (HasTag (cid ''a.b:tag/shy''))],
     eo_enabled_if = [HasCondition (cid ''a.b:condition/burning'')], eo_effects = [], eo_next_node = None\<rparr>"

definition demo_meeting :: event_definition where
  "demo_meeting = \<lparr>ed_id = cid ''a.b:event/meeting'', ed_display_name = BoundedText ''x'',
     ed_entry_node = cid ''a.b:node/start'',
     ed_nodes = [\<lparr>en_id = cid ''a.b:node/start'', en_text = BoundedText ''x'', en_options = [demo_option]\<rparr>]\<rparr>"

definition meeting_env :: env where
  "meeting_env = demo_env\<lparr>env_registry := \<lparr>dr_contexts = [], dr_definitions =
     [(ed_id demo_meeting, \<lparr>reg_definition = EventDef demo_meeting, reg_origin = demo_origin (ed_id demo_meeting)\<rparr>)]\<rparr>\<rparr>"

definition demo_instance :: event_instance_record where
  "demo_instance = \<lparr>ei_id = RuntimeId 19, ei_definition_id = cid ''a.b:event/meeting'',
     ei_current_node = cid ''a.b:node/start'', ei_scene_id = None, ei_started_at = WorldTime 0,
     ei_status = EventActive, ei_committed_options = []\<rparr>"

definition meeting_world :: game_world where
  "meeting_world = (demo_world (Revision 4) demo_hall demo_root (demo_rule_state 0 None))
     \<lparr>gw_objects := map demo_entity (demo_records demo_hall demo_root (demo_rule_state 0 None)
        @ [EventInstanceRec demo_instance])\<rparr>"

lemma meeting_objects: "gw_objects meeting_world
    = map demo_entity (demo_records demo_hall demo_root (demo_rule_state 0 None) @ [EventInstanceRec demo_instance])"
  by (simp add: meeting_world_def)

lemma meeting_ids: "map fst (gw_objects meeting_world)
    = [demo_scene_id, demo_hall, demo_yard, RuntimeId 13, demo_root, demo_coin, demo_pouch, demo_condition,
       demo_state, RuntimeId 19]"
  by (simp add: meeting_objects demo_entity_def demo_record_defs demo_instance_def)

lemma meeting_world_ok: "world_ok meeting_world"
proof -
  have "bt_ok (gw_objects meeting_world)"
    by (simp only: bt_ok_def meeting_ids) (simp add: less_runtime_id_def)
  moreover have "list_all (\<lambda>(i, e). entity_ok i e) (gw_objects meeting_world)"
    by (simp add: meeting_objects demo_entity_def demo_record_defs demo_instance_def entity_ok_def)
  moreover have "gw_transcripts meeting_world = []"
    by (simp add: meeting_world_def)
  ultimately show ?thesis
    by (auto simp: world_ok_def objects_ok_def transcripts_ok_def bt_ok_get_iff list_all_iff)
qed

lemma meeting_lookup [simp]:
  "get_character meeting_world demo_player = Inr (demo_character demo_hall)"
  "get_place meeting_world demo_hall = Inr (demo_place demo_hall demo_yard)"
  "bt_get (RuntimeId 19) (gw_objects meeting_world) = Some (snd (demo_entity (EventInstanceRec demo_instance)))"
  "has_condition demo_player (cid ''a.b:condition/burning'') meeting_world"
  by (simp_all add: get_character_def character_def get_place_def component_at_def meeting_objects demo_entity_def
      bt_get_def demo_record_defs demo_instance_def has_condition_def select_def List.map_filter_def)

lemma meeting_registry: "registry_get (env_registry meeting_env) (cid ''a.b:event/meeting'')
    = Some \<lparr>reg_definition = EventDef demo_meeting, reg_origin = demo_origin (cid ''a.b:event/meeting'')\<rparr>"
  by (simp add: meeting_env_def registry_get_def bt_get_def demo_meeting_def)

lemma meeting_fields [simp]:
  "env_uuid meeting_env = hex_uuid_lib"
  "config_rule_limits (gw_config meeting_world) = rule_limits_default"
  by (simp_all add: meeting_env_def meeting_world_def demo_world_def)

lemma meeting_choice: "\<exists>parts s'. choose_event_option meeting_env (RuntimeId 40, Revision 5) demo_player (RuntimeId 19)
    (cid ''a.b:option/wave'') (start_exec meeting_world demo_ids) = Inr (parts, s')"
proof -
  have checks: "event_option_checks meeting_env demo_player (RuntimeId 19) (cid ''a.b:option/wave'') meeting_world
      = Inr (demo_instance, demo_meeting, demo_option)"
    by (simp add: event_option_checks_def require_object_def demo_entity_def demo_instance_def event_definition_def
        definition_of_def meeting_registry)
      (simp add: demo_meeting_def demo_option_def)
  have tag: "has_tag demo_player (cid ''a.b:tag/shy'') meeting_world = Inr False"
    by (simp add: has_tag_def demo_character_def demo_place_def bs_contains_def)
  show ?thesis
    by (simp add: choose_event_option_def checks tag ensure_predicates_def demo_option_def run_defs start_exec_def
        charge_def charge_predicate_def execution_budget_default_def checked_add_def rule_limits_default_def
        apply_effects_def collected_def require_object_def committed_event_def)
qed

lemma rmapM_ok: "(\<And>x. x \<in> set xs \<Longrightarrow> \<exists>y. f x = Inr y) \<Longrightarrow> \<exists>ys. rmapM f xs = Inr ys"
proof (induction xs)
  case (Cons x xs)
  then obtain y ys where "f x = Inr y" "rmapM f xs = Inr ys"
    by force
  then show ?case
    by simp
qed simp

theorem chosen_options_were_offered_witness:
  "\<exists>records views view parts s'. project_records meeting_env meeting_world = Inr records
    \<and> active_event_views meeting_env records demo_player = Inr views
    \<and> choose_event_option meeting_env (RuntimeId 40, Revision 5) demo_player (RuntimeId 19)
        (cid ''a.b:option/wave'') (start_exec meeting_world demo_ids) = Inr (parts, s')
    \<and> view \<in> set views \<and> aev_event_id view = RuntimeId 19"
proof -
  let ?ch = "demo_character demo_hall" and ?p = "demo_place demo_hall demo_yard"
  obtain records where records: "project_records meeting_env meeting_world = Inr records"
    by (simp add: project_records_eq [OF meeting_world_ok])
  note world = meeting_world_ok records
  have place: "get_place meeting_world (ch_location ?ch) = Inr ?p"
    by (simp add: demo_character_def)
  have "e = demo_instance" if "e \<in> set (of_kind as_event_instance records)" for e
  proof -
    from that have "Option.bind (component_at meeting_world (ei_id e)) as_event_instance = Some e"
      using of_kind_set [OF world, of as_event_instance ei_id e] as_event_id by simp
    then obtain j o1 where "(j, o1) \<in> set (gw_objects meeting_world)" "component o1 = EventInstanceRec e"
      by (force simp: component_at_def dest: bt_get_in_set elim!: as_event_instance.elims split: Option.bind_splits)
    then show ?thesis
      by (auto simp: meeting_objects demo_entity_def demo_record_defs)
  qed
  moreover have "\<exists>view. active_event_view_of meeting_env ?ch ?p records demo_instance = Inr view"
    by (simp add: active_event_view_of_def need_def registered_of_def demo_instance_def meeting_registry)
      (simp add: demo_meeting_def)
  ultimately obtain found where "rmapM (active_event_view_of meeting_env ?ch ?p records)
      (filter (event_in_scene (place_scene_id ?p)) (of_kind as_event_instance records)) = Inr found"
    using rmapM_ok [of "filter (event_in_scene (place_scene_id ?p)) (of_kind as_event_instance records)"
        "active_event_view_of meeting_env ?ch ?p records"] by auto
  then obtain views where views: "active_event_views meeting_env records demo_player = Inr views"
    using first_character(1) [OF world, of demo_player] first_place [OF world place]
    by (simp add: active_event_views_def)
  obtain parts s' where choice: "choose_event_option meeting_env (RuntimeId 40, Revision 5) demo_player (RuntimeId 19)
      (cid ''a.b:option/wave'') (start_exec meeting_world demo_ids) = Inr (parts, s')"
    using meeting_choice by blast
  have start: "ex_world (start_exec meeting_world demo_ids) = meeting_world"
    by (simp add: start_exec_def)
  from chosen_options_were_offered [of "start_exec meeting_world demo_ids", unfolded start,
      OF world views meeting_lookup(1) place choice] records views choice
  show ?thesis
    by blast
qed

section \<open>Pages\<close>

text \<open>Reading all pages of a tool, from a cursor on.\<close>

fun read_pages :: "(object_id option \<Rightarrow> runtime_error + 'a tool_page) \<Rightarrow> object_id option \<Rightarrow> nat
    \<Rightarrow> runtime_error + 'a list" where
  "read_pages tool after 0 = Inr []"
| "read_pages tool after (Suc n) =
     rbind (tool after) (\<lambda>page.
       case tp_next_after page of
         None \<Rightarrow> Inr (tp_members page)
       | Some cursor \<Rightarrow>
           rbind (read_pages tool (Some cursor) n) (\<lambda>rest. Inr (tp_members page @ rest)))"

definition follows :: "('a \<Rightarrow> object_id) \<Rightarrow> object_id option \<Rightarrow> 'a \<Rightarrow> bool" where
  "follows f after x \<longleftrightarrow> (case after of None \<Rightarrow> True | Some cursor \<Rightarrow> f x > cursor)"

lemma page_after_eq:
  "page_after f after limit xs = (let rest = filter (follows f after) (sort_key f xs);
     page = take limit rest
   in (page, if length rest > limit \<and> page \<noteq> [] then Some (f (last page)) else None))"
  by (simp add: page_after_def follows_def [abs_def] filter_sort)

lemma rmapM_append: "rmapM f (xs @ ys) = rbind (rmapM f xs) (\<lambda>us. rbind (rmapM f ys) (\<lambda>vs. Inr (us @ vs)))"
  by (induction xs) (auto simp: rbind_def split: sum.splits)

lemma filter_within: "(\<And>x. P x \<Longrightarrow> Q x) \<Longrightarrow> filter P (filter Q xs) = filter P xs"
  by (induction xs) auto

lemma follows_last:
  assumes "sorted_wrt (\<lambda>x y. f x < f y) xs" and "rest = filter (follows f after) xs"
    and "0 < limit" and "length rest > limit"
  shows "filter (follows f (Some (f (last (take limit rest))))) xs = drop limit rest"
proof -
  let ?m = "last (take limit rest)"
  have page: "take limit rest \<noteq> []"
    using assms(3,4) by auto
  have strict: "sorted_wrt (\<lambda>x y. f x < f y) rest"
    using assms(1,2) by (simp add: sorted_wrt_filter)
  then have sep: "\<forall>x\<in>set (take limit rest). \<forall>y\<in>set (drop limit rest). f x < f y"
    by (metis append_take_drop_id sorted_wrt_append)
  have front: "sorted_wrt (\<lambda>x y. f x < f y) (take limit rest)"
    using strict by (rule sorted_wrt_take)
  have m: "f x \<le> f ?m" if "x \<in> set (take limit rest)" for x
  proof -
    have "take limit rest = butlast (take limit rest) @ [?m]"
      using page by simp
    with front have "\<forall>x\<in>set (butlast (take limit rest)). f x < f ?m"
      by (metis list.set_intros(1) sorted_wrt_append)
    moreover have "x \<in> set (butlast (take limit rest)) \<or> x = ?m"
      using that \<open>take limit rest = _\<close> by (metis UnE empty_iff insert_iff list.set(1) list.set(2) set_append)
    ultimately show ?thesis
      by auto
  qed
  have in_rest: "?m \<in> set rest"
    using page by (meson in_set_takeD last_in_set)
  then have "follows f after ?m"
    using assms(2) by simp
  then have "follows f (Some (f ?m)) x \<Longrightarrow> follows f after x" for x
    by (auto simp: follows_def split: option.splits)
  from filter_within [of "follows f (Some (f ?m))", OF this]
  have "filter (follows f (Some (f ?m))) xs = filter (follows f (Some (f ?m))) rest"
    by (subst assms(2)) (rule sym)
  also have "\<dots> = filter (follows f (Some (f ?m))) (take limit rest) @ filter (follows f (Some (f ?m))) (drop limit rest)"
    by (simp flip: filter_append)
  also have "filter (follows f (Some (f ?m))) (take limit rest) = []"
    using m by (auto simp: follows_def filter_empty_conv not_less)
  also have "filter (follows f (Some (f ?m))) (drop limit rest) = drop limit rest"
    using sep page by (auto simp: follows_def filter_id_conv)
  finally show ?thesis
    by simp
qed

lemma read_pages_eq:
  assumes sorted: "sorted_wrt (\<lambda>x y. f x < f y) (sort_key f xs)" and limit: "0 < limit"
    and tool: "\<And>after. tool after = (let (page, next_after) = page_after f after limit xs
      in rbind (rmapM g page) (\<lambda>ys. Inr \<lparr>tp_revision = r, tp_members = ys, tp_next_after = next_after\<rparr>))"
  shows "n > length (filter (follows f after) (sort_key f xs))
    \<Longrightarrow> read_pages tool after n = rmapM g (filter (follows f after) (sort_key f xs))"
proof (induction n arbitrary: after)
  case (Suc n)
  define rest where "rest = filter (follows f after) (sort_key f xs)"
  show ?case
  proof (cases "length rest > limit")
    case False
    then have "tool after = rbind (rmapM g rest) (\<lambda>ys. Inr \<lparr>tp_revision = r, tp_members = ys, tp_next_after = None\<rparr>)"
      by (simp add: tool page_after_eq rest_def [symmetric] Let_def)
    then show ?thesis
      by (cases "rmapM g rest") (simp_all add: rest_def [symmetric])
  next
    case True
    let ?m = "last (take limit rest)"
    have rest: "filter (follows f (Some (f ?m))) (sort_key f xs) = drop limit rest"
      by (rule follows_last [OF sorted rest_def limit True])
    have step: "tool after = rbind (rmapM g (take limit rest))
        (\<lambda>ys. Inr \<lparr>tp_revision = r, tp_members = ys, tp_next_after = Some (f ?m)\<rparr>)"
      using True limit by (auto simp: tool page_after_eq rest_def [symmetric] Let_def)
    have "read_pages tool (Some (f ?m)) n = rmapM g (drop limit rest)"
      using Suc.IH [of "Some (f ?m)"] Suc.prems True limit by (simp add: rest rest_def [symmetric])
    moreover have "rmapM g rest = rbind (rmapM g (take limit rest)) (\<lambda>us. rbind (rmapM g (drop limit rest)) (\<lambda>vs. Inr (us @ vs)))"
      by (metis append_take_drop_id rmapM_append)
    ultimately show ?thesis
      using step by (cases "rmapM g (take limit rest)") (simp_all add: rest_def [symmetric])
  qed
qed simp

lemma distinct_of_kind:
  assumes "distinct (map slot_of records)" and "\<And>r x. f r = Some x \<Longrightarrow> slot_of r = ObjectSlot (g x)"
  shows "distinct (map g (of_kind f records))"
  using assms(1)
proof (induction records)
  case (Cons r records)
  have "g x \<notin> g ` set (of_kind f records)" if "f r = Some x" for x
  proof
    assume "g x \<in> g ` set (of_kind f records)"
    then obtain r' y where "r' \<in> set records" "f r' = Some y" "g y = g x"
      by (auto simp: List.map_filter_def split: option.splits)
    then have "slot_of r' = slot_of r" "r' \<in> set records"
      using assms(2) [OF that] assms(2) [of r' y] by simp_all
    then have "slot_of r \<in> slot_of ` set records"
      by (metis imageI)
    with Cons.prems show False
      by simp
  qed
  with Cons show ?case
    by (simp add: map_filter_simps split: option.splits)
qed (simp add: map_filter_simps)

lemma as_item_slot: "as_item r = Some i \<Longrightarrow> slot_of r = ObjectSlot (it_id i)"
  by (cases r) auto

lemma sorted_records:
  assumes "world_ok w" and "project_records E w = Inr records"
    and "\<And>r x. f r = Some x \<Longrightarrow> slot_of r = ObjectSlot (g x)"
  shows "sorted_wrt (\<lambda>x y. g x < g y) (sort_key g (filter P (of_kind f records)))"
proof -
  have "mset records = mset (world_records w)"
    using assms(2) by (auto simp: project_records_eq [OF assms(1)])
  then have "mset (map slot_of records) = mset (map slot_of (world_records w))"
    by simp
  from mset_eq_imp_distinct_iff [OF this] world_records_distinct [OF assms(1)]
  have "distinct (map g (of_kind f records))"
    by (intro distinct_of_kind assms(3)) simp_all
  then have "distinct (map g (filter P (of_kind f records)))"
    by (rule distinct_map_filter)
  moreover have "mset (map g (sort_key g (filter P (of_kind f records)))) = mset (map g (filter P (of_kind f records)))"
    by simp
  ultimately have "distinct (map g (sort_key g (filter P (of_kind f records))))"
    using mset_eq_imp_distinct_iff by blast
  then have "sorted_wrt (<) (map g (sort_key g (filter P (of_kind f records))))"
    by (simp add: strict_sorted_iff)
  then show ?thesis
    by (simp add: sorted_wrt_map)
qed

definition owned_items :: "actor_id \<Rightarrow> domain_record list \<Rightarrow> item_record list" where
  "owned_items actor records = filter (\<lambda>i. it_owned_by i = Some actor) (of_kind as_item records)"

text \<open>C28. Reading an inventory page by page, with any positive page size, following the cursors the tool
  returns, gives every item of the actor once, in the order of the identifiers.\<close>

theorem inventory_pages_cover_the_inventory:
  assumes "world_ok (sv_world sv)" and "project_records E (sv_world sv) = Inr records"
    and "gw_revision (sv_world sv) = atc_revision ctx" and "character (sv_world sv) (atc_actor_id ctx) = Some ch"
    and "0 < limit" and "length (owned_items (atc_actor_id ctx) records) < n"
  shows "read_pages (\<lambda>after. list_inventory E ctx after limit sv) None n
    = rmapM (item_summary_of E) (sort_key it_id (owned_items (atc_actor_id ctx) records))"
proof -
  let ?items = "owned_items (atc_actor_id ctx) records"
  have sorted: "sorted_wrt (\<lambda>x y. it_id x < it_id y) (sort_key it_id ?items)"
    unfolding owned_items_def by (rule sorted_records [OF assms(1,2) as_item_slot])
  have tool: "list_inventory E ctx after limit sv = (let (page, next_after) = page_after it_id after limit ?items
      in rbind (rmapM (item_summary_of E) page)
        (\<lambda>ys. Inr \<lparr>tp_revision = atc_revision ctx, tp_members = ys, tp_next_after = next_after\<rparr>))" for after
    using assms(2-4) by (simp add: list_inventory_def require_revision_def projected_def owned_items_def)
  have all: "filter (follows it_id None) xs = xs" for xs
    by (simp add: follows_def)
  from read_pages_eq [OF sorted assms(5) tool, where n = n and after = None] assms(6) show ?thesis
    by (simp add: all del: sort_key_simps)
qed

definition demo_tool_context :: agent_tool_context where
  "demo_tool_context = \<lparr>atc_actor_id = demo_player, atc_revision = Revision 4, atc_session_id = RuntimeId 1,
     atc_capabilities = []\<rparr>"

theorem inventory_pages_cover_the_inventory_witness:
  "\<forall>st config. \<exists>records. project_records demo_env (demo_world (Revision 4) demo_hall demo_root (demo_rule_state 0 None)) = Inr records
    \<and> read_pages (\<lambda>after. list_inventory demo_env demo_tool_context after 2
        \<lparr>sv_world = demo_world (Revision 4) demo_hall demo_root (demo_rule_state 0 None), sv_store = st,
         sv_config = config, sv_events = []\<rparr>) None (Suc (length (owned_items demo_player records)))
      = rmapM (item_summary_of demo_env) (sort_key it_id (owned_items demo_player records))
    \<and> set (owned_items demo_player records) = {demo_bag, demo_coins demo_root, demo_pouch_record}"
proof (intro allI)
  fix st config
  let ?w = "demo_world (Revision 4) demo_hall demo_root (demo_rule_state 0 None)"
  let ?sv = "\<lparr>sv_world = ?w, sv_store = st, sv_config = config, sv_events = []\<rparr>"
  obtain records where records: "project_records demo_env ?w = Inr records"
    by (simp add: project_records_eq [OF demo_world_ok])
  have "set records = set (world_records ?w)"
    using records project_records_eq [OF demo_world_ok, of demo_env] by (metis Inr_inject set_sort)
  then have "set (of_kind as_item records) = set (of_kind as_item (world_records ?w))"
    by (simp add: List.map_filter_def)
  also have "of_kind as_item (world_records ?w) = [demo_bag, demo_coins demo_root, demo_pouch_record]"
    by (simp add: List.map_filter_def world_records_def demo_objects bt_values_def demo_entity_def demo_records_def)
  finally have "set (of_kind as_item records) = {demo_bag, demo_coins demo_root, demo_pouch_record}"
    by simp
  then have items: "set (owned_items demo_player records) = {demo_bag, demo_coins demo_root, demo_pouch_record}"
    by (auto simp: owned_items_def demo_bag_def demo_coins_def demo_pouch_record_def demo_item_def)
  from inventory_pages_cover_the_inventory [of ?sv demo_env records demo_tool_context "demo_character demo_hall" 2
      "Suc (length (owned_items demo_player records))"] demo_world_ok records items
  show "\<exists>records. project_records demo_env ?w = Inr records
    \<and> read_pages (\<lambda>after. list_inventory demo_env demo_tool_context after 2 ?sv) None
        (Suc (length (owned_items demo_player records)))
      = rmapM (item_summary_of demo_env) (sort_key it_id (owned_items demo_player records))
    \<and> set (owned_items demo_player records) = {demo_bag, demo_coins demo_root, demo_pouch_record}"
    by (auto simp: demo_tool_context_def character_def)
qed

end
