(* ===== verification/Tool_Executor.thy ===== *)
theory Tool_Executor
  imports World_Contexts
begin

text \<open>
  The tools that agents call (\<open>world_service.rs\<close> of the runtime crate, third part): the parsing of
  their arguments, the requests of the narrator that wait for the end of its turn, and the dispatch
  on the name of the tool. The values that \<open>serde_json::from_value\<close> decodes with derived code are
  decoded by the parameter \<open>tool_lib\<close>; an answer is a \<open>tool_answer\<close>, which \<open>json!\<close> renders. The
  mutexes of the executor make each call one step on its state: the runner of an agent makes one
  call at a time.
\<close>

record draft_profile_input =
  dpi_summary :: short_text
  dpi_values :: "short_text list"
  dpi_speaking_style :: short_text
  dpi_narrative_tags :: "content_definition_id list"

record create_scene_tool_request =
  cst_display_name :: display_name
  cst_framing :: short_text
  cst_entry_place_name :: display_name
  cst_entry_place_description :: short_text

record create_place_tool_request =
  cpt_display_name :: display_name
  cpt_description :: short_text

record tool_lib =
  tl_as_u64 :: "json \<Rightarrow> u64 option"
  tl_skill_target :: "json \<Rightarrow> skill_target_ref option"
  tl_action_arguments :: "json \<Rightarrow> (content_definition_id, parameter_value) btree option"
  tl_transition_target :: "json \<Rightarrow> scene_transition_target option"
  tl_create_scene :: "json \<Rightarrow> create_scene_tool_request option"
  tl_create_place :: "json \<Rightarrow> create_place_tool_request option"
  tl_create_npc :: "json \<Rightarrow> create_npc_request option"
  tl_npc_turn :: "json \<Rightarrow> actor_id option"
  tl_draft_profile :: "json \<Rightarrow> draft_profile_input option"
  tl_display_name :: "json \<Rightarrow> display_name option"
  tl_base_attributes :: "json \<Rightarrow> base_attributes option"
  tl_initial_resources :: "json \<Rightarrow> initial_resource list option"
  tl_initial_conditions :: "json \<Rightarrow> initial_condition list option"
  tl_initial_items :: "json \<Rightarrow> initial_item list option"
  tl_initial_skills :: "json \<Rightarrow> initial_skill list option"
  tl_initial_facts :: "json \<Rightarrow> initial_fact list option"
  tl_initial_goals :: "json \<Rightarrow> initial_goal list option"

section \<open>Arguments\<close>

definition TOOL_PAGE_DEFAULT :: nat where
  "TOOL_PAGE_DEFAULT = 32"

definition TOOL_PAGE_MAXIMUM :: nat where
  "TOOL_PAGE_MAXIMUM = 64"

fun as_json_object :: "json \<Rightarrow> (string \<times> json) list option" where
  "as_json_object (JObject members) = Some members"
| "as_json_object _ = None"

definition parse_object_id_str :: "env \<Rightarrow> string \<Rightarrow> runtime_error + object_id" where
  "parse_object_id_str E s = map_err RuntimeIdentity (runtime_id_from_str (env_uuid E) OBJ s)"

definition parse_after :: "env \<Rightarrow> json option \<Rightarrow> runtime_error + object_id option" where
  "parse_after E v =
     (case v of
        None \<Rightarrow> Inr None
      | Some v \<Rightarrow>
          rbind (ok_or InvalidInput (as_json_str v)) (\<lambda>s.
          rbind (parse_object_id_str E s) (\<lambda>i. Inr (Some i))))"

definition parse_limit :: "tool_lib \<Rightarrow> json option \<Rightarrow> runtime_error + nat" where
  "parse_limit L v =
     (case v of
        None \<Rightarrow> Inr TOOL_PAGE_DEFAULT
      | Some v \<Rightarrow> rbind (ok_or InvalidInput (tl_as_u64 L v)) (\<lambda>n. Inr (unat n)))"

definition parse_page_arguments :: "env \<Rightarrow> tool_lib \<Rightarrow> json \<Rightarrow> runtime_error + object_id option \<times> nat" where
  "parse_page_arguments E L arguments =
     rbind (ok_or InvalidInput (as_json_object arguments)) (\<lambda>members.
     rbind (reject_if (list_ex (\<lambda>(k, _). k \<noteq> ''after'' \<and> k \<noteq> ''limit'') members) InvalidInput) (\<lambda>_.
     rbind (parse_after E (map_of members ''after'')) (\<lambda>after.
     rbind (parse_limit L (map_of members ''limit'')) (\<lambda>limit.
     rbind (reject_if (\<not> (1 \<le> limit \<and> limit \<le> TOOL_PAGE_MAXIMUM)) InvalidInput) (\<lambda>_.
       Inr (after, limit))))))"

definition parse_object_id :: "env \<Rightarrow> json \<Rightarrow> string \<Rightarrow> runtime_error + object_id" where
  "parse_object_id E arguments field =
     rbind (ok_or InvalidInput (Option.bind (json_get field arguments) as_json_str)) (parse_object_id_str E)"

definition parse_definition_id :: "json \<Rightarrow> string \<Rightarrow> runtime_error + content_definition_id" where
  "parse_definition_id arguments field =
     rbind (ok_or InvalidInput (Option.bind (json_get field arguments) as_json_str)) (\<lambda>s.
       map_err RuntimeIdentity (content_id_parse s))"

definition parse_u32 :: "tool_lib \<Rightarrow> json \<Rightarrow> string \<Rightarrow> runtime_error + u32" where
  "parse_u32 L arguments field =
     rbind (ok_or InvalidInput (Option.bind (json_get field arguments) (tl_as_u64 L))) (\<lambda>n.
       if unat n < 2 ^ 32 then Inr (ucast n) else Inl InvalidInput)"

definition parse_skill_target :: "tool_lib \<Rightarrow> json \<Rightarrow> runtime_error + skill_target_ref" where
  "parse_skill_target L arguments =
     rbind (ok_or InvalidInput (json_get ''target'' arguments)) (\<lambda>v.
       ok_or (RuntimeJson ''skill_target'') (tl_skill_target L v))"

definition parse_gameplay_action :: "tool_lib \<Rightarrow> json
    \<Rightarrow> runtime_error + content_definition_id \<times> (content_definition_id, parameter_value) btree" where
  "parse_gameplay_action L arguments =
     rbind (parse_definition_id arguments ''action_id'') (\<lambda>action_id.
     rbind (ok_or InvalidInput (json_get ''arguments'' arguments)) (\<lambda>v.
     rbind (ok_or (RuntimeJson ''tool_arguments'') (tl_action_arguments L v)) (\<lambda>values.
       Inr (action_id, values))))"

subsection \<open>Drafts\<close>

definition DRAFT_FIELDS :: "string list" where
  "DRAFT_FIELDS = [''display_name'', ''profile'', ''base_attributes'', ''resources'', ''conditions'',
     ''inventory'', ''skills'', ''knowledge'', ''goals'']"

definition draft_required_field :: "(string \<times> json) list \<Rightarrow> string \<Rightarrow> (json \<Rightarrow> 'a option)
    \<Rightarrow> runtime_error + 'a" where
  "draft_required_field members field from_value =
     rbind (ok_or (InvalidNpcDraft field) (map_of members field)) (\<lambda>v.
       ok_or (InvalidNpcDraft field) (from_value v))"

definition draft_default_field :: "(string \<times> json) list \<Rightarrow> string \<Rightarrow> (json \<Rightarrow> 'a list option)
    \<Rightarrow> runtime_error + 'a list" where
  "draft_default_field members field from_value =
     (case map_of members field of
        None \<Rightarrow> Inr []
      | Some v \<Rightarrow> ok_or (InvalidNpcDraft field) (from_value v))"

definition parse_npc_draft :: "tool_lib \<Rightarrow> json \<Rightarrow> runtime_error + npc_draft" where
  "parse_npc_draft L arguments =
     rbind (ok_or (InvalidNpcDraft ''root'') (as_json_object arguments)) (\<lambda>members.
     rbind (reject_if (list_ex (\<lambda>(k, _). k \<notin> set DRAFT_FIELDS) members) (InvalidNpcDraft ''root'')) (\<lambda>_.
     rbind (draft_required_field members ''profile'' (tl_draft_profile L)) (\<lambda>profile.
     rbind (draft_required_field members ''display_name'' (tl_display_name L)) (\<lambda>name.
     rbind (draft_default_field members ''base_attributes'' (tl_base_attributes L)) (\<lambda>attributes.
     rbind (draft_default_field members ''resources'' (tl_initial_resources L)) (\<lambda>resources.
     rbind (draft_default_field members ''conditions'' (tl_initial_conditions L)) (\<lambda>conditions.
     rbind (draft_default_field members ''inventory'' (tl_initial_items L)) (\<lambda>inventory.
     rbind (draft_default_field members ''skills'' (tl_initial_skills L)) (\<lambda>skills.
     rbind (draft_default_field members ''knowledge'' (tl_initial_facts L)) (\<lambda>knowledge.
     rbind (draft_default_field members ''goals'' (tl_initial_goals L)) (\<lambda>goals.
       Inr \<lparr>nd_display_name = name,
            nd_profile = \<lparr>character_profile.cp_summary = dpi_summary profile, cp_values = dpi_values profile,
              cp_speaking_style = dpi_speaking_style profile, cp_narrative_tags = dpi_narrative_tags profile\<rparr>,
            nd_base_attributes = attributes, nd_resources = resources, nd_conditions = conditions,
            nd_inventory = inventory, nd_skills = skills, nd_knowledge = knowledge,
            nd_goals = goals\<rparr>)))))))))))"

section \<open>The executor\<close>

record pending_npc_decision =
  pnd_call_id :: string
  pnd_revision :: revision
  pnd_decision :: narrator_npc_decision

datatype pending_topology_kind =
    PendingTransition scene_transition_target
  | PendingScene display_name short_text display_name short_text
  | PendingPlace display_name short_text

record pending_topology_request =
  ptr_call_id :: string
  ptr_revision :: revision
  ptr_kind :: pending_topology_kind

record 'd tool_executor =
  te_service :: "'d world_service"
  te_generation_policy :: "generation_policy option"
  te_npc_decisions :: "pending_npc_decision list"
  te_npc_turns :: "npc_turn_request list"
  te_npc_draft :: "npc_draft option"
  te_topology :: "pending_topology_request option"

definition executor_new :: "'d world_service \<Rightarrow> generation_policy option \<Rightarrow> 'd tool_executor" where
  "executor_new service policy =
     \<lparr>te_service = service, te_generation_policy = policy, te_npc_decisions = [], te_npc_turns = [],
      te_npc_draft = None, te_topology = None\<rparr>"

datatype tool_answer =
    AnswerCharacter character_context
  | AnswerInventory "item_summary tool_page"
  | AnswerItem revision item_record item_definition
  | AnswerSkills "skill_summary tool_page"
  | AnswerSkill revision skill_grant_record skill_definition bool
  | AnswerActions revision "action_summary list"
  | AnswerTransitions revision scene_transition_projection
  | AnswerCommitted committed_action
  | AnswerPending revision
  | AnswerDuplicate revision
  | AnswerBarrier revision
  | AnswerTurn npc_turn_request_id revision

type_synonym 'd tool_step = "'d tool_executor \<Rightarrow> ((runtime_error + tool_answer) \<times> 'd tool_executor) option"

definition take_pending_npc_decisions :: "'d tool_executor \<Rightarrow> pending_npc_decision list \<times> 'd tool_executor" where
  "take_pending_npc_decisions t = (te_npc_decisions t, t\<lparr>te_npc_decisions := []\<rparr>)"

definition take_pending_npc_turns :: "'d tool_executor \<Rightarrow> npc_turn_request list \<times> 'd tool_executor" where
  "take_pending_npc_turns t = (te_npc_turns t, t\<lparr>te_npc_turns := []\<rparr>)"

definition take_pending_npc_draft :: "'d tool_executor \<Rightarrow> npc_draft option \<times> 'd tool_executor" where
  "take_pending_npc_draft t = (te_npc_draft t, t\<lparr>te_npc_draft := None\<rparr>)"

definition take_pending_topology :: "'d tool_executor \<Rightarrow> pending_topology_request option \<times> 'd tool_executor" where
  "take_pending_topology t = (te_topology t, t\<lparr>te_topology := None\<rparr>)"

definition queue_topology :: "string \<Rightarrow> revision \<Rightarrow> pending_topology_kind \<Rightarrow> 'd tool_executor
    \<Rightarrow> (runtime_error + tool_answer) \<times> 'd tool_executor" where
  "queue_topology call_id r kind t =
     (if te_npc_decisions t \<noteq> [] \<or> te_npc_turns t \<noteq> [] then (Inl WorldTopologyConflict, t)
      else case te_topology t of
          Some existing \<Rightarrow>
            (if ptr_kind existing = kind then Inr (AnswerDuplicate r) else Inl WorldTopologyConflict, t)
        | None \<Rightarrow>
            (Inr (AnswerPending r),
             t\<lparr>te_topology := Some \<lparr>ptr_call_id = call_id, ptr_revision = r, ptr_kind = kind\<rparr>\<rparr>))"

section \<open>The tools of every agent\<close>

text \<open>A tool that only reads.\<close>

definition reads :: "('d world_service \<Rightarrow> runtime_error + tool_answer) \<Rightarrow> 'd tool_step" where
  "reads f t = Some (f (te_service t), t)"

text \<open>A tool whose arguments were parsed into an operation of the service that commits an action.\<close>

definition commits :: "runtime_error + ('d, committed_action) service_run \<Rightarrow> 'd tool_step" where
  "commits parsed t =
     (case parsed of
        Inl e \<Rightarrow> Some (Inl e, t)
      | Inr run \<Rightarrow>
          map_option (\<lambda>(r, sv). (rbind r (\<lambda>out. Inr (AnswerCommitted out)), t\<lparr>te_service := sv\<rparr>))
            (run (te_service t)))"

definition inspect_character_status :: "env \<Rightarrow> agent_tool_context \<Rightarrow> 'd tool_step" where
  "inspect_character_status E ctx = reads (\<lambda>sv.
     rbind (inspect_character E (atc_actor_id ctx) (atc_revision ctx) sv) (\<lambda>cc. Inr (AnswerCharacter cc)))"

definition list_inventory_tool :: "env \<Rightarrow> tool_lib \<Rightarrow> agent_tool_context \<Rightarrow> json \<Rightarrow> 'd tool_step" where
  "list_inventory_tool E L ctx arguments = reads (\<lambda>sv.
     rbind (parse_page_arguments E L arguments) (\<lambda>(after, limit).
     rbind (list_inventory E ctx after limit sv) (\<lambda>page. Inr (AnswerInventory page))))"

definition inspect_item_tool :: "env \<Rightarrow> agent_tool_context \<Rightarrow> json \<Rightarrow> 'd tool_step" where
  "inspect_item_tool E ctx arguments = reads (\<lambda>sv.
     rbind (parse_object_id E arguments ''item_id'') (\<lambda>i.
     rbind (inspect_item E ctx i sv) (\<lambda>(found, d). Inr (AnswerItem (atc_revision ctx) found d))))"

definition list_skills_tool :: "env \<Rightarrow> tool_lib \<Rightarrow> agent_tool_context \<Rightarrow> json \<Rightarrow> 'd tool_step" where
  "list_skills_tool E L ctx arguments = reads (\<lambda>sv.
     rbind (parse_page_arguments E L arguments) (\<lambda>(after, limit).
     rbind (list_available_skills E ctx after limit sv) (\<lambda>page. Inr (AnswerSkills page))))"

definition inspect_skill_tool :: "env \<Rightarrow> agent_tool_context \<Rightarrow> json \<Rightarrow> 'd tool_step" where
  "inspect_skill_tool E ctx arguments = reads (\<lambda>sv.
     rbind (parse_object_id E arguments ''grant_id'') (\<lambda>i.
     rbind (inspect_skill E ctx i sv) (\<lambda>(g, d, available).
       Inr (AnswerSkill (atc_revision ctx) g d available))))"

definition list_actions_tool :: "env \<Rightarrow> agent_tool_context \<Rightarrow> 'd tool_step" where
  "list_actions_tool E ctx = reads (\<lambda>sv.
     rbind (list_gameplay_actions E ctx sv) (\<lambda>actions. Inr (AnswerActions (atc_revision ctx) actions)))"

definition list_transitions_tool :: "env \<Rightarrow> agent_tool_context \<Rightarrow> 'd tool_step" where
  "list_transitions_tool E ctx = reads (\<lambda>sv.
     rbind (list_scene_transitions E ctx sv) (\<lambda>p. Inr (AnswerTransitions (atc_revision ctx) p)))"

text \<open>The command a tool executes. A \<open>match\<close> on several parsed arguments answers \<open>InvalidInput\<close> when
  any of them fails.\<close>

definition both :: "runtime_error + 'a \<Rightarrow> runtime_error + 'b \<Rightarrow> ('a \<Rightarrow> 'b \<Rightarrow> runtime_error + 'c) \<Rightarrow> runtime_error + 'c" where
  "both a b f = (case (a, b) of (Inr x, Inr y) \<Rightarrow> f x y | _ \<Rightarrow> Inl InvalidInput)"

definition transfer_item_command :: "env \<Rightarrow> json \<Rightarrow> runtime_error + world_command_kind" where
  "transfer_item_command E arguments =
     both (parse_object_id E arguments ''item_id'') (parse_object_id E arguments ''container_id'')
       (\<lambda>i container. Inr (TransferItem i container))"

definition equip_item_command :: "env \<Rightarrow> json \<Rightarrow> runtime_error + world_command_kind" where
  "equip_item_command E arguments =
     both (parse_object_id E arguments ''item_id'') (parse_definition_id arguments ''slot_id'')
       (\<lambda>i slot. Inr (EquipItem i slot))"

definition split_stack_command :: "env \<Rightarrow> tool_lib \<Rightarrow> json \<Rightarrow> runtime_error + world_command_kind" where
  "split_stack_command E L arguments =
     both (parse_object_id E arguments ''item_id'') (parse_u32 L arguments ''quantity'')
       (\<lambda>i quantity. if quantity > 0 then Inr (SplitStack i quantity) else Inl InvalidInput)"

definition use_skill_command :: "env \<Rightarrow> tool_lib \<Rightarrow> json \<Rightarrow> runtime_error + world_command_kind" where
  "use_skill_command E L arguments =
     both (parse_object_id E arguments ''grant_id'') (parse_skill_target L arguments)
       (\<lambda>g target. Inr (UseSkill g target))"

definition move_character_command :: "env \<Rightarrow> json \<Rightarrow> runtime_error + world_command_kind" where
  "move_character_command E arguments =
     rbind (parse_object_id E arguments ''destination_id'') (\<lambda>i. Inr (Move i))"

definition advance_time_command :: "tool_lib \<Rightarrow> json \<Rightarrow> runtime_error + world_command_kind" where
  "advance_time_command L arguments =
     (case Option.bind (json_get ''ticks'' arguments) (tl_as_u64 L) of
        Some n \<Rightarrow> if n > 0 then Inr (AdvanceTime n) else Inl InvalidInput
      | None \<Rightarrow> Inl InvalidInput)"

definition choose_event_option_command :: "env \<Rightarrow> json \<Rightarrow> runtime_error + world_command_kind" where
  "choose_event_option_command E arguments =
     both (parse_object_id E arguments ''event_instance_id'') (parse_definition_id arguments ''option_id'')
       (\<lambda>i o1. Inr (ChooseEventOption i o1))"

definition execute_tool :: "env \<Rightarrow> store_lib \<Rightarrow> 'd db_lib \<Rightarrow> id_generator \<Rightarrow> agent_tool_context
    \<Rightarrow> runtime_error + world_command_kind \<Rightarrow> 'd tool_step" where
  "execute_tool E X D ids ctx command =
     commits (rbind command (\<lambda>kind. Inr (service_execute E X D ids ctx kind)))"

definition gameplay_action_tool :: "env \<Rightarrow> store_lib \<Rightarrow> 'd db_lib \<Rightarrow> tool_lib \<Rightarrow> id_generator
    \<Rightarrow> agent_tool_context \<Rightarrow> json \<Rightarrow> 'd tool_step" where
  "gameplay_action_tool E X D L ids ctx arguments =
     commits (rbind (parse_gameplay_action L arguments) (\<lambda>(action_id, values).
       Inr (service_gameplay_action E X D ids ctx action_id values)))"

section \<open>The tools of the narrator\<close>

text \<open>The narrator acts for the player, with a capability, at the revision it has seen.\<close>

definition narrator_may :: "string \<Rightarrow> agent_tool_context \<Rightarrow> 'd tool_executor \<Rightarrow> runtime_error + unit" where
  "narrator_may capability ctx t =
     rbind (reject_if (capability \<notin> set (atc_capabilities ctx)
         \<or> player_actor (te_service t) \<noteq> atc_actor_id ctx) CapabilityDenied) (\<lambda>_.
       reject_if (gw_revision (sv_world (te_service t)) \<noteq> atc_revision ctx) Unavailable)"

definition topology_tool :: "string \<Rightarrow> agent_tool_context \<Rightarrow> string
    \<Rightarrow> ('d world_service \<Rightarrow> runtime_error + pending_topology_kind) \<Rightarrow> 'd tool_step" where
  "topology_tool capability ctx call_id request t =
     Some (case rbind (narrator_may capability ctx t) (\<lambda>_. request (te_service t)) of
             Inl e \<Rightarrow> (Inl e, t)
           | Inr kind \<Rightarrow> queue_topology call_id (atc_revision ctx) kind t)"

definition create_scene_tool :: "tool_lib \<Rightarrow> agent_tool_context \<Rightarrow> tool_call \<Rightarrow> 'd tool_step" where
  "create_scene_tool L ctx call =
     topology_tool NARRATOR_CREATE_SCENE_CAPABILITY ctx (tc_id call) (\<lambda>_.
       rbind (ok_or InvalidInput (tl_create_scene L (tc_arguments call))) (\<lambda>q.
         Inr (PendingScene (cst_display_name q) (cst_framing q) (cst_entry_place_name q)
           (cst_entry_place_description q))))"

definition create_place_tool :: "tool_lib \<Rightarrow> agent_tool_context \<Rightarrow> tool_call \<Rightarrow> 'd tool_step" where
  "create_place_tool L ctx call =
     topology_tool NARRATOR_CREATE_PLACE_CAPABILITY ctx (tc_id call) (\<lambda>_.
       rbind (ok_or InvalidInput (tl_create_place L (tc_arguments call))) (\<lambda>q.
         Inr (PendingPlace (cpt_display_name q) (cpt_description q))))"

definition transition_scene_tool :: "env \<Rightarrow> tool_lib \<Rightarrow> agent_tool_context \<Rightarrow> tool_call \<Rightarrow> 'd tool_step" where
  "transition_scene_tool E L ctx call =
     topology_tool NARRATOR_TRANSITION_SCENE_CAPABILITY ctx (tc_id call) (\<lambda>sv.
       rbind (ok_or SceneTransitionTargetUnavailable
         (Option.bind (json_get ''target'' (tc_arguments call)) (tl_transition_target L))) (\<lambda>target.
       rbind (validate_scene_transition_target E ctx target sv) (\<lambda>_. Inr (PendingTransition target))))"

definition creation_action :: "npc_creation_mode \<Rightarrow> npc_narrative_action" where
  "creation_action mode = (case mode of NarratedMode \<Rightarrow> MaterializeLightweight | AgentMode \<Rightarrow> RequestNpcTurn)"

definition only_profile :: "generation_policy \<Rightarrow> runtime_error + content_definition_id" where
  "only_profile policy =
     (case gp_allowed_agent_profiles policy of [p] \<Rightarrow> Inr p | _ \<Rightarrow> Inl Unavailable)"

definition creation_target :: "env \<Rightarrow> generation_policy option \<Rightarrow> object_id \<Rightarrow> object_id \<Rightarrow> create_npc_request
    \<Rightarrow> runtime_error + npc_target \<times> npc_controller_kind" where
  "creation_target E policy scene_id place_id q =
     (case cnr_source q of
        PresetSource character_id \<Rightarrow>
          rbind (case cnr_mode q of
              NarratedMode \<Rightarrow> Inr NpcNarratorProxy
            | AgentMode \<Rightarrow> rbind (preset_agent_profile E character_id) (\<lambda>p. Inr (NpcAgentProfile p))) (\<lambda>controller.
            Inr (PresetNpc character_id place_id, controller))
      | GeneratedSource role purpose \<Rightarrow>
          rbind (ok_or Unavailable policy) (\<lambda>policy.
          rbind (case cnr_mode q of
              NarratedMode \<Rightarrow> Inr NpcNarratorProxy
            | AgentMode \<Rightarrow> rbind (only_profile policy) (\<lambda>p. Inr (NpcAgentProfile p))) (\<lambda>controller.
            Inr (GeneratedNpc (gp_id policy) place_id
                   \<lparr>ngr_scene_id = scene_id, ngr_role = role, ngr_purpose = purpose,
                    ngr_desired_traits = [], ngr_importance = Supporting\<rparr>, controller))))"

definition npc_decision :: "env \<Rightarrow> tool_lib \<Rightarrow> agent_tool_context \<Rightarrow> json \<Rightarrow> 'd tool_executor
    \<Rightarrow> runtime_error + narrator_npc_decision" where
  "npc_decision E L ctx arguments t =
     rbind (ok_or InvalidInput (tl_create_npc L arguments)) (\<lambda>q.
     rbind (npc_creation_location E (atc_actor_id ctx) (atc_revision ctx) (te_service t)) (\<lambda>(scene_id, place_id).
     rbind (creation_target E (te_generation_policy t) scene_id place_id q) (\<lambda>(target, controller).
       let decision = \<lparr>dec_target = target, dec_action = creation_action (cnr_mode q),
             dec_lifetime = cnr_lifetime q, dec_controller = controller, dec_assignment = None\<rparr>
       in rbind (map_err RuntimeAgent (decision_validate decision)) (\<lambda>_. Inr decision))))"

definition create_npc_tool :: "env \<Rightarrow> tool_lib \<Rightarrow> agent_tool_context \<Rightarrow> tool_call \<Rightarrow> 'd tool_step" where
  "create_npc_tool E L ctx call t =
     Some (case rbind (narrator_may NARRATOR_CREATE_NPC_CAPABILITY ctx t) (\<lambda>_.
                rbind (reject_if (te_topology t \<noteq> None) WorldTopologyConflict) (\<lambda>_.
                  npc_decision E L ctx (tc_arguments call) t)) of
             Inl e \<Rightarrow> (Inl e, t)
           | Inr decision \<Rightarrow>
               (Inr (AnswerBarrier (atc_revision ctx)),
                t\<lparr>te_npc_decisions := te_npc_decisions t
                    @ [\<lparr>pnd_call_id = tc_id call, pnd_revision = atc_revision ctx, pnd_decision = decision\<rparr>]\<rparr>))"

definition npc_turn :: "env \<Rightarrow> tool_lib \<Rightarrow> id_generator \<Rightarrow> agent_tool_context \<Rightarrow> json \<Rightarrow> 'd tool_executor
    \<Rightarrow> runtime_error + npc_turn_request" where
  "npc_turn E L request_ids ctx arguments t =
     rbind (ok_or InvalidInput (tl_npc_turn L arguments)) (\<lambda>actor.
     rbind (npc_turn_scene E (atc_actor_id ctx) actor (atc_revision ctx) (te_service t)) (\<lambda>scene_id.
     rbind (map_err RuntimeIdentity (generate_with (env_uuid E) request_ids)) (\<lambda>(request_id, _).
       Inr \<lparr>ntr_request_id = request_id, ntr_actor_id = actor, ntr_scene_id = scene_id,
            ntr_based_on_revision = atc_revision ctx\<rparr>)))"

definition request_npc_turn_tool :: "env \<Rightarrow> tool_lib \<Rightarrow> id_generator \<Rightarrow> agent_tool_context \<Rightarrow> tool_call
    \<Rightarrow> 'd tool_step" where
  "request_npc_turn_tool E L request_ids ctx call t =
     Some (case rbind (narrator_may NARRATOR_REQUEST_NPC_TURN_CAPABILITY ctx t) (\<lambda>_.
                rbind (reject_if (te_topology t \<noteq> None) WorldTopologyConflict) (\<lambda>_.
                  npc_turn E L request_ids ctx (tc_arguments call) t)) of
             Inl e \<Rightarrow> (Inl e, t)
           | Inr q \<Rightarrow>
               (Inr (AnswerTurn (ntr_request_id q) (atc_revision ctx)), t\<lparr>te_npc_turns := te_npc_turns t @ [q]\<rparr>))"

definition submit_draft_tool :: "tool_lib \<Rightarrow> agent_tool_context \<Rightarrow> json \<Rightarrow> 'd tool_step" where
  "submit_draft_tool L ctx arguments t =
     Some (case rbind (narrator_may NARRATOR_SUBMIT_NPC_DRAFT_CAPABILITY ctx t) (\<lambda>_.
                rbind (parse_npc_draft L arguments) (\<lambda>draft.
                rbind (reject_if (te_npc_draft t \<noteq> None) (InvalidNpcDraft ''submission'')) (\<lambda>_. Inr draft))) of
             Inl e \<Rightarrow> (Inl e, t)
           | Inr draft \<Rightarrow> (Inr (AnswerBarrier (atc_revision ctx)), t\<lparr>te_npc_draft := Some draft\<rparr>))"

section \<open>Dispatch\<close>

definition tools :: "env \<Rightarrow> store_lib \<Rightarrow> 'd db_lib \<Rightarrow> tool_lib \<Rightarrow> id_generator \<Rightarrow> agent_tool_context
    \<Rightarrow> tool_call \<Rightarrow> (string \<times> 'd tool_step) list" where
  "tools E X D L ids ctx call =
     (let arguments = tc_arguments call; command = execute_tool E X D ids ctx
      in [(''inspect_character_status'', inspect_character_status E ctx),
          (''list_inventory'', list_inventory_tool E L ctx arguments),
          (''inspect_item'', inspect_item_tool E ctx arguments),
          (''transfer_item'', command (transfer_item_command E arguments)),
          (''equip_item'', command (equip_item_command E arguments)),
          (''split_stack'', command (split_stack_command E L arguments)),
          (''list_available_skills'', list_skills_tool E L ctx arguments),
          (''inspect_skill'', inspect_skill_tool E ctx arguments),
          (''use_skill'', command (use_skill_command E L arguments)),
          (''move_character'', command (move_character_command E arguments)),
          (''advance_time'', command (advance_time_command L arguments)),
          (''list_gameplay_actions'', list_actions_tool E ctx),
          (''perform_gameplay_action'', gameplay_action_tool E X D L ids ctx arguments),
          (''choose_event_option'', command (choose_event_option_command E arguments)),
          (''create_scene'', create_scene_tool L ctx call),
          (''create_place'', create_place_tool L ctx call),
          (''create_npc'', create_npc_tool E L ctx call),
          (''request_npc_turn'', request_npc_turn_tool E L ids ctx call),
          (''list_scene_transitions'', list_transitions_tool E ctx),
          (''transition_scene'', transition_scene_tool E L ctx call),
          (''submit_npc_draft'', submit_draft_tool L ctx arguments)])"

datatype tool_failure = MissingContext string | UnknownTool string

definition tool_execute :: "env \<Rightarrow> store_lib \<Rightarrow> 'd db_lib \<Rightarrow> tool_lib \<Rightarrow> id_generator
    \<Rightarrow> agent_tool_context option \<Rightarrow> tool_call \<Rightarrow> 'd tool_executor
    \<Rightarrow> ((tool_failure + runtime_error + tool_answer) \<times> 'd tool_executor) option" where
  "tool_execute E X D L ids context_value call t =
     (case context_value of
        None \<Rightarrow> Some (Inl (MissingContext (tc_name call)), t)
      | Some ctx \<Rightarrow>
          (case map_of (tools E X D L ids ctx call) (tc_name call) of
             None \<Rightarrow> Some (Inl (UnknownTool (tc_name call)), t)
           | Some step \<Rightarrow> map_option (\<lambda>(r, t'). (Inr r, t')) (step t)))"

text \<open>The object that an error is rendered to.\<close>

fun runtime_error_json :: "runtime_error \<Rightarrow> json" where
  "runtime_error_json (InvalidNpcDraft field) =
     JObject [(''code'', JString (runtime_error_code (InvalidNpcDraft field))),
              (''field'', JString field), (''retry_unchanged'', JBool False)]"
| "runtime_error_json SceneTransitionTargetUnavailable =
     JObject [(''code'', JString (runtime_error_code SceneTransitionTargetUnavailable)),
              (''recovery_tool'', JString ''list_scene_transitions''), (''retry_unchanged'', JBool False)]"
| "runtime_error_json WorldTopologyConflict =
     JObject [(''code'', JString (runtime_error_code WorldTopologyConflict)), (''retry_unchanged'', JBool False)]"
| "runtime_error_json e = JObject [(''code'', JString (runtime_error_code e))]"

end
