(* ===== verification/Tool_Properties.thy ===== *)
theory Tool_Properties
  imports Tool_Executor Service_Properties
begin

text \<open>
  The requests that the narrator's tools leave pending: the executor is a state machine whose steps
  are the calls of the agents and the taking of what is pending by the orchestration.
\<close>

section \<open>Steps\<close>

inductive tool_history :: "env \<Rightarrow> store_lib \<Rightarrow> 'd db_lib \<Rightarrow> tool_lib \<Rightarrow> 'd tool_executor \<Rightarrow> bool"
  for E X D L where
  started: "tool_history E X D L (executor_new sv policy)"
| called: "tool_history E X D L t \<Longrightarrow> tool_execute E X D L ids ctx call t = Some (r, t') \<Longrightarrow> tool_history E X D L t'"
| decisions_taken: "tool_history E X D L t \<Longrightarrow> tool_history E X D L (snd (take_pending_npc_decisions t))"
| turns_taken: "tool_history E X D L t \<Longrightarrow> tool_history E X D L (snd (take_pending_npc_turns t))"
| draft_taken: "tool_history E X D L t \<Longrightarrow> tool_history E X D L (snd (take_pending_npc_draft t))"
| topology_taken: "tool_history E X D L t \<Longrightarrow> tool_history E X D L (snd (take_pending_topology t))"

definition pending_ok :: "'d tool_executor \<Rightarrow> bool" where
  "pending_ok t \<longleftrightarrow> (te_topology t = None \<or> te_npc_decisions t = [] \<and> te_npc_turns t = [])
     \<and> list_all (\<lambda>d. decision_validate (pnd_decision d) = Inr ()) (te_npc_decisions t)"

definition keeps_pending :: "'d tool_step \<Rightarrow> bool" where
  "keeps_pending step \<longleftrightarrow> (\<forall>t r t'. step t = Some (r, t') \<longrightarrow> pending_ok t \<longrightarrow> pending_ok t')"

lemma pending_ok_service [simp]: "pending_ok (t\<lparr>te_service := sv\<rparr>) = pending_ok t"
  by (simp add: pending_ok_def)

lemma keeps_reads: "keeps_pending (reads f)"
  by (simp add: keeps_pending_def reads_def)

lemma keeps_commits: "keeps_pending (commits parsed)"
  by (auto simp: keeps_pending_def commits_def split: sum.splits)

lemma keeps_topology: "keeps_pending (topology_tool capability ctx call_id request)"
  by (auto simp: keeps_pending_def topology_tool_def queue_topology_def pending_ok_def
      split: sum.splits option.splits if_splits)

lemma npc_decision_valid: "npc_decision E L ctx arguments t = Inr d \<Longrightarrow> decision_validate d = Inr ()"
  by (auto simp: npc_decision_def rbind_Inr_iff map_err_Inr_iff Let_def)

lemma keeps_create_npc: "keeps_pending (create_npc_tool E L ctx call)"
  by (auto simp: keeps_pending_def create_npc_tool_def pending_ok_def rbind_Inr_iff reject_if_def dest: npc_decision_valid
      split: sum.splits if_splits)

lemma keeps_npc_turn: "keeps_pending (request_npc_turn_tool E L ids ctx call)"
  by (auto simp: keeps_pending_def request_npc_turn_tool_def pending_ok_def rbind_Inr_iff reject_if_def
      split: sum.splits if_splits)

lemma keeps_draft: "keeps_pending (submit_draft_tool L ctx arguments)"
  by (auto simp: keeps_pending_def submit_draft_tool_def pending_ok_def split: sum.splits)

lemmas keeps_tools = keeps_reads keeps_commits keeps_topology keeps_create_npc keeps_npc_turn keeps_draft

lemmas tool_steps = inspect_character_status_def list_inventory_tool_def inspect_item_tool_def
  list_skills_tool_def inspect_skill_tool_def list_actions_tool_def list_transitions_tool_def
  execute_tool_def gameplay_action_tool_def create_scene_tool_def create_place_tool_def
  transition_scene_tool_def

lemma tools_keep_pending: "list_all (\<lambda>(_, step). keeps_pending step) (tools E X D L ids ctx call)"
  by (simp add: tools_def Let_def tool_steps keeps_tools)

lemma tool_execute_pending:
  assumes "tool_execute E X D L ids ctx call t = Some (r, t')" and "pending_ok t"
  shows "pending_ok t'"
proof (cases ctx)
  case (Some c)
  show ?thesis
  proof (cases "map_of (tools E X D L ids c call) (tc_name call)")
    case None
    with assms Some show ?thesis
      by (simp add: tool_execute_def)
  next
    case (Some step)
    then have "keeps_pending step"
      using tools_keep_pending [of E X D L ids c call] by (auto simp: list_all_iff dest: map_of_SomeD)
    with assms Some \<open>ctx = Some c\<close> show ?thesis
      by (auto simp: tool_execute_def keeps_pending_def)
  qed
qed (use assms in \<open>simp add: tool_execute_def\<close>)

text \<open>C11. Whatever the agents call and the orchestration takes, a change of the world's topology is
  never pending together with a new character or a turn of one, and every pending character is a
  valid decision.\<close>

theorem topology_excludes_npc_requests:
  assumes "tool_history E X D L t"
  shows "(te_topology t = None \<or> te_npc_decisions t = [] \<and> te_npc_turns t = [])
    \<and> list_all (\<lambda>d. decision_validate (pnd_decision d) = Inr ()) (te_npc_decisions t)"
proof -
  from assms have "pending_ok t"
  proof induction
    case (called t ids ctx call r t')
    then show ?case
      using tool_execute_pending by blast
  qed (simp_all add: pending_ok_def executor_new_def take_pending_npc_decisions_def take_pending_npc_turns_def
      take_pending_npc_draft_def take_pending_topology_def, auto)
  then show ?thesis
    by (simp add: pending_ok_def)
qed

text \<open>A narrator who asks for a new place.\<close>

definition demo_tool_lib :: tool_lib where
  "demo_tool_lib = \<lparr>tl_as_u64 = \<lambda>_. None, tl_skill_target = \<lambda>_. None, tl_action_arguments = \<lambda>_. None,
     tl_transition_target = \<lambda>_. None, tl_create_scene = \<lambda>_. None,
     tl_create_place = \<lambda>_. Some \<lparr>cpt_display_name = BoundedText ''cellar'', cpt_description = BoundedText ''dark''\<rparr>,
     tl_create_npc = \<lambda>_. None, tl_npc_turn = \<lambda>_. None, tl_draft_profile = \<lambda>_. None, tl_display_name = \<lambda>_. None,
     tl_base_attributes = \<lambda>_. None, tl_initial_resources = \<lambda>_. None, tl_initial_conditions = \<lambda>_. None,
     tl_initial_items = \<lambda>_. None, tl_initial_skills = \<lambda>_. None, tl_initial_facts = \<lambda>_. None,
     tl_initial_goals = \<lambda>_. None\<rparr>"

definition narrator_context :: agent_tool_context where
  "narrator_context = \<lparr>atc_actor_id = demo_player, atc_revision = Revision 0, atc_session_id = RuntimeId 1,
     atc_capabilities = [NARRATOR_CREATE_PLACE_CAPABILITY]\<rparr>"

definition place_call :: tool_call where
  "place_call = \<lparr>tc_id = ''call'', tc_name = ''create_place'', tc_arguments = JNull\<rparr>"

lemma create_place_step: "map_of (tools E X D L ids ctx call) ''create_place'' = Some (create_place_tool L ctx call)"
  by (simp add: tools_def Let_def)

theorem topology_excludes_npc_requests_witness:
  "\<forall>st. \<exists>t. tool_history demo_env world_store_lib mem_db demo_tool_lib t
    \<and> tool_execute demo_env world_store_lib mem_db demo_tool_lib demo_ids (Some narrator_context) place_call
        (executor_new \<lparr>sv_world = demo_new, sv_store = st, sv_config = gw_config demo_new, sv_events = []\<rparr> None)
      = Some (Inr (Inr (AnswerPending (Revision 0))), t)
    \<and> te_topology t \<noteq> None \<and> te_npc_decisions t = []"
proof
  fix st :: "mem save_store"
  let ?t = "executor_new \<lparr>sv_world = demo_new, sv_store = st, sv_config = gw_config demo_new, sv_events = []\<rparr> None"
  have "\<exists>t. tool_execute demo_env world_store_lib mem_db demo_tool_lib demo_ids (Some narrator_context) place_call ?t
      = Some (Inr (Inr (AnswerPending (Revision 0))), t) \<and> te_topology t \<noteq> None"
    by (simp add: tool_execute_def place_call_def create_place_step create_place_tool_def topology_tool_def narrator_may_def
        narrator_context_def player_actor_def executor_new_def demo_tool_lib_def queue_topology_def)
  then obtain t where run: "tool_execute demo_env world_store_lib mem_db demo_tool_lib demo_ids (Some narrator_context)
      place_call ?t = Some (Inr (Inr (AnswerPending (Revision 0))), t)" and t: "te_topology t \<noteq> None"
    by blast
  have history: "tool_history demo_env world_store_lib mem_db demo_tool_lib t"
    by (rule called [OF started run])
  from topology_excludes_npc_requests [OF this] history run t
  show "\<exists>t. tool_history demo_env world_store_lib mem_db demo_tool_lib t
    \<and> tool_execute demo_env world_store_lib mem_db demo_tool_lib demo_ids (Some narrator_context) place_call ?t
      = Some (Inr (Inr (AnswerPending (Revision 0))), t)
    \<and> te_topology t \<noteq> None \<and> te_npc_decisions t = []"
    by blast
qed

end
