(* ===== verification/Spec2Isabelle.thy ===== *)
theory Spec2Isabelle
  imports Core_Properties Content_Properties Durable_Properties Agent_Properties
    Service_Properties Context_Properties Tool_Properties
begin

text \<open>
  A model of Loreloom, a text game whose world is kept as versioned records. A player or an agent
  (a language model) issues a command; the world executes it and reports a change set; the store
  commits the change set to the save as one transaction; when anything fails the world service loads
  the world again from the save. Content packages define what can be in a world.

  \<^bold>\<open>Core\<close> (\<open>crates/loreloom-core\<close>): \<open>Numeric\<close> (\<open>numeric.rs\<close>, \<open>revision.rs\<close>: fixed-point numbers on
  64-bit words, revisions), \<open>Identity\<close> (\<open>identity.rs\<close>, \<open>text.rs\<close>), \<open>Domain\<close> (\<open>domain.rs\<close>: the records of a
  world and their validation), \<open>Record_Log\<close> (\<open>record.rs\<close>: envelopes, migrations, checkpoints, replay),
  \<open>Codec\<close> (\<open>codec.rs\<close>), \<open>Persistence\<close> (\<open>persistence.rs\<close>: lock files and manifests), \<open>Protocol\<close>
  (\<open>protocol.rs\<close>: change sets), \<open>View\<close> (\<open>view.rs\<close>). \<open>Core_Properties\<close> states that replay accepts exactly the
  logs of commits and folds their mutations, that migration returns, that identifiers and envelopes
  round trip, and that products and quotients are rounded half to even.

  \<^bold>\<open>Content\<close> (\<open>crates/loreloom-content\<close>): \<open>Content_Schema\<close> (\<open>schema.rs\<close>), \<open>Registry\<close>, \<open>Registry_Build\<close> and
  \<open>Registry_Compile\<close> (\<open>registry.rs\<close>: validation, references, rule cycles, compilation of characters,
  scenes and drafts). \<open>Content_Properties\<close> states that a registry that is built is sound and acyclic, and
  that what is compiled keeps to its constraints.

  \<^bold>\<open>World\<close> (\<open>crates/loreloom-world\<close>): \<open>World_State\<close> (\<open>components.rs\<close>, and the state and validation of
  \<open>game_world.rs\<close>), \<open>World_Records\<close> (loading and projection), \<open>World_Items\<close>, \<open>World_Effects\<close>,
  \<open>World_Rules\<close> (\<open>declarative.rs\<close>), \<open>World_Actions\<close>, \<open>World_Clock\<close> and \<open>World_Spawn\<close> (the commands),
  \<open>World_Execute\<close> (\<open>execute\<close> with its rollback, \<open>bootstrap\<close>). The entity-component store is a map from
  object identifiers to components; a command is a function of the world, the identifier generator, the
  budget and the vectors of upserts and events. \<open>Effect_Relations\<close>, \<open>Rule_Relations\<close> and
  \<open>Clock_Relations\<close> are the interfaces (\<open>step_relation\<close>, \<open>effect_relation\<close>, \<open>rule_relation\<close>): a relation
  that the primitive writes keep is kept by every effect, by the rule cascade and by the clock loop; it
  is instantiated with what the change set reports, the events, the shape of the store and the
  budget. \<open>World_Views\<close>, \<open>World_Changes\<close> and \<open>World_Reload\<close> relate a world to its records,
  \<open>World_History\<close> its successive versions, \<open>World_Events\<close> its events to the commands; \<open>World_Properties\<close>
  and \<open>World_Structure\<close> hold the properties, \<open>World_Example\<close> a small concrete world.

  \<^bold>\<open>Store\<close> (\<open>crates/loreloom-store\<close>): \<open>Commit_Request\<close> (\<open>request.rs\<close>), \<open>Store_Rows\<close> (\<open>models.rs\<close>, the rows
  and checksums of \<open>store.rs\<close>), \<open>Store\<close> (\<open>create\<close>, \<open>open\<close>, \<open>commit\<close>, \<open>resolve_action\<close>, \<open>load\<close>,
  \<open>checkpoint\<close>, content locks). The database is the parameter \<open>db_lib\<close>, its state is opaque, and its
  contract \<open>db_ok\<close> (\<open>Store_Log\<close>) is over the contents of its tables: what is read is there, what is written
  is there afterwards, a commit that succeeds wrote its transaction. A commit that fails is uncertain,
  as \<open>runtime.md\<close> has it: unless it is a serialization failure it wrote all or nothing, and the
  caller cannot tell. A serialization failure means that other connections of the program committed
  first (\<open>others_commit\<close>, \<open>others_serve\<close>: a number of commits of their own, acknowledged or
  not). \<open>Store_Log\<close>, \<open>Store_Commit\<close>, \<open>Store_Load\<close>, \<open>Store_Read\<close>, \<open>Store_Replay\<close> and \<open>Store_Fresh\<close> show
  that a save holds a log of requests, what each operation makes of it, and that loading is the
  replay of it; \<open>Store_Properties\<close> states this, with \<open>Store_Example\<close> for the witnesses: a database in
  memory, one whose commits are written and then reported to have failed, and one where another
  connection commits first.

  \<^bold>\<open>World and store\<close>: \<open>Durable_World\<close> relates the world in memory to the log in the save along a game of
  commands, commits, failures and reloads; \<open>Durable_Properties\<close> states that what is loaded is the world,
  with the example of \<open>Durable_Example\<close>.

  \<^bold>\<open>Agents\<close> (\<open>crates/loreloom-agent\<close>): \<open>Agent_Budget\<close>, \<open>Agent_Cancellation\<close> (each method alone, and the
  interleavings of their atomic accesses as an inductive step relation), \<open>Agent_Failure\<close>,
  \<open>Agent_Protocol\<close>, \<open>Agent_Runner\<close> (one turn); \<open>Agent_Properties\<close>.

  \<^bold>\<open>Runtime\<close> (\<open>crates/loreloom-runtime\<close>): \<open>Runtime_Config\<close> (\<open>config.rs\<close>, \<open>error.rs\<close>, \<open>context.rs\<close>);
  \<open>world_service.rs\<close> in three parts: \<open>World_Service\<close> (a world with its save: \<open>apply_command\<close>,
  recovery, opening), \<open>World_Contexts\<close> (what models and players are shown), \<open>Tool_Executor\<close> (the tools of
  agents and the narrator). \<open>Service_Durable\<close> says what a command leaves of a service and its save;
  \<open>Service_Properties\<close>, \<open>Context_Properties\<close> and \<open>Tool_Properties\<close> hold the properties.

  \<open>Prelude\<close> holds the result type, the error monad and the lemmas everything shares; \<open>Keyed_Store\<close> is the
  interface of loaders that refuse a key twice, provided by checkpoints and by the loading of a world.

  \<^bold>\<open>Libraries\<close> are parameters with named laws: \<open>uuid_lib\<close>, \<open>number_lib\<close>, \<open>serde_lib\<close> and \<open>store_lib\<close> (what is
  encoded decodes to itself; SHA-256 is any function), \<open>db_lib\<close>, \<open>tool_lib\<close> (decoders of tool
  arguments), \<open>turn_env\<close> (the model, the tools, the clock and the cancellation of one turn).

  \<^bold>\<open>Bounds\<close>: machine words have the width of the code, with its checked, wrapping or saturating operations.
  No function has fuel. The loops that may not end are partial functions with the result \<open>None\<close> for not
  returning, and it is proved when they return: migration always, with a registry made by
  registration; the search for rule cycles always; the clock when no registered interval or
  duration is zero. The choice of a free item key for a player draft counts in a saturating word and is
  only said to give a free key when it returns. Replay
  numbers the operations of a commit by 32-bit words and the store the revisions by 63 bits, which
  is the assumption of fewer than \<open>2 ^ 32\<close> operations of a commit in \<open>Durable_World\<close> and part of
  \<open>log_ok\<close>.

  \<^bold>\<open>Not modelled\<close>: the orchestration of \<open>runtime.rs\<close> (asynchronous tasks that pass messages around the service
  and the runner), the terminal interface, the composition of portraits, the command line and
  configuration of the application, the reading of package directories (file and TOML input), derived
  serialisers, the JSON schemas that describe tools to a model, tests and examples. They are input and
  output, wiring, or generated code.
\<close>

end
